(* ===== verification/Prelude.thy ===== *)
theory Prelude
  imports Complex_Main "HOL-Library.Sublist"
begin

text \<open>
  Prelude of the development: the parts of Go and of its standard library that every
  component of the control plane uses, and the generic lemmas on them.

  \<^item> strings are byte strings (\<open>char list\<close>), as in Go; runes are natural numbers
    obtained from the bytes by UTF-8 decoding (\<open>decode_rune\<close>, \<open>runes\<close>);
  \<^item> \<open>time.Time\<close> is the number of nanoseconds since the zero time, so that
    \<open>IsZero\<close> is equality with 0, \<open>After\<close> and \<open>Before\<close> are the order, \<open>Add\<close> is
    addition and \<open>*time.Time\<close> is an option (\<open>nil\<close> is None);
  \<^item> a Go \<open>int\<close> is a mathematical integer; where the code increments one, the
    wrap-around of the 64-bit register is written out with \<open>int64\<close>.
\<close>

named_theorems go_simps \<open>evaluation rules for the Go library functions\<close>
named_theorems validate_simps \<open>unfolding of the validation functions of the components\<close>

section \<open>Integers and times\<close>

type_synonym go_int = int
type_synonym go_time = int
type_synonym go_duration = int

definition int64 :: "int \<Rightarrow> int" where
  "int64 x = (x + 2 ^ 63) mod 2 ^ 64 - 2 ^ 63"

definition max_int64 :: int where
  "max_int64 = 2 ^ 63 - 1"

definition is_zero :: "go_time \<Rightarrow> bool" where
  "is_zero t \<longleftrightarrow> t = 0"

lemma int64_id: "- (2 ^ 63) \<le> x \<Longrightarrow> x \<le> max_int64 \<Longrightarrow> int64 x = x"
  by (simp add: int64_def max_int64_def)

lemma int64_range: "- (2 ^ 63) \<le> int64 x \<and> int64 x \<le> max_int64"
proof -
  have "0 \<le> (x + 2 ^ 63) mod 2 ^ 64" and "(x + 2 ^ 63) mod 2 ^ 64 < 2 ^ 64"
    by (simp_all add: pos_mod_bound)
  then show ?thesis
    by (simp add: int64_def max_int64_def)
qed

lemma int64_overflow: "int64 (max_int64 + 1) = - (2 ^ 63)"
  by (simp add: int64_def max_int64_def)

text \<open>The test \<open>p != nil && !p.IsZero()\<close> on a time pointer.\<close>

definition non_zero_time_ptr :: "go_time option \<Rightarrow> bool" where
  "non_zero_time_ptr p = (case p of None \<Rightarrow> False | Some t \<Rightarrow> \<not> is_zero t)"

lemma non_zero_time_ptr_simps [simp]:
  "\<not> non_zero_time_ptr None"
  "non_zero_time_ptr (Some t) \<longleftrightarrow> t \<noteq> 0"
  by (simp_all add: non_zero_time_ptr_def is_zero_def)

section \<open>Bytes\<close>

definition byte :: "char \<Rightarrow> nat" where
  "byte c = of_char c"

lemma byte_less [simp]: "byte c < 256"
  by (simp add: byte_def)

lemma byte_eq_iff [simp]: "byte c = byte d \<longleftrightarrow> c = d"
  by (simp add: byte_def)

definition bytes :: "string \<Rightarrow> nat list" where
  "bytes s = map byte s"

lemma bytes_simps [simp]:
  "bytes [] = []"
  "bytes (c # s) = byte c # bytes s"
  "bytes (s @ t) = bytes s @ bytes t"
  "length (bytes s) = length s"
  "set (bytes s) = byte ` set s"
  by (simp_all add: bytes_def)

section \<open>UTF-8\<close>

text \<open>
  \<open>utf8.DecodeRune\<close>: the rune at the head of a byte string and its width; None where Go
  returns \<open>RuneError\<close> with width 1. The accept ranges of the second byte exclude overlong
  forms, surrogates and runes above U+10FFFF.
\<close>

definition is_cont :: "nat \<Rightarrow> bool" where
  "is_cont b \<longleftrightarrow> 128 \<le> b \<and> b \<le> 191"

fun decode_rune :: "nat list \<Rightarrow> (nat \<times> nat) option" where
  "decode_rune [] = None"
| "decode_rune (b0 # bs) =
     (if b0 < 128 then Some (b0, 1)
      else if 194 \<le> b0 \<and> b0 \<le> 223 then
        (case bs of
           b1 # _ \<Rightarrow> if is_cont b1 then Some ((b0 - 192) * 64 + (b1 - 128), 2) else None
         | _ \<Rightarrow> None)
      else if 224 \<le> b0 \<and> b0 \<le> 239 then
        (case bs of
           b1 # b2 # _ \<Rightarrow>
             if (if b0 = 224 then 160 else 128) \<le> b1 \<and> b1 \<le> (if b0 = 237 then 159 else 191) \<and> is_cont b2
             then Some ((b0 - 224) * 4096 + (b1 - 128) * 64 + (b2 - 128), 3) else None
         | _ \<Rightarrow> None)
      else if 240 \<le> b0 \<and> b0 \<le> 244 then
        (case bs of
           b1 # b2 # b3 # _ \<Rightarrow>
             if (if b0 = 240 then 144 else 128) \<le> b1 \<and> b1 \<le> (if b0 = 244 then 143 else 191)
               \<and> is_cont b2 \<and> is_cont b3
             then Some ((b0 - 240) * 262144 + (b1 - 128) * 4096 + (b2 - 128) * 64 + (b3 - 128), 4)
             else None
         | _ \<Rightarrow> None)
      else None)"

declare decode_rune.simps(2) [simp del]

lemma decode_rune_ascii [simp]: "b < 128 \<Longrightarrow> decode_rune (b # bs) = Some (b, 1)"
  by (simp add: decode_rune.simps)

lemma decode_rune_width: "decode_rune bs = Some (r, w) \<Longrightarrow> 0 < w \<and> w \<le> length bs"
  by (cases bs) (auto simp: decode_rune.simps split: if_splits list.splits)

text \<open>\<open>for _, r := range s\<close>: the runes of a string, U+FFFD for each invalid byte.\<close>

function runes :: "nat list \<Rightarrow> nat list" where
  "runes bs =
     (if bs = [] then []
      else case decode_rune bs of
             None \<Rightarrow> 65533 # runes (drop 1 bs)
           | Some (r, w) \<Rightarrow> r # runes (drop (max 1 w) bs))"
  by pat_completeness auto
termination
  by (relation "measure length") (auto simp: Suc_le_eq)

text \<open>\<open>utf8.ValidString\<close>.\<close>

function valid_utf8 :: "nat list \<Rightarrow> bool" where
  "valid_utf8 bs =
     (if bs = [] then True
      else case decode_rune bs of
             None \<Rightarrow> False
           | Some (r, w) \<Rightarrow> valid_utf8 (drop (max 1 w) bs))"
  by pat_completeness auto
termination
  by (relation "measure length") (auto simp: Suc_le_eq)

declare runes.simps [simp del] valid_utf8.simps [simp del]

lemma runes_Nil [simp]: "runes [] = []"
  by (simp add: runes.simps)

lemma runes_ascii [simp]: "b < 128 \<Longrightarrow> runes (b # bs) = b # runes bs"
  by (subst runes.simps) simp

lemma valid_utf8_Nil [simp]: "valid_utf8 []"
  by (simp add: valid_utf8.simps)

lemma valid_utf8_ascii [simp]: "b < 128 \<Longrightarrow> valid_utf8 (b # bs) = valid_utf8 bs"
  by (subst valid_utf8.simps) simp

text \<open>On ASCII strings the runes are the bytes, and the string is valid UTF-8.\<close>

lemma runes_all_ascii: "\<forall>b \<in> set bs. b < 128 \<Longrightarrow> runes bs = bs"
  by (induction bs) auto

lemma valid_utf8_all_ascii: "\<forall>b \<in> set bs. b < 128 \<Longrightarrow> valid_utf8 bs"
  by (induction bs) auto

text \<open>An ASCII byte of the string is one of its runes: decoding never swallows it.\<close>

lemma decode_rune_tail_not_ascii:
  assumes "decode_rune bs = Some (r, w)" "0 < i" "i < w"
  shows "128 \<le> bs ! i"
proof (cases bs)
  case Nil
  with assms show ?thesis by simp
next
  case (Cons b0 rest)
  have "i = 1 \<or> i = 2 \<or> i = 3"
    using assms Cons by (auto simp: decode_rune.simps split: if_splits list.splits)
  with assms Cons show ?thesis
    by (auto simp: decode_rune.simps is_cont_def nth_Cons' split: if_splits list.splits)
qed

lemma decode_rune_head_ascii:
  "decode_rune (b # bs) = Some (r, w) \<Longrightarrow> b < 128 \<Longrightarrow> r = b \<and> w = 1"
  by simp

lemma ascii_byte_in_runes: "b \<in> set bs \<Longrightarrow> b < 128 \<Longrightarrow> b \<in> set (runes bs)"
proof (induction bs rule: runes.induct)
  case (1 bs)
  from 1(3) obtain i where i: "i < length bs" "bs ! i = b"
    by (auto simp: in_set_conv_nth)
  have ne: "bs \<noteq> []" using 1(3) by auto
  show ?case
  proof (cases "decode_rune bs")
    case None
    have "i \<noteq> 0"
    proof
      assume "i = 0"
      with i ne have "bs = b # tl bs" by (cases bs) auto
      with None 1(4) show False by (metis decode_rune_ascii option.distinct(1))
    qed
    then have "b \<in> set (drop 1 bs)"
      using i by (auto simp: in_set_conv_nth intro: exI [of _ "i - 1"])
    with 1(1) [OF ne None] 1(4) None ne show ?thesis
      by (subst runes.simps) simp
  next
    case (Some p)
    then obtain r w where p: "decode_rune bs = Some (r, w)" by (cases p) auto
    have w: "0 < w" "w \<le> length bs" using decode_rune_width [OF p] by auto
    show ?thesis
    proof (cases "i = 0")
      case True
      with i ne have "hd bs = b" by (cases bs) auto
      with p 1(4) ne have "r = b" by (cases bs) auto
      with p ne show ?thesis by (subst runes.simps) simp
    next
      case False
      have "w \<le> i"
        using decode_rune_tail_not_ascii [OF p, of i] False i 1(4) by (metis neq0_conv not_less)
      then have "b \<in> set (drop (max 1 w) bs)"
        using i w by (auto simp: in_set_conv_nth max_def intro: exI [of _ "i - w"])
      with 1(2) [OF ne p refl] 1(4) have "b \<in> set (runes (drop (max 1 w) bs))" by simp
      with p ne show ?thesis by (subst runes.simps) simp
    qed
  qed
qed

text \<open>Decoding never crosses an ASCII byte, so the runes of a string are those of its parts
  around any ASCII separator.\<close>

lemma decode_rune_append_ascii:
  "bs \<noteq> [] \<Longrightarrow> b < 128 \<Longrightarrow> decode_rune (bs @ b # cs) = decode_rune bs"
  by (cases bs rule: remdups_adj.cases; cases "tl (tl bs)"; cases "tl (tl (tl bs))")
    (auto simp: decode_rune.simps is_cont_def split: list.splits)

lemma runes_append_ascii: "b < 128 \<Longrightarrow> runes (bs @ b # cs) = runes bs @ b # runes cs"
proof (induction bs rule: runes.induct)
  case (1 bs)
  show ?case
  proof (cases "bs = []")
    case True
    with 1(3) show ?thesis by simp
  next
    case ne: False
    note dec = decode_rune_append_ascii [OF ne 1(3), of cs]
    show ?thesis
    proof (cases "decode_rune bs")
      case None
      then show ?thesis
        using ne dec 1(1) [OF ne None 1(3)] by (simp add: runes.simps [of bs] runes.simps [of "bs @ b # cs"] drop_Cons' Suc_le_eq)
    next
      case (Some p)
      then obtain r w where p: "decode_rune bs = Some (r, w)" by (cases p) auto
      have "max 1 w \<le> length bs" using decode_rune_width [OF p] by auto
      then show ?thesis
        using ne dec p 1(2) [OF ne p refl 1(3)]
        by (simp add: runes.simps [of bs] runes.simps [of "bs @ b # cs"])
    qed
  qed
qed

section \<open>Strings\<close>

text \<open>
  \<open>strings.TrimSpace\<close> removes leading and trailing runes with \<open>unicode.IsSpace\<close>. Its
  runes are listed by their UTF-8 encodings: the ASCII ones, U+0085, U+00A0, U+1680,
  U+2000 to U+200A, U+2028, U+2029, U+202F, U+205F and U+3000.
\<close>

definition space_encodings :: "string list" where
  "space_encodings =
     [[CHR 0x09], [CHR 0x0A], [CHR 0x0B], [CHR 0x0C], [CHR 0x0D], [CHR 0x20],
      [CHR 0xC2, CHR 0x85], [CHR 0xC2, CHR 0xA0], [CHR 0xE1, CHR 0x9A, CHR 0x80],
      [CHR 0xE2, CHR 0x80, CHR 0x80], [CHR 0xE2, CHR 0x80, CHR 0x81], [CHR 0xE2, CHR 0x80, CHR 0x82],
      [CHR 0xE2, CHR 0x80, CHR 0x83], [CHR 0xE2, CHR 0x80, CHR 0x84], [CHR 0xE2, CHR 0x80, CHR 0x85],
      [CHR 0xE2, CHR 0x80, CHR 0x86], [CHR 0xE2, CHR 0x80, CHR 0x87], [CHR 0xE2, CHR 0x80, CHR 0x88],
      [CHR 0xE2, CHR 0x80, CHR 0x89], [CHR 0xE2, CHR 0x80, CHR 0x8A], [CHR 0xE2, CHR 0x80, CHR 0xA8],
      [CHR 0xE2, CHR 0x80, CHR 0xA9], [CHR 0xE2, CHR 0x80, CHR 0xAF], [CHR 0xE2, CHR 0x81, CHR 0x9F],
      [CHR 0xE3, CHR 0x80, CHR 0x80]]"

fun find_prefix :: "'a list list \<Rightarrow> 'a list \<Rightarrow> 'a list option" where
  "find_prefix [] s = None"
| "find_prefix (p # ps) s = (if p \<noteq> [] \<and> take (length p) s = p then Some p else find_prefix ps s)"

lemma find_prefix_Some: "find_prefix ps s = Some p \<Longrightarrow> p \<in> set ps \<and> p \<noteq> [] \<and> (\<exists>t. s = p @ t)"
  by (induction ps) (auto split: if_splits, metis append_take_drop_id)

lemma find_prefix_None: "find_prefix ps s = None \<longleftrightarrow> (\<forall>p \<in> set ps. p \<noteq> [] \<longrightarrow> take (length p) s \<noteq> p)"
  by (induction ps) auto

lemma find_prefix_Nil [simp]: "find_prefix ps [] = None"
  by (simp add: find_prefix_None)

function strip_prefixes :: "'a list list \<Rightarrow> 'a list \<Rightarrow> 'a list" where
  "strip_prefixes ps s =
     (case find_prefix ps s of None \<Rightarrow> s | Some p \<Rightarrow> strip_prefixes ps (drop (length p) s))"
  by pat_completeness auto
termination
  by (relation "measure (\<lambda>(ps, s). length s)") (auto dest: find_prefix_Some)

declare strip_prefixes.simps [simp del]

definition trim_space :: "string \<Rightarrow> string" where
  "trim_space s =
     rev (strip_prefixes (map rev space_encodings) (rev (strip_prefixes space_encodings s)))"

lemma strip_prefixes_None: "find_prefix ps s = None \<Longrightarrow> strip_prefixes ps s = s"
  by (simp add: strip_prefixes.simps)

lemma strip_prefixes_Nil [simp]: "strip_prefixes ps [] = []"
  by (simp add: strip_prefixes_None)

lemma find_prefix_strip: "find_prefix ps (strip_prefixes ps s) = None"
  by (induction ps s rule: strip_prefixes.induct)
    (subst strip_prefixes.simps, auto split: option.splits)

lemma strip_prefixes_suffix: "\<exists>t. s = t @ strip_prefixes ps s"
proof (induction ps s rule: strip_prefixes.induct)
  case (1 ps s)
  show ?case
  proof (cases "find_prefix ps s")
    case None
    then show ?thesis by (simp add: strip_prefixes_None)
  next
    case (Some p)
    then obtain u where u: "s = p @ u" using find_prefix_Some by blast
    from 1 [OF Some] u obtain t where "u = t @ strip_prefixes ps u" by auto
    then have "s = (p @ t) @ strip_prefixes ps s"
      using Some u by (subst strip_prefixes.simps) simp
    then show ?thesis by blast
  qed
qed

lemma strip_prefixes_idem: "strip_prefixes ps (strip_prefixes ps s) = strip_prefixes ps s"
  by (rule strip_prefixes_None) (rule find_prefix_strip)

lemma trim_space_Nil [simp, go_simps]: "trim_space [] = []"
  by (simp add: trim_space_def)

text \<open>
  \<open>TrimSpace\<close> is idempotent: the right trim leaves a prefix of the left-trimmed string,
  so no leading white space can appear.
\<close>

lemma find_prefix_None_prefix:
  "find_prefix ps (s @ t) = None \<Longrightarrow> find_prefix ps s = None"
  unfolding find_prefix_None
proof (intro ballI impI notI)
  fix p
  assume a: "\<forall>p\<in>set ps. p \<noteq> [] \<longrightarrow> take (length p) (s @ t) \<noteq> p"
    and p: "p \<in> set ps" "p \<noteq> []" "take (length p) s = p"
  then have "length p \<le> length s" by (metis length_take min.cobounded1)
  with a p show False by auto
qed

lemma trim_space_idem [simp]: "trim_space (trim_space s) = trim_space s"
proof -
  let ?l = "strip_prefixes space_encodings s"
  let ?R = "strip_prefixes (map rev space_encodings)"
  obtain t where t: "rev ?l = t @ ?R (rev ?l)"
    using strip_prefixes_suffix by blast
  then have "?l = rev (?R (rev ?l)) @ rev t"
    by (metis rev_append rev_rev_ident)
  then have "find_prefix space_encodings (rev (?R (rev ?l)) @ rev t) = None"
    by (metis find_prefix_strip)
  then have "find_prefix space_encodings (rev (?R (rev ?l))) = None"
    by (rule find_prefix_None_prefix)
  then show ?thesis
    by (simp add: trim_space_def strip_prefixes_None strip_prefixes_idem)
qed

text \<open>
  A string whose first and last bytes are ASCII and not white space is its own trim: this
  is how concrete identifiers are evaluated.
\<close>

definition is_space_byte :: "char \<Rightarrow> bool" where
  "is_space_byte c \<longleftrightarrow> byte c \<in> {9, 10, 11, 12, 13, 32} \<or> 128 \<le> byte c"

lemma space_encodings_bytes:
  "p \<in> set space_encodings \<Longrightarrow> p \<noteq> [] \<and> is_space_byte (hd p) \<and> is_space_byte (last p)"
  by (auto simp: space_encodings_def is_space_byte_def byte_def)

lemma find_prefix_space_hd:
  "s = [] \<or> \<not> is_space_byte (hd s) \<Longrightarrow> find_prefix space_encodings s = None"
  unfolding find_prefix_None using space_encodings_bytes
  by (metis hd_take length_greater_0_conv take_Nil)

lemma find_prefix_space_last:
  "s = [] \<or> \<not> is_space_byte (last s) \<Longrightarrow> find_prefix (map rev space_encodings) (rev s) = None"
proof -
  assume a: "s = [] \<or> \<not> is_space_byte (last s)"
  have "take (length p) (rev s) \<noteq> p" if p: "p \<in> set (map rev space_encodings)" "p \<noteq> []" for p
  proof
    assume t: "take (length p) (rev s) = p"
    then have "s \<noteq> []" using p(2) by auto
    with t p(2) have "hd p = last s"
      by (metis hd_rev hd_take length_greater_0_conv)
    moreover from p obtain q where "q \<in> set space_encodings" "p = rev q" by auto
    ultimately show False
      using a \<open>s \<noteq> []\<close> p(2) space_encodings_bytes [of q] by (simp add: hd_rev)
  qed
  then show ?thesis by (auto simp: find_prefix_None)
qed

lemma trim_space_id:
  assumes "s = [] \<or> (\<not> is_space_byte (hd s) \<and> \<not> is_space_byte (last s))"
  shows "trim_space s = s"
  using assms find_prefix_space_hd [of s] find_prefix_space_last [of s]
  by (auto simp: trim_space_def strip_prefixes_None)

text \<open>\<open>strings.HasPrefix\<close>, \<open>strings.Contains\<close>, \<open>strings.Split(s, sep)\<close> for a one-byte
  separator and \<open>strings.Join\<close>.\<close>

definition has_prefix :: "string \<Rightarrow> string \<Rightarrow> bool" where
  "has_prefix s p \<longleftrightarrow> take (length p) s = p"

fun str_contains :: "string \<Rightarrow> string \<Rightarrow> bool" where
  "str_contains [] sub = (sub = [])"
| "str_contains (c # s) sub = (has_prefix (c # s) sub \<or> str_contains s sub)"

fun split_char :: "char \<Rightarrow> string \<Rightarrow> string list" where
  "split_char sep [] = [[]]"
| "split_char sep (c # s) =
     (if c = sep then [] # split_char sep s
      else case split_char sep s of [] \<Rightarrow> [[c]] | w # ws \<Rightarrow> (c # w) # ws)"

fun join_with :: "string \<Rightarrow> string list \<Rightarrow> string" where
  "join_with sep [] = []"
| "join_with sep [w] = w"
| "join_with sep (w # v # ws) = w @ sep @ join_with sep (v # ws)"

lemma has_prefix_iff: "has_prefix s p \<longleftrightarrow> (\<exists>t. s = p @ t)"
  unfolding has_prefix_def by (metis append_eq_conv_conj append_take_drop_id)

lemma str_contains_iff: "str_contains s sub \<longleftrightarrow> (\<exists>u v. s = u @ sub @ v)"
proof (induction s)
  case Nil
  then show ?case by auto
next
  case (Cons c s)
  have "(\<exists>u v. c # s = u @ sub @ v) \<longleftrightarrow> (\<exists>v. c # s = sub @ v) \<or> (\<exists>u v. s = u @ sub @ v)"
    by (metis Cons_eq_append_conv)
  with Cons show ?case by (simp add: has_prefix_iff)
qed

lemma split_char_not_Nil [simp]: "split_char sep s \<noteq> []"
  by (induction s) (auto split: list.splits)

lemma split_char_no_sep: "w \<in> set (split_char sep s) \<Longrightarrow> sep \<notin> set w"
proof (induction s arbitrary: w)
  case Nil
  then show ?case by simp
next
  case (Cons c s)
  then show ?case by (cases "split_char sep s") (auto split: if_splits)
qed

lemma split_char_chars: "w \<in> set (split_char sep s) \<Longrightarrow> set w \<subseteq> set s"
proof (induction s arbitrary: w)
  case Nil
  then show ?case by simp
next
  case (Cons c s)
  then show ?case by (cases "split_char sep s") (auto split: if_splits, blast+)
qed

lemma join_split [simp]: "join_with [sep] (split_char sep s) = s"
proof (induction s)
  case Nil
  then show ?case by simp
next
  case (Cons c s)
  then show ?case
    by (cases "split_char sep s"; cases "tl (split_char sep s)") (auto split: list.splits)
qed

lemma split_char_no_sep_id: "sep \<notin> set w \<Longrightarrow> split_char sep w = [w]"
  by (induction w) auto

lemma split_char_append:
  "sep \<notin> set w \<Longrightarrow> split_char sep (w @ sep # s) = w # split_char sep s"
  by (induction w) auto

lemma split_join:
  "ws \<noteq> [] \<Longrightarrow> \<forall>w \<in> set ws. sep \<notin> set w \<Longrightarrow> split_char sep (join_with [sep] ws) = ws"
  by (induction ws rule: induct_list012) (auto simp: split_char_no_sep_id split_char_append)

lemma split_char_join_append:
  "\<forall>w \<in> set ws. sep \<notin> set w \<Longrightarrow> ws \<noteq> [] \<Longrightarrow>
     split_char sep (join_with [sep] ws @ sep # s) = ws @ split_char sep s"
  by (induction ws rule: induct_list012) (auto simp: split_char_append)

lemma join_with_append:
  "xs \<noteq> [] \<Longrightarrow> ys \<noteq> [] \<Longrightarrow> join_with sep (xs @ ys) = join_with sep xs @ sep @ join_with sep ys"
  by (induction xs rule: induct_list012) (auto simp: neq_Nil_conv)

lemma runes_split:
  assumes "w \<in> set (split_char sep s)" "byte sep < 128"
  shows "set (runes (bytes w)) \<subseteq> set (runes (bytes s))"
  using assms(1)
proof (induction "split_char sep s" arbitrary: s w)
  case Nil
  then show ?case by simp
next
  case (Cons v vs)
  have sep: "s = join_with [sep] (v # vs)"
    using Cons(2) join_split [of sep s] by simp
  show ?case
  proof (cases vs)
    case Nil
    with Cons(2) [symmetric] Cons(3) sep show ?thesis by simp
  next
    case (Cons u us)
    let ?t = "join_with [sep] (u # us)"
    have nosep: "\<forall>w \<in> set (u # us). sep \<notin> set w"
      using Cons Cons.hyps(2) split_char_no_sep [of _ sep s] by (metis list.set_intros(2))
    have "split_char sep ?t = vs" using split_join [OF _ nosep] Cons by simp
    with Cons.hyps(1) [of ?t] have tl: "w \<in> set vs \<Longrightarrow> set (runes (bytes w)) \<subseteq> set (runes (bytes ?t))" for w
      by auto
    have "runes (bytes s) = runes (bytes v) @ byte sep # runes (bytes ?t)"
      using sep Cons runes_append_ascii [OF assms(2), of "bytes v" "bytes ?t"] by simp
    with tl Cons.prems Cons.hyps(2) [symmetric] show ?thesis by auto
  qed
qed

text \<open>\<open>strings.ToLower\<close> on the runes of a string, as far as a later search for an ASCII text can
  see it: ASCII capitals, and the two other runes whose lower case is ASCII (U+0130 and
  U+212A). \<open>rune_contains\<close> is \<open>strings.Contains\<close> on the runes.\<close>

definition to_lower_rune :: "nat \<Rightarrow> nat" where
  "to_lower_rune r =
     (if 65 \<le> r \<and> r \<le> 90 then r + 32 else if r = 0x130 then 105 else if r = 0x212A then 107 else r)"

definition lower_runes :: "string \<Rightarrow> nat list" where
  "lower_runes s = map to_lower_rune (runes (bytes s))"

fun rune_contains :: "nat list \<Rightarrow> nat list \<Rightarrow> bool" where
  "rune_contains [] sub = (sub = [])"
| "rune_contains (r # rs) sub = (take (length sub) (r # rs) = sub \<or> rune_contains rs sub)"

section \<open>Early returns\<close>

text \<open>A loop that returns the error of the first element that has one.\<close>

fun first_error :: "('a \<Rightarrow> 'e option) \<Rightarrow> 'a list \<Rightarrow> 'e option" where
  "first_error f [] = None"
| "first_error f (x # xs) = (case f x of Some e \<Rightarrow> Some e | None \<Rightarrow> first_error f xs)"

lemma first_error_None: "first_error f xs = None \<longleftrightarrow> (\<forall>x \<in> set xs. f x = None)"
  by (induction xs) (auto split: option.splits)

lemma first_error_Some: "first_error f xs = Some e \<Longrightarrow> \<exists>x \<in> set xs. f x = Some e"
  by (induction xs) (auto split: option.splits)

text \<open>A sequence of checks, each with an early return: the error of the first that fails.\<close>

fun checks :: "'e option list \<Rightarrow> 'e option" where
  "checks [] = None"
| "checks (c # cs) = (case c of Some e \<Rightarrow> Some e | None \<Rightarrow> checks cs)"

definition check :: "bool \<Rightarrow> 'e \<Rightarrow> 'e option" where
  "check failed err = (if failed then Some err else None)"

lemma check_None [simp]: "check failed err = None \<longleftrightarrow> \<not> failed"
  by (simp add: check_def)

lemma checks_None [simp]: "checks (c # cs) = None \<longleftrightarrow> c = None \<and> checks cs = None"
  by (cases c) auto

lemma checks_step [simp]: "checks (None # cs) = checks cs" "checks (Some e # cs) = Some e"
  by simp_all

declare checks.simps(2) [simp del]

lemma check_Some [simp]: "check failed err = Some e \<longleftrightarrow> failed \<and> e = err"
  by (auto simp: check_def)

section \<open>Floating point\<close>

text \<open>
  A \<open>float64\<close> is a finite rational, an infinity or NaN. The conversion of an integer rounds
  to 53 significant bits, ties to even.
\<close>

datatype go_float = Finite rat | PosInf | NegInf | NaN

function bit_length :: "nat \<Rightarrow> nat" where
  "bit_length n = (if n = 0 then 0 else bit_length (n div 2) + 1)"
  by pat_completeness auto
termination by (relation "measure (\<lambda>n. n)") auto

declare bit_length.simps [simp del]

definition round53 :: "nat \<Rightarrow> nat" where
  "round53 n =
     (if n < 2 ^ 53 then n
      else let e = bit_length n - 53; q = n div 2 ^ e; r = n mod 2 ^ e in
        (if 2 ^ (e - 1) < r \<or> (r = 2 ^ (e - 1) \<and> odd q) then q + 1 else q) * 2 ^ e)"

definition float64_of_int :: "int \<Rightarrow> go_float" where
  "float64_of_int x = Finite (of_int (sgn x * int (round53 (nat \<bar>x\<bar>))))"

text \<open>The comparison \<open>x < y\<close> of \<open>float64\<close>: false when an operand is NaN.\<close>

fun float_less :: "go_float \<Rightarrow> go_float \<Rightarrow> bool" where
  "float_less NaN _ = False"
| "float_less _ NaN = False"
| "float_less _ NegInf = False"
| "float_less NegInf _ = True"
| "float_less PosInf _ = False"
| "float_less _ PosInf = True"
| "float_less (Finite x) (Finite y) = (x < y)"

lemma bit_length_bounds: "0 < n \<Longrightarrow> 2 ^ (bit_length n - 1) \<le> n \<and> n < 2 ^ bit_length n"
proof (induction n rule: bit_length.induct)
  case (1 n)
  show ?case
  proof (cases "n = 1")
    case True
    then show ?thesis by (simp add: bit_length.simps)
  next
    case False
    let ?m = "n div 2"
    have m: "0 < ?m" using 1(2) False by simp
    have ih: "2 ^ (bit_length ?m - 1) \<le> ?m" "?m < 2 ^ bit_length ?m"
      using 1(1) m 1(2) by simp_all
    have bl: "bit_length n = bit_length ?m + 1" using 1(2) by (simp add: bit_length.simps [of n])
    have "0 < bit_length ?m" using m by (simp add: bit_length.simps)
    then have "(2::nat) ^ (bit_length n - 1) = 2 * 2 ^ (bit_length ?m - 1)"
      by (simp add: bl flip: power_Suc)
    moreover have "2 * ?m \<le> n" "n < 2 * (?m + 1)" by simp_all
    moreover have "(2::nat) ^ bit_length n = 2 * 2 ^ bit_length ?m" by (simp add: bl)
    ultimately show ?thesis using ih by linarith
  qed
qed

text \<open>Rounding is exact up to \<open>2 ^ 53\<close> and never crosses it, so comparisons with small
  constants see the integer itself.\<close>

lemma round53_small: "n < 2 ^ 53 \<Longrightarrow> round53 n = n"
  by (simp add: round53_def)

lemma round53_big: "2 ^ 53 \<le> n \<Longrightarrow> 2 ^ 53 \<le> round53 n"
proof -
  assume n: "2 ^ 53 \<le> n"
  let ?e = "bit_length n - 53"
  have "0 < n" using n by (rule less_le_trans [rotated]) simp
  then have bl: "2 ^ (bit_length n - 1) \<le> n" "n < 2 ^ bit_length n"
    using bit_length_bounds by blast+
  have "(2::nat) ^ 53 < 2 ^ bit_length n" using n bl(2) by (rule le_less_trans)
  then have e: "53 < bit_length n" by (rule power_less_imp_less_exp [rotated]) simp
  then have "52 + ?e = bit_length n - 1" by simp
  then have "(2::nat) ^ 52 * 2 ^ ?e = 2 ^ (bit_length n - 1)" by (simp only: power_add [symmetric])
  then have "2 ^ 52 * 2 ^ ?e \<le> n" using bl(1) by (simp only:)
  then have q: "2 ^ 52 \<le> n div 2 ^ ?e"
    by (subst less_eq_div_iff_mult_less_eq) simp_all
  have "(2::nat) ^ 1 \<le> 2 ^ ?e" using e by (intro power_increasing) auto
  then have "2 ^ 52 * 2 \<le> n div 2 ^ ?e * 2 ^ ?e" using q by (intro mult_le_mono) auto
  also have "\<dots> \<le> round53 n" using n by (simp add: round53_def Let_def)
  finally show ?thesis by simp
qed

lemma float64_of_int_less:
  assumes "0 \<le> k" "k \<le> 2 ^ 53"
  shows "float_less (float64_of_int x) (Finite (of_int k)) \<longleftrightarrow> x < k"
proof (cases "\<bar>x\<bar> < 2 ^ 53")
  case True
  then have "nat \<bar>x\<bar> < 2 ^ 53" by simp
  then show ?thesis by (simp add: float64_of_int_def round53_small mult_sgn_abs)
next
  case False
  then have "2 ^ 53 \<le> nat \<bar>x\<bar>" by simp
  then have b: "2 ^ 53 \<le> round53 (nat \<bar>x\<bar>)" by (rule round53_big)
  then have "(2::int) ^ 53 \<le> int (round53 (nat \<bar>x\<bar>))" by simp
  with False assms show ?thesis
    by (cases "0 < x"; cases "x = 0") (auto simp: float64_of_int_def simp flip: of_int_minus)
qed

section \<open>Dynamic values\<close>

text \<open>
  The values of Go's \<open>any\<close> that the control plane stores in operation records, audit
  details and policies. A \<open>map[string]any\<close> is an association list with distinct keys, in
  the order in which \<open>range\<close> visits them; a \<open>json.Number\<close> is what its \<open>Float64\<close> method
  returns, None for an error.
\<close>

datatype go_any =
    AnyNil
  | AnyBool bool
  | AnyInt int
  | AnyInt64 int
  | AnyFloat go_float
  | AnyNumber "go_float option"
  | AnyString string
  | AnyMap "(string \<times> go_any) list"
  | AnyStringMap "(string \<times> string) list"
  | AnyList "go_any list"
  | AnyMapList "(string \<times> go_any) list list"
  | AnyStringList "string list"

type_synonym go_object = "(string \<times> go_any) list"

end
