(* ===== verification/Operations.thy ===== *)
theory Operations
  imports Prelude
begin

text \<open>
  The durable operation record and its state machine: \<open>internal/operations/state.go\<close> and
  \<open>types.go\<close>. \<open>ValidateTransition\<close> is the transition table. The string types of the source are datatypes with one
  constructor per declared constant and one for every other string.
\<close>

section \<open>Operation states (state.go)\<close>

datatype OperationState =
    OperationStateQueued
  | OperationStateRunning
  | OperationStateSucceeded
  | OperationStateFailed
  | OperationStateCancelRequested
  | OperationStateCancelled
  | OperationStateOperatorInterventionRequired
  | OperationStateOther string

fun OperationState_String :: "OperationState \<Rightarrow> string" where
  "OperationState_String OperationStateQueued = ''queued''"
| "OperationState_String OperationStateRunning = ''running''"
| "OperationState_String OperationStateSucceeded = ''succeeded''"
| "OperationState_String OperationStateFailed = ''failed''"
| "OperationState_String OperationStateCancelRequested = ''cancel_requested''"
| "OperationState_String OperationStateCancelled = ''cancelled''"
| "OperationState_String OperationStateOperatorInterventionRequired = ''operator_intervention_required''"
| "OperationState_String (OperationStateOther s) = s"

fun IsTerminal :: "OperationState \<Rightarrow> bool" where
  "IsTerminal OperationStateSucceeded = True"
| "IsTerminal OperationStateFailed = True"
| "IsTerminal OperationStateCancelled = True"
| "IsTerminal _ = False"

fun OperationState_Valid :: "OperationState \<Rightarrow> bool" where
  "OperationState_Valid (OperationStateOther _) = False"
| "OperationState_Valid _ = True"

fun allowedNextStates :: "OperationState \<Rightarrow> OperationState list" where
  "allowedNextStates OperationStateQueued =
     [OperationStateRunning, OperationStateCancelRequested, OperationStateCancelled,
      OperationStateFailed, OperationStateOperatorInterventionRequired]"
| "allowedNextStates OperationStateRunning =
     [OperationStateSucceeded, OperationStateFailed, OperationStateCancelRequested,
      OperationStateCancelled, OperationStateOperatorInterventionRequired]"
| "allowedNextStates OperationStateCancelRequested =
     [OperationStateCancelled, OperationStateFailed, OperationStateOperatorInterventionRequired]"
| "allowedNextStates OperationStateOperatorInterventionRequired =
     [OperationStateRunning, OperationStateFailed, OperationStateCancelled]"
| "allowedNextStates _ = []"

text \<open>The three shapes of \<open>ErrInvalidStateTransition\<close>, with the states they name.\<close>

datatype transition_error =
    UnknownState OperationState OperationState
  | TerminalState OperationState OperationState
  | NotAllowed OperationState OperationState
  | CannotRenew OperationState
  | InvalidStateTransition

definition ValidateTransition :: "OperationState \<Rightarrow> OperationState \<Rightarrow> transition_error option" where
  "ValidateTransition from to =
     (if \<not> OperationState_Valid from \<or> \<not> OperationState_Valid to then Some (UnknownState from to)
      else if from = to then None
      else if IsTerminal from then Some (TerminalState from to)
      else if to \<in> set (allowedNextStates from) then None
      else Some (NotAllowed from to))"

section \<open>Operation types and records (types.go)\<close>

datatype OperationType =
    OperationVolumeEnsure
  | OperationNamespaceUpsert
  | OperationNamespaceDisable
  | OperationNamespaceVolumeBindingPut
  | OperationRepoCreate
  | OperationRepoArchive
  | OperationRepoRestoreArchived
  | OperationRepoDelete
  | OperationRepoRestoreTombstoned
  | OperationRepoPurge
  | OperationSavePointCreate
  | OperationRestore
  | OperationTemplateCreate
  | OperationTemplateClone
  | OperationExportCreate
  | OperationExportRevoke
  | OperationExportSessionReconcile
  | OperationMountBindingCreate
  | OperationMountBindingStatusUpdate
  | OperationMountBindingHeartbeat
  | OperationMountBindingRelease
  | OperationMountBindingRevoke
  | OperationMigrationCutover
  | OperationTypeOther string

fun OperationType_String :: "OperationType \<Rightarrow> string" where
  "OperationType_String OperationVolumeEnsure = ''volume_ensure''"
| "OperationType_String OperationNamespaceUpsert = ''namespace_upsert''"
| "OperationType_String OperationNamespaceDisable = ''namespace_disable''"
| "OperationType_String OperationNamespaceVolumeBindingPut = ''namespace_volume_binding_put''"
| "OperationType_String OperationRepoCreate = ''repo_create''"
| "OperationType_String OperationRepoArchive = ''repo_archive''"
| "OperationType_String OperationRepoRestoreArchived = ''repo_restore_archived''"
| "OperationType_String OperationRepoDelete = ''repo_delete''"
| "OperationType_String OperationRepoRestoreTombstoned = ''repo_restore_tombstoned''"
| "OperationType_String OperationRepoPurge = ''repo_purge''"
| "OperationType_String OperationSavePointCreate = ''save_point_create''"
| "OperationType_String OperationRestore = ''restore''"
| "OperationType_String OperationTemplateCreate = ''template_create''"
| "OperationType_String OperationTemplateClone = ''template_clone''"
| "OperationType_String OperationExportCreate = ''export_create''"
| "OperationType_String OperationExportRevoke = ''export_revoke''"
| "OperationType_String OperationExportSessionReconcile = ''export_session_reconcile''"
| "OperationType_String OperationMountBindingCreate = ''mount_binding_create''"
| "OperationType_String OperationMountBindingStatusUpdate = ''mount_binding_status_update''"
| "OperationType_String OperationMountBindingHeartbeat = ''mount_binding_heartbeat''"
| "OperationType_String OperationMountBindingRelease = ''mount_binding_release''"
| "OperationType_String OperationMountBindingRevoke = ''mount_binding_revoke''"
| "OperationType_String OperationMigrationCutover = ''migration_cutover''"
| "OperationType_String (OperationTypeOther s) = s"

definition OperationTypes :: "OperationType list" where
  "OperationTypes =
     [OperationVolumeEnsure, OperationNamespaceUpsert, OperationNamespaceDisable,
      OperationNamespaceVolumeBindingPut, OperationRepoCreate, OperationRepoArchive,
      OperationRepoRestoreArchived, OperationRepoDelete, OperationRepoRestoreTombstoned,
      OperationRepoPurge, OperationSavePointCreate, OperationRestore, OperationTemplateCreate,
      OperationTemplateClone, OperationExportCreate, OperationExportRevoke,
      OperationExportSessionReconcile, OperationMountBindingCreate,
      OperationMountBindingStatusUpdate, OperationMountBindingHeartbeat,
      OperationMountBindingRelease, OperationMountBindingRevoke, OperationMigrationCutover]"

definition routeOperationTypes :: "(string \<times> OperationType) list" where
  "routeOperationTypes =
     [(''ensureVolume'', OperationVolumeEnsure),
      (''upsertNamespace'', OperationNamespaceUpsert),
      (''disableNamespace'', OperationNamespaceDisable),
      (''putNamespaceVolumeBinding'', OperationNamespaceVolumeBindingPut),
      (''createRepo'', OperationRepoCreate),
      (''archiveRepo'', OperationRepoArchive),
      (''restoreArchivedRepo'', OperationRepoRestoreArchived),
      (''deleteRepo'', OperationRepoDelete),
      (''restoreTombstonedRepo'', OperationRepoRestoreTombstoned),
      (''purgeRepo'', OperationRepoPurge),
      (''createSavePoint'', OperationSavePointCreate),
      (''restore'', OperationRestore),
      (''createRepoTemplate'', OperationTemplateCreate),
      (''cloneRepoTemplate'', OperationTemplateClone),
      (''createExport'', OperationExportCreate),
      (''revokeExport'', OperationExportRevoke),
      (''createWorkloadMountBinding'', OperationMountBindingCreate),
      (''updateWorkloadMountBindingStatus'', OperationMountBindingStatusUpdate),
      (''heartbeatWorkloadMountBinding'', OperationMountBindingHeartbeat),
      (''releaseWorkloadMountBinding'', OperationMountBindingRelease),
      (''revokeWorkloadMountBinding'', OperationMountBindingRevoke)]"

definition OperationTypeForRouteOperationID :: "string \<Rightarrow> OperationType option" where
  "OperationTypeForRouteOperationID operationID = map_of routeOperationTypes operationID"

record Actor =
  actor_Type :: string
  actor_ID :: string

record ResourceRef =
  resource_Type :: string
  resource_ID :: string

record OperationError =
  operr_Code :: string
  operr_Message :: string
  operr_Retryable :: bool
  operr_CorrelationID :: string
  operr_OperationID :: string
  operr_Details :: "go_object option"

record RedactionReport =
  report_Redacted :: bool
  report_Fields :: "string list"

record OperationRecord =
  op_ID :: string
  op_Type :: OperationType
  op_State :: OperationState
  op_Phase :: string
  op_Attempt :: go_int
  op_LeaseOwner :: string
  op_LeaseExpiresAt :: "go_time option"
  op_IdempotencyScope :: string
  op_IdempotencyKey :: string
  op_RequestHash :: string
  op_CorrelationID :: string
  op_CallerService :: string
  op_AuthorizedActor :: Actor
  op_Resource :: ResourceRef
  op_NamespaceID :: string
  op_RepoID :: string
  op_TemplateID :: string
  op_ExportID :: string
  op_MountBindingID :: string
  op_SessionFenceID :: string
  op_ExternalResourceIDs :: "(string \<times> string) list option"
  op_InputSummary :: "go_object option"
  op_JVSJSONOutput :: go_any
  op_VerificationResult :: go_any
  op_CompensationStatus :: string
  op_Error :: "OperationError option"
  op_Redaction :: RedactionReport
  op_CreatedAt :: go_time
  op_StartedAt :: "go_time option"
  op_FinishedAt :: "go_time option"

record RepoJVSMutationGateStatus =
  gate_InProgress :: bool
  gate_OperationID :: string
  gate_OperationType :: OperationType
  gate_OperationState :: OperationState
  gate_RecoveryRequired :: bool

definition NewRepoJVSMutationGateStatus ::
    "string \<Rightarrow> OperationType \<Rightarrow> OperationState \<Rightarrow> RepoJVSMutationGateStatus" where
  "NewRepoJVSMutationGateStatus operationID operationType operationState =
     \<lparr>gate_InProgress = (operationID \<noteq> []), gate_OperationID = operationID,
      gate_OperationType = operationType, gate_OperationState = operationState,
      gate_RecoveryRequired = (operationState = OperationStateOperatorInterventionRequired)\<rparr>"

section \<open>The state machine never leaves a terminal state\<close>

text \<open>
  The interface shared by the state machines of the control plane: a step relation and a
  set of terminal states that no step leaves. Clients use the lemmas proved here through
  the interpretations on the operation states and on the audit outbox.
\<close>

locale terminal_machine =
  fixes step :: "'s \<Rightarrow> 's \<Rightarrow> bool"
    and terminal :: "'s \<Rightarrow> bool"
  assumes terminal_step: "terminal s \<Longrightarrow> step s t \<Longrightarrow> t = s"
begin

lemma terminal_forever: "step\<^sup>*\<^sup>* s t \<Longrightarrow> terminal s \<Longrightarrow> t = s"
  by (induction rule: rtranclp_induct) (auto dest: terminal_step)

lemma terminal_last_change: "step\<^sup>*\<^sup>* s t \<Longrightarrow> step\<^sup>*\<^sup>* t u \<Longrightarrow> terminal t \<Longrightarrow> u = t"
  by (rule terminal_forever)

end

inductive op_step :: "OperationState \<Rightarrow> OperationState \<Rightarrow> bool" where
  transition: "ValidateTransition s t = None \<Longrightarrow> op_step s t"

inductive_simps op_step_iff: "op_step s t"

text \<open>The transition table read backwards: what an accepted transition can be.\<close>

lemma ValidateTransition_None:
  "ValidateTransition s t = None \<longleftrightarrow>
     OperationState_Valid s \<and> OperationState_Valid t \<and>
     (s = t \<or> (\<not> IsTerminal s \<and> t \<in> set (allowedNextStates s)))"
  by (auto simp: ValidateTransition_def)

interpretation op_machine: terminal_machine op_step IsTerminal
  by unfold_locales (auto simp: op_step_iff ValidateTransition_None)

lemma op_step_valid: "op_step s t \<Longrightarrow> OperationState_Valid s \<and> OperationState_Valid t"
  by (simp add: op_step_iff ValidateTransition_None)

lemma succeeded_only_from_running:
  "op_step s OperationStateSucceeded \<Longrightarrow> s \<noteq> OperationStateSucceeded \<Longrightarrow> s = OperationStateRunning"
  by (cases s) (auto simp: op_step_iff ValidateTransition_None)

text \<open>No state but the terminal ones is a dead end: each can be failed in one step.\<close>

lemma non_terminal_can_fail:
  "OperationState_Valid s \<Longrightarrow> \<not> IsTerminal s \<Longrightarrow> op_step s OperationStateFailed"
  by (cases s) (auto simp: op_step_iff ValidateTransition_None)

end
