(* ===== verification/Leases.thy ===== *)
theory Leases
  imports Operations
begin

text \<open>
  Operation leases: \<open>internal/operations/lease.go\<close>. A lease is an owner and an expiry, both
  set or both empty. \<open>AcquireLease\<close> and \<open>RenewLease\<close> are the decisions by which a worker
  obtains and keeps the right to execute an operation; the lemmas describe them on every
  branch, show that they keep the record invariant, and that they implement the abstract
  lease cell \<open>lease_view\<close>.
\<close>

section \<open>Leases (lease.go)\<close>

datatype LeaseRecoveryMode =
  LeaseRecoveryNone | LeaseRecoveryExplicitAction | LeaseRecoveryOther string

datatype LeaseCancelPolicy =
  LeaseCancelPolicyNone | LeaseCancelPolicyFinalize | LeaseCancelPolicyOther string

datatype LeaseAction =
    LeaseActionUnset
  | LeaseActionClaim
  | LeaseActionReclaim
  | LeaseActionRenew
  | LeaseActionRecover
  | LeaseActionFinalizeCancellation

datatype OperationLeaseErrorCode =
    OperationLeaseErrorInvalidRequest
  | OperationLeaseErrorInvalidRecord
  | OperationLeaseErrorUnavailable
  | OperationLeaseErrorInvalidTransition

text \<open>The reason of a lease error: a fixed text, or the error of the transition table.\<close>

datatype lease_reason =
    ReasonText string
  | ReasonUnknownRecoveryMode LeaseRecoveryMode
  | ReasonUnknownCancelPolicy LeaseCancelPolicy
  | ReasonTransition transition_error

record OperationLeaseError =
  lease_Code :: OperationLeaseErrorCode
  lease_Field :: string
  lease_Reason :: lease_reason

fun LeaseRecoveryMode_valid :: "LeaseRecoveryMode \<Rightarrow> bool" where
  "LeaseRecoveryMode_valid (LeaseRecoveryOther _) = False"
| "LeaseRecoveryMode_valid _ = True"

fun LeaseCancelPolicy_valid :: "LeaseCancelPolicy \<Rightarrow> bool" where
  "LeaseCancelPolicy_valid (LeaseCancelPolicyOther _) = False"
| "LeaseCancelPolicy_valid _ = True"

record LeaseRequest =
  req_Owner :: string
  req_Duration :: go_duration
  req_Now :: go_time
  req_RecoveryMode :: LeaseRecoveryMode
  req_CancelPolicy :: LeaseCancelPolicy

record LeaseDecision =
  dec_Allowed :: bool
  dec_Action :: LeaseAction
  dec_Record :: OperationRecord
  dec_Error :: "OperationLeaseError option"

definition leaseInvalid :: "string \<Rightarrow> lease_reason \<Rightarrow> OperationLeaseError" where
  "leaseInvalid field reason =
     \<lparr>lease_Code = OperationLeaseErrorInvalidRequest, lease_Field = field, lease_Reason = reason\<rparr>"

definition leaseInvalidRecord :: "string \<Rightarrow> string \<Rightarrow> OperationLeaseError" where
  "leaseInvalidRecord field reason =
     \<lparr>lease_Code = OperationLeaseErrorInvalidRecord, lease_Field = field,
      lease_Reason = ReasonText reason\<rparr>"

definition leaseUnavailable :: "string \<Rightarrow> string \<Rightarrow> OperationLeaseError" where
  "leaseUnavailable field reason =
     \<lparr>lease_Code = OperationLeaseErrorUnavailable, lease_Field = field,
      lease_Reason = ReasonText reason\<rparr>"

definition leaseTransition :: "string \<Rightarrow> transition_error option \<Rightarrow> OperationLeaseError" where
  "leaseTransition field cause =
     \<lparr>lease_Code = OperationLeaseErrorInvalidTransition, lease_Field = field,
      lease_Reason = ReasonTransition
        (case cause of None \<Rightarrow> InvalidStateTransition | Some e \<Rightarrow> e)\<rparr>"

definition denyLease :: "OperationRecord \<Rightarrow> OperationLeaseError \<Rightarrow> LeaseDecision" where
  "denyLease record err =
     \<lparr>dec_Allowed = False, dec_Action = LeaseActionUnset, dec_Record = record, dec_Error = Some err\<rparr>"

definition validateLeaseRequest :: "LeaseRequest \<Rightarrow> OperationLeaseError + string" where
  "validateLeaseRequest request =
     (let owner = trim_space (req_Owner request) in
      if owner = [] then Inl (leaseInvalid ''owner'' (ReasonText ''missing lease owner''))
      else if req_Duration request \<le> 0
        then Inl (leaseInvalid ''duration'' (ReasonText ''lease duration must be positive''))
      else if is_zero (req_Now request)
        then Inl (leaseInvalid ''now'' (ReasonText ''lease decision time must be set''))
      else Inr owner)"

definition validateLeaseRequestPolicies :: "LeaseRequest \<Rightarrow> OperationLeaseError option" where
  "validateLeaseRequestPolicies request =
     (if \<not> LeaseRecoveryMode_valid (req_RecoveryMode request)
        then Some (leaseInvalid ''recovery_mode'' (ReasonUnknownRecoveryMode (req_RecoveryMode request)))
      else if \<not> LeaseCancelPolicy_valid (req_CancelPolicy request)
        then Some (leaseInvalid ''cancel_policy'' (ReasonUnknownCancelPolicy (req_CancelPolicy request)))
      else None)"

definition validateLeasePair :: "OperationRecord \<Rightarrow> OperationLeaseError option" where
  "validateLeasePair record =
     (let hasOwner = trim_space (op_LeaseOwner record) \<noteq> [];
          hasExpiry = op_LeaseExpiresAt record \<noteq> None in
      if op_LeaseOwner record \<noteq> [] \<and> \<not> hasOwner
        then Some (leaseInvalidRecord ''lease_owner''
                     ''lease owner cannot be blank when lease field is present'')
      else if hasOwner \<noteq> hasExpiry
        then Some (leaseInvalidRecord ''lease_owner''
                     ''lease owner and lease expiry must both be set or both be empty'')
      else None)"

definition validateLeaseRecord :: "OperationRecord \<Rightarrow> OperationLeaseError option" where
  "validateLeaseRecord record =
     (if op_Attempt record < 0
        then Some (leaseInvalidRecord ''attempt'' ''attempt cannot be negative'')
      else case validateLeasePair record of
        Some err \<Rightarrow> Some err
      | None \<Rightarrow>
        if \<not> OperationState_Valid (op_State record)
          then Some (leaseTransition ''operation_state''
                       (ValidateTransition (op_State record) OperationStateRunning))
        else if op_State record = OperationStateRunning \<and> op_LeaseExpiresAt record = None
          then Some (leaseInvalidRecord ''lease_expires_at''
                       ''running operation must carry a complete lease'')
        else if op_State record = OperationStateQueued \<and> op_LeaseExpiresAt record \<noteq> None
          then Some (leaseInvalidRecord ''lease_expires_at''
                       ''queued operation must not carry a stale lease'')
        else if IsTerminal (op_State record)
          then Some (leaseTransition ''operation_state''
                       (ValidateTransition (op_State record) OperationStateRunning))
        else None)"

definition applyLease ::
    "OperationRecord \<Rightarrow> string \<Rightarrow> go_duration \<Rightarrow> go_time \<Rightarrow> OperationState \<Rightarrow> LeaseAction \<Rightarrow> LeaseDecision"
where
  "applyLease record owner duration now state action =
     (case ValidateTransition (op_State record) state of
        Some err \<Rightarrow> denyLease record (leaseTransition ''operation_state'' (Some err))
      | None \<Rightarrow>
          \<lparr>dec_Allowed = True, dec_Action = action,
           dec_Record = record\<lparr>op_State := state, op_LeaseOwner := owner,
             op_LeaseExpiresAt := Some (now + duration),
             op_Attempt := int64 (op_Attempt record + 1),
             op_StartedAt := (case op_StartedAt record of None \<Rightarrow> Some now | Some t \<Rightarrow> Some t)\<rparr>,
           dec_Error = None\<rparr>)"

definition finalizeCancellation :: "OperationRecord \<Rightarrow> go_time \<Rightarrow> LeaseDecision" where
  "finalizeCancellation record now =
     (case ValidateTransition (op_State record) OperationStateCancelled of
        Some err \<Rightarrow> denyLease record (leaseTransition ''operation_state'' (Some err))
      | None \<Rightarrow>
          \<lparr>dec_Allowed = True, dec_Action = LeaseActionFinalizeCancellation,
           dec_Record = record\<lparr>op_State := OperationStateCancelled, op_LeaseOwner := [],
             op_LeaseExpiresAt := None,
             op_FinishedAt := (case op_FinishedAt record of None \<Rightarrow> Some now | Some t \<Rightarrow> Some t)\<rparr>,
           dec_Error = None\<rparr>)"

text \<open>\<open>p != nil && p.After(now)\<close>.\<close>

definition ptr_after :: "go_time option \<Rightarrow> go_time \<Rightarrow> bool" where
  "ptr_after p now = (case p of None \<Rightarrow> False | Some t \<Rightarrow> now < t)"

lemma ptr_after_simps [simp]:
  "\<not> ptr_after None now" "ptr_after (Some t) now \<longleftrightarrow> now < t"
  by (simp_all add: ptr_after_def)

definition AcquireLease :: "OperationRecord \<Rightarrow> LeaseRequest \<Rightarrow> LeaseDecision" where
  "AcquireLease record request =
     (case validateLeaseRequest request of
        Inl err \<Rightarrow> denyLease record err
      | Inr owner \<Rightarrow>
      case validateLeaseRequestPolicies request of
        Some err \<Rightarrow> denyLease record err
      | None \<Rightarrow>
      case validateLeaseRecord record of
        Some err \<Rightarrow> denyLease record err
      | None \<Rightarrow>
      case op_State record of
        OperationStateQueued \<Rightarrow>
          applyLease record owner (req_Duration request) (req_Now request)
            OperationStateRunning LeaseActionClaim
      | OperationStateRunning \<Rightarrow>
          if op_LeaseExpiresAt record = None then
            denyLease record (leaseUnavailable ''lease_expires_at'' ''running operation has no lease expiry'')
          else if ptr_after (op_LeaseExpiresAt record) (req_Now request) then
            denyLease record (leaseUnavailable ''lease_expires_at'' ''running operation lease is still live'')
          else
            applyLease record owner (req_Duration request) (req_Now request)
              OperationStateRunning LeaseActionReclaim
      | OperationStateOperatorInterventionRequired \<Rightarrow>
          if req_RecoveryMode request \<noteq> LeaseRecoveryExplicitAction then
            denyLease record (leaseUnavailable ''operation_state''
              ''operator intervention requires explicit recovery action'')
          else
            applyLease record owner (req_Duration request) (req_Now request)
              OperationStateRunning LeaseActionRecover
      | OperationStateCancelRequested \<Rightarrow>
          if req_CancelPolicy request \<noteq> LeaseCancelPolicyFinalize then
            denyLease record (leaseTransition ''operation_state''
              (ValidateTransition (op_State record) OperationStateRunning))
          else if op_LeaseExpiresAt record \<noteq> None \<and> ptr_after (op_LeaseExpiresAt record) (req_Now request) then
            denyLease record (leaseUnavailable ''lease_expires_at''
              ''cancel requested operation lease is still live'')
          else finalizeCancellation record (req_Now request)
      | _ \<Rightarrow>
          denyLease record (leaseTransition ''operation_state''
            (ValidateTransition (op_State record) OperationStateRunning)))"

definition RenewLease :: "OperationRecord \<Rightarrow> LeaseRequest \<Rightarrow> LeaseDecision" where
  "RenewLease record request =
     (case validateLeaseRequest request of
        Inl err \<Rightarrow> denyLease record err
      | Inr owner \<Rightarrow>
      case validateLeaseRequestPolicies request of
        Some err \<Rightarrow> denyLease record err
      | None \<Rightarrow>
      case validateLeaseRecord record of
        Some err \<Rightarrow> denyLease record err
      | None \<Rightarrow>
      if op_State record \<noteq> OperationStateRunning then
        denyLease record (leaseTransition ''operation_state''
          (case ValidateTransition (op_State record) OperationStateRunning of
             None \<Rightarrow> Some (CannotRenew (op_State record)) | Some err \<Rightarrow> Some err))
      else if op_LeaseOwner record \<noteq> owner then
        denyLease record (leaseUnavailable ''lease_owner'' ''lease is owned by another worker'')
      else (case op_LeaseExpiresAt record of
        None \<Rightarrow>
          denyLease record (leaseUnavailable ''lease_expires_at'' ''running operation has no lease expiry'')
      | Some current \<Rightarrow>
          if \<not> req_Now request < current then
            denyLease record (leaseUnavailable ''lease_expires_at'' ''lease has expired and must be reclaimed'')
          else
            \<lparr>dec_Allowed = True, dec_Action = LeaseActionRenew,
             dec_Record = record\<lparr>op_LeaseExpiresAt :=
               Some (let expiresAt = req_Now request + req_Duration request in
                     if expiresAt < current then current else expiresAt)\<rparr>,
             dec_Error = None\<rparr>))"

section \<open>Lease decisions\<close>

definition lease_request_ok :: "LeaseRequest \<Rightarrow> bool" where
  "lease_request_ok q \<longleftrightarrow>
     trim_space (req_Owner q) \<noteq> [] \<and> 0 < req_Duration q \<and> req_Now q \<noteq> 0 \<and>
     LeaseRecoveryMode_valid (req_RecoveryMode q) \<and> LeaseCancelPolicy_valid (req_CancelPolicy q)"

definition lease_pair_ok :: "OperationRecord \<Rightarrow> bool" where
  "lease_pair_ok r \<longleftrightarrow>
     (op_LeaseOwner r = [] \<and> op_LeaseExpiresAt r = None) \<or>
     (trim_space (op_LeaseOwner r) \<noteq> [] \<and> op_LeaseExpiresAt r \<noteq> None)"

text \<open>The invariant of stored operation records that the lease functions check and keep.\<close>

definition lease_record_inv :: "OperationRecord \<Rightarrow> bool" where
  "lease_record_inv r \<longleftrightarrow>
     0 \<le> op_Attempt r \<and> lease_pair_ok r \<and> OperationState_Valid (op_State r) \<and>
     (op_State r = OperationStateRunning \<longrightarrow> op_LeaseExpiresAt r \<noteq> None) \<and>
     (op_State r = OperationStateQueued \<longrightarrow> op_LeaseExpiresAt r = None)"

lemma validateLeaseRequest_Inr:
  "validateLeaseRequest q = Inr owner \<and> validateLeaseRequestPolicies q = None \<longleftrightarrow>
     lease_request_ok q \<and> owner = trim_space (req_Owner q)"
  by (auto simp: validateLeaseRequest_def validateLeaseRequestPolicies_def lease_request_ok_def
        Let_def is_zero_def)

lemma validateLeaseRequest_ok:
  "lease_request_ok q \<Longrightarrow>
     validateLeaseRequest q = Inr (trim_space (req_Owner q)) \<and> validateLeaseRequestPolicies q = None"
  using validateLeaseRequest_Inr by blast

lemma validateLeasePair_None: "validateLeasePair r = None \<longleftrightarrow> lease_pair_ok r"
  by (auto simp: validateLeasePair_def lease_pair_ok_def Let_def)

lemma validateLeaseRecord_None:
  "validateLeaseRecord r = None \<longleftrightarrow> lease_record_inv r \<and> \<not> IsTerminal (op_State r)"
proof (cases "validateLeasePair r")
  case None
  then have "lease_pair_ok r" by (simp add: validateLeasePair_None)
  with None show ?thesis by (auto simp: validateLeaseRecord_def lease_record_inv_def)
next
  case (Some e)
  then have "\<not> lease_pair_ok r" using validateLeasePair_None [of r] by simp
  with Some show ?thesis by (simp add: validateLeaseRecord_def lease_record_inv_def)
qed

lemma applyLease_allowed:
  "ValidateTransition (op_State r) st = None \<Longrightarrow>
     applyLease r owner d now st a =
       \<lparr>dec_Allowed = True, dec_Action = a,
        dec_Record = r\<lparr>op_State := st, op_LeaseOwner := owner, op_LeaseExpiresAt := Some (now + d),
          op_Attempt := int64 (op_Attempt r + 1),
          op_StartedAt := (case op_StartedAt r of None \<Rightarrow> Some now | Some t \<Rightarrow> Some t)\<rparr>,
        dec_Error = None\<rparr>"
  by (simp add: applyLease_def)

lemma denyLease_simps [simp]:
  "\<not> dec_Allowed (denyLease r e)"
  "dec_Record (denyLease r e) = r"
  "dec_Error (denyLease r e) = Some e"
  "dec_Action (denyLease r e) = LeaseActionUnset"
  by (simp_all add: denyLease_def)

lemma transitions_to_running [simp]:
  "ValidateTransition OperationStateQueued OperationStateRunning = None"
  "ValidateTransition OperationStateRunning OperationStateRunning = None"
  "ValidateTransition OperationStateOperatorInterventionRequired OperationStateRunning = None"
  "ValidateTransition OperationStateCancelRequested OperationStateCancelled = None"
  by (simp_all add: ValidateTransition_None)

text \<open>When a lease is granted, and to whom: the decision without its error texts.\<close>

fun lease_available :: "OperationRecord \<Rightarrow> LeaseRequest \<Rightarrow> bool" where
  "lease_available r q =
     (case op_State r of
        OperationStateQueued \<Rightarrow> True
      | OperationStateRunning \<Rightarrow> \<not> ptr_after (op_LeaseExpiresAt r) (req_Now q)
      | OperationStateOperatorInterventionRequired \<Rightarrow> req_RecoveryMode q = LeaseRecoveryExplicitAction
      | OperationStateCancelRequested \<Rightarrow>
          req_CancelPolicy q = LeaseCancelPolicyFinalize \<and> \<not> ptr_after (op_LeaseExpiresAt r) (req_Now q)
      | _ \<Rightarrow> False)"

declare lease_available.simps [simp del]

text \<open>On valid input the acquisition is one case distinction over the state.\<close>

definition acquire_valid :: "OperationRecord \<Rightarrow> LeaseRequest \<Rightarrow> LeaseDecision" where
  "acquire_valid r q =
     (case op_State r of
        OperationStateQueued \<Rightarrow>
          applyLease r (trim_space (req_Owner q)) (req_Duration q) (req_Now q)
            OperationStateRunning LeaseActionClaim
      | OperationStateRunning \<Rightarrow>
          applyLease r (trim_space (req_Owner q)) (req_Duration q) (req_Now q)
            OperationStateRunning LeaseActionReclaim
      | OperationStateOperatorInterventionRequired \<Rightarrow>
          applyLease r (trim_space (req_Owner q)) (req_Duration q) (req_Now q)
            OperationStateRunning LeaseActionRecover
      | _ \<Rightarrow> finalizeCancellation r (req_Now q))"

lemma AcquireLease_invalid_request: "\<not> lease_request_ok q \<Longrightarrow> \<exists>e. AcquireLease r q = denyLease r e"
  using validateLeaseRequest_Inr [of q]
  by (cases "validateLeaseRequest q"; cases "validateLeaseRequestPolicies q")
    (auto simp: AcquireLease_def)

lemma AcquireLease_invalid_record:
  "\<not> (lease_record_inv r \<and> \<not> IsTerminal (op_State r)) \<Longrightarrow> \<exists>e. AcquireLease r q = denyLease r e"
  using validateLeaseRecord_None [of r]
  by (cases "validateLeaseRequest q"; cases "validateLeaseRequestPolicies q";
      cases "validateLeaseRecord r") (auto simp: AcquireLease_def)

lemma AcquireLease_valid:
  assumes "lease_request_ok q" "lease_record_inv r"
  shows "if lease_available r q then AcquireLease r q = acquire_valid r q
         else \<exists>e. AcquireLease r q = denyLease r e"
proof (cases "IsTerminal (op_State r)")
  case True
  then have "\<not> lease_available r q" by (cases "op_State r") (auto simp: lease_available.simps)
  with True AcquireLease_invalid_record [of r q] show ?thesis by simp
next
  case False
  with assms have rec: "validateLeaseRecord r = None" by (simp add: validateLeaseRecord_None)
  note ok = rec validateLeaseRequest_ok [OF assms(1)]
  have run: "op_State r = OperationStateRunning \<Longrightarrow> op_LeaseExpiresAt r \<noteq> None"
    using assms(2) by (simp add: lease_record_inv_def)
  show ?thesis
    by (cases "op_State r")
      (use ok run False in \<open>auto simp: AcquireLease_def acquire_valid_def lease_available.simps\<close>)
qed

lemma AcquireLease_allowed_iff:
  "dec_Allowed (AcquireLease r q) \<longleftrightarrow> lease_request_ok q \<and> lease_record_inv r \<and> lease_available r q"
proof (cases "lease_request_ok q \<and> lease_record_inv r")
  case True
  have "lease_available r q \<Longrightarrow> dec_Allowed (acquire_valid r q)"
    by (cases "op_State r")
      (auto simp: acquire_valid_def applyLease_def finalizeCancellation_def lease_available.simps)
  with True AcquireLease_valid [of q r] show ?thesis
    by (cases "lease_available r q") auto
next
  case False
  then show ?thesis
    using AcquireLease_invalid_request [of q r] AcquireLease_invalid_record [of r q] by auto
qed

lemma AcquireLease_denied: "\<not> dec_Allowed (AcquireLease r q) \<Longrightarrow> \<exists>e. AcquireLease r q = denyLease r e"
  using AcquireLease_valid [of q r] AcquireLease_invalid_request [of q r]
    AcquireLease_invalid_record [of r q] AcquireLease_allowed_iff [of r q]
  by (cases "lease_request_ok q \<and> lease_record_inv r") auto

lemma AcquireLease_eq:
  "dec_Allowed (AcquireLease r q) \<Longrightarrow> AcquireLease r q = acquire_valid r q"
  using AcquireLease_valid [of q r] AcquireLease_allowed_iff [of r q] by simp

lemma acquire_valid_record:
  assumes "lease_available r q"
  shows "dec_Record (acquire_valid r q) =
     (if op_State r = OperationStateCancelRequested
      then r\<lparr>op_State := OperationStateCancelled, op_LeaseOwner := [], op_LeaseExpiresAt := None,
        op_FinishedAt := (case op_FinishedAt r of None \<Rightarrow> Some (req_Now q) | Some t \<Rightarrow> Some t)\<rparr>
      else r\<lparr>op_State := OperationStateRunning, op_LeaseOwner := trim_space (req_Owner q),
        op_LeaseExpiresAt := Some (req_Now q + req_Duration q),
        op_Attempt := int64 (op_Attempt r + 1),
        op_StartedAt := (case op_StartedAt r of None \<Rightarrow> Some (req_Now q) | Some t \<Rightarrow> Some t)\<rparr>)"
  using assms
  by (cases "op_State r")
    (auto simp: acquire_valid_def lease_available.simps applyLease_def finalizeCancellation_def)

lemma int64_succ: "0 \<le> a \<Longrightarrow> a < max_int64 \<Longrightarrow> int64 (a + 1) = a + 1"
  by (rule int64_id) (simp_all add: max_int64_def)

lemma acquire_valid_inv:
  assumes "lease_request_ok q" "lease_record_inv r" "lease_available r q" "op_Attempt r < max_int64"
  shows "lease_record_inv (dec_Record (acquire_valid r q))"
  using assms int64_succ [of "op_Attempt r"]
  by (cases "op_State r = OperationStateCancelRequested")
    (auto simp: acquire_valid_record lease_record_inv_def lease_pair_ok_def lease_request_ok_def)

text \<open>Renewal on every branch.\<close>

definition renew_available :: "OperationRecord \<Rightarrow> LeaseRequest \<Rightarrow> bool" where
  "renew_available r q \<longleftrightarrow>
     op_State r = OperationStateRunning \<and> op_LeaseOwner r = trim_space (req_Owner q) \<and>
     ptr_after (op_LeaseExpiresAt r) (req_Now q)"

lemma RenewLease_invalid:
  "\<not> (lease_request_ok q \<and> lease_record_inv r \<and> \<not> IsTerminal (op_State r)) \<Longrightarrow>
     \<exists>e. RenewLease r q = denyLease r e"
  using validateLeaseRequest_Inr [of q] validateLeaseRecord_None [of r]
  by (cases "validateLeaseRequest q"; cases "validateLeaseRequestPolicies q";
      cases "validateLeaseRecord r") (auto simp: RenewLease_def)

lemma RenewLease_valid:
  assumes "lease_request_ok q" "lease_record_inv r"
  shows "if renew_available r q
         then RenewLease r q =
           \<lparr>dec_Allowed = True, dec_Action = LeaseActionRenew,
            dec_Record = r\<lparr>op_LeaseExpiresAt :=
              Some (max (the (op_LeaseExpiresAt r)) (req_Now q + req_Duration q))\<rparr>,
            dec_Error = None\<rparr>
         else \<exists>e. RenewLease r q = denyLease r e"
proof (cases "IsTerminal (op_State r)")
  case True
  then have "\<not> renew_available r q" by (auto simp: renew_available_def)
  with True RenewLease_invalid [of q r] show ?thesis by simp
next
  case False
  with assms have rec: "validateLeaseRecord r = None" by (simp add: validateLeaseRecord_None)
  note ok = rec validateLeaseRequest_ok [OF assms(1)]
  show ?thesis
    by (cases "op_LeaseExpiresAt r")
      (use ok in \<open>auto simp: RenewLease_def renew_available_def Let_def max_def\<close>)
qed

lemma RenewLease_allowed_iff:
  "dec_Allowed (RenewLease r q) \<longleftrightarrow> lease_request_ok q \<and> lease_record_inv r \<and> renew_available r q"
proof (cases "lease_request_ok q \<and> lease_record_inv r")
  case True
  with RenewLease_valid [of q r] show ?thesis by (cases "renew_available r q") auto
next
  case False
  with RenewLease_invalid [of q r] show ?thesis by auto
qed

lemma RenewLease_eq:
  assumes "dec_Allowed (RenewLease r q)"
  shows "RenewLease r q =
           \<lparr>dec_Allowed = True, dec_Action = LeaseActionRenew,
            dec_Record = r\<lparr>op_LeaseExpiresAt :=
              Some (max (the (op_LeaseExpiresAt r)) (req_Now q + req_Duration q))\<rparr>,
            dec_Error = None\<rparr>"
  using assms RenewLease_valid [of q r] RenewLease_allowed_iff [of r q] by simp

section \<open>The abstract lease cell\<close>

text \<open>
  What a lease promises, without records, attempts and error texts: an operation is
  unclaimed, held by a worker until a time, parked for an operator, being cancelled
  (possibly while a worker still holds it), or closed.
\<close>

datatype lease_view =
    Unclaimed
  | HeldUntil string go_time
  | Parked
  | Cancelling "go_time option"
  | Closed

fun view :: "OperationRecord \<Rightarrow> lease_view" where
  "view r =
     (case op_State r of
        OperationStateQueued \<Rightarrow> Unclaimed
      | OperationStateRunning \<Rightarrow> HeldUntil (op_LeaseOwner r) (the (op_LeaseExpiresAt r))
      | OperationStateOperatorInterventionRequired \<Rightarrow> Parked
      | OperationStateCancelRequested \<Rightarrow> Cancelling (op_LeaseExpiresAt r)
      | _ \<Rightarrow> Closed)"

declare view.simps [simp del]

fun acquire_view ::
    "lease_view \<Rightarrow> string \<Rightarrow> go_time \<Rightarrow> go_time \<Rightarrow> bool \<Rightarrow> bool \<Rightarrow> lease_view option" where
  "acquire_view Unclaimed owner now until recover finalize = Some (HeldUntil owner until)"
| "acquire_view (HeldUntil _ expiry) owner now until recover finalize =
     (if now < expiry then None else Some (HeldUntil owner until))"
| "acquire_view Parked owner now until recover finalize =
     (if recover then Some (HeldUntil owner until) else None)"
| "acquire_view (Cancelling expiry) owner now until recover finalize =
     (if finalize \<and> \<not> ptr_after expiry now then Some Closed else None)"
| "acquire_view Closed owner now until recover finalize = None"

fun renew_view :: "lease_view \<Rightarrow> string \<Rightarrow> go_time \<Rightarrow> go_time \<Rightarrow> lease_view option" where
  "renew_view (HeldUntil holder expiry) owner now until =
     (if holder = owner \<and> now < expiry then Some (HeldUntil holder (max expiry until)) else None)"
| "renew_view _ owner now until = None"

lemma acquire_view_refines:
  assumes "lease_request_ok q" "lease_record_inv r"
  shows "acquire_view (view r) (trim_space (req_Owner q)) (req_Now q) (req_Now q + req_Duration q)
           (req_RecoveryMode q = LeaseRecoveryExplicitAction)
           (req_CancelPolicy q = LeaseCancelPolicyFinalize) =
         (if dec_Allowed (AcquireLease r q) then Some (view (dec_Record (AcquireLease r q))) else None)"
proof (cases "lease_available r q")
  case False
  then have deny: "\<not> dec_Allowed (AcquireLease r q)" by (simp add: AcquireLease_allowed_iff)
  have "op_State r = OperationStateRunning \<Longrightarrow> op_LeaseExpiresAt r \<noteq> None"
    using assms(2) by (simp add: lease_record_inv_def)
  with False deny assms(2) show ?thesis
    by (cases "op_State r") (auto simp: view.simps lease_available.simps)
next
  case True
  with assms have "dec_Allowed (AcquireLease r q)" "AcquireLease r q = acquire_valid r q"
    by (simp_all add: AcquireLease_allowed_iff AcquireLease_eq)
  moreover have "op_State r = OperationStateRunning \<Longrightarrow> op_LeaseExpiresAt r \<noteq> None"
    using assms(2) by (simp add: lease_record_inv_def)
  ultimately show ?thesis
    using True by (cases "op_State r") (auto simp: view.simps lease_available.simps acquire_valid_record)
qed

lemma renew_view_refines:
  assumes "lease_request_ok q" "lease_record_inv r"
  shows "renew_view (view r) (trim_space (req_Owner q)) (req_Now q) (req_Now q + req_Duration q) =
         (if dec_Allowed (RenewLease r q) then Some (view (dec_Record (RenewLease r q))) else None)"
proof (cases "renew_available r q")
  case False
  then have deny: "\<not> dec_Allowed (RenewLease r q)" by (simp add: RenewLease_allowed_iff)
  have "op_State r = OperationStateRunning \<Longrightarrow> op_LeaseExpiresAt r \<noteq> None"
    using assms(2) by (simp add: lease_record_inv_def)
  with False deny show ?thesis
    by (cases "op_State r") (auto simp: view.simps renew_available_def)
next
  case True
  with assms have "dec_Allowed (RenewLease r q)" by (simp add: RenewLease_allowed_iff)
  with True RenewLease_eq [of r q] show ?thesis
    by (cases "op_LeaseExpiresAt r") (auto simp: view.simps renew_available_def)
qed

section \<open>The lease interface\<close>

text \<open>
  What the executors rely on, for any implementation of leases: \<open>held\<close> reads the current
  holder and its deadline; a granted acquisition happens only when no deadline is ahead and
  makes the requester the holder (or closes the operation); a granted renewal is made by the
  holder before its deadline and does not move the deadline back.
\<close>

datatype 'q lease_event = Acquire 'q | Renew 'q

fun lease_perform ::
    "('r \<Rightarrow> 'q \<Rightarrow> 'r option) \<Rightarrow> ('r \<Rightarrow> 'q \<Rightarrow> 'r option) \<Rightarrow> 'r \<Rightarrow> 'q lease_event \<Rightarrow> 'r" where
  "lease_perform acquire renew r (Acquire q) = (case acquire r q of None \<Rightarrow> r | Some r' \<Rightarrow> r')"
| "lease_perform acquire renew r (Renew q) = (case renew r q of None \<Rightarrow> r | Some r' \<Rightarrow> r')"

fun event_time :: "('q \<Rightarrow> go_time) \<Rightarrow> 'q lease_event \<Rightarrow> go_time" where
  "event_time moment (Acquire q) = moment q"
| "event_time moment (Renew q) = moment q"

locale exclusive_lease =
  fixes held :: "'r \<Rightarrow> (string \<times> go_time) option"
    and acquire :: "'r \<Rightarrow> 'q \<Rightarrow> 'r option"
    and renew :: "'r \<Rightarrow> 'q \<Rightarrow> 'r option"
    and moment :: "'q \<Rightarrow> go_time"
    and who :: "'q \<Rightarrow> string"
  assumes acquire_free: "acquire r q = Some r' \<Longrightarrow> held r = Some (w, e) \<Longrightarrow> e \<le> moment q"
    and acquire_held: "acquire r q = Some r' \<Longrightarrow> held r' = Some (w, e) \<Longrightarrow> w = who q \<and> moment q < e"
    and renew_held: "renew r q = Some r' \<Longrightarrow>
      \<exists>e e'. held r = Some (who q, e) \<and> moment q < e \<and> held r' = Some (who q, e') \<and> e \<le> e'"
begin

lemma perform_keeps_holder:
  assumes "held r = Some (w, e)" "event_time moment ev < e"
  shows "\<exists>e'. held (lease_perform acquire renew r ev) = Some (w, e') \<and> e \<le> e'"
proof (cases ev)
  case (Acquire q)
  with assms acquire_free [of r q] have "acquire r q = None" by (cases "acquire r q") fastforce+
  with assms Acquire show ?thesis by simp
next
  case (Renew q)
  with assms renew_held [of r q] show ?thesis by (cases "renew r q") fastforce+
qed

text \<open>No sequence of requests, by any workers, takes a lease away before its deadline.\<close>

lemma holder_keeps_lease:
  assumes "held r = Some (w, e)" "\<forall>ev \<in> set evs. event_time moment ev < e"
  shows "\<exists>e'. held (foldl (lease_perform acquire renew) r evs) = Some (w, e') \<and> e \<le> e'"
  using assms
proof (induction evs arbitrary: r e)
  case Nil
  then show ?case by simp
next
  case (Cons ev evs)
  from perform_keeps_holder [of r w e ev] Cons.prems
  obtain e1 where e1: "held (lease_perform acquire renew r ev) = Some (w, e1)" "e \<le> e1" by auto
  with Cons.prems(2) have "\<forall>ev \<in> set evs. event_time moment ev < e1" by fastforce
  from Cons.IH [OF e1(1) this] e1(2) show ?case by fastforce
qed

text \<open>A request that succeeds while a lease is live was made by its holder.\<close>

lemma live_success_is_holder:
  assumes "held r = Some (w, e)" "moment q < e" "acquire r q = Some r' \<or> renew r q = Some r'"
  shows "who q = w \<and> renew r q = Some r'"
  using assms acquire_free [of r q r' w e] renew_held [of r q r'] by auto

end

definition held_lease :: "OperationRecord \<Rightarrow> (string \<times> go_time) option" where
  "held_lease r =
     (if op_State r = OperationStateRunning
      then (case op_LeaseExpiresAt r of None \<Rightarrow> None | Some e \<Rightarrow> Some (op_LeaseOwner r, e))
      else None)"

definition acquire_record :: "OperationRecord \<Rightarrow> LeaseRequest \<Rightarrow> OperationRecord option" where
  "acquire_record r q = (let d = AcquireLease r q in if dec_Allowed d then Some (dec_Record d) else None)"

definition renew_record :: "OperationRecord \<Rightarrow> LeaseRequest \<Rightarrow> OperationRecord option" where
  "renew_record r q = (let d = RenewLease r q in if dec_Allowed d then Some (dec_Record d) else None)"

interpretation record_lease:
  exclusive_lease held_lease acquire_record renew_record req_Now "\<lambda>q. trim_space (req_Owner q)"
proof (unfold_locales, goal_cases)
  case (1 r q r' w e)
  then have "lease_available r q" "op_State r = OperationStateRunning" "op_LeaseExpiresAt r = Some e"
    by (auto simp: acquire_record_def held_lease_def Let_def AcquireLease_allowed_iff
          split: if_splits option.splits)
  then show ?case by (simp add: lease_available.simps)
next
  case (2 r q r' w e)
  then have ok: "dec_Allowed (AcquireLease r q)" and r': "r' = dec_Record (AcquireLease r q)"
    by (auto simp: acquire_record_def Let_def split: if_splits)
  then have "lease_available r q" "0 < req_Duration q" "r' = dec_Record (acquire_valid r q)"
    using AcquireLease_allowed_iff [of r q] AcquireLease_eq [of r q] by (auto simp: lease_request_ok_def)
  with 2(2) show ?case
    by (auto simp: held_lease_def acquire_valid_record split: if_splits)
next
  case (3 r q r')
  then have ok: "dec_Allowed (RenewLease r q)" and r': "r' = dec_Record (RenewLease r q)"
    by (auto simp: renew_record_def Let_def split: if_splits)
  then have av: "renew_available r q" by (simp add: RenewLease_allowed_iff)
  then obtain e where "op_LeaseExpiresAt r = Some e" "req_Now q < e"
    by (cases "op_LeaseExpiresAt r") (auto simp: renew_available_def)
  with av r' RenewLease_eq [OF ok] show ?case
    by (auto simp: held_lease_def renew_available_def)
qed

section \<open>Properties\<close>

text \<open>A concrete operation, used by the witnesses.\<close>

definition example_op :: "OperationState \<Rightarrow> string \<Rightarrow> go_time option \<Rightarrow> OperationRecord" where
  "example_op st owner expiry =
     \<lparr>op_ID = ''op_example'', op_Type = OperationRepoCreate, op_State = st,
      op_Phase = ''validate_repo_create'', op_Attempt = 1, op_LeaseOwner = owner,
      op_LeaseExpiresAt = expiry, op_IdempotencyScope = ''svc:ns_demo:repo_create:k1'',
      op_IdempotencyKey = ''k1'', op_RequestHash = ''sha256:00'', op_CorrelationID = ''corr'',
      op_CallerService = ''svc'', op_AuthorizedActor = \<lparr>actor_Type = ''user'', actor_ID = ''u1''\<rparr>,
      op_Resource = \<lparr>resource_Type = ''repo'', resource_ID = ''repo_demo''\<rparr>,
      op_NamespaceID = ''ns_demo'', op_RepoID = ''repo_demo'', op_TemplateID = [], op_ExportID = [],
      op_MountBindingID = [], op_SessionFenceID = [], op_ExternalResourceIDs = Some [],
      op_InputSummary = Some [], op_JVSJSONOutput = AnyNil, op_VerificationResult = AnyNil,
      op_CompensationStatus = [], op_Error = None,
      op_Redaction = \<lparr>report_Redacted = False, report_Fields = []\<rparr>,
      op_CreatedAt = 5, op_StartedAt = None, op_FinishedAt = None\<rparr>"

definition example_request :: "string \<Rightarrow> go_time \<Rightarrow> LeaseRequest" where
  "example_request owner now =
     \<lparr>req_Owner = owner, req_Duration = 30, req_Now = now,
      req_RecoveryMode = LeaseRecoveryNone, req_CancelPolicy = LeaseCancelPolicyNone\<rparr>"

lemma trim_w1 [simp]: "trim_space ''w1'' = ''w1''" and trim_w2 [simp]: "trim_space ''w2'' = ''w2''"
  by (simp_all add: trim_space_id is_space_byte_def byte_def)

lemma example_request_simps [simp]:
  "req_Owner (example_request w now) = w" "req_Duration (example_request w now) = 30"
  "req_Now (example_request w now) = now"
  "req_RecoveryMode (example_request w now) = LeaseRecoveryNone"
  "req_CancelPolicy (example_request w now) = LeaseCancelPolicyNone"
  by (simp_all add: example_request_def)

lemma example_op_simps [simp]:
  "op_State (example_op st w e) = st" "op_LeaseOwner (example_op st w e) = w"
  "op_LeaseExpiresAt (example_op st w e) = e" "op_Attempt (example_op st w e) = 1"
  "op_StartedAt (example_op st w e) = None" "op_FinishedAt (example_op st w e) = None"
  by (simp_all add: example_op_def)

lemma example_op_update [simp]:
  "(example_op st w e)\<lparr>op_LeaseExpiresAt := e'\<rparr> = example_op st w e'"
  by (simp add: example_op_def)

lemma example_request_ok [simp]:
  "now \<noteq> 0 \<Longrightarrow> lease_request_ok (example_request ''w1'' now)"
  "now \<noteq> 0 \<Longrightarrow> lease_request_ok (example_request ''w2'' now)"
  by (simp_all add: lease_request_ok_def)

lemma example_running_inv [simp]:
  "lease_record_inv (example_op OperationStateRunning ''w1'' (Some e))"
  by (simp add: lease_record_inv_def lease_pair_ok_def)

lemma example_queued_inv [simp]: "lease_record_inv (example_op OperationStateQueued [] None)"
  by (simp add: lease_record_inv_def lease_pair_ok_def)



text \<open>C10. Every granted acquisition is a legal transition of the state machine, keeps the record
  invariant (as long as the attempt counter has not reached its 64-bit maximum), counts one
  more attempt unless it finalises a cancellation, and preserves the time of the first start;
  identity, type and phase of the operation are untouched.\<close>

theorem acquire_preserves_invariant:
  assumes "dec_Allowed (AcquireLease r q)" "op_Attempt r < max_int64"
  defines "r' \<equiv> dec_Record (AcquireLease r q)"
  shows "lease_record_inv r' \<and> op_step (op_State r) (op_State r')
       \<and> op_Attempt r' = (if op_State r = OperationStateCancelRequested then op_Attempt r else op_Attempt r + 1)
       \<and> (op_StartedAt r \<noteq> None \<longrightarrow> op_StartedAt r' = op_StartedAt r)
       \<and> op_ID r' = op_ID r \<and> op_Type r' = op_Type r \<and> op_Phase r' = op_Phase r"
proof -
  from assms(1) have ok: "lease_request_ok q" "lease_record_inv r" "lease_available r q"
    by (simp_all add: AcquireLease_allowed_iff)
  have r': "r' = dec_Record (acquire_valid r q)" using AcquireLease_eq [OF assms(1)] by (simp add: r'_def)
  have step: "op_step (op_State r) (op_State r')"
    using ok(3) unfolding r' acquire_valid_record [OF ok(3)]
    by (cases "op_State r") (auto simp: lease_available.simps op_step_iff)
  have "0 \<le> op_Attempt r" using ok(2) by (simp add: lease_record_inv_def)
  with step acquire_valid_inv [OF ok assms(2)] assms(2) show ?thesis
    unfolding r' acquire_valid_record [OF ok(3)] by (auto simp: int64_succ split: option.splits)
qed

theorem acquire_preserves_invariant_witness:
  "op_Attempt (dec_Record (AcquireLease (example_op OperationStateQueued [] None) (example_request ''w1'' 50))) = 2"
proof -
  let ?r = "example_op OperationStateQueued [] None" and ?q = "example_request ''w1'' 50"
  have al: "dec_Allowed (AcquireLease ?r ?q)"
    by (simp add: AcquireLease_allowed_iff lease_available.simps)
  from acquire_preserves_invariant [OF al] show ?thesis by (simp add: max_int64_def)
qed

text \<open>No sequence of acquisitions and renewals, by any workers and in any order, takes a
  running operation away from its holder before the deadline it was given: while the clock of
  every request is before the deadline, the holder stays the same and the deadline never moves
  back.\<close>

theorem lease_not_stolen:
  assumes "held_lease r = Some (w, e)"
    and "\<forall>ev \<in> set evs. event_time req_Now ev < e"
  shows "\<exists>e'. held_lease (foldl (lease_perform acquire_record renew_record) r evs) = Some (w, e') \<and> e \<le> e'"
  using assms by (rule record_lease.holder_keeps_lease)

theorem lease_not_stolen_witness:
  "\<exists>e'. held_lease (foldl (lease_perform acquire_record renew_record)
       (example_op OperationStateRunning ''w1'' (Some 40))
       [Acquire (example_request ''w2'' 20), Renew (example_request ''w1'' 30),
        Acquire (example_request ''w2'' 39)]) = Some (''w1'', e') \<and> 40 \<le> e'"
  by (rule lease_not_stolen) (simp_all add: held_lease_def)

text \<open>A renewal is granted exactly to the current owner of a running operation whose lease is
  still live; it extends the deadline to the later of the old one and now plus the duration
  and changes nothing else.\<close>

theorem renew_functional:
  "(dec_Allowed (RenewLease r q) \<longleftrightarrow>
      lease_request_ok q \<and> lease_record_inv r \<and> op_State r = OperationStateRunning \<and>
      op_LeaseOwner r = trim_space (req_Owner q) \<and> ptr_after (op_LeaseExpiresAt r) (req_Now q))
   \<and> (dec_Allowed (RenewLease r q) \<longrightarrow>
      dec_Record (RenewLease r q) = r\<lparr>op_LeaseExpiresAt :=
        Some (max (the (op_LeaseExpiresAt r)) (req_Now q + req_Duration q))\<rparr>)"
  using RenewLease_eq [of r q] by (simp add: RenewLease_allowed_iff renew_available_def)

theorem renew_functional_witness:
  "dec_Record (RenewLease (example_op OperationStateRunning ''w1'' (Some 40)) (example_request ''w1'' 20))
     = example_op OperationStateRunning ''w1'' (Some 50)"
  using renew_functional [of "example_op OperationStateRunning ''w1'' (Some 40)" "example_request ''w1'' 20"]
  by simp

text \<open>C17. A terminal operation is final: no chain of accepted transitions leaves \<open>succeeded\<close>,
  \<open>failed\<close> or \<open>cancelled\<close>, no lease is ever granted on it, and \<open>succeeded\<close> can only be entered
  from \<open>running\<close>.\<close>

theorem terminal_is_final:
  assumes "IsTerminal (op_State r)"
  shows "(\<forall>t. op_step\<^sup>*\<^sup>* (op_State r) t \<longrightarrow> t = op_State r)
       \<and> (\<forall>q. \<not> dec_Allowed (AcquireLease r q) \<and> \<not> dec_Allowed (RenewLease r q))
       \<and> (\<forall>s. op_step s OperationStateSucceeded \<longrightarrow> s = OperationStateSucceeded \<or> s = OperationStateRunning)"
proof (intro conjI allI impI)
  show "t = op_State r" if "op_step\<^sup>*\<^sup>* (op_State r) t" for t
    using that assms by (rule op_machine.terminal_forever)
  show "\<not> dec_Allowed (AcquireLease r q)" for q
    using assms AcquireLease_invalid_record [of r q] by auto
  show "\<not> dec_Allowed (RenewLease r q)" for q
    using assms RenewLease_invalid [of q r] by auto
qed (use succeeded_only_from_running in blast)

theorem terminal_is_final_witness:
  "\<not> dec_Allowed (AcquireLease (example_op OperationStateFailed [] None) (example_request ''w1'' 50))"
  using terminal_is_final [of "example_op OperationStateFailed [] None"] by simp

end
