(* ===== verification/Path_Resolver.thy ===== *)
theory Path_Resolver
  imports Prelude
begin

text \<open>
  Identifiers and storage paths: \<open>internal/pathresolver/pathresolver.go\<close>. Resource
  identifiers are a kind prefix and a short safe suffix; the canonical control and payload
  directories of a repo or template are built from them. Paths given by callers are percent
  decoded, split and checked segment by segment before they are resolved below a payload
  root, and the resulting traversal plan is checked against an inspector of the file system,
  which is a parameter. \<open>filepath.Clean\<close>, \<open>Join\<close> and \<open>Rel\<close> (Unix), \<open>url.PathUnescape\<close> and
  \<open>strings.EqualFold\<close> are modelled as far as the resolver uses them.
\<close>

section \<open>Identifiers\<close>

datatype IDKind =
    NamespaceID | RepoID | TemplateID | VolumeID | ExportID | WorkloadMountBindingID | OperationID
  | IDKindOther string

fun idSpecs :: "IDKind \<Rightarrow> string option" where
  "idSpecs NamespaceID = Some ''ns_''"
| "idSpecs RepoID = Some ''repo_''"
| "idSpecs TemplateID = Some ''tmpl_''"
| "idSpecs VolumeID = Some ''vol_''"
| "idSpecs ExportID = Some ''export_''"
| "idSpecs WorkloadMountBindingID = Some ''wmb_''"
| "idSpecs OperationID = Some ''op_''"
| "idSpecs (IDKindOther _) = None"

text \<open>Errors carry the sentinel of the source and the reason given in its text.\<close>

datatype path_error =
    ErrInvalidID string
  | ErrInvalidPath string
  | ErrPathEscape string
  | InspectorError string

definition isASCIIAlnum :: "char \<Rightarrow> bool" where
  "isASCIIAlnum b \<longleftrightarrow>
     (65 \<le> byte b \<and> byte b \<le> 90) \<or> (97 \<le> byte b \<and> byte b \<le> 122) \<or> (48 \<le> byte b \<and> byte b \<le> 57)"

definition isIDChar :: "char \<Rightarrow> bool" where
  "isIDChar b \<longleftrightarrow> isASCIIAlnum b \<or> b = CHR ''_'' \<or> b = CHR ''-''"

definition ValidateID :: "IDKind \<Rightarrow> string \<Rightarrow> path_error option" where
  "ValidateID kind ident =
     (case idSpecs kind of
        None \<Rightarrow> Some (ErrInvalidID ''unknown kind'')
      | Some pfx \<Rightarrow>
        if \<not> has_prefix ident pfx then Some (ErrInvalidID ''must start with the kind prefix'')
        else let suffix = drop (length pfx) ident in
          if length suffix < 2 \<or> 63 < length suffix
            then Some (ErrInvalidID ''suffix length must be between 2 and 63'')
          else if \<not> isASCIIAlnum (hd suffix)
            then Some (ErrInvalidID ''suffix must start with an ASCII letter or digit'')
          else if \<not> list_all isIDChar (tl suffix)
            then Some (ErrInvalidID ''contains an unsafe character'')
          else None)"

abbreviation valid_id :: "IDKind \<Rightarrow> string \<Rightarrow> bool" where
  "valid_id kind ident \<equiv> ValidateID kind ident = None"

lemma valid_id_iff:
  "valid_id kind ident \<longleftrightarrow>
     (\<exists>pfx sfx. idSpecs kind = Some pfx \<and> ident = pfx @ sfx \<and> 2 \<le> length sfx \<and>
        length sfx \<le> 63 \<and> isASCIIAlnum (hd sfx) \<and> list_all isIDChar (tl sfx))"
proof (cases "idSpecs kind")
  case None
  then show ?thesis by (simp add: ValidateID_def)
next
  case (Some pfx)
  then show ?thesis by (auto simp: ValidateID_def Let_def has_prefix_iff not_less)
qed

lemma id_prefix_chars: "idSpecs kind = Some pfx \<Longrightarrow> list_all isIDChar pfx"
proof (induction kind rule: idSpecs.induct)
qed (drule sym, simp add: isIDChar_def isASCIIAlnum_def byte_def)+

text \<open>Every byte of a valid identifier is an ASCII letter, digit, underscore or hyphen.\<close>

lemma valid_id_chars:
  assumes "valid_id kind ident" "c \<in> set ident"
  shows "isIDChar c"
proof -
  from assms(1) obtain pfx sfx where *: "idSpecs kind = Some pfx" "ident = pfx @ sfx"
      "2 \<le> length sfx" "isASCIIAlnum (hd sfx)" "list_all isIDChar (tl sfx)"
    by (auto simp: valid_id_iff)
  have "\<forall>c \<in> set pfx. isIDChar c"
    using id_prefix_chars [OF *(1)] by (simp add: list_all_iff)
  moreover have "\<forall>c \<in> set sfx. isIDChar c"
    using *(3-5) by (cases sfx) (auto simp: isIDChar_def list_all_iff)
  ultimately show ?thesis using assms(2) *(2) by auto
qed

lemma valid_id_not_Nil: "valid_id kind ident \<Longrightarrow> ident \<noteq> []"
  by (auto simp: valid_id_iff)

section \<open>Canonical paths of repos and templates\<close>

record RepoPaths =
  ContainerVolumeSubdir :: string
  ControlVolumeSubdir :: string
  PayloadVolumeSubdir :: string

type_synonym TemplatePaths = RepoPaths

definition ResolveRepoPaths :: "string \<Rightarrow> string \<Rightarrow> path_error + RepoPaths" where
  "ResolveRepoPaths namespaceID repoID =
     (case ValidateID NamespaceID namespaceID of
        Some err \<Rightarrow> Inl err
      | None \<Rightarrow>
      case ValidateID RepoID repoID of
        Some err \<Rightarrow> Inl err
      | None \<Rightarrow>
        let container = ''afscp/namespaces/'' @ namespaceID @ ''/repos/'' @ repoID in
        Inr \<lparr>ContainerVolumeSubdir = container,
             ControlVolumeSubdir = container @ ''/control'',
             PayloadVolumeSubdir = container @ ''/payload''\<rparr>)"

definition ResolveTemplatePaths :: "string \<Rightarrow> string \<Rightarrow> path_error + TemplatePaths" where
  "ResolveTemplatePaths namespaceID templateID =
     (case ValidateID NamespaceID namespaceID of
        Some err \<Rightarrow> Inl err
      | None \<Rightarrow>
      case ValidateID TemplateID templateID of
        Some err \<Rightarrow> Inl err
      | None \<Rightarrow>
        let container = ''afscp/namespaces/'' @ namespaceID @ ''/templates/'' @ templateID in
        Inr \<lparr>ContainerVolumeSubdir = container,
             ControlVolumeSubdir = container @ ''/control'',
             PayloadVolumeSubdir = container @ ''/payload''\<rparr>)"

section \<open>filepath (Unix)\<close>

text \<open>\<open>filepath.Clean\<close> by segments: empty and \<open>.\<close> segments vanish, \<open>..\<close> removes the segment
  before it, at the root it vanishes.\<close>

fun clean_segs :: "bool \<Rightarrow> string list \<Rightarrow> string list \<Rightarrow> string list" where
  "clean_segs rooted out [] = rev out"
| "clean_segs rooted out (s # ss) =
     (if s = [] \<or> s = ''.'' then clean_segs rooted out ss
      else if s = ''..'' then
        (case out of
           o1 # os \<Rightarrow> if o1 = ''..'' then clean_segs rooted (''..'' # out) ss else clean_segs rooted os ss
         | [] \<Rightarrow> if rooted then clean_segs rooted [] ss else clean_segs rooted [''..''] ss)
      else clean_segs rooted (s # out) ss)"

definition filepath_Clean :: "string \<Rightarrow> string" where
  "filepath_Clean path =
     (if path = [] then ''.''
      else let rooted = (hd path = CHR ''/'');
               segs = clean_segs rooted [] (split_char (CHR ''/'') path) in
        if rooted then CHR ''/'' # join_with ''/'' segs
        else if segs = [] then ''.'' else join_with ''/'' segs)"

definition filepath_IsAbs :: "string \<Rightarrow> bool" where
  "filepath_IsAbs path \<longleftrightarrow> has_prefix path ''/''"

definition filepath_Join2 :: "string \<Rightarrow> string \<Rightarrow> string" where
  "filepath_Join2 a b =
     (if a \<noteq> [] then filepath_Clean (a @ ''/'' @ b) else if b \<noteq> [] then filepath_Clean b else [])"

text \<open>\<open>filepath.Rel\<close>: None is its error.\<close>

fun strip_common :: "'a list \<Rightarrow> 'a list \<Rightarrow> 'a list \<times> 'a list" where
  "strip_common (x # xs) (y # ys) = (if x = y then strip_common xs ys else (x # xs, y # ys))"
| "strip_common xs ys = (xs, ys)"

definition path_segs :: "string \<Rightarrow> string list" where
  "path_segs path = filter (\<lambda>s. s \<noteq> []) (split_char (CHR ''/'') path)"

definition filepath_Rel :: "string \<Rightarrow> string \<Rightarrow> string option" where
  "filepath_Rel basepath targpath =
     (let base = filepath_Clean basepath; targ = filepath_Clean targpath in
      if targ = base then Some ''.''
      else let base = (if base = ''.'' then [] else base) in
        if has_prefix base ''/'' \<noteq> has_prefix targ ''/'' then None
        else case strip_common (path_segs base) (path_segs targ) of
          (bs, ts) \<Rightarrow> if bs \<noteq> [] \<and> hd bs = ''..'' then None
                      else Some (join_with ''/'' (replicate (length bs) ''..'' @ ts)))"

definition pathContains :: "string \<Rightarrow> string \<Rightarrow> bool" where
  "pathContains parent child =
     (case filepath_Rel parent child of
        None \<Rightarrow> False
      | Some rel \<Rightarrow> rel \<noteq> ''.'' \<and> rel \<noteq> ''..'' \<and> \<not> has_prefix rel ''../'')"

definition validateTrustedVolumeRoot :: "string \<Rightarrow> path_error option" where
  "validateTrustedVolumeRoot vroot =
     (if vroot = [] then Some (ErrInvalidPath ''empty volume root'')
      else if \<not> filepath_IsAbs vroot then Some (ErrInvalidPath ''volume root must be absolute'')
      else if filepath_Clean vroot \<noteq> vroot then Some (ErrInvalidPath ''volume root must be clean'')
      else if vroot = ''/'' then Some (ErrInvalidPath ''volume root cannot be filesystem root'')
      else None)"

definition validateResolvedRepoRoots :: "string \<Rightarrow> string \<Rightarrow> path_error option" where
  "validateResolvedRepoRoots controlRoot payloadRoot =
     (if controlRoot = [] \<or> payloadRoot = [] then Some (ErrInvalidPath ''empty repo root'')
      else if \<not> filepath_IsAbs controlRoot \<or> \<not> filepath_IsAbs payloadRoot
        then Some (ErrInvalidPath ''repo roots must be absolute'')
      else if filepath_Clean controlRoot \<noteq> controlRoot \<or> filepath_Clean payloadRoot \<noteq> payloadRoot
        then Some (ErrInvalidPath ''repo roots must be clean'')
      else if controlRoot = payloadRoot then Some (ErrPathEscape ''control and payload roots overlap'')
      else if pathContains controlRoot payloadRoot \<or> pathContains payloadRoot controlRoot
        then Some (ErrPathEscape ''control and payload roots overlap'')
      else None)"

record RepoRootPaths = RepoPaths +
  ControlRootPath :: string
  PayloadRootPath :: string

definition ResolveRepoRootPaths :: "string \<Rightarrow> string \<Rightarrow> string \<Rightarrow> path_error + RepoRootPaths" where
  "ResolveRepoRootPaths volumeRoot namespaceID repoID =
     (case validateTrustedVolumeRoot volumeRoot of
        Some err \<Rightarrow> Inl err
      | None \<Rightarrow>
      case ResolveRepoPaths namespaceID repoID of
        Inl err \<Rightarrow> Inl err
      | Inr repoPaths \<Rightarrow>
        let controlRoot = filepath_Join2 volumeRoot (ControlVolumeSubdir repoPaths);
            payloadRoot = filepath_Join2 volumeRoot (PayloadVolumeSubdir repoPaths) in
        case validateResolvedRepoRoots controlRoot payloadRoot of
          Some err \<Rightarrow> Inl err
        | None \<Rightarrow> Inr (RepoPaths.extend repoPaths
            \<lparr>ControlRootPath = controlRoot, PayloadRootPath = payloadRoot\<rparr>))"

section \<open>Caller paths\<close>

definition isASCIILetter :: "char \<Rightarrow> bool" where
  "isASCIILetter b \<longleftrightarrow> (65 \<le> byte b \<and> byte b \<le> 90) \<or> (97 \<le> byte b \<and> byte b \<le> 122)"

definition isAbsoluteLike :: "string \<Rightarrow> bool" where
  "isAbsoluteLike path \<longleftrightarrow>
     has_prefix path ''/'' \<or> has_prefix path [CHR 0x5C] \<or>
     (2 \<le> length path \<and> isASCIILetter (path ! 0) \<and> path ! 1 = CHR '':'')"

text \<open>\<open>unicode.IsControl\<close>.\<close>

definition isControl :: "nat \<Rightarrow> bool" where
  "isControl r \<longleftrightarrow> r \<le> 31 \<or> (127 \<le> r \<and> r \<le> 159)"

definition isSlashLikeRune :: "nat \<Rightarrow> bool" where
  "isSlashLikeRune r \<longleftrightarrow>
     r \<in> set [0x5C, 0x2044, 0x2215, 0x2216, 0x27CD, 0x29F8, 0x29F9, 0x2571, 0x2572, 0xFE68, 0xFF0F, 0xFF3C]"

definition hasSlashLikeOrControl :: "string \<Rightarrow> bool" where
  "hasSlashLikeOrControl path \<longleftrightarrow> list_ex (\<lambda>r. isControl r \<or> isSlashLikeRune r) (runes (bytes path))"

definition hexValue :: "char \<Rightarrow> nat option" where
  "hexValue b =
     (if 48 \<le> byte b \<and> byte b \<le> 57 then Some (byte b - 48)
      else if 97 \<le> byte b \<and> byte b \<le> 102 then Some (byte b - 97 + 10)
      else if 65 \<le> byte b \<and> byte b \<le> 70 then Some (byte b - 65 + 10)
      else None)"

definition hexByte :: "char \<Rightarrow> char \<Rightarrow> nat option" where
  "hexByte hi lo =
     (case hexValue hi of None \<Rightarrow> None
      | Some high \<Rightarrow> (case hexValue lo of None \<Rightarrow> None | Some low \<Rightarrow> Some (16 * high + low)))"

text \<open>The loops \<open>for i := 0; i+2 < len(path); i++\<close> of the two scanners, which differ in the
  bytes they look for.\<close>

fun containsEncoded :: "nat list \<Rightarrow> string \<Rightarrow> bool" where
  "containsEncoded bad (c # hi # lo # rest) =
     (if c \<noteq> CHR ''%'' then containsEncoded bad (hi # lo # rest)
      else case hexByte hi lo of
        None \<Rightarrow> containsEncoded bad (hi # lo # rest)
      | Some v \<Rightarrow> if v \<in> set bad then True else containsEncoded bad rest)"
| "containsEncoded bad _ = False"

definition containsEncodedSeparator :: "string \<Rightarrow> bool" where
  "containsEncodedSeparator path = containsEncoded [47, 92] path"

definition containsEncodedPathMeta :: "string \<Rightarrow> bool" where
  "containsEncodedPathMeta path = containsEncoded [46, 47, 92] path"

text \<open>\<open>url.PathUnescape\<close>: None for a malformed escape.\<close>

fun PathUnescape :: "string \<Rightarrow> string option" where
  "PathUnescape [] = Some []"
| "PathUnescape (c # rest) =
     (if c = CHR ''%'' then
        (case rest of
           hi # lo # rest' \<Rightarrow>
             (case hexByte hi lo of
                None \<Rightarrow> None
              | Some v \<Rightarrow> map_option (\<lambda>s. char_of v # s) (PathUnescape rest'))
         | _ \<Rightarrow> None)
      else map_option (\<lambda>s. c # s) (PathUnescape rest))"

text \<open>\<open>strings.EqualFold(s, t)\<close> for an ASCII \<open>t\<close>: simple folding relates an ASCII letter to
  its other case, and \<open>k\<close> and \<open>s\<close> also to U+212A and U+017F.\<close>

definition fold_rune :: "nat \<Rightarrow> nat" where
  "fold_rune r =
     (if 65 \<le> r \<and> r \<le> 90 then r + 32 else if r = 0x212A then 107 else if r = 0x17F then 115 else r)"

definition EqualFold :: "string \<Rightarrow> string \<Rightarrow> bool" where
  "EqualFold s t \<longleftrightarrow> map fold_rune (runes (bytes s)) = map fold_rune (runes (bytes t))"

definition segment_error :: "string \<Rightarrow> path_error option" where
  "segment_error segment =
     (if segment = [] then Some (ErrInvalidPath ''empty segment'')
      else if segment = ''.'' then Some (ErrInvalidPath ''dot segment'')
      else if segment = ''..'' then Some (ErrInvalidPath ''parent traversal'')
      else if EqualFold segment ''.jvs'' then Some (ErrInvalidPath ''.jvs segment'')
      else None)"

record CallerPath =
  cp_Clean :: string
  cp_Segments :: "string list"

definition ResolveCallerPath :: "string \<Rightarrow> path_error + CallerPath" where
  "ResolveCallerPath rawPath =
     (if rawPath = [] then Inl (ErrInvalidPath ''empty path'')
      else if \<not> valid_utf8 (bytes rawPath) then Inl (ErrInvalidPath ''path is not valid UTF-8'')
      else if isAbsoluteLike rawPath then Inl (ErrInvalidPath ''absolute path'')
      else if hasSlashLikeOrControl rawPath then Inl (ErrInvalidPath ''slash-like or control character'')
      else if containsEncodedSeparator rawPath then Inl (ErrInvalidPath ''encoded separator'')
      else case PathUnescape rawPath of
        None \<Rightarrow> Inl (ErrInvalidPath ''malformed percent escape'')
      | Some decoded \<Rightarrow>
        if \<not> valid_utf8 (bytes decoded) then Inl (ErrInvalidPath ''decoded path is not valid UTF-8'')
        else if containsEncodedPathMeta decoded
          then Inl (ErrInvalidPath ''double-encoded path metacharacter'')
        else if isAbsoluteLike decoded then Inl (ErrInvalidPath ''decoded absolute path'')
        else if hasSlashLikeOrControl decoded
          then Inl (ErrInvalidPath ''decoded slash-like or control character'')
        else let segments = split_char (CHR ''/'') decoded in
          case first_error segment_error segments of
            Some err \<Rightarrow> Inl err
          | None \<Rightarrow> Inr \<lparr>cp_Clean = join_with ''/'' segments, cp_Segments = segments\<rparr>)"

definition validateCallerSegments :: "string list \<Rightarrow> path_error option" where
  "validateCallerSegments segments =
     (if segments = [] then Some (ErrInvalidPath ''empty path'')
      else first_error
        (\<lambda>segment. case segment_error segment of
           Some err \<Rightarrow> Some err
         | None \<Rightarrow> if hasSlashLikeOrControl segment
                   then Some (ErrInvalidPath ''slash-like or control character'') else None) segments)"

section \<open>Traversal plans\<close>

definition validateManagedSubdir :: "string \<Rightarrow> path_error option" where
  "validateManagedSubdir subdir =
     (if subdir = [] then Some (ErrInvalidPath ''empty managed subdir'')
      else if \<not> valid_utf8 (bytes subdir) then Some (ErrInvalidPath ''managed subdir is not valid UTF-8'')
      else if isAbsoluteLike subdir then Some (ErrInvalidPath ''absolute managed subdir'')
      else if hasSlashLikeOrControl subdir
        then Some (ErrInvalidPath ''slash-like or control character in managed subdir'')
      else if str_contains subdir ''%'' then Some (ErrInvalidPath ''encoded managed subdir'')
      else let segments = split_char (CHR ''/'') subdir in
        case validateCallerSegments segments of
          Some err \<Rightarrow> Some err
        | None \<Rightarrow>
          if length segments \<noteq> 6 \<or> segments ! 0 \<noteq> ''afscp'' \<or> segments ! 1 \<noteq> ''namespaces'' \<or>
              segments ! 5 \<noteq> ''payload''
            then Some (ErrInvalidPath ''managed subdir must be a canonical payload root'')
          else case ValidateID NamespaceID (segments ! 2) of
            Some err \<Rightarrow> Some err
          | None \<Rightarrow>
            if segments ! 3 = ''repos'' then ValidateID RepoID (segments ! 4)
            else if segments ! 3 = ''templates'' then ValidateID TemplateID (segments ! 4)
            else Some (ErrInvalidPath ''managed subdir must target repos or templates''))"

record TraversalPlan =
  tp_RootSubdir :: string
  tp_Segments :: "string list"
  tp_NoFollow :: bool
  tp_RejectHardlinks :: bool

datatype EntryType = EntryUnknown | EntryDirectory | EntryFile | EntryOther | EntryTypeOther string

record TraversalEntry =
  entry_Exists :: bool
  entry_Type :: EntryType
  entry_Symlink :: bool
  entry_LinkCount :: nat

definition ResolvePayloadTraversal :: "string \<Rightarrow> string \<Rightarrow> path_error + TraversalPlan" where
  "ResolvePayloadTraversal rootSubdir rawPath =
     (case validateManagedSubdir rootSubdir of
        Some err \<Rightarrow> Inl err
      | None \<Rightarrow>
      case ResolveCallerPath rawPath of
        Inl err \<Rightarrow> Inl err
      | Inr callerPath \<Rightarrow>
          Inr \<lparr>tp_RootSubdir = rootSubdir, tp_Segments = cp_Segments callerPath,
               tp_NoFollow = True, tp_RejectHardlinks = True\<rparr>)"

text \<open>The inspector is the file system the caller supplies: it answers for each prefix of the
  segments; None stands for a nil inspector.\<close>

type_synonym inspector = "string list \<Rightarrow> path_error + TraversalEntry"

definition inspect_prefix :: "TraversalPlan \<Rightarrow> inspector \<Rightarrow> string list \<Rightarrow> path_error option" where
  "inspect_prefix plan inspector segs =
     (case inspector segs of
        Inl err \<Rightarrow> Some err
      | Inr entry \<Rightarrow>
        if \<not> entry_Exists entry then None
        else if tp_NoFollow plan \<and> entry_Symlink entry then Some (ErrPathEscape ''symlink component'')
        else if tp_RejectHardlinks plan \<and> entry_Type entry = EntryFile \<and> 1 < entry_LinkCount entry
          then Some (ErrPathEscape ''hardlinked file'')
        else None)"

definition ValidateTraversalPlan :: "TraversalPlan \<Rightarrow> inspector option \<Rightarrow> path_error option" where
  "ValidateTraversalPlan plan inspector =
     (case validateManagedSubdir (tp_RootSubdir plan) of
        Some err \<Rightarrow> Some err
      | None \<Rightarrow>
        if \<not> tp_NoFollow plan then Some (ErrPathEscape ''traversal plan must not follow symlinks'')
        else if \<not> tp_RejectHardlinks plan then Some (ErrPathEscape ''traversal plan must reject hardlinks'')
        else case inspector of
          None \<Rightarrow> Some (ErrPathEscape ''nil traversal inspector'')
        | Some insp \<Rightarrow>
          case validateCallerSegments (tp_Segments plan) of
            Some err \<Rightarrow> Some err
          | None \<Rightarrow>
            first_error (\<lambda>i. inspect_prefix plan insp (take (i + 1) (tp_Segments plan)))
              [0 ..< length (tp_Segments plan)])"

section \<open>Cleaning and joining\<close>

text \<open>A segment that cleaning leaves alone.\<close>

definition plain_seg :: "string \<Rightarrow> bool" where
  "plain_seg s \<longleftrightarrow> s \<noteq> [] \<and> s \<noteq> ''.'' \<and> s \<noteq> ''..'' \<and> CHR ''/'' \<notin> set s"

lemma clean_segs_append:
  "clean_segs rooted out (xs @ ys) = clean_segs rooted (rev (clean_segs rooted out xs)) ys"
  by (induction rooted out xs rule: clean_segs.induct) (auto split: list.splits)

lemma clean_segs_plain: "list_all plain_seg ss \<Longrightarrow> clean_segs rooted out ss = rev out @ ss"
  by (induction ss arbitrary: out) (auto simp: plain_seg_def)

lemma clean_segs_shape:
  "\<forall>s \<in> set ss. CHR ''/'' \<notin> set s \<Longrightarrow> \<forall>s \<in> set out. s \<noteq> [] \<and> CHR ''/'' \<notin> set s \<Longrightarrow>
     s \<in> set (clean_segs rooted out ss) \<Longrightarrow> s \<noteq> [] \<and> CHR ''/'' \<notin> set s"
  by (induction rooted out ss rule: clean_segs.induct) (auto split: list.splits if_splits)

text \<open>A trusted volume root is \<open>/\<close> followed by at least one non-empty segment.\<close>

lemma trusted_root_segs:
  assumes "validateTrustedVolumeRoot vroot = None"
  obtains segs where "vroot = CHR ''/'' # join_with ''/'' segs" "segs \<noteq> []"
    "\<forall>s \<in> set segs. s \<noteq> [] \<and> CHR ''/'' \<notin> set s"
    "clean_segs True [] (split_char (CHR ''/'') vroot) = segs"
proof -
  let ?segs = "clean_segs True [] (split_char (CHR ''/'') vroot)"
  have c: "filepath_Clean vroot = vroot" "vroot \<noteq> ''/''" "has_prefix vroot ''/''"
    using assms by (auto simp: validateTrustedVolumeRoot_def filepath_IsAbs_def split: if_splits)
  then have v: "vroot = CHR ''/'' # join_with ''/'' ?segs"
    by (auto simp: filepath_Clean_def has_prefix_iff Let_def)
  moreover have "?segs \<noteq> []" using c(2) v by (cases ?segs) auto
  moreover have "\<forall>s \<in> set ?segs. s \<noteq> [] \<and> CHR ''/'' \<notin> set s"
    using clean_segs_shape [of "split_char (CHR ''/'') vroot" "[]" _ True] split_char_no_sep by auto
  ultimately show thesis using that by blast
qed

text \<open>Joining plain segments below a trusted root is concatenation, and the result is clean.\<close>

lemma clean_below_root:
  assumes "validateTrustedVolumeRoot vroot = None" "list_all plain_seg ss" "ss \<noteq> []"
  shows "filepath_Clean (vroot @ ''/'' @ join_with ''/'' ss) = vroot @ ''/'' @ join_with ''/'' ss"
proof -
  obtain segs where segs: "vroot = CHR ''/'' # join_with ''/'' segs" "segs \<noteq> []"
    and ok: "\<forall>s \<in> set segs. s \<noteq> [] \<and> CHR ''/'' \<notin> set s"
    and cs: "clean_segs True [] (split_char (CHR ''/'') vroot) = segs"
    by (rule trusted_root_segs [OF assms(1)])
  have "split_char (CHR ''/'') (vroot @ ''/'' @ join_with ''/'' ss) = ([] # segs) @ ss"
    using segs ok assms(2,3) split_char_join_append [of segs "CHR ''/''" "join_with ''/'' ss"]
      split_join [of ss "CHR ''/''"] by (simp add: list_all_iff plain_seg_def)
  moreover have "split_char (CHR ''/'') vroot = [] # segs"
    using segs ok split_join [of segs "CHR ''/''"] by simp
  ultimately have "clean_segs True [] (split_char (CHR ''/'') (vroot @ ''/'' @ join_with ''/'' ss)) = segs @ ss"
    using cs clean_segs_append [of True "[]" "[] # segs" ss] clean_segs_plain [OF assms(2)] by simp
  then show ?thesis
    using segs assms(3) by (simp add: filepath_Clean_def join_with_append)
qed

lemma join_below_root:
  assumes "validateTrustedVolumeRoot vroot = None" "list_all plain_seg ss" "ss \<noteq> []"
  shows "filepath_Join2 vroot (join_with ''/'' ss) = vroot @ ''/'' @ join_with ''/'' ss"
proof -
  have "vroot \<noteq> []" using assms(1) by (auto simp: validateTrustedVolumeRoot_def)
  with clean_below_root [OF assms] show ?thesis by (simp add: filepath_Join2_def)
qed

lemma strip_common_append [simp]: "strip_common (a @ xs) (a @ ys) = strip_common xs ys"
  by (induction a) auto

lemma path_segs_join:
  assumes "\<forall>s \<in> set segs. s \<noteq> [] \<and> CHR ''/'' \<notin> set s" "segs \<noteq> []"
  shows "path_segs (CHR ''/'' # join_with ''/'' segs) = segs"
  using assms split_join [of segs "CHR ''/''"] by (simp add: path_segs_def)

text \<open>Two different directories with the same parent do not contain each other.\<close>

lemma siblings_not_contained:
  assumes "validateTrustedVolumeRoot vroot = None" "list_all plain_seg (ss @ [a, b])" "a \<noteq> b"
  shows "\<not> pathContains (vroot @ ''/'' @ join_with ''/'' (ss @ [a])) (vroot @ ''/'' @ join_with ''/'' (ss @ [b]))"
proof -
  obtain segs where segs: "vroot = CHR ''/'' # join_with ''/'' segs" "segs \<noteq> []"
    and ok: "\<forall>s \<in> set segs. s \<noteq> [] \<and> CHR ''/'' \<notin> set s"
    by (rule trusted_root_segs [OF assms(1)])
  let ?p = "\<lambda>x. vroot @ ''/'' @ join_with ''/'' (ss @ [x])"
  have p: "?p x = CHR ''/'' # join_with ''/'' (segs @ ss @ [x])" for x
    using segs by (simp add: join_with_append)
  have cl: "filepath_Clean (?p a) = ?p a" "filepath_Clean (?p b) = ?p b"
    using assms(1,2) clean_below_root by auto
  have ps: "path_segs (?p a) = segs @ ss @ [a]" "path_segs (?p b) = segs @ ss @ [b]"
  proof -
    have "\<forall>s \<in> set (segs @ ss @ [x]). s \<noteq> [] \<and> CHR ''/'' \<notin> set s" if "x = a \<or> x = b" for x
      using assms(2) ok that unfolding list_all_iff plain_seg_def by fastforce
    note ok' = this [of a] this [of b]
    show "path_segs (?p a) = segs @ ss @ [a]"
      unfolding p by (rule path_segs_join [OF ok'(1)]) simp_all
    show "path_segs (?p b) = segs @ ss @ [b]"
      unfolding p by (rule path_segs_join [OF ok'(2)]) simp_all
  qed
  have ne: "?p b \<noteq> ?p a"
  proof
    assume "?p b = ?p a"
    then have "path_segs (?p b) = path_segs (?p a)" by simp
    with assms(3) show False unfolding ps by simp
  qed
  have sl: "has_prefix (?p x) ''/''" "?p x \<noteq> ''.''" for x
    by (simp_all add: segs(1) has_prefix_def)
  have "strip_common (segs @ ss @ [a]) (segs @ ss @ [b]) = ([a], [b])"
    using assms(3) by simp
  moreover have "a \<noteq> ''..''" using assms(2) by (simp add: plain_seg_def)
  ultimately have "filepath_Rel (?p a) (?p b) = Some (''../'' @ b)"
    unfolding filepath_Rel_def Let_def cl if_not_P [OF ne] if_not_P [OF sl(2)] ps by (simp only: sl) simp
  then show ?thesis
    by (simp add: pathContains_def has_prefix_def)
qed

section \<open>Canonical directories as segments\<close>

lemma valid_id_plain: "valid_id kind ident \<Longrightarrow> plain_seg ident"
proof -
  assume v: "valid_id kind ident"
  have "\<not> isIDChar (CHR ''.'')" "\<not> isIDChar (CHR ''/'')"
    by (simp_all add: isIDChar_def isASCIIAlnum_def byte_def)
  then have "CHR ''.'' \<notin> set ident" "CHR ''/'' \<notin> set ident"
    using valid_id_chars [OF v] by blast+
  with valid_id_not_Nil [OF v] show ?thesis by (auto simp: plain_seg_def)
qed

lemma valid_id_no_slash: "valid_id kind ident \<Longrightarrow> CHR ''/'' \<notin> set ident"
  using valid_id_plain by (auto simp: plain_seg_def)

definition container_segs :: "string \<Rightarrow> string \<Rightarrow> string \<Rightarrow> string list" where
  "container_segs ns grp res = [''afscp'', ''namespaces'', ns, grp, res]"

lemma container_segs_join:
  "join_with ''/'' (container_segs ns grp res) = ''afscp/namespaces/'' @ ns @ ''/'' @ grp @ ''/'' @ res"
  "join_with ''/'' (container_segs ns grp res @ [x]) =
     ''afscp/namespaces/'' @ ns @ ''/'' @ grp @ ''/'' @ res @ ''/'' @ x"
  by (simp_all add: container_segs_def)

lemma container_segs_plain:
  "plain_seg ns \<Longrightarrow> plain_seg grp \<Longrightarrow> plain_seg res \<Longrightarrow> list_all plain_seg (container_segs ns grp res)"
  by (simp add: container_segs_def) (simp add: plain_seg_def)

lemma plain_literals [simp]:
  "plain_seg ''repos''" "plain_seg ''templates''" "plain_seg ''control''" "plain_seg ''payload''"
  by (simp_all add: plain_seg_def)

lemma ResolveRepoPaths_eq:
  "ResolveRepoPaths ns r = Inr p \<longleftrightarrow>
     valid_id NamespaceID ns \<and> valid_id RepoID r \<and>
     p = \<lparr>ContainerVolumeSubdir = join_with ''/'' (container_segs ns ''repos'' r),
          ControlVolumeSubdir = join_with ''/'' (container_segs ns ''repos'' r @ [''control'']),
          PayloadVolumeSubdir = join_with ''/'' (container_segs ns ''repos'' r @ [''payload''])\<rparr>"
  by (auto simp: ResolveRepoPaths_def container_segs_join Let_def split: option.splits)

lemma ResolveTemplatePaths_eq:
  "ResolveTemplatePaths ns r = Inr p \<longleftrightarrow>
     valid_id NamespaceID ns \<and> valid_id TemplateID r \<and>
     p = \<lparr>ContainerVolumeSubdir = join_with ''/'' (container_segs ns ''templates'' r),
          ControlVolumeSubdir = join_with ''/'' (container_segs ns ''templates'' r @ [''control'']),
          PayloadVolumeSubdir = join_with ''/'' (container_segs ns ''templates'' r @ [''payload''])\<rparr>"
  by (auto simp: ResolveTemplatePaths_def container_segs_join Let_def split: option.splits)

text \<open>A path is below a directory when it is the directory or continues it after a slash; the
  segments of the directory are then the first segments of the path.\<close>

definition below :: "string \<Rightarrow> string \<Rightarrow> bool" where
  "below dir path \<longleftrightarrow> path = dir \<or> has_prefix path (dir @ ''/'')"

lemma below_segs:
  assumes "below (join_with ''/'' ss) path" "list_all plain_seg ss" "ss \<noteq> []"
  shows "take (length ss) (split_char (CHR ''/'') path) = ss"
proof -
  have no: "\<forall>w \<in> set ss. CHR ''/'' \<notin> set w"
    using assms(2) by (simp add: list_all_iff plain_seg_def)
  from assms(1) consider "path = join_with ''/'' ss" | t where "path = join_with ''/'' ss @ CHR ''/'' # t"
    by (auto simp: below_def has_prefix_iff)
  then show ?thesis
    by cases (simp_all add: split_join [OF assms(3) no] split_char_join_append [OF no assms(3)])
qed

lemma below_same_length:
  assumes "below (join_with ''/'' ss) path" "below (join_with ''/'' ts) path"
    "list_all plain_seg ss" "list_all plain_seg ts" "length ss = length ts" "ss \<noteq> []"
  shows "ss = ts"
  using below_segs [OF assms(1,3)] below_segs [OF assms(2,4)] assms(5,6) by auto

text \<open>The directories of a group (repos or templates) with the identifiers of one kind.\<close>

fun group_of :: "IDKind \<Rightarrow> string option" where
  "group_of RepoID = Some ''repos''"
| "group_of TemplateID = Some ''templates''"
| "group_of _ = None"

definition ResolvePaths :: "IDKind \<Rightarrow> string \<Rightarrow> string \<Rightarrow> path_error + RepoPaths" where
  "ResolvePaths kind ns res =
     (if kind = RepoID then ResolveRepoPaths ns res else ResolveTemplatePaths ns res)"

lemma ResolvePaths_segs:
  assumes "ResolvePaths kind ns res = Inr p" "kind = RepoID \<or> kind = TemplateID"
  obtains grp where "group_of kind = Some grp"
    "list_all plain_seg (container_segs ns grp res)"
    "ContainerVolumeSubdir p = join_with ''/'' (container_segs ns grp res)"
    "ControlVolumeSubdir p = join_with ''/'' (container_segs ns grp res @ [''control''])"
    "PayloadVolumeSubdir p = join_with ''/'' (container_segs ns grp res @ [''payload''])"
proof (cases "kind = RepoID")
  case True
  then show thesis
    using assms(1) by (intro that [of "''repos''"])
      (auto simp: ResolvePaths_def ResolveRepoPaths_eq intro: container_segs_plain dest: valid_id_plain)
next
  case False
  then show thesis
    using assms by (intro that [of "''templates''"])
      (auto simp: ResolvePaths_def ResolveTemplatePaths_eq intro: container_segs_plain dest: valid_id_plain)
qed

section \<open>Properties\<close>

lemma isolation_parts:
  assumes "k1 = RepoID \<or> k1 = TemplateID" "k2 = RepoID \<or> k2 = TemplateID"
    and "ResolvePaths k1 ns1 res1 = Inr p1" "ResolvePaths k2 ns2 res2 = Inr p2"
  shows "(k1, ns1, res1) \<noteq> (k2, ns2, res2) \<Longrightarrow>
      \<not> (below (ContainerVolumeSubdir p1) path \<and> below (ContainerVolumeSubdir p2) path)"
    and "\<not> (below (ControlVolumeSubdir p1) path \<and> below (PayloadVolumeSubdir p1) path)"
    and "below (ControlVolumeSubdir p1) path \<or> below (PayloadVolumeSubdir p1) path \<Longrightarrow>
      below (ContainerVolumeSubdir p1) path"
proof -
  obtain g1 where g1: "group_of k1 = Some g1" "list_all plain_seg (container_segs ns1 g1 res1)"
    and p1: "ContainerVolumeSubdir p1 = join_with ''/'' (container_segs ns1 g1 res1)"
      "ControlVolumeSubdir p1 = join_with ''/'' (container_segs ns1 g1 res1 @ [''control''])"
      "PayloadVolumeSubdir p1 = join_with ''/'' (container_segs ns1 g1 res1 @ [''payload''])"
    by (rule ResolvePaths_segs [OF assms(3,1)])
  obtain g2 where g2: "group_of k2 = Some g2" "list_all plain_seg (container_segs ns2 g2 res2)"
    and p2: "ContainerVolumeSubdir p2 = join_with ''/'' (container_segs ns2 g2 res2)"
    by (rule ResolvePaths_segs [OF assms(4,2)])
  have segs: "container_segs ns g res \<noteq> []" "length (container_segs ns g res) = 5" for ns g res
    by (simp_all add: container_segs_def)
  show "\<not> (below (ContainerVolumeSubdir p1) path \<and> below (ContainerVolumeSubdir p2) path)"
    if ne: "(k1, ns1, res1) \<noteq> (k2, ns2, res2)"
  proof
    assume "below (ContainerVolumeSubdir p1) path \<and> below (ContainerVolumeSubdir p2) path"
    then have "container_segs ns1 g1 res1 = container_segs ns2 g2 res2"
      using below_same_length [OF _ _ g1(2) g2(2)] p1(1) p2 segs by auto
    with ne g1(1) g2(1) assms(1,2) show False by (auto simp: container_segs_def)
  qed
  show "\<not> (below (ControlVolumeSubdir p1) path \<and> below (PayloadVolumeSubdir p1) path)"
    using below_same_length [of "container_segs ns1 g1 res1 @ [''control'']" path
        "container_segs ns1 g1 res1 @ [''payload'']"] g1(2) p1(2,3) by auto
  show "below (ContainerVolumeSubdir p1) path"
    if "below (ControlVolumeSubdir p1) path \<or> below (PayloadVolumeSubdir p1) path"
    using that segs(1) [of ns1 g1 res1] unfolding p1
    by (auto simp: below_def has_prefix_iff join_with_append)
qed

text \<open>C18. Tenancy isolation of the storage layout: the containers of two different resources
  (another namespace, another identifier, or a repo and a template) share no path, and
  within one resource no path is below both its control and its payload directory. Here
  a path is below a directory when it is that directory or extends it after a slash.\<close>

theorem storage_isolation:
  assumes "k1 = RepoID \<or> k1 = TemplateID" "k2 = RepoID \<or> k2 = TemplateID"
    and "ResolvePaths k1 ns1 res1 = Inr p1" "ResolvePaths k2 ns2 res2 = Inr p2"
  shows "((k1, ns1, res1) \<noteq> (k2, ns2, res2) \<longrightarrow>
       \<not> (below (ContainerVolumeSubdir p1) path \<and> below (ContainerVolumeSubdir p2) path)) \<and>
     \<not> (below (ControlVolumeSubdir p1) path \<and> below (PayloadVolumeSubdir p1) path) \<and>
     (below (ControlVolumeSubdir p1) path \<or> below (PayloadVolumeSubdir p1) path \<longrightarrow>
       below (ContainerVolumeSubdir p1) path)"
  using isolation_parts [OF assms] by blast

text \<open>A concrete pair of repos of two namespaces.\<close>

lemma example_paths:
  "ResolvePaths RepoID ''ns_aa'' ''repo_r1'' =
     Inr \<lparr>ContainerVolumeSubdir = ''afscp/namespaces/ns_aa/repos/repo_r1'',
          ControlVolumeSubdir = ''afscp/namespaces/ns_aa/repos/repo_r1/control'',
          PayloadVolumeSubdir = ''afscp/namespaces/ns_aa/repos/repo_r1/payload''\<rparr>"
  "ResolvePaths RepoID ''ns_a'' ''repo_r1'' = Inl (ErrInvalidID ''suffix length must be between 2 and 63'')"
  "ResolvePaths RepoID ''ns_ab'' ''repo_r1'' =
     Inr \<lparr>ContainerVolumeSubdir = ''afscp/namespaces/ns_ab/repos/repo_r1'',
          ControlVolumeSubdir = ''afscp/namespaces/ns_ab/repos/repo_r1/control'',
          PayloadVolumeSubdir = ''afscp/namespaces/ns_ab/repos/repo_r1/payload''\<rparr>"
  by (simp_all add: ResolvePaths_def ResolveRepoPaths_def ValidateID_def has_prefix_def
      isASCIIAlnum_def isIDChar_def byte_def)

theorem storage_isolation_witness:
  "\<not> (below ''afscp/namespaces/ns_aa/repos/repo_r1'' ''afscp/namespaces/ns_aa/repos/repo_r1/control'' \<and>
      below ''afscp/namespaces/ns_ab/repos/repo_r1'' ''afscp/namespaces/ns_aa/repos/repo_r1/control'') \<and>
   \<not> (below ''afscp/namespaces/ns_aa/repos/repo_r1/control'' ''afscp/namespaces/ns_aa/repos/repo_r1/control'' \<and>
      below ''afscp/namespaces/ns_aa/repos/repo_r1/payload'' ''afscp/namespaces/ns_aa/repos/repo_r1/control'')"
  using storage_isolation [OF _ _ example_paths(1) example_paths(3),
      of "''afscp/namespaces/ns_aa/repos/repo_r1/control''"]
  by simp

lemma resolved_roots_ok:
  assumes v: "validateTrustedVolumeRoot vroot = None" and ss: "list_all plain_seg ss"
  shows "validateResolvedRepoRoots (vroot @ ''/'' @ join_with ''/'' (ss @ [''control'']))
    (vroot @ ''/'' @ join_with ''/'' (ss @ [''payload''])) = None"
proof -
  let ?p = "\<lambda>x. vroot @ ''/'' @ join_with ''/'' (ss @ [x])"
  have cl: "filepath_Clean (?p ''control'') = ?p ''control''" "filepath_Clean (?p ''payload'') = ?p ''payload''"
    using clean_below_root [OF v] ss by simp_all
  have ne: "?p ''control'' \<noteq> ?p ''payload''"
    using ss by (cases "ss = []") (auto simp: join_with_append)
  have abs: "has_prefix vroot ''/''"
    using v by (auto simp: validateTrustedVolumeRoot_def filepath_IsAbs_def split: if_splits)
  then have abs': "filepath_IsAbs (?p x)" "?p x \<noteq> []" for x
    by (auto simp: filepath_IsAbs_def has_prefix_iff)
  have "\<not> pathContains (?p ''control'') (?p ''payload'')" "\<not> pathContains (?p ''payload'') (?p ''control'')"
    using siblings_not_contained [OF v] ss by simp_all
  with cl ne abs' show ?thesis
    unfolding validateResolvedRepoRoots_def by simp
qed

text \<open>For a trusted volume root and valid identifiers, the resolver of root paths always
  succeeds and its joins and cleanings reduce to concatenation: the control and payload
  roots are the volume root, a slash and the canonical sub-directory. The checks that the
  roots are clean, absolute and do not contain each other never fail; every error comes
  from the volume root or from an identifier.\<close>

theorem ResolveRepoRootPaths_concat:
  "ResolveRepoRootPaths vroot ns repo =
     (case validateTrustedVolumeRoot vroot of
        Some err \<Rightarrow> Inl err
      | None \<Rightarrow>
      case ResolveRepoPaths ns repo of
        Inl err \<Rightarrow> Inl err
      | Inr p \<Rightarrow> Inr (RepoPaths.extend p
          \<lparr>ControlRootPath = vroot @ ''/'' @ ControlVolumeSubdir p,
           PayloadRootPath = vroot @ ''/'' @ PayloadVolumeSubdir p\<rparr>))"
proof (cases "validateTrustedVolumeRoot vroot")
  case v: None
  show ?thesis
  proof (cases "ResolveRepoPaths ns repo")
    case (Inr p)
    let ?ss = "container_segs ns ''repos'' repo"
    have ss: "list_all plain_seg ?ss" and p: "ControlVolumeSubdir p = join_with ''/'' (?ss @ [''control''])"
      "PayloadVolumeSubdir p = join_with ''/'' (?ss @ [''payload''])"
      using Inr by (auto simp: ResolveRepoPaths_eq intro: container_segs_plain dest: valid_id_plain)
    have "filepath_Join2 vroot (ControlVolumeSubdir p) = vroot @ ''/'' @ ControlVolumeSubdir p"
      "filepath_Join2 vroot (PayloadVolumeSubdir p) = vroot @ ''/'' @ PayloadVolumeSubdir p"
      unfolding p using ss by (simp_all add: join_below_root [OF v] del: append_assoc)
    moreover have "validateResolvedRepoRoots (vroot @ ''/'' @ ControlVolumeSubdir p)
        (vroot @ ''/'' @ PayloadVolumeSubdir p) = None"
      unfolding p by (rule resolved_roots_ok [OF v ss])
    ultimately show ?thesis
      using v Inr by (simp add: ResolveRepoRootPaths_def Let_def)
  qed (simp add: v ResolveRepoRootPaths_def)
qed (simp add: ResolveRepoRootPaths_def)

section \<open>Caller paths stay below their root\<close>

lemma segment_error_plain:
  "segment_error s = None \<longleftrightarrow> s \<noteq> [] \<and> s \<noteq> ''.'' \<and> s \<noteq> ''..'' \<and> \<not> EqualFold s ''.jvs''"
  by (simp add: segment_error_def)

lemma hasSlashLikeOrControl_split:
  "\<not> hasSlashLikeOrControl path \<Longrightarrow> s \<in> set (split_char (CHR ''/'') path) \<Longrightarrow> \<not> hasSlashLikeOrControl s"
  using runes_split [of s "CHR ''/''" path] by (auto simp: hasSlashLikeOrControl_def list_ex_iff byte_def)

text \<open>No byte of an accepted path is a control byte or a backslash.\<close>

lemma hasSlashLikeOrControl_bytes:
  assumes "\<not> hasSlashLikeOrControl path" "c \<in> set path"
  shows "32 \<le> byte c \<and> byte c \<noteq> 92 \<and> byte c \<noteq> 127"
proof (rule ccontr)
  assume bad: "\<not> ?thesis"
  then have "byte c < 128" by auto
  moreover have "byte c \<in> set (bytes path)" using assms(2) by simp
  ultimately have "byte c \<in> set (runes (bytes path))" by (rule ascii_byte_in_runes [rotated])
  with assms(1) have "\<not> isControl (byte c)" "\<not> isSlashLikeRune (byte c)"
    by (auto simp: hasSlashLikeOrControl_def list_ex_iff)
  with bad show False by (auto simp: isControl_def isSlashLikeRune_def)
qed

lemma ResolveCallerPath_Inr:
  assumes "ResolveCallerPath raw = Inr cp"
  obtains decoded where "PathUnescape raw = Some decoded" "valid_utf8 (bytes decoded)"
    "\<not> containsEncodedPathMeta decoded" "\<not> isAbsoluteLike decoded" "\<not> hasSlashLikeOrControl decoded"
    "\<forall>s \<in> set (split_char (CHR ''/'') decoded). segment_error s = None"
    "cp = \<lparr>cp_Clean = decoded, cp_Segments = split_char (CHR ''/'') decoded\<rparr>"
  using assms
  by (auto simp: ResolveCallerPath_def Let_def first_error_None split: if_splits option.splits)

lemma caller_segments_plain:
  assumes "ResolveCallerPath raw = Inr cp"
  shows "list_all plain_seg (cp_Segments cp)" "cp_Segments cp \<noteq> []"
    "cp_Clean cp = join_with ''/'' (cp_Segments cp)"
  using assms
  by (auto elim!: ResolveCallerPath_Inr simp: list_all_iff plain_seg_def segment_error_plain
      dest: split_char_no_sep)

lemma caller_segments_valid:
  "ResolveCallerPath raw = Inr cp \<Longrightarrow> validateCallerSegments (cp_Segments cp) = None"
  by (elim ResolveCallerPath_Inr)
    (auto simp: validateCallerSegments_def first_error_None hasSlashLikeOrControl_split)

text \<open>C19. A caller path that is accepted cannot escape: it is the percent-decoding of what the
  caller sent, it has at least one segment, no segment is empty, a dot, a parent reference
  or any case-folding of \<open>.jvs\<close>, no byte is a control byte or a backslash, joining its
  segments gives the path back, and below any trusted root the joined path is already
  clean, so cleaning it removes no segment of the root.\<close>

theorem caller_path_safe:
  assumes "ResolveCallerPath raw = Inr cp" "validateTrustedVolumeRoot vroot = None"
  shows "PathUnescape raw = Some (cp_Clean cp) \<and>
    cp_Segments cp = split_char (CHR ''/'') (cp_Clean cp) \<and> cp_Segments cp \<noteq> [] \<and>
    list_all (\<lambda>s. s \<noteq> [] \<and> s \<noteq> ''.'' \<and> s \<noteq> ''..'' \<and> \<not> EqualFold s ''.jvs'') (cp_Segments cp) \<and>
    list_all (\<lambda>c. 32 \<le> byte c \<and> byte c \<noteq> 92 \<and> byte c \<noteq> 127) (cp_Clean cp) \<and>
    filepath_Join2 vroot (cp_Clean cp) = vroot @ ''/'' @ cp_Clean cp"
proof -
  obtain decoded where d: "PathUnescape raw = Some decoded" "\<not> hasSlashLikeOrControl decoded"
    "\<forall>s \<in> set (split_char (CHR ''/'') decoded). segment_error s = None"
    "cp = \<lparr>cp_Clean = decoded, cp_Segments = split_char (CHR ''/'') decoded\<rparr>"
    using assms(1) by (rule ResolveCallerPath_Inr)
  have "filepath_Join2 vroot (cp_Clean cp) = vroot @ ''/'' @ cp_Clean cp"
    using join_below_root [OF assms(2) caller_segments_plain(1,2) [OF assms(1)]]
      caller_segments_plain(3) [OF assms(1)] by simp
  moreover have "list_all (\<lambda>c. 32 \<le> byte c \<and> byte c \<noteq> 92 \<and> byte c \<noteq> 127) (cp_Clean cp)"
    using d hasSlashLikeOrControl_bytes by (simp add: list_all_iff)
  ultimately show ?thesis
    using d by (simp add: list_all_iff segment_error_plain)
qed

lemma example_root: "validateTrustedVolumeRoot ''/srv/vol'' = None"
  by (simp add: validateTrustedVolumeRoot_def filepath_IsAbs_def has_prefix_def filepath_Clean_def)

lemma char_of_32: "char_of (32 :: nat) = CHR '' ''"
  by code_simp

lemma example_caller:
  "ResolveCallerPath ''docs/a%20b.txt'' =
     Inr \<lparr>cp_Clean = ''docs/a b.txt'', cp_Segments = [''docs'', ''a b.txt'']\<rparr>"
  by (simp add: ResolveCallerPath_def isAbsoluteLike_def has_prefix_def hasSlashLikeOrControl_def
      containsEncodedSeparator_def containsEncodedPathMeta_def hexByte_def hexValue_def byte_def
      isControl_def isSlashLikeRune_def isASCIILetter_def segment_error_def EqualFold_def fold_rune_def char_of_32)

theorem caller_path_safe_witness:
  "PathUnescape ''docs/a%20b.txt'' = Some ''docs/a b.txt'' \<and>
   filepath_Join2 ''/srv/vol'' ''docs/a b.txt'' = ''/srv/vol/docs/a b.txt''"
  using caller_path_safe [OF example_caller example_root] by simp

section \<open>Traversal plans\<close>

text \<open>What the inspector may report for an accepted prefix.\<close>

definition entry_admissible :: "path_error + TraversalEntry \<Rightarrow> bool" where
  "entry_admissible r =
     (case r of
        Inl _ \<Rightarrow> False
      | Inr e \<Rightarrow> entry_Exists e \<longrightarrow>
          \<not> entry_Symlink e \<and> \<not> (entry_Type e = EntryFile \<and> 1 < entry_LinkCount e))"

lemma inspect_prefix_None:
  "tp_NoFollow plan \<Longrightarrow> tp_RejectHardlinks plan \<Longrightarrow>
     inspect_prefix plan insp segs = None \<longleftrightarrow> entry_admissible (insp segs)"
  by (auto simp: inspect_prefix_def entry_admissible_def split: sum.splits)

text \<open>C20. A plan made from a managed root and a caller path forbids following links and
  hard-linked files, passes every static check of the plan validator again, and is accepted
  against a file system exactly when the inspector answers for every non-empty prefix of the
  segments and reports neither a symbolic link nor a file with several links.\<close>

theorem traversal_plan_sound:
  assumes "ResolvePayloadTraversal rootSubdir raw = Inr plan"
  shows "tp_RootSubdir plan = rootSubdir \<and> tp_NoFollow plan \<and> tp_RejectHardlinks plan \<and>
    (ValidateTraversalPlan plan (Some insp) = None \<longleftrightarrow>
      list_all (\<lambda>i. entry_admissible (insp (take (i + 1) (tp_Segments plan)))) [0 ..< length (tp_Segments plan)]) \<and>
    ValidateTraversalPlan plan None = Some (ErrPathEscape ''nil traversal inspector'')"
proof -
  obtain cp where cp: "validateManagedSubdir rootSubdir = None" "ResolveCallerPath raw = Inr cp"
    "plan = \<lparr>tp_RootSubdir = rootSubdir, tp_Segments = cp_Segments cp, tp_NoFollow = True, tp_RejectHardlinks = True\<rparr>"
    using assms by (auto simp: ResolvePayloadTraversal_def split: option.splits sum.splits)
  then show ?thesis
    using caller_segments_valid [OF cp(2)]
    by (auto simp: ValidateTraversalPlan_def first_error_None inspect_prefix_None list_all_iff)
qed

text \<open>The managed sub-directories are exactly the payload directories of the resolvers.\<close>

definition managed_char :: "char \<Rightarrow> bool" where
  "managed_char c \<longleftrightarrow> isIDChar c \<or> c = CHR ''/''"

lemma managed_char_ascii:
  assumes "managed_char c"
  shows "byte c < 128 \<and> \<not> isControl (byte c) \<and> byte c \<noteq> 92 \<and> byte c \<noteq> 37"
proof -
  have "byte (CHR ''_'') = 95" "byte (CHR ''-'') = 45" "byte (CHR ''/'') = 47"
    by (simp_all add: byte_def)
  then have "byte c \<in> {65..90} \<union> {97..122} \<union> {48..57} \<union> {95, 45, 47}"
    using assms by (auto simp: managed_char_def isIDChar_def isASCIIAlnum_def)
  then show ?thesis by (auto simp: isControl_def)
qed

lemma managed_chars_ok:
  assumes "list_all managed_char s"
  shows "valid_utf8 (bytes s)" "\<not> hasSlashLikeOrControl s" "\<not> str_contains s ''%''"
proof -
  have c: "byte c < 128 \<and> \<not> isControl (byte c) \<and> byte c \<noteq> 92 \<and> byte c \<noteq> 37" if "c \<in> set s" for c
    using that assms managed_char_ascii by (simp add: list_all_iff)
  then have asc: "\<forall>b \<in> set (bytes s). b < 128" by auto
  show "valid_utf8 (bytes s)" by (rule valid_utf8_all_ascii [OF asc])
  have "\<not> isSlashLikeRune (byte c)" if "c \<in> set s" for c
    using c [OF that] by (auto simp: isSlashLikeRune_def)
  with c show "\<not> hasSlashLikeOrControl s"
    by (auto simp: hasSlashLikeOrControl_def runes_all_ascii [OF asc] list_ex_iff)
  show "\<not> str_contains s ''%''"
    using c [of "CHR ''%''"] by (auto simp: str_contains_iff byte_def)
qed

lemma valid_id_managed: "valid_id kind ident \<Longrightarrow> list_all managed_char ident"
  using valid_id_chars by (auto simp: list_all_iff managed_char_def)

text \<open>None of its characters is a dot, so no such segment folds to \<open>.jvs\<close>.\<close>

lemma managed_segment_ok:
  assumes "list_all managed_char s" "s \<noteq> []"
  shows "segment_error s = None"
proof -
  have c: "byte d < 128 \<and> byte d \<noteq> 46" if "d \<in> set s" for d
  proof -
    have "managed_char d" using that assms(1) by (simp add: list_all_iff)
    moreover have "\<not> managed_char (CHR ''.'')" "byte (CHR ''.'') = 46"
      by (simp_all add: managed_char_def isIDChar_def isASCIIAlnum_def byte_def)
    ultimately show ?thesis using managed_char_ascii byte_eq_iff by metis
  qed
  then have "runes (bytes s) = bytes s" by (intro runes_all_ascii) auto
  moreover obtain d ds where "s = d # ds" using assms(2) by (cases s) auto
  ultimately have "\<not> EqualFold s ''.jvs''" "hd s \<noteq> CHR ''.''"
    using c [of d] by (auto simp: EqualFold_def fold_rune_def byte_def split: if_splits)
  with assms(2) show ?thesis by (auto simp: segment_error_plain)
qed

lemma managed_segments_valid:
  assumes "\<forall>s \<in> set ss. list_all managed_char s \<and> s \<noteq> []" "ss \<noteq> []"
  shows "validateCallerSegments ss = None"
  using assms managed_segment_ok managed_chars_ok(2)
  by (simp add: validateCallerSegments_def first_error_None)

lemma payload_subdir_managed:
  assumes "valid_id NamespaceID ns" "valid_id kind res"
    and "kind = RepoID \<and> grp = ''repos'' \<or> kind = TemplateID \<and> grp = ''templates''"
  shows "validateManagedSubdir (join_with ''/'' (container_segs ns grp res @ [''payload''])) = None"
proof -
  let ?ss = "container_segs ns grp res @ [''payload'']"
  let ?s = "join_with ''/'' ?ss"
  have m: "\<forall>s \<in> set ?ss. list_all managed_char s \<and> s \<noteq> []"
    using assms(3) valid_id_managed [OF assms(1)] valid_id_managed [OF assms(2)]
      valid_id_not_Nil [OF assms(1)] valid_id_not_Nil [OF assms(2)]
    by (auto simp: container_segs_def managed_char_def isIDChar_def isASCIIAlnum_def byte_def)
  have "list_all managed_char ?s"
    using m unfolding container_segs_join(2) container_segs_def
    by (auto simp: managed_char_def isIDChar_def isASCIIAlnum_def byte_def)
  note ok = managed_chars_ok [OF this]
  have "\<forall>s \<in> set ?ss. CHR ''/'' \<notin> set s"
    using assms(3) valid_id_no_slash [OF assms(1)] valid_id_no_slash [OF assms(2)]
    by (auto simp: container_segs_def)
  then have split: "split_char (CHR ''/'') ?s = ?ss" by (simp add: split_join)
  have "\<not> isAbsoluteLike ?s" "?s \<noteq> []"
    by (simp_all add: container_segs_join isAbsoluteLike_def has_prefix_def)
  then have "validateManagedSubdir ?s =
      (if grp = ''repos'' then ValidateID RepoID res
       else if grp = ''templates'' then ValidateID TemplateID res
       else Some (ErrInvalidPath ''managed subdir must target repos or templates''))"
    unfolding validateManagedSubdir_def Let_def split using ok managed_segments_valid [OF m] assms(1)
    by (simp add: container_segs_def)
  with assms(2,3) show ?thesis by auto
qed

lemma six_segments:
  "length segs = 6 \<Longrightarrow> segs = [segs ! 0, segs ! 1, segs ! 2, segs ! 3, segs ! 4, segs ! 5]"
  by (auto simp: length_Suc_conv eval_nat_numeral)

lemma managed_subdir_segments:
  assumes "validateManagedSubdir s = None"
  obtains ns grp res where "s = join_with ''/'' (container_segs ns grp res @ [''payload''])"
    "valid_id NamespaceID ns" "grp = ''repos'' \<and> valid_id RepoID res \<or> grp = ''templates'' \<and> valid_id TemplateID res"
proof -
  let ?g = "split_char (CHR ''/'') s"
  have g: "length ?g = 6" "?g ! 0 = ''afscp''" "?g ! 1 = ''namespaces''" "?g ! 5 = ''payload''"
    "valid_id NamespaceID (?g ! 2)"
    "?g ! 3 = ''repos'' \<and> valid_id RepoID (?g ! 4) \<or> ?g ! 3 = ''templates'' \<and> valid_id TemplateID (?g ! 4)"
    using assms unfolding validateManagedSubdir_def Let_def by (auto split: if_splits option.splits)
  have "?g = container_segs (?g ! 2) (?g ! 3) (?g ! 4) @ [''payload'']"
    using six_segments [OF g(1)] g(2-4) by (simp add: container_segs_def)
  then have "s = join_with ''/'' (container_segs (?g ! 2) (?g ! 3) (?g ! 4) @ [''payload''])"
    by (metis join_split)
  then show thesis using that g by blast
qed

lemma resolve_payload_subdir:
  assumes "valid_id NamespaceID ns"
  shows "valid_id RepoID res \<Longrightarrow> \<exists>p. ResolveRepoPaths ns res = Inr p \<and>
      PayloadVolumeSubdir p = join_with ''/'' (container_segs ns ''repos'' res @ [''payload''])"
    and "valid_id TemplateID res \<Longrightarrow> \<exists>p. ResolveTemplatePaths ns res = Inr p \<and>
      PayloadVolumeSubdir p = join_with ''/'' (container_segs ns ''templates'' res @ [''payload''])"
  using assms by (simp_all add: ResolveRepoPaths_eq ResolveTemplatePaths_eq)

text \<open>The validator of managed sub-directories accepts exactly the payload directories
  that the path resolvers of repos and templates produce: a traversal plan can be rooted
  nowhere else on the volume, in particular not in a control directory.\<close>

theorem managed_subdir_exact:
  "validateManagedSubdir s = None \<longleftrightarrow>
     (\<exists>ns res p. (ResolveRepoPaths ns res = Inr p \<or> ResolveTemplatePaths ns res = Inr p) \<and>
        s = PayloadVolumeSubdir p)"
proof
  assume "validateManagedSubdir s = None"
  then obtain ns grp res where "s = join_with ''/'' (container_segs ns grp res @ [''payload''])"
    "valid_id NamespaceID ns" "grp = ''repos'' \<and> valid_id RepoID res \<or> grp = ''templates'' \<and> valid_id TemplateID res"
    by (rule managed_subdir_segments)
  then show "\<exists>ns res p. (ResolveRepoPaths ns res = Inr p \<or> ResolveTemplatePaths ns res = Inr p) \<and>
      s = PayloadVolumeSubdir p"
    using resolve_payload_subdir by metis
next
  assume "\<exists>ns res p. (ResolveRepoPaths ns res = Inr p \<or> ResolveTemplatePaths ns res = Inr p) \<and>
      s = PayloadVolumeSubdir p"
  then show "validateManagedSubdir s = None"
    by (auto simp: ResolveRepoPaths_eq ResolveTemplatePaths_eq intro: payload_subdir_managed)
qed

text \<open>A file below a payload directory of a file system without links.\<close>

lemma example_traversal:
  "ResolvePayloadTraversal ''afscp/namespaces/ns_aa/repos/repo_r1/payload'' ''docs/a%20b.txt'' =
     Inr \<lparr>tp_RootSubdir = ''afscp/namespaces/ns_aa/repos/repo_r1/payload'',
          tp_Segments = [''docs'', ''a b.txt''], tp_NoFollow = True, tp_RejectHardlinks = True\<rparr>"
proof -
  have "validateManagedSubdir ''afscp/namespaces/ns_aa/repos/repo_r1/payload'' = None"
    using payload_subdir_managed [of "''ns_aa''" RepoID "''repo_r1''" "''repos''"]
    by (simp add: container_segs_join ValidateID_def has_prefix_def isASCIIAlnum_def isIDChar_def byte_def)
  then show ?thesis by (simp add: ResolvePayloadTraversal_def example_caller)
qed

theorem traversal_plan_sound_witness:
  "ValidateTraversalPlan
     \<lparr>tp_RootSubdir = ''afscp/namespaces/ns_aa/repos/repo_r1/payload'',
      tp_Segments = [''docs'', ''a b.txt''], tp_NoFollow = True, tp_RejectHardlinks = True\<rparr>
     (Some (\<lambda>segs. Inr \<lparr>entry_Exists = True,
        entry_Type = (if length segs = 1 then EntryDirectory else EntryFile),
        entry_Symlink = False, entry_LinkCount = 1\<rparr>)) = None"
  using traversal_plan_sound [OF example_traversal,
      of "\<lambda>segs. Inr \<lparr>entry_Exists = True,
        entry_Type = (if length segs = 1 then EntryDirectory else EntryFile),
        entry_Symlink = False, entry_LinkCount = 1\<rparr>"]
  by (simp add: entry_admissible_def list_all_iff)

end
