(* ===== verification/Fences.thy ===== *)
theory Fences
  imports Path_Resolver "HOL-Library.Product_Lexorder"
begin

text \<open>
  Repo fences: \<open>internal/fences/fences.go\<close> (fence records, their validation and the decision
  whether an operation may acquire one) and the fence table of
  \<open>internal/store/postgres/repo_fences.go\<close> (listing, insertion and release as conditional
  statements on the rows, with the constraints of \<open>migrations/0001\<close>: primary key, foreign
  keys and the unique index on the repo and kind of the rows not released). The texts of
  errors are a structured value: the sentence of the source or the error it wraps.
\<close>

section \<open>Fence records\<close>

datatype FenceKind = KindWriterSession | KindLifecycle | FenceKindOther string

fun FenceKind_Valid :: "FenceKind \<Rightarrow> bool" where
  "FenceKind_Valid KindWriterSession = True"
| "FenceKind_Valid KindLifecycle = True"
| "FenceKind_Valid (FenceKindOther _) = False"

datatype FenceStatus =
    StatusActive | StatusExpired | StatusRecoveryRequired | StatusReleased | StatusRecovered
  | FenceStatusOther string

fun FenceStatus_Valid :: "FenceStatus \<Rightarrow> bool" where
  "FenceStatus_Valid (FenceStatusOther _) = False"
| "FenceStatus_Valid _ = True"

datatype FenceErrorFamily =
    ErrorFamilyInvalidID | ErrorFamilyWriterSessionFenceHeld | ErrorFamilyRepoLifecycleFenceHeld
  | ErrorFamilyOperationRecoveryRequired

datatype fence_reason =
    FenceText string
  | FenceWrapped path_error
  | FenceUnknownKind FenceKind
  | FenceUnknownStatus FenceStatus
  | FenceUnknownMode string
  | FenceUnexpected FenceStatus string
  | FenceHeldWith FenceKind FenceStatus
  | FenceInvalidState fence_reason

record FenceError =
  fe_Family :: FenceErrorFamily
  fe_Field :: string
  fe_Reason :: fence_reason

record Fence =
  fence_ID :: string
  fence_RepoID :: string
  fence_Kind :: FenceKind
  fence_HolderOperationID :: string
  fence_Status :: FenceStatus
  fence_ExpiresAt :: go_time
  fence_ReleasedAt :: "go_time option"
  fence_RecoveryOperationID :: string
  fence_RecoveryReason :: string
  fence_RecoveryStartedAt :: "go_time option"
  fence_RecoveredAt :: "go_time option"
  fence_CreatedAt :: go_time
  fence_UpdatedAt :: go_time

definition Held :: "Fence \<Rightarrow> bool" where
  "Held fence \<longleftrightarrow> fence_ReleasedAt fence = None \<and> fence_RecoveredAt fence = None"

definition fence_invalid :: "string \<Rightarrow> fence_reason \<Rightarrow> FenceError option" where
  "fence_invalid field reason =
     Some \<lparr>fe_Family = ErrorFamilyInvalidID, fe_Field = field, fe_Reason = reason\<rparr>"

definition validateFenceID :: "IDKind \<Rightarrow> string \<Rightarrow> string \<Rightarrow> FenceError option" where
  "validateFenceID kind field ident =
     (case ValidateID kind ident of None \<Rightarrow> None | Some err \<Rightarrow> fence_invalid field (FenceWrapped err))"

text \<open>The last switch of \<open>ValidateFence\<close>, on the status.\<close>

definition validateFenceStatusTimes :: "Fence \<Rightarrow> FenceError option" where
  "validateFenceStatusTimes fence =
     (case fence_Status fence of
        StatusReleased \<Rightarrow>
          if fence_ReleasedAt fence = None
            then fence_invalid ''released_at'' (FenceText ''released fence must have released_at'')
          else if fence_RecoveredAt fence \<noteq> None
            then fence_invalid ''recovered_at'' (FenceText ''released fence must not have recovered_at'')
          else None
      | StatusRecovered \<Rightarrow>
          if fence_ReleasedAt fence = None
            then fence_invalid ''released_at'' (FenceText ''recovered fence must have released_at'')
          else if fence_RecoveredAt fence = None
            then fence_invalid ''recovered_at'' (FenceText ''recovered fence must have recovered_at'')
          else if fence_RecoveryStartedAt fence = None
            then fence_invalid ''recovery_started_at''
              (FenceText ''recovered fence must have recovery_started_at'')
          else None
      | FenceStatusOther _ \<Rightarrow> None
      | status \<Rightarrow>
          if fence_ReleasedAt fence \<noteq> None
            then fence_invalid ''released_at'' (FenceUnexpected status ''released_at'')
          else if fence_RecoveredAt fence \<noteq> None
            then fence_invalid ''recovered_at'' (FenceUnexpected status ''recovered_at'')
          else None)"

definition ValidateFence :: "Fence \<Rightarrow> FenceError option" where
  "ValidateFence fence =
     (if trim_space (fence_ID fence) = [] then fence_invalid ''id'' (FenceText ''missing fence id'')
      else case validateFenceID RepoID ''repo_id'' (fence_RepoID fence) of Some err \<Rightarrow> Some err
      | None \<Rightarrow>
      if \<not> FenceKind_Valid (fence_Kind fence)
        then fence_invalid ''kind'' (FenceUnknownKind (fence_Kind fence))
      else case validateFenceID OperationID ''holder_operation_id'' (fence_HolderOperationID fence) of
        Some err \<Rightarrow> Some err
      | None \<Rightarrow>
      if \<not> FenceStatus_Valid (fence_Status fence)
        then fence_invalid ''status'' (FenceUnknownStatus (fence_Status fence))
      else if is_zero (fence_ExpiresAt fence)
        then fence_invalid ''expires_at'' (FenceText ''missing fence expiration'')
      else if is_zero (fence_CreatedAt fence)
        then fence_invalid ''created_at'' (FenceText ''missing fence creation time'')
      else if is_zero (fence_UpdatedAt fence)
        then fence_invalid ''updated_at'' (FenceText ''missing fence update time'')
      else case (if fence_RecoveryOperationID fence \<noteq> []
                 then validateFenceID OperationID ''recovery_operation_id'' (fence_RecoveryOperationID fence)
                 else None) of
        Some err \<Rightarrow> Some err
      | None \<Rightarrow> validateFenceStatusTimes fence)"

section \<open>Acquisition\<close>

datatype ConflictMode = ConflictModeFailClosed | ConflictModeWaitOrRecover | ConflictModeOther string

fun ConflictMode_valid :: "ConflictMode \<Rightarrow> bool" where
  "ConflictMode_valid (ConflictModeOther _) = False"
| "ConflictMode_valid _ = True"

record AcquisitionRequest =
  acq_RepoID :: string
  acq_Kind :: FenceKind
  acq_HolderOperationID :: string
  acq_ConflictMode :: ConflictMode

datatype AcquisitionAction = ActionAcquire | ActionDeny | ActionWaitOrRecover

record AcquisitionDecision =
  ad_Allowed :: bool
  ad_Action :: AcquisitionAction
  ad_BlockingFence :: "Fence option"
  ad_Error :: "FenceError option"

definition validateAcquisitionRequest :: "AcquisitionRequest \<Rightarrow> FenceError option" where
  "validateAcquisitionRequest request =
     (case validateFenceID RepoID ''repo_id'' (acq_RepoID request) of Some err \<Rightarrow> Some err
      | None \<Rightarrow>
      if \<not> FenceKind_Valid (acq_Kind request)
        then fence_invalid ''kind'' (FenceUnknownKind (acq_Kind request))
      else case validateFenceID OperationID ''holder_operation_id'' (acq_HolderOperationID request) of
        Some err \<Rightarrow> Some err
      | None \<Rightarrow>
        case acq_ConflictMode request of
          ConflictModeOther m \<Rightarrow> fence_invalid ''conflict_mode'' (FenceUnknownMode m)
        | _ \<Rightarrow> None)"

definition validateFenceRepoID :: "Fence \<Rightarrow> FenceError option" where
  "validateFenceRepoID fence = validateFenceID RepoID ''repo_id'' (fence_RepoID fence)"

definition fence_deny :: "Fence option \<Rightarrow> FenceError \<Rightarrow> AcquisitionDecision" where
  "fence_deny fence err =
     \<lparr>ad_Allowed = False, ad_Action = ActionDeny, ad_BlockingFence = fence, ad_Error = Some err\<rparr>"

definition deny_invalid_state :: "Fence \<Rightarrow> FenceError \<Rightarrow> AcquisitionDecision" where
  "deny_invalid_state fence err =
     fence_deny (Some fence)
       \<lparr>fe_Family = ErrorFamilyOperationRecoveryRequired, fe_Field = fe_Field err,
        fe_Reason = FenceInvalidState (fe_Reason err)\<rparr>"

definition deny_held :: "Fence \<Rightarrow> FenceErrorFamily \<Rightarrow> string \<Rightarrow> fence_reason \<Rightarrow> AcquisitionDecision" where
  "deny_held fence family field reason =
     fence_deny (Some fence) \<lparr>fe_Family = family, fe_Field = field, fe_Reason = reason\<rparr>"

text \<open>One iteration of the loop over the existing fences: None is \<open>continue\<close>.\<close>

definition fence_blocks :: "AcquisitionRequest \<Rightarrow> Fence \<Rightarrow> AcquisitionDecision option" where
  "fence_blocks request fence =
     (case validateFenceRepoID fence of
        Some err \<Rightarrow> Some (deny_invalid_state fence err)
      | None \<Rightarrow>
      if fence_RepoID fence \<noteq> acq_RepoID request then None
      else case ValidateFence fence of
        Some err \<Rightarrow> Some (deny_invalid_state fence err)
      | None \<Rightarrow>
      if \<not> Held fence then None
      else if fence_Status fence = StatusExpired \<or> fence_Status fence = StatusRecoveryRequired
        then Some (deny_held fence ErrorFamilyOperationRecoveryRequired ''status''
               (FenceHeldWith (fence_Kind fence) (fence_Status fence)))
      else case fence_Kind fence of
        KindLifecycle \<Rightarrow>
          Some (deny_held fence ErrorFamilyRepoLifecycleFenceHeld ''fence_kind''
            (FenceText ''held lifecycle fence blocks repo acquisition''))
      | KindWriterSession \<Rightarrow>
          if acq_Kind request = KindLifecycle \<and> acq_ConflictMode request = ConflictModeWaitOrRecover
          then Some \<lparr>ad_Allowed = False, ad_Action = ActionWaitOrRecover,
                     ad_BlockingFence = Some fence, ad_Error = None\<rparr>
          else Some (deny_held fence ErrorFamilyWriterSessionFenceHeld ''fence_kind''
            (FenceText ''held writer-session fence blocks repo acquisition''))
      | kind \<Rightarrow>
          Some (deny_held fence ErrorFamilyOperationRecoveryRequired ''fence_kind''
            (FenceUnknownKind kind)))"

definition CanAcquire :: "AcquisitionRequest \<Rightarrow> Fence list \<Rightarrow> AcquisitionDecision" where
  "CanAcquire request existing =
     (case validateAcquisitionRequest request of
        Some err \<Rightarrow> fence_deny None err
      | None \<Rightarrow>
        case first_error (fence_blocks request) existing of
          Some decision \<Rightarrow> decision
        | None \<Rightarrow> \<lparr>ad_Allowed = True, ad_Action = ActionAcquire, ad_BlockingFence = None, ad_Error = None\<rparr>)"

section \<open>The fence table\<close>

datatype fence_store_error =
    FenceNotValid FenceError
  | FenceDuplicateID
  | FenceUnknownOperation
  | FenceHeldUnique
  | FenceNoRows

text \<open>\<open>repo_fences_held_unique\<close>: one row not released for each repo and kind.\<close>

definition held_clash :: "Fence \<Rightarrow> Fence \<Rightarrow> bool" where
  "held_clash f g \<longleftrightarrow>
     fence_ReleasedAt f = None \<and> fence_ReleasedAt g = None \<and>
     fence_RepoID f = fence_RepoID g \<and> fence_Kind f = fence_Kind g"

text \<open>\<open>CreateRepoFence\<close>: validation, then the INSERT with the constraints of the table.
  \<open>ops\<close> are the identifiers of the operations table, for the foreign keys.\<close>

definition CreateRepoFence :: "string list \<Rightarrow> Fence list \<Rightarrow> Fence \<Rightarrow> fence_store_error + Fence list" where
  "CreateRepoFence ops rows fence =
     (case ValidateFence fence of
        Some err \<Rightarrow> Inl (FenceNotValid err)
      | None \<Rightarrow>
        if list_ex (\<lambda>f. fence_ID f = fence_ID fence) rows then Inl FenceDuplicateID
        else if list_ex (held_clash fence) rows then Inl FenceHeldUnique
        else if fence_HolderOperationID fence \<notin> set ops \<or>
                (fence_RecoveryOperationID fence \<noteq> [] \<and> fence_RecoveryOperationID fence \<notin> set ops)
          then Inl FenceUnknownOperation
        else Inr (rows @ [fence]))"

definition release_matches :: "string \<Rightarrow> string \<Rightarrow> Fence \<Rightarrow> bool" where
  "release_matches repoID fenceID f \<longleftrightarrow>
     fence_RepoID f = repoID \<and> fence_ID f = fenceID \<and> fence_Status f = StatusActive \<and>
     fence_ReleasedAt f = None \<and> fence_RecoveredAt f = None"

definition ReleaseRepoFence ::
    "go_time \<Rightarrow> Fence list \<Rightarrow> string \<Rightarrow> string \<Rightarrow> fence_store_error + Fence list" where
  "ReleaseRepoFence releasedAt rows repoID fenceID =
     (if list_ex (release_matches repoID fenceID) rows
      then Inr (map (\<lambda>f. if release_matches repoID fenceID f
                          then f\<lparr>fence_Status := StatusReleased, fence_ReleasedAt := Some releasedAt,
                                 fence_UpdatedAt := releasedAt\<rparr> else f) rows)
      else Inl FenceNoRows)"

text \<open>The two listings; \<open>collate\<close> is the position of a text in the collation order of the
  database. A row that does not validate makes the whole listing fail.\<close>

definition scan_fences :: "Fence list \<Rightarrow> FenceError + Fence list" where
  "scan_fences rows = (case first_error ValidateFence rows of Some err \<Rightarrow> Inl err | None \<Rightarrow> Inr rows)"

definition ListHeldRepoFences ::
    "(string \<Rightarrow> nat) \<Rightarrow> Fence list \<Rightarrow> string \<Rightarrow> FenceError + Fence list" where
  "ListHeldRepoFences collate rows repoID =
     scan_fences (sort_key (\<lambda>f. (fence_CreatedAt f, collate (fence_ID f)))
       (filter (\<lambda>f. fence_RepoID f = repoID \<and> fence_ReleasedAt f = None) rows))"

definition ListAllHeldRepoFences :: "(string \<Rightarrow> nat) \<Rightarrow> Fence list \<Rightarrow> FenceError + Fence list" where
  "ListAllHeldRepoFences collate rows =
     scan_fences (sort_key (\<lambda>f. (collate (fence_RepoID f), fence_CreatedAt f, collate (fence_ID f)))
       (filter (\<lambda>f. fence_ReleasedAt f = None) rows))"

section \<open>Lemmas on fences\<close>

lemma fence_invalid_neq [simp]: "fence_invalid field reason \<noteq> None"
  by (simp add: fence_invalid_def)

lemma held_clash_sym: "held_clash f g \<Longrightarrow> held_clash g f"
  by (simp add: held_clash_def)

lemma valid_fence_held:
  "ValidateFence f = None \<Longrightarrow> Held f \<longleftrightarrow> fence_ReleasedAt f = None"
  by (auto simp: ValidateFence_def validateFenceStatusTimes_def Held_def fence_invalid_def
      split: if_splits option.splits FenceStatus.splits)

lemma valid_fence_fields:
  "ValidateFence f = None \<Longrightarrow>
     valid_id RepoID (fence_RepoID f) \<and> FenceKind_Valid (fence_Kind f) \<and>
     valid_id OperationID (fence_HolderOperationID f) \<and> FenceStatus_Valid (fence_Status f)"
  by (auto simp: ValidateFence_def validateFenceID_def fence_invalid_def
      split: if_splits option.splits)

lemma validateAcquisitionRequest_None:
  "validateAcquisitionRequest r = None \<longleftrightarrow>
     valid_id RepoID (acq_RepoID r) \<and> FenceKind_Valid (acq_Kind r) \<and>
     valid_id OperationID (acq_HolderOperationID r) \<and> ConflictMode_valid (acq_ConflictMode r)"
  by (auto simp: validateAcquisitionRequest_def validateFenceID_def fence_invalid_def
      split: option.splits ConflictMode.splits)

lemma fence_blocks_None:
  "fence_blocks r f = None \<longleftrightarrow>
     valid_id RepoID (fence_RepoID f) \<and>
     (fence_RepoID f = acq_RepoID r \<longrightarrow> ValidateFence f = None \<and> \<not> Held f)"
  by (auto simp: fence_blocks_def validateFenceRepoID_def validateFenceID_def fence_invalid_def
      split: option.splits FenceKind.splits if_splits)

lemma fence_blocks_denied: "fence_blocks r f = Some d \<Longrightarrow> \<not> ad_Allowed d \<and> ad_BlockingFence d = Some f"
  by (auto simp: fence_blocks_def deny_invalid_state_def deny_held_def fence_deny_def
      split: option.splits FenceKind.splits if_splits)

lemma fence_blocks_wait:
  "fence_blocks r f = Some d \<Longrightarrow> ad_Action d \<noteq> ActionAcquire \<and>
     (ad_Action d = ActionWaitOrRecover \<longrightarrow> acq_Kind r = KindLifecycle \<and>
        acq_ConflictMode r = ConflictModeWaitOrRecover \<and> fence_Kind f = KindWriterSession)"
  by (auto simp: fence_blocks_def deny_invalid_state_def deny_held_def fence_deny_def
      split: option.splits FenceKind.splits if_splits)

lemma CanAcquire_allowed:
  "ad_Allowed (CanAcquire r fs) \<longleftrightarrow>
     validateAcquisitionRequest r = None \<and> (\<forall>f \<in> set fs. fence_blocks r f = None)"
proof (cases "first_error (fence_blocks r) fs")
  case None
  then have "\<forall>f \<in> set fs. fence_blocks r f = None" by (rule first_error_None [THEN iffD1])
  moreover have "ad_Allowed (CanAcquire r fs) \<longleftrightarrow> validateAcquisitionRequest r = None"
    using None by (cases "validateAcquisitionRequest r") (simp_all add: CanAcquire_def fence_deny_def)
  ultimately show ?thesis by blast
next
  case (Some d)
  then obtain f where f: "f \<in> set fs" "fence_blocks r f = Some d"
    by (rule bexE [OF first_error_Some])
  then have "\<not> ad_Allowed (CanAcquire r fs)"
    using Some fence_blocks_denied [OF f(2)]
    by (cases "validateAcquisitionRequest r") (simp_all add: CanAcquire_def fence_deny_def)
  moreover have "\<not> (\<forall>f \<in> set fs. fence_blocks r f = None)" using f by (metis option.distinct(1))
  ultimately show ?thesis by blast
qed

section \<open>The table under any interleaving of its operations\<close>

text \<open>Workers insert and release fences in any order; the clock of the store is never zero.\<close>

inductive fence_step :: "string list \<Rightarrow> Fence list \<Rightarrow> Fence list \<Rightarrow> bool" for ops where
  create: "CreateRepoFence ops rows fence = Inr rows' \<Longrightarrow> fence_step ops rows rows'"
| release: "now \<noteq> 0 \<Longrightarrow> ReleaseRepoFence now rows repoID fenceID = Inr rows' \<Longrightarrow> fence_step ops rows rows'"

inductive_cases fence_stepE: "fence_step ops rows rows'"

definition held_unique :: "Fence list \<Rightarrow> bool" where
  "held_unique rows \<longleftrightarrow>
     (\<forall>f \<in> set rows. \<forall>g \<in> set rows. held_clash f g \<longrightarrow> fence_ID f = fence_ID g)"

definition fence_inv :: "Fence list \<Rightarrow> bool" where
  "fence_inv rows \<longleftrightarrow>
     list_all (\<lambda>f. ValidateFence f = None) rows \<and> distinct (map fence_ID rows) \<and> held_unique rows"

text \<open>The fences held on a repo for a kind.\<close>

definition held_on :: "Fence list \<Rightarrow> string \<times> FenceKind \<Rightarrow> string set" where
  "held_on rows key =
     fence_ID ` set (filter (\<lambda>f. (fence_RepoID f, fence_Kind f) = key \<and> Held f) rows)"

lemma create_inv:
  assumes "CreateRepoFence ops rows fence = Inr rows'" "fence_inv rows"
  shows "fence_inv rows'"
proof -
  have *: "ValidateFence fence = None" "\<not> list_ex (\<lambda>f. fence_ID f = fence_ID fence) rows"
    "\<not> list_ex (held_clash fence) rows" "rows' = rows @ [fence]"
    using assms(1) by (auto simp: CreateRepoFence_def split: option.splits if_splits)
  have "held_unique rows'"
    unfolding held_unique_def
  proof (intro ballI impI)
    fix f g
    assume fg: "f \<in> set rows'" "g \<in> set rows'" "held_clash f g"
    have "\<not> held_clash fence h" "\<not> held_clash h fence" if "h \<in> set rows" for h
      using *(3) that held_clash_sym [of h fence] by (auto simp: list_ex_iff)
    with fg *(4) have "f = g \<or> f \<in> set rows \<and> g \<in> set rows" by (simp add: disj_commute) blast
    with fg(3) assms(2) show "fence_ID f = fence_ID g"
      unfolding fence_inv_def held_unique_def by blast
  qed
  with * assms(2) show ?thesis
    by (auto simp: fence_inv_def list_ex_iff)
qed

lemma released_valid:
  assumes "ValidateFence f = None" "release_matches r i f" "now \<noteq> 0"
  shows "ValidateFence (f\<lparr>fence_Status := StatusReleased, fence_ReleasedAt := Some now, fence_UpdatedAt := now\<rparr>) = None"
  using assms
  by (auto simp: ValidateFence_def validateFenceStatusTimes_def release_matches_def is_zero_def
      validateFenceID_def split: if_splits option.splits)

lemma release_inv:
  assumes "ReleaseRepoFence now rows r i = Inr rows'" "now \<noteq> 0" "fence_inv rows"
  shows "fence_inv rows'"
proof -
  let ?u = "\<lambda>f. if release_matches r i f
      then f\<lparr>fence_Status := StatusReleased, fence_ReleasedAt := Some now, fence_UpdatedAt := now\<rparr> else f"
  have rows': "rows' = map ?u rows"
    using assms(1) by (auto simp: ReleaseRepoFence_def split: if_splits)
  have "list_all (\<lambda>f. ValidateFence f = None) rows'"
    using assms(3) released_valid [OF _ _ assms(2)] by (auto simp: rows' fence_inv_def list_all_iff)
  moreover have "map fence_ID rows' = map fence_ID rows" by (simp add: rows')
  moreover have "held_unique rows'"
  proof -
    have "held_clash (?u f) (?u g) \<Longrightarrow> held_clash f g" for f g
      by (auto simp: held_clash_def split: if_splits)
    moreover have "fence_ID (?u f) = fence_ID f" for f by simp
    ultimately have "fence_ID (?u f) = fence_ID (?u g)"
      if "f \<in> set rows" "g \<in> set rows" "held_clash (?u f) (?u g)" for f g
      using that assms(3) unfolding fence_inv_def held_unique_def by metis
    then show ?thesis
      unfolding rows' held_unique_def set_map ball_simps by blast
  qed
  ultimately show ?thesis using assms(3) by (simp add: fence_inv_def)
qed

lemma fence_step_inv: "fence_inv rows \<Longrightarrow> fence_step ops rows rows' \<Longrightarrow> fence_inv rows'"
  by (auto elim!: fence_stepE intro: create_inv release_inv)

lemma held_on_step:
  assumes "fence_inv rows" "fence_step ops rows rows'" "l \<in> held_on rows' key" "l \<notin> held_on rows key"
  shows "held_on rows key = {}"
  using assms(2)
proof (rule fence_stepE)
  fix fence
  assume "CreateRepoFence ops rows fence = Inr rows'"
  then have *: "ValidateFence fence = None" "\<not> list_ex (held_clash fence) rows" "rows' = rows @ [fence]"
    by (auto simp: CreateRepoFence_def split: option.splits if_splits)
  then have "(fence_RepoID fence, fence_Kind fence) = key" "Held fence"
    using assms(3,4) by (auto simp: held_on_def)
  with * assms(1) show ?thesis
    by (auto simp: held_on_def list_ex_iff held_clash_def Held_def)
next
  fix now r i
  assume "ReleaseRepoFence now rows r i = Inr rows'"
  then have "l \<in> held_on rows key"
    using assms(3) by (auto simp: ReleaseRepoFence_def held_on_def Held_def split: if_splits)
  with assms(4) show ?thesis by contradiction
qed

text \<open>
  The interface of a table of exclusive holders: its steps keep an invariant, the invariant
  allows one holder for a key, and a new holder appears only where there was none.
\<close>

locale exclusive_holders =
  fixes step :: "'t \<Rightarrow> 't \<Rightarrow> bool"
    and inv :: "'t \<Rightarrow> bool"
    and held :: "'t \<Rightarrow> 'k \<Rightarrow> 'l set"
  assumes step_inv: "inv t \<Longrightarrow> step t u \<Longrightarrow> inv u"
    and one_holder: "inv t \<Longrightarrow> l \<in> held t k \<Longrightarrow> l' \<in> held t k \<Longrightarrow> l = l'"
    and new_holder: "inv t \<Longrightarrow> step t u \<Longrightarrow> l \<in> held u k \<Longrightarrow> l \<notin> held t k \<Longrightarrow> held t k = {}"
begin

lemma steps_inv: "step\<^sup>*\<^sup>* t u \<Longrightarrow> inv t \<Longrightarrow> inv u"
  by (induction rule: rtranclp_induct) (auto intro: step_inv)

text \<open>A change of holder passes through a moment without a holder.\<close>

lemma handover:
  assumes "step\<^sup>*\<^sup>* t u" "inv t" "l \<in> held t k" "l' \<in> held u k" "l \<noteq> l'"
  shows "\<exists>v. step\<^sup>*\<^sup>* t v \<and> step\<^sup>*\<^sup>* v u \<and> held v k = {}"
  using assms(1,4)
proof (induction rule: rtranclp_induct)
  case base
  with assms(2,3,5) one_holder show ?case by blast
next
  case (step v w)
  show ?case
  proof (cases "l' \<in> held v k")
    case True
    with step show ?thesis by (meson rtranclp.rtrancl_into_rtrancl)
  next
    case False
    with step new_holder steps_inv [OF step(1) assms(2)] have "held v k = {}" by blast
    with step show ?thesis by blast
  qed
qed

end

interpretation fence_table: exclusive_holders "fence_step ops" fence_inv held_on for ops
proof
  show "fence_inv t \<Longrightarrow> fence_step ops t u \<Longrightarrow> fence_inv u" for t u
    by (rule fence_step_inv)
  show "fence_inv t \<Longrightarrow> l \<in> held_on t k \<Longrightarrow> l' \<in> held_on t k \<Longrightarrow> l = l'" for t l l' k
  proof -
    assume inv: "fence_inv t" and l: "l \<in> held_on t k" "l' \<in> held_on t k"
    obtain f where f: "f \<in> set t" "l = fence_ID f" "(fence_RepoID f, fence_Kind f) = k" "Held f"
      using l(1) by (auto simp: held_on_def)
    obtain g where g: "g \<in> set t" "l' = fence_ID g" "(fence_RepoID g, fence_Kind g) = k" "Held g"
      using l(2) by (auto simp: held_on_def)
    have "held_clash f g" using f g by (auto simp: held_clash_def Held_def)
    then show "l = l'" using inv f(1,2) g(1,2) unfolding fence_inv_def held_unique_def by metis
  qed
  show "fence_inv t \<Longrightarrow> fence_step ops t u \<Longrightarrow> l \<in> held_on u k \<Longrightarrow> l \<notin> held_on t k \<Longrightarrow> held_on t k = {}"
    for t u l k
    by (rule held_on_step)
qed

text \<open>The two kinds a valid fence can have bound the number of fences held on a repo.\<close>

lemma held_rows_at_most_two:
  assumes "fence_inv rows"
  shows "length (filter (\<lambda>f. fence_RepoID f = repo \<and> fence_ReleasedAt f = None) rows) \<le> 2"
proof -
  let ?held = "filter (\<lambda>f. fence_RepoID f = repo \<and> fence_ReleasedAt f = None) rows"
  have valid: "ValidateFence f = None" if "f \<in> set rows" for f
    using assms that by (simp add: fence_inv_def list_all_iff)
  have "fence_Kind f \<in> {KindWriterSession, KindLifecycle}" if "f \<in> set rows" for f
    using valid_fence_fields [OF valid [OF that]] by (cases "fence_Kind f") auto
  then have sub: "fence_Kind ` set ?held \<subseteq> {KindWriterSession, KindLifecycle}" by auto
  have ids: "distinct (map fence_ID ?held)"
    using assms by (simp add: fence_inv_def distinct_map_filter)
  have "inj_on fence_Kind (set ?held)"
  proof (rule inj_onI)
    fix f g
    assume fg: "f \<in> set ?held" "g \<in> set ?held" "fence_Kind f = fence_Kind g"
    then have "held_clash f g" by (auto simp: held_clash_def)
    with fg assms have same: "fence_ID f = fence_ID g" unfolding fence_inv_def held_unique_def by auto
    have "inj_on fence_ID (set ?held)" using ids by (simp only: distinct_map)
    then show "f = g" using same fg(1,2) by (rule inj_onD)
  qed
  then have "card (set ?held) \<le> card {KindWriterSession, KindLifecycle}"
    using sub by (rule card_inj_on_le) simp
  moreover have "distinct ?held" using ids by (simp only: distinct_map)
  then have "length ?held = card (set ?held)" by (simp only: distinct_card)
  ultimately show ?thesis by simp
qed

lemma list_held_ok:
  assumes "fence_inv rows"
  obtains fs where "ListHeldRepoFences collate rows repo = Inr fs" "length fs \<le> 2"
    "set fs = {f \<in> set rows. fence_RepoID f = repo \<and> Held f}"
proof -
  let ?held = "filter (\<lambda>f. fence_RepoID f = repo \<and> fence_ReleasedAt f = None) rows"
  let ?fs = "sort_key (\<lambda>f. (fence_CreatedAt f, collate (fence_ID f))) ?held"
  have valid: "ValidateFence f = None" if "f \<in> set rows" for f
    using assms that by (simp add: fence_inv_def list_all_iff)
  have "first_error ValidateFence ?fs = None"
    unfolding first_error_None using valid by auto
  then have "ListHeldRepoFences collate rows repo = Inr ?fs"
    by (simp add: ListHeldRepoFences_def scan_fences_def)
  moreover have "length ?fs \<le> 2" using held_rows_at_most_two [OF assms] by simp
  moreover have "set ?fs = {f \<in> set rows. fence_RepoID f = repo \<and> Held f}"
    using valid valid_fence_held by auto
  ultimately show thesis by (rule that)
qed

section \<open>Properties\<close>

text \<open>C21. Whatever workers do concurrently with the fence table, no two fences of one kind are
  held on a repo, and when one fence of a kind is followed by another on the same repo,
  there was a moment between them with none held: a fence is never taken from its holder.\<close>

theorem fence_mutual_exclusion:
  assumes "(fence_step ops)\<^sup>*\<^sup>* [] rows" "(fence_step ops)\<^sup>*\<^sup>* rows rows'"
    and "l \<in> held_on rows (repo, kind)" "l' \<in> held_on rows' (repo, kind)"
  shows "held_on rows' (repo, kind) = {l'} \<and>
    (l = l' \<or> (\<exists>mid. (fence_step ops)\<^sup>*\<^sup>* rows mid \<and> (fence_step ops)\<^sup>*\<^sup>* mid rows' \<and> held_on mid (repo, kind) = {}))"
proof -
  have "fence_inv []" by (simp add: fence_inv_def held_unique_def)
  then have inv: "fence_inv rows" using assms(1) fence_table.steps_inv by blast
  then have "fence_inv rows'" using assms(2) fence_table.steps_inv by blast
  then have "held_on rows' (repo, kind) = {l'}"
    using assms(4) fence_table.one_holder by blast
  with fence_table.handover [OF assms(2) inv assms(3,4)] show ?thesis by blast
qed

text \<open>C22. The decision to acquire a fence, taken on the listing of any reachable table, is
  permission exactly when no fence at all is held on the repo: the listing never fails and
  has at most two fences, a request that is refused names a blocking fence that is held,
  and waiting is only ever advised to a lifecycle request that asked for it, behind a
  writer-session fence.\<close>

theorem fence_acquisition_exact:
  assumes "(fence_step ops)\<^sup>*\<^sup>* [] rows" "validateAcquisitionRequest r = None"
  shows "\<exists>fs. ListHeldRepoFences collate rows (acq_RepoID r) = Inr fs \<and> length fs \<le> 2 \<and>
    (let d = CanAcquire r fs in
      (ad_Allowed d \<longleftrightarrow> (\<forall>f \<in> set rows. fence_RepoID f = acq_RepoID r \<longrightarrow> \<not> Held f)) \<and>
      (ad_Allowed d \<longleftrightarrow> ad_Action d = ActionAcquire) \<and>
      (\<not> ad_Allowed d \<longrightarrow> (\<exists>f \<in> set rows. ad_BlockingFence d = Some f \<and> fence_RepoID f = acq_RepoID r \<and> Held f \<and>
         (ad_Action d = ActionWaitOrRecover \<longrightarrow> acq_Kind r = KindLifecycle \<and>
            acq_ConflictMode r = ConflictModeWaitOrRecover \<and> fence_Kind f = KindWriterSession))))"
proof -
  have "fence_inv []" by (simp add: fence_inv_def held_unique_def)
  then have inv: "fence_inv rows" using assms(1) fence_table.steps_inv by blast
  obtain fs where fs: "ListHeldRepoFences collate rows (acq_RepoID r) = Inr fs" "length fs \<le> 2"
    and set_fs: "set fs = {f \<in> set rows. fence_RepoID f = acq_RepoID r \<and> Held f}"
    by (rule list_held_ok [OF inv])
  have valid: "ValidateFence f = None" "fence_RepoID f = acq_RepoID r" "Held f" if "f \<in> set fs" for f
    using that inv set_fs by (auto simp: fence_inv_def list_all_iff)
  have dec: "ad_Allowed d = (ad_Action d = ActionAcquire)
      \<and> (ad_Allowed d \<longleftrightarrow> fs = []) \<and> (fs \<noteq> [] \<longrightarrow> ad_BlockingFence d = Some (hd fs) \<and>
        (ad_Action d = ActionWaitOrRecover \<longrightarrow> acq_Kind r = KindLifecycle \<and>
            acq_ConflictMode r = ConflictModeWaitOrRecover \<and> fence_Kind (hd fs) = KindWriterSession))"
    if d: "d = CanAcquire r fs" for d
  proof (cases fs)
    case Nil
    then show ?thesis using assms(2) d by (simp add: CanAcquire_def)
  next
    case (Cons f rest)
    with valid [of f] have f: "fence_blocks r f \<noteq> None" by (simp add: fence_blocks_None)
    then obtain e where e: "fence_blocks r f = Some e" by auto
    then have "d = e" using Cons d assms(2) by (simp add: CanAcquire_def)
    then show ?thesis using e fence_blocks_wait [OF e] fence_blocks_denied [OF e] Cons by simp
  qed
  have "(\<forall>f \<in> set rows. fence_RepoID f = acq_RepoID r \<longrightarrow> \<not> Held f) \<longleftrightarrow> fs = []"
    using set_fs by (cases fs) auto
  moreover have "fs \<noteq> [] \<Longrightarrow> hd fs \<in> set rows \<and> fence_RepoID (hd fs) = acq_RepoID r \<and> Held (hd fs)"
    using set_fs hd_in_set [of fs] by auto
  ultimately show ?thesis
    using dec [OF refl] fs unfolding Let_def by (intro exI [of _ fs]) metis
qed

section \<open>A concrete run\<close>

definition example_fence :: "string \<Rightarrow> string \<Rightarrow> Fence" where
  "example_fence ident holder =
     \<lparr>fence_ID = ident, fence_RepoID = ''repo_r1'', fence_Kind = KindLifecycle,
      fence_HolderOperationID = holder, fence_Status = StatusActive, fence_ExpiresAt = 50,
      fence_ReleasedAt = None, fence_RecoveryOperationID = [], fence_RecoveryReason = [],
      fence_RecoveryStartedAt = None, fence_RecoveredAt = None, fence_CreatedAt = 10, fence_UpdatedAt = 10\<rparr>"

definition example_released :: Fence where
  "example_released = (example_fence ''f1'' ''op_a1'')
     \<lparr>fence_Status := StatusReleased, fence_ReleasedAt := Some 20, fence_UpdatedAt := 20\<rparr>"

abbreviation example_ops :: "string list" where
  "example_ops \<equiv> [''op_a1'', ''op_b2'']"

lemma example_ids:
  "valid_id RepoID ''repo_r1''" "valid_id OperationID ''op_a1''" "valid_id OperationID ''op_b2''"
  by (simp_all add: ValidateID_def has_prefix_def isASCIIAlnum_def isIDChar_def byte_def)

lemma example_trims: "trim_space ''f1'' = ''f1''" "trim_space ''f2'' = ''f2''"
  by (simp_all add: trim_space_id is_space_byte_def byte_def)

lemma example_valid:
  "ValidateFence (example_fence ''f1'' ''op_a1'') = None"
  "ValidateFence (example_fence ''f2'' ''op_b2'') = None"
  by (simp_all add: ValidateFence_def example_fence_def validateFenceID_def is_zero_def
      validateFenceStatusTimes_def example_ids example_trims)

lemma example_run:
  "CreateRepoFence example_ops [] (example_fence ''f1'' ''op_a1'') = Inr [example_fence ''f1'' ''op_a1'']"
  "ReleaseRepoFence 20 [example_fence ''f1'' ''op_a1''] ''repo_r1'' ''f1'' = Inr [example_released]"
  "CreateRepoFence example_ops [example_released] (example_fence ''f2'' ''op_b2'') =
     Inr [example_released, example_fence ''f2'' ''op_b2'']"
  by (simp_all only: CreateRepoFence_def example_valid)
    (simp_all add: ReleaseRepoFence_def release_matches_def example_released_def example_fence_def held_clash_def)

lemma example_steps:
  "(fence_step example_ops)\<^sup>*\<^sup>* [] [example_fence ''f1'' ''op_a1'']"
  "(fence_step example_ops)\<^sup>*\<^sup>* [example_fence ''f1'' ''op_a1''] [example_released, example_fence ''f2'' ''op_b2'']"
proof -
  show "(fence_step example_ops)\<^sup>*\<^sup>* [] [example_fence ''f1'' ''op_a1'']"
    by (rule r_into_rtranclp) (rule fence_step.create [OF example_run(1)])
  have "fence_step example_ops [example_fence ''f1'' ''op_a1''] [example_released]"
    by (rule fence_step.release [OF _ example_run(2)]) simp
  moreover have "fence_step example_ops [example_released] [example_released, example_fence ''f2'' ''op_b2'']"
    by (rule fence_step.create [OF example_run(3)])
  ultimately show "(fence_step example_ops)\<^sup>*\<^sup>* [example_fence ''f1'' ''op_a1'']
      [example_released, example_fence ''f2'' ''op_b2'']"
    by (meson rtranclp.rtrancl_refl rtranclp.rtrancl_into_rtrancl)
qed

lemma example_held:
  "held_on [example_fence ''f1'' ''op_a1''] (''repo_r1'', KindLifecycle) = {''f1''}"
  "held_on [example_released, example_fence ''f2'' ''op_b2''] (''repo_r1'', KindLifecycle) = {''f2''}"
  by (simp_all add: held_on_def example_fence_def example_released_def Held_def)

theorem fence_mutual_exclusion_witness:
  "\<exists>mid. (fence_step example_ops)\<^sup>*\<^sup>* [example_fence ''f1'' ''op_a1''] mid \<and>
     (fence_step example_ops)\<^sup>*\<^sup>* mid [example_released, example_fence ''f2'' ''op_b2''] \<and>
     held_on mid (''repo_r1'', KindLifecycle) = {}"
  using fence_mutual_exclusion [OF example_steps, of "''f1''" "''repo_r1''" KindLifecycle "''f2''"]
  by (auto simp: example_held)

definition example_acquisition :: AcquisitionRequest where
  "example_acquisition = \<lparr>acq_RepoID = ''repo_r1'', acq_Kind = KindLifecycle,
     acq_HolderOperationID = ''op_b2'', acq_ConflictMode = ConflictModeFailClosed\<rparr>"

lemma example_acquisition_valid: "validateAcquisitionRequest example_acquisition = None"
  by (simp add: example_acquisition_def validateAcquisitionRequest_None example_ids)

theorem fence_acquisition_exact_witness:
  "\<exists>fs. ListHeldRepoFences (\<lambda>_. 0) [example_fence ''f1'' ''op_a1''] ''repo_r1'' = Inr fs \<and>
     \<not> ad_Allowed (CanAcquire example_acquisition fs) \<and>
     ad_BlockingFence (CanAcquire example_acquisition fs) = Some (example_fence ''f1'' ''op_a1'')"
proof -
  have r: "acq_RepoID example_acquisition = ''repo_r1''" by (simp add: example_acquisition_def)
  have h: "fence_RepoID (example_fence ''f1'' ''op_a1'') = ''repo_r1''" "Held (example_fence ''f1'' ''op_a1'')"
    by (simp_all add: example_fence_def Held_def)
  show ?thesis
    using fence_acquisition_exact [OF example_steps(1) example_acquisition_valid, of "\<lambda>_. 0"] h
    unfolding Let_def r by (elim exE) (rule exI, auto)
qed

end
