(* ===== verification/Session_State.thy ===== *)
theory Session_State
  imports Path_Resolver
begin

text \<open>
  Session gates: \<open>internal/sessionstate/sessionstate.go\<close>. Before a repo is restored no writer
  may be left, before its lifecycle changes no session at all; both gates look at the export
  sessions and workload mounts stored for the repo and deny on anything active, stale or
  malformed. A session is released from blocking only by evidence recorded in its row.
\<close>

section \<open>Sessions\<close>

datatype AccessMode = AccessModeReadOnly | AccessModeReadWrite | AccessModeOther string

datatype ExportStatus =
    ExportStatusActive | ExportStatusRevoking | ExportStatusRevoked | ExportStatusExpired
  | ExportStatusFailed | ExportStatusOther string

datatype MountStatus =
    MountStatusIssued | MountStatusPending | MountStatusActive | MountStatusReleasing
  | MountStatusReleased | MountStatusRevoked | MountStatusExpired | MountStatusFailed
  | MountStatusOther string

datatype SessionErrorFamily =
    SessionNoError
  | SessionInternalError | ActiveWriterSessions | StaleWriterSessionUncertain
  | ActiveSessionsBlockLifecycle | StaleSessionsBlockLifecycle

datatype SessionAction = SessionActionAllow | SessionActionDeny

record ExportSession =
  es_ID :: string
  es_NamespaceID :: string
  es_RepoID :: string
  es_Mode :: AccessMode
  es_Status :: ExportStatus
  es_ExpiresAt :: go_time
  es_ActiveRequestCount :: go_int
  es_ActiveWriteCount :: go_int
  es_LastObservedAt :: "go_time option"
  es_LastGatewayHeartbeatAt :: "go_time option"
  es_GatewayHeartbeatExpiresAt :: "go_time option"
  es_WriteDrainedAt :: "go_time option"
  es_TerminalObservedAt :: "go_time option"
  es_StatusReason :: string
  es_CreatedAt :: go_time
  es_UpdatedAt :: go_time

record WorkloadMountBinding =
  mb_ID :: string
  mb_NamespaceID :: string
  mb_RepoID :: string
  mb_ReadOnly :: bool
  mb_Status :: MountStatus
  mb_LeaseExpiresAt :: go_time
  mb_ConfirmedUnmountedAt :: "go_time option"
  mb_UnableToWriteAt :: "go_time option"
  mb_TerminalObservedAt :: "go_time option"
  mb_CreatedAt :: go_time
  mb_UpdatedAt :: go_time

record GateRequest =
  gr_NamespaceID :: string
  gr_RepoID :: string
  gr_Now :: go_time
  gr_ExportSessions :: "ExportSession list"
  gr_Mounts :: "WorkloadMountBinding list"

record GateDecision =
  gd_Allowed :: bool
  gd_Action :: SessionAction
  gd_ErrorFamily :: SessionErrorFamily
  gd_Reason :: string
  gd_BlockingKind :: string

datatype gateKind = gateRestoreWriter | gateLifecycleDrain

datatype blockerClass = blockerNone | blockerActive | blockerStale

datatype session_error = SessionPathError path_error | errInvalidTime | errInvalidSession

section \<open>Validation\<close>

fun AccessMode_valid :: "AccessMode \<Rightarrow> bool" where
  "AccessMode_valid (AccessModeOther _) = False"
| "AccessMode_valid _ = True"

fun ExportStatus_valid :: "ExportStatus \<Rightarrow> bool" where
  "ExportStatus_valid (ExportStatusOther _) = False"
| "ExportStatus_valid _ = True"

fun MountStatus_valid :: "MountStatus \<Rightarrow> bool" where
  "MountStatus_valid (MountStatusOther _) = False"
| "MountStatus_valid _ = True"

fun exportTerminal :: "ExportStatus \<Rightarrow> bool" where
  "exportTerminal ExportStatusRevoked = True"
| "exportTerminal ExportStatusExpired = True"
| "exportTerminal ExportStatusFailed = True"
| "exportTerminal _ = False"

fun mountTerminal :: "MountStatus \<Rightarrow> bool" where
  "mountTerminal MountStatusReleased = True"
| "mountTerminal MountStatusRevoked = True"
| "mountTerminal MountStatusExpired = True"
| "mountTerminal MountStatusFailed = True"
| "mountTerminal _ = False"

definition validateTarget :: "GateRequest \<Rightarrow> session_error option" where
  "validateTarget request =
     (case ValidateID NamespaceID (gr_NamespaceID request) of Some err \<Rightarrow> Some (SessionPathError err)
      | None \<Rightarrow>
      case ValidateID RepoID (gr_RepoID request) of Some err \<Rightarrow> Some (SessionPathError err)
      | None \<Rightarrow> if is_zero (gr_Now request) then Some errInvalidTime else None)"

definition validateExport :: "ExportSession \<Rightarrow> session_error option" where
  "validateExport session =
     (case ValidateID ExportID (es_ID session) of Some err \<Rightarrow> Some (SessionPathError err)
      | None \<Rightarrow>
      case ValidateID NamespaceID (es_NamespaceID session) of Some err \<Rightarrow> Some (SessionPathError err)
      | None \<Rightarrow>
      case ValidateID RepoID (es_RepoID session) of Some err \<Rightarrow> Some (SessionPathError err)
      | None \<Rightarrow>
        if \<not> AccessMode_valid (es_Mode session) \<or> \<not> ExportStatus_valid (es_Status session) \<or>
           is_zero (es_ExpiresAt session) then Some errInvalidSession
        else if es_ActiveRequestCount session < 0 \<or> es_ActiveWriteCount session < 0 \<or>
           es_ActiveRequestCount session < es_ActiveWriteCount session then Some errInvalidSession
        else if exportTerminal (es_Status session) \<and>
           (es_ActiveRequestCount session \<noteq> 0 \<or> es_ActiveWriteCount session \<noteq> 0) then Some errInvalidSession
        else None)"

definition validateMount :: "WorkloadMountBinding \<Rightarrow> session_error option" where
  "validateMount mount =
     (case ValidateID WorkloadMountBindingID (mb_ID mount) of Some err \<Rightarrow> Some (SessionPathError err)
      | None \<Rightarrow>
      case ValidateID NamespaceID (mb_NamespaceID mount) of Some err \<Rightarrow> Some (SessionPathError err)
      | None \<Rightarrow>
      case ValidateID RepoID (mb_RepoID mount) of Some err \<Rightarrow> Some (SessionPathError err)
      | None \<Rightarrow>
        if \<not> MountStatus_valid (mb_Status mount) \<or> is_zero (mb_LeaseExpiresAt mount)
        then Some errInvalidSession else None)"

section \<open>Blockers\<close>

definition nonZeroTimePtr :: "go_time option \<Rightarrow> bool" where
  "nonZeroTimePtr v = non_zero_time_ptr v"

definition exportObservationStale :: "ExportSession \<Rightarrow> go_time \<Rightarrow> bool" where
  "exportObservationStale session now =
     (if es_LastObservedAt session = None then True
      else case es_GatewayHeartbeatExpiresAt session of
        None \<Rightarrow> True
      | Some expires \<Rightarrow> \<not> now < expires)"

definition exportWriterDrained :: "ExportSession \<Rightarrow> go_time \<Rightarrow> bool" where
  "exportWriterDrained session now =
     (if es_Mode session \<noteq> AccessModeReadWrite \<or> es_ActiveWriteCount session \<noteq> 0 \<or>
         \<not> nonZeroTimePtr (es_WriteDrainedAt session) then False
      else if es_ActiveRequestCount session < 0 \<or> es_ActiveWriteCount session < 0 then False
      else es_Status session = ExportStatusRevoking \<or> \<not> now < es_ExpiresAt session)"

definition exportHasTerminalEvidence :: "ExportSession \<Rightarrow> bool" where
  "exportHasTerminalEvidence session =
     (if \<not> nonZeroTimePtr (es_TerminalObservedAt session) then False
      else case es_Status session of
        ExportStatusRevoked \<Rightarrow> True
      | ExportStatusExpired \<Rightarrow> True
      | ExportStatusFailed \<Rightarrow> trim_space (es_StatusReason session) \<noteq> []
      | _ \<Rightarrow> False)"

definition exportBlocker :: "gateKind \<Rightarrow> ExportSession \<Rightarrow> go_time \<Rightarrow> blockerClass" where
  "exportBlocker kind session now =
     (if kind = gateRestoreWriter \<and> es_Mode session \<noteq> AccessModeReadWrite then blockerNone
      else if exportTerminal (es_Status session) then
        (if \<not> exportHasTerminalEvidence session then blockerStale else blockerNone)
      else if kind = gateRestoreWriter \<and> exportWriterDrained session now then blockerNone
      else if exportObservationStale session now then blockerStale
      else if kind = gateLifecycleDrain then blockerActive
      else if now < es_ExpiresAt session then blockerActive
      else blockerStale)"

definition mountHasTerminalEvidence :: "gateKind \<Rightarrow> WorkloadMountBinding \<Rightarrow> bool" where
  "mountHasTerminalEvidence kind mount =
     (case kind of
        gateRestoreWriter \<Rightarrow>
          if nonZeroTimePtr (mb_ConfirmedUnmountedAt mount) then True
          else (case mb_Status mount of
                  MountStatusReleased \<Rightarrow> nonZeroTimePtr (mb_UnableToWriteAt mount)
                | MountStatusRevoked \<Rightarrow> nonZeroTimePtr (mb_UnableToWriteAt mount)
                | _ \<Rightarrow> False)
      | gateLifecycleDrain \<Rightarrow> nonZeroTimePtr (mb_ConfirmedUnmountedAt mount))"

definition mountBlocker :: "gateKind \<Rightarrow> WorkloadMountBinding \<Rightarrow> go_time \<Rightarrow> blockerClass" where
  "mountBlocker kind mount now =
     (if kind = gateRestoreWriter \<and> mb_ReadOnly mount then blockerNone
      else if mountTerminal (mb_Status mount) then
        (if mountHasTerminalEvidence kind mount then blockerNone else blockerStale)
      else if now < mb_LeaseExpiresAt mount then blockerActive
      else blockerStale)"

section \<open>The gates\<close>

definition session_allow :: GateDecision where
  "session_allow = \<lparr>gd_Allowed = True, gd_Action = SessionActionAllow, gd_ErrorFamily = SessionNoError,
     gd_Reason = [], gd_BlockingKind = []\<rparr>"

definition session_deny :: "SessionErrorFamily \<Rightarrow> string \<Rightarrow> string \<Rightarrow> GateDecision" where
  "session_deny family reason blockingKind =
     \<lparr>gd_Allowed = False, gd_Action = SessionActionDeny, gd_ErrorFamily = family,
      gd_Reason = reason, gd_BlockingKind = blockingKind\<rparr>"

text \<open>The variables \<open>active\<close>, \<open>activeKind\<close>, \<open>stale\<close> and \<open>staleKind\<close> of \<open>evaluate\<close>.\<close>

record gate_acc =
  acc_active :: bool
  acc_activeKind :: string
  acc_stale :: bool
  acc_staleKind :: string

fun note_blocker :: "string \<Rightarrow> blockerClass \<Rightarrow> gate_acc \<Rightarrow> gate_acc" where
  "note_blocker what blockerActive acc = acc\<lparr>acc_active := True, acc_activeKind := what\<rparr>"
| "note_blocker what blockerStale acc = acc\<lparr>acc_stale := True, acc_staleKind := what\<rparr>"
| "note_blocker what blockerNone acc = acc"

text \<open>The two loops: None is the early return for invalid stored state.\<close>

fun scan_exports :: "gateKind \<Rightarrow> GateRequest \<Rightarrow> ExportSession list \<Rightarrow> gate_acc \<Rightarrow> gate_acc option" where
  "scan_exports kind request [] acc = Some acc"
| "scan_exports kind request (session # rest) acc =
     (if es_RepoID session \<noteq> gr_RepoID request then scan_exports kind request rest acc
      else if validateExport session \<noteq> None then None
      else if es_NamespaceID session \<noteq> gr_NamespaceID request then None
      else scan_exports kind request rest
        (note_blocker ''export'' (exportBlocker kind session (gr_Now request)) acc))"

fun scan_mounts :: "gateKind \<Rightarrow> GateRequest \<Rightarrow> WorkloadMountBinding list \<Rightarrow> gate_acc \<Rightarrow> gate_acc option" where
  "scan_mounts kind request [] acc = Some acc"
| "scan_mounts kind request (mount # rest) acc =
     (if mb_RepoID mount \<noteq> gr_RepoID request then scan_mounts kind request rest acc
      else if validateMount mount \<noteq> None then None
      else if mb_NamespaceID mount \<noteq> gr_NamespaceID request then None
      else scan_mounts kind request rest
        (note_blocker ''workload_mount'' (mountBlocker kind mount (gr_Now request)) acc))"

definition gate_acc0 :: gate_acc where
  "gate_acc0 = \<lparr>acc_active = False, acc_activeKind = [], acc_stale = False, acc_staleKind = []\<rparr>"

definition evaluate_gate :: "GateRequest \<Rightarrow> gateKind \<Rightarrow> GateDecision" where
  "evaluate_gate request kind =
     (if validateTarget request \<noteq> None
        then session_deny SessionInternalError ''invalid session gate request'' []
      else case Option.bind (scan_exports kind request (gr_ExportSessions request) gate_acc0)
                  (scan_mounts kind request (gr_Mounts request)) of
        None \<Rightarrow> session_deny SessionInternalError ''invalid stored session state'' []
      | Some acc \<Rightarrow>
        if acc_active acc then
          (if kind = gateLifecycleDrain
           then session_deny ActiveSessionsBlockLifecycle ''active session blocks lifecycle drain'' (acc_activeKind acc)
           else session_deny ActiveWriterSessions ''active writer session blocks restore'' (acc_activeKind acc))
        else if acc_stale acc then
          (if kind = gateLifecycleDrain
           then session_deny StaleSessionsBlockLifecycle ''stale session blocks lifecycle drain'' (acc_staleKind acc)
           else session_deny StaleWriterSessionUncertain ''stale writer session blocks restore'' (acc_staleKind acc))
        else session_allow)"

definition RestoreWriterGate :: "GateRequest \<Rightarrow> GateDecision" where
  "RestoreWriterGate request = evaluate_gate request gateRestoreWriter"

definition LifecycleDrainGate :: "GateRequest \<Rightarrow> GateDecision" where
  "LifecycleDrainGate request = evaluate_gate request gateLifecycleDrain"

section \<open>What the loops compute\<close>

definition export_sound :: "GateRequest \<Rightarrow> ExportSession \<Rightarrow> bool" where
  "export_sound request s \<longleftrightarrow>
     es_RepoID s = gr_RepoID request \<longrightarrow> validateExport s = None \<and> es_NamespaceID s = gr_NamespaceID request"

definition mount_sound :: "GateRequest \<Rightarrow> WorkloadMountBinding \<Rightarrow> bool" where
  "mount_sound request m \<longleftrightarrow>
     mb_RepoID m = gr_RepoID request \<longrightarrow> validateMount m = None \<and> mb_NamespaceID m = gr_NamespaceID request"

definition blocking_exports :: "gateKind \<Rightarrow> GateRequest \<Rightarrow> blockerClass set" where
  "blocking_exports kind request =
     (\<lambda>s. exportBlocker kind s (gr_Now request)) ` set (filter (\<lambda>s. es_RepoID s = gr_RepoID request) (gr_ExportSessions request))"

definition blocking_mounts :: "gateKind \<Rightarrow> GateRequest \<Rightarrow> blockerClass set" where
  "blocking_mounts kind request =
     (\<lambda>m. mountBlocker kind m (gr_Now request)) ` set (filter (\<lambda>m. mb_RepoID m = gr_RepoID request) (gr_Mounts request))"

lemma scan_exports_eq:
  "scan_exports kind request ss acc =
     (if list_all (export_sound request) ss
      then Some (fold (\<lambda>s. note_blocker ''export'' (exportBlocker kind s (gr_Now request)))
                   (filter (\<lambda>s. es_RepoID s = gr_RepoID request) ss) acc)
      else None)"
  by (induction ss arbitrary: acc) (simp_all add: export_sound_def)

lemma scan_mounts_eq:
  "scan_mounts kind request ms acc =
     (if list_all (mount_sound request) ms
      then Some (fold (\<lambda>m. note_blocker ''workload_mount'' (mountBlocker kind m (gr_Now request)))
                   (filter (\<lambda>m. mb_RepoID m = gr_RepoID request) ms) acc)
      else None)"
  by (induction ms arbitrary: acc) (simp_all add: mount_sound_def)

text \<open>The accumulated flags are the blockers met; the kind is that of the last loop that met one.\<close>

lemma note_blocker_sel:
  "acc_active (note_blocker w b acc) \<longleftrightarrow> acc_active acc \<or> b = blockerActive"
  "acc_stale (note_blocker w b acc) \<longleftrightarrow> acc_stale acc \<or> b = blockerStale"
  "acc_activeKind (note_blocker w b acc) = (if b = blockerActive then w else acc_activeKind acc)"
  "acc_staleKind (note_blocker w b acc) = (if b = blockerStale then w else acc_staleKind acc)"
  by (cases b; simp)+

lemma fold_note_blocker:
  "acc_active (fold (\<lambda>x. note_blocker w (f x)) xs acc) \<longleftrightarrow> acc_active acc \<or> blockerActive \<in> f ` set xs"
  "acc_stale (fold (\<lambda>x. note_blocker w (f x)) xs acc) \<longleftrightarrow> acc_stale acc \<or> blockerStale \<in> f ` set xs"
  "acc_activeKind (fold (\<lambda>x. note_blocker w (f x)) xs acc) =
     (if blockerActive \<in> f ` set xs then w else acc_activeKind acc)"
  "acc_staleKind (fold (\<lambda>x. note_blocker w (f x)) xs acc) =
     (if blockerStale \<in> f ` set xs then w else acc_staleKind acc)"
  by (induction xs arbitrary: acc) (auto simp: note_blocker_sel)

definition stored_sound :: "GateRequest \<Rightarrow> bool" where
  "stored_sound request \<longleftrightarrow>
     list_all (export_sound request) (gr_ExportSessions request) \<and> list_all (mount_sound request) (gr_Mounts request)"

text \<open>A gate as a function of the blockers it meets.\<close>

definition blocking_kind :: "blockerClass \<Rightarrow> blockerClass set \<Rightarrow> string" where
  "blocking_kind b mounts = (if b \<in> mounts then ''workload_mount'' else ''export'')"

definition gate_verdict :: "gateKind \<Rightarrow> blockerClass set \<Rightarrow> blockerClass set \<Rightarrow> GateDecision" where
  "gate_verdict kind exports mounts =
     (if blockerActive \<in> exports \<union> mounts then
        (case kind of
           gateLifecycleDrain \<Rightarrow> session_deny ActiveSessionsBlockLifecycle
             ''active session blocks lifecycle drain'' (blocking_kind blockerActive mounts)
         | gateRestoreWriter \<Rightarrow> session_deny ActiveWriterSessions
             ''active writer session blocks restore'' (blocking_kind blockerActive mounts))
      else if blockerStale \<in> exports \<union> mounts then
        (case kind of
           gateLifecycleDrain \<Rightarrow> session_deny StaleSessionsBlockLifecycle
             ''stale session blocks lifecycle drain'' (blocking_kind blockerStale mounts)
         | gateRestoreWriter \<Rightarrow> session_deny StaleWriterSessionUncertain
             ''stale writer session blocks restore'' (blocking_kind blockerStale mounts))
      else session_allow)"

lemma evaluate_gate_eq:
  "evaluate_gate request kind =
     (if validateTarget request \<noteq> None
        then session_deny SessionInternalError ''invalid session gate request'' []
      else if \<not> stored_sound request
        then session_deny SessionInternalError ''invalid stored session state'' []
      else gate_verdict kind (blocking_exports kind request) (blocking_mounts kind request))"
proof (cases "stored_sound request")
  case True
  then show ?thesis
    by (cases kind) (simp_all add: evaluate_gate_def scan_exports_eq scan_mounts_eq stored_sound_def
        fold_note_blocker gate_acc0_def gate_verdict_def blocking_exports_def blocking_mounts_def
        blocking_kind_def)
next
  case False
  then show ?thesis
    by (auto simp: evaluate_gate_def scan_exports_eq scan_mounts_eq stored_sound_def)
qed

lemma gate_allowed_iff:
  "gd_Allowed (evaluate_gate request kind) \<longleftrightarrow>
     validateTarget request = None \<and> stored_sound request \<and>
     blocking_exports kind request \<subseteq> {blockerNone} \<and> blocking_mounts kind request \<subseteq> {blockerNone}"
proof -
  have "gd_Allowed (gate_verdict kind es ms) \<longleftrightarrow>
      blockerActive \<notin> es \<union> ms \<and> blockerStale \<notin> es \<union> ms" for es ms
    by (auto simp: gate_verdict_def session_deny_def session_allow_def split: gateKind.splits)
  moreover have "bs \<subseteq> {blockerNone} \<longleftrightarrow> blockerActive \<notin> bs \<and> blockerStale \<notin> bs" for bs
    by (auto, metis blockerClass.exhaust)
  ultimately show ?thesis
    by (auto simp: evaluate_gate_eq session_deny_def)
qed

section \<open>Properties\<close>

text \<open>Both gates depend only on which sessions are stored, not on the order or number of
  times the store returns them: two requests with the same target and time and the same
  sets of sessions get the same decision, its error family, reason and blocking kind
  included.\<close>

theorem gate_order_independent:
  assumes "gr_NamespaceID r = gr_NamespaceID q" "gr_RepoID r = gr_RepoID q" "gr_Now r = gr_Now q"
    and "set (gr_ExportSessions r) = set (gr_ExportSessions q)" "set (gr_Mounts r) = set (gr_Mounts q)"
  shows "RestoreWriterGate r = RestoreWriterGate q \<and> LifecycleDrainGate r = LifecycleDrainGate q"
proof -
  have "blocking_exports k r = blocking_exports k q" "blocking_mounts k r = blocking_mounts k q" for k
    using assms by (simp_all add: blocking_exports_def blocking_mounts_def)
  moreover have "export_sound r = export_sound q" "mount_sound r = mount_sound q"
    using assms by (simp_all add: export_sound_def mount_sound_def fun_eq_iff)
  then have "stored_sound r = stored_sound q"
    using assms(4,5) by (simp add: stored_sound_def list_all_iff)
  moreover have "validateTarget r = validateTarget q"
    by (simp only: validateTarget_def assms(1-3))
  ultimately show ?thesis
    by (simp add: RestoreWriterGate_def LifecycleDrainGate_def evaluate_gate_eq)
qed

lemma drain_implies_restore:
  "exportBlocker gateLifecycleDrain s now = blockerNone \<Longrightarrow> exportBlocker gateRestoreWriter s now = blockerNone"
  "mountBlocker gateLifecycleDrain m now = blockerNone \<Longrightarrow> mountBlocker gateRestoreWriter m now = blockerNone"
  by (auto simp: exportBlocker_def mountBlocker_def mountHasTerminalEvidence_def split: if_splits)

lemma blocker_stable:
  "now \<le> later \<Longrightarrow> exportBlocker k s now = blockerNone \<Longrightarrow> exportBlocker k s later = blockerNone"
  "mountBlocker k m now = blockerNone \<Longrightarrow> mountBlocker k m later = blockerNone"
  by (auto simp: exportBlocker_def mountBlocker_def exportWriterDrained_def split: if_splits)

text \<open>The lifecycle gate is the stronger one, and a gate that is open stays open while the
  stored sessions do not change: if the drain gate lets a request pass, so does the restore
  gate, and if either lets it pass at one time, it lets it pass at every later time.\<close>

theorem gate_strength_and_stability:
  assumes "gr_Now r \<le> later" "later \<noteq> 0"
  shows "(gd_Allowed (LifecycleDrainGate r) \<longrightarrow> gd_Allowed (RestoreWriterGate r)) \<and>
    (gd_Allowed (RestoreWriterGate r) \<longrightarrow> gd_Allowed (RestoreWriterGate (r\<lparr>gr_Now := later\<rparr>))) \<and>
    (gd_Allowed (LifecycleDrainGate r) \<longrightarrow> gd_Allowed (LifecycleDrainGate (r\<lparr>gr_Now := later\<rparr>)))"
proof (intro conjI)
  show "gd_Allowed (LifecycleDrainGate r) \<longrightarrow> gd_Allowed (RestoreWriterGate r)"
    unfolding RestoreWriterGate_def LifecycleDrainGate_def gate_allowed_iff
    by (auto simp: blocking_exports_def blocking_mounts_def image_subset_iff drain_implies_restore)
  have "stored_sound (r\<lparr>gr_Now := later\<rparr>) = stored_sound r"
    by (simp add: stored_sound_def export_sound_def mount_sound_def list_all_iff)
  moreover have "validateTarget r = None \<Longrightarrow> validateTarget (r\<lparr>gr_Now := later\<rparr>) = None"
    using assms(2) by (auto simp: validateTarget_def is_zero_def split: option.splits)
  ultimately have step: "gd_Allowed (evaluate_gate (r\<lparr>gr_Now := later\<rparr>) k)"
    if "gd_Allowed (evaluate_gate r k)" for k
    using that blocker_stable(1) [OF assms(1)] blocker_stable(2) [of _ _ "gr_Now r"]
    unfolding gate_allowed_iff
    by (auto simp: blocking_exports_def blocking_mounts_def image_subset_iff)
  show "gd_Allowed (RestoreWriterGate r) \<longrightarrow> gd_Allowed (RestoreWriterGate (r\<lparr>gr_Now := later\<rparr>))"
    "gd_Allowed (LifecycleDrainGate r) \<longrightarrow> gd_Allowed (LifecycleDrainGate (r\<lparr>gr_Now := later\<rparr>))"
    using step by (simp_all add: RestoreWriterGate_def LifecycleDrainGate_def)
qed

lemma restore_gate_open:
  assumes "gd_Allowed (RestoreWriterGate r)"
  shows "(\<forall>s \<in> set (gr_ExportSessions r). es_RepoID s = gr_RepoID r \<and> es_Mode s = AccessModeReadWrite \<longrightarrow>
      es_NamespaceID s = gr_NamespaceID r \<and> es_ActiveWriteCount s = 0 \<and>
      (exportTerminal (es_Status s) \<and> nonZeroTimePtr (es_TerminalObservedAt s) \<and> es_ActiveRequestCount s = 0 \<or>
       nonZeroTimePtr (es_WriteDrainedAt s) \<and>
         (es_Status s = ExportStatusRevoking \<or> es_ExpiresAt s \<le> gr_Now r))) \<and>
    (\<forall>m \<in> set (gr_Mounts r). mb_RepoID m = gr_RepoID r \<and> \<not> mb_ReadOnly m \<longrightarrow>
      mb_NamespaceID m = gr_NamespaceID r \<and> mountTerminal (mb_Status m) \<and>
      (nonZeroTimePtr (mb_ConfirmedUnmountedAt m) \<or> nonZeroTimePtr (mb_UnableToWriteAt m)))"
proof -
  have gate: "stored_sound r" "blocking_exports gateRestoreWriter r \<subseteq> {blockerNone}"
    "blocking_mounts gateRestoreWriter r \<subseteq> {blockerNone}"
    using assms by (simp_all add: RestoreWriterGate_def gate_allowed_iff)
  have ex: "es_NamespaceID s = gr_NamespaceID r \<and> validateExport s = None \<and>
      exportBlocker gateRestoreWriter s (gr_Now r) = blockerNone"
    if "s \<in> set (gr_ExportSessions r)" "es_RepoID s = gr_RepoID r" for s
    using gate(1,2) that
    by (auto simp: stored_sound_def list_all_iff export_sound_def blocking_exports_def image_subset_iff)
  have mo: "mb_NamespaceID m = gr_NamespaceID r \<and> mountBlocker gateRestoreWriter m (gr_Now r) = blockerNone"
    if "m \<in> set (gr_Mounts r)" "mb_RepoID m = gr_RepoID r" for m
    using gate(1,3) that
    by (auto simp: stored_sound_def list_all_iff mount_sound_def blocking_mounts_def image_subset_iff)
  show ?thesis
  proof (intro conjI ballI impI; elim conjE)
    fix s
    assume s: "s \<in> set (gr_ExportSessions r)" "es_RepoID s = gr_RepoID r" "es_Mode s = AccessModeReadWrite"
    note e = ex [OF s(1,2)]
    show "es_NamespaceID s = gr_NamespaceID r" using e by blast
    show "es_ActiveWriteCount s = 0"
      using e s(3) by (auto simp: exportBlocker_def exportWriterDrained_def validateExport_def split: if_splits option.splits)
    show "exportTerminal (es_Status s) \<and> nonZeroTimePtr (es_TerminalObservedAt s) \<and> es_ActiveRequestCount s = 0 \<or>
       nonZeroTimePtr (es_WriteDrainedAt s) \<and> (es_Status s = ExportStatusRevoking \<or> es_ExpiresAt s \<le> gr_Now r)"
      using e s(3) by (auto simp: exportBlocker_def exportWriterDrained_def exportHasTerminalEvidence_def
          validateExport_def split: if_splits option.splits)
  next
    fix m
    assume m: "m \<in> set (gr_Mounts r)" "mb_RepoID m = gr_RepoID r" "\<not> mb_ReadOnly m"
    note e = mo [OF m(1,2)]
    show "mb_NamespaceID m = gr_NamespaceID r" using e by blast
    show "mountTerminal (mb_Status m)" using e m(3) by (auto simp: mountBlocker_def split: if_splits)
    show "nonZeroTimePtr (mb_ConfirmedUnmountedAt m) \<or> nonZeroTimePtr (mb_UnableToWriteAt m)"
      using e m(3) by (auto simp: mountBlocker_def mountHasTerminalEvidence_def split: if_splits MountStatus.splits)
  qed
qed

text \<open>An open restore gate means that no writer is left on the repo: every read-write
  export session of the repo has no write in progress and is either closed with the
  observation of its end on record, or drained and already revoking or past its expiry, and
  every writable mount is closed and recorded as unmounted or as unable to write.\<close>

theorem restore_gate_excludes_writers:
  assumes "gd_Allowed (RestoreWriterGate r)"
  shows "(\<forall>s \<in> set (gr_ExportSessions r). es_RepoID s = gr_RepoID r \<and> es_Mode s = AccessModeReadWrite \<longrightarrow>
      es_NamespaceID s = gr_NamespaceID r \<and> es_ActiveWriteCount s = 0 \<and>
      (exportTerminal (es_Status s) \<and> nonZeroTimePtr (es_TerminalObservedAt s) \<and> es_ActiveRequestCount s = 0 \<or>
       nonZeroTimePtr (es_WriteDrainedAt s) \<and>
         (es_Status s = ExportStatusRevoking \<or> es_ExpiresAt s \<le> gr_Now r))) \<and>
    (\<forall>m \<in> set (gr_Mounts r). mb_RepoID m = gr_RepoID r \<and> \<not> mb_ReadOnly m \<longrightarrow>
      mb_NamespaceID m = gr_NamespaceID r \<and> mountTerminal (mb_Status m) \<and>
      (nonZeroTimePtr (mb_ConfirmedUnmountedAt m) \<or> nonZeroTimePtr (mb_UnableToWriteAt m)))"
  using assms by (rule restore_gate_open)

section \<open>A concrete repo with a drained export and a released mount\<close>

definition example_export :: ExportSession where
  "example_export =
     \<lparr>es_ID = ''export_e1'', es_NamespaceID = ''ns_aa'', es_RepoID = ''repo_r1'',
      es_Mode = AccessModeReadWrite, es_Status = ExportStatusRevoking, es_ExpiresAt = 90,
      es_ActiveRequestCount = 1, es_ActiveWriteCount = 0, es_LastObservedAt = Some 40,
      es_LastGatewayHeartbeatAt = Some 40, es_GatewayHeartbeatExpiresAt = Some 60,
      es_WriteDrainedAt = Some 45, es_TerminalObservedAt = None, es_StatusReason = [],
      es_CreatedAt = 10, es_UpdatedAt = 45\<rparr>"

definition example_mount :: WorkloadMountBinding where
  "example_mount =
     \<lparr>mb_ID = ''wmb_m1'', mb_NamespaceID = ''ns_aa'', mb_RepoID = ''repo_r1'', mb_ReadOnly = False,
      mb_Status = MountStatusReleased, mb_LeaseExpiresAt = 30, mb_ConfirmedUnmountedAt = Some 20,
      mb_UnableToWriteAt = None, mb_TerminalObservedAt = Some 20, mb_CreatedAt = 5, mb_UpdatedAt = 20\<rparr>"

definition example_gate :: "ExportSession list \<Rightarrow> WorkloadMountBinding list \<Rightarrow> GateRequest" where
  "example_gate es ms = \<lparr>gr_NamespaceID = ''ns_aa'', gr_RepoID = ''repo_r1'', gr_Now = 50,
     gr_ExportSessions = es, gr_Mounts = ms\<rparr>"

lemma example_session_ids:
  "valid_id NamespaceID ''ns_aa''" "valid_id RepoID ''repo_r1''" "valid_id ExportID ''export_e1''"
  "valid_id WorkloadMountBindingID ''wmb_m1''"
  by (simp_all add: ValidateID_def has_prefix_def isASCIIAlnum_def isIDChar_def byte_def)

lemmas example_gate_simps =
  RestoreWriterGate_def LifecycleDrainGate_def gate_allowed_iff example_gate_def validateTarget_def is_zero_def
  stored_sound_def export_sound_def mount_sound_def validateExport_def validateMount_def example_export_def
  example_mount_def example_session_ids blocking_exports_def blocking_mounts_def exportBlocker_def
  mountBlocker_def exportWriterDrained_def mountHasTerminalEvidence_def nonZeroTimePtr_def

lemma example_gate_restore: "gd_Allowed (RestoreWriterGate (example_gate [example_export] [example_mount]))"
  by (simp add: example_gate_simps)

lemma example_gate_drain:
  "gd_Allowed (LifecycleDrainGate (example_gate [] [example_mount]))"
  by (simp add: example_gate_simps)

theorem gate_order_independent_witness:
  "RestoreWriterGate (example_gate [example_export, example_export] [example_mount]) =
   RestoreWriterGate (example_gate [example_export] [example_mount, example_mount])"
  using gate_order_independent [of "example_gate [example_export, example_export] [example_mount]"
      "example_gate [example_export] [example_mount, example_mount]"]
  by (simp add: example_gate_def)

theorem gate_strength_and_stability_witness:
  "gd_Allowed (RestoreWriterGate (example_gate [] [example_mount])) \<and>
   gd_Allowed (LifecycleDrainGate ((example_gate [] [example_mount])\<lparr>gr_Now := 1000\<rparr>))"
  using gate_strength_and_stability [of "example_gate [] [example_mount]" 1000] example_gate_drain
  by (simp add: example_gate_def)

theorem restore_gate_excludes_writers_witness:
  "es_ActiveWriteCount example_export = 0 \<and> mountTerminal (mb_Status example_mount)"
  using restore_gate_excludes_writers [OF example_gate_restore]
  by (simp add: example_gate_def example_export_def example_mount_def)

end
