(* ===== verification/Resources.thy ===== *)
theory Resources
  imports Path_Resolver
begin

text \<open>
  Resource records: \<open>internal/resources/resources.go\<close>. Volumes, namespaces, namespace volume
  bindings with their policies and allowed callers, and repos with their lifecycle, each
  with the validation that guards every stored record. Errors carry the sentence of the
  source (without the quoted value) or the identifier error they wrap.
\<close>

section \<open>Enumerations\<close>

datatype VolumeBackend = VolumeBackendJuiceFS | VolumeBackendOther string

fun VolumeBackend_valid :: "VolumeBackend \<Rightarrow> bool" where
  "VolumeBackend_valid VolumeBackendJuiceFS = True"
| "VolumeBackend_valid _ = False"

datatype VolumeIsolationClass = VolumeIsolationShared | VolumeIsolationDedicated | VolumeIsolationOther string

fun VolumeIsolationClass_valid :: "VolumeIsolationClass \<Rightarrow> bool" where
  "VolumeIsolationClass_valid (VolumeIsolationOther _) = False"
| "VolumeIsolationClass_valid _ = True"

datatype VolumeStatus = VolumeStatusActive | VolumeStatusDisabled | VolumeStatusDegraded | VolumeStatusOther string

fun VolumeStatus_valid :: "VolumeStatus \<Rightarrow> bool" where
  "VolumeStatus_valid (VolumeStatusOther _) = False"
| "VolumeStatus_valid _ = True"

datatype NamespaceStatus = NamespaceStatusActive | NamespaceStatusDisabled | NamespaceStatusOther string

fun NamespaceStatus_valid :: "NamespaceStatus \<Rightarrow> bool" where
  "NamespaceStatus_valid (NamespaceStatusOther _) = False"
| "NamespaceStatus_valid _ = True"

datatype CallerRole =
    CallerRoleVolumeAdmin | CallerRoleNamespaceAdmin | CallerRoleRepoAdmin | CallerRoleRepoLifecycleAdmin
  | CallerRoleRestoreAdmin | CallerRoleTemplateAdmin | CallerRoleExportAdmin | CallerRoleMountAdmin
  | CallerRoleOperationInspector | CallerRoleOrchestratorMount | CallerRoleMigrationAdmin
  | CallerRoleOperatorAdmin | CallerRoleBreakGlassAdmin | CallerRoleOther string

fun CallerRole_valid :: "CallerRole \<Rightarrow> bool" where
  "CallerRole_valid (CallerRoleOther _) = False"
| "CallerRole_valid _ = True"

datatype RepoKind = RepoKindRepo | RepoKindTemplate | RepoKindOther string

fun RepoKind_valid :: "RepoKind \<Rightarrow> bool" where
  "RepoKind_valid (RepoKindOther _) = False"
| "RepoKind_valid _ = True"

datatype RepoStatus =
    RepoStatusActive | RepoStatusArchiving | RepoStatusArchived | RepoStatusRestoringArchived
  | RepoStatusDeleting | RepoStatusTombstoned | RepoStatusRestoringTombstoned | RepoStatusPurging
  | RepoStatusPurged | RepoStatusOperatorInterventionRequired | RepoStatusOther string

fun RepoStatus_valid :: "RepoStatus \<Rightarrow> bool" where
  "RepoStatus_valid (RepoStatusOther _) = False"
| "RepoStatus_valid _ = True"

abbreviation RepoStatusEmpty :: RepoStatus where
  "RepoStatusEmpty \<equiv> RepoStatusOther []"

datatype resource_error = ResourcePathError path_error | ResourceText string

definition validateResourceID :: "IDKind \<Rightarrow> string \<Rightarrow> resource_error option" where
  "validateResourceID kind ident = map_option ResourcePathError (ValidateID kind ident)"

lemma validateResourceID_None [simp]: "validateResourceID kind ident = None \<longleftrightarrow> valid_id kind ident"
  by (simp add: validateResourceID_def)

definition validateTimestamps :: "go_time \<Rightarrow> go_time \<Rightarrow> resource_error option" where
  "validateTimestamps createdAt updatedAt =
     checks [check (is_zero createdAt) (ResourceText ''missing created_at''),
             check (is_zero updatedAt) (ResourceText ''missing updated_at'')]"

section \<open>Policies and capabilities\<close>

text \<open>A \<open>map[string]any\<close> may be nil; looking up or ranging over a nil map finds nothing.\<close>

definition keys_of :: "go_object option \<Rightarrow> string list" where
  "keys_of object = (case object of None \<Rightarrow> [] | Some kvs \<Rightarrow> map fst kvs)"

definition lookup_key :: "go_object option \<Rightarrow> string \<Rightarrow> go_any option" where
  "lookup_key object key = (case object of None \<Rightarrow> None | Some kvs \<Rightarrow> map_of kvs key)"

definition validateObject :: "go_object option \<Rightarrow> resource_error option" where
  "validateObject object = check (object = None) (ResourceText ''must be a JSON object'')"

definition rejectUnknownKeys :: "go_object option \<Rightarrow> string list \<Rightarrow> resource_error option" where
  "rejectUnknownKeys object allowed =
     first_error (\<lambda>key. check (key \<notin> set allowed) (ResourceText (key @ '' is not a supported field'')))
       (keys_of object)"

definition requireBool :: "go_object option \<Rightarrow> string \<Rightarrow> resource_error option" where
  "requireBool object key =
     (case lookup_key object key of
        None \<Rightarrow> Some (ResourceText (key @ '' is required''))
      | Some (AnyBool _) \<Rightarrow> None
      | Some _ \<Rightarrow> Some (ResourceText (key @ '' must be boolean'')))"

definition optionalBool :: "go_object option \<Rightarrow> string \<Rightarrow> resource_error option" where
  "optionalBool object key =
     (case lookup_key object key of
        None \<Rightarrow> None
      | Some (AnyBool _) \<Rightarrow> None
      | Some _ \<Rightarrow> Some (ResourceText (key @ '' must be boolean'')))"

definition optionalString :: "go_object option \<Rightarrow> string \<Rightarrow> resource_error option" where
  "optionalString object key =
     (case lookup_key object key of
        None \<Rightarrow> None
      | Some (AnyString _) \<Rightarrow> None
      | Some _ \<Rightarrow> Some (ResourceText (key @ '' must be string'')))"

definition requireNumber :: "go_object option \<Rightarrow> string \<Rightarrow> resource_error + go_float" where
  "requireNumber object key =
     (case lookup_key object key of
        None \<Rightarrow> Inl (ResourceText (key @ '' is required''))
      | Some (AnyInt i) \<Rightarrow> Inr (float64_of_int i)
      | Some (AnyInt64 i) \<Rightarrow> Inr (float64_of_int i)
      | Some (AnyFloat x) \<Rightarrow> Inr x
      | Some (AnyNumber (Some x)) \<Rightarrow> Inr x
      | Some _ \<Rightarrow> Inl (ResourceText (key @ '' must be numeric'')))"

definition numberAtLeast :: "go_object option \<Rightarrow> string \<Rightarrow> int \<Rightarrow> string \<Rightarrow> resource_error option" where
  "numberAtLeast object key bound msg =
     (case requireNumber object key of
        Inl err \<Rightarrow> Some err
      | Inr seconds \<Rightarrow> check (float_less seconds (Finite (of_int bound))) (ResourceText msg))"

definition validateVolumeCapabilities :: "go_object option \<Rightarrow> resource_error option" where
  "validateVolumeCapabilities capabilities =
     checks
      [rejectUnknownKeys capabilities
         [''webdav_export'', ''workload_mount'', ''jvs_external_control_root'', ''directory_quota'',
          ''filtered_mount'', ''csi_driver'', ''storage_class'', ''permission_model''],
       first_error (requireBool capabilities)
         [''webdav_export'', ''workload_mount'', ''jvs_external_control_root'', ''directory_quota''],
       optionalBool capabilities ''filtered_mount'',
       first_error (optionalString capabilities) [''csi_driver'', ''storage_class'', ''permission_model'']]"

definition validateExportPolicy :: "go_object option \<Rightarrow> resource_error option" where
  "validateExportPolicy policy =
     checks
      [rejectUnknownKeys policy [''webdav_enabled'', ''max_session_seconds''],
       requireBool policy ''webdav_enabled'',
       numberAtLeast policy ''max_session_seconds'' 60 ''max_session_seconds must be at least 60'']"

definition validateLifecyclePolicy :: "go_object option \<Rightarrow> resource_error option" where
  "validateLifecyclePolicy policy =
     checks
      [rejectUnknownKeys policy
         [''tombstone_retention_seconds'', ''purge_requires_lifecycle_admin'', ''break_glass_purge_enabled''],
       numberAtLeast policy ''tombstone_retention_seconds'' 0 ''tombstone_retention_seconds must be non-negative'',
       requireBool policy ''purge_requires_lifecycle_admin'',
       requireBool policy ''break_glass_purge_enabled'']"

definition validateMountPolicy :: "go_object option \<Rightarrow> resource_error option" where
  "validateMountPolicy policy =
     checks
      [rejectUnknownKeys policy
         [''workload_mount_enabled'', ''workload_mount_requires_external_control_root'', ''allow_privileged_workload''],
       first_error (requireBool policy)
         [''workload_mount_enabled'', ''workload_mount_requires_external_control_root'', ''allow_privileged_workload'']]"

definition validateTemplatePolicy :: "go_object option \<Rightarrow> resource_error option" where
  "validateTemplatePolicy policy =
     checks
      [rejectUnknownKeys policy [''namespace_templates_enabled'', ''cross_namespace_clone_enabled''],
       requireBool policy ''namespace_templates_enabled'',
       requireBool policy ''cross_namespace_clone_enabled'']"

definition forbidden_words :: "string list" where
  "forbidden_words =
     [''credential'', ''secret'', ''token'', ''password'', ''private_key'', ''metadata_url'', ''raw_path'']"

definition sensitive_key :: "string \<Rightarrow> bool" where
  "sensitive_key key \<longleftrightarrow> list_ex (\<lambda>w. rune_contains (lower_runes key) (bytes w)) forbidden_words"

text \<open>\<open>rejectSensitiveKeys\<close> descends into nested \<open>map[string]any\<close> values; the path of the
  offending key is part of the text.\<close>

fun rejectSensitiveKeys :: "string \<Rightarrow> go_object \<Rightarrow> resource_error option" where
  "rejectSensitiveKeys path [] = None"
| "rejectSensitiveKeys path ((key, v) # rest) =
     (if sensitive_key key then Some (ResourceText (path @ ''.'' @ key @ '' contains sensitive material''))
      else case (case v of AnyMap nested \<Rightarrow> rejectSensitiveKeys (path @ ''.'' @ key) nested | _ \<Rightarrow> None) of
        Some err \<Rightarrow> Some err
      | None \<Rightarrow> rejectSensitiveKeys path rest)"

section \<open>Volumes and namespaces\<close>

record Volume =
  vol_ID :: string
  vol_Backend :: VolumeBackend
  vol_IsolationClass :: VolumeIsolationClass
  vol_Status :: VolumeStatus
  vol_Capabilities :: "go_object option"
  vol_CreatedAt :: go_time
  vol_UpdatedAt :: go_time

definition Volume_Validate :: "Volume \<Rightarrow> resource_error option" where
  "Volume_Validate volume =
     checks
      [validateResourceID VolumeID (vol_ID volume),
       check (\<not> VolumeBackend_valid (vol_Backend volume)) (ResourceText ''unknown volume backend''),
       check (\<not> VolumeIsolationClass_valid (vol_IsolationClass volume)) (ResourceText ''unknown volume isolation class''),
       check (\<not> VolumeStatus_valid (vol_Status volume)) (ResourceText ''unknown volume status''),
       validateObject (vol_Capabilities volume),
       (case vol_Capabilities volume of None \<Rightarrow> None | Some kvs \<Rightarrow> rejectSensitiveKeys ''capabilities'' kvs),
       validateVolumeCapabilities (vol_Capabilities volume),
       validateTimestamps (vol_CreatedAt volume) (vol_UpdatedAt volume)]"

record Namespace =
  ns_ID :: string
  ns_Status :: NamespaceStatus
  ns_DisabledReason :: string
  ns_DisabledAt :: "go_time option"
  ns_CreatedAt :: go_time
  ns_UpdatedAt :: go_time

definition Namespace_Validate :: "Namespace \<Rightarrow> resource_error option" where
  "Namespace_Validate ns =
     checks
      [validateResourceID NamespaceID (ns_ID ns),
       check (\<not> NamespaceStatus_valid (ns_Status ns)) (ResourceText ''unknown namespace status''),
       (case ns_Status ns of
          NamespaceStatusActive \<Rightarrow>
            check (ns_DisabledAt ns \<noteq> None) (ResourceText ''active namespace must not have disabled_at'')
        | NamespaceStatusDisabled \<Rightarrow>
            checks
             [check (ns_DisabledAt ns = None) (ResourceText ''disabled namespace must have disabled_at''),
              check (trim_space (ns_DisabledReason ns) = [])
                (ResourceText ''disabled namespace must have disabled_reason'')]
        | _ \<Rightarrow> None),
       validateTimestamps (ns_CreatedAt ns) (ns_UpdatedAt ns)]"

section \<open>Namespace volume bindings\<close>

record AllowedCaller =
  ac_CallerService :: string
  ac_Roles :: "CallerRole list"

definition namespaceBindingCallerRoles :: "CallerRole list" where
  "namespaceBindingCallerRoles =
     [CallerRoleNamespaceAdmin, CallerRoleRepoAdmin, CallerRoleRepoLifecycleAdmin, CallerRoleRestoreAdmin,
      CallerRoleTemplateAdmin, CallerRoleExportAdmin, CallerRoleMountAdmin, CallerRoleOperationInspector,
      CallerRoleOrchestratorMount, CallerRoleMigrationAdmin]"

definition NamespaceBindingCallerRoles :: "CallerRole list" where
  "NamespaceBindingCallerRoles = namespaceBindingCallerRoles"

text \<open>The loop over the roles, with the map \<open>seen\<close> and the two flags.\<close>

fun scan_roles ::
    "CallerRole list \<Rightarrow> CallerRole list \<Rightarrow> bool \<Rightarrow> bool \<Rightarrow> resource_error + (bool \<times> bool)" where
  "scan_roles seen [] orch mig = Inr (orch, mig)"
| "scan_roles seen (role # rest) orch mig =
     (if \<not> CallerRole_valid role then Inl (ResourceText ''unknown caller role'')
      else if role = CallerRoleOperatorAdmin \<or> role = CallerRoleBreakGlassAdmin \<or> role = CallerRoleVolumeAdmin
        then Inl (ResourceText ''deployment/operator policy, not an ordinary namespace role'')
      else if role \<in> set seen then Inl (ResourceText ''duplicate caller role'')
      else scan_roles (role # seen) rest
        (orch \<or> role = CallerRoleOrchestratorMount) (mig \<or> role = CallerRoleMigrationAdmin))"

definition AllowedCaller_Validate :: "AllowedCaller \<Rightarrow> resource_error option" where
  "AllowedCaller_Validate caller =
     (if trim_space (ac_CallerService caller) = [] then Some (ResourceText ''allowed caller missing caller_service'')
      else if ac_Roles caller = [] then Some (ResourceText ''allowed caller missing roles'')
      else case scan_roles [] (ac_Roles caller) False False of
        Inl err \<Rightarrow> Some err
      | Inr (orch, mig) \<Rightarrow>
          checks
           [check (orch \<and> length (ac_Roles caller) \<noteq> 1)
              (ResourceText ''orchestrator_mount must be a dedicated caller role''),
            check (mig \<and> length (ac_Roles caller) \<noteq> 1)
              (ResourceText ''migration_admin must be a dedicated caller role'')])"

record NamespaceVolumeBinding =
  nvb_NamespaceID :: string
  nvb_DefaultVolumeID :: string
  nvb_AllowedCallers :: "AllowedCaller list"
  nvb_QuotaBytesDefault :: go_int
  nvb_ExportPolicy :: "go_object option"
  nvb_LifecyclePolicy :: "go_object option"
  nvb_MountPolicy :: "go_object option"
  nvb_TemplatePolicy :: "go_object option"
  nvb_Status :: NamespaceStatus
  nvb_CreatedAt :: go_time
  nvb_UpdatedAt :: go_time

fun scan_callers :: "string list \<Rightarrow> AllowedCaller list \<Rightarrow> resource_error option" where
  "scan_callers seen [] = None"
| "scan_callers seen (caller # rest) =
     (case AllowedCaller_Validate caller of
        Some err \<Rightarrow> Some err
      | None \<Rightarrow>
        let callerService = trim_space (ac_CallerService caller) in
        if callerService \<in> set seen then Some (ResourceText ''duplicate allowed caller_service'')
        else scan_callers (callerService # seen) rest)"

definition NamespaceVolumeBinding_Validate :: "NamespaceVolumeBinding \<Rightarrow> resource_error option" where
  "NamespaceVolumeBinding_Validate binding =
     checks
      [validateResourceID NamespaceID (nvb_NamespaceID binding),
       validateResourceID VolumeID (nvb_DefaultVolumeID binding),
       check (nvb_QuotaBytesDefault binding < 0) (ResourceText ''quota_bytes_default must be non-negative''),
       check (\<not> NamespaceStatus_valid (nvb_Status binding)) (ResourceText ''unknown namespace binding status''),
       check (nvb_AllowedCallers binding = []) (ResourceText ''allowed_callers must not be empty''),
       scan_callers [] (nvb_AllowedCallers binding),
       validateObject (nvb_ExportPolicy binding),
       validateExportPolicy (nvb_ExportPolicy binding),
       validateObject (nvb_LifecyclePolicy binding),
       validateLifecyclePolicy (nvb_LifecyclePolicy binding),
       validateObject (nvb_MountPolicy binding),
       validateMountPolicy (nvb_MountPolicy binding),
       validateObject (nvb_TemplatePolicy binding),
       validateTemplatePolicy (nvb_TemplatePolicy binding),
       validateTimestamps (nvb_CreatedAt binding) (nvb_UpdatedAt binding)]"

section \<open>Repos\<close>

record RepoLifecycle =
  rl_Status :: RepoStatus
  rl_RetentionExpiresAt :: "go_time option"
  rl_LastLifecycleOperationID :: string
  rl_PreDeleteStatus :: RepoStatus

fun statusRequiresPreDelete :: "RepoStatus \<Rightarrow> bool" where
  "statusRequiresPreDelete RepoStatusDeleting = True"
| "statusRequiresPreDelete RepoStatusTombstoned = True"
| "statusRequiresPreDelete RepoStatusRestoringTombstoned = True"
| "statusRequiresPreDelete RepoStatusPurging = True"
| "statusRequiresPreDelete RepoStatusPurged = True"
| "statusRequiresPreDelete _ = False"

fun statusRequiresRetention :: "RepoStatus \<Rightarrow> bool" where
  "statusRequiresRetention RepoStatusTombstoned = True"
| "statusRequiresRetention RepoStatusRestoringTombstoned = True"
| "statusRequiresRetention RepoStatusPurging = True"
| "statusRequiresRetention _ = False"

fun statusForbidsRetention :: "RepoStatus \<Rightarrow> bool" where
  "statusForbidsRetention RepoStatusActive = True"
| "statusForbidsRetention RepoStatusArchiving = True"
| "statusForbidsRetention RepoStatusArchived = True"
| "statusForbidsRetention RepoStatusRestoringArchived = True"
| "statusForbidsRetention _ = False"

definition RepoLifecycle_Validate :: "RepoLifecycle \<Rightarrow> resource_error option" where
  "RepoLifecycle_Validate lc =
     checks
      [check (\<not> RepoStatus_valid (rl_Status lc)) (ResourceText ''unknown repo lifecycle status''),
       (if rl_LastLifecycleOperationID lc \<noteq> []
        then validateResourceID OperationID (rl_LastLifecycleOperationID lc) else None),
       check (rl_PreDeleteStatus lc \<noteq> RepoStatusEmpty \<and> rl_PreDeleteStatus lc \<noteq> RepoStatusActive \<and>
              rl_PreDeleteStatus lc \<noteq> RepoStatusArchived) (ResourceText ''unknown pre-delete repo status''),
       (if statusRequiresPreDelete (rl_Status lc)
        then check (rl_PreDeleteStatus lc = RepoStatusEmpty) (ResourceText ''requires pre_delete_status'')
        else check (rl_Status lc \<noteq> RepoStatusOperatorInterventionRequired \<and> rl_PreDeleteStatus lc \<noteq> RepoStatusEmpty)
               (ResourceText ''must not have pre_delete_status'')),
       (if statusRequiresRetention (rl_Status lc)
        then check (rl_RetentionExpiresAt lc = None) (ResourceText ''requires retention_expires_at'')
        else check (statusForbidsRetention (rl_Status lc) \<and> rl_RetentionExpiresAt lc \<noteq> None)
               (ResourceText ''must not have retention_expires_at''))]"

record Repo =
  repo_ID :: string
  repo_NamespaceID :: string
  repo_VolumeID :: string
  repo_JVSRepoID :: string
  repo_Kind :: RepoKind
  repo_Status :: RepoStatus
  repo_ControlVolumeSubdir :: string
  repo_PayloadVolumeSubdir :: string
  repo_Lifecycle :: RepoLifecycle
  repo_CreatedAt :: go_time
  repo_UpdatedAt :: go_time

definition asciiAlphaNum :: "nat \<Rightarrow> bool" where
  "asciiAlphaNum r \<longleftrightarrow> (65 \<le> r \<and> r \<le> 90) \<or> (97 \<le> r \<and> r \<le> 122) \<or> (48 \<le> r \<and> r \<le> 57)"

definition jvsRepoIDRune :: "nat \<Rightarrow> bool" where
  "jvsRepoIDRune r \<longleftrightarrow> asciiAlphaNum r \<or> r = 95 \<or> r = 46 \<or> r = 58 \<or> r = 45"

definition ValidateJVSRepoID :: "string \<Rightarrow> resource_error option" where
  "ValidateJVSRepoID ident =
     (if ident = [] then Some (ResourceText ''missing jvs_repo_id'')
      else if 128 < length ident then Some (ResourceText ''invalid jvs_repo_id'')
      else case runes (bytes ident) of
        [] \<Rightarrow> None
      | r # rs \<Rightarrow>
          if \<not> asciiAlphaNum r then Some (ResourceText ''invalid jvs_repo_id'')
          else if \<not> list_all jvsRepoIDRune rs then Some (ResourceText ''invalid jvs_repo_id'')
          else None)"

definition validateCanonicalPathIdentity :: "Repo \<Rightarrow> resource_error option" where
  "validateCanonicalPathIdentity repo =
     (case repo_Kind repo of
        RepoKindRepo \<Rightarrow>
          (case ResolveRepoPaths (repo_NamespaceID repo) (repo_ID repo) of
             Inl err \<Rightarrow> Some (ResourcePathError err)
           | Inr paths \<Rightarrow>
               checks
                [check (repo_ControlVolumeSubdir repo \<noteq> ControlVolumeSubdir paths)
                   (ResourceText ''control_volume_subdir must equal canonical repo control subdir''),
                 check (repo_PayloadVolumeSubdir repo \<noteq> PayloadVolumeSubdir paths)
                   (ResourceText ''payload_volume_subdir must equal canonical repo payload subdir'')])
      | RepoKindTemplate \<Rightarrow>
          (case ResolveTemplatePaths (repo_NamespaceID repo) (repo_ID repo) of
             Inl err \<Rightarrow> Some (ResourcePathError err)
           | Inr paths \<Rightarrow>
               checks
                [check (repo_ControlVolumeSubdir repo \<noteq> ControlVolumeSubdir paths)
                   (ResourceText ''control_volume_subdir must equal canonical template control subdir''),
                 check (repo_PayloadVolumeSubdir repo \<noteq> PayloadVolumeSubdir paths)
                   (ResourceText ''payload_volume_subdir must equal canonical template payload subdir'')])
      | RepoKindOther _ \<Rightarrow> Some (ResourceText ''unknown repo kind''))"

definition Repo_Validate :: "Repo \<Rightarrow> resource_error option" where
  "Repo_Validate repo =
     checks
      [validateResourceID NamespaceID (repo_NamespaceID repo),
       validateResourceID VolumeID (repo_VolumeID repo),
       ValidateJVSRepoID (repo_JVSRepoID repo),
       check (\<not> RepoKind_valid (repo_Kind repo)) (ResourceText ''unknown repo kind''),
       validateCanonicalPathIdentity repo,
       check (\<not> RepoStatus_valid (repo_Status repo)) (ResourceText ''unknown repo status''),
       RepoLifecycle_Validate (repo_Lifecycle repo),
       check (repo_Status repo \<noteq> rl_Status (repo_Lifecycle repo))
         (ResourceText ''repo status must match lifecycle status''),
       validateTimestamps (repo_CreatedAt repo) (repo_UpdatedAt repo)]"

section \<open>Allowed callers\<close>

lemma ordinary_role_iff:
  "CallerRole_valid r \<and> r \<noteq> CallerRoleOperatorAdmin \<and> r \<noteq> CallerRoleBreakGlassAdmin \<and> r \<noteq> CallerRoleVolumeAdmin
     \<longleftrightarrow> r \<in> set namespaceBindingCallerRoles"
  by (cases r) (simp_all add: namespaceBindingCallerRoles_def)

lemma scan_roles_Inr:
  "scan_roles seen rs orch mig = Inr (orch', mig') \<longleftrightarrow>
     set rs \<subseteq> set namespaceBindingCallerRoles \<and> distinct rs \<and> set rs \<inter> set seen = {} \<and>
     orch' = (orch \<or> CallerRoleOrchestratorMount \<in> set rs) \<and> mig' = (mig \<or> CallerRoleMigrationAdmin \<in> set rs)"
proof (induction rs arbitrary: seen orch mig)
  case Nil
  then show ?case by auto
next
  case (Cons r rs)
  show ?case
  proof (cases "r \<in> set namespaceBindingCallerRoles \<and> r \<notin> set seen")
    case True
    with ordinary_role_iff [of r] Cons show ?thesis by auto
  next
    case False
    with ordinary_role_iff [of r] show ?thesis by auto
  qed
qed

lemma AllowedCaller_Validate_None:
  "AllowedCaller_Validate c = None \<longleftrightarrow>
     trim_space (ac_CallerService c) \<noteq> [] \<and> ac_Roles c \<noteq> [] \<and> distinct (ac_Roles c) \<and>
     set (ac_Roles c) \<subseteq> set namespaceBindingCallerRoles \<and>
     (CallerRoleOrchestratorMount \<in> set (ac_Roles c) \<or> CallerRoleMigrationAdmin \<in> set (ac_Roles c) \<longrightarrow>
       length (ac_Roles c) = 1)"
proof (cases "scan_roles [] (ac_Roles c) False False")
  case (Inl e)
  then have "\<not> (set (ac_Roles c) \<subseteq> set namespaceBindingCallerRoles \<and> distinct (ac_Roles c))"
    using scan_roles_Inr [of "[]" "ac_Roles c" False False] by auto
  with Inl show ?thesis by (auto simp: AllowedCaller_Validate_def)
next
  case (Inr p)
  obtain o' m' where p: "p = (o', m')" by (cases p)
  with Inr have "set (ac_Roles c) \<subseteq> set namespaceBindingCallerRoles" "distinct (ac_Roles c)"
    "o' = (CallerRoleOrchestratorMount \<in> set (ac_Roles c))" "m' = (CallerRoleMigrationAdmin \<in> set (ac_Roles c))"
    using scan_roles_Inr [of "[]" "ac_Roles c" False False o' m'] by auto
  with Inr p show ?thesis by (auto simp: AllowedCaller_Validate_def check_def)
qed

lemma scan_callers_None:
  "scan_callers seen cs = None \<longleftrightarrow>
     (\<forall>c \<in> set cs. AllowedCaller_Validate c = None) \<and>
     distinct (map (\<lambda>c. trim_space (ac_CallerService c)) cs) \<and>
     (\<lambda>c. trim_space (ac_CallerService c)) ` set cs \<inter> set seen = {}"
  by (induction cs arbitrary: seen) (auto simp: Let_def split: option.splits)

section \<open>Policies\<close>

lemma rejectUnknownKeys_None: "rejectUnknownKeys obj allowed = None \<longleftrightarrow> set (keys_of obj) \<subseteq> set allowed"
  by (auto simp: rejectUnknownKeys_def first_error_None)

lemma requireBool_None: "requireBool obj key = None \<longleftrightarrow> (\<exists>b. lookup_key obj key = Some (AnyBool b))"
  by (auto simp: requireBool_def split: option.splits go_any.splits)

lemma lookup_key_in_keys: "lookup_key obj key = Some v \<Longrightarrow> key \<in> set (keys_of obj)"
  by (force simp: lookup_key_def keys_of_def split: option.splits dest: map_of_SomeD)

lemma exact_keys:
  assumes "rejectUnknownKeys obj allowed = None" "\<And>k. k \<in> set allowed \<Longrightarrow> \<exists>v. lookup_key obj k = Some v"
  shows "set (keys_of obj) = set allowed"
  using assms lookup_key_in_keys unfolding rejectUnknownKeys_None by (meson subsetI subset_antisym)

lemma numberAtLeast_None:
  assumes "numberAtLeast obj key bound msg = None" "0 \<le> bound" "bound \<le> 2 ^ 53"
  shows "\<exists>v. lookup_key obj key = Some v \<and> (\<forall>n. v = AnyInt n \<or> v = AnyInt64 n \<longrightarrow> bound \<le> n)"
  using assms float64_of_int_less [OF assms(2,3)]
  by (auto simp: numberAtLeast_def requireNumber_def split: option.splits go_any.splits)

section \<open>Repos\<close>

definition kind_id :: "RepoKind \<Rightarrow> IDKind" where
  "kind_id kind = (if kind = RepoKindRepo then RepoID else TemplateID)"

lemma valid_repo_paths:
  assumes "Repo_Validate repo = None"
  obtains p where "ResolvePaths (kind_id (repo_Kind repo)) (repo_NamespaceID repo) (repo_ID repo) = Inr p"
    "repo_ControlVolumeSubdir repo = ControlVolumeSubdir p" "repo_PayloadVolumeSubdir repo = PayloadVolumeSubdir p"
    "repo_Kind repo = RepoKindRepo \<or> repo_Kind repo = RepoKindTemplate"
proof -
  have "validateCanonicalPathIdentity repo = None" using assms by (simp add: Repo_Validate_def)
  then show thesis
    using that
    by (auto simp: validateCanonicalPathIdentity_def ResolvePaths_def kind_id_def
        split: RepoKind.splits sum.splits)
qed

section \<open>Properties\<close>

text \<open>An allowed caller is accepted exactly when its service name is not blank, its roles
  are a non-empty list without repetition taken from the roles a namespace binding may
  grant, and the orchestrator and migration roles stand alone; in a valid binding no two
  callers have the same trimmed service name, so a service has one set of roles.\<close>

theorem allowed_callers_exact:
  "(AllowedCaller_Validate c = None \<longleftrightarrow>
     trim_space (ac_CallerService c) \<noteq> [] \<and> ac_Roles c \<noteq> [] \<and> distinct (ac_Roles c) \<and>
     set (ac_Roles c) \<subseteq> set NamespaceBindingCallerRoles \<and>
     (CallerRoleOrchestratorMount \<in> set (ac_Roles c) \<or> CallerRoleMigrationAdmin \<in> set (ac_Roles c) \<longrightarrow>
       length (ac_Roles c) = 1)) \<and>
   (NamespaceVolumeBinding_Validate b = None \<longrightarrow>
     nvb_AllowedCallers b \<noteq> [] \<and> list_all (\<lambda>c. AllowedCaller_Validate c = None) (nvb_AllowedCallers b) \<and>
     distinct (map (\<lambda>c. trim_space (ac_CallerService c)) (nvb_AllowedCallers b)))"
proof
  show "AllowedCaller_Validate c = None \<longleftrightarrow>
     trim_space (ac_CallerService c) \<noteq> [] \<and> ac_Roles c \<noteq> [] \<and> distinct (ac_Roles c) \<and>
     set (ac_Roles c) \<subseteq> set NamespaceBindingCallerRoles \<and>
     (CallerRoleOrchestratorMount \<in> set (ac_Roles c) \<or> CallerRoleMigrationAdmin \<in> set (ac_Roles c) \<longrightarrow>
       length (ac_Roles c) = 1)"
    unfolding NamespaceBindingCallerRoles_def by (rule AllowedCaller_Validate_None)
  show "NamespaceVolumeBinding_Validate b = None \<longrightarrow>
     nvb_AllowedCallers b \<noteq> [] \<and> list_all (\<lambda>c. AllowedCaller_Validate c = None) (nvb_AllowedCallers b) \<and>
     distinct (map (\<lambda>c. trim_space (ac_CallerService c)) (nvb_AllowedCallers b))"
    by (auto simp: NamespaceVolumeBinding_Validate_def scan_callers_None list_all_iff)
qed


text \<open>The stored records carry the isolation of the layout: two valid repo or template
  records with different kind, namespace or identifier have control and payload directories
  without a common path, and a tombstoned repo always records the status it had before
  deletion and the end of its retention.\<close>

theorem valid_repos_isolated:
  assumes "Repo_Validate r = None" "Repo_Validate q = None"
    and "(repo_Kind r, repo_NamespaceID r, repo_ID r) \<noteq> (repo_Kind q, repo_NamespaceID q, repo_ID q)"
    and "d \<in> {repo_ControlVolumeSubdir r, repo_PayloadVolumeSubdir r}"
    and "e \<in> {repo_ControlVolumeSubdir q, repo_PayloadVolumeSubdir q}"
  shows "\<not> (below d path \<and> below e path) \<and>
    (repo_Status r = RepoStatusTombstoned \<longrightarrow>
       rl_RetentionExpiresAt (repo_Lifecycle r) \<noteq> None \<and>
       rl_PreDeleteStatus (repo_Lifecycle r) \<in> {RepoStatusActive, RepoStatusArchived})"
proof
  obtain p where p: "ResolvePaths (kind_id (repo_Kind r)) (repo_NamespaceID r) (repo_ID r) = Inr p"
    "repo_ControlVolumeSubdir r = ControlVolumeSubdir p" "repo_PayloadVolumeSubdir r = PayloadVolumeSubdir p"
    "repo_Kind r = RepoKindRepo \<or> repo_Kind r = RepoKindTemplate"
    by (rule valid_repo_paths [OF assms(1)])
  obtain s where s: "ResolvePaths (kind_id (repo_Kind q)) (repo_NamespaceID q) (repo_ID q) = Inr s"
    "repo_ControlVolumeSubdir q = ControlVolumeSubdir s" "repo_PayloadVolumeSubdir q = PayloadVolumeSubdir s"
    "repo_Kind q = RepoKindRepo \<or> repo_Kind q = RepoKindTemplate"
    by (rule valid_repo_paths [OF assms(2)])
  have k: "kind_id k = RepoID \<or> kind_id k = TemplateID" for k by (simp add: kind_id_def)
  have ne: "(kind_id (repo_Kind r), repo_NamespaceID r, repo_ID r) \<noteq> (kind_id (repo_Kind q), repo_NamespaceID q, repo_ID q)"
    using assms(3) p(4) s(4) by (auto simp: kind_id_def)
  show "\<not> (below d path \<and> below e path)"
  proof
    assume b: "below d path \<and> below e path"
    then have "below (ContainerVolumeSubdir p) path" "below (ContainerVolumeSubdir s) path"
      using assms(4,5) p s isolation_parts(3) [OF k k p(1) s(1), of path] isolation_parts(3) [OF k k s(1) p(1), of path]
      by auto
    with isolation_parts(1) [OF k k p(1) s(1) ne, of path] show False by blast
  qed
  show "repo_Status r = RepoStatusTombstoned \<longrightarrow>
       rl_RetentionExpiresAt (repo_Lifecycle r) \<noteq> None \<and>
       rl_PreDeleteStatus (repo_Lifecycle r) \<in> {RepoStatusActive, RepoStatusArchived}"
    using assms(1) by (auto simp: Repo_Validate_def RepoLifecycle_Validate_def)
qed

section \<open>Concrete records\<close>

definition example_caller_admin :: AllowedCaller where
  "example_caller_admin =
     \<lparr>ac_CallerService = ''svc-a'', ac_Roles = [CallerRoleRepoAdmin, CallerRoleRepoLifecycleAdmin]\<rparr>"

definition example_binding :: NamespaceVolumeBinding where
  "example_binding =
     \<lparr>nvb_NamespaceID = ''ns_aa'', nvb_DefaultVolumeID = ''vol_v1'', nvb_AllowedCallers = [example_caller_admin],
      nvb_QuotaBytesDefault = 0,
      nvb_ExportPolicy = Some [(''webdav_enabled'', AnyBool True), (''max_session_seconds'', AnyInt 3600)],
      nvb_LifecyclePolicy = Some [(''tombstone_retention_seconds'', AnyInt 0),
        (''purge_requires_lifecycle_admin'', AnyBool True), (''break_glass_purge_enabled'', AnyBool False)],
      nvb_MountPolicy = Some [(''workload_mount_enabled'', AnyBool True),
        (''workload_mount_requires_external_control_root'', AnyBool True), (''allow_privileged_workload'', AnyBool False)],
      nvb_TemplatePolicy = Some [(''namespace_templates_enabled'', AnyBool True),
        (''cross_namespace_clone_enabled'', AnyBool False)],
      nvb_Status = NamespaceStatusActive, nvb_CreatedAt = 1, nvb_UpdatedAt = 1\<rparr>"

definition example_repo :: "string \<Rightarrow> Repo" where
  "example_repo ns =
     \<lparr>repo_ID = ''repo_r1'', repo_NamespaceID = ns, repo_VolumeID = ''vol_v1'', repo_JVSRepoID = ''jvs1'',
      repo_Kind = RepoKindRepo, repo_Status = RepoStatusTombstoned,
      repo_ControlVolumeSubdir = ''afscp/namespaces/'' @ ns @ ''/repos/repo_r1/control'',
      repo_PayloadVolumeSubdir = ''afscp/namespaces/'' @ ns @ ''/repos/repo_r1/payload'',
      repo_Lifecycle = \<lparr>rl_Status = RepoStatusTombstoned, rl_RetentionExpiresAt = Some 99,
        rl_LastLifecycleOperationID = [], rl_PreDeleteStatus = RepoStatusArchived\<rparr>,
      repo_CreatedAt = 1, repo_UpdatedAt = 2\<rparr>"

lemma example_resource_ids:
  "valid_id NamespaceID ''ns_aa''" "valid_id NamespaceID ''ns_ab''" "valid_id VolumeID ''vol_v1''" "valid_id RepoID ''repo_r1''"
  by (simp_all add: ValidateID_def has_prefix_def isASCIIAlnum_def isIDChar_def byte_def)

lemma example_caller_valid: "AllowedCaller_Validate example_caller_admin = None"
  by (simp add: AllowedCaller_Validate_None example_caller_admin_def namespaceBindingCallerRoles_def
      trim_space_id is_space_byte_def byte_def)

lemma number_at_least_int:
  "0 \<le> bound \<Longrightarrow> bound \<le> 2 ^ 53 \<Longrightarrow> lookup_key obj key = Some (AnyInt n) \<Longrightarrow> bound \<le> n \<Longrightarrow>
     numberAtLeast obj key bound msg = None"
  by (simp add: numberAtLeast_def requireNumber_def float64_of_int_less)

lemma example_binding_valid: "NamespaceVolumeBinding_Validate example_binding = None"
proof -
  have "numberAtLeast (nvb_ExportPolicy example_binding) ''max_session_seconds'' 60 m = None"
    "numberAtLeast (nvb_LifecyclePolicy example_binding) ''tombstone_retention_seconds'' 0 m = None" for m
    by (rule number_at_least_int [where n = 3600]; simp add: example_binding_def lookup_key_def)
      (rule number_at_least_int [where n = 0]; simp add: example_binding_def lookup_key_def)
  then show ?thesis
    by (simp add: NamespaceVolumeBinding_Validate_def validateExportPolicy_def validateLifecyclePolicy_def
        validateMountPolicy_def validateTemplatePolicy_def)
      (simp add: example_binding_def example_resource_ids example_caller_valid validateObject_def
        rejectUnknownKeys_None keys_of_def requireBool_def lookup_key_def validateTimestamps_def is_zero_def)
qed

lemma example_repo_valid:
  "Repo_Validate (example_repo ''ns_aa'') = None" "Repo_Validate (example_repo ''ns_ab'') = None"
  by (simp_all add: Repo_Validate_def example_repo_def example_resource_ids ValidateJVSRepoID_def asciiAlphaNum_def
      jvsRepoIDRune_def byte_def validateCanonicalPathIdentity_def ResolveRepoPaths_def RepoLifecycle_Validate_def
      validateTimestamps_def is_zero_def)

theorem allowed_callers_exact_witness:
  "list_all (\<lambda>c. AllowedCaller_Validate c = None) (nvb_AllowedCallers example_binding) \<and>
   AllowedCaller_Validate
     \<lparr>ac_CallerService = ''svc-a'', ac_Roles = [CallerRoleOrchestratorMount, CallerRoleRepoAdmin]\<rparr> \<noteq> None"
proof -
  let ?c = "\<lparr>ac_CallerService = ''svc-a'', ac_Roles = [CallerRoleOrchestratorMount, CallerRoleRepoAdmin]\<rparr>"
  note exact = allowed_callers_exact [of ?c example_binding]
  have "AllowedCaller_Validate ?c \<noteq> None" using conjunct1 [OF exact] by simp
  with mp [OF conjunct2 [OF exact] example_binding_valid] show ?thesis by (elim conjE) (rule conjI)
qed


theorem valid_repos_isolated_witness:
  "\<not> (below ''afscp/namespaces/ns_aa/repos/repo_r1/payload'' ''afscp/namespaces/ns_aa/repos/repo_r1/payload/x'' \<and>
      below ''afscp/namespaces/ns_ab/repos/repo_r1/payload'' ''afscp/namespaces/ns_aa/repos/repo_r1/payload/x'')"
  using valid_repos_isolated [OF example_repo_valid, of "''afscp/namespaces/ns_aa/repos/repo_r1/payload''"
      "''afscp/namespaces/ns_ab/repos/repo_r1/payload''" "''afscp/namespaces/ns_aa/repos/repo_r1/payload/x''"]
  by (simp add: example_repo_def)

end
