(* ===== verification/Repo_Access.thy ===== *)
theory Repo_Access
  imports Fences Resources
begin

text \<open>
  Admission of requests on a repo: \<open>internal/repoaccess/repoaccess.go\<close>, with the conversion of
  stored fences that the handlers apply before (\<open>repoAccessFencesFromStore\<close> in
  \<open>internal/api/repo_lifecycle_handler.go\<close>). The fence kinds and statuses of this package are
  the same strings as those of the fences package, so the same datatypes model both.
\<close>

section \<open>Requests and decisions\<close>

datatype Intent =
    IntentStorageSession | IntentStorageMutation | IntentExportCreate | IntentWorkloadMount
  | IntentSavePointCreate | IntentRestore | IntentTemplateCreateFromRepo | IntentTemplateCloneIntoRepo
  | IntentLifecycleArchive | IntentLifecycleRestoreArchived | IntentLifecycleDelete
  | IntentLifecycleRestoreTombstoned | IntentLifecyclePurge | IntentOther string

datatype RepoAccessMode = ModeReadOnly | ModeReadWrite | RepoAccessModeOther string

datatype RepoAccessAction = AccessActionAllow | AccessActionDeny

datatype AccessErrorFamily =
    AccessNoError
  | AccessInternalError | AccessNamespaceDisabled | AccessRepoArchived | AccessRepoTombstoned
  | AccessRepoPurged | AccessLifecycleInvalidState | AccessLifecycleFenceHeld
  | AccessWriterFenceHeld | AccessRecoveryRequired

record AccessFence =
  af_ID :: string
  af_RepoID :: string
  af_Kind :: FenceKind
  af_HolderOperationID :: string
  af_Status :: FenceStatus
  af_ExpiresAt :: go_time
  af_ReleasedAt :: "go_time option"
  af_RecoveredAt :: "go_time option"
  af_CreatedAt :: go_time
  af_UpdatedAt :: go_time

definition AccessFence_Held :: "AccessFence \<Rightarrow> bool" where
  "AccessFence_Held fence \<longleftrightarrow> af_ReleasedAt fence = None \<and> af_RecoveredAt fence = None"

record AccessRequest =
  ar_Repo :: Repo
  ar_Namespace :: Namespace
  ar_Binding :: NamespaceVolumeBinding
  ar_HeldRepoFences :: "AccessFence list"
  ar_Intent :: Intent
  ar_Mode :: RepoAccessMode

record AccessDecision =
  acd_Allowed :: bool
  acd_Action :: RepoAccessAction
  acd_ErrorFamily :: AccessErrorFamily
  acd_Reason :: string
  acd_BlockingFenceKind :: string

definition repoAccessFencesFromStore :: "Fence list \<Rightarrow> AccessFence list" where
  "repoAccessFencesFromStore existing =
     map (\<lambda>f. \<lparr>af_ID = fence_ID f, af_RepoID = fence_RepoID f, af_Kind = fence_Kind f,
                af_HolderOperationID = fence_HolderOperationID f, af_Status = fence_Status f,
                af_ExpiresAt = fence_ExpiresAt f, af_ReleasedAt = fence_ReleasedAt f,
                af_RecoveredAt = fence_RecoveredAt f, af_CreatedAt = fence_CreatedAt f,
                af_UpdatedAt = fence_UpdatedAt f\<rparr>) existing"

fun Intent_valid :: "Intent \<Rightarrow> bool" where
  "Intent_valid (IntentOther _) = False"
| "Intent_valid _ = True"

fun RepoAccessMode_valid :: "RepoAccessMode \<Rightarrow> bool" where
  "RepoAccessMode_valid (RepoAccessModeOther _) = False"
| "RepoAccessMode_valid _ = True"

fun isLifecycleIntent :: "Intent \<Rightarrow> bool" where
  "isLifecycleIntent IntentLifecycleArchive = True"
| "isLifecycleIntent IntentLifecycleRestoreArchived = True"
| "isLifecycleIntent IntentLifecycleDelete = True"
| "isLifecycleIntent IntentLifecycleRestoreTombstoned = True"
| "isLifecycleIntent IntentLifecyclePurge = True"
| "isLifecycleIntent _ = False"

fun isTransitionalStatus :: "RepoStatus \<Rightarrow> bool" where
  "isTransitionalStatus RepoStatusArchiving = True"
| "isTransitionalStatus RepoStatusRestoringArchived = True"
| "isTransitionalStatus RepoStatusDeleting = True"
| "isTransitionalStatus RepoStatusRestoringTombstoned = True"
| "isTransitionalStatus RepoStatusPurging = True"
| "isTransitionalStatus RepoStatusOperatorInterventionRequired = True"
| "isTransitionalStatus _ = False"

definition writerFenceBlocks :: "Intent \<Rightarrow> RepoAccessMode \<Rightarrow> bool" where
  "writerFenceBlocks intent mode =
     (if intent = IntentExportCreate \<or> intent = IntentWorkloadMount \<or> intent = IntentStorageSession
        then mode = ModeReadWrite
      else if intent = IntentStorageMutation \<or> intent = IntentRestore then True
      else isLifecycleIntent intent)"

definition access_allow :: AccessDecision where
  "access_allow = \<lparr>acd_Allowed = True, acd_Action = AccessActionAllow, acd_ErrorFamily = AccessNoError,
     acd_Reason = [], acd_BlockingFenceKind = []\<rparr>"

definition access_deny :: "AccessErrorFamily \<Rightarrow> string \<Rightarrow> string \<Rightarrow> AccessDecision" where
  "access_deny family reason blockingFenceKind =
     \<lparr>acd_Allowed = False, acd_Action = AccessActionDeny, acd_ErrorFamily = family,
      acd_Reason = reason, acd_BlockingFenceKind = blockingFenceKind\<rparr>"

section \<open>Admission\<close>

datatype access_state_error = AccessResourceError resource_error | AccessPathError path_error | errInvalidStoredState

definition validateAccessFence :: "AccessFence \<Rightarrow> access_state_error option" where
  "validateAccessFence fence =
     checks
      [map_option AccessPathError (ValidateID RepoID (af_RepoID fence)),
       map_option AccessPathError (ValidateID OperationID (af_HolderOperationID fence)),
       check (af_Kind fence \<noteq> KindLifecycle \<and> af_Kind fence \<noteq> KindWriterSession) errInvalidStoredState,
       check (af_Status fence \<noteq> StatusActive \<and> af_Status fence \<noteq> StatusExpired \<and>
              af_Status fence \<noteq> StatusRecoveryRequired) errInvalidStoredState,
       check (is_zero (af_ExpiresAt fence) \<or> is_zero (af_CreatedAt fence) \<or> is_zero (af_UpdatedAt fence))
         errInvalidStoredState]"

definition validateStoredState :: "AccessRequest \<Rightarrow> access_state_error option" where
  "validateStoredState request =
     checks
      [map_option AccessResourceError (Repo_Validate (ar_Repo request)),
       map_option AccessResourceError (Namespace_Validate (ar_Namespace request)),
       map_option AccessResourceError (NamespaceVolumeBinding_Validate (ar_Binding request)),
       first_error
         (\<lambda>fence. checks [validateAccessFence fence,
                          check (af_RepoID fence \<noteq> repo_ID (ar_Repo request)) errInvalidStoredState])
         (ar_HeldRepoFences request)]"

text \<open>The two fence loops: None where the source returns \<open>blocked = false\<close>.\<close>

definition lifecycle_fence_decision :: "AccessFence \<Rightarrow> AccessDecision option" where
  "lifecycle_fence_decision fence =
     (if \<not> AccessFence_Held fence then None
      else if af_Kind fence = KindLifecycle then
        (if af_Status fence = StatusExpired \<or> af_Status fence = StatusRecoveryRequired
         then Some (access_deny AccessRecoveryRequired ''held lifecycle fence requires recovery'' ''lifecycle'')
         else Some (access_deny AccessLifecycleFenceHeld ''held lifecycle fence blocks repo access'' ''lifecycle''))
      else None)"

definition denyForHeldLifecycleFence :: "AccessFence list \<Rightarrow> AccessDecision option" where
  "denyForHeldLifecycleFence existing = first_error lifecycle_fence_decision existing"

definition writer_fence_decision :: "AccessFence \<Rightarrow> AccessDecision option" where
  "writer_fence_decision fence =
     (if \<not> AccessFence_Held fence \<or> af_Kind fence \<noteq> KindWriterSession then None
      else if af_Status fence = StatusExpired \<or> af_Status fence = StatusRecoveryRequired
        then Some (access_deny AccessRecoveryRequired ''held writer-session fence requires recovery'' ''writer_session'')
      else Some (access_deny AccessWriterFenceHeld ''held writer-session fence blocks writer access'' ''writer_session''))"

definition denyForWriterFence :: "AccessRequest \<Rightarrow> AccessDecision option" where
  "denyForWriterFence request =
     (if \<not> writerFenceBlocks (ar_Intent request) (ar_Mode request) then None
      else first_error writer_fence_decision (ar_HeldRepoFences request))"

text \<open>The status a lifecycle intent starts from; None for an intent outside the switch.\<close>

definition lifecycleIntentAllowed :: "Intent \<Rightarrow> RepoStatus \<Rightarrow> bool option" where
  "lifecycleIntentAllowed intent status =
     (case intent of
        IntentLifecycleArchive \<Rightarrow> Some (status = RepoStatusActive)
      | IntentLifecycleRestoreArchived \<Rightarrow> Some (status = RepoStatusArchived)
      | IntentLifecycleDelete \<Rightarrow> Some (status = RepoStatusActive \<or> status = RepoStatusArchived)
      | IntentLifecycleRestoreTombstoned \<Rightarrow> Some (status = RepoStatusTombstoned)
      | IntentLifecyclePurge \<Rightarrow> Some (status = RepoStatusTombstoned)
      | _ \<Rightarrow> None)"

definition admitLifecycleIntent :: "AccessRequest \<Rightarrow> AccessDecision" where
  "admitLifecycleIntent request =
     (let status = repo_Status (ar_Repo request) in
      case lifecycleIntentAllowed (ar_Intent request) status of
        None \<Rightarrow> access_deny AccessInternalError ''unknown repo access intent'' []
      | Some allowed \<Rightarrow>
          if allowed then access_allow
          else if isTransitionalStatus status
            then access_deny AccessRecoveryRequired ''repo lifecycle transition requires recovery'' []
          else access_deny AccessLifecycleInvalidState
                 ''repo lifecycle source status is not allowed for intent'' [])"

definition denyForRepoStatus :: "RepoStatus \<Rightarrow> AccessDecision" where
  "denyForRepoStatus status =
     (case status of
        RepoStatusArchived \<Rightarrow> access_deny AccessRepoArchived ''repo is archived'' []
      | RepoStatusTombstoned \<Rightarrow> access_deny AccessRepoTombstoned ''repo is tombstoned'' []
      | RepoStatusPurged \<Rightarrow> access_deny AccessRepoPurged ''repo is purged'' []
      | _ \<Rightarrow> access_deny AccessRecoveryRequired ''repo lifecycle transition requires recovery'' [])"

definition Admit :: "AccessRequest \<Rightarrow> AccessDecision" where
  "Admit request =
     (if \<not> Intent_valid (ar_Intent request) \<or> \<not> RepoAccessMode_valid (ar_Mode request)
        then access_deny AccessInternalError ''invalid repo access request'' []
      else if validateStoredState request \<noteq> None
        then access_deny AccessInternalError ''invalid stored control-plane state'' []
      else if ns_ID (ar_Namespace request) \<noteq> repo_NamespaceID (ar_Repo request) \<or>
              nvb_NamespaceID (ar_Binding request) \<noteq> repo_NamespaceID (ar_Repo request)
        then access_deny AccessInternalError ''invalid stored control-plane state'' []
      else if repo_Kind (ar_Repo request) \<noteq> RepoKindRepo
        then access_deny AccessInternalError ''invalid stored control-plane state'' []
      else if nvb_Status (ar_Binding request) \<noteq> NamespaceStatusActive \<or>
              ns_Status (ar_Namespace request) \<noteq> NamespaceStatusActive
        then access_deny AccessNamespaceDisabled ''namespace or namespace binding is not active'' []
      else case denyForHeldLifecycleFence (ar_HeldRepoFences request) of
        Some decision \<Rightarrow> decision
      | None \<Rightarrow>
      case denyForWriterFence request of
        Some decision \<Rightarrow> decision
      | None \<Rightarrow>
        if isLifecycleIntent (ar_Intent request) then admitLifecycleIntent request
        else if repo_Status (ar_Repo request) \<noteq> RepoStatusActive
          then denyForRepoStatus (repo_Status (ar_Repo request))
        else access_allow)"

section \<open>Lemmas\<close>

lemma access_sel [simp]:
  "acd_Allowed access_allow" "\<not> acd_Allowed (access_deny f r k)"
  "acd_Action access_allow = AccessActionAllow" "acd_Action (access_deny f r k) = AccessActionDeny"
  "acd_ErrorFamily access_allow = AccessNoError" "acd_ErrorFamily (access_deny f r k) = f"
  by (simp_all add: access_allow_def access_deny_def)

lemma denyForRepoStatus_denied [simp]: "\<not> acd_Allowed (denyForRepoStatus status)"
  by (simp add: denyForRepoStatus_def split: RepoStatus.splits)

lemma lifecycle_fence_decision_None:
  "lifecycle_fence_decision f = None \<longleftrightarrow> \<not> (AccessFence_Held f \<and> af_Kind f = KindLifecycle)"
  by (simp add: lifecycle_fence_decision_def)

lemma writer_fence_decision_None:
  "writer_fence_decision f = None \<longleftrightarrow> \<not> (AccessFence_Held f \<and> af_Kind f = KindWriterSession)"
  by (auto simp: writer_fence_decision_def)

lemma fence_decisions_deny:
  "denyForHeldLifecycleFence fs = Some d \<Longrightarrow> \<not> acd_Allowed d"
  "denyForWriterFence request = Some d \<Longrightarrow> \<not> acd_Allowed d"
  by (auto simp: denyForHeldLifecycleFence_def denyForWriterFence_def lifecycle_fence_decision_def
      writer_fence_decision_def dest!: first_error_Some split: if_splits)

lemma Admit_allowed:
  "acd_Allowed (Admit r) \<longleftrightarrow>
     Intent_valid (ar_Intent r) \<and> RepoAccessMode_valid (ar_Mode r) \<and> validateStoredState r = None \<and>
     ns_ID (ar_Namespace r) = repo_NamespaceID (ar_Repo r) \<and> nvb_NamespaceID (ar_Binding r) = repo_NamespaceID (ar_Repo r) \<and>
     repo_Kind (ar_Repo r) = RepoKindRepo \<and>
     nvb_Status (ar_Binding r) = NamespaceStatusActive \<and> ns_Status (ar_Namespace r) = NamespaceStatusActive \<and>
     denyForHeldLifecycleFence (ar_HeldRepoFences r) = None \<and> denyForWriterFence r = None \<and>
     (if isLifecycleIntent (ar_Intent r) then acd_Allowed (admitLifecycleIntent r)
      else repo_Status (ar_Repo r) = RepoStatusActive)"
  using fence_decisions_deny(1) [of "ar_HeldRepoFences r"] fence_decisions_deny(2) [of r]
  by (auto simp: Admit_def split: option.splits)

lemma admitLifecycleIntent_allowed:
  "acd_Allowed (admitLifecycleIntent r) \<longleftrightarrow> lifecycleIntentAllowed (ar_Intent r) (repo_Status (ar_Repo r)) = Some True"
  by (auto simp: admitLifecycleIntent_def Let_def split: option.splits)

lemma no_lifecycle_fence:
  "denyForHeldLifecycleFence fs = None \<longleftrightarrow> list_all (\<lambda>f. \<not> (AccessFence_Held f \<and> af_Kind f = KindLifecycle)) fs"
  by (simp add: denyForHeldLifecycleFence_def first_error_None lifecycle_fence_decision_None list_all_iff)

lemma no_writer_fence:
  "denyForWriterFence r = None \<longleftrightarrow>
     (writerFenceBlocks (ar_Intent r) (ar_Mode r) \<longrightarrow>
       list_all (\<lambda>f. \<not> (AccessFence_Held f \<and> af_Kind f = KindWriterSession)) (ar_HeldRepoFences r))"
  by (simp add: denyForWriterFence_def first_error_None writer_fence_decision_None list_all_iff)

text \<open>The fences of a lifecycle admission: every one in the list is of a known kind, so none is held.\<close>

lemma lifecycle_admission_no_fence:
  assumes "acd_Allowed (Admit r)" "isLifecycleIntent (ar_Intent r)" "f \<in> set (ar_HeldRepoFences r)"
  shows "\<not> AccessFence_Held f"
proof
  assume held: "AccessFence_Held f"
  have a: "validateStoredState r = None" "denyForHeldLifecycleFence (ar_HeldRepoFences r) = None"
    "denyForWriterFence r = None"
    using assms(1) by (simp_all add: Admit_allowed)
  have "writerFenceBlocks (ar_Intent r) (ar_Mode r)"
    using assms(2) by (auto simp: writerFenceBlocks_def)
  then have "af_Kind f \<noteq> KindLifecycle" "af_Kind f \<noteq> KindWriterSession"
    using a(2,3) assms(3) held by (auto simp: no_lifecycle_fence no_writer_fence list_all_iff)
  moreover have "validateAccessFence f = None"
    using a(1) assms(3) by (simp add: validateStoredState_def first_error_None)
  ultimately show False by (simp add: validateAccessFence_def)
qed

section \<open>Properties\<close>


text \<open>C24. Admission at the API and acquisition by the executor agree: when a lifecycle request
  is admitted on the fences that the store lists for the repo, the fence acquisition that the
  executor attempts for any valid operation on the same fences is permitted.\<close>

theorem admission_implies_acquisition:
  assumes "(fence_step ops)\<^sup>*\<^sup>* [] rows"
    and "ListHeldRepoFences collate rows (repo_ID (ar_Repo r)) = Inr fs"
    and "ar_HeldRepoFences r = repoAccessFencesFromStore fs"
    and "isLifecycleIntent (ar_Intent r)" "acd_Allowed (Admit r)" "valid_id OperationID operation"
  shows "fs = [] \<and> ad_Allowed (CanAcquire \<lparr>acq_RepoID = repo_ID (ar_Repo r), acq_Kind = KindLifecycle,
           acq_HolderOperationID = operation, acq_ConflictMode = ConflictModeFailClosed\<rparr> fs)"
proof -
  have "fence_inv []" by (simp add: fence_inv_def held_unique_def)
  then have inv: "fence_inv rows" using assms(1) fence_table.steps_inv by blast
  obtain gs where gs: "ListHeldRepoFences collate rows (repo_ID (ar_Repo r)) = Inr gs"
    "set gs = {f \<in> set rows. fence_RepoID f = repo_ID (ar_Repo r) \<and> Held f}"
    by (rule list_held_ok [OF inv])
  have "fs = []"
  proof (rule ccontr)
    assume "fs \<noteq> []"
    then obtain f where f: "f \<in> set fs" by (cases fs) auto
    then have "Held f" using gs assms(2) by auto
    moreover obtain g where "g \<in> set (ar_HeldRepoFences r)" "AccessFence_Held g = Held f"
      using f assms(3) by (force simp: repoAccessFencesFromStore_def AccessFence_Held_def Held_def)
    ultimately show False using lifecycle_admission_no_fence [OF assms(5,4)] by blast
  qed
  moreover have "valid_id RepoID (repo_ID (ar_Repo r))"
    using assms(5) by (auto simp: Admit_allowed validateStoredState_def Repo_Validate_def
        validateCanonicalPathIdentity_def ResolveRepoPaths_def split: sum.splits option.splits)
  ultimately show ?thesis
    using assms(6) by (simp add: CanAcquire_allowed validateAcquisitionRequest_None)
qed

section \<open>Concrete requests\<close>

definition example_namespace :: Namespace where
  "example_namespace = \<lparr>ns_ID = ''ns_aa'', ns_Status = NamespaceStatusActive, ns_DisabledReason = [],
     ns_DisabledAt = None, ns_CreatedAt = 1, ns_UpdatedAt = 1\<rparr>"

definition example_access :: AccessRequest where
  "example_access = \<lparr>ar_Repo = example_repo ''ns_aa'', ar_Namespace = example_namespace, ar_Binding = example_binding,
     ar_HeldRepoFences = [], ar_Intent = IntentLifecyclePurge, ar_Mode = ModeReadWrite\<rparr>"

lemma example_access_allowed: "acd_Allowed (Admit example_access)"
proof -
  have "Namespace_Validate example_namespace = None"
    by (simp add: Namespace_Validate_def example_namespace_def example_resource_ids validateTimestamps_def is_zero_def)
  then have "validateStoredState example_access = None"
    using example_binding_valid example_repo_valid by (simp add: validateStoredState_def example_access_def)
  then show ?thesis
    unfolding Admit_allowed
    by (simp add: example_access_def no_lifecycle_fence no_writer_fence admitLifecycleIntent_allowed
        lifecycleIntentAllowed_def) (simp add: example_namespace_def example_repo_def example_binding_def)
qed


theorem admission_implies_acquisition_witness:
  "ad_Allowed (CanAcquire \<lparr>acq_RepoID = ''repo_r1'', acq_Kind = KindLifecycle,
     acq_HolderOperationID = ''op_a1'', acq_ConflictMode = ConflictModeFailClosed\<rparr> [])"
proof -
  have r: "repo_ID (ar_Repo example_access) = ''repo_r1''" "ar_HeldRepoFences example_access = []"
    "ar_Intent example_access = IntentLifecyclePurge"
    by (simp_all add: example_access_def example_repo_def)
  show ?thesis
    using admission_implies_acquisition [of example_ops "[]" "\<lambda>_. 0" example_access "[]" "''op_a1''"]
      example_access_allowed example_ids(2)
    by (simp add: r ListHeldRepoFences_def scan_fences_def repoAccessFencesFromStore_def)
qed

end
