(* ===== verification/Recovery_Planner.thy ===== *)
theory Recovery_Planner
  imports Leases Repo_Access "HOL-Library.List_Lexorder"
begin

text \<open>
  Recovery planning: \<open>internal/inspection/recovery_planner.go\<close> (what to do with a stored
  operation or fence) and \<open>repo_recovery.go\<close> (the inspection of a repo with the fences held
  on it and their holder operations). The planner only looks; the lease functions of
  \<open>Leases\<close> act. The theorems relate the two, and state what a plan other than manual
  intervention guarantees about the repo.
\<close>

section \<open>Plans\<close>

datatype RecoveryAction =
    RecoveryActionNoop | RecoveryActionClaimable | RecoveryActionRetry | RecoveryActionWait
  | RecoveryActionReclaim | RecoveryActionRecover | RecoveryActionDeliver
  | RecoveryActionFinalizeCancellation | RecoveryActionManualIntervention | RecoveryActionOther string

record RecoveryContext =
  rc_Now :: go_time
  rc_ExplicitRecovery :: bool
  rc_StaleDeliveringThreshold :: go_duration

record RecoveryPlan =
  plan_Action :: RecoveryAction
  plan_Reason :: string

definition recovery_plan :: "RecoveryAction \<Rightarrow> string \<Rightarrow> RecoveryPlan" where
  "recovery_plan action reason = \<lparr>plan_Action = action, plan_Reason = reason\<rparr>"

definition manual :: "string \<Rightarrow> RecoveryPlan" where
  "manual reason = recovery_plan RecoveryActionManualIntervention reason"

text \<open>\<open>validateOperationLeasePair\<close>: the empty string is success.\<close>

definition validateOperationLeasePair :: "OperationRecord \<Rightarrow> string" where
  "validateOperationLeasePair record =
     (let hasOwner = trim_space (op_LeaseOwner record) \<noteq> [];
          hasExpiry = op_LeaseExpiresAt record \<noteq> None in
      if op_LeaseOwner record \<noteq> [] \<and> \<not> hasOwner then ''invalid_operation_lease_owner''
      else if hasOwner \<noteq> hasExpiry then ''invalid_operation_lease_pair''
      else [])"

definition ClassifyOperationRecovery :: "OperationRecord \<Rightarrow> RecoveryContext \<Rightarrow> RecoveryPlan" where
  "ClassifyOperationRecovery record ctx =
     (if op_Attempt record < 0 then manual ''invalid_operation_attempt''
      else if validateOperationLeasePair record \<noteq> [] then manual (validateOperationLeasePair record)
      else if \<not> OperationState_Valid (op_State record)
        then manual (''invalid_operation_state:'' @ OperationState_String (op_State record))
      else if IsTerminal (op_State record) then recovery_plan RecoveryActionNoop ''operation_terminal''
      else case op_State record of
        OperationStateQueued \<Rightarrow>
          if op_LeaseExpiresAt record \<noteq> None \<or> trim_space (op_LeaseOwner record) \<noteq> []
            then manual ''queued_operation_has_lease''
          else if 0 < op_Attempt record then recovery_plan RecoveryActionRetry ''queued_operation_retry''
          else recovery_plan RecoveryActionClaimable ''queued_operation_claimable''
      | OperationStateRunning \<Rightarrow>
          if is_zero (rc_Now ctx) then manual ''missing_recovery_time''
          else if op_LeaseExpiresAt record = None \<or> trim_space (op_LeaseOwner record) = []
            then manual ''running_operation_invalid_lease''
          else if ptr_after (op_LeaseExpiresAt record) (rc_Now ctx)
            then recovery_plan RecoveryActionWait ''running_operation_live_lease''
          else recovery_plan RecoveryActionReclaim ''running_operation_expired_lease''
      | OperationStateOperatorInterventionRequired \<Rightarrow>
          if rc_ExplicitRecovery ctx
            then recovery_plan RecoveryActionRecover ''operator_intervention_explicit_recovery''
          else manual ''operator_intervention_required''
      | OperationStateCancelRequested \<Rightarrow>
          if op_LeaseExpiresAt record \<noteq> None \<and> is_zero (rc_Now ctx) then manual ''missing_recovery_time''
          else if op_LeaseExpiresAt record \<noteq> None \<and> ptr_after (op_LeaseExpiresAt record) (rc_Now ctx)
            then recovery_plan RecoveryActionWait ''cancel_requested_live_lease''
          else recovery_plan RecoveryActionFinalizeCancellation ''cancel_requested''
      | st \<Rightarrow> manual (''unsupported_operation_state:'' @ OperationState_String st))"

fun FenceStatus_String :: "FenceStatus \<Rightarrow> string" where
  "FenceStatus_String StatusActive = ''active''"
| "FenceStatus_String StatusExpired = ''expired''"
| "FenceStatus_String StatusRecoveryRequired = ''recovery_required''"
| "FenceStatus_String StatusReleased = ''released''"
| "FenceStatus_String StatusRecovered = ''recovered''"
| "FenceStatus_String (FenceStatusOther s) = s"

definition ClassifyFenceRecovery :: "Fence \<Rightarrow> RecoveryPlan" where
  "ClassifyFenceRecovery fence =
     (case ValidateFence fence of
        Some err \<Rightarrow> manual (''invalid_fence:'' @ fe_Field err)
      | None \<Rightarrow>
        if \<not> Held fence then recovery_plan RecoveryActionNoop ''fence_not_held''
        else case fence_Status fence of
          StatusReleased \<Rightarrow> recovery_plan RecoveryActionNoop ''fence_released_or_recovered''
        | StatusRecovered \<Rightarrow> recovery_plan RecoveryActionNoop ''fence_released_or_recovered''
        | StatusActive \<Rightarrow> recovery_plan RecoveryActionWait ''fence_active_held''
        | StatusExpired \<Rightarrow> recovery_plan RecoveryActionRecover ''fence_held_recovery_required''
        | StatusRecoveryRequired \<Rightarrow> recovery_plan RecoveryActionRecover ''fence_held_recovery_required''
        | st \<Rightarrow> manual (''invalid_fence_status:'' @ FenceStatus_String st))"

section \<open>Inspection of a repo\<close>

record InspectionSurface =
  surface_Status :: string
  surface_Reason :: string

record RepoRecoveryFinding =
  finding_Code :: string
  finding_Action :: RecoveryAction
  finding_Reason :: string

record FenceInspection =
  fi_FenceID :: string
  fi_Kind :: FenceKind
  fi_HolderOperationID :: string
  fi_HolderOperationType :: OperationType
  fi_FencePlan :: RecoveryPlan
  fi_HolderOperationPlan :: "RecoveryPlan option"

record RepoRecoveryInspection =
  ri_RepoID :: string
  ri_NamespaceID :: string
  ri_Status :: RepoStatus
  ri_Plan :: RecoveryPlan
  ri_Findings :: "RepoRecoveryFinding list"
  ri_LifecycleFence :: "FenceInspection option"
  ri_WriterSessionFences :: "FenceInspection list"
  ri_Sessions :: InspectionSurface
  ri_Exports :: InspectionSurface
  ri_Mounts :: InspectionSurface

definition notInspectableSurface :: InspectionSurface where
  "notInspectableSurface =
     \<lparr>surface_Status = ''not_implemented'', surface_Reason = ''not inspectable by repo recovery inspection''\<rparr>"

definition withPlan :: "RepoRecoveryInspection \<Rightarrow> RecoveryPlan \<Rightarrow> string \<Rightarrow> RepoRecoveryInspection" where
  "withPlan inspection plan findingCode =
     inspection\<lparr>ri_Plan := plan,
       ri_Findings := ri_Findings inspection @
         [\<lparr>finding_Code = findingCode, finding_Action = plan_Action plan, finding_Reason = plan_Reason plan\<rparr>]\<rparr>"

definition withManual :: "RepoRecoveryInspection \<Rightarrow> string \<Rightarrow> RepoRecoveryInspection" where
  "withManual inspection code = withPlan inspection (manual code) code"

fun isLifecycleInProgress :: "RepoStatus \<Rightarrow> bool" where
  "isLifecycleInProgress RepoStatusArchiving = True"
| "isLifecycleInProgress RepoStatusRestoringArchived = True"
| "isLifecycleInProgress RepoStatusDeleting = True"
| "isLifecycleInProgress RepoStatusRestoringTombstoned = True"
| "isLifecycleInProgress RepoStatusPurging = True"
| "isLifecycleInProgress _ = False"

fun isTerminalRepoStatus :: "RepoStatus \<Rightarrow> bool" where
  "isTerminalRepoStatus RepoStatusArchived = True"
| "isTerminalRepoStatus RepoStatusTombstoned = True"
| "isTerminalRepoStatus RepoStatusPurged = True"
| "isTerminalRepoStatus _ = False"

fun lifecycleOperationTypeForStatus :: "RepoStatus \<Rightarrow> OperationType option" where
  "lifecycleOperationTypeForStatus RepoStatusArchiving = Some OperationRepoArchive"
| "lifecycleOperationTypeForStatus RepoStatusRestoringArchived = Some OperationRepoRestoreArchived"
| "lifecycleOperationTypeForStatus RepoStatusDeleting = Some OperationRepoDelete"
| "lifecycleOperationTypeForStatus RepoStatusRestoringTombstoned = Some OperationRepoRestoreTombstoned"
| "lifecycleOperationTypeForStatus RepoStatusPurging = Some OperationRepoPurge"
| "lifecycleOperationTypeForStatus _ = None"

definition lifecycleOperationTypeMatchesStatus :: "RepoStatus \<Rightarrow> OperationType \<Rightarrow> bool" where
  "lifecycleOperationTypeMatchesStatus status typ \<longleftrightarrow> lifecycleOperationTypeForStatus status = Some typ"

fun recoveryUrgency :: "RecoveryAction \<Rightarrow> nat" where
  "recoveryUrgency RecoveryActionManualIntervention = 100"
| "recoveryUrgency RecoveryActionRecover = 80"
| "recoveryUrgency RecoveryActionReclaim = 70"
| "recoveryUrgency RecoveryActionWait = 60"
| "recoveryUrgency RecoveryActionFinalizeCancellation = 50"
| "recoveryUrgency RecoveryActionRetry = 40"
| "recoveryUrgency RecoveryActionClaimable = 40"
| "recoveryUrgency RecoveryActionDeliver = 30"
| "recoveryUrgency RecoveryActionNoop = 0"
| "recoveryUrgency (RecoveryActionOther _) = 90"

definition moreUrgentPlan :: "RecoveryPlan \<Rightarrow> RecoveryPlan \<Rightarrow> RecoveryPlan" where
  "moreUrgentPlan current candidate =
     (if recoveryUrgency (plan_Action current) < recoveryUrgency (plan_Action candidate)
      then candidate else current)"

text \<open>\<open>inspectHeldFence\<close>: the second result is the failure plan (manual) or the inspection.
  \<open>operationsByID\<close> is the map of loaded operation records.\<close>

definition inspectHeldFence ::
    "Fence \<Rightarrow> Repo \<Rightarrow> (string \<rightharpoonup> OperationRecord) \<Rightarrow> RecoveryContext \<Rightarrow> string + FenceInspection" where
  "inspectHeldFence fence repo operationsByID ctx =
     (case operationsByID (fence_HolderOperationID fence) of
        None \<Rightarrow> Inl ''missing_holder_operation_record''
      | Some record \<Rightarrow>
        if op_ID record \<noteq> fence_HolderOperationID fence then Inl ''holder_operation_id_mismatch''
        else if trim_space (op_RepoID record) = [] then Inl ''holder_operation_missing_repo_id''
        else if op_RepoID record \<noteq> repo_ID repo then Inl ''holder_operation_repo_mismatch''
        else if trim_space (op_NamespaceID record) = [] then Inl ''holder_operation_missing_namespace_id''
        else if op_NamespaceID record \<noteq> repo_NamespaceID repo then Inl ''holder_operation_namespace_mismatch''
        else if fence_Kind fence = KindWriterSession \<and> op_Type record \<noteq> OperationRestore
          then Inl ''writer_session_operation_type_mismatch''
        else Inr \<lparr>fi_FenceID = fence_ID fence, fi_Kind = fence_Kind fence,
                  fi_HolderOperationID = fence_HolderOperationID fence,
                  fi_HolderOperationType = op_Type record,
                  fi_FencePlan = ClassifyFenceRecovery fence,
                  fi_HolderOperationPlan = Some (ClassifyOperationRecovery record ctx)\<rparr>)"

text \<open>The loop over the sorted fences: it fills the inspection, or stops with a finding.\<close>

definition note_fence :: "FenceInspection \<Rightarrow> RepoRecoveryInspection \<Rightarrow> RepoRecoveryInspection" where
  "note_fence fi inspection =
     (case fi_Kind fi of
        KindLifecycle \<Rightarrow>
          inspection\<lparr>ri_LifecycleFence :=
            (case ri_LifecycleFence inspection of None \<Rightarrow> Some fi | Some g \<Rightarrow> Some g)\<rparr>
      | KindWriterSession \<Rightarrow> inspection\<lparr>ri_WriterSessionFences := ri_WriterSessionFences inspection @ [fi]\<rparr>
      | _ \<Rightarrow> inspection)"

fun inspect_fences ::
    "Repo \<Rightarrow> (string \<rightharpoonup> OperationRecord) \<Rightarrow> RecoveryContext \<Rightarrow> Fence list \<Rightarrow> FenceInspection list \<Rightarrow>
      RepoRecoveryInspection \<Rightarrow> RepoRecoveryInspection + (FenceInspection list \<times> RepoRecoveryInspection)" where
  "inspect_fences repo ops ctx [] lifecycle inspection = Inr (lifecycle, inspection)"
| "inspect_fences repo ops ctx (fence # rest) lifecycle inspection =
     (if ValidateFence fence \<noteq> None then Inl (withManual inspection ''invalid_fence'')
      else if fence_RepoID fence \<noteq> repo_ID repo then Inl (withManual inspection ''fence_repo_mismatch'')
      else if \<not> Held fence then Inl (withManual inspection ''fence_not_held'')
      else case inspectHeldFence fence repo ops ctx of
        Inl reason \<Rightarrow> Inl (withPlan inspection (manual reason) reason)
      | Inr fi \<Rightarrow>
          inspect_fences repo ops ctx rest
            (if fence_Kind fence = KindLifecycle then lifecycle @ [fi] else lifecycle)
            (note_fence fi inspection))"

definition plan_is :: "RecoveryPlan option \<Rightarrow> RecoveryAction \<Rightarrow> bool" where
  "plan_is p action = (case p of None \<Rightarrow> False | Some q \<Rightarrow> plan_Action q = action)"

definition inspect_in_progress ::
    "Repo \<Rightarrow> FenceInspection list \<Rightarrow> RepoRecoveryInspection \<Rightarrow> RepoRecoveryInspection" where
  "inspect_in_progress repo lifecycleFences inspection =
     (if trim_space (rl_LastLifecycleOperationID (repo_Lifecycle repo)) = []
        then withManual inspection ''missing_last_lifecycle_operation_id''
      else case lifecycleFences of
        [] \<Rightarrow> withManual inspection ''missing_lifecycle_fence''
      | f # _ # _ \<Rightarrow> withManual inspection ''multiple_lifecycle_fences''
      | [f] \<Rightarrow>
        let holder = fi_HolderOperationPlan f in
        if fi_HolderOperationID f \<noteq> rl_LastLifecycleOperationID (repo_Lifecycle repo)
          then withManual inspection ''lifecycle_fence_holder_mismatch''
        else if \<not> lifecycleOperationTypeMatchesStatus (repo_Status repo) (fi_HolderOperationType f)
          then withManual inspection ''lifecycle_operation_type_mismatch''
        else if plan_is holder RecoveryActionNoop
          then withManual inspection ''holder_operation_terminal_while_fence_held''
        else if plan_is holder RecoveryActionManualIntervention
          then withPlan inspection (the holder) (plan_Reason (the holder))
        else if ri_WriterSessionFences inspection \<noteq> []
          then withManual inspection ''writer_session_fence_held_during_lifecycle''
        else if plan_is holder RecoveryActionReclaim
          then withPlan inspection (the holder) (plan_Reason (the holder))
        else if plan_Action (fi_FencePlan f) = RecoveryActionRecover
          then withPlan inspection (fi_FencePlan f) (plan_Reason (fi_FencePlan f))
        else case holder of
          Some p \<Rightarrow>
            if plan_Action p \<noteq> RecoveryActionNoop then withPlan inspection p (plan_Reason p)
            else withPlan inspection (fi_FencePlan f) (plan_Reason (fi_FencePlan f))
        | None \<Rightarrow> withPlan inspection (fi_FencePlan f) (plan_Reason (fi_FencePlan f)))"

definition fence_candidate :: "FenceInspection \<Rightarrow> RecoveryPlan" where
  "fence_candidate f =
     (let candidate =
        (case fi_HolderOperationPlan f of
           Some p \<Rightarrow> if plan_Action p = RecoveryActionManualIntervention \<or> plan_Action p = RecoveryActionReclaim
                     then p else fi_FencePlan f
         | None \<Rightarrow> fi_FencePlan f) in
      if fi_Kind f = KindWriterSession \<and> plan_Action candidate = RecoveryActionWait
      then recovery_plan RecoveryActionWait ''writer_session_fence_active_held'' else candidate)"

fun best_plan :: "FenceInspection list \<Rightarrow> RecoveryPlan \<Rightarrow> RecoveryPlan option" where
  "best_plan [] best = Some best"
| "best_plan (f # fs) best =
     (if plan_is (fi_HolderOperationPlan f) RecoveryActionNoop then None
      else best_plan fs (moreUrgentPlan best (fence_candidate f)))"

definition fence_sort_key :: "Fence \<Rightarrow> nat list \<times> go_time \<times> nat list" where
  "fence_sort_key f = (bytes (fence_RepoID f), fence_CreatedAt f, bytes (fence_ID f))"

definition initial_inspection :: "Repo \<Rightarrow> RepoRecoveryInspection" where
  "initial_inspection repo =
     \<lparr>ri_RepoID = repo_ID repo, ri_NamespaceID = repo_NamespaceID repo, ri_Status = repo_Status repo,
      ri_Plan = recovery_plan (RecoveryActionOther []) [], ri_Findings = [], ri_LifecycleFence = None,
      ri_WriterSessionFences = [], ri_Sessions = notInspectableSurface, ri_Exports = notInspectableSurface,
      ri_Mounts = notInspectableSurface\<rparr>"

definition InspectRepoRecovery ::
    "Repo \<Rightarrow> Fence list \<Rightarrow> (string \<rightharpoonup> OperationRecord) \<Rightarrow> RecoveryContext \<Rightarrow> RepoRecoveryInspection" where
  "InspectRepoRecovery repo heldFences operationsByID ctx =
     (let inspection0 = initial_inspection repo;
          sortedFences = sort_key fence_sort_key heldFences in
      if Repo_Validate repo \<noteq> None then withManual inspection0 ''invalid_repo''
      else case inspect_fences repo operationsByID ctx sortedFences [] inspection0 of
        Inl failed \<Rightarrow> failed
      | Inr (lifecycleFences, inspection) \<Rightarrow>
        if isTerminalRepoStatus (repo_Status repo) \<and> sortedFences \<noteq> []
          then withManual inspection ''terminal_repo_has_held_fence''
        else if repo_Status repo = RepoStatusOperatorInterventionRequired
          then withManual inspection ''operator_intervention_required''
        else if isLifecycleInProgress (repo_Status repo)
          then inspect_in_progress repo lifecycleFences inspection
        else if sortedFences = []
          then withPlan inspection (recovery_plan RecoveryActionNoop ''stable_repo_no_held_fence'')
                 ''stable_repo_no_held_fence''
        else if lifecycleFences \<noteq> [] then withManual inspection ''stable_repo_has_lifecycle_fence''
        else case best_plan (lifecycleFences @ ri_WriterSessionFences inspection)
                    (recovery_plan RecoveryActionNoop ''held_fences_inspected'') of
          None \<Rightarrow> withManual inspection ''holder_operation_terminal_while_fence_held''
        | Some best \<Rightarrow> withPlan inspection best (plan_Reason best))"

section \<open>The planner and the lease functions\<close>

lemma plan_simps [simp]:
  "plan_Action (recovery_plan a r) = a" "plan_Action (manual r) = RecoveryActionManualIntervention"
  by (simp_all add: recovery_plan_def manual_def)

lemma validateOperationLeasePair_Nil: "validateOperationLeasePair r = [] \<longleftrightarrow> lease_pair_ok r"
  by (auto simp: validateOperationLeasePair_def lease_pair_ok_def Let_def)

text \<open>The action a lease acquisition takes for a planned recovery.\<close>

fun planned_lease_action :: "RecoveryAction \<Rightarrow> LeaseAction option" where
  "planned_lease_action RecoveryActionClaimable = Some LeaseActionClaim"
| "planned_lease_action RecoveryActionRetry = Some LeaseActionClaim"
| "planned_lease_action RecoveryActionReclaim = Some LeaseActionReclaim"
| "planned_lease_action RecoveryActionRecover = Some LeaseActionRecover"
| "planned_lease_action RecoveryActionFinalizeCancellation = Some LeaseActionFinalizeCancellation"
| "planned_lease_action _ = None"

text \<open>The request a worker makes for a recovery context.\<close>

definition request_matches :: "LeaseRequest \<Rightarrow> RecoveryContext \<Rightarrow> bool" where
  "request_matches q ctx \<longleftrightarrow>
     lease_request_ok q \<and> req_Now q = rc_Now ctx \<and> req_CancelPolicy q = LeaseCancelPolicyFinalize \<and>
     (req_RecoveryMode q = LeaseRecoveryExplicitAction \<longleftrightarrow> rc_ExplicitRecovery ctx)"

lemma planned_lease_action_iff:
  assumes "request_matches q ctx" "lease_record_inv r"
  shows "planned_lease_action (plan_Action (ClassifyOperationRecovery r ctx)) =
     (if lease_available r q then Some (dec_Action (acquire_valid r q)) else None)"
proof -
  have now: "\<not> is_zero (rc_Now ctx)" and pair: "validateOperationLeasePair r = []" and att: "\<not> op_Attempt r < 0"
    and valid: "OperationState_Valid (op_State r)"
    using assms by (auto simp: request_matches_def lease_request_ok_def is_zero_def lease_record_inv_def
        validateOperationLeasePair_Nil)
  note defs = ClassifyOperationRecovery_def lease_available.simps acquire_valid_def applyLease_def
    finalizeCancellation_def pair att valid now
  show ?thesis
    using assms
    by (cases "op_State r") (auto simp: defs request_matches_def lease_record_inv_def lease_pair_ok_def)
qed

section \<open>What the fence loop establishes\<close>

definition fence_inspected :: "Repo \<Rightarrow> (string \<rightharpoonup> OperationRecord) \<Rightarrow> RecoveryContext \<Rightarrow> Fence \<Rightarrow> bool" where
  "fence_inspected repo ops ctx f \<longleftrightarrow>
     ValidateFence f = None \<and> fence_RepoID f = repo_ID repo \<and> Held f \<and> \<not> isl (inspectHeldFence f repo ops ctx)"

definition inspection_of :: "Repo \<Rightarrow> (string \<rightharpoonup> OperationRecord) \<Rightarrow> RecoveryContext \<Rightarrow> Fence \<Rightarrow> FenceInspection" where
  "inspection_of repo ops ctx f = projr (inspectHeldFence f repo ops ctx)"

lemma inspectHeldFence_Inr:
  assumes "inspectHeldFence f repo ops ctx = Inr fi"
  obtains opr where "ops (fence_HolderOperationID f) = Some opr" "op_ID opr = fence_HolderOperationID f"
    "op_RepoID opr = repo_ID repo" "op_NamespaceID opr = repo_NamespaceID repo"
    "fi = \<lparr>fi_FenceID = fence_ID f, fi_Kind = fence_Kind f, fi_HolderOperationID = fence_HolderOperationID f,
      fi_HolderOperationType = op_Type opr, fi_FencePlan = ClassifyFenceRecovery f,
      fi_HolderOperationPlan = Some (ClassifyOperationRecovery opr ctx)\<rparr>"
  using assms by (auto simp: inspectHeldFence_def split: option.splits if_splits)

lemma inspectHeldFence_kind: "inspectHeldFence f repo ops ctx = Inr fi \<Longrightarrow> fi_Kind fi = fence_Kind f"
  by (auto elim: inspectHeldFence_Inr)

lemma note_fence_sel:
  "ri_WriterSessionFences (note_fence fi insp) =
     ri_WriterSessionFences insp @ (if fi_Kind fi = KindWriterSession then [fi] else [])"
  "ri_Findings (note_fence fi insp) = ri_Findings insp"
  by (simp_all add: note_fence_def split: FenceKind.splits)

lemma inspect_fences_Inr:
  "inspect_fences repo ops ctx fs lc insp = Inr (lc', insp') \<Longrightarrow>
     list_all (fence_inspected repo ops ctx) fs \<and>
     lc' = lc @ map (inspection_of repo ops ctx) (filter (\<lambda>f. fence_Kind f = KindLifecycle) fs) \<and>
     ri_WriterSessionFences insp' = ri_WriterSessionFences insp @
       map (inspection_of repo ops ctx) (filter (\<lambda>f. fence_Kind f = KindWriterSession) fs)"
proof (induction fs arbitrary: lc insp)
  case Nil
  then show ?case by simp
next
  case (Cons f fs)
  obtain fi where fi: "inspectHeldFence f repo ops ctx = Inr fi" "ValidateFence f = None"
      "fence_RepoID f = repo_ID repo" "Held f"
    and rest: "inspect_fences repo ops ctx fs (if fence_Kind f = KindLifecycle then lc @ [fi] else lc)
      (note_fence fi insp) = Inr (lc', insp')"
    using Cons.prems by (auto split: if_splits sum.splits)
  have "fi_Kind fi = fence_Kind f" "inspection_of repo ops ctx f = fi" "fence_inspected repo ops ctx f"
    using fi inspectHeldFence_kind by (auto simp: inspection_of_def fence_inspected_def)
  with Cons.IH [OF rest] show ?case by (auto simp: note_fence_sel)
qed

lemma held_fence_plan:
  "ValidateFence f = None \<Longrightarrow> Held f \<Longrightarrow>
     plan_Action (ClassifyFenceRecovery f) \<in> {RecoveryActionWait, RecoveryActionRecover}"
  using valid_fence_held [of f]
  by (auto simp: ClassifyFenceRecovery_def ValidateFence_def validateFenceStatusTimes_def
      split: option.splits FenceStatus.splits if_splits)

lemma inspected_plan:
  assumes "fence_inspected repo ops ctx f"
  obtains opr where "ops (fence_HolderOperationID f) = Some opr" "op_ID opr = fence_HolderOperationID f"
    "op_RepoID opr = repo_ID repo" "op_NamespaceID opr = repo_NamespaceID repo"
    "fi_HolderOperationID (inspection_of repo ops ctx f) = fence_HolderOperationID f"
    "fi_HolderOperationType (inspection_of repo ops ctx f) = op_Type opr"
    "fi_HolderOperationPlan (inspection_of repo ops ctx f) = Some (ClassifyOperationRecovery opr ctx)"
    "plan_Action (fi_FencePlan (inspection_of repo ops ctx f)) \<in> {RecoveryActionWait, RecoveryActionRecover}"
proof -
  obtain fi where fi: "inspectHeldFence f repo ops ctx = Inr fi" "ValidateFence f = None" "Held f"
    using assms by (cases "inspectHeldFence f repo ops ctx") (auto simp: fence_inspected_def)
  obtain opr where r: "ops (fence_HolderOperationID f) = Some opr" "op_ID opr = fence_HolderOperationID f"
    "op_RepoID opr = repo_ID repo" "op_NamespaceID opr = repo_NamespaceID repo"
    "fi = \<lparr>fi_FenceID = fence_ID f, fi_Kind = fence_Kind f, fi_HolderOperationID = fence_HolderOperationID f,
      fi_HolderOperationType = op_Type opr, fi_FencePlan = ClassifyFenceRecovery f,
      fi_HolderOperationPlan = Some (ClassifyOperationRecovery opr ctx)\<rparr>"
    using fi(1) by (rule inspectHeldFence_Inr)
  show thesis
    by (rule that [OF r(1-4)]) (use fi held_fence_plan in \<open>simp_all add: inspection_of_def r(5)\<close>)
qed

lemma inspected_plans:
  assumes "fence_inspected repo ops ctx f"
  shows "fi_HolderOperationPlan (inspection_of repo ops ctx f) \<noteq> None \<and>
    plan_Action (fi_FencePlan (inspection_of repo ops ctx f)) \<noteq> RecoveryActionNoop"
  by (rule inspected_plan [OF assms]) auto

lemma inspected_lifecycle_plans:
  "list_all (fence_inspected repo ops ctx) fs \<Longrightarrow>
     \<forall>f \<in> set (map (inspection_of repo ops ctx) (filter P fs)).
       fi_HolderOperationPlan f \<noteq> None \<and> plan_Action (fi_FencePlan f) \<noteq> RecoveryActionNoop"
  using inspected_plans by (auto simp: list_all_iff)

lemma sort_key_Nil [simp]: "sort_key k fs = [] \<longleftrightarrow> fs = []"
  by (metis length_0_conv length_sort)

lemma best_plan_grows:
  "best_plan fs b = Some b' \<Longrightarrow> recoveryUrgency (plan_Action b) \<le> recoveryUrgency (plan_Action b') \<and>
     (\<forall>f \<in> set fs. recoveryUrgency (plan_Action (fence_candidate f)) \<le> recoveryUrgency (plan_Action b'))"
proof (induction fs arbitrary: b)
  case Nil
  then show ?case by simp
next
  case (Cons f fs)
  then have "best_plan fs (moreUrgentPlan b (fence_candidate f)) = Some b'" by (simp split: if_splits)
  from Cons.IH [OF this] show ?case by (auto simp: moreUrgentPlan_def split: if_splits)
qed

lemma candidate_urgent:
  assumes "fence_inspected repo ops ctx f"
  shows "0 < recoveryUrgency (plan_Action (fence_candidate (inspection_of repo ops ctx f)))"
  by (rule inspected_plan [OF assms]) (auto simp: fence_candidate_def Let_def)

lemma withPlan_plan [simp]:
  "ri_Plan (withPlan insp p c) = p" "ri_Plan (withManual insp c) = manual c"
  by (simp_all add: withPlan_def withManual_def)

lemma inspect_fences_Inl:
  "inspect_fences repo ops ctx fs lc insp = Inl r \<Longrightarrow> plan_Action (ri_Plan r) = RecoveryActionManualIntervention"
  by (induction fs arbitrary: lc insp) (auto split: if_splits sum.splits)

lemma lifecycle_in_progress_plan:
  assumes "plan_Action (ri_Plan (inspect_in_progress repo lc insp)) \<noteq> RecoveryActionManualIntervention"
    "\<forall>f \<in> set lc. fi_HolderOperationPlan f \<noteq> None \<and> plan_Action (fi_FencePlan f) \<noteq> RecoveryActionNoop"
  obtains f where "lc = [f]" "fi_HolderOperationID f = rl_LastLifecycleOperationID (repo_Lifecycle repo)"
    "lifecycleOperationTypeForStatus (repo_Status repo) = Some (fi_HolderOperationType f)"
    "ri_WriterSessionFences insp = []" "\<not> plan_is (fi_HolderOperationPlan f) RecoveryActionNoop"
    "plan_Action (ri_Plan (inspect_in_progress repo lc insp)) \<noteq> RecoveryActionNoop"
  using assms that
  by (auto simp: inspect_in_progress_def lifecycleOperationTypeMatchesStatus_def Let_def plan_is_def
      split: if_splits list.splits option.splits)

lemma inspected_lists:
  assumes "Repo_Validate repo = None"
    and "inspect_fences repo ops ctx (sort_key fence_sort_key fs) [] (initial_inspection repo) = Inr (lc, insp)"
  shows "list_all (fence_inspected repo ops ctx) (sort_key fence_sort_key fs)"
    "lc = map (inspection_of repo ops ctx) (filter (\<lambda>f. fence_Kind f = KindLifecycle) (sort_key fence_sort_key fs))"
    "ri_WriterSessionFences insp =
       map (inspection_of repo ops ctx) (filter (\<lambda>f. fence_Kind f = KindWriterSession) (sort_key fence_sort_key fs))"
  using inspect_fences_Inr [OF assms(2)] by (simp_all add: initial_inspection_def)

section \<open>Properties\<close>

text \<open>C25. The recovery planner and the lease functions agree: for a worker request with the
  same time, the same recovery mode and permission to finalise cancellations, the lease is
  granted exactly when the plan asks for an action on a record that satisfies the lease
  invariant, and the granted action is the planned one; a record that breaks the invariant
  is planned for manual intervention unless it is terminal, and its lease is refused.\<close>

theorem recovery_plan_matches_lease:
  assumes "request_matches q ctx"
  shows "(dec_Allowed (AcquireLease r q) \<longleftrightarrow>
      lease_record_inv r \<and> planned_lease_action (plan_Action (ClassifyOperationRecovery r ctx)) \<noteq> None) \<and>
    (dec_Allowed (AcquireLease r q) \<longrightarrow>
      planned_lease_action (plan_Action (ClassifyOperationRecovery r ctx)) = Some (dec_Action (AcquireLease r q))) \<and>
    (\<not> lease_record_inv r \<longrightarrow>
      plan_Action (ClassifyOperationRecovery r ctx) \<in> {RecoveryActionManualIntervention, RecoveryActionNoop})"
proof (intro conjI impI)
  have ok: "lease_request_ok q" using assms by (simp add: request_matches_def)
  show allowed: "dec_Allowed (AcquireLease r q) \<longleftrightarrow>
      lease_record_inv r \<and> planned_lease_action (plan_Action (ClassifyOperationRecovery r ctx)) \<noteq> None"
    using planned_lease_action_iff [OF assms, of r] ok
    by (cases "lease_available r q") (auto simp: AcquireLease_allowed_iff)
  show "planned_lease_action (plan_Action (ClassifyOperationRecovery r ctx)) = Some (dec_Action (AcquireLease r q))"
    if a: "dec_Allowed (AcquireLease r q)"
    using a [unfolded AcquireLease_allowed_iff] planned_lease_action_iff [OF assms, of r] AcquireLease_eq [OF a]
    by simp
  show "plan_Action (ClassifyOperationRecovery r ctx) \<in> {RecoveryActionManualIntervention, RecoveryActionNoop}"
    if "\<not> lease_record_inv r"
    using that assms
    by (cases "op_State r") (auto simp: lease_record_inv_def ClassifyOperationRecovery_def
        validateOperationLeasePair_Nil lease_pair_ok_def request_matches_def lease_request_ok_def is_zero_def)
qed

text \<open>A repo is reported as needing nothing exactly when its record is valid, no fence is
  held on it, and its status is stable: no other combination of status, fences and holder
  operations is ever classified as no action.\<close>

theorem inspection_noop_exact:
  "plan_Action (ri_Plan (InspectRepoRecovery repo fs ops ctx)) = RecoveryActionNoop \<longleftrightarrow>
     Repo_Validate repo = None \<and> fs = [] \<and> \<not> isLifecycleInProgress (repo_Status repo) \<and>
     repo_Status repo \<noteq> RepoStatusOperatorInterventionRequired"
proof (cases "Repo_Validate repo = None \<and> fs \<noteq> []")
  case False
  show ?thesis
  proof (cases "Repo_Validate repo = None")
    case True
    with False have "fs = []" by simp
    with True show ?thesis
      by (cases "repo_Status repo") (simp_all add: InspectRepoRecovery_def Let_def inspect_in_progress_def)
  qed (simp add: InspectRepoRecovery_def Let_def)
next
  case True
  have "plan_Action (ri_Plan (InspectRepoRecovery repo fs ops ctx)) \<noteq> RecoveryActionNoop"
  proof (cases "inspect_fences repo ops ctx (sort_key fence_sort_key fs) [] (initial_inspection repo)")
    case (Inl r)
    with True inspect_fences_Inl [OF Inl] show ?thesis by (simp add: InspectRepoRecovery_def Let_def)
  next
    case (Inr p)
    obtain lc insp where p: "p = (lc, insp)" by (cases p)
    let ?S = "sort_key fence_sort_key fs"
    note lists = inspected_lists [OF conjunct1 [OF True] Inr [unfolded p]]
    have insp: "\<forall>f \<in> set lc. fi_HolderOperationPlan f \<noteq> None \<and> plan_Action (fi_FencePlan f) \<noteq> RecoveryActionNoop"
      using lists(1) unfolding lists(2) by (rule inspected_lifecycle_plans)
    have prog: "plan_Action (ri_Plan (inspect_in_progress repo lc insp)) \<noteq> RecoveryActionNoop"
      using lifecycle_in_progress_plan [OF _ insp] by (metis RecoveryAction.distinct(15))
    have best: "plan_Action b \<noteq> RecoveryActionNoop"
      if "lc = []" "best_plan (ri_WriterSessionFences insp) b0 = Some b" for b b0
    proof -
      obtain f where "f \<in> set fs" using True by (cases fs) auto
      then have f: "f \<in> set ?S" by simp
      then have "fence_inspected repo ops ctx f" using lists(1) by (simp add: list_all_iff)
      moreover from this have "FenceKind_Valid (fence_Kind f)"
        using valid_fence_fields by (simp add: fence_inspected_def)
      moreover have "fence_Kind f \<noteq> KindLifecycle"
        using that(1) f unfolding lists(2) by (auto simp: filter_empty_conv)
      ultimately have "inspection_of repo ops ctx f \<in> set (ri_WriterSessionFences insp)"
        "0 < recoveryUrgency (plan_Action (fence_candidate (inspection_of repo ops ctx f)))"
        using f candidate_urgent unfolding lists(3) by (cases "fence_Kind f"; force)+
      with best_plan_grows [OF that(2)] have "0 < recoveryUrgency (plan_Action b)"
        by (meson less_le_trans)
      then show ?thesis by auto
    qed
    show ?thesis
      using True Inr p prog best
      by (auto simp: InspectRepoRecovery_def Let_def split: option.splits)
  qed
  with True show ?thesis by simp
qed

lemma sort_key_single: "sort_key k fs = [f] \<Longrightarrow> fs = [f]"
  by (metis length_sort length_0_conv length_Suc_conv set_sort list.set_intros(1) singletonD list.set(1,2))

text \<open>C26. A repo in the middle of a lifecycle transition gets a plan other than manual
  intervention only in the one consistent situation: a valid record, exactly one held fence,
  of the lifecycle kind, whose holder is the operation the record names as its last
  lifecycle operation, and that operation is loaded, belongs to the repo and namespace, has
  the type of the transition and is not terminal; and the plan is not to do nothing.\<close>

theorem lifecycle_inspection_safe:
  assumes "isLifecycleInProgress (repo_Status repo)"
    and "plan_Action (ri_Plan (InspectRepoRecovery repo fs ops ctx)) \<noteq> RecoveryActionManualIntervention"
  shows "Repo_Validate repo = None \<and>
    (\<exists>f opr. fs = [f] \<and> fence_Kind f = KindLifecycle \<and> Held f \<and> fence_RepoID f = repo_ID repo \<and>
      fence_HolderOperationID f = rl_LastLifecycleOperationID (repo_Lifecycle repo) \<and>
      ops (fence_HolderOperationID f) = Some opr \<and> op_ID opr = fence_HolderOperationID f \<and>
      op_RepoID opr = repo_ID repo \<and> op_NamespaceID opr = repo_NamespaceID repo \<and>
      lifecycleOperationTypeForStatus (repo_Status repo) = Some (op_Type opr) \<and>
      \<not> IsTerminal (op_State opr)) \<and>
    plan_Action (ri_Plan (InspectRepoRecovery repo fs ops ctx)) \<noteq> RecoveryActionNoop"
proof -
  let ?S = "sort_key fence_sort_key fs"
  have valid: "Repo_Validate repo = None"
    using assms(2) by (auto simp: InspectRepoRecovery_def Let_def split: if_splits)
  obtain lc insp where run: "inspect_fences repo ops ctx ?S [] (initial_inspection repo) = Inr (lc, insp)"
    using assms(2) valid inspect_fences_Inl [of repo ops ctx ?S "[]" "initial_inspection repo"]
    by (auto simp: InspectRepoRecovery_def Let_def split: sum.splits)
  have status: "\<not> isTerminalRepoStatus (repo_Status repo)" "repo_Status repo \<noteq> RepoStatusOperatorInterventionRequired"
    using assms(1) by (cases "repo_Status repo"; simp)+
  then have plan: "InspectRepoRecovery repo fs ops ctx = inspect_in_progress repo lc insp"
    using valid run assms(1) by (simp add: InspectRepoRecovery_def Let_def)
  note lists = inspected_lists [OF valid run]
  have lc_plans: "\<forall>f \<in> set lc. fi_HolderOperationPlan f \<noteq> None \<and> plan_Action (fi_FencePlan f) \<noteq> RecoveryActionNoop"
    unfolding lists(2) by (rule inspected_lifecycle_plans [OF lists(1)])
  obtain g where g: "lc = [g]" "fi_HolderOperationID g = rl_LastLifecycleOperationID (repo_Lifecycle repo)"
    "lifecycleOperationTypeForStatus (repo_Status repo) = Some (fi_HolderOperationType g)"
    "ri_WriterSessionFences insp = []" "\<not> plan_is (fi_HolderOperationPlan g) RecoveryActionNoop"
    "plan_Action (ri_Plan (inspect_in_progress repo lc insp)) \<noteq> RecoveryActionNoop"
    using assms(2) [unfolded plan] lc_plans
    by (rule lifecycle_in_progress_plan)
  have kinds: "fence_Kind f = KindLifecycle" if "f \<in> set ?S" for f
  proof -
    have "FenceKind_Valid (fence_Kind f)"
      using lists(1) that valid_fence_fields by (simp add: list_all_iff fence_inspected_def)
    moreover have "fence_Kind f \<noteq> KindWriterSession"
      using lists(3) g(4) that by (auto simp: filter_empty_conv)
    ultimately show ?thesis by (cases "fence_Kind f") auto
  qed
  then have "filter (\<lambda>f. fence_Kind f = KindLifecycle) ?S = ?S" by (intro filter_True ballI)
  then have "map (inspection_of repo ops ctx) ?S = [g]" using lists(2) g(1) by simp
  then obtain f where f: "?S = [f]" "inspection_of repo ops ctx f = g" by auto
  then have insp: "fence_inspected repo ops ctx f" using lists(1) by simp
  obtain opr where o: "ops (fence_HolderOperationID f) = Some opr" "op_ID opr = fence_HolderOperationID f"
    "op_RepoID opr = repo_ID repo" "op_NamespaceID opr = repo_NamespaceID repo"
    "fi_HolderOperationID g = fence_HolderOperationID f" "fi_HolderOperationType g = op_Type opr"
    "fi_HolderOperationPlan g = Some (ClassifyOperationRecovery opr ctx)"
    by (rule inspected_plan [OF insp]) (simp add: f(2))
  have "plan_Action (ClassifyOperationRecovery opr ctx) \<noteq> RecoveryActionManualIntervention"
    using assms(2) g(2,3,5) o(7) unfolding plan g(1)
    by (auto simp: inspect_in_progress_def Let_def plan_is_def lifecycleOperationTypeMatchesStatus_def split: if_splits)
  then have "\<not> IsTerminal (op_State opr)"
    using g(5) o(7) by (auto simp: plan_is_def ClassifyOperationRecovery_def split: if_splits)
  with valid o g plan f(1) kinds insp sort_key_single [OF f(1)] show ?thesis
    by (auto simp: fence_inspected_def)
qed

section \<open>Concrete situations\<close>

definition example_context :: RecoveryContext where
  "example_context = \<lparr>rc_Now = 50, rc_ExplicitRecovery = False, rc_StaleDeliveringThreshold = 10\<rparr>"

definition example_recovery_request :: LeaseRequest where
  "example_recovery_request = (example_request ''w2'' 50)\<lparr>req_CancelPolicy := LeaseCancelPolicyFinalize\<rparr>"

theorem recovery_plan_matches_lease_witness:
  "dec_Allowed (AcquireLease (example_op OperationStateRunning ''w1'' (Some 40)) example_recovery_request) \<and>
   plan_Action (ClassifyOperationRecovery (example_op OperationStateRunning ''w1'' (Some 40)) example_context) =
     RecoveryActionReclaim"
proof -
  have m: "request_matches example_recovery_request example_context"
    by (simp add: request_matches_def lease_request_ok_def example_recovery_request_def example_context_def)
  have p: "plan_Action (ClassifyOperationRecovery (example_op OperationStateRunning ''w1'' (Some 40)) example_context) =
      RecoveryActionReclaim"
    by (simp add: ClassifyOperationRecovery_def validateOperationLeasePair_def example_context_def is_zero_def)
  show ?thesis
    using recovery_plan_matches_lease [OF m, of "example_op OperationStateRunning ''w1'' (Some 40)"] p by simp
qed

definition purging_repo :: Repo where
  "purging_repo = (example_repo ''ns_aa'')\<lparr>repo_Status := RepoStatusPurging,
     repo_Lifecycle := \<lparr>rl_Status = RepoStatusPurging, rl_RetentionExpiresAt = Some 9,
       rl_LastLifecycleOperationID = ''op_a1'', rl_PreDeleteStatus = RepoStatusArchived\<rparr>\<rparr>"

definition purge_op :: OperationRecord where
  "purge_op = (example_op OperationStateRunning ''w1'' (Some 40))
     \<lparr>op_ID := ''op_a1'', op_Type := OperationRepoPurge, op_RepoID := ''repo_r1'', op_NamespaceID := ''ns_aa''\<rparr>"

lemma purging_valid: "Repo_Validate purging_repo = None"
  using example_repo_valid(1)
  by (simp add: Repo_Validate_def purging_repo_def example_repo_def validateCanonicalPathIdentity_def
      RepoLifecycle_Validate_def ResolveRepoPaths_def example_resource_ids example_ids)

lemma purging_inspected:
  "plan_Action (ri_Plan (InspectRepoRecovery purging_repo [example_fence ''f1'' ''op_a1'']
     [''op_a1'' \<mapsto> purge_op] example_context)) = RecoveryActionReclaim"
proof -
  let ?f = "example_fence ''f1'' ''op_a1''"
  have c: "plan_Action (ClassifyOperationRecovery purge_op example_context) = RecoveryActionReclaim"
    by (simp add: ClassifyOperationRecovery_def validateOperationLeasePair_def example_context_def is_zero_def purge_op_def)
  have f: "fence_Kind ?f = KindLifecycle" "fence_HolderOperationID ?f = ''op_a1''" "fence_RepoID ?f = ''repo_r1''" "Held ?f"
    by (simp_all add: example_fence_def Held_def)
  have o: "op_ID purge_op = ''op_a1''" "op_RepoID purge_op = ''repo_r1''" "op_NamespaceID purge_op = ''ns_aa''"
    "op_Type purge_op = OperationRepoPurge"
    by (simp_all add: purge_op_def)
  have r: "repo_ID purging_repo = ''repo_r1''" "repo_NamespaceID purging_repo = ''ns_aa''"
    "repo_Status purging_repo = RepoStatusPurging" "rl_LastLifecycleOperationID (repo_Lifecycle purging_repo) = ''op_a1''"
    by (simp_all add: purging_repo_def example_repo_def)
  have t: "trim_space ''repo_r1'' = ''repo_r1''" "trim_space ''ns_aa'' = ''ns_aa''" "trim_space ''op_a1'' = ''op_a1''"
    by (simp_all add: trim_space_id is_space_byte_def byte_def)
  show ?thesis
    by (simp add: InspectRepoRecovery_def purging_valid inspectHeldFence_def f o r t example_valid(1) note_fence_def
        inspect_in_progress_def plan_is_def c initial_inspection_def lifecycleOperationTypeMatchesStatus_def)
qed

theorem lifecycle_inspection_safe_witness:
  "\<exists>opr. [''op_a1'' \<mapsto> purge_op] ''op_a1'' = Some opr \<and> \<not> IsTerminal (op_State opr)"
  using lifecycle_inspection_safe [of purging_repo "[example_fence ''f1'' ''op_a1'']" "[''op_a1'' \<mapsto> purge_op]" example_context]
    purging_inspected
  by (auto simp: purging_repo_def)

end
