(* ===== verification/Regexp.thy ===== *)
theory Regexp
  imports Prelude
begin

text \<open>
  The part of Go's \<open>regexp\<close> package that the redaction rules of
  \<open>internal/observability/redaction.go\<close> use: leftmost-first (Perl) matching with greedy
  repetition, capture groups, the assertions \<open>^\<close> and \<open>\b\<close>, the flag \<open>(?i)\<close>, and the functions
  \<open>ReplaceAllString\<close>, \<open>ReplaceAllStringFunc\<close> and \<open>FindStringSubmatch\<close>. Matching works on
  the runes of a string; each rune keeps the bytes it was decoded from, so that text that
  is not replaced is copied byte for byte, also where it is not valid UTF-8.
\<close>

section \<open>Runes with their bytes\<close>

type_synonym runit = "nat \<times> string"

function runits :: "string \<Rightarrow> runit list" where
  "runits s =
     (if s = [] then []
      else case decode_rune (bytes s) of
             None \<Rightarrow> (65533, take 1 s) # runits (drop 1 s)
           | Some (r, w) \<Rightarrow> (r, take (max 1 w) s) # runits (drop (max 1 w) s))"
  by pat_completeness auto
termination
  by (relation "measure length") (auto simp: Suc_le_eq)

declare runits.simps [simp del]

definition runits_bytes :: "runit list \<Rightarrow> string" where
  "runits_bytes us = concat (map snd us)"

lemma runits_bytes_simps [simp]:
  "runits_bytes [] = []"
  "runits_bytes (u # us) = snd u @ runits_bytes us"
  "runits_bytes (us @ vs) = runits_bytes us @ runits_bytes vs"
  by (simp_all add: runits_bytes_def)

lemma runits_Nil [simp]: "runits [] = []"
  by (simp add: runits.simps)

lemma runits_ascii [simp]: "byte c < 128 \<Longrightarrow> runits (c # s) = (byte c, [c]) # runits s"
  by (subst runits.simps) simp

text \<open>Decoding loses nothing, and reads the runes that \<open>range\<close> reads.\<close>

lemma runits_bytes_runits [simp]: "runits_bytes (runits s) = s"
  by (induction s rule: runits.induct)
    (subst runits.simps, auto simp: append_take_drop_id split: option.splits)

lemma fst_runits: "map fst (runits s) = runes (bytes s)"
proof (induction s rule: runits.induct)
  case (1 s)
  show ?case
  proof (cases "s = []")
    case False
    then show ?thesis
      using 1 by (subst runits.simps, subst runes.simps)
        (auto simp: bytes_def drop_map split: option.splits)
  qed simp
qed

section \<open>Regular expressions\<close>

datatype regex =
    Eps
  | Cls "nat \<Rightarrow> bool"
  | Cat regex regex
  | Alt regex regex
  | Star regex
  | Grp nat regex
  | WordB
  | TextStart

definition Opt :: "regex \<Rightarrow> regex" where
  "Opt r = Alt r Eps"

definition Plus :: "regex \<Rightarrow> regex" where
  "Plus r = Cat r (Star r)"

fun Seq :: "regex list \<Rightarrow> regex" where
  "Seq [] = Eps"
| "Seq [r] = r"
| "Seq (r # rs) = Cat r (Seq rs)"

fun Any :: "regex list \<Rightarrow> regex" where
  "Any [] = Cls (\<lambda>_. False)"
| "Any [r] = r"
| "Any (r # rs) = Alt r (Any rs)"

text \<open>The character classes under \<open>(?i)\<close>. Case folding is Unicode folding: the long s (U+017F)
  folds with s and the Kelvin sign (U+212A) with k. \<open>\s\<close> and the word characters of \<open>\b\<close>
  are ASCII.\<close>

definition fold_eq :: "nat \<Rightarrow> nat \<Rightarrow> bool" where
  "fold_eq c r \<longleftrightarrow>
     r = c \<or> (97 \<le> c \<and> c \<le> 122 \<and> (r + 32 = c \<or> (c = 115 \<and> r = 0x17F) \<or> (c = 107 \<and> r = 0x212A)))"

definition lit :: "string \<Rightarrow> regex" where
  "lit s = Seq (map (\<lambda>c. Cls (fold_eq (byte c))) s)"

definition space_class :: "nat \<Rightarrow> bool" where
  "space_class r \<longleftrightarrow> r = 9 \<or> r = 10 \<or> r = 12 \<or> r = 13 \<or> r = 32"

definition letter_class :: "nat \<Rightarrow> bool" where
  "letter_class r \<longleftrightarrow> (97 \<le> r \<and> r \<le> 122) \<or> (65 \<le> r \<and> r \<le> 90) \<or> r = 0x17F \<or> r = 0x212A"

definition digit_class :: "nat \<Rightarrow> bool" where
  "digit_class r \<longleftrightarrow> 48 \<le> r \<and> r \<le> 57"

definition one_of :: "string \<Rightarrow> nat \<Rightarrow> bool" where
  "one_of s r \<longleftrightarrow> r \<in> set (bytes s)"

definition word_rune :: "nat \<Rightarrow> bool" where
  "word_rune r \<longleftrightarrow> (97 \<le> r \<and> r \<le> 122) \<or> (65 \<le> r \<and> r \<le> 90) \<or> (48 \<le> r \<and> r \<le> 57) \<or> r = 95"

section \<open>Matching\<close>

text \<open>A position in a text: the rune before it, the text after it, and the captures so far.
  \<open>matches r p\<close> lists the ends of all matches of \<open>r\<close> at \<open>p\<close>, in the order in which a
  backtracking matcher tries them; its head is the match that \<open>regexp\<close> returns.\<close>

record position =
  pos_prev :: "nat option"
  pos_rest :: "runit list"
  pos_caps :: "(nat \<times> runit list) list"

definition word_before :: "position \<Rightarrow> bool" where
  "word_before p \<longleftrightarrow> (case pos_prev p of None \<Rightarrow> False | Some r \<Rightarrow> word_rune r)"

definition word_after :: "position \<Rightarrow> bool" where
  "word_after p \<longleftrightarrow> (case pos_rest p of [] \<Rightarrow> False | (r, _) # _ \<Rightarrow> word_rune r)"

definition step_class :: "(nat \<Rightarrow> bool) \<Rightarrow> position \<Rightarrow> position list" where
  "step_class P p =
     (case pos_rest p of
        [] \<Rightarrow> []
      | (r, _) # us \<Rightarrow> if P r then [p\<lparr>pos_prev := Some r, pos_rest := us\<rparr>] else [])"

definition capture :: "nat \<Rightarrow> runit list \<Rightarrow> position \<Rightarrow> position" where
  "capture n start p =
     p\<lparr>pos_caps := (n, take (length start - length (pos_rest p)) start) # pos_caps p\<rparr>"

function matches :: "regex \<Rightarrow> position \<Rightarrow> position list" where
  "matches Eps p = [p]"
| "matches (Cls P) p = step_class P p"
| "matches (Cat a b) p = concat (map (matches b) (matches a p))"
| "matches (Alt a b) p = matches a p @ matches b p"
| "matches (Star a) p =
     concat (map (\<lambda>q. if length (pos_rest q) < length (pos_rest p) then matches (Star a) q else []) (matches a p)) @ [p]"
| "matches (Grp n a) p = map (capture n (pos_rest p)) (matches a p)"
| "matches WordB p = (if word_before p \<noteq> word_after p then [p] else [])"
| "matches TextStart p = (if pos_prev p = None then [p] else [])"
  by pat_completeness auto
termination
  by (relation "measures [\<lambda>(r, p). size r, \<lambda>(r, p). length (pos_rest p)]") auto

declare matches.simps(5) [simp del]

lemma matches_StarD:
  assumes "q \<in> set (matches (Star a) p)" "q \<noteq> p"
  obtains o' where "o' \<in> set (matches a p)" "length (pos_rest o') < length (pos_rest p)"
    "q \<in> set (matches (Star a) o')"
  using assms by (subst (asm) matches.simps(5)) (auto split: if_splits)

text \<open>Matches end later in the same text.\<close>

definition ends_in :: "position \<Rightarrow> position \<Rightarrow> bool" where
  "ends_in p q \<longleftrightarrow> (\<exists>m. pos_rest p = m @ pos_rest q)"

lemma ends_in_refl [simp]: "ends_in p p"
  by (simp add: ends_in_def)

lemma ends_in_trans: "ends_in p q \<Longrightarrow> ends_in q r \<Longrightarrow> ends_in p r"
  by (auto simp: ends_in_def)

lemma ends_in_class: "q \<in> set (step_class P p) \<Longrightarrow> ends_in p q"
  by (cases "pos_rest p") (auto simp: step_class_def ends_in_def split: if_splits)

lemma ends_in_capture [simp]: "ends_in p (capture n us q) \<longleftrightarrow> ends_in p q"
  by (simp add: capture_def ends_in_def)

lemma matches_ends_in: "q \<in> set (matches r p) \<Longrightarrow> ends_in p q"
proof (induction r p arbitrary: q rule: matches.induct)
  case (3 a b p)
  from \<open>q \<in> set (matches (Cat a b) p)\<close> obtain o' where "o' \<in> set (matches a p)" "q \<in> set (matches b o')"
    by auto
  then show ?case using ends_in_trans [OF "3.IH"(1) "3.IH"(2)] by simp
next
  case (5 a p)
  show ?case
  proof (cases "q = p")
    case False
    with \<open>q \<in> set (matches (Star a) p)\<close> obtain o' where o': "o' \<in> set (matches a p)"
      "length (pos_rest o') < length (pos_rest p)" "q \<in> set (matches (Star a) o')"
      by (rule matches_StarD)
    show ?thesis using ends_in_trans [OF "5.IH"(1) [OF o'(1)] "5.IH"(2) [OF o']] .
  qed simp
qed (auto dest: ends_in_class split: if_splits)

section \<open>Searching and replacing\<close>

text \<open>The leftmost match from a position: the text skipped, the matched text, the captures and
  the position after the match.\<close>

definition match_at :: "regex \<Rightarrow> nat option \<Rightarrow> runit list \<Rightarrow> position option" where
  "match_at r prev us =
     (case matches r \<lparr>pos_prev = prev, pos_rest = us, pos_caps = []\<rparr> of [] \<Rightarrow> None | q # _ \<Rightarrow> Some q)"

fun find_match :: "regex \<Rightarrow> nat option \<Rightarrow> runit list \<Rightarrow> (runit list \<times> runit list \<times> position) option" where
  "find_match r prev us =
     (case match_at r prev us of
        Some q \<Rightarrow> Some ([], take (length us - length (pos_rest q)) us, q)
      | None \<Rightarrow>
        case us of
          [] \<Rightarrow> None
        | (x, b) # vs \<Rightarrow> map_option (\<lambda>(skipped, m, q). ((x, b) # skipped, m, q)) (find_match r (Some x) vs))"

declare find_match.simps [simp del]

lemma find_match_parts:
  "find_match r prev us = Some (skipped, m, q) \<Longrightarrow> us = skipped @ m @ pos_rest q"
proof (induction us arbitrary: prev skipped)
  case Nil
  then show ?case
    using matches_ends_in [of q r "\<lparr>pos_prev = prev, pos_rest = [], pos_caps = []\<rparr>"]
    by (auto simp: find_match.simps match_at_def ends_in_def split: list.splits)
next
  case (Cons u us)
  show ?case
  proof (cases "match_at r prev (u # us)")
    case None
    with Cons.prems obtain sk where "find_match r (Some (fst u)) us = Some (sk, m, q)" "skipped = u # sk"
      by (cases u) (auto simp: find_match.simps)
    with Cons.IH show ?thesis by auto
  next
    case (Some p)
    then have "ends_in \<lparr>pos_prev = prev, pos_rest = u # us, pos_caps = []\<rparr> p"
      by (intro matches_ends_in [of p r]) (auto simp: match_at_def split: list.splits)
    then obtain n where n: "u # us = n @ pos_rest p" by (auto simp: ends_in_def)
    have mq: "m = take (length (u # us) - length (pos_rest p)) (u # us)" "q = p" "skipped = []"
      using Cons.prems Some by (auto simp: find_match.simps)
    have "m = n" using mq(1) by (subst (asm) n, subst (asm) n) simp
    with n mq show ?thesis by simp
  qed
qed

text \<open>\<open>FindStringSubmatch\<close>: None when there is no match; group 0 is the match. A group that
  took no part in the match is the empty string.\<close>

definition FindStringSubmatch :: "regex \<Rightarrow> string \<Rightarrow> (nat \<Rightarrow> string) option" where
  "FindStringSubmatch r s =
     map_option (\<lambda>(_, m, q). \<lambda>n. if n = 0 then runits_bytes m
         else case map_of (pos_caps q) n of Some us \<Rightarrow> runits_bytes us | None \<Rightarrow> [])
       (find_match r None (runits s))"

text \<open>\<open>ReplaceAllStringFunc\<close>: the matches are replaced from left to right, each search starts
  after the previous match. An empty match copies one rune and goes on (none of the
  patterns of the development matches the empty string).\<close>

function replace_from :: "regex \<Rightarrow> (string \<Rightarrow> string) \<Rightarrow> nat option \<Rightarrow> runit list \<Rightarrow> string" where
  "replace_from r f prev us =
     (case find_match r prev us of
        None \<Rightarrow> runits_bytes us
      | Some (skipped, m, q) \<Rightarrow>
          runits_bytes skipped @ f (runits_bytes m) @
          (if m = [] then (case pos_rest q of [] \<Rightarrow> [] | (x, b) # vs \<Rightarrow> b @ replace_from r f (Some x) vs)
           else replace_from r f (pos_prev q) (pos_rest q)))"
  by pat_completeness auto
termination
  by (relation "measure (\<lambda>(r, f, prev, us). length us)") (auto dest!: find_match_parts)

declare replace_from.simps [simp del]

definition ReplaceAllStringFunc :: "regex \<Rightarrow> (string \<Rightarrow> string) \<Rightarrow> string \<Rightarrow> string" where
  "ReplaceAllStringFunc r f s = replace_from r f None (runits s)"

definition ReplaceAllString :: "regex \<Rightarrow> string \<Rightarrow> string \<Rightarrow> string" where
  "ReplaceAllString r repl s = ReplaceAllStringFunc r (\<lambda>_. repl) s"

text \<open>A text without a match is returned unchanged.\<close>

lemma replace_no_match: "find_match r None (runits s) = None \<Longrightarrow> ReplaceAllStringFunc r f s = s"
  by (simp add: ReplaceAllStringFunc_def replace_from.simps)

end
