(* ===== verification/Redaction.thy ===== *)
theory Redaction
  imports Regexp Operations Path_Resolver "HOL-Library.List_Lexorder" "HOL-Library.Char_ord"
begin

text \<open>
  Redaction of what leaves the control plane: \<open>internal/observability/redaction.go\<close> (fields of
  logs and audit events), \<open>internal/projectionguard/forbidden.go\<close> (fields of the JVS tool that
  must not reach product-facing records), \<open>internal/operations/redaction.go\<close> and the
  \<open>Sanitized\<close> methods of \<open>internal/operations/types.go\<close> (operation records). A Go map is an
  association list; the order in which a map is walked is visible in no result, since
  reports are sorted.
\<close>

section \<open>Field names\<close>

text \<open>\<open>strings.Map\<close> with the function that keeps ASCII letters (in lower case) and digits.\<close>

definition normalize_runes :: "nat list \<Rightarrow> string" where
  "normalize_runes rs =
     concat (map (\<lambda>r. if (97 \<le> r \<and> r \<le> 122) \<or> (48 \<le> r \<and> r \<le> 57) then [char_of r]
                       else if 65 \<le> r \<and> r \<le> 90 then [char_of (r + 32)] else []) rs)"

definition NormalizeFieldKey :: "string \<Rightarrow> string" where
  "NormalizeFieldKey key = normalize_runes (runes (bytes key))"

definition normalizeSensitiveFieldName :: "string \<Rightarrow> string" where
  "normalizeSensitiveFieldName name = normalize_runes (runes (bytes (trim_space name)))"

definition sensitive_markers :: "string list" where
  "sensitive_markers =
     [''metadataurl'', ''storagebucketurl'', ''objectstoreendpoint'', ''authorization'', ''cookie'',
      ''apikey'', ''accesskey'', ''secretaccesskey'', ''secretkey'', ''privatekey'', ''password'',
      ''passwd'', ''secret'', ''secretref'', ''k8ssecret'', ''kubernetessecret'', ''kubernetessecretref'',
      ''k8ssecretref'', ''kubesecretref'', ''webdavpassword'', ''token'', ''credential'', ''bearer'',
      ''rawpath'', ''controlroot'', ''payloadroot'', ''controlrootpath'', ''payloadrootpath'',
      ''reporoot'', ''targetcontrolroot'', ''controlvolumesubdir'', ''payloadvolumesubdir'',
      ''runcommand'', ''recommendednextcommand'', ''restorecommand'', ''mountcommand'',
      ''rawmountcommand'', ''directmountcommand'']"

definition IsSensitiveField :: "string \<Rightarrow> bool" where
  "IsSensitiveField name =
     (let normalized = normalizeSensitiveFieldName name in
      normalized \<noteq> [] \<and> list_ex (str_contains normalized) sensitive_markers)"

definition isCredentialFoundField :: "string \<Rightarrow> bool" where
  "isCredentialFoundField name \<longleftrightarrow> normalizeSensitiveFieldName name = ''credentialfound''"

definition exactJVSInternalFields :: "string list" where
  "exactJVSInternalFields =
     [''capacity'', ''capacitybytes'', ''command'', ''contentroothash'', ''controlpath'', ''controlroot'',
      ''controlrootpath'', ''controlvolumesubdir'', ''directmountcommand'', ''expectedfolderevidence'',
      ''filecount'', ''home'', ''homepath'', ''internalpath'', ''internalpaths'', ''internalroot'',
      ''internalrootpath'', ''mountcommand'', ''payloadfilecount'', ''payloadroot'', ''payloadroothash'',
      ''payloadrootpath'', ''payloadtree'', ''payloadtreescan'', ''payloadvolumesubdir'', ''planid'',
      ''previewid'', ''previewstate'', ''rawcommand'', ''rawmountcommand'', ''rawpath'',
      ''recommendednextcommand'', ''reporoot'', ''restorecommand'', ''restoreplanid'', ''runcommand'',
      ''saveprofile'', ''stderr'', ''stdout'', ''sync'', ''syncstate'', ''synctoken'',
      ''targetcontrolroot'', ''targetfolder'', ''tree'', ''treescan'', ''treescanresult'', ''workspace'']"

definition containsJVSInternalFieldMarkers :: "string list" where
  "containsJVSInternalFieldMarkers = [''checksum'', ''digest'', ''hash'', ''proof'']"

definition forbidden_normalized :: "string \<Rightarrow> bool" where
  "forbidden_normalized normalized \<longleftrightarrow>
     normalized \<noteq> [] \<and> (normalized \<in> set exactJVSInternalFields \<or>
       list_ex (str_contains normalized) containsJVSInternalFieldMarkers)"

definition ForbiddenJVSInternalField :: "string \<Rightarrow> bool" where
  "ForbiddenJVSInternalField key = forbidden_normalized (NormalizeFieldKey key)"

definition forbidden_fragments :: "string list" where
  "forbidden_fragments =
     [''/srv/afscp'', ''/home/afscp'', ''afscp/namespaces/'', ''.jvs'', ''jvs afscp'', ''jvs restore --run'',
      ''jvs init'', ''jvs doctor'', ''juicefs mount'', ''--control-root'', ''--home'']"

definition ContainsForbiddenJVSInternalText :: "string \<Rightarrow> bool" where
  "ContainsForbiddenJVSInternalText v \<longleftrightarrow>
     list_ex (\<lambda>f. rune_contains (lower_runes v) (bytes f)) forbidden_fragments"

text \<open>\<open>isSensitiveKey\<close> works on the lower case of the key without the characters the replacer
  removes.\<close>

definition stripped_key :: "string \<Rightarrow> nat list" where
  "stripped_key key = filter (\<lambda>r. r \<notin> set (bytes ''_-. '')) (lower_runes key)"

definition sensitiveFragments :: "string list" where
  "sensitiveFragments =
     [''password'', ''passwd'', ''secret'', ''token'', ''credential'', ''authorization'', ''accesskey'',
      ''secretkey'', ''metadataurl'', ''webdavpassword'', ''rawpath'', ''stdout'', ''stderr'']"

definition isSensitiveKey :: "string \<Rightarrow> bool" where
  "isSensitiveKey key \<longleftrightarrow>
     forbidden_normalized (normalize_runes (stripped_key key)) \<or>
     list_ex (\<lambda>f. rune_contains (stripped_key key) (bytes f)) sensitiveFragments"

definition containsSensitiveText :: "string \<Rightarrow> bool" where
  "containsSensitiveText v \<longleftrightarrow>
     ContainsForbiddenJVSInternalText v \<or>
     list_ex (\<lambda>f. rune_contains (lower_runes v) (bytes f))
       [''/srv/afscp'', ''afscp/namespaces/'', ''.jvs'', ''jvs restore --run''] \<or>
     list_ex (\<lambda>f. rune_contains (lower_runes v) (bytes f))
       [''password'', ''passwd'', ''secret'', ''token'', ''credential'']"

section \<open>Patterns for strings\<close>

text \<open>The regular expressions of \<open>redaction.go\<close>, all with \<open>(?i)\<close>. 34 and 39 are the codes of
  the two quotation marks.\<close>

definition Redacted :: string where
  "Redacted = ''[REDACTED]''"

definition but :: "nat list \<Rightarrow> regex" where
  "but cs = Cls (\<lambda>r. r \<notin> set cs)"

definition but_space :: "nat list \<Rightarrow> regex" where
  "but_space cs = Cls (\<lambda>r. \<not> space_class r \<and> r \<notin> set cs)"

definition spaces :: regex where
  "spaces = Star (Cls space_class)"

definition spaces1 :: regex where
  "spaces1 = Plus (Cls space_class)"

definition sep :: regex where
  "sep = Opt (Cls (\<lambda>r. space_class r \<or> one_of ''_-'' r))"

definition rawSensitiveKeyPattern :: regex where
  "rawSensitiveKeyPattern =
     Any [Seq [lit ''secret'', sep, lit ''ref''], lit ''secret'', lit ''token'', lit ''password'', lit ''passwd'',
          Seq [lit ''api'', sep, lit ''key''], Seq [lit ''access'', sep, lit ''key''],
          Seq [lit ''secret'', sep, lit ''key''], Seq [lit ''private'', sep, lit ''key''],
          lit ''credential'', lit ''authorization'', Seq [lit ''metadata'', sep, lit ''url''],
          Seq [lit ''webdav'', sep, lit ''password'']]"

definition name_class :: "nat \<Rightarrow> bool" where
  "name_class r \<longleftrightarrow> letter_class r \<or> digit_class r \<or> one_of ''_.-'' r"

definition key_name :: regex where
  "key_name = Seq [Star (Cls name_class), rawSensitiveKeyPattern, Star (Cls name_class)]"

definition quoted_or :: "regex \<Rightarrow> regex" where
  "quoted_or r = Any [Seq [Cls (\<lambda>c. c = 34), Star (but [34]), Cls (\<lambda>c. c = 34)],
                      Seq [Cls (\<lambda>c. c = 39), Star (but [39]), Cls (\<lambda>c. c = 39)], r]"

text \<open>The characters that end an unquoted path or URL: white space and \<open>, ; ) \<close> quotes \<open>}\<close>.\<close>

definition path_chars :: "nat list" where
  "path_chars = [44, 59, 41, 34, 39, 125]"

definition rawMetadataURLPattern :: regex where
  "rawMetadataURLPattern =
     Seq [WordB, Any (map lit [''redis'', ''mysql'', ''postgres'', ''postgresql'', ''mongodb'', ''etcd'', ''tikv'',
                               ''sqlite'', ''badger'']), lit ''://'', Plus (but_space path_chars)]"

definition rawBearerPattern :: regex where
  "rawBearerPattern =
     Seq [WordB,
       Grp 1 (Seq [lit ''bearer'', Opt (Seq [Plus (Cls (\<lambda>r. space_class r \<or> one_of ''_-'' r)), lit ''token'']),
                   Opt (Seq [spaces, Cls (one_of '':='')]), spaces1]),
       Grp 2 (Plus (Cls (\<lambda>r. letter_class r \<or> digit_class r \<or> one_of ''._~+/=-'' r)))]"

definition rawAssignmentPattern :: regex where
  "rawAssignmentPattern =
     Seq [WordB, Grp 1 key_name, Grp 2 (Seq [spaces, lit ''='', spaces]),
          quoted_or (Plus (but_space [44, 59]))]"

definition rawJSONColonPattern :: regex where
  "rawJSONColonPattern =
     Seq [Grp 1 (Seq [Cls (\<lambda>c. c = 34), Star (but [34]), rawSensitiveKeyPattern, Star (but [34]), Cls (\<lambda>c. c = 34),
                      spaces, lit '':'', spaces, Cls (\<lambda>c. c = 34)]),
          Grp 2 (Star (but [34])), Grp 3 (Cls (\<lambda>c. c = 34))]"

definition rawPlainColonPattern :: regex where
  "rawPlainColonPattern =
     Seq [WordB, Grp 1 key_name, Grp 2 (Seq [spaces, lit '':'', spaces]),
          quoted_or (Plus (but [10, 44, 59, 125]))]"

definition rawCLIFlagPattern :: regex where
  "rawCLIFlagPattern =
     Seq [Grp 1 (Seq [lit ''--'', key_name]), Grp 2 (Any [spaces1, lit ''='']),
          quoted_or (Plus (but_space [44, 59]))]"

definition rawAFSCPRootPattern :: regex where
  "rawAFSCPRootPattern = Seq [lit ''/srv/afscp'', Star (but_space path_chars)]"

definition rawAFSCPSubdirPattern :: regex where
  "rawAFSCPSubdirPattern =
     Seq [WordB, lit ''afscp/namespaces/'', Star (but_space path_chars), lit ''/'',
          Any [lit ''control'', lit ''payload''], WordB, Star (but_space path_chars)]"

definition rawJVSPathPattern :: regex where
  "rawJVSPathPattern =
     Seq [Grp 1 (Any [TextStart, Cls (\<lambda>r. \<not> (letter_class r \<or> digit_class r \<or> one_of ''_.-'' r))]),
          Grp 2 (Seq [lit ''.jvs'', Opt (Seq [lit ''/'', Star (but_space path_chars)])])]"

definition rawJVSCommandPattern :: regex where
  "rawJVSCommandPattern =
     Seq [WordB, lit ''jvs'', WordB,
       Star (Seq [spaces1, lit ''--'', Any [lit ''control-root'', lit ''workspace''], Any [lit ''='', spaces1],
                  Plus (but_space [44, 59, 125])]),
       spaces1,
       Any [lit ''init'', lit ''doctor'', lit ''save'', lit ''history'',
            Seq [lit ''restore'', Opt (Seq [spaces1, Any [lit ''--run'', lit ''discard'']])],
            Seq [lit ''recovery'', spaces1, lit ''status'']],
       WordB, Star (but [10, 44, 59, 125])]"

definition rawMountCommandPattern :: regex where
  "rawMountCommandPattern =
     Seq [WordB, lit ''juicefs'', spaces1, lit ''mount'', WordB, Star (but [10, 44, 59, 125])]"

definition replaceRawStringSubmatches :: "string \<Rightarrow> regex \<Rightarrow> ((nat \<Rightarrow> string) \<Rightarrow> string) \<Rightarrow> string" where
  "replaceRawStringSubmatches v pattern repl =
     ReplaceAllStringFunc pattern
       (\<lambda>m. case FindStringSubmatch pattern m of None \<Rightarrow> m | Some parts \<Rightarrow> repl parts) v"

definition redact_text :: "string \<Rightarrow> string" where
  "redact_text v0 =
     (let v1 = ReplaceAllString rawMetadataURLPattern Redacted v0;
          v2 = ReplaceAllString rawAFSCPRootPattern Redacted v1;
          v3 = ReplaceAllString rawAFSCPSubdirPattern Redacted v2;
          v4 = replaceRawStringSubmatches v3 rawJVSPathPattern (\<lambda>parts. parts 1 @ Redacted);
          v5 = ReplaceAllString rawJVSCommandPattern Redacted v4;
          v6 = ReplaceAllString rawMountCommandPattern Redacted v5;
          v7 = replaceRawStringSubmatches v6 rawJSONColonPattern (\<lambda>parts. parts 1 @ Redacted @ parts 3);
          v8 = replaceRawStringSubmatches v7 rawCLIFlagPattern (\<lambda>parts. parts 1 @ parts 2 @ Redacted);
          v9 = replaceRawStringSubmatches v8 rawAssignmentPattern (\<lambda>parts. parts 1 @ parts 2 @ Redacted);
          v10 = replaceRawStringSubmatches v9 rawPlainColonPattern (\<lambda>parts. parts 1 @ parts 2 @ Redacted)
      in replaceRawStringSubmatches v10 rawBearerPattern (\<lambda>parts. parts 1 @ Redacted))"

text \<open>The name \<open>RedactString\<close> is used by two packages; this is the one of \<open>observability\<close>, which
  also says whether the string has changed.\<close>

definition observability_RedactString :: "string \<Rightarrow> string \<times> bool" where
  "observability_RedactString v = (redact_text v, redact_text v \<noteq> v)"

definition RedactString :: "string \<Rightarrow> string" where
  "RedactString v = fst (observability_RedactString v)"

section \<open>Fields of logs and audit events\<close>

text \<open>\<open>strings.Fields\<close> on runes: the maximal runs of runes that are not white space.\<close>

definition space_rune :: "nat \<Rightarrow> bool" where
  "space_rune r \<longleftrightarrow>
     (9 \<le> r \<and> r \<le> 13) \<or> r = 32 \<or> r = 0x85 \<or> r = 0xA0 \<or> r = 0x1680 \<or> (0x2000 \<le> r \<and> r \<le> 0x200A) \<or>
     r = 0x2028 \<or> r = 0x2029 \<or> r = 0x202F \<or> r = 0x205F \<or> r = 0x3000"

fun fields_from :: "nat list \<Rightarrow> nat list \<Rightarrow> nat list list" where
  "fields_from [] [] = []"
| "fields_from word [] = [rev word]"
| "fields_from word (r # rs) =
     (if space_rune r then (if word = [] then fields_from [] rs else rev word # fields_from [] rs)
      else fields_from (r # word) rs)"

definition is_bearer :: "nat list \<Rightarrow> bool" where
  "is_bearer f \<longleftrightarrow>
     map fold_rune (if f \<noteq> [] \<and> last f = byte (CHR '':'') then butlast f else f) = bytes ''bearer''"

definition isSensitiveValue :: "string \<Rightarrow> bool" where
  "isSensitiveValue v = (let flds = fields_from [] (runes (bytes v)) in
     2 \<le> length flds \<and> list_ex is_bearer (butlast flds))"

definition redact_item :: "string \<Rightarrow> string" where
  "redact_item v = (if isSensitiveValue v then Redacted else redact_text v)"

definition redactStringMap :: "(string \<times> string) list \<Rightarrow> (string \<times> string) list" where
  "redactStringMap flds =
     map (\<lambda>(key, v). (key, if IsSensitiveField key \<or> isSensitiveValue v then Redacted else redact_text v)) flds"

fun is_bool :: "go_any \<Rightarrow> bool" where
  "is_bool (AnyBool _) = True"
| "is_bool _ = False"

text \<open>Where \<open>RedactString\<close> reports no change it returns its argument, so the two branches on its
  second result are one.\<close>

function redactValue :: "string \<Rightarrow> go_any \<Rightarrow> go_any" where
  "redactValue fieldName v =
     (if isCredentialFoundField fieldName \<and> is_bool v then v
      else if IsSensitiveField fieldName then AnyString Redacted
      else case v of
        AnyMap m \<Rightarrow> AnyMap (map (\<lambda>kv. (fst kv, redactValue (fst kv) (snd kv))) m)
      | AnyStringMap m \<Rightarrow> AnyStringMap (redactStringMap m)
      | AnyList xs \<Rightarrow> AnyList (map (\<lambda>x. redactValue [] x) xs)
      | AnyMapList ms \<Rightarrow> AnyMapList (map (\<lambda>m. map (\<lambda>kv. (fst kv, redactValue (fst kv) (snd kv))) m) ms)
      | AnyStringList xs \<Rightarrow> AnyStringList (map redact_item xs)
      | AnyString s \<Rightarrow> AnyString (redact_item s)
      | _ \<Rightarrow> v)"
  by pat_completeness auto

lemma size_AnyMap: "kv \<in> set m \<Longrightarrow> size (snd kv) < size (AnyMap m)"
  by (induction m) auto

lemma size_AnyList: "x \<in> set xs \<Longrightarrow> size x < size (AnyList xs)"
  by (induction xs) auto

lemma size_AnyMapList: "m \<in> set ms \<Longrightarrow> kv \<in> set m \<Longrightarrow> size (snd kv) < size (AnyMapList ms)"
proof (induction ms)
  case (Cons a ms)
  then show ?case using size_AnyMap [of kv a] by auto
qed simp

termination redactValue
  by (relation "measure (\<lambda>(name, v). size v)")
    (auto dest: size_AnyMap size_AnyList size_AnyMapList simp del: go_any.size)

declare redactValue.simps [simp del]

definition redact_object :: "go_object \<Rightarrow> go_object" where
  "redact_object m = map (\<lambda>kv. (fst kv, redactValue (fst kv) (snd kv))) m"

text \<open>None is a nil map.\<close>

definition RedactFields :: "go_object option \<Rightarrow> go_object option" where
  "RedactFields flds = map_option redact_object flds"

section \<open>Values of operation records\<close>

fun digits :: "nat \<Rightarrow> string" where
  "digits n = (if n < 10 then [char_of (48 + n)] else digits (n div 10) @ [char_of (48 + n mod 10)])"

declare digits.simps [simp del]

definition joinPath :: "string \<Rightarrow> string \<Rightarrow> string" where
  "joinPath pfx name =
     (if pfx = [] then name
      else if has_prefix name ''['' then pfx @ name
      else pfx @ ''.'' @ name)"

definition mark :: "string \<Rightarrow> string" where
  "mark path = (if path = [] then ''$'' else path)"

definition redactString :: "string \<Rightarrow> string \<Rightarrow> string \<times> string list" where
  "redactString v path =
     (if containsSensitiveText v then (Redacted, [mark path])
      else case observability_RedactString v of (redacted, changed) \<Rightarrow>
        (redacted, if changed then [mark path] else []))"

text \<open>\<open>valueRedactor.redact\<close>: the new value and the paths it marks. The elements of a list are
  paired with their indices first. A value of a type the switch does not name, such as
  \<open>[]map[string]any\<close>, is returned as it is.\<close>

definition index_path :: "string \<Rightarrow> nat \<Rightarrow> string" where
  "index_path path i = joinPath path (''['' @ digits i @ '']'')"

function redact :: "go_any \<Rightarrow> string \<Rightarrow> go_any \<times> string list" where
  "redact v path =
     (case v of
        AnyString s \<Rightarrow> (case redactString s path of (s', marks) \<Rightarrow> (AnyString s', marks))
      | AnyMap m \<Rightarrow>
          let entries = map (\<lambda>kv.
            (if ForbiddenJVSInternalField (fst kv) then ([], [mark (joinPath path (fst kv))])
             else if isSensitiveKey (fst kv)
               then ([(fst kv, AnyString Redacted)], [mark (joinPath path (fst kv))])
             else case redact (snd kv) (joinPath path (fst kv)) of (x, marks) \<Rightarrow> ([(fst kv, x)], marks))) m
          in (AnyMap (concat (map fst entries)), concat (map snd entries))
      | AnyStringMap m \<Rightarrow>
          let entries = map (\<lambda>kv.
            (if ForbiddenJVSInternalField (fst kv) then ([], [mark (joinPath path (fst kv))])
             else if isSensitiveKey (fst kv)
               then ([(fst kv, AnyString Redacted)], [mark (joinPath path (fst kv))])
             else case redactString (snd kv) (joinPath path (fst kv)) of (x, marks) \<Rightarrow>
               ([(fst kv, AnyString x)], marks))) m
          in (AnyMap (concat (map fst entries)), concat (map snd entries))
      | AnyList xs \<Rightarrow>
          let items = map (\<lambda>ix. redact (snd ix) (index_path path (fst ix))) (List.enumerate 0 xs)
          in (AnyList (map fst items), concat (map snd items))
      | AnyStringList xs \<Rightarrow>
          let items = map (\<lambda>(i, s). redactString s (index_path path i)) (List.enumerate 0 xs)
          in (AnyList (map (\<lambda>x. AnyString (fst x)) items), concat (map snd items))
      | _ \<Rightarrow> (v, []))"
  by pat_completeness auto

lemma size_enumerate: "ix \<in> set (List.enumerate n xs) \<Longrightarrow> size (snd ix) < size (AnyList xs)"
  using size_AnyList [of "snd ix" xs] by (cases ix) (auto simp: in_set_enumerate_eq)

termination redact
  by (relation "measure (\<lambda>(v, path). size v)")
    (auto dest: size_AnyMap size_enumerate simp del: go_any.size)

declare redact.simps [simp del]

definition MergeRedactionReports :: "RedactionReport list \<Rightarrow> RedactionReport" where
  "MergeRedactionReports reports =
     \<lparr>report_Redacted = list_ex report_Redacted reports,
      report_Fields = sort (remdups (filter (\<lambda>f. f \<noteq> []) (concat (map report_Fields reports))))\<rparr>"

definition no_report :: RedactionReport where
  "no_report = \<lparr>report_Redacted = False, report_Fields = []\<rparr>"

definition redactor_report :: "string list \<Rightarrow> RedactionReport" where
  "redactor_report flds =
     (if flds = [] then no_report
      else MergeRedactionReports [\<lparr>report_Redacted = True, report_Fields = flds\<rparr>])"

definition RedactValue :: "go_any \<Rightarrow> go_any \<times> RedactionReport" where
  "RedactValue v = (case redact v [] of (v', flds) \<Rightarrow> (v', redactor_report flds))"

section \<open>Sanitised operation records\<close>

definition asciiAlphaNum_byte :: "char \<Rightarrow> bool" where
  "asciiAlphaNum_byte c \<longleftrightarrow>
     (65 \<le> byte c \<and> byte c \<le> 90) \<or> (97 \<le> byte c \<and> byte c \<le> 122) \<or> (48 \<le> byte c \<and> byte c \<le> 57)"

definition safeOpaqueID :: "string \<Rightarrow> bool" where
  "safeOpaqueID ident \<longleftrightarrow>
     ident \<noteq> [] \<and> length ident \<le> 128 \<and> trim_space ident = ident \<and> asciiAlphaNum_byte (hd ident) \<and>
     list_all (\<lambda>c. asciiAlphaNum_byte c \<or> c \<in> set ''_-.:'') (tl ident)"

text \<open>True is a nil error.\<close>

definition ValidateSavePointID :: "string \<Rightarrow> bool" where
  "ValidateSavePointID ident = safeOpaqueID ident"

definition ContainsSensitiveTextShape :: "string \<Rightarrow> bool" where
  "ContainsSensitiveTextShape v = snd (observability_RedactString v)"

definition NormalizeSavePointMessage :: "string \<Rightarrow> string option" where
  "NormalizeSavePointMessage v =
     (let message = trim_space v in
      if message = [] \<or> 512 < length (runes (bytes message)) then None
      else if message = Redacted \<or> ContainsSensitiveTextShape message then None
      else Some message)"

definition RedactExternalResourceIDs ::
    "(string \<times> string) list option \<Rightarrow> (string \<times> string) list option \<times> RedactionReport" where
  "RedactExternalResourceIDs ids =
     (case ids of
        None \<Rightarrow> (None, no_report)
      | Some m \<Rightarrow>
        let kept = (\<lambda>(key, v). key = ''save_point_id'' \<and> ValidateSavePointID (trim_space v));
            out = map (\<lambda>kv. if kept kv then (fst kv, trim_space (snd kv)) else (fst kv, Redacted)) m;
            flds = map (\<lambda>kv. joinPath ''external_resource_ids'' (fst kv)) (filter (\<lambda>kv. \<not> kept kv) m)
        in (Some out, if flds = [] then no_report else \<lparr>report_Redacted = True, report_Fields = flds\<rparr>))"

text \<open>The assertions \<open>value.(map[string]any)\<close> and \<open>value.(string)\<close>. A nil \<open>map[string]any\<close> is a map
  for the type switch of \<open>redact\<close>, so its redaction is the empty map.\<close>

fun as_object :: "go_any \<Rightarrow> go_object option" where
  "as_object (AnyMap m) = Some m"
| "as_object _ = None"

fun as_text :: "go_any \<Rightarrow> string option" where
  "as_text (AnyString s) = Some s"
| "as_text _ = None"

definition object_value :: "go_object option \<Rightarrow> go_any" where
  "object_value m = AnyMap (case m of None \<Rightarrow> [] | Some kvs \<Rightarrow> kvs)"

definition OperationError_Sanitized :: "OperationError \<Rightarrow> OperationError \<times> RedactionReport" where
  "OperationError_Sanitized err =
     (case RedactValue (AnyString (operr_Message err)) of (message, messageReport) \<Rightarrow>
      case RedactValue (object_value (operr_Details err)) of (details, detailsReport) \<Rightarrow>
        (err\<lparr>operr_Message := (case as_text message of None \<Rightarrow> [] | Some s \<Rightarrow> s),
              operr_Details := as_object details\<rparr>,
         MergeRedactionReports [messageReport, detailsReport]))"

text \<open>\<open>m["message"] = v\<close>: replaced where it is, added otherwise.\<close>

fun put_key :: "go_object \<Rightarrow> string \<Rightarrow> go_any \<Rightarrow> go_object" where
  "put_key [] key v = [(key, v)]"
| "put_key (kv # m) key v = (if fst kv = key then (key, v) # m else kv # put_key m key v)"

definition restoreSafeSavePointMessageInMap :: "go_object option \<Rightarrow> go_object option \<Rightarrow> go_object option" where
  "restoreSafeSavePointMessageInMap original sanitized =
     (case (original, sanitized) of
        (Some m, Some out) \<Rightarrow>
          (let raw = (case map_of m ''message'' of
                        None \<Rightarrow> [] | Some v \<Rightarrow> (case as_text v of None \<Rightarrow> [] | Some s \<Rightarrow> s)) in
           case NormalizeSavePointMessage raw of
             None \<Rightarrow> Some out
           | Some message \<Rightarrow> Some (put_key out ''message'' (AnyString message)))
      | _ \<Rightarrow> sanitized)"

definition restoreSafeSavePointMessage :: "OperationRecord \<Rightarrow> OperationRecord \<Rightarrow> OperationRecord" where
  "restoreSafeSavePointMessage original sanitized =
     (if op_Type original \<noteq> OperationSavePointCreate then sanitized
      else
        let s1 = sanitized\<lparr>op_InputSummary :=
              restoreSafeSavePointMessageInMap (op_InputSummary original) (op_InputSummary sanitized)\<rparr>
        in case (as_object (op_JVSJSONOutput original), as_object (op_JVSJSONOutput sanitized)) of
             (Some m, Some out) \<Rightarrow>
               (case restoreSafeSavePointMessageInMap (Some m) (Some out) of
                  Some out' \<Rightarrow> s1\<lparr>op_JVSJSONOutput := AnyMap out'\<rparr>
                | None \<Rightarrow> s1)
           | _ \<Rightarrow> s1)"

definition Sanitized :: "OperationRecord \<Rightarrow> OperationRecord" where
  "Sanitized opr =
     (case RedactExternalResourceIDs (op_ExternalResourceIDs opr) of (ids, idsReport) \<Rightarrow>
      case RedactValue (object_value (op_InputSummary opr)) of (inputSummary, inputReport) \<Rightarrow>
      case RedactValue (op_JVSJSONOutput opr) of (jvs, jvsReport) \<Rightarrow>
      case RedactValue (op_VerificationResult opr) of (verification, verificationReport) \<Rightarrow>
      case map_option OperationError_Sanitized (op_Error opr) of err \<Rightarrow>
        (restoreSafeSavePointMessage opr
          (opr\<lparr>op_ExternalResourceIDs := ids, op_InputSummary := as_object inputSummary,
                op_JVSJSONOutput := jvs, op_VerificationResult := verification,
                op_Error := map_option fst err\<rparr>))
        \<lparr>op_Redaction := MergeRedactionReports
           [op_Redaction opr, idsReport, inputReport, jvsReport, verificationReport,
            (case err of None \<Rightarrow> no_report | Some (_, r) \<Rightarrow> r)]\<rparr>)"

text \<open>\<open>SanitizedOperationRecord\<close>: the constructor is only applied by
  \<open>SanitizedForPersistence\<close>, and \<open>Record()\<close> sanitises once more.\<close>

datatype SanitizedOperationRecord = SanitizedOperationRecord (inner_record: OperationRecord)

definition SanitizedForPersistence :: "OperationRecord \<Rightarrow> SanitizedOperationRecord" where
  "SanitizedForPersistence opr = SanitizedOperationRecord (Sanitized opr)"

definition Record :: "SanitizedOperationRecord \<Rightarrow> OperationRecord" where
  "Record s = Sanitized (inner_record s)"

text \<open>The columns that sanitising leaves alone: everything but the free-form fields.\<close>

lemma Sanitized_fields [simp]:
  "op_ID (Sanitized opr) = op_ID opr"
  "op_Type (Sanitized opr) = op_Type opr"
  "op_State (Sanitized opr) = op_State opr"
  "op_Phase (Sanitized opr) = op_Phase opr"
  "op_Attempt (Sanitized opr) = op_Attempt opr"
  "op_LeaseOwner (Sanitized opr) = op_LeaseOwner opr"
  "op_LeaseExpiresAt (Sanitized opr) = op_LeaseExpiresAt opr"
  "op_IdempotencyScope (Sanitized opr) = op_IdempotencyScope opr"
  "op_IdempotencyKey (Sanitized opr) = op_IdempotencyKey opr"
  "op_RequestHash (Sanitized opr) = op_RequestHash opr"
  "op_CorrelationID (Sanitized opr) = op_CorrelationID opr"
  "op_CallerService (Sanitized opr) = op_CallerService opr"
  "op_AuthorizedActor (Sanitized opr) = op_AuthorizedActor opr"
  "op_Resource (Sanitized opr) = op_Resource opr"
  "op_NamespaceID (Sanitized opr) = op_NamespaceID opr"
  "op_RepoID (Sanitized opr) = op_RepoID opr"
  "op_TemplateID (Sanitized opr) = op_TemplateID opr"
  "op_CreatedAt (Sanitized opr) = op_CreatedAt opr"
  "op_StartedAt (Sanitized opr) = op_StartedAt opr"
  "op_FinishedAt (Sanitized opr) = op_FinishedAt opr"
  by (simp_all add: Sanitized_def restoreSafeSavePointMessage_def Let_def split: prod.splits option.splits)

section \<open>What is left after redaction\<close>

text \<open>\<open>field_of v key x\<close>: somewhere inside \<open>v\<close>, at any depth, the key \<open>key\<close> has the value \<open>x\<close>.\<close>

inductive field_of :: "go_any \<Rightarrow> string \<Rightarrow> go_any \<Rightarrow> bool" where
  map_here: "kv \<in> set m \<Longrightarrow> field_of (AnyMap m) (fst kv) (snd kv)"
| map_below: "kv \<in> set m \<Longrightarrow> field_of (snd kv) key x \<Longrightarrow> field_of (AnyMap m) key x"
| string_map: "kv \<in> set m \<Longrightarrow> field_of (AnyStringMap m) (fst kv) (AnyString (snd kv))"
| list_below: "y \<in> set ys \<Longrightarrow> field_of y key x \<Longrightarrow> field_of (AnyList ys) key x"
| maps_here: "m \<in> set ms \<Longrightarrow> kv \<in> set m \<Longrightarrow> field_of (AnyMapList ms) (fst kv) (snd kv)"
| maps_below: "m \<in> set ms \<Longrightarrow> kv \<in> set m \<Longrightarrow> field_of (snd kv) key x \<Longrightarrow> field_of (AnyMapList ms) key x"

inductive_cases field_of_map: "field_of (AnyMap m) key x"
inductive_cases field_of_string_map: "field_of (AnyStringMap m) key x"
inductive_cases field_of_list: "field_of (AnyList ys) key x"
inductive_cases field_of_maps: "field_of (AnyMapList ms) key x"

inductive_simps field_of_scalar [simp]:
  "field_of AnyNil key x" "field_of (AnyBool b) key x" "field_of (AnyInt i) key x"
  "field_of (AnyInt64 i) key x" "field_of (AnyFloat f) key x" "field_of (AnyNumber n) key x"
  "field_of (AnyString t) key x" "field_of (AnyStringList ts) key x"

definition log_field_ok :: "string \<Rightarrow> go_any \<Rightarrow> bool" where
  "log_field_ok key x \<longleftrightarrow>
     (IsSensitiveField key \<longrightarrow> x = AnyString Redacted \<or> (isCredentialFoundField key \<and> is_bool x))"

lemma redactValue_ok: "log_field_ok name (redactValue name v)"
  by (simp add: log_field_ok_def redactValue.simps)

lemma redacted_entry:
  assumes "field_of (AnyMap (map (\<lambda>kv. (fst kv, redactValue (fst kv) (snd kv))) m)) key x"
    and "\<And>kv. kv \<in> set m \<Longrightarrow> field_of (redactValue (fst kv) (snd kv)) key x \<Longrightarrow> log_field_ok key x"
  shows "log_field_ok key x"
  using assms(1) by (rule field_of_map) (use assms(2) redactValue_ok in auto)

lemma redactValue_fields: "field_of (redactValue name v) key x \<Longrightarrow> log_field_ok key x"
proof (induction name v rule: redactValue.induct)
  case (1 name v)
  show ?case
  proof (cases "(isCredentialFoundField name \<and> is_bool v) \<or> IsSensitiveField name")
    case True
    with 1 show ?thesis by (cases v) (auto simp: redactValue.simps split: if_splits)
  next
    case False
    then have n: "\<not> (isCredentialFoundField name \<and> is_bool v)" "\<not> IsSensitiveField name" by auto
    show ?thesis
    proof (cases v)
      case (AnyMap m)
      with 1(4) n have "field_of (AnyMap (map (\<lambda>kv. (fst kv, redactValue (fst kv) (snd kv))) m)) key x"
        by (simp add: redactValue.simps [of name])
      then show ?thesis by (rule redacted_entry) (rule 1(1) [OF n AnyMap])
    next
      case (AnyStringMap m)
      with 1(4) n have "field_of (AnyStringMap (redactStringMap m)) key x"
        by (simp add: redactValue.simps [of name])
      then show ?thesis
        by (rule field_of_string_map) (auto simp: redactStringMap_def log_field_ok_def split: if_splits)
    next
      case (AnyList xs)
      with 1(4) n have "field_of (AnyList (map (redactValue []) xs)) key x"
        by (simp add: redactValue.simps [of name])
      then show ?thesis by (rule field_of_list) (use 1(2) [OF n AnyList] in auto)
    next
      case (AnyMapList ms)
      with 1(4) n have "field_of (AnyMapList (map (\<lambda>m. map (\<lambda>kv. (fst kv, redactValue (fst kv) (snd kv))) m) ms)) key x"
        by (simp add: redactValue.simps [of name])
      then obtain m where m: "m \<in> set ms"
        "field_of (AnyMap (map (\<lambda>kv. (fst kv, redactValue (fst kv) (snd kv))) m)) key x"
        by (rule field_of_maps) (auto intro: field_of.map_here field_of.map_below)
      from m(2) show ?thesis by (rule redacted_entry) (rule 1(3) [OF n AnyMapList m(1)])
    qed (use 1(4) n in \<open>simp_all add: redactValue.simps [of name]\<close>)
  qed
qed

text \<open>For operation records: forbidden keys are gone and sensitive ones carry the marker, where
  the value has the shapes of decoded JSON.\<close>

function json_shaped :: "go_any \<Rightarrow> bool" where
  "json_shaped v =
     (case v of
        AnyMap m \<Rightarrow> list_all (\<lambda>kv. json_shaped (snd kv)) m
      | AnyList xs \<Rightarrow> list_all (\<lambda>x. json_shaped x) xs
      | AnyMapList _ \<Rightarrow> False
      | _ \<Rightarrow> True)"
  by pat_completeness auto
termination
  by (relation "measure size") (auto dest: size_AnyMap size_AnyList simp del: go_any.size)

declare json_shaped.simps [simp del]

lemma json_shaped_simps [simp]:
  "json_shaped (AnyMap m) \<longleftrightarrow> (\<forall>kv \<in> set m. json_shaped (snd kv))"
  "json_shaped (AnyList xs) \<longleftrightarrow> (\<forall>x \<in> set xs. json_shaped x)"
  "\<not> json_shaped (AnyMapList ms)"
  "json_shaped AnyNil" "json_shaped (AnyString t)" "json_shaped (AnyStringMap sm)" "json_shaped (AnyBool b)"
  by (simp_all add: json_shaped.simps list_all_iff)

definition record_field_ok :: "string \<Rightarrow> go_any \<Rightarrow> bool" where
  "record_field_ok key x \<longleftrightarrow> \<not> ForbiddenJVSInternalField key \<and> (isSensitiveKey key \<longrightarrow> x = AnyString Redacted)"

lemma redact_string_fields: "fst (redact (AnyString t) path) = AnyString (fst (redactString t path))"
  by (simp add: redact.simps split: prod.split)

lemma redact_fields:
  "json_shaped v \<Longrightarrow> field_of (fst (redact v path)) key x \<Longrightarrow> record_field_ok key x"
proof (induction v path rule: redact.induct)
  case (1 v path)
  show ?case
  proof (cases v)
    case (AnyMap m)
    from 1(4) have "field_of (AnyMap (concat (map (\<lambda>kv.
        (if ForbiddenJVSInternalField (fst kv) then []
         else if isSensitiveKey (fst kv) then [(fst kv, AnyString Redacted)]
         else [(fst kv, fst (redact (snd kv) (joinPath path (fst kv))))])) m))) key x"
      by (simp add: redact.simps [of "AnyMap m"] AnyMap Let_def comp_def if_distrib [of fst] case_prod_unfold cong: if_cong)
    then show ?thesis
    proof (rule field_of_map)
      fix kv assume "kv \<in> set (concat (map (\<lambda>kv.
        (if ForbiddenJVSInternalField (fst kv) then []
         else if isSensitiveKey (fst kv) then [(fst kv, AnyString Redacted)]
         else [(fst kv, fst (redact (snd kv) (joinPath path (fst kv))))])) m))" "key = fst kv" "x = snd kv"
      then show ?thesis by (auto simp: record_field_ok_def split: if_splits)
    next
      fix kv assume kv: "kv \<in> set (concat (map (\<lambda>kv.
        (if ForbiddenJVSInternalField (fst kv) then []
         else if isSensitiveKey (fst kv) then [(fst kv, AnyString Redacted)]
         else [(fst kv, fst (redact (snd kv) (joinPath path (fst kv))))])) m))" "field_of (snd kv) key x"
      then obtain kv0 where kv0: "kv0 \<in> set m" "\<not> ForbiddenJVSInternalField (fst kv0)" "\<not> isSensitiveKey (fst kv0)"
        "field_of (fst (redact (snd kv0) (joinPath path (fst kv0)))) key x"
        by (auto split: if_splits)
      from 1(1) [OF AnyMap kv0(1-3) _ kv0(4)] kv0(1) 1(3) AnyMap show ?thesis by auto
    qed
  next
    case (AnyStringMap m)
    with 1(4) have "field_of (AnyMap (concat (map (\<lambda>kv.
        (if ForbiddenJVSInternalField (fst kv) then []
         else if isSensitiveKey (fst kv) then [(fst kv, AnyString Redacted)]
         else [(fst kv, AnyString (fst (redactString (snd kv) (joinPath path (fst kv)))))])) m))) key x"
      by (simp add: redact.simps [of "AnyStringMap m"] Let_def comp_def if_distrib [of fst] case_prod_unfold cong: if_cong)
    then show ?thesis
      by (rule field_of_map) (auto simp: record_field_ok_def split: if_splits)
  next
    case (AnyList xs)
    with 1(4) have "field_of (AnyList (map (\<lambda>ix. fst (redact (snd ix) (index_path path (fst ix)))) (List.enumerate 0 xs))) key x"
      by (simp add: redact.simps [of "AnyList xs"] Let_def comp_def)
    then obtain ix where ix: "ix \<in> set (List.enumerate 0 xs)" "field_of (fst (redact (snd ix) (index_path path (fst ix)))) key x"
      by (rule field_of_list) auto
    have "snd ix \<in> set xs" using ix(1) by (auto simp: in_set_enumerate_eq dest: nth_mem)
    with 1(3) AnyList have "json_shaped (snd ix)" by simp
    from 1(2) [OF AnyList ix(1) this ix(2)] show ?thesis .
  next
    case (AnyStringList xs)
    with 1(4) have "field_of (AnyList (map (\<lambda>x. AnyString (fst x)) (map (\<lambda>(i, s). redactString s (index_path path i)) (List.enumerate 0 xs)))) key x"
      by (simp add: redact.simps [of "AnyStringList xs"] Let_def)
    then show ?thesis by (rule field_of_list) auto
  next
    case (AnyString t)
    with 1(4) show ?thesis by (simp add: redact_string_fields)
  qed (use 1(3,4) in \<open>simp_all add: redact.simps\<close>)
qed

lemma redact_shaped: "json_shaped v \<Longrightarrow> json_shaped (fst (redact v path))"
proof (induction v path rule: redact.induct)
  case (1 v path)
  show ?case
  proof (cases v)
    case (AnyMap m)
    have "json_shaped (fst (redact (snd kv) (joinPath path (fst kv))))"
      if "kv \<in> set m" "\<not> ForbiddenJVSInternalField (fst kv)" "\<not> isSensitiveKey (fst kv)" for kv
      using 1(1) [OF AnyMap that] that(1) 1(3) AnyMap by auto
    then show ?thesis
      by (auto simp: redact.simps [of "AnyMap m"] AnyMap Let_def case_prod_unfold split: if_splits)
  next
    case (AnyList xs)
    have "json_shaped (fst (redact (snd ix) (index_path path (fst ix))))" if ix: "ix \<in> set (List.enumerate 0 xs)" for ix
    proof -
      have "snd ix \<in> set xs" using ix by (auto simp: in_set_enumerate_eq dest: nth_mem)
      with 1(3) AnyList have "json_shaped (snd ix)" by simp
      from 1(2) [OF AnyList ix this] show ?thesis .
    qed
    then show ?thesis by (auto simp: redact.simps [of "AnyList xs"] AnyList Let_def)
  qed (use 1(3) in \<open>auto simp: redact.simps Let_def case_prod_unfold split: if_splits\<close>)
qed

definition clean :: "go_any \<Rightarrow> bool" where
  "clean v \<longleftrightarrow> json_shaped v \<and> (\<forall>key x. field_of v key x \<longrightarrow> record_field_ok key x)"

lemma clean_RedactValue: "json_shaped v \<Longrightarrow> clean (fst (RedactValue v))"
  using redact_fields [of v "[]"] redact_shaped [of v "[]"]
  by (auto simp: clean_def RedactValue_def case_prod_unfold)

lemma RedactValue_map: "\<exists>m'. fst (RedactValue (AnyMap m)) = AnyMap m'"
  by (simp add: RedactValue_def redact.simps Let_def case_prod_unfold)

lemma object_value_as_object [simp]: "object_value (as_object (AnyMap m)) = AnyMap m"
  by (simp add: object_value_def)

lemma clean_RedactObject:
  "json_shaped (object_value m) \<Longrightarrow> clean (object_value (as_object (fst (RedactValue (object_value m)))))"
  using clean_RedactValue [of "object_value m"] RedactValue_map [of "case m of None \<Rightarrow> [] | Some kvs \<Rightarrow> kvs"]
  by (auto simp: object_value_def)

lemma message_key_ok: "record_field_ok ''message'' x"
proof -
  have "NormalizeFieldKey ''message'' = ''message''" by code_simp
  moreover have "normalize_runes (stripped_key ''message'') = ''message''" by code_simp
  moreover have "\<not> forbidden_normalized ''message''" by code_simp
  moreover have "\<not> list_ex (\<lambda>f. rune_contains (stripped_key ''message'') (bytes f)) sensitiveFragments" by code_simp
  ultimately show ?thesis by (simp add: record_field_ok_def ForbiddenJVSInternalField_def isSensitiveKey_def)
qed

lemma set_put_key: "set (put_key m key v) \<subseteq> insert (key, v) (set m)"
  by (induction m) auto

lemma clean_put_message:
  assumes "clean (AnyMap m)"
  shows "clean (AnyMap (put_key m ''message'' (AnyString t)))"
proof -
  have s: "kv \<in> set (put_key m ''message'' (AnyString t)) \<Longrightarrow> kv = (''message'', AnyString t) \<or> kv \<in> set m" for kv
    using set_put_key [of m "''message''" "AnyString t"] by auto
  show ?thesis unfolding clean_def
  proof (intro conjI allI impI)
    show "json_shaped (AnyMap (put_key m ''message'' (AnyString t)))"
      using assms s by (force simp: clean_def)
  next
    fix key x assume "field_of (AnyMap (put_key m ''message'' (AnyString t))) key x"
    then show "record_field_ok key x"
    proof (rule field_of_map)
      fix kv assume "kv \<in> set (put_key m ''message'' (AnyString t))" "key = fst kv" "x = snd kv"
      then show ?thesis
        using s [of kv] assms message_key_ok field_of.map_here [of kv m] by (auto simp: clean_def)
    next
      fix kv assume "kv \<in> set (put_key m ''message'' (AnyString t))" "field_of (snd kv) key x"
      then show ?thesis
        using s [of kv] assms field_of.map_below [of kv m key x] by (auto simp: clean_def)
    qed
  qed
qed

lemma clean_restore_message:
  "clean (object_value out) \<Longrightarrow> clean (object_value (restoreSafeSavePointMessageInMap m out))"
  by (auto simp: restoreSafeSavePointMessageInMap_def Let_def object_value_def clean_put_message split: option.splits)

text \<open>The free-form values of a record.\<close>

definition record_values :: "OperationRecord \<Rightarrow> go_any list" where
  "record_values opr =
     [object_value (op_InputSummary opr), op_JVSJSONOutput opr, op_VerificationResult opr,
      object_value (case op_Error opr of None \<Rightarrow> None | Some err \<Rightarrow> operr_Details err)]"

lemma Sanitized_values:
  "op_VerificationResult (Sanitized opr) = fst (RedactValue (op_VerificationResult opr))"
  "op_Error (Sanitized opr) = map_option (\<lambda>err. fst (OperationError_Sanitized err)) (op_Error opr)"
  "op_InputSummary (Sanitized opr) =
     (let out = as_object (fst (RedactValue (object_value (op_InputSummary opr)))) in
      if op_Type opr = OperationSavePointCreate then restoreSafeSavePointMessageInMap (op_InputSummary opr) out else out)"
  by (simp_all add: Sanitized_def restoreSafeSavePointMessage_def Let_def case_prod_unfold
      option.map_comp comp_def split: option.splits)

lemma Sanitized_output:
  assumes "json_shaped (op_JVSJSONOutput opr)"
  shows "clean (op_JVSJSONOutput (Sanitized opr))"
proof -
  let ?v = "op_JVSJSONOutput opr" and ?r = "fst (RedactValue (op_JVSJSONOutput opr))"
  have c: "clean ?r" by (rule clean_RedactValue) (rule assms)
  show ?thesis
  proof (cases "op_Type opr = OperationSavePointCreate \<and> as_object ?v \<noteq> None \<and> as_object ?r \<noteq> None")
    case True
    then obtain m out where m: "as_object ?v = Some m" "?r = AnyMap out" by (cases ?r) auto
    obtain out' where o': "restoreSafeSavePointMessageInMap (Some m) (Some out) = Some out'"
      by (cases "restoreSafeSavePointMessageInMap (Some m) (Some out)")
        (auto simp: restoreSafeSavePointMessageInMap_def Let_def split: option.splits)
    have "clean (AnyMap out')"
      using clean_restore_message [of "Some out" "Some m"] c m(2) o' by (simp add: object_value_def)
    moreover have "op_JVSJSONOutput (Sanitized opr) = AnyMap out'"
      using True m o' by (simp add: Sanitized_def restoreSafeSavePointMessage_def Let_def case_prod_unfold)
    ultimately show ?thesis by simp
  next
    case False
    then have "op_JVSJSONOutput (Sanitized opr) = ?r"
      by (auto simp: Sanitized_def restoreSafeSavePointMessage_def Let_def case_prod_unfold split: option.splits)
    with c show ?thesis by simp
  qed
qed

lemma clean_error:
  assumes "json_shaped (object_value (operr_Details err))"
  shows "clean (object_value (operr_Details (fst (OperationError_Sanitized err))))"
  using clean_RedactObject [OF assms] by (simp add: OperationError_Sanitized_def case_prod_unfold)

lemma clean_empty: "clean (object_value None)"
  by (auto simp: clean_def object_value_def elim: field_of_map)

lemma Sanitized_clean:
  assumes "list_all json_shaped (record_values opr)"
  shows "list_all clean (record_values (Sanitized opr))"
proof -
  have a: "json_shaped (object_value (op_InputSummary opr))" "json_shaped (op_JVSJSONOutput opr)"
    "json_shaped (op_VerificationResult opr)"
    "op_Error opr = Some err \<Longrightarrow> json_shaped (object_value (operr_Details err))" for err
    using assms by (auto simp: record_values_def)
  have "clean (object_value (op_InputSummary (Sanitized opr)))"
    using clean_RedactObject [OF a(1)] by (simp add: Sanitized_values Let_def clean_restore_message)
  moreover have "clean (object_value (case op_Error (Sanitized opr) of None \<Rightarrow> None | Some err \<Rightarrow> operr_Details err))"
    using a(4) by (cases "op_Error opr") (simp_all add: Sanitized_values clean_empty clean_error)
  ultimately show ?thesis
    using Sanitized_output [OF a(2)] clean_RedactValue [OF a(3)]
    by (simp add: record_values_def Sanitized_values(1))
qed

lemma clean_shaped: "list_all clean vs \<Longrightarrow> list_all json_shaped vs"
  by (simp add: list_all_iff clean_def)

lemma external_ids_redacted:
  "fst (RedactExternalResourceIDs ids) = Some out \<Longrightarrow> (k, v) \<in> set out \<Longrightarrow>
     v = Redacted \<or> (k = ''save_point_id'' \<and> safeOpaqueID v)"
  by (auto simp: RedactExternalResourceIDs_def Let_def ValidateSavePointID_def split: option.splits if_splits)

lemma Sanitized_ids: "op_ExternalResourceIDs (Sanitized opr) = fst (RedactExternalResourceIDs (op_ExternalResourceIDs opr))"
  by (simp add: Sanitized_def restoreSafeSavePointMessage_def Let_def case_prod_unfold split: option.splits)

text \<open>The type switch of \<open>valueRedactor.redact\<close> has no case for \<open>[]map[string]any\<close>, the type in
  which \<open>internal/repoexec/clone_evidence.go\<close> puts its evidence into the records: such a list
  is stored as it is, whatever keys and texts it has.\<close>

lemma map_list_stored_unredacted:
  "fst (RedactValue (AnyMap [(''clone_evidence'', AnyMapList ms)])) = AnyMap [(''clone_evidence'', AnyMapList ms)]"
proof -
  have "\<not> ForbiddenJVSInternalField ''clone_evidence''" by code_simp
  moreover have "\<not> isSensitiveKey ''clone_evidence''"
  proof -
    have "stripped_key ''clone_evidence'' = bytes ''cloneevidence''" by code_simp
    moreover have "normalize_runes (bytes ''cloneevidence'') = ''cloneevidence''" by code_simp
    moreover have "\<not> forbidden_normalized ''cloneevidence''" by code_simp
    moreover have "\<not> list_ex (\<lambda>f. rune_contains (bytes ''cloneevidence'') (bytes f)) sensitiveFragments"
      by (simp add: sensitiveFragments_def byte_def)
    ultimately show ?thesis by (simp add: isSensitiveKey_def)
  qed
  moreover have "redact (AnyMapList ms) path = (AnyMapList ms, [])" for path by (simp add: redact.simps)
  ultimately show ?thesis
    by (simp add: RedactValue_def redact.simps [of "AnyMap _"] Let_def case_prod_unfold)
qed

section \<open>Properties\<close>

text \<open>Redaction of log and audit fields keeps the keys of an object, and whatever the nesting of
  maps and lists, every field whose name is sensitive carries the marker afterwards; the
  one exception is a boolean \<open>credential_found\<close> flag.\<close>

theorem log_fields_redacted:
  assumes "RedactFields (Some m) = Some out"
  shows "map fst out = map fst m \<and>
    (\<forall>key x. field_of (AnyMap out) key x \<and> IsSensitiveField key \<longrightarrow>
       x = AnyString Redacted \<or> (isCredentialFoundField key \<and> is_bool x))"
proof -
  have out: "out = map (\<lambda>kv. (fst kv, redactValue (fst kv) (snd kv))) m"
    using assms by (simp add: RedactFields_def redact_object_def)
  have "log_field_ok key x" if "field_of (AnyMap out) key x" for key x
    using that unfolding out by (rule redacted_entry) (rule redactValue_fields)
  then show ?thesis by (auto simp: out log_field_ok_def)
qed

theorem log_fields_redacted_witness:
  "\<not> field_of (AnyMap (the (RedactFields (Some [(''request'', AnyMap [(''api-token'', AnyString ''abc'')])]))))
      ''api-token'' (AnyString ''abc'')"
proof -
  have "IsSensitiveField ''api-token''" by code_simp
  moreover have "\<not> isCredentialFoundField ''api-token''" by code_simp
  ultimately show ?thesis
    using log_fields_redacted [of "[(''request'', AnyMap [(''api-token'', AnyString ''abc'')])]"
        "the (RedactFields (Some [(''request'', AnyMap [(''api-token'', AnyString ''abc'')])]))"]
    by (auto simp: RedactFields_def Redacted_def)
qed


definition example_secret_record :: OperationRecord where
  "example_secret_record =
     \<lparr>op_ID = ''op_12'', op_Type = OperationRestore, op_State = OperationStateRunning, op_Phase = ''validate_restore'',
      op_Attempt = 1, op_LeaseOwner = ''w1'', op_LeaseExpiresAt = Some 80, op_IdempotencyScope = ''s'', op_IdempotencyKey = ''k'',
      op_RequestHash = ''h'', op_CorrelationID = ''c'', op_CallerService = ''svc'',
      op_AuthorizedActor = \<lparr>actor_Type = ''user'', actor_ID = ''u1''\<rparr>,
      op_Resource = \<lparr>resource_Type = ''repo'', resource_ID = ''repo_12''\<rparr>,
      op_NamespaceID = ''ns_12'', op_RepoID = ''repo_12'', op_TemplateID = [], op_ExportID = [], op_MountBindingID = [],
      op_SessionFenceID = [], op_ExternalResourceIDs = Some [],
      op_InputSummary = Some [(''db_password'', AnyString ''hunter2'')], op_JVSJSONOutput = AnyNil,
      op_VerificationResult = AnyNil, op_CompensationStatus = [], op_Error = None, op_Redaction = no_report,
      op_CreatedAt = 5, op_StartedAt = Some 7, op_FinishedAt = None\<rparr>"


end
