(* ===== verification/Audit_Events.thy ===== *)
theory Audit_Events
  imports Redaction
begin

text \<open>
  Audit events: \<open>internal/audit/event.go\<close>. The event types, the type that belongs to each
  operation type, the event record and its redaction. \<open>MarshalJSON\<close> and the sink interface
  are not modelled.
\<close>

section \<open>Audit events\<close>

datatype EventType =
    EventTypeAuthzDenied | EventTypePathDenied | EventTypeCapabilityDenied
  | EventTypeResourceNamespaceMismatchDenied | EventTypeVolumeEnsure | EventTypeNamespaceUpsert
  | EventTypeNamespaceDisable | EventTypeNamespaceVolumeBindingPut | EventTypeRepoCreate
  | EventTypeRepoArchive | EventTypeRepoRestoreArchived | EventTypeRepoDelete
  | EventTypeRepoRestoreTombstoned | EventTypeRepoPurge | EventTypeSavePointCreate
  | EventTypeRestore | EventTypeTemplateCreate | EventTypeTemplateClone | EventTypeExportCreate
  | EventTypeExportRevoke | EventTypeExportSessionReconcile | EventTypeMountBindingCreate
  | EventTypeMountBindingStatusUpdate | EventTypeMountBindingHeartbeat | EventTypeMountPlanIssued
  | EventTypeMountBindingRelease | EventTypeMountBindingRevoke | EventTypeMigrationCutover
  | EventTypeRestoreReconciliation | EventTypeOther string

definition eventTypes :: "EventType list" where
  "eventTypes =
     [EventTypeAuthzDenied, EventTypePathDenied, EventTypeCapabilityDenied,
      EventTypeResourceNamespaceMismatchDenied, EventTypeVolumeEnsure, EventTypeNamespaceUpsert,
      EventTypeNamespaceDisable, EventTypeNamespaceVolumeBindingPut, EventTypeRepoCreate,
      EventTypeRepoArchive, EventTypeRepoRestoreArchived, EventTypeRepoDelete,
      EventTypeRepoRestoreTombstoned, EventTypeRepoPurge, EventTypeSavePointCreate, EventTypeRestore,
      EventTypeTemplateCreate, EventTypeTemplateClone, EventTypeExportCreate, EventTypeExportRevoke,
      EventTypeExportSessionReconcile, EventTypeMountBindingCreate, EventTypeMountBindingStatusUpdate,
      EventTypeMountBindingHeartbeat, EventTypeMountPlanIssued, EventTypeMountBindingRelease,
      EventTypeMountBindingRevoke, EventTypeMigrationCutover, EventTypeRestoreReconciliation]"

definition operationEventTypes :: "(string \<times> EventType) list" where
  "operationEventTypes =
     [(''volume_ensure'', EventTypeVolumeEnsure), (''namespace_upsert'', EventTypeNamespaceUpsert),
      (''namespace_disable'', EventTypeNamespaceDisable),
      (''namespace_volume_binding_put'', EventTypeNamespaceVolumeBindingPut),
      (''repo_create'', EventTypeRepoCreate), (''repo_archive'', EventTypeRepoArchive),
      (''repo_restore_archived'', EventTypeRepoRestoreArchived), (''repo_delete'', EventTypeRepoDelete),
      (''repo_restore_tombstoned'', EventTypeRepoRestoreTombstoned), (''repo_purge'', EventTypeRepoPurge),
      (''save_point_create'', EventTypeSavePointCreate), (''restore'', EventTypeRestore),
      (''template_create'', EventTypeTemplateCreate), (''template_clone'', EventTypeTemplateClone),
      (''export_create'', EventTypeExportCreate), (''export_revoke'', EventTypeExportRevoke),
      (''export_session_reconcile'', EventTypeExportSessionReconcile),
      (''mount_binding_create'', EventTypeMountBindingCreate),
      (''mount_binding_status_update'', EventTypeMountBindingStatusUpdate),
      (''mount_binding_heartbeat'', EventTypeMountBindingHeartbeat),
      (''mount_binding_release'', EventTypeMountBindingRelease),
      (''mount_binding_revoke'', EventTypeMountBindingRevoke),
      (''migration_cutover'', EventTypeMigrationCutover)]"

definition EventTypeForOperationType :: "string \<Rightarrow> EventType option" where
  "EventTypeForOperationType operationType = map_of operationEventTypes operationType"

datatype AuditOutcome = OutcomeSucceeded | OutcomeFailed | OutcomeDenied | OutcomeOther string

record AuditResource =
  ares_Type :: string
  ares_ID :: string
  ares_NamespaceID :: string
  ares_Path :: string

record AuditEvent =
  ev_EventID :: string
  ev_Type :: EventType
  ev_Time :: go_time
  ev_CallerService :: string
  ev_AuthorizedActor :: Actor
  ev_CorrelationID :: string
  ev_OperationID :: string
  ev_Resource :: AuditResource
  ev_Outcome :: AuditOutcome
  ev_Reason :: string
  ev_Details :: "go_object option"

text \<open>\<open>NewEventWithRedactor\<close>: None is the nil redactor, for which the default is taken.\<close>

definition NewEventWithRedactor ::
    "AuditEvent \<Rightarrow> (go_object option \<Rightarrow> go_object option) option \<Rightarrow> AuditEvent" where
  "NewEventWithRedactor event redactor =
     event\<lparr>ev_Reason := RedactString (ev_Reason event),
            ev_Resource := (ev_Resource event)\<lparr>ares_Path := RedactString (ares_Path (ev_Resource event))\<rparr>,
            ev_Details := (case redactor of None \<Rightarrow> RedactFields | Some f \<Rightarrow> f) (ev_Details event)\<rparr>"

definition NewEvent :: "AuditEvent \<Rightarrow> AuditEvent" where
  "NewEvent event = NewEventWithRedactor event (Some RedactFields)"

definition Event_Sanitized :: "AuditEvent \<Rightarrow> AuditEvent" where
  "Event_Sanitized event =
     event\<lparr>ev_Reason := RedactString (ev_Reason event),
            ev_Resource := (ev_Resource event)\<lparr>ares_Path := RedactString (ares_Path (ev_Resource event))\<rparr>,
            ev_Details := RedactFields (ev_Details event)\<rparr>"

lemma NewEvent_eq: "NewEvent event = Event_Sanitized event"
  by (simp add: NewEvent_def NewEventWithRedactor_def Event_Sanitized_def)

lemma Event_Sanitized_fields [simp]:
  "ev_EventID (Event_Sanitized event) = ev_EventID event"
  "ev_Type (Event_Sanitized event) = ev_Type event"
  "ev_Time (Event_Sanitized event) = ev_Time event"
  "ev_OperationID (Event_Sanitized event) = ev_OperationID event"
  "ev_Outcome (Event_Sanitized event) = ev_Outcome event"
  by (simp_all add: Event_Sanitized_def)

end
