(* ===== verification/Api_Errors.thy ===== *)
theory Api_Errors
  imports Redaction
begin

text \<open>
  What the API lets out: the error envelope of \<open>internal/api/error.go\<close>, whose details are
  redacted, and the projection of operation records of \<open>internal/api/operation_handler.go\<close>.
  The JSON encoding and the writing of the response are not modelled.
\<close>

section \<open>Error codes\<close>

datatype ErrorCode =
    CodeAuthenticationFailed | CodeCallerNotAllowed | CodeRoleNotAllowed | CodeNamespaceNotFound | CodeNamespaceDisabled
  | CodeResourceNamespaceMismatch | CodeInvalidID | CodePathDenied | CodeCapabilityDenied | CodeIdempotencyConflict
  | CodeRepoAlreadyExists | CodeRepoNotFound | CodeVolumeNotFound | CodeOperationNotFound | CodeStorageUnavailable
  | CodeInternalError | CodeRepoJVSMutationInProgress | CodeFileLibraryOperationPending
  | CodeFileLibraryOperationRequiresRecovery | CodeActiveWriterSessions | CodeWriterSessionFenceHeld
  | CodeStaleWriterSessionUncertain | CodeRestoreDirtyState | CodeJVSCommandFailed | CodeJVSDoctorFailed
  | CodeSourceDirtyAfterTemplateSave | CodeVolumeMismatchRequiresImport | CodeExportExpired | CodeExportRevoked
  | CodeExportNotReady | CodeMountBindingTerminal | CodeRepoLifecycleInvalidState | CodeRepoLifecycleFenceHeld
  | CodeActiveSessionsBlockLifecycle | CodeStaleSessionBlocksLifecycle | CodeRepoArchived | CodeRepoTombstoned
  | CodeRepoPurged | CodePurgeConfirmationRequired | CodePurgeRetentionNotMet | CodePurgeRequiresOperatorApproval
  | CodeOperationRecoveryRequired | CodeRestoreReconciliationActive | CodeOther string

text \<open>\<open>string(code)\<close>.\<close>

fun ErrorCode_String :: "ErrorCode \<Rightarrow> string" where
  "ErrorCode_String CodeAuthenticationFailed = ''AUTHENTICATION_FAILED''"
| "ErrorCode_String CodeCallerNotAllowed = ''CALLER_NOT_ALLOWED''"
| "ErrorCode_String CodeRoleNotAllowed = ''ROLE_NOT_ALLOWED''"
| "ErrorCode_String CodeNamespaceNotFound = ''NAMESPACE_NOT_FOUND''"
| "ErrorCode_String CodeNamespaceDisabled = ''NAMESPACE_DISABLED''"
| "ErrorCode_String CodeResourceNamespaceMismatch = ''RESOURCE_NAMESPACE_MISMATCH''"
| "ErrorCode_String CodeInvalidID = ''INVALID_ID''"
| "ErrorCode_String CodePathDenied = ''PATH_DENIED''"
| "ErrorCode_String CodeCapabilityDenied = ''CAPABILITY_DENIED''"
| "ErrorCode_String CodeIdempotencyConflict = ''IDEMPOTENCY_CONFLICT''"
| "ErrorCode_String CodeRepoAlreadyExists = ''REPO_ALREADY_EXISTS''"
| "ErrorCode_String CodeRepoNotFound = ''REPO_NOT_FOUND''"
| "ErrorCode_String CodeVolumeNotFound = ''VOLUME_NOT_FOUND''"
| "ErrorCode_String CodeOperationNotFound = ''OPERATION_NOT_FOUND''"
| "ErrorCode_String CodeStorageUnavailable = ''STORAGE_UNAVAILABLE''"
| "ErrorCode_String CodeInternalError = ''INTERNAL_ERROR''"
| "ErrorCode_String CodeRepoJVSMutationInProgress = ''REPO_JVS_MUTATION_IN_PROGRESS''"
| "ErrorCode_String CodeFileLibraryOperationPending = ''FILE_LIBRARY_OPERATION_PENDING''"
| "ErrorCode_String CodeFileLibraryOperationRequiresRecovery = ''FILE_LIBRARY_OPERATION_REQUIRES_RECOVERY''"
| "ErrorCode_String CodeActiveWriterSessions = ''ACTIVE_WRITER_SESSIONS''"
| "ErrorCode_String CodeWriterSessionFenceHeld = ''WRITER_SESSION_FENCE_HELD''"
| "ErrorCode_String CodeStaleWriterSessionUncertain = ''STALE_WRITER_SESSION_UNCERTAIN''"
| "ErrorCode_String CodeRestoreDirtyState = ''RESTORE_DIRTY_STATE''"
| "ErrorCode_String CodeJVSCommandFailed = ''JVS_COMMAND_FAILED''"
| "ErrorCode_String CodeJVSDoctorFailed = ''JVS_DOCTOR_FAILED''"
| "ErrorCode_String CodeSourceDirtyAfterTemplateSave = ''SOURCE_DIRTY_AFTER_TEMPLATE_SAVE''"
| "ErrorCode_String CodeVolumeMismatchRequiresImport = ''VOLUME_MISMATCH_REQUIRES_IMPORT''"
| "ErrorCode_String CodeExportExpired = ''EXPORT_EXPIRED''"
| "ErrorCode_String CodeExportRevoked = ''EXPORT_REVOKED''"
| "ErrorCode_String CodeExportNotReady = ''EXPORT_NOT_READY''"
| "ErrorCode_String CodeMountBindingTerminal = ''MOUNT_BINDING_TERMINAL''"
| "ErrorCode_String CodeRepoLifecycleInvalidState = ''REPO_LIFECYCLE_INVALID_STATE''"
| "ErrorCode_String CodeRepoLifecycleFenceHeld = ''REPO_LIFECYCLE_FENCE_HELD''"
| "ErrorCode_String CodeActiveSessionsBlockLifecycle = ''ACTIVE_SESSIONS_BLOCK_LIFECYCLE''"
| "ErrorCode_String CodeStaleSessionBlocksLifecycle = ''STALE_SESSION_BLOCKS_LIFECYCLE''"
| "ErrorCode_String CodeRepoArchived = ''REPO_ARCHIVED''"
| "ErrorCode_String CodeRepoTombstoned = ''REPO_TOMBSTONED''"
| "ErrorCode_String CodeRepoPurged = ''REPO_PURGED''"
| "ErrorCode_String CodePurgeConfirmationRequired = ''PURGE_CONFIRMATION_REQUIRED''"
| "ErrorCode_String CodePurgeRetentionNotMet = ''PURGE_RETENTION_NOT_MET''"
| "ErrorCode_String CodePurgeRequiresOperatorApproval = ''PURGE_REQUIRES_OPERATOR_APPROVAL''"
| "ErrorCode_String CodeOperationRecoveryRequired = ''OPERATION_RECOVERY_REQUIRED''"
| "ErrorCode_String CodeRestoreReconciliationActive = ''RESTORE_RECONCILIATION_ACTIVE''"
| "ErrorCode_String (CodeOther s) = s"

section \<open>Redaction of details\<close>

definition normalizeSensitiveKey :: "string \<Rightarrow> string" where
  "normalizeSensitiveKey key = normalize_runes (runes (bytes key))"

definition credential_markers :: "string list" where
  "credential_markers =
     [''metadataurl'', ''storagebucketurl'', ''objectstoreendpoint'', ''authorization'', ''cookie'', ''apikey'', ''accesskey'',
      ''secretaccesskey'', ''secretkey'', ''privatekey'', ''password'', ''passwd'', ''secret'', ''secretref'', ''k8ssecret'',
      ''kubernetessecret'', ''kubernetessecretref'', ''k8ssecretref'', ''kubesecretref'', ''webdavpassword'', ''token'',
      ''credential'', ''bearer'']"

definition credentialLikeKey :: "string \<Rightarrow> bool" where
  "credentialLikeKey key \<longleftrightarrow> list_ex (str_contains (normalizeSensitiveKey key)) credential_markers"

definition bearerLikeValue :: "string \<Rightarrow> bool" where
  "bearerLikeValue v = (let flds = fields_from [] (runes (bytes v)) in
     2 \<le> length flds \<and> list_ex is_bearer (butlast flds))"

definition redact_detail_text :: "string \<Rightarrow> string" where
  "redact_detail_text v =
     (if bearerLikeValue v \<or> ContainsForbiddenJVSInternalText v then Redacted else v)"

text \<open>\<open>RedactDetails\<close> and \<open>redactValue\<close> of \<open>internal/api\<close> call each other; here the map case
  of \<open>redactValue\<close> is \<open>RedactDetails\<close> written out. A \<open>map[string]string\<close> becomes a
  \<open>map[string]any\<close>, a \<open>[]map[string]any\<close> a \<open>[]any\<close>.\<close>

function api_redactValue :: "go_any \<Rightarrow> go_any" where
  "api_redactValue v =
     (case v of
        AnyMap m \<Rightarrow> AnyMap (map (\<lambda>kv. (fst kv, if credentialLikeKey (fst kv) then AnyString Redacted
            else api_redactValue (snd kv))) (filter (\<lambda>kv. \<not> ForbiddenJVSInternalField (fst kv)) m))
      | AnyStringMap m \<Rightarrow> AnyMap (map (\<lambda>kv. (fst kv, AnyString
            (if credentialLikeKey (fst kv) \<or> bearerLikeValue (snd kv) then Redacted else snd kv)))
            (filter (\<lambda>kv. \<not> ForbiddenJVSInternalField (fst kv)) m))
      | AnyList xs \<Rightarrow> AnyList (map (\<lambda>x. api_redactValue x) xs)
      | AnyMapList ms \<Rightarrow> AnyList (map (\<lambda>m. AnyMap (map (\<lambda>kv. (fst kv, if credentialLikeKey (fst kv) then AnyString Redacted
            else api_redactValue (snd kv))) (filter (\<lambda>kv. \<not> ForbiddenJVSInternalField (fst kv)) m))) ms)
      | AnyStringList xs \<Rightarrow> AnyStringList (map redact_detail_text xs)
      | AnyString s \<Rightarrow> AnyString (redact_detail_text s)
      | _ \<Rightarrow> v)"
  by pat_completeness auto

termination api_redactValue
  by (relation "measure size") (auto dest: size_AnyMap size_AnyList size_AnyMapList simp del: go_any.size)

declare api_redactValue.simps [simp del]

lemma api_redact_scalar [simp]:
  "api_redactValue AnyNil = AnyNil" "api_redactValue (AnyBool b) = AnyBool b" "api_redactValue (AnyInt i) = AnyInt i"
  "api_redactValue (AnyInt64 i) = AnyInt64 i" "api_redactValue (AnyFloat f) = AnyFloat f"
  "api_redactValue (AnyNumber n) = AnyNumber n" "api_redactValue (AnyString t) = AnyString (redact_detail_text t)"
  "api_redactValue (AnyStringList ts) = AnyStringList (map redact_detail_text ts)"
  by (simp_all add: api_redactValue.simps)

text \<open>A nil map is redacted to an empty one.\<close>

definition RedactDetails :: "go_object \<Rightarrow> go_object" where
  "RedactDetails details =
     map (\<lambda>kv. (fst kv, if credentialLikeKey (fst kv) then AnyString Redacted else api_redactValue (snd kv)))
       (filter (\<lambda>kv. \<not> ForbiddenJVSInternalField (fst kv)) details)"

section \<open>The envelope\<close>

record StandardError =
  se_Code :: ErrorCode
  se_Message :: string
  se_Retryable :: bool
  se_CorrelationID :: string
  se_OperationID :: "string option"
  se_Details :: go_object

definition NewErrorEnvelope ::
    "ErrorCode \<Rightarrow> string \<Rightarrow> bool \<Rightarrow> string \<Rightarrow> string option \<Rightarrow> go_object \<Rightarrow> StandardError" where
  "NewErrorEnvelope code message retryable correlationID operationID details =
     \<lparr>se_Code = code, se_Message = message, se_Retryable = retryable,
      se_CorrelationID = (if trim_space correlationID = [] then ''missing'' else correlationID),
      se_OperationID = operationID, se_Details = RedactDetails details\<rparr>"

section \<open>Projection of operation records\<close>

definition inspection_sensitive_keys :: "string list" where
  "inspection_sensitive_keys =
     [''rawpath'', ''stdout'', ''stderr'', ''controlroot'', ''payloadroot'', ''controlrootpath'', ''payloadrootpath'', ''reporoot'',
      ''targetcontrolroot'', ''controlvolumesubdir'', ''payloadvolumesubdir'', ''runcommand'', ''recommendednextcommand'',
      ''restorecommand'', ''mountcommand'', ''rawmountcommand'', ''directmountcommand'', ''command'']"

definition operationInspectionSensitiveKey :: "string \<Rightarrow> bool" where
  "operationInspectionSensitiveKey key \<longleftrightarrow>
     credentialLikeKey key \<or> ForbiddenJVSInternalField key \<or> normalizeSensitiveKey key \<in> set inspection_sensitive_keys"

text \<open>A value of a type that the switch does not name, \<open>[]map[string]any\<close> and \<open>[]string\<close> among
  them, is returned as it is.\<close>

function pruneSensitiveAny :: "go_any \<Rightarrow> go_any" where
  "pruneSensitiveAny v =
     (case v of
        AnyMap m \<Rightarrow> AnyMap (map (\<lambda>kv. (fst kv, pruneSensitiveAny (snd kv)))
            (filter (\<lambda>kv. \<not> operationInspectionSensitiveKey (fst kv)) m))
      | AnyStringMap m \<Rightarrow> AnyMap (map (\<lambda>kv. (fst kv, AnyString (snd kv)))
            (filter (\<lambda>kv. \<not> operationInspectionSensitiveKey (fst kv)) m))
      | AnyList xs \<Rightarrow> AnyList (map (\<lambda>x. pruneSensitiveAny x) xs)
      | _ \<Rightarrow> v)"
  by pat_completeness auto

termination pruneSensitiveAny
  by (relation "measure size") (auto dest: size_AnyMap size_AnyList simp del: go_any.size)

declare pruneSensitiveAny.simps [simp del]

lemma prune_scalar [simp]:
  "pruneSensitiveAny AnyNil = AnyNil" "pruneSensitiveAny (AnyBool b) = AnyBool b" "pruneSensitiveAny (AnyInt i) = AnyInt i"
  "pruneSensitiveAny (AnyInt64 i) = AnyInt64 i" "pruneSensitiveAny (AnyFloat f) = AnyFloat f"
  "pruneSensitiveAny (AnyNumber n) = AnyNumber n" "pruneSensitiveAny (AnyString t) = AnyString t"
  "pruneSensitiveAny (AnyStringList ts) = AnyStringList ts"
  by (simp_all add: pruneSensitiveAny.simps)

definition pruneSensitiveAnyMap :: "go_object option \<Rightarrow> go_object option" where
  "pruneSensitiveAnyMap values =
     map_option (\<lambda>m. map (\<lambda>kv. (fst kv, pruneSensitiveAny (snd kv)))
       (filter (\<lambda>kv. \<not> operationInspectionSensitiveKey (fst kv)) m)) values"

definition pruneOperationInspectionRecord :: "OperationRecord \<Rightarrow> OperationRecord" where
  "pruneOperationInspectionRecord opr =
     (let r = Sanitized opr in
      r\<lparr>op_InputSummary := pruneSensitiveAnyMap (op_InputSummary r),
        op_JVSJSONOutput := pruneSensitiveAny (op_JVSJSONOutput r),
        op_VerificationResult := pruneSensitiveAny (op_VerificationResult r),
        op_Error := map_option (\<lambda>err. err\<lparr>operr_Details := pruneSensitiveAnyMap (operr_Details err)\<rparr>) (op_Error r)\<rparr>)"

section \<open>What is left\<close>

definition detail_field_ok :: "string \<Rightarrow> go_any \<Rightarrow> bool" where
  "detail_field_ok key x \<longleftrightarrow>
     \<not> ForbiddenJVSInternalField key \<and> (credentialLikeKey key \<longrightarrow> x = AnyString Redacted)"

lemma redacted_details_entry:
  assumes "field_of (AnyMap (RedactDetails m)) key x"
    and "\<And>kv. kv \<in> set (filter (\<lambda>kv. \<not> ForbiddenJVSInternalField (fst kv)) m) \<Longrightarrow> \<not> credentialLikeKey (fst kv) \<Longrightarrow>
      field_of (api_redactValue (snd kv)) key x \<Longrightarrow> detail_field_ok key x"
  shows "detail_field_ok key x"
  using assms(1)
proof (rule field_of_map)
  fix kv assume kv: "kv \<in> set (RedactDetails m)" and below: "field_of (snd kv) key x"
  then obtain k v where "(k, v) \<in> set m" "\<not> ForbiddenJVSInternalField k" "\<not> credentialLikeKey k"
      "field_of (api_redactValue v) key x"
    by (auto simp: RedactDetails_def split: if_splits)
  then show ?thesis using assms(2) [of "(k, v)"] by simp
qed (auto simp: RedactDetails_def detail_field_ok_def split: if_splits)

lemma api_redactValue_fields: "field_of (api_redactValue v) key x \<Longrightarrow> detail_field_ok key x"
proof (induction v rule: api_redactValue.induct)
  case (1 v)
  show ?case
  proof (cases v)
    case (AnyMap m)
    with 1(4) have "field_of (AnyMap (RedactDetails m)) key x"
      by (simp add: api_redactValue.simps [of "AnyMap m"] RedactDetails_def)
    then show ?thesis by (rule redacted_details_entry) (rule 1(1) [OF AnyMap])
  next
    case (AnyStringMap m)
    with 1(4) show ?thesis
      by (auto simp: api_redactValue.simps [of "AnyStringMap m"] detail_field_ok_def split: if_splits elim!: field_of_map)
  next
    case (AnyList xs)
    with 1(4) show ?thesis
      by (auto simp: api_redactValue.simps [of "AnyList xs"] elim!: field_of_list dest: 1(2) [OF AnyList])
  next
    case (AnyMapList ms)
    with 1(4) obtain m where m: "m \<in> set ms" "field_of (AnyMap (RedactDetails m)) key x"
      by (auto simp: api_redactValue.simps [of "AnyMapList ms"] RedactDetails_def elim!: field_of_list)
    from m(2) show ?thesis by (rule redacted_details_entry) (rule 1(3) [OF AnyMapList m(1)])
  qed (use 1(4) in simp_all)
qed

text \<open>Pruning only drops keys, so it can only remove fields; for values in the shapes of decoded
  JSON no sensitive key is left at any depth.\<close>

lemma pruned_entry:
  assumes "field_of (AnyMap (map (\<lambda>kv. (fst kv, f (snd kv))) (filter (\<lambda>kv. \<not> operationInspectionSensitiveKey (fst kv)) m))) key x"
    and "\<And>kv. kv \<in> set (filter (\<lambda>kv. \<not> operationInspectionSensitiveKey (fst kv)) m) \<Longrightarrow>
      field_of (f (snd kv)) key x \<Longrightarrow> \<not> operationInspectionSensitiveKey key"
  shows "\<not> operationInspectionSensitiveKey key"
  using assms(1) by (rule field_of_map) (use assms(2) in force)+

lemma pruned_fields:
  "json_shaped v \<Longrightarrow> field_of (pruneSensitiveAny v) key x \<Longrightarrow> \<not> operationInspectionSensitiveKey key"
proof (induction v rule: pruneSensitiveAny.induct)
  case (1 v)
  show ?case
  proof (cases v)
    case (AnyMap m)
    with 1(4) have "field_of (AnyMap (map (\<lambda>kv. (fst kv, pruneSensitiveAny (snd kv)))
        (filter (\<lambda>kv. \<not> operationInspectionSensitiveKey (fst kv)) m))) key x"
      by (simp add: pruneSensitiveAny.simps [of "AnyMap m"])
    then show ?thesis by (rule pruned_entry) (use 1(1) [OF AnyMap] 1(3) AnyMap in auto)
  next
    case (AnyStringMap m)
    with 1(4) have "field_of (AnyMap (map (\<lambda>kv. (fst kv, AnyString (snd kv)))
        (filter (\<lambda>kv. \<not> operationInspectionSensitiveKey (fst kv)) m))) key x"
      by (simp add: pruneSensitiveAny.simps [of "AnyStringMap m"])
    then show ?thesis by (rule pruned_entry) simp
  next
    case (AnyList xs)
    with 1(4) show ?thesis using 1(2) [OF AnyList] 1(3)
      by (auto simp: pruneSensitiveAny.simps [of "AnyList xs"] elim!: field_of_list)
  qed (use 1(3,4) in simp_all)
qed

lemma pruned_map_fields:
  assumes "json_shaped (object_value m)" "field_of (object_value (pruneSensitiveAnyMap m)) key x"
  shows "\<not> operationInspectionSensitiveKey key"
proof (cases m)
  case None
  with assms(2) show ?thesis by (auto simp: object_value_def pruneSensitiveAnyMap_def elim: field_of_map)
next
  case (Some kvs)
  with assms have "field_of (pruneSensitiveAny (AnyMap kvs)) key x" "json_shaped (AnyMap kvs)"
    by (simp_all add: object_value_def pruneSensitiveAnyMap_def pruneSensitiveAny.simps [of "AnyMap kvs"])
  then show ?thesis by (blast dest: pruned_fields)
qed

section \<open>Properties\<close>

text \<open>C37. No response leaks: in the error envelope of any details no key of the JVS internals is left
  at any depth and every credential-like key carries the marker, and in the operation
  record that inspection returns (of decoded JSON values) no sensitive key is left at any
  depth of its free-form fields.\<close>

theorem responses_redacted:
  "(\<forall>key x. field_of (AnyMap (se_Details (NewErrorEnvelope code message retryable correlation operationID details))) key x \<longrightarrow>
      \<not> ForbiddenJVSInternalField key \<and> (credentialLikeKey key \<longrightarrow> x = AnyString Redacted)) \<and>
   (list_all json_shaped (record_values opr) \<longrightarrow>
      list_all (\<lambda>v. \<forall>key x. field_of v key x \<longrightarrow> \<not> operationInspectionSensitiveKey key)
        (record_values (pruneOperationInspectionRecord opr)))"
proof (intro conjI impI)
  show "\<forall>key x. field_of (AnyMap (se_Details (NewErrorEnvelope code message retryable correlation operationID details))) key x \<longrightarrow>
      \<not> ForbiddenJVSInternalField key \<and> (credentialLikeKey key \<longrightarrow> x = AnyString Redacted)"
    using redacted_details_entry [OF _ api_redactValue_fields]
    by (auto simp: NewErrorEnvelope_def detail_field_ok_def)
  assume "list_all json_shaped (record_values opr)"
  then have "list_all json_shaped (record_values (Sanitized opr))"
    by (rule clean_shaped [OF Sanitized_clean])
  then have shaped: "json_shaped (object_value (op_InputSummary (Sanitized opr)))"
      "json_shaped (op_JVSJSONOutput (Sanitized opr))" "json_shaped (op_VerificationResult (Sanitized opr))"
      "json_shaped (object_value (case op_Error (Sanitized opr) of None \<Rightarrow> None | Some err \<Rightarrow> operr_Details err))"
    by (simp_all add: record_values_def)
  have details: "object_value (case op_Error (pruneOperationInspectionRecord opr) of None \<Rightarrow> None | Some err \<Rightarrow> operr_Details err) =
      object_value (pruneSensitiveAnyMap (case op_Error (Sanitized opr) of None \<Rightarrow> None | Some err \<Rightarrow> operr_Details err))"
    by (cases "op_Error (Sanitized opr)")
      (simp_all add: pruneOperationInspectionRecord_def Let_def pruneSensitiveAnyMap_def)
  show "list_all (\<lambda>v. \<forall>key x. field_of v key x \<longrightarrow> \<not> operationInspectionSensitiveKey key)
      (record_values (pruneOperationInspectionRecord opr))"
    using pruned_map_fields [OF shaped(1)] pruned_fields [OF shaped(2)] pruned_fields [OF shaped(3)]
      pruned_map_fields [OF shaped(4)]
    unfolding record_values_def details
    by (simp add: pruneOperationInspectionRecord_def Let_def) blast
qed

theorem responses_redacted_witness:
  "\<not> field_of (object_value (op_InputSummary (pruneOperationInspectionRecord example_secret_record))) ''db_password'' (AnyString ''hunter2'') \<and>
   \<not> field_of (AnyMap (se_Details (NewErrorEnvelope CodeInternalError ''m'' False ''c'' None
       [(''hint'', AnyMapList [[(''api_key'', AnyString ''k'')]])]))) ''api_key'' (AnyString ''k'')"
proof -
  have "operationInspectionSensitiveKey ''db_password''" "credentialLikeKey ''api_key''" by code_simp+
  moreover have "list_all json_shaped (record_values example_secret_record)"
    by (simp add: record_values_def example_secret_record_def object_value_def)
  ultimately show ?thesis
    using responses_redacted [of CodeInternalError "''m''" False "''c''" None
        "[(''hint'', AnyMapList [[(''api_key'', AnyString ''k'')]])]" example_secret_record]
    by (auto simp: record_values_def Redacted_def)
qed

end
