(* ===== verification/Authorization.thy ===== *)
theory Authorization
  imports Resources Audit_Events Api_Errors
begin

text \<open>
  Who may call what: the request context and the caller policy of \<open>internal/auth\<close>, the
  mapping of stored callers of \<open>internal/namespaceauth\<close>, the route table and the
  authorization gate of \<open>internal/api\<close>, and the inspection of operations
  (\<open>internal/operationinspect\<close>, \<open>internal/inspection\<close>, \<open>operation_handler.go\<close>).

  A request is its method, its decoded path and its headers; \<open>hr_Header\<close> is \<open>Header.Get\<close>.
  The nil requests that some functions guard against do not reach a handler of
  \<open>net/http\<close> and are left out. The resolver of principals and the readers of stored
  records are parameters; one request sees one state of the store.
\<close>

section \<open>Request context\<close>

datatype auth_error =
    ErrMissingAuthorization | ErrMissingCorrelationID | ErrMissingCallerService | ErrMissingIdempotencyKey
  | ErrMissingNamespaceID | ErrMissingActor | ErrMissingAuthenticatedPrincipal | ErrCallerServiceMismatch
  | ErrUnknownRouteClass

record http_request =
  hr_Method :: string
  hr_Path :: string
  hr_Header :: "string \<Rightarrow> string"

record AuthActor =
  aa_Type :: string
  aa_ID :: string

record RequestContext =
  rc_Authorization :: string
  rc_IdempotencyKey :: string
  rc_CorrelationID :: string
  rc_NamespaceID :: string
  rc_Actor :: AuthActor
  rc_CallerService :: string

definition empty_context :: RequestContext where
  "empty_context = \<lparr>rc_Authorization = [], rc_IdempotencyKey = [], rc_CorrelationID = [], rc_NamespaceID = [],
     rc_Actor = \<lparr>aa_Type = [], aa_ID = []\<rparr>, rc_CallerService = []\<rparr>"

record AuthenticatedPrincipal =
  ap_Subject :: string
  ap_CanonicalCallerService :: string

datatype RouteClass =
    RouteClassNamespaceBound | RouteClassVolumeGlobal | RouteClassOperationInspection | RouteClassOther string

record RouteValidation =
  rv_Class :: RouteClass
  rv_Mutating :: bool

definition RequiresRequestNamespace :: "RouteClass \<Rightarrow> bool" where
  "RequiresRequestNamespace c \<longleftrightarrow> c = RouteClassNamespaceBound"

definition HeaderAuthorization :: string where "HeaderAuthorization = ''Authorization''"
definition HeaderIdempotencyKey :: string where "HeaderIdempotencyKey = ''Idempotency-Key''"
definition HeaderCorrelationID :: string where "HeaderCorrelationID = ''X-Correlation-Id''"
definition HeaderNamespaceID :: string where "HeaderNamespaceID = ''X-AFSCP-Namespace-Id''"
definition HeaderActorType :: string where "HeaderActorType = ''X-AFSCP-Actor-Type''"
definition HeaderActorID :: string where "HeaderActorID = ''X-AFSCP-Actor-Id''"
definition HeaderCallerService :: string where "HeaderCallerService = ''X-AFSCP-Caller-Service''"

definition headerValue :: "http_request \<Rightarrow> string \<Rightarrow> string" where
  "headerValue r name = trim_space (hr_Header r name)"

definition ParseRequestContext :: "http_request \<Rightarrow> RequestContext" where
  "ParseRequestContext r =
     \<lparr>rc_Authorization = headerValue r HeaderAuthorization, rc_IdempotencyKey = headerValue r HeaderIdempotencyKey,
      rc_CorrelationID = headerValue r HeaderCorrelationID, rc_NamespaceID = headerValue r HeaderNamespaceID,
      rc_Actor = \<lparr>aa_Type = headerValue r HeaderActorType, aa_ID = headerValue r HeaderActorID\<rparr>,
      rc_CallerService = headerValue r HeaderCallerService\<rparr>"

definition BindAuthenticatedPrincipal ::
    "RequestContext \<Rightarrow> AuthenticatedPrincipal \<Rightarrow> RequestContext \<times> auth_error option" where
  "BindAuthenticatedPrincipal ctx prin =
     (let canonicalService = trim_space (ap_CanonicalCallerService prin);
          callerService = trim_space (rc_CallerService ctx) in
      if canonicalService = [] then (ctx, Some ErrMissingAuthenticatedPrincipal)
      else if callerService = [] then (ctx\<lparr>rc_CallerService := canonicalService\<rparr>, None)
      else if callerService \<noteq> canonicalService then (ctx, Some ErrCallerServiceMismatch)
      else (ctx\<lparr>rc_CallerService := canonicalService\<rparr>, None))"

text \<open>\<open>errors.Join\<close> of a list of errors: the list, empty for nil.\<close>

definition validateRequestContext :: "RequestContext \<Rightarrow> bool \<Rightarrow> auth_error list" where
  "validateRequestContext ctx mutating =
     (if trim_space (rc_Authorization ctx) = [] then [ErrMissingAuthorization] else []) @
     (if trim_space (rc_CorrelationID ctx) = [] then [ErrMissingCorrelationID] else []) @
     (if trim_space (rc_CallerService ctx) = [] then [ErrMissingCallerService] else []) @
     (if mutating then
        (if trim_space (rc_IdempotencyKey ctx) = [] then [ErrMissingIdempotencyKey] else []) @
        (if trim_space (aa_Type (rc_Actor ctx)) = [] \<or> trim_space (aa_ID (rc_Actor ctx)) = [] then [ErrMissingActor] else [])
      else [])"

definition ValidateRequestContextForRoute :: "RequestContext \<Rightarrow> RouteValidation \<Rightarrow> auth_error list" where
  "ValidateRequestContextForRoute ctx route =
     validateRequestContext ctx (rv_Mutating route) @
     (case rv_Class route of
        RouteClassNamespaceBound \<Rightarrow> (if trim_space (rc_NamespaceID ctx) = [] then [ErrMissingNamespaceID] else [])
      | RouteClassVolumeGlobal \<Rightarrow> []
      | RouteClassOperationInspection \<Rightarrow> []
      | RouteClassOther _ \<Rightarrow> [ErrUnknownRouteClass])"

definition ValidateAuthenticatedRequestForRoute ::
    "http_request \<Rightarrow> AuthenticatedPrincipal \<Rightarrow> RouteValidation \<Rightarrow> RequestContext \<times> auth_error list" where
  "ValidateAuthenticatedRequestForRoute r prin route =
     (case BindAuthenticatedPrincipal (ParseRequestContext r) prin of (bound, bindErr) \<Rightarrow>
        (bound, (case bindErr of None \<Rightarrow> [] | Some e \<Rightarrow> [e]) @ ValidateRequestContextForRoute bound route))"

text \<open>\<open>strings.ToUpper\<close> as far as a comparison with an ASCII text can see it: ASCII letters, and
  the two other runes whose upper case is ASCII (U+0131 and U+017F).\<close>

definition to_upper_rune :: "nat \<Rightarrow> nat" where
  "to_upper_rune r =
     (if 97 \<le> r \<and> r \<le> 122 then r - 32 else if r = 0x131 then 73 else if r = 0x17F then 83 else r)"

definition upper_is :: "string \<Rightarrow> string \<Rightarrow> bool" where
  "upper_is s ascii \<longleftrightarrow> map to_upper_rune (runes (bytes s)) = bytes ascii"

definition IsMutatingMethod :: "string \<Rightarrow> bool" where
  "IsMutatingMethod m \<longleftrightarrow> list_ex (upper_is (trim_space m)) [''POST'', ''PUT'', ''PATCH'', ''DELETE'']"

definition ValidateRequestContext :: "RequestContext \<Rightarrow> string \<Rightarrow> auth_error list" where
  "ValidateRequestContext ctx m = validateRequestContext ctx (IsMutatingMethod m)"

definition ValidateAuthenticatedRequest ::
    "http_request \<Rightarrow> AuthenticatedPrincipal \<Rightarrow> RequestContext \<times> auth_error list" where
  "ValidateAuthenticatedRequest r prin =
     (case BindAuthenticatedPrincipal (ParseRequestContext r) prin of (bound, bindErr) \<Rightarrow>
        (bound, (case bindErr of None \<Rightarrow> [] | Some e \<Rightarrow> [e]) @ ValidateRequestContext bound (hr_Method r)))"

section \<open>Callers and roles\<close>

datatype CallerKind =
    CallerKindProduct | CallerKindAdmin | CallerKindOperator | CallerKindMigration | CallerKindOrchestrator
  | CallerKindOther string

datatype Role =
    RoleVolumeAdmin | RoleNamespaceAdmin | RoleRepoAdmin | RoleRepoLifecycleAdmin | RoleRestoreAdmin | RoleTemplateAdmin
  | RoleExportAdmin | RoleMountAdmin | RoleOperationInspector | RoleOrchestratorMount | RoleMigrationAdmin
  | RoleOperatorAdmin | RoleBreakGlassAdmin | RoleOther string

definition CallerRoles :: "Role list" where
  "CallerRoles =
     [RoleVolumeAdmin, RoleNamespaceAdmin, RoleRepoAdmin, RoleRepoLifecycleAdmin, RoleRestoreAdmin, RoleTemplateAdmin,
      RoleExportAdmin, RoleMountAdmin, RoleOperationInspector, RoleOrchestratorMount, RoleMigrationAdmin, RoleOperatorAdmin,
      RoleBreakGlassAdmin]"

record AuthCaller =
  au_CallerService :: string
  au_Kind :: CallerKind
  au_Roles :: "Role list"

datatype CallerRoleDenialReason = CallerRoleAllowed | CallerServiceNotAllowed | CallerRoleNotAllowed

definition NamespaceMismatch :: "string \<Rightarrow> string \<Rightarrow> bool" where
  "NamespaceMismatch requestNamespaceID resourceNamespaceID =
     (let a = trim_space requestNamespaceID; b = trim_space resourceNamespaceID in
      if a = [] \<and> b = [] then False else a \<noteq> b)"

definition NamespaceBoundMismatch :: "string \<Rightarrow> string \<Rightarrow> bool" where
  "NamespaceBoundMismatch requestNamespaceID resourceNamespaceID =
     (let a = trim_space requestNamespaceID; b = trim_space resourceNamespaceID in
      if a = [] \<or> b = [] then True else a \<noteq> b)"

definition isProductControlPlaneRole :: "Role \<Rightarrow> bool" where
  "isProductControlPlaneRole role \<longleftrightarrow>
     role \<in> {RoleRepoAdmin, RoleRepoLifecycleAdmin, RoleRestoreAdmin, RoleTemplateAdmin, RoleExportAdmin, RoleMountAdmin,
       RoleOperationInspector, RoleNamespaceAdmin}"

definition isAdminOperatorRole :: "Role \<Rightarrow> bool" where
  "isAdminOperatorRole role \<longleftrightarrow> role \<in> {RoleVolumeAdmin, RoleOperatorAdmin, RoleBreakGlassAdmin}"

fun kindCanUseRole :: "CallerKind \<Rightarrow> Role \<Rightarrow> bool" where
  "kindCanUseRole CallerKindProduct role = isProductControlPlaneRole role"
| "kindCanUseRole CallerKindOrchestrator role = (role = RoleOrchestratorMount)"
| "kindCanUseRole CallerKindMigration role = (role = RoleMigrationAdmin)"
| "kindCanUseRole CallerKindAdmin role = (isProductControlPlaneRole role \<or> isAdminOperatorRole role)"
| "kindCanUseRole CallerKindOperator role = (isProductControlPlaneRole role \<or> isAdminOperatorRole role)"
| "kindCanUseRole (CallerKindOther _) role = False"

definition roleSatisfiesRequiredRole :: "CallerKind \<Rightarrow> Role \<Rightarrow> Role \<Rightarrow> bool" where
  "roleSatisfiesRequiredRole kind granted required =
     (if granted = required \<and> kindCanUseRole kind required then True
      else if required = RoleOperationInspector \<and> granted = RoleOperatorAdmin
        then kind = CallerKindAdmin \<or> kind = CallerKindOperator
      else False)"

definition hasRole :: "AuthCaller \<Rightarrow> Role \<Rightarrow> bool" where
  "hasRole c required \<longleftrightarrow> list_ex (\<lambda>role. roleSatisfiesRequiredRole (au_Kind c) role required) (au_Roles c)"

fun scan_allowed :: "string \<Rightarrow> Role \<Rightarrow> bool \<Rightarrow> AuthCaller list \<Rightarrow> CallerRoleDenialReason" where
  "scan_allowed service required callerFound [] =
     (if callerFound then CallerRoleNotAllowed else CallerServiceNotAllowed)"
| "scan_allowed service required callerFound (c # cs) =
     (if trim_space (au_CallerService c) \<noteq> service then scan_allowed service required callerFound cs
      else if hasRole c required then CallerRoleAllowed
      else scan_allowed service required True cs)"

definition CallerRoleDenialReasonFor :: "string \<Rightarrow> Role \<Rightarrow> AuthCaller list \<Rightarrow> CallerRoleDenialReason" where
  "CallerRoleDenialReasonFor callerService required callers =
     (let service = trim_space callerService in
      if service = [] then CallerServiceNotAllowed else scan_allowed service required False callers)"

definition CallerNotAllowed :: "string \<Rightarrow> Role \<Rightarrow> AuthCaller list \<Rightarrow> bool" where
  "CallerNotAllowed callerService required callers \<longleftrightarrow>
     CallerRoleDenialReasonFor callerService required callers \<noteq> CallerRoleAllowed"

section \<open>Callers stored in a namespace binding\<close>

fun mapProductRole :: "CallerRole \<Rightarrow> Role option" where
  "mapProductRole CallerRoleNamespaceAdmin = Some RoleNamespaceAdmin"
| "mapProductRole CallerRoleRepoAdmin = Some RoleRepoAdmin"
| "mapProductRole CallerRoleRepoLifecycleAdmin = Some RoleRepoLifecycleAdmin"
| "mapProductRole CallerRoleRestoreAdmin = Some RoleRestoreAdmin"
| "mapProductRole CallerRoleTemplateAdmin = Some RoleTemplateAdmin"
| "mapProductRole CallerRoleExportAdmin = Some RoleExportAdmin"
| "mapProductRole CallerRoleMountAdmin = Some RoleMountAdmin"
| "mapProductRole CallerRoleOperationInspector = Some RoleOperationInspector"
| "mapProductRole _ = None"

text \<open>\<open>MapAllowedCaller\<close>; the result false is None.\<close>

definition MapAllowedCaller :: "AllowedCaller \<Rightarrow> AuthCaller option" where
  "MapAllowedCaller caller =
     (let service = trim_space (ac_CallerService caller) in
      if service = [] then None
      else if ac_Roles caller = [] then None
      else if CallerRoleOther [] \<in> set (ac_Roles caller) \<or> \<not> distinct (ac_Roles caller) then None
      else if ac_Roles caller = [CallerRoleOrchestratorMount]
        then Some \<lparr>au_CallerService = service, au_Kind = CallerKindOrchestrator, au_Roles = [RoleOrchestratorMount]\<rparr>
      else if ac_Roles caller = [CallerRoleMigrationAdmin]
        then Some \<lparr>au_CallerService = service, au_Kind = CallerKindMigration, au_Roles = [RoleMigrationAdmin]\<rparr>
      else case those (map mapProductRole (ac_Roles caller)) of
        None \<Rightarrow> None
      | Some roles \<Rightarrow> Some \<lparr>au_CallerService = service, au_Kind = CallerKindProduct, au_Roles = roles\<rparr>)"

section \<open>Routes\<close>

record RouteMetadata =
  rm_Method :: string
  rm_Path :: string
  rm_OperationID :: string
  rm_Class :: RouteClass
  rm_Mutating :: bool
  rm_RequiredRole :: Role

definition route :: "string \<Rightarrow> string \<Rightarrow> string \<Rightarrow> RouteClass \<Rightarrow> bool \<Rightarrow> Role \<Rightarrow> RouteMetadata" where
  "route m path operationID c mutating role =
     \<lparr>rm_Method = m, rm_Path = path, rm_OperationID = operationID, rm_Class = c, rm_Mutating = mutating,
      rm_RequiredRole = role\<rparr>"

definition internalV1RouteMetadata :: "RouteMetadata list" where
  "internalV1RouteMetadata =
     [route ''POST'' ''/internal/v1/volumes/{volumeId}:ensure'' ''ensureVolume''
        RouteClassVolumeGlobal True RoleVolumeAdmin,
      route ''GET'' ''/internal/v1/volumes/{volumeId}/health'' ''getVolumeHealth''
        RouteClassVolumeGlobal False RoleVolumeAdmin,
      route ''PUT'' ''/internal/v1/namespaces/{namespaceId}'' ''upsertNamespace''
        RouteClassNamespaceBound True RoleNamespaceAdmin,
      route ''POST'' ''/internal/v1/namespaces/{namespaceId}:disable'' ''disableNamespace''
        RouteClassNamespaceBound True RoleNamespaceAdmin,
      route ''PUT'' ''/internal/v1/namespaces/{namespaceId}/volume-binding'' ''putNamespaceVolumeBinding''
        RouteClassNamespaceBound True RoleNamespaceAdmin,
      route ''GET'' ''/internal/v1/namespaces/{namespaceId}/volume-binding'' ''getNamespaceVolumeBinding''
        RouteClassNamespaceBound False RoleNamespaceAdmin,
      route ''POST'' ''/internal/v1/repos'' ''createRepo''
        RouteClassNamespaceBound True RoleRepoAdmin,
      route ''GET'' ''/internal/v1/repos'' ''listRepos''
        RouteClassNamespaceBound False RoleRepoAdmin,
      route ''GET'' ''/internal/v1/repos/{repoId}'' ''getRepo''
        RouteClassNamespaceBound False RoleRepoAdmin,
      route ''POST'' ''/internal/v1/repos/{repoId}:archive'' ''archiveRepo''
        RouteClassNamespaceBound True RoleRepoLifecycleAdmin,
      route ''POST'' ''/internal/v1/repos/{repoId}:restore-archived'' ''restoreArchivedRepo''
        RouteClassNamespaceBound True RoleRepoLifecycleAdmin,
      route ''POST'' ''/internal/v1/repos/{repoId}:delete'' ''deleteRepo''
        RouteClassNamespaceBound True RoleRepoLifecycleAdmin,
      route ''POST'' ''/internal/v1/repos/{repoId}:restore-tombstoned'' ''restoreTombstonedRepo''
        RouteClassNamespaceBound True RoleRepoLifecycleAdmin,
      route ''POST'' ''/internal/v1/repos/{repoId}:purge'' ''purgeRepo''
        RouteClassNamespaceBound True RoleRepoLifecycleAdmin,
      route ''POST'' ''/internal/v1/repos/{repoId}/save-points'' ''createSavePoint''
        RouteClassNamespaceBound True RoleRepoAdmin,
      route ''GET'' ''/internal/v1/repos/{repoId}/save-points'' ''listSavePoints''
        RouteClassNamespaceBound False RoleRepoAdmin,
      route ''POST'' ''/internal/v1/repos/{repoId}/restore'' ''restore''
        RouteClassNamespaceBound True RoleRestoreAdmin,
      route ''POST'' ''/internal/v1/repo-templates'' ''createRepoTemplate''
        RouteClassNamespaceBound True RoleTemplateAdmin,
      route ''POST'' ''/internal/v1/repo-templates/{templateId}:clone'' ''cloneRepoTemplate''
        RouteClassNamespaceBound True RoleTemplateAdmin,
      route ''POST'' ''/internal/v1/repos/{repoId}/exports'' ''createExport''
        RouteClassNamespaceBound True RoleExportAdmin,
      route ''GET'' ''/internal/v1/exports/{exportId}'' ''getExport''
        RouteClassNamespaceBound False RoleExportAdmin,
      route ''DELETE'' ''/internal/v1/exports/{exportId}'' ''revokeExport''
        RouteClassNamespaceBound True RoleExportAdmin,
      route ''POST'' ''/internal/v1/repos/{repoId}/workload-mount-bindings'' ''createWorkloadMountBinding''
        RouteClassNamespaceBound True RoleMountAdmin,
      route ''GET'' ''/internal/v1/workload-mount-bindings/{mountBindingId}'' ''getWorkloadMountBinding''
        RouteClassNamespaceBound False RoleMountAdmin,
      route ''PATCH'' ''/internal/v1/workload-mount-bindings/{mountBindingId}/status'' ''updateWorkloadMountBindingStatus''
        RouteClassNamespaceBound True RoleOrchestratorMount,
      route ''GET'' ''/internal/v1/workload-mount-bindings/{mountBindingId}/orchestrator-plan'' ''getOrchestratorMountPlan''
        RouteClassNamespaceBound False RoleOrchestratorMount,
      route ''POST'' ''/internal/v1/workload-mount-bindings/{mountBindingId}:heartbeat'' ''heartbeatWorkloadMountBinding''
        RouteClassNamespaceBound True RoleOrchestratorMount,
      route ''POST'' ''/internal/v1/workload-mount-bindings/{mountBindingId}:release'' ''releaseWorkloadMountBinding''
        RouteClassNamespaceBound True RoleOrchestratorMount,
      route ''POST'' ''/internal/v1/workload-mount-bindings/{mountBindingId}:revoke'' ''revokeWorkloadMountBinding''
        RouteClassNamespaceBound True RoleMountAdmin,
      route ''GET'' ''/internal/v1/operations/{operationId}'' ''getOperation''
        RouteClassOperationInspection False RoleOperationInspector,
      route ''POST'' ''/internal/v1/operations/{operationId}:repair'' ''repairOperation''
        RouteClassOperationInspection True RoleOperatorAdmin]"

definition RouteMetadataByOperationID :: "string \<Rightarrow> RouteMetadata option" where
  "RouteMetadataByOperationID operationID = find (\<lambda>m. rm_OperationID m = operationID) internalV1RouteMetadata"

definition trim_slashes :: "string \<Rightarrow> string" where
  "trim_slashes s = rev (dropWhile (\<lambda>c. c = CHR ''/'') (rev (dropWhile (\<lambda>c. c = CHR ''/'') s)))"

definition splitRoutePath :: "string \<Rightarrow> string list" where
  "splitRoutePath path = (let p = trim_slashes path in if p = [] then [] else split_char (CHR ''/'') p)"

definition has_suffix :: "string \<Rightarrow> string \<Rightarrow> bool" where
  "has_suffix s sfx \<longleftrightarrow> length sfx \<le> length s \<and> drop (length s - length sfx) s = sfx"

text \<open>The name of the parameter (empty for a literal segment) and its value. The index of the
  closing brace is at most 1 when there is none or the name is empty.\<close>

definition routeSegmentParam :: "string \<Rightarrow> string \<Rightarrow> (string \<times> string) option" where
  "routeSegmentParam pattern path =
     (if \<not> has_prefix pattern ''{'' then (if pattern = path then Some ([], []) else None)
      else
        let name = takeWhile (\<lambda>c. c \<noteq> CHR ''}'') (tl pattern);
            rest = dropWhile (\<lambda>c. c \<noteq> CHR ''}'') (tl pattern) in
        if rest = [] \<or> name = [] then None
        else
          let sfx = tl rest in
          if sfx \<noteq> [] \<and> \<not> has_suffix path sfx then None
          else
            let v = take (length path - length sfx) path in
            if v = [] then None else Some (name, v))"

fun match_segments :: "string list \<Rightarrow> string list \<Rightarrow> (string \<times> string) list \<Rightarrow> (string \<times> string) list option" where
  "match_segments (p # ps) (s # ss) params =
     (case routeSegmentParam p s of
        None \<Rightarrow> None
      | Some (name, v) \<Rightarrow>
        if name = [] then match_segments ps ss params
        else if map_of params name \<noteq> None then None
        else match_segments ps ss (params @ [(name, v)]))"
| "match_segments _ _ params = Some params"

definition RoutePathParams :: "string \<Rightarrow> string \<Rightarrow> (string \<times> string) list option" where
  "RoutePathParams pattern path =
     (if length (splitRoutePath pattern) \<noteq> length (splitRoutePath path) then None
      else match_segments (splitRoutePath pattern) (splitRoutePath path) [])"

definition route_matches :: "http_request \<Rightarrow> RouteMetadata \<Rightarrow> bool" where
  "route_matches r m \<longleftrightarrow>
     upper_is (trim_space (hr_Method r)) (rm_Method m) \<and> RoutePathParams (rm_Path m) (hr_Path r) \<noteq> None"

definition RouteMetadataForRequest :: "http_request \<Rightarrow> RouteMetadata option" where
  "RouteMetadataForRequest r = find (route_matches r) internalV1RouteMetadata"

section \<open>Policies\<close>

record AllowedCallerPolicyError =
  pe_Code :: ErrorCode
  pe_Status :: int
  pe_Retryable :: bool
  pe_Message :: string
  pe_Labels :: "string list"

text \<open>A policy returns callers or an error, which may be of another type.\<close>

type_synonym AllowedCallerPolicy = "http_request \<Rightarrow> AllowedCallerPolicyError option + AuthCaller list"

definition NewAllowedCallerPolicyError ::
    "ErrorCode \<Rightarrow> int \<Rightarrow> bool \<Rightarrow> string \<Rightarrow> string list \<Rightarrow> AllowedCallerPolicyError" where
  "NewAllowedCallerPolicyError code status retryable message labels =
     \<lparr>pe_Code = code, pe_Status = status, pe_Retryable = retryable, pe_Message = message, pe_Labels = labels\<rparr>"

definition routePolicyInternalError :: "string \<Rightarrow> AllowedCallerPolicyError" where
  "routePolicyInternalError reason =
     NewAllowedCallerPolicyError CodeInternalError 500 False ''internal server error'' [reason]"

definition StaticAllowedCallerPolicy :: "AuthCaller list \<Rightarrow> AllowedCallerPolicy" where
  "StaticAllowedCallerPolicy callers r = Inr callers"

definition deploymentPolicyOrStatic ::
    "AllowedCallerPolicy option \<Rightarrow> AuthCaller list option \<Rightarrow> AllowedCallerPolicy option" where
  "deploymentPolicyOrStatic policy callers =
     (case policy of Some p \<Rightarrow> Some p | None \<Rightarrow> map_option StaticAllowedCallerPolicy callers)"

text \<open>\<open>GetNamespaceVolumeBinding\<close>: a binding, no row, or another error of the store.\<close>

datatype read_error = ErrNoRows | ReadFailed string

type_synonym binding_reader = "string \<Rightarrow> read_error + NamespaceVolumeBinding"

definition namespaceIDForBindingPolicy ::
    "http_request \<Rightarrow> RouteMetadata option \<Rightarrow> AllowedCallerPolicyError + string" where
  "namespaceIDForBindingPolicy r metadata =
     (let headerNamespaceID = trim_space (hr_Header r HeaderNamespaceID);
          invalid = NewAllowedCallerPolicyError CodeInvalidID 400 False ''invalid namespace id'' [''invalid_namespace_id''];
          mismatch = NewAllowedCallerPolicyError CodeResourceNamespaceMismatch 400 False
            ''request namespace does not match route namespace'' [''namespace_mismatch''] in
      if headerNamespaceID \<noteq> [] \<and> ValidateID NamespaceID headerNamespaceID \<noteq> None then Inl invalid
      else case metadata of
        Some m \<Rightarrow>
          if str_contains (rm_Path m) ''{namespaceId}''
          then (case RoutePathParams (rm_Path m) (hr_Path r) of
              None \<Rightarrow> Inl mismatch
            | Some params \<Rightarrow>
              let pathNamespaceID = (case map_of params ''namespaceId'' of None \<Rightarrow> [] | Some v \<Rightarrow> v) in
              if ValidateID NamespaceID pathNamespaceID \<noteq> None then Inl invalid
              else if headerNamespaceID \<noteq> [] \<and> headerNamespaceID \<noteq> pathNamespaceID then Inl mismatch
              else Inr pathNamespaceID)
          else Inr headerNamespaceID
      | None \<Rightarrow> Inr headerNamespaceID)"

fun map_callers :: "AllowedCaller list \<Rightarrow> AuthCaller list option" where
  "map_callers [] = Some []"
| "map_callers (c # cs) =
     (case MapAllowedCaller c of None \<Rightarrow> None | Some c' \<Rightarrow> map_option ((#) c') (map_callers cs))"

definition NamespaceVolumeBindingAllowedCallerPolicy :: "binding_reader option \<Rightarrow> AllowedCallerPolicy" where
  "NamespaceVolumeBindingAllowedCallerPolicy reader r =
     (let metadata = RouteMetadataForRequest r;
          internal = (\<lambda>label. Inl (Some (NewAllowedCallerPolicyError CodeInternalError 500 False ''internal server error'' [label]))) in
      case namespaceIDForBindingPolicy r metadata of
        Inl err \<Rightarrow> Inl (Some err)
      | Inr namespaceID \<Rightarrow>
        (case reader of
           None \<Rightarrow> internal ''allowed_caller_policy_not_configured''
         | Some get \<Rightarrow>
           (case get namespaceID of
              Inl ErrNoRows \<Rightarrow> Inl (Some (NewAllowedCallerPolicyError CodeNamespaceNotFound 404 False
                ''namespace was not found'' [''namespace_not_found'']))
            | Inl (ReadFailed _) \<Rightarrow> Inl (Some (NewAllowedCallerPolicyError CodeStorageUnavailable 503 True
                ''durable metadata store is unavailable'' [''store_unavailable'']))
            | Inr binding \<Rightarrow>
              if trim_space (nvb_NamespaceID binding) \<noteq> namespaceID then internal ''binding_namespace_mismatch''
              else if NamespaceVolumeBinding_Validate binding \<noteq> None then internal ''stored_binding_invalid''
              else if nvb_Status binding = NamespaceStatusDisabled \<and>
                  (case metadata of None \<Rightarrow> False | Some m \<Rightarrow> rm_Class m = RouteClassNamespaceBound \<and> rm_Mutating m)
                then Inl (Some (NewAllowedCallerPolicyError CodeNamespaceDisabled 403 False ''namespace is disabled''
                  [''namespace_disabled'']))
              else case map_callers (nvb_AllowedCallers binding) of
                None \<Rightarrow> internal ''stored_caller_invalid''
              | Some callers \<Rightarrow> Inr callers)))"

record RouteAwareAllowedCallerPolicy =
  ra_DeploymentGlobal :: "AllowedCallerPolicy option"
  ra_DeploymentNamespace :: "AllowedCallerPolicy option"
  ra_NamespaceBinding :: "AllowedCallerPolicy option"

definition policyForRoute :: "RouteAwareAllowedCallerPolicy \<Rightarrow> RouteMetadata \<Rightarrow> AllowedCallerPolicy option \<times> string" where
  "policyForRoute policy m =
     (if rm_OperationID m \<in> {''ensureVolume'', ''getVolumeHealth''}
        then (ra_DeploymentGlobal policy, ''deployment_global_policy_not_configured'')
      else if rm_OperationID m \<in> {''upsertNamespace'', ''disableNamespace'', ''putNamespaceVolumeBinding''}
        then (ra_DeploymentNamespace policy, ''deployment_namespace_policy_not_configured'')
      else if rm_OperationID m = ''getOperation'' then (None, ''operation_inspection_policy_not_configured'')
      else if rm_Class m = RouteClassNamespaceBound
        then (ra_NamespaceBinding policy, ''namespace_binding_policy_not_configured'')
      else (None, ''allowed_caller_policy_not_configured''))"

definition RouteAware_AllowedCallers :: "RouteAwareAllowedCallerPolicy \<Rightarrow> AllowedCallerPolicy" where
  "RouteAware_AllowedCallers policy r =
     (case RouteMetadataForRequest r of
        None \<Rightarrow> Inl (Some (routePolicyInternalError ''route_not_recognized''))
      | Some m \<Rightarrow>
        (case policyForRoute policy m of
           (None, reason) \<Rightarrow> Inl (Some (routePolicyInternalError reason))
         | (Some selected, _) \<Rightarrow> selected r))"

definition OperationInspectionPreflightPolicy :: "AllowedCallerPolicy option \<Rightarrow> AllowedCallerPolicy" where
  "OperationInspectionPreflightPolicy deploymentGlobal r =
     (let callerService = trim_space (hr_Header r HeaderCallerService);
          own = (if callerService = [] then []
                 else [\<lparr>au_CallerService = callerService, au_Kind = CallerKindProduct, au_Roles = [RoleOperationInspector]\<rparr>]) in
      case (case deploymentGlobal of None \<Rightarrow> Inr [] | Some p \<Rightarrow> p r) of
        Inl err \<Rightarrow> Inl err
      | Inr global \<Rightarrow>
        if global @ own = [] then Inl (Some (routePolicyInternalError ''operation_inspection_policy_not_configured''))
        else Inr (global @ own))"

section \<open>Roles that callers hold\<close>

lemma scan_allowed_iff:
  "scan_allowed service required found cs = CallerRoleAllowed \<longleftrightarrow>
     (\<exists>c \<in> set cs. trim_space (au_CallerService c) = service \<and> hasRole c required)"
  by (induction cs arbitrary: found) auto

lemma caller_allowed_iff:
  "CallerRoleDenialReasonFor s required cs = CallerRoleAllowed \<longleftrightarrow>
     trim_space s \<noteq> [] \<and> (\<exists>c \<in> set cs. trim_space (au_CallerService c) = trim_space s \<and> hasRole c required)"
  by (simp add: CallerRoleDenialReasonFor_def Let_def scan_allowed_iff)

lemma caller_known_iff:
  "scan_allowed service required found cs = CallerRoleNotAllowed \<longleftrightarrow>
     (found \<or> (\<exists>c \<in> set cs. trim_space (au_CallerService c) = service)) \<and>
     (\<forall>c \<in> set cs. trim_space (au_CallerService c) = service \<longrightarrow> \<not> hasRole c required)"
  by (induction cs arbitrary: found) auto

text \<open>The role of the policy that a role stored in a binding stands for.\<close>

fun binding_role :: "CallerRole \<Rightarrow> Role option" where
  "binding_role CallerRoleOrchestratorMount = Some RoleOrchestratorMount"
| "binding_role CallerRoleMigrationAdmin = Some RoleMigrationAdmin"
| "binding_role role = mapProductRole role"

lemma product_role_kind: "mapProductRole r = Some role \<Longrightarrow> isProductControlPlaneRole role"
  by (cases r) (auto simp: isProductControlPlaneRole_def)

lemma product_role_total:
  "r \<in> set namespaceBindingCallerRoles \<Longrightarrow> r \<noteq> CallerRoleOrchestratorMount \<Longrightarrow> r \<noteq> CallerRoleMigrationAdmin \<Longrightarrow>
     \<exists>role. mapProductRole r = Some role \<and> binding_role r = Some role"
  by (auto simp: namespaceBindingCallerRoles_def)

lemma those_product_roles:
  "\<forall>r \<in> set rs. \<exists>role. mapProductRole r = Some role \<and> binding_role r = Some role \<Longrightarrow>
     \<exists>roles. those (map mapProductRole rs) = Some roles \<and>
       (\<forall>role. role \<in> set roles \<longleftrightarrow> (\<exists>r \<in> set rs. binding_role r = Some role)) \<and> (\<forall>role \<in> set roles. isProductControlPlaneRole role)"
  by (induction rs) (auto dest: product_role_kind)

lemma product_has_role:
  "\<forall>role \<in> set roles. isProductControlPlaneRole role \<Longrightarrow>
     hasRole \<lparr>au_CallerService = s, au_Kind = CallerKindProduct, au_Roles = roles\<rparr> role \<longleftrightarrow> role \<in> set roles"
  by (auto simp: hasRole_def list_ex_iff roleSatisfiesRequiredRole_def isProductControlPlaneRole_def)

lemma MapAllowedCaller_valid:
  assumes "AllowedCaller_Validate c = None"
  shows "\<exists>a. MapAllowedCaller c = Some a \<and> au_CallerService a = trim_space (ac_CallerService c) \<and>
    (\<forall>role. hasRole a role \<longleftrightarrow> (\<exists>r \<in> set (ac_Roles c). binding_role r = Some role))"
proof -
  note v = assms [unfolded AllowedCaller_Validate_None]
  have other: "CallerRoleOther [] \<notin> set (ac_Roles c)"
    using v by (auto simp: namespaceBindingCallerRoles_def)
  show ?thesis
  proof (cases "CallerRoleOrchestratorMount \<in> set (ac_Roles c) \<or> CallerRoleMigrationAdmin \<in> set (ac_Roles c)")
    case True
    with v obtain r where r: "ac_Roles c = [r]" "r = CallerRoleOrchestratorMount \<or> r = CallerRoleMigrationAdmin"
      by (auto simp: length_Suc_conv)
    with v show ?thesis
      by (auto simp: MapAllowedCaller_def Let_def hasRole_def roleSatisfiesRequiredRole_def)
  next
    case False
    have "\<forall>r \<in> set (ac_Roles c). \<exists>role. mapProductRole r = Some role \<and> binding_role r = Some role"
      using v False product_role_total by (metis subsetD)
    then obtain roles where roles: "those (map mapProductRole (ac_Roles c)) = Some roles"
        "\<forall>role. role \<in> set roles \<longleftrightarrow> (\<exists>r \<in> set (ac_Roles c). binding_role r = Some role)"
        "\<forall>role \<in> set roles. isProductControlPlaneRole role"
      using those_product_roles by blast
    then show ?thesis using v False other
      by (auto simp: MapAllowedCaller_def Let_def product_has_role)
  qed
qed

lemma map_callers_valid:
  "\<forall>c \<in> set cs. AllowedCaller_Validate c = None \<Longrightarrow>
     \<exists>callers. map_callers cs = Some callers \<and>
       list_all2 (\<lambda>c a. MapAllowedCaller c = Some a) cs callers"
proof (induction cs)
  case (Cons c cs)
  then obtain a callers where "MapAllowedCaller c = Some a" "map_callers cs = Some callers"
      "list_all2 (\<lambda>c a. MapAllowedCaller c = Some a) cs callers"
    using MapAllowedCaller_valid by force
  then show ?case by simp
qed simp

lemma mapped_callers_hold:
  assumes "list_all2 (\<lambda>c a. MapAllowedCaller c = Some a) cs callers" "\<forall>c \<in> set cs. AllowedCaller_Validate c = None"
  shows "(\<exists>a \<in> set callers. trim_space (au_CallerService a) = s \<and> hasRole a role) \<longleftrightarrow>
    (\<exists>c \<in> set cs. trim_space (ac_CallerService c) = s \<and> (\<exists>stored \<in> set (ac_Roles c). binding_role stored = Some role))"
  using assms
proof (induction rule: list_all2_induct)
  case (Cons c cs a callers)
  moreover have "trim_space (au_CallerService a) = trim_space (ac_CallerService c)"
      "hasRole a role \<longleftrightarrow> (\<exists>stored \<in> set (ac_Roles c). binding_role stored = Some role)"
    using MapAllowedCaller_valid [of c] Cons by (auto simp: trim_space_idem)
  ultimately show ?case by simp
qed simp

lemma valid_binding_callers:
  "NamespaceVolumeBinding_Validate b = None \<Longrightarrow> \<forall>c \<in> set (nvb_AllowedCallers b). AllowedCaller_Validate c = None"
  by (simp add: NamespaceVolumeBinding_Validate_def scan_callers_None)

lemma granted_roles_bounded:
  "binding_role r = Some role \<Longrightarrow> role \<noteq> RoleVolumeAdmin \<and> role \<noteq> RoleOperatorAdmin \<and> role \<noteq> RoleBreakGlassAdmin"
  by (cases r) auto

section \<open>Routes that a request matches\<close>

definition literal_segment :: "string \<Rightarrow> bool" where
  "literal_segment p \<longleftrightarrow> \<not> has_prefix p ''{''"

definition segment_tail :: "string \<Rightarrow> string" where
  "segment_tail p = (if literal_segment p then p else tl (dropWhile (\<lambda>c. c \<noteq> CHR ''}'') (tl p)))"

text \<open>Whether one path segment can match both.\<close>

definition compatible_segments :: "string \<Rightarrow> string \<Rightarrow> bool" where
  "compatible_segments p q \<longleftrightarrow>
     (if literal_segment p then (if literal_segment q then p = q else has_suffix p (segment_tail q))
      else if literal_segment q then has_suffix q (segment_tail p)
      else has_suffix (segment_tail p) (segment_tail q) \<or> has_suffix (segment_tail q) (segment_tail p))"

definition compatible_routes :: "RouteMetadata \<Rightarrow> RouteMetadata \<Rightarrow> bool" where
  "compatible_routes m n \<longleftrightarrow>
     rm_Method m = rm_Method n \<and> list_all2 compatible_segments (splitRoutePath (rm_Path m)) (splitRoutePath (rm_Path n))"

lemma has_suffix_iff: "has_suffix s sfx \<longleftrightarrow> (\<exists>front. s = front @ sfx)"
proof
  assume "has_suffix s sfx"
  then have "s = take (length s - length sfx) s @ sfx" unfolding has_suffix_def by (metis append_take_drop_id)
  then show "\<exists>front. s = front @ sfx" ..
qed (auto simp: has_suffix_def)

lemma has_suffix_Nil [simp]: "has_suffix s []"
  by (simp add: has_suffix_def)

lemma matched_tail:
  assumes "routeSegmentParam p s \<noteq> None"
  shows "if literal_segment p then s = p else has_suffix s (segment_tail p)"
  using assms by (auto simp: routeSegmentParam_def literal_segment_def segment_tail_def Let_def split: if_splits)

lemma matched_compatible:
  assumes "routeSegmentParam p s \<noteq> None" "routeSegmentParam q s \<noteq> None"
  shows "compatible_segments p q"
  using matched_tail [OF assms(1)] matched_tail [OF assms(2)]
  by (auto simp: compatible_segments_def has_suffix_iff append_eq_append_conv2 split: if_splits) metis+

lemma match_segments_all:
  "length ps = length ss \<Longrightarrow> match_segments ps ss params \<noteq> None \<Longrightarrow>
     list_all2 (\<lambda>p s. routeSegmentParam p s \<noteq> None) ps ss"
proof (induction ps ss arbitrary: params rule: list_induct2)
  case (Cons p ps s ss)
  then show ?case by (auto split: option.splits prod.splits if_splits)
qed simp

lemma upper_is_unique: "upper_is s a \<Longrightarrow> upper_is s b \<Longrightarrow> a = b"
  unfolding upper_is_def bytes_def by (metis byte_eq_iff inj_map_eq_map inj_def)

lemma matching_routes_compatible:
  assumes "route_matches r m" "route_matches r n"
  shows "compatible_routes m n"
proof -
  have all: "list_all2 (\<lambda>p s. routeSegmentParam p s \<noteq> None) (splitRoutePath (rm_Path k)) (splitRoutePath (hr_Path r))"
    if "route_matches r k" for k
    using that by (intro match_segments_all) (auto simp: route_matches_def RoutePathParams_def split: if_splits)
  have "list_all2 compatible_segments (splitRoutePath (rm_Path m)) (splitRoutePath (rm_Path n))"
    using all [OF assms(1)] all [OF assms(2)] by (simp add: list_all2_conv_all_nth del: not_None_eq) (metis matched_compatible)
  then show ?thesis using assms upper_is_unique by (auto simp: compatible_routes_def route_matches_def)
qed

text \<open>The table has no two compatible routes.\<close>

fun pairwise_apart :: "RouteMetadata list \<Rightarrow> bool" where
  "pairwise_apart [] = True"
| "pairwise_apart (m # ms) = (list_all (\<lambda>n. \<not> compatible_routes m n) ms \<and> pairwise_apart ms)"

lemma pairwise_apart_unique:
  "pairwise_apart ms \<Longrightarrow> m \<in> set ms \<Longrightarrow> n \<in> set ms \<Longrightarrow> compatible_routes m n \<Longrightarrow> compatible_routes n m \<Longrightarrow> m = n"
  by (induction ms) (auto simp: list_all_iff)

lemma routes_apart: "pairwise_apart internalV1RouteMetadata"
  by code_simp

lemma route_for_request_iff:
  "RouteMetadataForRequest r = Some m \<longleftrightarrow> m \<in> set internalV1RouteMetadata \<and> route_matches r m"
proof
  assume "RouteMetadataForRequest r = Some m"
  then show "m \<in> set internalV1RouteMetadata \<and> route_matches r m"
    unfolding RouteMetadataForRequest_def by (metis find_Some_iff nth_mem)
next
  assume m: "m \<in> set internalV1RouteMetadata \<and> route_matches r m"
  then obtain n where n: "RouteMetadataForRequest r = Some n" "n \<in> set internalV1RouteMetadata" "route_matches r n"
    unfolding RouteMetadataForRequest_def by (metis find_None_iff find_Some_iff nth_mem not_None_eq)
  then have "n = m"
    using m pairwise_apart_unique [OF routes_apart] matching_routes_compatible by metis
  with n(1) show "RouteMetadataForRequest r = Some m" by simp
qed

section \<open>Properties\<close>


text \<open>What a namespace binding grants: when the binding policy answers with callers, they come from
  the valid binding stored for the namespace of the request, which is that of the header
  where one is given; a service holds a role exactly when the binding stores that role for
  it, and never one of the roles of a deployment (volume admin, operator admin, break
  glass).\<close>

lemma binding_policy_callers:
  assumes "NamespaceVolumeBindingAllowedCallerPolicy (Some get) r = Inr callers"
  shows "\<exists>ns b. namespaceIDForBindingPolicy r (RouteMetadataForRequest r) = Inr ns \<and> get ns = Inr b \<and>
    trim_space (nvb_NamespaceID b) = ns \<and> NamespaceVolumeBinding_Validate b = None \<and>
    (\<forall>m. RouteMetadataForRequest r = Some m \<and> rm_Class m = RouteClassNamespaceBound \<and> rm_Mutating m \<longrightarrow>
      nvb_Status b \<noteq> NamespaceStatusDisabled) \<and>
    (headerValue r HeaderNamespaceID = [] \<or> headerValue r HeaderNamespaceID = ns) \<and>
    (\<forall>s role. CallerRoleDenialReasonFor s role callers = CallerRoleAllowed \<longleftrightarrow>
      trim_space s \<noteq> [] \<and> (\<exists>c \<in> set (nvb_AllowedCallers b). trim_space (ac_CallerService c) = trim_space s \<and>
        (\<exists>stored \<in> set (ac_Roles c). binding_role stored = Some role))) \<and>
    (\<forall>s role. role \<in> {RoleVolumeAdmin, RoleOperatorAdmin, RoleBreakGlassAdmin} \<longrightarrow>
      CallerRoleDenialReasonFor s role callers \<noteq> CallerRoleAllowed)"
proof -
  obtain ns b where b: "namespaceIDForBindingPolicy r (RouteMetadataForRequest r) = Inr ns" "get ns = Inr b"
      "trim_space (nvb_NamespaceID b) = ns" "NamespaceVolumeBinding_Validate b = None"
      "map_callers (nvb_AllowedCallers b) = Some callers"
      "\<forall>m. RouteMetadataForRequest r = Some m \<and> rm_Class m = RouteClassNamespaceBound \<and> rm_Mutating m \<longrightarrow>
        nvb_Status b \<noteq> NamespaceStatusDisabled"
    using assms by (auto simp: NamespaceVolumeBindingAllowedCallerPolicy_def Let_def
        split: sum.splits read_error.splits if_splits option.splits)
  have hdr: "headerValue r HeaderNamespaceID = [] \<or> headerValue r HeaderNamespaceID = ns"
    using b(1) by (auto simp: namespaceIDForBindingPolicy_def headerValue_def Let_def split: if_splits option.splits)
  note valid = valid_binding_callers [OF b(4)]
  have all: "list_all2 (\<lambda>c a. MapAllowedCaller c = Some a) (nvb_AllowedCallers b) callers"
    using map_callers_valid [OF valid] b(5) by auto
  have granted: "CallerRoleDenialReasonFor s role callers = CallerRoleAllowed \<longleftrightarrow>
      trim_space s \<noteq> [] \<and> (\<exists>c \<in> set (nvb_AllowedCallers b). trim_space (ac_CallerService c) = trim_space s \<and>
        (\<exists>stored \<in> set (ac_Roles c). binding_role stored = Some role))" for s role
    unfolding caller_allowed_iff using mapped_callers_hold [OF all valid] by simp
  then show ?thesis using b hdr granted_roles_bounded by blast
qed

definition example_http_request :: http_request where
  "example_http_request =
     \<lparr>hr_Method = ''GET'', hr_Path = ''/internal/v1/repos/repo_r1'',
      hr_Header = (\<lambda>name. if name = HeaderNamespaceID then ''ns_aa'' else if name = HeaderAuthorization then ''Bearer t''
        else if name = HeaderCorrelationID then ''c1'' else [])\<rparr>"

definition example_bindings :: binding_reader where
  "example_bindings ns = (if ns = ''ns_aa'' then Inr example_binding else Inl ErrNoRows)"

definition example_route :: RouteMetadata where
  "example_route = route ''GET'' ''/internal/v1/repos/{repoId}'' ''getRepo'' RouteClassNamespaceBound False RoleRepoAdmin"

lemma example_request_route: "RouteMetadataForRequest example_http_request = Some example_route"
proof -
  have "example_route \<in> set internalV1RouteMetadata \<and> route_matches example_http_request example_route"
    by code_simp
  then show ?thesis by (simp add: route_for_request_iff)
qed

lemma example_request_callers:
  "NamespaceVolumeBindingAllowedCallerPolicy (Some example_bindings) example_http_request =
     Inr [\<lparr>au_CallerService = ''svc-a'', au_Kind = CallerKindProduct, au_Roles = [RoleRepoAdmin, RoleRepoLifecycleAdmin]\<rparr>]"
proof -
  have trims: "trim_space ''ns_aa'' = ''ns_aa''" "trim_space ''svc-a'' = ''svc-a''"
    by (simp_all add: trim_space_id is_space_byte_def byte_def)
  have path: "\<not> str_contains (rm_Path example_route) ''{namespaceId}''" by code_simp
  have "hr_Header example_http_request HeaderNamespaceID = ''ns_aa''" by (simp add: example_http_request_def)
  then have ns: "namespaceIDForBindingPolicy example_http_request (Some example_route) = Inr ''ns_aa''"
    using path by (simp add: namespaceIDForBindingPolicy_def trims example_resource_ids)
  have binding: "nvb_NamespaceID example_binding = ''ns_aa''" "nvb_Status example_binding = NamespaceStatusActive"
      "map_callers (nvb_AllowedCallers example_binding) =
        Some [\<lparr>au_CallerService = ''svc-a'', au_Kind = CallerKindProduct, au_Roles = [RoleRepoAdmin, RoleRepoLifecycleAdmin]\<rparr>]"
    by (simp_all add: example_binding_def example_caller_admin_def MapAllowedCaller_def trims)
  show ?thesis
    by (simp add: NamespaceVolumeBindingAllowedCallerPolicy_def example_request_route ns example_bindings_def
        example_binding_valid binding trims)
qed

end
