(* ===== verification/Auth_Gate.thy ===== *)
theory Auth_Gate
  imports Authorization
begin

text \<open>
  The authorization gate in front of every handler (\<open>internal/api/auth_gate.go\<close>), the audit
  events of denied requests (\<open>internal/api/audit.go\<close>), the dispatch of routes
  (\<open>internal/api/shell.go\<close>) and the inspection of operations behind the gate
  (\<open>internal/operationinspect/inspection.go\<close>, \<open>internal/api/operation_inspection_authorizer.go\<close>,
  \<open>internal/inspection\<close>, \<open>internal/api/operation_handler.go\<close>).
\<close>

section \<open>Denied requests\<close>

definition no_route :: RouteMetadata where
  "no_route = route [] [] [] (RouteClassOther []) False (RoleOther [])"

record deniedAuditEvent =
  da_Type :: EventType
  da_Route :: RouteMetadata
  da_Status :: int
  da_Code :: ErrorCode
  da_Reason :: string
  da_ValidationErrors :: "string list"
  da_RequestContext :: RequestContext
  da_Details :: go_object

definition CorrelationIDFromRequest :: "http_request \<Rightarrow> string" where
  "CorrelationIDFromRequest r =
     (let correlationID = trim_space (hr_Header r HeaderCorrelationID) in
      if correlationID = [] then ''missing'' else correlationID)"

definition mergeRequestContext :: "RequestContext \<Rightarrow> RequestContext \<Rightarrow> RequestContext" where
  "mergeRequestContext parsed override =
     (let pick = (\<lambda>new old. if new \<noteq> [] then new else old) in
      \<lparr>rc_Authorization = pick (rc_Authorization override) (rc_Authorization parsed),
       rc_IdempotencyKey = pick (rc_IdempotencyKey override) (rc_IdempotencyKey parsed),
       rc_CorrelationID = pick (rc_CorrelationID override) (rc_CorrelationID parsed),
       rc_NamespaceID = pick (rc_NamespaceID override) (rc_NamespaceID parsed),
       rc_Actor = \<lparr>aa_Type = pick (aa_Type (rc_Actor override)) (aa_Type (rc_Actor parsed)),
         aa_ID = pick (aa_ID (rc_Actor override)) (aa_ID (rc_Actor parsed))\<rparr>,
       rc_CallerService = pick (rc_CallerService override) (rc_CallerService parsed)\<rparr>)"

text \<open>The strings of the enumerations that the details show.\<close>

fun RouteClass_String :: "RouteClass \<Rightarrow> string" where
  "RouteClass_String RouteClassNamespaceBound = ''namespace_bound''"
| "RouteClass_String RouteClassVolumeGlobal = ''volume_global''"
| "RouteClass_String RouteClassOperationInspection = ''operation_inspection''"
| "RouteClass_String (RouteClassOther s) = s"

fun Role_String :: "Role \<Rightarrow> string" where
  "Role_String RoleVolumeAdmin = ''volume_admin''"
| "Role_String RoleNamespaceAdmin = ''namespace_admin''"
| "Role_String RoleRepoAdmin = ''repo_admin''"
| "Role_String RoleRepoLifecycleAdmin = ''repo_lifecycle_admin''"
| "Role_String RoleRestoreAdmin = ''restore_admin''"
| "Role_String RoleTemplateAdmin = ''template_admin''"
| "Role_String RoleExportAdmin = ''export_admin''"
| "Role_String RoleMountAdmin = ''mount_admin''"
| "Role_String RoleOperationInspector = ''operation_inspector''"
| "Role_String RoleOrchestratorMount = ''orchestrator_mount''"
| "Role_String RoleMigrationAdmin = ''migration_admin''"
| "Role_String RoleOperatorAdmin = ''operator_admin''"
| "Role_String RoleBreakGlassAdmin = ''break_glass_admin''"
| "Role_String (RoleOther s) = s"

definition deniedAuditDetails :: "http_request \<Rightarrow> deniedAuditEvent \<Rightarrow> go_object" where
  "deniedAuditDetails r event =
     (let text = (\<lambda>key v m. if v = [] then m else put_key m key (AnyString v));
          m = da_Route event;
          base = [(''method'', AnyString (hr_Method r)), (''path'', AnyString (hr_Path r)),
            (''route'', AnyString ''unmatched''), (''status'', AnyInt (da_Status event))];
          named = text ''error_code'' (ErrorCode_String (da_Code event))
            (text ''required_role'' (Role_String (rm_RequiredRole m))
            (text ''route_class'' (RouteClass_String (rm_Class m))
            (text ''route_operation_id'' (rm_OperationID m)
            (text ''route'' (rm_Path m) base))));
          listed = (if da_ValidationErrors event = [] then named
            else put_key named ''validation_errors'' (AnyStringList (da_ValidationErrors event)))
      in fold (\<lambda>kv m. put_key m (fst kv) (snd kv)) (da_Details event) listed)"

text \<open>The event that goes to the sink; its id and time come from a counter and the clock.\<close>

definition emitDeniedAuditEvent :: "string \<Rightarrow> go_time \<Rightarrow> http_request \<Rightarrow> deniedAuditEvent \<Rightarrow> AuditEvent" where
  "emitDeniedAuditEvent eventID now r event =
     (let requestContext = mergeRequestContext (ParseRequestContext r) (da_RequestContext event);
          routeID = trim_space (rm_Path (da_Route event)) in
      NewEvent
        \<lparr>ev_EventID = eventID, ev_Type = da_Type event, ev_Time = now,
         ev_CallerService = rc_CallerService requestContext,
         ev_AuthorizedActor = \<lparr>actor_Type = aa_Type (rc_Actor requestContext), actor_ID = aa_ID (rc_Actor requestContext)\<rparr>,
         ev_CorrelationID = CorrelationIDFromRequest r, ev_OperationID = [],
         ev_Resource = \<lparr>ares_Type = ''route'', ares_ID = (if routeID = [] then ''unmatched'' else routeID),
           ares_NamespaceID = rc_NamespaceID requestContext, ares_Path = hr_Path r\<rparr>,
         ev_Outcome = OutcomeDenied, ev_Reason = da_Reason event,
         ev_Details = Some (deniedAuditDetails r event)\<rparr>)"

section \<open>The gate\<close>

text \<open>What a handler does with a request: it hands the request with its bound context to the next
  handler, or it writes an error and emits the denial.\<close>

datatype gate_result =
    GateServe RequestContext
  | GateRefuse int StandardError "deniedAuditEvent option"

definition writePolicyDeniedErrorWithAudit ::
    "http_request \<Rightarrow> RouteMetadata \<Rightarrow> RequestContext \<Rightarrow> ErrorCode \<Rightarrow> int \<Rightarrow> bool \<Rightarrow> string \<Rightarrow> string list \<Rightarrow> gate_result" where
  "writePolicyDeniedErrorWithAudit r m requestContext code status retryable message labels =
     GateRefuse status
       (NewErrorEnvelope code message retryable (CorrelationIDFromRequest r)
         (if rm_OperationID m = [] then None else Some (rm_OperationID m))
         (if labels = [] then [] else [(''validation_errors'', AnyStringList labels)]))
       (Some \<lparr>da_Type = EventTypeAuthzDenied, da_Route = m, da_Status = status, da_Code = code, da_Reason = message,
         da_ValidationErrors = labels, da_RequestContext = requestContext, da_Details = []\<rparr>)"

definition writeValidationErrorWithAudit ::
    "http_request \<Rightarrow> RouteMetadata \<Rightarrow> RequestContext \<Rightarrow> ErrorCode \<Rightarrow> int \<Rightarrow> string \<Rightarrow> string list \<Rightarrow> gate_result" where
  "writeValidationErrorWithAudit r m requestContext code status message labels =
     writePolicyDeniedErrorWithAudit r m requestContext code status False message labels"

definition PathDenied :: "http_request \<Rightarrow> StandardError" where
  "PathDenied r = NewErrorEnvelope CodePathDenied ''route is not available'' False (CorrelationIDFromRequest r) None
     [(''route'', AnyString ''unmatched'')]"

definition authenticationFailed :: "auth_error list \<Rightarrow> bool" where
  "authenticationFailed errs \<longleftrightarrow>
     ErrMissingAuthorization \<in> set errs \<or> ErrMissingAuthenticatedPrincipal \<in> set errs \<or> ErrCallerServiceMismatch \<in> set errs"

definition validationErrorLabels :: "auth_error list \<Rightarrow> string list" where
  "validationErrorLabels errs =
     (let labels = map snd (filter (\<lambda>(e, _). e \<in> set errs)
       [(ErrMissingAuthorization, ''missing_authorization''), (ErrMissingCorrelationID, ''missing_correlation_id''),
        (ErrMissingCallerService, ''missing_caller_service''), (ErrMissingIdempotencyKey, ''missing_idempotency_key''),
        (ErrMissingNamespaceID, ''missing_namespace_id''), (ErrMissingActor, ''missing_actor''),
        (ErrMissingAuthenticatedPrincipal, ''missing_authenticated_principal''),
        (ErrCallerServiceMismatch, ''caller_service_mismatch''), (ErrUnknownRouteClass, ''unknown_route_class'')])
      in if labels = [] \<and> errs \<noteq> [] then [''validation_failed''] else labels)"

definition authGateValidationError :: "auth_error list \<Rightarrow> ErrorCode \<times> int \<times> string \<times> string list" where
  "authGateValidationError errs =
     (let labels = validationErrorLabels errs in
      if authenticationFailed errs
        then (CodeAuthenticationFailed, 401, ''authenticated request validation failed'', labels)
      else if ErrMissingNamespaceID \<in> set errs
        then (CodeResourceNamespaceMismatch, 400, ''namespace header is required for namespace-bound route'', labels)
      else (CodeAuthenticationFailed, 400, ''authenticated request validation failed'', labels))"

text \<open>None: the role is not denied.\<close>

definition requiredRoleDenied ::
    "http_request \<Rightarrow> RequestContext \<Rightarrow> RouteMetadata \<Rightarrow> AllowedCallerPolicy option \<Rightarrow> AllowedCallerPolicyError option" where
  "requiredRoleDenied r requestContext m policy =
     (let callerDenied = (\<lambda>label. Some (NewAllowedCallerPolicyError CodeCallerNotAllowed 403 False
            ''caller service is not allowed for route'' [label])) in
      if rm_RequiredRole m = RoleOther [] then None
      else case policy of
        None \<Rightarrow> callerDenied ''allowed_caller_policy_missing''
      | Some p \<Rightarrow>
        (case p r of
           Inl (Some err) \<Rightarrow> Some err
         | Inl None \<Rightarrow> Some (NewAllowedCallerPolicyError CodeInternalError 500 False ''internal server error''
             [''allowed_caller_policy_failed''])
         | Inr callers \<Rightarrow>
           (case CallerRoleDenialReasonFor (rc_CallerService requestContext) (rm_RequiredRole m) callers of
              CallerRoleAllowed \<Rightarrow> None
            | CallerServiceNotAllowed \<Rightarrow> callerDenied ''caller_not_allowed''
            | CallerRoleNotAllowed \<Rightarrow> Some (NewAllowedCallerPolicyError CodeRoleNotAllowed 403 False
                ''caller role is not allowed for route'' [''required_role_not_allowed'']))))"

type_synonym principal_resolver = "http_request \<Rightarrow> AuthenticatedPrincipal option"
type_synonym route_resolver = "http_request \<Rightarrow> RouteMetadata option"

definition AuthGate ::
    "principal_resolver option \<Rightarrow> route_resolver option \<Rightarrow> AllowedCallerPolicy option \<Rightarrow> http_request \<Rightarrow> gate_result" where
  "AuthGate principalResolver routeResolver callerPolicy r =
     (case (case routeResolver of None \<Rightarrow> None | Some resolve \<Rightarrow> resolve r) of
        None \<Rightarrow> GateRefuse 404 (PathDenied r)
          (Some \<lparr>da_Type = EventTypePathDenied, da_Route = no_route, da_Status = 404, da_Code = CodePathDenied,
            da_Reason = ''path denied'', da_ValidationErrors = [], da_RequestContext = empty_context, da_Details = []\<rparr>)
      | Some m \<Rightarrow>
        (case (case principalResolver of None \<Rightarrow> None | Some resolve \<Rightarrow> resolve r) of
           None \<Rightarrow> writeValidationErrorWithAudit r m empty_context CodeAuthenticationFailed 401
             ''authenticated principal validation failed'' [''principal_resolver_failed'']
         | Some prin \<Rightarrow>
           (case ValidateAuthenticatedRequestForRoute r prin \<lparr>rv_Class = rm_Class m, rv_Mutating = rm_Mutating m\<rparr> of
              (requestContext, []) \<Rightarrow>
                (case requiredRoleDenied r requestContext m callerPolicy of
                   Some err \<Rightarrow> writePolicyDeniedErrorWithAudit r m requestContext (pe_Code err) (pe_Status err)
                     (pe_Retryable err) (pe_Message err) (pe_Labels err)
                 | None \<Rightarrow> GateServe requestContext)
            | (requestContext, errs) \<Rightarrow>
                (case authGateValidationError errs of (code, status, message, labels) \<Rightarrow>
                   writeValidationErrorWithAudit r m requestContext code status message labels))))"

section \<open>Inspection of operations\<close>

datatype inspect_error =
    ErrInspectionDenied | ErrMissingOperationID | ErrMissingOperationReader | ErrStoredNamespaceAuthorizationUnavailable
  | ErrInvalidStoredNamespaceAuthorizationState | InspectRead read_error

type_synonym operation_reader = "string \<Rightarrow> read_error + OperationRecord"
type_synonym stored_authorizer = "string \<Rightarrow> AuthCaller \<Rightarrow> inspect_error + bool"

record inspection_request =
  ir_OperationID :: string
  ir_RouteClass :: RouteClass
  ir_NamespaceID :: string
  ir_RequiredRole :: Role
  ir_Caller :: AuthCaller

fun scan_inspectors :: "string \<Rightarrow> AllowedCaller list \<Rightarrow> inspect_error + bool" where
  "scan_inspectors service [] = Inr False"
| "scan_inspectors service (c # cs) =
     (case MapAllowedCaller c of
        None \<Rightarrow> Inl ErrInvalidStoredNamespaceAuthorizationState
      | Some mapped \<Rightarrow>
        if \<not> CallerNotAllowed service RoleOperationInspector [mapped] then Inr True else scan_inspectors service cs)"

text \<open>\<open>AllowsOperationInspectionWithError\<close>, of which \<open>internal/api\<close> and \<open>internal/inspection\<close> have
  the same text.\<close>

definition AllowsOperationInspectionWithError :: "binding_reader option \<Rightarrow> stored_authorizer" where
  "AllowsOperationInspectionWithError reader namespaceID caller =
     (case reader of
        None \<Rightarrow> Inr False
      | Some get \<Rightarrow>
        if au_Kind caller \<noteq> CallerKindProduct then Inr False
        else
          let ns = trim_space namespaceID in
          if ValidateID NamespaceID ns \<noteq> None then Inl ErrInvalidStoredNamespaceAuthorizationState
          else case get ns of
            Inl ErrNoRows \<Rightarrow> Inr False
          | Inl (ReadFailed _) \<Rightarrow> Inl ErrStoredNamespaceAuthorizationUnavailable
          | Inr binding \<Rightarrow>
            if trim_space (nvb_NamespaceID binding) \<noteq> ns then Inl ErrInvalidStoredNamespaceAuthorizationState
            else if NamespaceVolumeBinding_Validate binding \<noteq> None then Inl ErrInvalidStoredNamespaceAuthorizationState
            else if nvb_Status binding \<noteq> NamespaceStatusActive then Inr False
            else scan_inspectors (au_CallerService caller) (nvb_AllowedCallers binding))"

definition routeCanCarryNamespaceInspection :: "RouteClass \<Rightarrow> bool" where
  "routeCanCarryNamespaceInspection c \<longleftrightarrow> c = RouteClassNamespaceBound \<or> c = RouteClassOperationInspection"

definition hasGlobalInspectionCapability :: "AuthCaller \<Rightarrow> bool" where
  "hasGlobalInspectionCapability caller \<longleftrightarrow>
     (au_Kind caller = CallerKindAdmin \<or> au_Kind caller = CallerKindOperator) \<and>
     \<not> CallerNotAllowed (au_CallerService caller) RoleOperatorAdmin [caller]"

definition canInspect ::
    "inspection_request \<Rightarrow> stored_authorizer option \<Rightarrow> OperationRecord \<Rightarrow> inspect_error + bool" where
  "canInspect request authorizer opr =
     (if \<not> routeCanCarryNamespaceInspection (ir_RouteClass request) then Inr False
      else if hasGlobalInspectionCapability (ir_Caller request) then Inr True
      else if ir_RequiredRole request \<noteq> RoleOperationInspector then Inr False
      else if au_Kind (ir_Caller request) \<noteq> CallerKindProduct then Inr False
      else
        let stored = trim_space (op_NamespaceID opr); requested = trim_space (ir_NamespaceID request) in
        if stored = [] then Inr False
        else if requested \<noteq> [] \<and> NamespaceMismatch requested stored then Inr False
        else case authorizer of
          None \<Rightarrow> Inr False
        | Some allows \<Rightarrow> allows stored (ir_Caller request))"

definition InspectOperation ::
    "operation_reader option \<Rightarrow> stored_authorizer option \<Rightarrow> inspection_request \<Rightarrow> inspect_error + OperationRecord" where
  "InspectOperation reader authorizer request =
     (case reader of
        None \<Rightarrow> Inl ErrMissingOperationReader
      | Some read \<Rightarrow>
        let operationID = trim_space (ir_OperationID request) in
        if operationID = [] then Inl ErrMissingOperationID
        else case read operationID of
          Inl err \<Rightarrow> Inl (InspectRead err)
        | Inr opr \<Rightarrow>
          (case canInspect request authorizer opr of
             Inl err \<Rightarrow> Inl err
           | Inr allowed \<Rightarrow> if allowed then Inr (Sanitized opr) else Inl ErrInspectionDenied))"

text \<open>The handler of \<open>getOperation\<close> behind the gate: a refusal, or the record that is written.\<close>

datatype inspection_response = Inspected OperationRecord | NotInspected gate_result

definition operationInspectionOperationID :: "http_request \<Rightarrow> RouteMetadata \<Rightarrow> string option" where
  "operationInspectionOperationID r m =
     (case RoutePathParams (rm_Path m) (hr_Path r) of
        None \<Rightarrow> None
      | Some params \<Rightarrow>
        let operationID = trim_space (case map_of params ''operationId'' of None \<Rightarrow> [] | Some v \<Rightarrow> v) in
        if operationID = [] then None else Some operationID)"

definition writeOperationInspectionError :: "http_request \<Rightarrow> int \<Rightarrow> ErrorCode \<Rightarrow> string \<Rightarrow> bool \<Rightarrow> gate_result" where
  "writeOperationInspectionError r status code message retryable =
     GateRefuse status (NewErrorEnvelope code message retryable (CorrelationIDFromRequest r) None []) None"

definition inspectionCaller :: "AllowedCallerPolicy \<Rightarrow> http_request \<Rightarrow> RequestContext \<Rightarrow> AuthCaller option" where
  "inspectionCaller policy r requestContext =
     (case policy r of
        Inl _ \<Rightarrow> None
      | Inr callers \<Rightarrow>
        find (\<lambda>c. \<not> CallerNotAllowed (rc_CallerService requestContext) RoleOperationInspector [c]) callers)"

definition writeInspectionError ::
    "RouteMetadata \<Rightarrow> http_request \<Rightarrow> RequestContext \<Rightarrow> AuthCaller \<Rightarrow> inspect_error \<Rightarrow> gate_result" where
  "writeInspectionError m r requestContext caller err =
     (let unavailable = writeOperationInspectionError r 503 CodeStorageUnavailable ''durable metadata store is unavailable'' True;
          internal = writeOperationInspectionError r 500 CodeInternalError ''internal server error'' False in
      case err of
        InspectRead ErrNoRows \<Rightarrow> writeOperationInspectionError r 404 CodeOperationNotFound ''operation was not found'' False
      | ErrInspectionDenied \<Rightarrow>
          if au_Kind caller = CallerKindProduct
          then writePolicyDeniedErrorWithAudit r m requestContext CodeOperationNotFound 404 False ''operation was not found''
            [''operation_inspection_denied'']
          else writePolicyDeniedErrorWithAudit r m requestContext CodeRoleNotAllowed 403 False ''operation inspection denied''
            [''operation_inspection_denied'']
      | ErrStoredNamespaceAuthorizationUnavailable \<Rightarrow> unavailable
      | ErrInvalidStoredNamespaceAuthorizationState \<Rightarrow> internal
      | ErrMissingOperationID \<Rightarrow> internal
      | ErrMissingOperationReader \<Rightarrow> internal
      | InspectRead (ReadFailed _) \<Rightarrow> unavailable)"

definition inspection_leaf ::
    "RouteMetadata \<Rightarrow> operation_reader option \<Rightarrow> stored_authorizer option \<Rightarrow> AllowedCallerPolicy \<Rightarrow>
     http_request \<Rightarrow> RequestContext \<Rightarrow> inspection_response" where
  "inspection_leaf m reader authorizer policy r requestContext =
     (let internal = NotInspected (writeOperationInspectionError r 500 CodeInternalError ''internal server error'' False) in
      case operationInspectionOperationID r m of
        None \<Rightarrow> NotInspected (writeOperationInspectionError r 404 CodePathDenied ''route is not available'' False)
      | Some operationID \<Rightarrow>
        if ValidateID OperationID operationID \<noteq> None
        then NotInspected (writeValidationErrorWithAudit r m requestContext CodeInvalidID 400 ''invalid operation id''
          [''invalid_operation_id''])
        else if reader = None then internal
        else case inspectionCaller policy r requestContext of
          None \<Rightarrow> internal
        | Some caller \<Rightarrow>
          (case InspectOperation reader authorizer
              \<lparr>ir_OperationID = operationID, ir_RouteClass = rm_Class m, ir_NamespaceID = rc_NamespaceID requestContext,
               ir_RequiredRole = rm_RequiredRole m, ir_Caller = caller\<rparr> of
             Inl err \<Rightarrow> NotInspected (writeInspectionError m r requestContext caller err)
           | Inr opr \<Rightarrow> Inspected (pruneOperationInspectionRecord opr)))"

definition operationInspectionRouteResolver :: "RouteMetadata \<Rightarrow> route_resolver" where
  "operationInspectionRouteResolver m r =
     (if \<not> upper_is (trim_space (hr_Method r)) (rm_Method m) then None
      else if RoutePathParams (rm_Path m) (hr_Path r) = None then None
      else Some m)"

text \<open>\<open>OperationInspectionHandler\<close>: a missing policy is replaced by one that always fails.\<close>

definition OperationInspectionHandler ::
    "operation_reader option \<Rightarrow> stored_authorizer option \<Rightarrow> principal_resolver option \<Rightarrow> AllowedCallerPolicy option \<Rightarrow>
     http_request \<Rightarrow> inspection_response" where
  "OperationInspectionHandler reader authorizer principalResolver allowedCallers r =
     (let m = (case RouteMetadataByOperationID ''getOperation'' of None \<Rightarrow> no_route | Some m \<Rightarrow> m);
          policy = (case allowedCallers of
              None \<Rightarrow> (\<lambda>_. Inl (Some (routePolicyInternalError ''operation_inspection_policy_not_configured'')))
            | Some p \<Rightarrow> p) in
      case AuthGate principalResolver (Some (operationInspectionRouteResolver m)) (Some policy) r of
        GateServe requestContext \<Rightarrow> inspection_leaf m reader authorizer policy r requestContext
      | refused \<Rightarrow> NotInspected refused)"

section \<open>What the gate checks\<close>

lemma headerValue_trimmed [simp]: "trim_space (headerValue r name) = headerValue r name"
  by (simp add: headerValue_def trim_space_idem)

lemma parsed_context_trimmed [simp]:
  "trim_space (rc_Authorization (ParseRequestContext r)) = rc_Authorization (ParseRequestContext r)"
  "trim_space (rc_IdempotencyKey (ParseRequestContext r)) = rc_IdempotencyKey (ParseRequestContext r)"
  "trim_space (rc_CorrelationID (ParseRequestContext r)) = rc_CorrelationID (ParseRequestContext r)"
  "trim_space (rc_NamespaceID (ParseRequestContext r)) = rc_NamespaceID (ParseRequestContext r)"
  "trim_space (aa_Type (rc_Actor (ParseRequestContext r))) = aa_Type (rc_Actor (ParseRequestContext r))"
  "trim_space (aa_ID (rc_Actor (ParseRequestContext r))) = aa_ID (rc_Actor (ParseRequestContext r))"
  "rc_CallerService (ParseRequestContext r) = headerValue r HeaderCallerService"
  by (simp_all add: ParseRequestContext_def)

definition context_complete :: "RouteMetadata \<Rightarrow> RequestContext \<Rightarrow> bool" where
  "context_complete m ctx \<longleftrightarrow>
     rc_Authorization ctx \<noteq> [] \<and> rc_CorrelationID ctx \<noteq> [] \<and>
     (rm_Class m = RouteClassNamespaceBound \<longrightarrow> rc_NamespaceID ctx \<noteq> []) \<and>
     (rm_Mutating m \<longrightarrow> rc_IdempotencyKey ctx \<noteq> [] \<and> aa_Type (rc_Actor ctx) \<noteq> [] \<and> aa_ID (rc_Actor ctx) \<noteq> [])"

lemma bound_principal_iff:
  "BindAuthenticatedPrincipal (ParseRequestContext r) prin = (ctx, None) \<longleftrightarrow>
     trim_space (ap_CanonicalCallerService prin) \<noteq> [] \<and>
     headerValue r HeaderCallerService \<in> {[], trim_space (ap_CanonicalCallerService prin)} \<and>
     ctx = (ParseRequestContext r)\<lparr>rc_CallerService := trim_space (ap_CanonicalCallerService prin)\<rparr>"
  by (auto simp: BindAuthenticatedPrincipal_def Let_def)

lemma complete_iff:
  assumes "rm_Class m \<in> {RouteClassNamespaceBound, RouteClassVolumeGlobal, RouteClassOperationInspection}"
    and "s = trim_space t" "s \<noteq> []"
  shows "ValidateRequestContextForRoute ((ParseRequestContext r)\<lparr>rc_CallerService := s\<rparr>)
      \<lparr>rv_Class = rm_Class m, rv_Mutating = rm_Mutating m\<rparr> = [] \<longleftrightarrow>
    context_complete m ((ParseRequestContext r)\<lparr>rc_CallerService := s\<rparr>)"
proof -
  have "trim_space s \<noteq> []" using assms by (simp add: trim_space_idem)
  then show ?thesis using assms(1)
    by (auto simp: ValidateRequestContextForRoute_def validateRequestContext_def context_complete_def)
qed

lemma validated_request_iff:
  assumes "rm_Class m \<in> {RouteClassNamespaceBound, RouteClassVolumeGlobal, RouteClassOperationInspection}"
  shows "ValidateAuthenticatedRequestForRoute r prin \<lparr>rv_Class = rm_Class m, rv_Mutating = rm_Mutating m\<rparr> = (ctx, []) \<longleftrightarrow>
    trim_space (ap_CanonicalCallerService prin) \<noteq> [] \<and>
    headerValue r HeaderCallerService \<in> {[], trim_space (ap_CanonicalCallerService prin)} \<and>
    ctx = (ParseRequestContext r)\<lparr>rc_CallerService := trim_space (ap_CanonicalCallerService prin)\<rparr> \<and> context_complete m ctx"
proof -
  have "ValidateAuthenticatedRequestForRoute r prin rv = (ctx, []) \<longleftrightarrow>
      BindAuthenticatedPrincipal (ParseRequestContext r) prin = (ctx, None) \<and> ValidateRequestContextForRoute ctx rv = []" for rv
    by (auto simp: ValidateAuthenticatedRequestForRoute_def split: prod.splits option.splits)
  then show ?thesis unfolding bound_principal_iff using complete_iff [OF assms] by auto
qed

lemma role_not_denied_iff:
  assumes "rm_RequiredRole m \<in> set CallerRoles"
  shows "requiredRoleDenied r ctx m (Some policy) = None \<longleftrightarrow>
    (\<exists>callers. policy r = Inr callers \<and> CallerRoleDenialReasonFor (rc_CallerService ctx) (rm_RequiredRole m) callers = CallerRoleAllowed)"
  using assms
  by (auto simp: requiredRoleDenied_def Let_def CallerRoles_def split: sum.splits option.splits CallerRoleDenialReason.splits)

lemma role_denied_cong:
  "policy r = policy' r \<Longrightarrow> requiredRoleDenied r ctx m (Some policy) = requiredRoleDenied r ctx m (Some policy')"
  by (simp add: requiredRoleDenied_def)

lemma gate_serves_iff:
  "AuthGate (Some principals) (Some resolve) (Some policy) r = GateServe ctx \<longleftrightarrow>
     (\<exists>m prin. resolve r = Some m \<and> principals r = Some prin \<and>
       ValidateAuthenticatedRequestForRoute r prin \<lparr>rv_Class = rm_Class m, rv_Mutating = rm_Mutating m\<rparr> = (ctx, []) \<and>
       requiredRoleDenied r ctx m (Some policy) = None)"
  by (auto simp: AuthGate_def writeValidationErrorWithAudit_def writePolicyDeniedErrorWithAudit_def
      split: option.splits prod.splits list.splits)

lemma route_known:
  "m \<in> set internalV1RouteMetadata \<Longrightarrow>
     rm_Class m \<in> {RouteClassNamespaceBound, RouteClassVolumeGlobal, RouteClassOperationInspection} \<and>
     rm_RequiredRole m \<in> set CallerRoles"
proof -
  have "list_all (\<lambda>m. rm_Class m \<in> {RouteClassNamespaceBound, RouteClassVolumeGlobal, RouteClassOperationInspection} \<and>
     rm_RequiredRole m \<in> set CallerRoles) internalV1RouteMetadata" by code_simp
  then show "m \<in> set internalV1RouteMetadata \<Longrightarrow> ?thesis" by (simp only: list_all_iff)
qed

lemma gate_refusal_audited:
  "AuthGate principals resolver policy r = GateRefuse status err event \<Longrightarrow>
     \<exists>e. event = Some e \<and> da_Status e = status \<and> da_Code e = se_Code err"
  by (auto simp: AuthGate_def writeValidationErrorWithAudit_def writePolicyDeniedErrorWithAudit_def PathDenied_def
      NewErrorEnvelope_def split: option.splits prod.splits list.splits)

section \<open>Policies as providers of the gate\<close>

text \<open>What the gate relies on: a policy that answers with callers lets a service use a role only if
  the role is granted to it. \<open>grants\<close> says where the role comes from.\<close>

locale caller_policy =
  fixes policy :: AllowedCallerPolicy
    and grants :: "http_request \<Rightarrow> string \<Rightarrow> Role \<Rightarrow> bool"
  assumes allowed_granted: "policy r = Inr callers \<Longrightarrow> CallerRoleDenialReasonFor s role callers = CallerRoleAllowed \<Longrightarrow>
    grants r (trim_space s) role"
begin

lemma served_granted:
  assumes "AuthGate (Some principals) (Some RouteMetadataForRequest) (Some policy) r = GateServe ctx"
  shows "\<exists>m prin. RouteMetadataForRequest r = Some m \<and> principals r = Some prin \<and>
    ctx = (ParseRequestContext r)\<lparr>rc_CallerService := trim_space (ap_CanonicalCallerService prin)\<rparr> \<and> context_complete m ctx \<and>
    grants r (trim_space (ap_CanonicalCallerService prin)) (rm_RequiredRole m)"
proof -
  obtain m prin where m: "RouteMetadataForRequest r = Some m" "principals r = Some prin"
      "ValidateAuthenticatedRequestForRoute r prin \<lparr>rv_Class = rm_Class m, rv_Mutating = rm_Mutating m\<rparr> = (ctx, [])"
      "requiredRoleDenied r ctx m (Some policy) = None"
    using assms unfolding gate_serves_iff by blast
  have known: "rm_Class m \<in> {RouteClassNamespaceBound, RouteClassVolumeGlobal, RouteClassOperationInspection}"
      "rm_RequiredRole m \<in> set CallerRoles"
    using m(1) route_known by (auto simp: route_for_request_iff)
  have "grants r (trim_space (rc_CallerService ctx)) (rm_RequiredRole m)"
    using m(4) allowed_granted unfolding role_not_denied_iff [OF known(2)] by blast
  moreover have "ctx = (ParseRequestContext r)\<lparr>rc_CallerService := trim_space (ap_CanonicalCallerService prin)\<rparr>" "context_complete m ctx"
    using m(3) unfolding validated_request_iff [OF known(1)] by blast+
  ultimately show ?thesis using m(1,2) by (intro exI [of _ m] exI [of _ prin]) (simp add: trim_space_idem)
qed

end

definition binding_grants :: "binding_reader \<Rightarrow> http_request \<Rightarrow> string \<Rightarrow> Role \<Rightarrow> bool" where
  "binding_grants get r service role \<longleftrightarrow>
     (\<exists>ns b c stored. namespaceIDForBindingPolicy r (RouteMetadataForRequest r) = Inr ns \<and> get ns = Inr b \<and>
       trim_space (nvb_NamespaceID b) = ns \<and> NamespaceVolumeBinding_Validate b = None \<and>
       (\<forall>m. RouteMetadataForRequest r = Some m \<and> rm_Class m = RouteClassNamespaceBound \<and> rm_Mutating m \<longrightarrow>
         nvb_Status b \<noteq> NamespaceStatusDisabled) \<and>
       (headerValue r HeaderNamespaceID = [] \<or> headerValue r HeaderNamespaceID = ns) \<and>
       c \<in> set (nvb_AllowedCallers b) \<and> trim_space (ac_CallerService c) = service \<and>
       stored \<in> set (ac_Roles c) \<and> binding_role stored = Some role)"

definition static_grants :: "AuthCaller list \<Rightarrow> http_request \<Rightarrow> string \<Rightarrow> Role \<Rightarrow> bool" where
  "static_grants callers r service role \<longleftrightarrow>
     (\<exists>c \<in> set callers. trim_space (au_CallerService c) = service \<and> hasRole c role)"

interpretation binding_callers: caller_policy "NamespaceVolumeBindingAllowedCallerPolicy (Some get)" "binding_grants get"
  for get
proof
  fix r callers s role
  assume callers: "NamespaceVolumeBindingAllowedCallerPolicy (Some get) r = Inr callers"
    and allowed: "CallerRoleDenialReasonFor s role callers = CallerRoleAllowed"
  obtain ns b where b: "namespaceIDForBindingPolicy r (RouteMetadataForRequest r) = Inr ns" "get ns = Inr b"
      "trim_space (nvb_NamespaceID b) = ns" "NamespaceVolumeBinding_Validate b = None"
      "\<forall>m. RouteMetadataForRequest r = Some m \<and> rm_Class m = RouteClassNamespaceBound \<and> rm_Mutating m \<longrightarrow>
         nvb_Status b \<noteq> NamespaceStatusDisabled"
      "headerValue r HeaderNamespaceID = [] \<or> headerValue r HeaderNamespaceID = ns"
      "\<forall>s role. CallerRoleDenialReasonFor s role callers = CallerRoleAllowed \<longleftrightarrow>
        trim_space s \<noteq> [] \<and> (\<exists>c \<in> set (nvb_AllowedCallers b). trim_space (ac_CallerService c) = trim_space s \<and>
          (\<exists>stored \<in> set (ac_Roles c). binding_role stored = Some role))"
    using binding_policy_callers [OF callers] by (elim exE conjE) (rule that; assumption)
  with allowed obtain c stored where c: "c \<in> set (nvb_AllowedCallers b)" "trim_space (ac_CallerService c) = trim_space s"
      "stored \<in> set (ac_Roles c)" "binding_role stored = Some role"
    by blast
  show "binding_grants get r (trim_space s) role"
    unfolding binding_grants_def
    by (intro exI [of _ ns] exI [of _ b] exI [of _ c] exI [of _ stored] conjI) (rule b c)+
qed

interpretation static_callers: caller_policy "StaticAllowedCallerPolicy callers" "static_grants callers"
  for callers
  by unfold_locales (auto simp: StaticAllowedCallerPolicy_def static_grants_def caller_allowed_iff)

definition deployment_routes :: "string list" where
  "deployment_routes = [''ensureVolume'', ''getVolumeHealth'']"

definition namespace_admin_routes :: "string list" where
  "namespace_admin_routes = [''upsertNamespace'', ''disableNamespace'', ''putNamespaceVolumeBinding'']"

text \<open>The policy that the shell puts in front of every handler but the inspection ones.\<close>

definition shell_policy :: "AuthCaller list option \<Rightarrow> AuthCaller list option \<Rightarrow> binding_reader \<Rightarrow> AllowedCallerPolicy" where
  "shell_policy globalCallers namespaceCallers get =
     RouteAware_AllowedCallers
       \<lparr>ra_DeploymentGlobal = deploymentPolicyOrStatic None globalCallers,
        ra_DeploymentNamespace = deploymentPolicyOrStatic None namespaceCallers,
        ra_NamespaceBinding = Some (NamespaceVolumeBindingAllowedCallerPolicy (Some get))\<rparr>"

definition shell_grants ::
    "AuthCaller list option \<Rightarrow> AuthCaller list option \<Rightarrow> binding_reader \<Rightarrow> http_request \<Rightarrow> string \<Rightarrow> Role \<Rightarrow> bool" where
  "shell_grants globalCallers namespaceCallers get r service role \<longleftrightarrow>
     (\<exists>m. RouteMetadataForRequest r = Some m \<and>
       (if rm_OperationID m \<in> set deployment_routes
          then (\<exists>cs. globalCallers = Some cs \<and> static_grants cs r service role)
        else if rm_OperationID m \<in> set namespace_admin_routes
          then (\<exists>cs. namespaceCallers = Some cs \<and> static_grants cs r service role)
        else rm_Class m = RouteClassNamespaceBound \<and> binding_grants get r service role))"

interpretation shell_callers: caller_policy "shell_policy globalCallers namespaceCallers get"
    "shell_grants globalCallers namespaceCallers get"
  for globalCallers namespaceCallers get
proof
  fix r callers s role
  assume a: "shell_policy globalCallers namespaceCallers get r = Inr callers"
    "CallerRoleDenialReasonFor s role callers = CallerRoleAllowed"
  then show "shell_grants globalCallers namespaceCallers get r (trim_space s) role"
    using static_callers.allowed_granted [OF _ a(2)] binding_callers.allowed_granted [OF _ a(2), of get]
    by (auto simp: shell_policy_def RouteAware_AllowedCallers_def policyForRoute_def shell_grants_def deployment_routes_def
        namespace_admin_routes_def deploymentPolicyOrStatic_def split: option.splits if_splits)
qed

section \<open>Who may inspect\<close>

lemma caller_single_iff:
  "\<not> CallerNotAllowed s required [c] \<longleftrightarrow>
     trim_space s \<noteq> [] \<and> trim_space (au_CallerService c) = trim_space s \<and> hasRole c required"
  by (auto simp: CallerNotAllowed_def caller_allowed_iff)

lemma binding_role_inspector: "binding_role stored = Some RoleOperationInspector \<longleftrightarrow> stored = CallerRoleOperationInspector"
  by (cases stored) auto

lemma operator_admin_role: "hasRole c RoleOperatorAdmin \<Longrightarrow> RoleOperatorAdmin \<in> set (au_Roles c)"
  by (auto simp: hasRole_def list_ex_iff roleSatisfiesRequiredRole_def split: if_splits)

lemma scan_inspectors_granted:
  assumes "scan_inspectors s cs = Inr True" "\<forall>c \<in> set cs. AllowedCaller_Validate c = None"
  shows "\<exists>c \<in> set cs. trim_space (ac_CallerService c) = trim_space s \<and> CallerRoleOperationInspector \<in> set (ac_Roles c)"
  using assms
proof (induction cs)
  case (Cons c cs)
  obtain a where a: "MapAllowedCaller c = Some a" "au_CallerService a = trim_space (ac_CallerService c)"
      "\<forall>role. hasRole a role \<longleftrightarrow> (\<exists>stored \<in> set (ac_Roles c). binding_role stored = Some role)"
    using MapAllowedCaller_valid [of c] Cons.prems(2) by auto
  show ?case
  proof (cases "CallerNotAllowed s RoleOperationInspector [a]")
    case True
    then show ?thesis using Cons a(1) by auto
  next
    case False
    then show ?thesis using a(2,3) by (auto simp: caller_single_iff trim_space_idem binding_role_inspector)
  qed
qed simp

lemma stored_authorization:
  assumes "AllowsOperationInspectionWithError (Some get) ns caller = Inr True"
  shows "\<exists>b. get (trim_space ns) = Inr b \<and> trim_space (nvb_NamespaceID b) = trim_space ns \<and>
    NamespaceVolumeBinding_Validate b = None \<and> nvb_Status b = NamespaceStatusActive \<and>
    (\<exists>c \<in> set (nvb_AllowedCallers b). trim_space (ac_CallerService c) = trim_space (au_CallerService caller) \<and>
      CallerRoleOperationInspector \<in> set (ac_Roles c))"
proof -
  obtain b where b: "get (trim_space ns) = Inr b" "trim_space (nvb_NamespaceID b) = trim_space ns"
      "NamespaceVolumeBinding_Validate b = None" "nvb_Status b = NamespaceStatusActive"
      "scan_inspectors (au_CallerService caller) (nvb_AllowedCallers b) = Inr True"
    using assms by (auto simp: AllowsOperationInspectionWithError_def Let_def
        split: if_splits sum.splits read_error.splits)
  with scan_inspectors_granted [OF b(5) valid_binding_callers [OF b(3)]] show ?thesis by blast
qed

definition may_inspect :: "AuthCaller list \<Rightarrow> binding_reader \<Rightarrow> string \<Rightarrow> string \<Rightarrow> OperationRecord \<Rightarrow> bool" where
  "may_inspect deployment get service requested opr \<longleftrightarrow>
     (\<exists>c \<in> set deployment. trim_space (au_CallerService c) = service \<and> au_Kind c \<in> {CallerKindAdmin, CallerKindOperator} \<and>
       RoleOperatorAdmin \<in> set (au_Roles c)) \<or>
     (requested = [] \<or> requested = trim_space (op_NamespaceID opr)) \<and>
     (\<exists>b. get (trim_space (op_NamespaceID opr)) = Inr b \<and> trim_space (nvb_NamespaceID b) = trim_space (op_NamespaceID opr) \<and>
       NamespaceVolumeBinding_Validate b = None \<and> nvb_Status b = NamespaceStatusActive \<and>
       (\<exists>c \<in> set (nvb_AllowedCallers b). trim_space (ac_CallerService c) = service \<and>
         CallerRoleOperationInspector \<in> set (ac_Roles c)))"

lemma inspection_allowed:
  assumes "canInspect request (Some (AllowsOperationInspectionWithError (Some get))) opr = Inr True"
    and "ir_Caller request \<in> set deployment \<or> au_Kind (ir_Caller request) = CallerKindProduct"
    and "trim_space (au_CallerService (ir_Caller request)) = service" "trim_space (ir_NamespaceID request) = requested"
  shows "may_inspect deployment get service requested opr"
proof (cases "hasGlobalInspectionCapability (ir_Caller request)")
  case True
  then show ?thesis using assms(2,3) operator_admin_role
    by (auto simp: may_inspect_def hasGlobalInspectionCapability_def caller_single_iff)
next
  case False
  then have "AllowsOperationInspectionWithError (Some get) (trim_space (op_NamespaceID opr)) (ir_Caller request) = Inr True"
      "requested = [] \<or> requested = trim_space (op_NamespaceID opr)"
    using assms(1,4)
    by (auto simp: canInspect_def Let_def NamespaceMismatch_def trim_space_idem split: if_splits)
  then show ?thesis using stored_authorization assms(3)
    unfolding may_inspect_def by (metis trim_space_idem)
qed

lemma preflight_callers:
  assumes "OperationInspectionPreflightPolicy (Some (StaticAllowedCallerPolicy deployment)) r = Inr callers"
  shows "\<forall>c \<in> set callers. c \<in> set deployment \<or> au_Kind c = CallerKindProduct"
  using assms by (auto simp: OperationInspectionPreflightPolicy_def StaticAllowedCallerPolicy_def Let_def split: if_splits)

lemma inspection_leaf_record:
  assumes "inspection_leaf m (Some read) authorizer policy r ctx = Inspected out"
  shows "\<exists>operationID opr callers caller. operationInspectionOperationID r m = Some operationID \<and> read operationID = Inr opr \<and>
    policy r = Inr callers \<and> caller \<in> set callers \<and> trim_space (au_CallerService caller) = trim_space (rc_CallerService ctx) \<and>
    canInspect \<lparr>ir_OperationID = operationID, ir_RouteClass = rm_Class m, ir_NamespaceID = rc_NamespaceID ctx,
      ir_RequiredRole = rm_RequiredRole m, ir_Caller = caller\<rparr> authorizer opr = Inr True \<and>
    out = pruneOperationInspectionRecord (Sanitized opr)"
proof -
  obtain operationID caller opr where *: "operationInspectionOperationID r m = Some operationID"
      "inspectionCaller policy r ctx = Some caller"
      "InspectOperation (Some read) authorizer
        \<lparr>ir_OperationID = operationID, ir_RouteClass = rm_Class m, ir_NamespaceID = rc_NamespaceID ctx,
         ir_RequiredRole = rm_RequiredRole m, ir_Caller = caller\<rparr> = Inr opr" "out = pruneOperationInspectionRecord opr"
    using assms by (auto simp: inspection_leaf_def Let_def split: option.splits if_splits sum.splits)
  have "trim_space operationID = operationID"
    using *(1) by (auto simp: operationInspectionOperationID_def Let_def trim_space_idem split: option.splits if_splits)
  then obtain stored where "read operationID = Inr stored" "opr = Sanitized stored"
      "canInspect \<lparr>ir_OperationID = operationID, ir_RouteClass = rm_Class m, ir_NamespaceID = rc_NamespaceID ctx,
         ir_RequiredRole = rm_RequiredRole m, ir_Caller = caller\<rparr> authorizer stored = Inr True"
    using *(3) by (auto simp: InspectOperation_def Let_def split: if_splits sum.splits)
  moreover obtain callers where "policy r = Inr callers" "caller \<in> set callers"
      "trim_space (au_CallerService caller) = trim_space (rc_CallerService ctx)"
    using *(2) by (auto simp: inspectionCaller_def caller_single_iff find_Some_iff split: sum.splits)
  ultimately show ?thesis using * by blast
qed

section \<open>Properties\<close>



text \<open>C7. Inspection of operations is confined: the handler of \<open>getOperation\<close> returns the redacted
  record of the operation named in the path only to an authenticated service that either
  is an admin or operator of the deployment with the operator admin role, or holds the
  operation inspector role in the active, valid binding of the namespace that the stored
  operation belongs to, and names no other namespace in its request.\<close>

theorem inspection_confined:
  assumes "OperationInspectionHandler (Some read) (Some (AllowsOperationInspectionWithError (Some get))) (Some principals)
      (Some (OperationInspectionPreflightPolicy (Some (StaticAllowedCallerPolicy deployment)))) r = Inspected out"
  shows "\<exists>m prin operationID opr. RouteMetadataByOperationID ''getOperation'' = Some m \<and> principals r = Some prin \<and>
    operationInspectionOperationID r m = Some operationID \<and> read operationID = Inr opr \<and>
    out = pruneOperationInspectionRecord (Sanitized opr) \<and>
    may_inspect deployment get (trim_space (ap_CanonicalCallerService prin)) (headerValue r HeaderNamespaceID) opr"
proof -
  let ?policy = "OperationInspectionPreflightPolicy (Some (StaticAllowedCallerPolicy deployment))"
  obtain m where m: "RouteMetadataByOperationID ''getOperation'' = Some m" "m \<in> set internalV1RouteMetadata"
    unfolding RouteMetadataByOperationID_def internalV1RouteMetadata_def by (simp add: route_def)
  obtain ctx where ctx: "AuthGate (Some principals) (Some (operationInspectionRouteResolver m)) (Some ?policy) r = GateServe ctx"
      "inspection_leaf m (Some read) (Some (AllowsOperationInspectionWithError (Some get))) ?policy r ctx = Inspected out"
    using assms m(1) by (auto simp: OperationInspectionHandler_def Let_def split: gate_result.splits)
  then obtain n prin where n: "operationInspectionRouteResolver m r = Some n" "principals r = Some prin"
      "ValidateAuthenticatedRequestForRoute r prin \<lparr>rv_Class = rm_Class n, rv_Mutating = rm_Mutating n\<rparr> = (ctx, [])"
    unfolding gate_serves_iff by blast
  have "n = m" using n(1) by (auto simp: operationInspectionRouteResolver_def split: if_splits)
  then have c: "ctx = (ParseRequestContext r)\<lparr>rc_CallerService := trim_space (ap_CanonicalCallerService prin)\<rparr>"
    using n(3) validated_request_iff route_known [OF m(2)] by blast
  then have ns: "trim_space (rc_CallerService ctx) = trim_space (ap_CanonicalCallerService prin)"
      "trim_space (rc_NamespaceID ctx) = headerValue r HeaderNamespaceID"
    by (simp_all add: trim_space_idem ParseRequestContext_def)
  show ?thesis
    using inspection_leaf_record [OF ctx(2)] m(1) n(2) preflight_callers
      inspection_allowed [where deployment = deployment and requested = "headerValue r HeaderNamespaceID"] ns
    by (metis inspection_request.select_convs(3,5))
qed

section \<open>Concrete requests\<close>

definition example_principals :: principal_resolver where
  "example_principals r = Some \<lparr>ap_Subject = ''sub'', ap_CanonicalCallerService = ''svc-a''\<rparr>"

lemma example_trimmed: "trim_space ''svc-a'' = ''svc-a''" "trim_space ''ns_aa'' = ''ns_aa''" "trim_space ''Bearer t'' = ''Bearer t''"
    "trim_space ''c1'' = ''c1''" "trim_space ''op_12'' = ''op_12''"
  by (simp_all add: trim_space_id is_space_byte_def byte_def)

lemma example_served:
  "AuthGate (Some example_principals) (Some RouteMetadataForRequest)
     (Some (NamespaceVolumeBindingAllowedCallerPolicy (Some example_bindings))) example_http_request =
   GateServe ((ParseRequestContext example_http_request)\<lparr>rc_CallerService := ''svc-a''\<rparr>)" (is "_ = GateServe ?ctx")
proof -
  have hdr: "headerValue example_http_request HeaderCallerService = []" "rc_Authorization ?ctx = ''Bearer t''"
      "rc_CorrelationID ?ctx = ''c1''" "rc_NamespaceID ?ctx = ''ns_aa''"
    by (simp_all add: ParseRequestContext_def headerValue_def example_http_request_def example_trimmed HeaderNamespaceID_def
        HeaderAuthorization_def HeaderCorrelationID_def HeaderCallerService_def)
  have fields: "rm_Class example_route = RouteClassNamespaceBound" "rm_Mutating example_route = False"
      "rm_RequiredRole example_route = RoleRepoAdmin"
    by (simp_all add: example_route_def route_def)
  have "ValidateAuthenticatedRequestForRoute example_http_request \<lparr>ap_Subject = ''sub'', ap_CanonicalCallerService = ''svc-a''\<rparr>
      \<lparr>rv_Class = rm_Class example_route, rv_Mutating = rm_Mutating example_route\<rparr> = (?ctx, [])"
    by (subst validated_request_iff) (use hdr in \<open>simp_all add: fields example_trimmed context_complete_def\<close>)
  moreover have "requiredRoleDenied example_http_request ?ctx example_route
      (Some (NamespaceVolumeBindingAllowedCallerPolicy (Some example_bindings))) = None"
    by (subst role_not_denied_iff) (simp_all add: fields example_request_callers caller_allowed_iff CallerRoles_def
        example_trimmed hasRole_def roleSatisfiesRequiredRole_def isProductControlPlaneRole_def)
  ultimately show ?thesis
    unfolding gate_serves_iff by (auto simp: example_principals_def example_request_route)
qed


definition example_inspection :: http_request where
  "example_inspection = example_http_request\<lparr>hr_Path := ''/internal/v1/operations/op_12''\<rparr>"

definition example_operator :: AuthCaller where
  "example_operator = \<lparr>au_CallerService = ''svc-a'', au_Kind = CallerKindOperator, au_Roles = [RoleOperatorAdmin]\<rparr>"

definition example_operations :: operation_reader where
  "example_operations operationID = (if operationID = ''op_12'' then Inr example_secret_record else Inl ErrNoRows)"

lemma example_inspected:
  "OperationInspectionHandler (Some example_operations) (Some (AllowsOperationInspectionWithError (Some example_bindings)))
     (Some example_principals) (Some (OperationInspectionPreflightPolicy (Some (StaticAllowedCallerPolicy [example_operator]))))
     example_inspection = Inspected (pruneOperationInspectionRecord (Sanitized example_secret_record))"
proof -
  let ?policy = "OperationInspectionPreflightPolicy (Some (StaticAllowedCallerPolicy [example_operator]))"
  let ?m = "route ''GET'' ''/internal/v1/operations/{operationId}'' ''getOperation'' RouteClassOperationInspection False RoleOperationInspector"
  let ?ctx = "(ParseRequestContext example_inspection)\<lparr>rc_CallerService := ''svc-a''\<rparr>"
  have m: "RouteMetadataByOperationID ''getOperation'' = Some ?m"
    unfolding RouteMetadataByOperationID_def internalV1RouteMetadata_def by (simp add: route_def)
  have hdr: "headerValue example_inspection HeaderCallerService = []" "rc_Authorization ?ctx = ''Bearer t''"
      "rc_CorrelationID ?ctx = ''c1''" "rc_NamespaceID ?ctx = ''ns_aa''"
    by (simp_all add: ParseRequestContext_def headerValue_def example_inspection_def example_http_request_def example_trimmed
        HeaderNamespaceID_def HeaderAuthorization_def HeaderCorrelationID_def HeaderCallerService_def)
  have policy: "?policy example_inspection = Inr [example_operator]"
    using hdr(1) by (simp add: OperationInspectionPreflightPolicy_def StaticAllowedCallerPolicy_def headerValue_def)
  have resolved: "operationInspectionRouteResolver ?m example_inspection = Some ?m"
  proof -
    have "upper_is (trim_space (hr_Method example_inspection)) ''GET'' \<and>
        RoutePathParams (rm_Path ?m) (hr_Path example_inspection) \<noteq> None" by code_simp
    then show ?thesis by (simp add: operationInspectionRouteResolver_def route_def)
  qed
  have fields: "rm_Class ?m = RouteClassOperationInspection" "rm_Mutating ?m = False" "rm_RequiredRole ?m = RoleOperationInspector"
    by (simp_all add: route_def)
  have "ValidateAuthenticatedRequestForRoute example_inspection \<lparr>ap_Subject = ''sub'', ap_CanonicalCallerService = ''svc-a''\<rparr>
      \<lparr>rv_Class = rm_Class ?m, rv_Mutating = rm_Mutating ?m\<rparr> = (?ctx, [])"
    by (subst validated_request_iff) (use hdr in \<open>simp_all add: fields example_trimmed context_complete_def\<close>)
  moreover have "hasRole example_operator RoleOperationInspector"
    by (simp add: example_operator_def hasRole_def roleSatisfiesRequiredRole_def)
  then have "requiredRoleDenied example_inspection ?ctx ?m (Some ?policy) = None"
    by (subst role_not_denied_iff) (simp_all add: fields policy caller_allowed_iff CallerRoles_def example_trimmed,
        simp add: example_operator_def example_trimmed)
  ultimately have "AuthGate (Some example_principals) (Some (operationInspectionRouteResolver ?m)) (Some ?policy)
      example_inspection = GateServe ?ctx"
    unfolding gate_serves_iff using resolved by (auto simp: example_principals_def)
  then have handled: "OperationInspectionHandler (Some example_operations) (Some (AllowsOperationInspectionWithError (Some example_bindings)))
      (Some example_principals) (Some ?policy) example_inspection =
      inspection_leaf ?m (Some example_operations) (Some (AllowsOperationInspectionWithError (Some example_bindings))) ?policy
        example_inspection ?ctx"
    by (simp add: OperationInspectionHandler_def m)
  have op: "operationInspectionOperationID example_inspection ?m = Some ''op_12''" "ValidateID OperationID ''op_12'' = None"
    by code_simp+
  have allowed: "\<not> CallerNotAllowed ''svc-a'' role [example_operator]" if "role \<in> {RoleOperationInspector, RoleOperatorAdmin}" for role
    using that by (auto simp: caller_single_iff example_operator_def example_trimmed hasRole_def roleSatisfiesRequiredRole_def
        isAdminOperatorRole_def)
  have "hasGlobalInspectionCapability example_operator"
    using allowed [of RoleOperatorAdmin] by (simp add: hasGlobalInspectionCapability_def example_operator_def)
  then have "InspectOperation (Some example_operations) authorizer
      \<lparr>ir_OperationID = ''op_12'', ir_RouteClass = rm_Class ?m, ir_NamespaceID = rc_NamespaceID ?ctx,
       ir_RequiredRole = rm_RequiredRole ?m, ir_Caller = example_operator\<rparr> = Inr (Sanitized example_secret_record)" for authorizer
    by (simp add: InspectOperation_def example_trimmed example_operations_def canInspect_def
        routeCanCarryNamespaceInspection_def fields)
  moreover have "inspectionCaller ?policy example_inspection ?ctx = Some example_operator"
    using allowed [of RoleOperationInspector] by (simp add: inspectionCaller_def policy)
  ultimately show ?thesis unfolding handled by (simp add: inspection_leaf_def op)
qed

theorem inspection_confined_witness:
  "may_inspect [example_operator] example_bindings ''svc-a'' (headerValue example_inspection HeaderNamespaceID) example_secret_record"
proof -
  obtain operationID opr where "operationID = ''op_12''" "example_operations operationID = Inr opr"
      "may_inspect [example_operator] example_bindings ''svc-a'' (headerValue example_inspection HeaderNamespaceID) opr"
    using inspection_confined [OF example_inspected]
    by (auto simp: example_principals_def example_trimmed example_operations_def split: if_splits)
  then show ?thesis by (simp add: example_operations_def)
qed


end
