(* ===== verification/Operation_Exec.thy ===== *)
theory Operation_Exec
  imports Recovery_Planner Audit_Events
begin

text \<open>
  Execution of recovered operations: \<open>internal/operationexec/operation.go\<close>. The executor looks a handler up by
  operation type and phase and hands it a committer that reaches the durable store at most
  once. The store and the handlers are values of the configuration and so parameters here:
  the store a function on the state of the outside world, a handler a finite program of
  commit calls (\<open>handler_prog\<close>) that may react to what each call returns.
\<close>

section \<open>Errors and parameters\<close>

lemma Record_simps [simp]: "op_ID (Record (SanitizedForPersistence opr)) = op_ID opr"
  by (simp add: Record_def SanitizedForPersistence_def)

datatype exec_error =
    ErrUnsupportedOperationRecovery
  | ErrOperationAlreadyCommitted
  | ErrOperationCommitIDMismatch string string
  | ErrOperationCommitEventTypeMismatch OperationType "EventType option" EventType
  | ErrOperationHandlerAfterCommit exec_error
  | ExecText string
  | StoreFailure string
  | HandlerFailure string

text \<open>\<open>store.OperationWorkerCommitStore\<close>: \<open>CommitOperationWithLease\<close> on a state \<open>'w\<close> of the
  outside world.\<close>

type_synonym 'w commit_store =
  "'w \<Rightarrow> SanitizedOperationRecord \<Rightarrow> string \<Rightarrow> go_time \<Rightarrow> AuditEvent \<Rightarrow> 'w \<times> (exec_error + OperationRecord)"

datatype 'w handler_prog =
    Finish 'w "exec_error option"
  | CallCommit 'w SanitizedOperationRecord AuditEvent
      "'w \<Rightarrow> exec_error + OperationRecord \<Rightarrow> 'w handler_prog"

type_synonym 'w handler = "'w \<Rightarrow> OperationRecord \<Rightarrow> RecoveryPlan \<Rightarrow> 'w handler_prog"

section \<open>Configuration\<close>

record 'w Registration =
  reg_OperationType :: OperationType
  reg_Phase :: string
  reg_Handler :: "'w handler option"

record registrationKey =
  key_operationType :: OperationType
  key_phase :: string

record 'w ExecConfig =
  ec_CommitStore :: "'w commit_store option"
  ec_Owner :: string
  ec_Now :: go_time
  ec_Clock :: "('w \<Rightarrow> go_time) option"
  ec_Registrations :: "'w Registration list"

record 'w Executor =
  ex_commitStore :: "'w commit_store"
  ex_owner :: string
  ex_now :: go_time
  ex_clock :: "('w \<Rightarrow> go_time) option"
  ex_handlers :: "(registrationKey \<times> 'w handler) list"

definition knownOperationType :: "OperationType \<Rightarrow> bool" where
  "knownOperationType operationType \<longleftrightarrow> operationType \<in> set OperationTypes"

definition validateRegistration :: "'w Registration \<Rightarrow> exec_error + (registrationKey \<times> 'w handler)" where
  "validateRegistration registration =
     (let key = \<lparr>key_operationType = reg_OperationType registration,
                 key_phase = trim_space (reg_Phase registration)\<rparr> in
      if key_operationType key = OperationTypeOther []
        then Inl (ExecText ''operation recovery registration operation type is required'')
      else if \<not> knownOperationType (key_operationType key)
        then Inl (ExecText ''unknown operation recovery registration operation type'')
      else if key_phase key = []
        then Inl (ExecText ''operation recovery registration phase is required'')
      else case reg_Handler registration of
        None \<Rightarrow> Inl (ExecText ''operation recovery registration handler is required'')
      | Some handler \<Rightarrow> Inr (key, handler))"

fun register_all ::
    "(registrationKey \<times> 'w handler) list \<Rightarrow> 'w Registration list \<Rightarrow>
      exec_error + (registrationKey \<times> 'w handler) list" where
  "register_all handlers [] = Inr handlers"
| "register_all handlers (registration # rest) =
     (case validateRegistration registration of
        Inl err \<Rightarrow> Inl err
      | Inr (key, handler) \<Rightarrow>
          if key \<in> fst ` set handlers then Inl (ExecText ''duplicate operation recovery handler'')
          else register_all (handlers @ [(key, handler)]) rest)"

definition NewExecutor :: "'w ExecConfig \<Rightarrow> exec_error + 'w Executor" where
  "NewExecutor config =
     (case ec_CommitStore config of
        None \<Rightarrow> Inl (ExecText ''operation recovery commit store is required'')
      | Some store \<Rightarrow>
        let owner = trim_space (ec_Owner config) in
        if owner = [] then Inl (ExecText ''operation recovery owner is required'')
        else if is_zero (ec_Now config) \<and> ec_Clock config = None
          then Inl (ExecText ''operation recovery time or clock is required'')
        else case register_all [] (ec_Registrations config) of
          Inl err \<Rightarrow> Inl err
        | Inr handlers \<Rightarrow>
            Inr \<lparr>ex_commitStore = store, ex_owner = owner, ex_now = ec_Now config,
                 ex_clock = ec_Clock config, ex_handlers = handlers\<rparr>)"

definition keyForRecord :: "OperationRecord \<Rightarrow> registrationKey" where
  "keyForRecord opr = \<lparr>key_operationType = op_Type opr, key_phase = trim_space (op_Phase opr)\<rparr>"

record OperationSupport =
  support_Supported :: bool
  support_Reason :: string

text \<open>None is a nil executor.\<close>

definition SupportsOperationRecovery :: "'w Executor option \<Rightarrow> OperationRecord \<Rightarrow> OperationSupport" where
  "SupportsOperationRecovery executor opr =
     (case executor of
        None \<Rightarrow> \<lparr>support_Supported = False, support_Reason = ''unsupported_operation_recovery_handler''\<rparr>
      | Some ex \<Rightarrow>
          if map_of (ex_handlers ex) (keyForRecord opr) = None
          then \<lparr>support_Supported = False, support_Reason = ''unsupported_operation_recovery_handler''\<rparr>
          else \<lparr>support_Supported = True, support_Reason = []\<rparr>)"

section \<open>The committer\<close>

record 'w operationCommitter =
  cm_store :: "'w commit_store"
  cm_owner :: string
  cm_now :: go_time
  cm_operationID :: string
  cm_operationType :: OperationType
  cm_attempted :: bool
  cm_committed :: bool
  cm_err :: "exec_error option"

text \<open>The checks of \<open>Commit\<close> before the store is called.\<close>

definition commit_precheck :: "'w operationCommitter \<Rightarrow> SanitizedOperationRecord \<Rightarrow> AuditEvent \<Rightarrow> exec_error option" where
  "commit_precheck c rec event =
     (if cm_attempted c then Some ErrOperationAlreadyCommitted
      else if op_ID (Record rec) \<noteq> cm_operationID c
        then Some (ErrOperationCommitIDMismatch (cm_operationID c) (op_ID (Record rec)))
      else let want = EventTypeForOperationType (OperationType_String (cm_operationType c)) in
        if want \<noteq> Some (ev_Type event)
        then Some (ErrOperationCommitEventTypeMismatch (cm_operationType c) want (ev_Type event))
        else None)"

definition Commit ::
    "'w \<Rightarrow> 'w operationCommitter \<Rightarrow> SanitizedOperationRecord \<Rightarrow> AuditEvent \<Rightarrow>
      'w \<times> 'w operationCommitter \<times> (exec_error + OperationRecord)" where
  "Commit w c rec event =
     (case commit_precheck c rec event of
        Some err \<Rightarrow> (w, c\<lparr>cm_attempted := True, cm_err := Some err\<rparr>, Inl err)
      | None \<Rightarrow>
        case cm_store c w rec (cm_owner c) (cm_now c) event of
          (w', Inl err) \<Rightarrow> (w', c\<lparr>cm_attempted := True, cm_err := Some err\<rparr>, Inl err)
        | (w', Inr updated) \<Rightarrow> (w', c\<lparr>cm_attempted := True, cm_committed := True\<rparr>, Inr updated))"

primrec run_handler ::
    "'w handler_prog \<Rightarrow> 'w operationCommitter \<Rightarrow> 'w \<times> 'w operationCommitter \<times> exec_error option" where
  "run_handler (Finish w err) c = (w, c, err)"
| "run_handler (CallCommit w rec event k) c =
     (case Commit w c rec event of (w', c', res) \<Rightarrow> run_handler (k w' res) c')"

definition committer_for :: "'w Executor \<Rightarrow> OperationRecord \<Rightarrow> go_time \<Rightarrow> 'w operationCommitter" where
  "committer_for ex opr now =
     \<lparr>cm_store = ex_commitStore ex, cm_owner = ex_owner ex, cm_now = now,
      cm_operationID = op_ID opr, cm_operationType = op_Type opr,
      cm_attempted = False, cm_committed = False, cm_err = None\<rparr>"

definition execution_time :: "'w Executor \<Rightarrow> 'w \<Rightarrow> go_time" where
  "execution_time ex w = (case ex_clock ex of Some clock \<Rightarrow> clock w | None \<Rightarrow> ex_now ex)"

definition ExecuteOperationRecovery ::
    "'w Executor option \<Rightarrow> 'w \<Rightarrow> OperationRecord \<Rightarrow> RecoveryPlan \<Rightarrow> 'w \<times> exec_error option" where
  "ExecuteOperationRecovery executor w opr plan =
     (case executor of
        None \<Rightarrow> (w, Some ErrUnsupportedOperationRecovery)
      | Some ex \<Rightarrow>
      case map_of (ex_handlers ex) (keyForRecord opr) of
        None \<Rightarrow> (w, Some ErrUnsupportedOperationRecovery)
      | Some handler \<Rightarrow>
        let now = execution_time ex w in
        if is_zero now then (w, Some (ExecText ''operation recovery time must be set''))
        else
          case run_handler (handler w opr plan) (committer_for ex opr now) of
            (w', c, Some err) \<Rightarrow>
              (w', Some (if cm_committed c then ErrOperationHandlerAfterCommit err else err))
          | (w', c, None) \<Rightarrow>
              (w', case cm_err c of
                     Some err \<Rightarrow> Some err
                   | None \<Rightarrow>
                       if \<not> cm_committed c
                       then Some (ExecText ''operation recovery handler returned without durable commit'')
                       else None))"

section \<open>Calls that reach the store\<close>

text \<open>The arguments and result of each call of the store that a handler makes, in order.\<close>

type_synonym store_call = "SanitizedOperationRecord \<times> AuditEvent \<times> (exec_error + OperationRecord)"

primrec store_calls :: "'w handler_prog \<Rightarrow> 'w operationCommitter \<Rightarrow> store_call list" where
  "store_calls (Finish w err) c = []"
| "store_calls (CallCommit w rec event k) c =
     (case Commit w c rec event of
        (w', c', res) \<Rightarrow>
          (if commit_precheck c rec event = None then [(rec, event, res)] else []) @ store_calls (k w' res) c')"

lemma commit_precheck_attempted: "cm_attempted c \<Longrightarrow> commit_precheck c rec event = Some ErrOperationAlreadyCommitted"
  by (simp add: commit_precheck_def)

lemma Commit_attempted: "Commit w c rec event = (w', c', res) \<Longrightarrow> cm_attempted c'"
  by (auto simp: Commit_def split: option.splits prod.splits sum.splits)

lemma store_calls_attempted: "cm_attempted c \<Longrightarrow> store_calls p c = []"
proof (induction p arbitrary: c)
  case (Finish w err)
  then show ?case by simp
next
  case (CallCommit w rec event k)
  obtain w' c' res where C: "Commit w c rec event = (w', c', res)" by (cases "Commit w c rec event")
  have "store_calls (k w' res) c' = []"
    by (rule CallCommit.IH [OF rangeI rangeI Commit_attempted [OF C]])
  with C CallCommit.prems show ?case by (simp add: commit_precheck_attempted)
qed

lemma run_handler_attempted:
  "cm_attempted c \<Longrightarrow> run_handler p c = (w', c', e) \<Longrightarrow>
     cm_committed c' = cm_committed c \<and> (cm_err c' = cm_err c \<or> cm_err c' = Some ErrOperationAlreadyCommitted)"
proof (induction p arbitrary: c)
  case (Finish w err)
  then show ?case by simp
next
  case (CallCommit w rec event k)
  have C: "Commit w c rec event =
      (w, c\<lparr>cm_attempted := True, cm_err := Some ErrOperationAlreadyCommitted\<rparr>, Inl ErrOperationAlreadyCommitted)"
    using CallCommit.prems(1) by (simp add: Commit_def commit_precheck_attempted)
  then have run: "run_handler (k w (Inl ErrOperationAlreadyCommitted))
      (c\<lparr>cm_attempted := True, cm_err := Some ErrOperationAlreadyCommitted\<rparr>) = (w', c', e)"
    using CallCommit.prems(2) by simp
  show ?case using CallCommit.IH [OF rangeI rangeI _ run] by auto
qed

text \<open>What a fresh committer has done when the handler returns.\<close>

definition call_ok :: "'w operationCommitter \<Rightarrow> store_call \<Rightarrow> bool" where
  "call_ok c call =
     (case call of (rec, event, _) \<Rightarrow>
        op_ID (Record rec) = cm_operationID c \<and>
        EventTypeForOperationType (OperationType_String (cm_operationType c)) = Some (ev_Type event))"

lemma commit_precheck_None: "commit_precheck c rec event = None \<Longrightarrow> call_ok c (rec, event, res)"
  by (auto simp: commit_precheck_def call_ok_def Let_def split: if_splits)

lemma run_handler_fresh:
  assumes "\<not> cm_attempted c" "\<not> cm_committed c" "cm_err c = None" "run_handler p c = (w', c', e)"
  shows "store_calls p c = [] \<and> \<not> cm_committed c' \<or>
    (\<exists>rec event err. store_calls p c = [(rec, event, Inl err)] \<and> call_ok c (rec, event, Inl err) \<and>
       \<not> cm_committed c' \<and> cm_err c' \<noteq> None) \<or>
    (\<exists>rec event u. store_calls p c = [(rec, event, Inr u)] \<and> call_ok c (rec, event, Inr u) \<and>
       cm_committed c' \<and> cm_err c' \<in> {None, Some ErrOperationAlreadyCommitted})"
proof (cases p)
  case (Finish w err)
  with assms show ?thesis by simp
next
  case (CallCommit w rec event k)
  obtain v d res where C: "Commit w c rec event = (v, d, res)" by (cases "Commit w c rec event")
  note att = Commit_attempted [OF C]
  have run: "run_handler (k v res) d = (w', c', e)" using assms(4) CallCommit C by simp
  have rest: "store_calls (k v res) d = []" by (rule store_calls_attempted [OF att])
  have fin: "cm_committed c' = cm_committed d" "cm_err c' = cm_err d \<or> cm_err c' = Some ErrOperationAlreadyCommitted"
    using run_handler_attempted [OF att run] by auto
  show ?thesis
  proof (cases "commit_precheck c rec event")
    case (Some err)
    then have "\<not> cm_committed d" using C assms(2) by (auto simp: Commit_def)
    with Some CallCommit C rest fin show ?thesis by simp
  next
    case None
    then have calls: "store_calls p c = [(rec, event, res)]" using CallCommit C rest by simp
    have d: "case res of Inl err \<Rightarrow> \<not> cm_committed d \<and> cm_err d = Some err
        | Inr u \<Rightarrow> cm_committed d \<and> cm_err d = None"
      using None C assms(2,3) by (auto simp: Commit_def split: prod.splits sum.splits)
    show ?thesis
      using calls d fin commit_precheck_None [OF None] by (cases res) auto
  qed
qed

section \<open>Properties\<close>


lemma register_all_Inr:
  "register_all handlers regs = Inr hs \<Longrightarrow> distinct (map fst handlers) \<Longrightarrow>
     list_all (\<lambda>(k, h). knownOperationType (key_operationType k) \<and> key_phase k \<noteq> []) handlers \<Longrightarrow>
     distinct (map fst hs) \<and> list_all (\<lambda>(k, h). knownOperationType (key_operationType k) \<and> key_phase k \<noteq> []) hs \<and>
     fst ` set hs = fst ` set handlers \<union> (\<lambda>r. \<lparr>key_operationType = reg_OperationType r, key_phase = trim_space (reg_Phase r)\<rparr>) ` set regs"
proof (induction regs arbitrary: handlers)
  case Nil
  then show ?case by simp
next
  case (Cons r regs)
  obtain k h where v: "validateRegistration r = Inr (k, h)" "k \<notin> fst ` set handlers"
    and rest: "register_all (handlers @ [(k, h)]) regs = Inr hs"
    using Cons.prems(1) by (auto split: sum.splits if_splits)
  have k: "k = \<lparr>key_operationType = reg_OperationType r, key_phase = trim_space (reg_Phase r)\<rparr>"
    "knownOperationType (key_operationType k)" "key_phase k \<noteq> []"
    using v(1) by (auto simp: validateRegistration_def Let_def split: if_splits option.splits)
  have d: "distinct (map fst (handlers @ [(k, h)]))" using Cons.prems(2) v(2) by simp
  have l: "list_all (\<lambda>(k, h). knownOperationType (key_operationType k) \<and> key_phase k \<noteq> []) (handlers @ [(k, h)])"
    using Cons.prems(3) k by simp
  from Cons.IH [OF rest d l] k(1) show ?case by auto
qed

text \<open>A built executor dispatches on exactly its registrations: every registered pair of
  type and phase is known, not blank and registered once, an operation is supported exactly
  when its type and trimmed phase are registered, and executing any other operation changes
  nothing outside and returns the error for unsupported operations.\<close>

theorem executor_dispatch:
  assumes "NewExecutor config = Inr ex"
  shows "distinct (map fst (ex_handlers ex)) \<and>
    list_all (\<lambda>(k, h). key_operationType k \<in> set OperationTypes \<and> key_phase k \<noteq> []) (ex_handlers ex) \<and>
    (support_Supported (SupportsOperationRecovery (Some ex) opr) \<longleftrightarrow>
      list_ex (\<lambda>r. reg_OperationType r = op_Type opr \<and> trim_space (reg_Phase r) = trim_space (op_Phase opr))
        (ec_Registrations config)) \<and>
    (\<not> support_Supported (SupportsOperationRecovery (Some ex) opr) \<longrightarrow>
      ExecuteOperationRecovery (Some ex) w opr plan = (w, Some ErrUnsupportedOperationRecovery))"
proof -
  have reg: "register_all [] (ec_Registrations config) = Inr (ex_handlers ex)"
    using assms by (auto simp: NewExecutor_def Let_def split: option.splits if_splits sum.splits)
  note all = register_all_Inr [OF reg]
  have "map_of (ex_handlers ex) (keyForRecord opr) \<noteq> None \<longleftrightarrow> keyForRecord opr \<in> fst ` set (ex_handlers ex)"
    by (simp add: map_of_eq_None_iff)
  also have "\<dots> \<longleftrightarrow> list_ex (\<lambda>r. reg_OperationType r = op_Type opr \<and> trim_space (reg_Phase r) = trim_space (op_Phase opr))
        (ec_Registrations config)"
    using all by (simp add: list_ex_iff keyForRecord_def image_iff) metis
  finally have sup: "map_of (ex_handlers ex) (keyForRecord opr) \<noteq> None \<longleftrightarrow> \<dots>" .
  with all show ?thesis
    by (auto simp: SupportsOperationRecovery_def ExecuteOperationRecovery_def knownOperationType_def
        split: option.splits)
qed

text \<open>The audit trail can name every operation: each operation type has an event type of
  the closed list, and two operation types never share one, so the committer's check of the
  event type can always be met and identifies the operation type.\<close>

theorem audit_event_types_total:
  "list_all (\<lambda>t. case EventTypeForOperationType (OperationType_String t) of
      None \<Rightarrow> False | Some e \<Rightarrow> e \<in> set eventTypes) OperationTypes \<and>
   distinct (map (\<lambda>t. EventTypeForOperationType (OperationType_String t)) OperationTypes) \<and>
   length OperationTypes = length operationEventTypes"
  by (simp add: OperationTypes_def EventTypeForOperationType_def operationEventTypes_def eventTypes_def)

section \<open>A concrete executor\<close>

text \<open>A store that counts its commits and a handler that commits the record it was given.\<close>

definition example_store :: "nat commit_store" where
  "example_store n rec owner now event = (n + 1, Inr (Record rec))"

definition example_event :: AuditEvent where
  "example_event =
     \<lparr>ev_EventID = ''e1'', ev_Type = EventTypeRepoCreate, ev_Time = 50, ev_CallerService = ''svc'',
      ev_AuthorizedActor = \<lparr>actor_Type = ''user'', actor_ID = ''u1''\<rparr>, ev_CorrelationID = ''corr'',
      ev_OperationID = ''op_example'',
      ev_Resource = \<lparr>ares_Type = ''repo'', ares_ID = ''repo_demo'', ares_NamespaceID = ''ns_demo'', ares_Path = []\<rparr>,
      ev_Outcome = OutcomeSucceeded, ev_Reason = [], ev_Details = None\<rparr>"

definition example_handler :: "nat handler" where
  "example_handler n opr plan =
     CallCommit n (SanitizedForPersistence opr) example_event
       (\<lambda>n' res. Finish n' (case res of Inl e \<Rightarrow> Some e | Inr _ \<Rightarrow> None))"

definition example_config :: "nat ExecConfig" where
  "example_config =
     \<lparr>ec_CommitStore = Some example_store, ec_Owner = ''w1'', ec_Now = 50, ec_Clock = None,
      ec_Registrations = [\<lparr>reg_OperationType = OperationRepoCreate, reg_Phase = ''validate_repo_create'',
        reg_Handler = Some example_handler\<rparr>]\<rparr>"

definition example_executor :: "nat Executor" where
  "example_executor =
     \<lparr>ex_commitStore = example_store, ex_owner = ''w1'', ex_now = 50, ex_clock = None,
      ex_handlers = [(\<lparr>key_operationType = OperationRepoCreate, key_phase = ''validate_repo_create''\<rparr>, example_handler)]\<rparr>"

lemma trim_phase: "trim_space ''validate_repo_create'' = ''validate_repo_create''"
  by (simp add: trim_space_id is_space_byte_def byte_def)

lemma example_executor_new: "NewExecutor example_config = Inr example_executor"
  by (simp add: NewExecutor_def example_config_def example_executor_def validateRegistration_def trim_phase
      knownOperationType_def OperationTypes_def is_zero_def)

lemma example_key:
  "keyForRecord (example_op OperationStateRunning ''w1'' (Some 80)) =
     \<lparr>key_operationType = OperationRepoCreate, key_phase = ''validate_repo_create''\<rparr>"
  by (simp add: keyForRecord_def example_op_def trim_phase)

lemma example_exec:
  "ExecuteOperationRecovery (Some example_executor) 0 (example_op OperationStateRunning ''w1'' (Some 80)) plan = (1, None)"
  unfolding ExecuteOperationRecovery_def
  by (simp add: example_key) (simp add: example_executor_def execution_time_def is_zero_def example_handler_def
      Commit_def commit_precheck_def committer_for_def example_store_def example_op_def example_event_def
      EventTypeForOperationType_def operationEventTypes_def)


theorem executor_dispatch_witness:
  "support_Supported (SupportsOperationRecovery (Some example_executor) (example_op OperationStateRunning ''w1'' (Some 80)))"
  using executor_dispatch [OF example_executor_new, of "example_op OperationStateRunning ''w1'' (Some 80)" 0 "manual []"]
  by (simp add: example_config_def example_op_def trim_phase)

end
