(* ===== verification/Worker.thy ===== *)
theory Worker
  imports Prelude "HOL-Library.Sublist"
begin

text \<open>
  One pass of the worker: \<open>internal/worker/run_once.go\<close>. The six runners are interfaces of the
  configuration, so parameters: each is a function on the state of the outside world that
  returns its result and perhaps an error. The context is observed through \<open>ctx_err\<close>, which
  reads cancellation off the state of the world. The pass runs the evidence runners first
  (export sessions, stale mounts, restore reconciliation), then operation recovery only
  when the evidence is complete, then the audit runners.
\<close>

section \<open>Errors\<close>

text \<open>Errors as the code inspects them: \<open>errors.Is\<close> looks through wrapping and joining.\<close>

datatype go_err =
    ContextCanceled
  | ContextDeadlineExceeded
  | ErrText string
  | ErrWrap string go_err
  | ErrJoin "go_err list"

fun isContextError :: "go_err \<Rightarrow> bool" where
  "isContextError ContextCanceled = True"
| "isContextError ContextDeadlineExceeded = True"
| "isContextError (ErrText _) = False"
| "isContextError (ErrWrap _ e) = isContextError e"
| "isContextError (ErrJoin es) = list_ex isContextError es"

definition errors_Join :: "go_err list \<Rightarrow> go_err option" where
  "errors_Join errs = (if errs = [] then None else Some (ErrJoin errs))"

section \<open>Results\<close>

text \<open>The counters of the runners' results; the lists of individual items that some of them
  carry besides are not used by the worker.\<close>

record ExportSessionReconcileResult =
  esr_RecoveredRuntimeRequests :: go_int
  esr_RecoveredRuntimeWrites :: go_int
  esr_Scanned :: go_int
  esr_Terminalized :: go_int
  esr_Reused :: go_int
  esr_Skipped :: go_int
  esr_RaceLost :: go_int
  esr_Failed :: go_int

record OperationRecoveryResult =
  orr_Scanned :: go_int
  orr_Claimed :: go_int
  orr_Reclaimed :: go_int
  orr_Finalized :: go_int
  orr_Skipped :: go_int
  orr_Manual :: go_int
  orr_Unsupported :: go_int
  orr_RaceLost :: go_int
  orr_Failed :: go_int

record WorkloadMountStaleResult =
  wms_Scanned :: go_int
  wms_KeptBlocked :: go_int
  wms_Failed :: go_int

record RestoreReconciliationResult =
  rrr_Scanned :: go_int
  rrr_Completed :: go_int
  rrr_Blocked :: go_int
  rrr_Skipped :: go_int
  rrr_Failed :: go_int

record AuditStaleResult =
  asr_Recovered :: go_int
  asr_RetryWait :: go_int
  asr_FailedTerminal :: go_int
  asr_Failed :: go_int

record AuditDeliveryResult =
  adr_Claimed :: go_int
  adr_Delivered :: go_int
  adr_DeliveryFailuresRecorded :: go_int
  adr_Failed :: go_int

record WorkerResult =
  wr_ExportSessionReconcile :: ExportSessionReconcileResult
  wr_OperationRecovery :: OperationRecoveryResult
  wr_WorkloadMountStale :: WorkloadMountStaleResult
  wr_RestoreReconciliation :: RestoreReconciliationResult
  wr_AuditStaleRecovery :: AuditStaleResult
  wr_AuditDelivery :: AuditDeliveryResult

definition zero_result :: WorkerResult where
  "zero_result =
     \<lparr>wr_ExportSessionReconcile = \<lparr>esr_RecoveredRuntimeRequests = 0, esr_RecoveredRuntimeWrites = 0,
        esr_Scanned = 0, esr_Terminalized = 0, esr_Reused = 0, esr_Skipped = 0, esr_RaceLost = 0, esr_Failed = 0\<rparr>,
      wr_OperationRecovery = \<lparr>orr_Scanned = 0, orr_Claimed = 0, orr_Reclaimed = 0, orr_Finalized = 0,
        orr_Skipped = 0, orr_Manual = 0, orr_Unsupported = 0, orr_RaceLost = 0, orr_Failed = 0\<rparr>,
      wr_WorkloadMountStale = \<lparr>wms_Scanned = 0, wms_KeptBlocked = 0, wms_Failed = 0\<rparr>,
      wr_RestoreReconciliation = \<lparr>rrr_Scanned = 0, rrr_Completed = 0, rrr_Blocked = 0, rrr_Skipped = 0, rrr_Failed = 0\<rparr>,
      wr_AuditStaleRecovery = \<lparr>asr_Recovered = 0, asr_RetryWait = 0, asr_FailedTerminal = 0, asr_Failed = 0\<rparr>,
      wr_AuditDelivery = \<lparr>adr_Claimed = 0, adr_Delivered = 0, adr_DeliveryFailuresRecorded = 0, adr_Failed = 0\<rparr>\<rparr>"

type_synonym ('w, 'r) runner = "'w \<Rightarrow> 'w \<times> 'r \<times> go_err option"

record 'w WorkerConfig =
  wc_ExportSessionReconcile :: "('w, ExportSessionReconcileResult) runner option"
  wc_OperationRecovery :: "('w, OperationRecoveryResult) runner option"
  wc_WorkloadMountStale :: "('w, WorkloadMountStaleResult) runner option"
  wc_RestoreReconciliation :: "('w, RestoreReconciliationResult) runner option"
  wc_AuditStaleRecovery :: "('w, AuditStaleResult) runner option"
  wc_AuditDelivery :: "('w, AuditDeliveryResult) runner option"

section \<open>The pass\<close>

text \<open>The variables of \<open>RunOnce\<close>: the state of the world, \<open>result\<close> and \<open>errs\<close>; \<open>rs_log\<close> is
  a ghost variable with the runners called so far and the error each returned.\<close>

datatype phase = ExportPhase | MountPhase | RestorePhase | OperationPhase | StalePhase | DeliveryPhase

fun phase_name :: "phase \<Rightarrow> string" where
  "phase_name ExportPhase = ''export session reconcile''"
| "phase_name MountPhase = ''workload mount stale lease scan''"
| "phase_name RestorePhase = ''restore reconciliation''"
| "phase_name OperationPhase = ''operation recovery''"
| "phase_name StalePhase = ''audit stale recovery''"
| "phase_name DeliveryPhase = ''audit delivery''"

record 'w run_state =
  rs_world :: 'w
  rs_result :: WorkerResult
  rs_errs :: "go_err list"
  rs_log :: "(phase \<times> go_err option) list"

text \<open>The block each runner has in \<open>RunOnce\<close>; the first result says that the pass returns
  here. \<open>any_error\<close> is the audit stale runner's early return on every error.\<close>

definition run_phase ::
    "('w \<Rightarrow> go_err option) \<Rightarrow> phase \<Rightarrow> bool \<Rightarrow> ('w, 'r) runner option \<Rightarrow> ('r \<Rightarrow> WorkerResult \<Rightarrow> WorkerResult) \<Rightarrow>
      'w run_state \<Rightarrow> bool \<times> 'w run_state" where
  "run_phase ctx_err ph any_error runner set_result s =
     (case runner of
        None \<Rightarrow> (False, s)
      | Some run \<Rightarrow>
      case ctx_err (rs_world s) of
        Some err \<Rightarrow> (True, s\<lparr>rs_errs := rs_errs s @ [err]\<rparr>)
      | None \<Rightarrow>
      case run (rs_world s) of (w', r, e) \<Rightarrow>
        let s' = s\<lparr>rs_world := w', rs_result := set_result r (rs_result s), rs_log := rs_log s @ [(ph, e)]\<rparr> in
        case e of
          Some err \<Rightarrow>
            let s'' = s'\<lparr>rs_errs := rs_errs s' @ [ErrWrap (phase_name ph) err]\<rparr> in
            if any_error \<or> isContextError err then (True, s'')
            else (case ctx_err w' of Some cerr \<Rightarrow> (True, s''\<lparr>rs_errs := rs_errs s'' @ [cerr]\<rparr>) | None \<Rightarrow> (False, s''))
        | None \<Rightarrow>
            (case ctx_err w' of Some cerr \<Rightarrow> (True, s'\<lparr>rs_errs := rs_errs s' @ [cerr]\<rparr>) | None \<Rightarrow> (False, s')))"

text \<open>Sequencing with early return.\<close>

definition and_then ::
    "bool \<times> 'w run_state \<Rightarrow> ('w run_state \<Rightarrow> bool \<times> 'w run_state) \<Rightarrow> bool \<times> 'w run_state" where
  "and_then r k = (if fst r then r else k (snd r))"

definition evidence_phases ::
    "('w \<Rightarrow> go_err option) \<Rightarrow> 'w WorkerConfig \<Rightarrow> 'w run_state \<Rightarrow> bool \<times> 'w run_state" where
  "evidence_phases ctx_err config s =
     and_then (and_then (and_then
       (run_phase ctx_err ExportPhase False (wc_ExportSessionReconcile config)
         (\<lambda>r res. res\<lparr>wr_ExportSessionReconcile := r\<rparr>) s)
       (run_phase ctx_err MountPhase False (wc_WorkloadMountStale config)
         (\<lambda>r res. res\<lparr>wr_WorkloadMountStale := r\<rparr>)))
       (run_phase ctx_err RestorePhase False (wc_RestoreReconciliation config)
         (\<lambda>r res. res\<lparr>wr_RestoreReconciliation := r\<rparr>)))
       (\<lambda>s. (wc_RestoreReconciliation config \<noteq> None \<and>
              (0 < rrr_Blocked (wr_RestoreReconciliation (rs_result s)) \<or>
               0 < rrr_Failed (wr_RestoreReconciliation (rs_result s))), s))"

definition operation_phase ::
    "('w \<Rightarrow> go_err option) \<Rightarrow> 'w WorkerConfig \<Rightarrow> 'w run_state \<Rightarrow> bool \<times> 'w run_state" where
  "operation_phase ctx_err config s =
     (if rs_errs s = []
      then run_phase ctx_err OperationPhase False (wc_OperationRecovery config)
             (\<lambda>r res. res\<lparr>wr_OperationRecovery := r\<rparr>) s
      else (False, s))"

definition audit_phases ::
    "('w \<Rightarrow> go_err option) \<Rightarrow> 'w WorkerConfig \<Rightarrow> 'w run_state \<Rightarrow> bool \<times> 'w run_state" where
  "audit_phases ctx_err config s =
     and_then
       (run_phase ctx_err StalePhase True (wc_AuditStaleRecovery config)
         (\<lambda>r res. res\<lparr>wr_AuditStaleRecovery := r\<rparr>) s)
       (run_phase ctx_err DeliveryPhase False (wc_AuditDelivery config)
         (\<lambda>r res. res\<lparr>wr_AuditDelivery := r\<rparr>))"

definition start_state :: "'w \<Rightarrow> 'w run_state" where
  "start_state w = \<lparr>rs_world = w, rs_result = zero_result, rs_errs = [], rs_log = []\<rparr>"

definition run_pass :: "('w \<Rightarrow> go_err option) \<Rightarrow> 'w WorkerConfig \<Rightarrow> 'w \<Rightarrow> 'w run_state" where
  "run_pass ctx_err config w =
     snd (and_then (and_then (evidence_phases ctx_err config (start_state w))
       (operation_phase ctx_err config)) (audit_phases ctx_err config))"

definition no_runner :: "'w WorkerConfig \<Rightarrow> bool" where
  "no_runner config \<longleftrightarrow>
     wc_ExportSessionReconcile config = None \<and> wc_OperationRecovery config = None \<and>
     wc_WorkloadMountStale config = None \<and> wc_RestoreReconciliation config = None \<and>
     wc_AuditStaleRecovery config = None \<and> wc_AuditDelivery config = None"

definition RunOnce ::
    "('w \<Rightarrow> go_err option) \<Rightarrow> 'w WorkerConfig \<Rightarrow> 'w \<Rightarrow> 'w \<times> WorkerResult \<times> go_err option" where
  "RunOnce ctx_err config w =
     (if no_runner config then (w, zero_result, Some (ErrText ''worker run-once requires at least one runner''))
      else let s = run_pass ctx_err config w in (rs_world s, rs_result s, errors_Join (rs_errs s)))"

section \<open>What phases do to the log and the errors\<close>

text \<open>From \<open>s\<close> to \<open>s'\<close> only runners of \<open>ps\<close> were called, in that order and at most once each,
  the log and the errors only grew, and the error of each call is among the new errors.\<close>

definition extends :: "phase list \<Rightarrow> 'w run_state \<Rightarrow> 'w run_state \<Rightarrow> bool" where
  "extends ps s s' \<longleftrightarrow>
     (\<exists>l es. rs_log s' = rs_log s @ l \<and> rs_errs s' = rs_errs s @ es \<and> subseq (map fst l) ps \<and>
        (\<forall>ph e. (ph, Some e) \<in> set l \<longrightarrow> ErrWrap (phase_name ph) e \<in> set es))"

lemma extendsI:
  "rs_log s' = rs_log s @ l \<Longrightarrow> rs_errs s' = rs_errs s @ es \<Longrightarrow> subseq (map fst l) ps \<Longrightarrow>
     (\<And>ph e. (ph, Some e) \<in> set l \<Longrightarrow> ErrWrap (phase_name ph) e \<in> set es) \<Longrightarrow> extends ps s s'"
  unfolding extends_def by blast

lemma extends_refl: "extends ps s s"
  by (rule extendsI [of _ _ "[]" "[]"]) auto

lemma extends_trans:
  assumes "extends ps s s'" "extends qs s' s''"
  shows "extends (ps @ qs) s s''"
proof -
  obtain l es where a: "rs_log s' = rs_log s @ l" "rs_errs s' = rs_errs s @ es" "subseq (map fst l) ps"
    "\<And>ph e. (ph, Some e) \<in> set l \<Longrightarrow> ErrWrap (phase_name ph) e \<in> set es"
    using assms(1) by (auto simp: extends_def)
  obtain m fs where b: "rs_log s'' = rs_log s' @ m" "rs_errs s'' = rs_errs s' @ fs" "subseq (map fst m) qs"
    "\<And>ph e. (ph, Some e) \<in> set m \<Longrightarrow> ErrWrap (phase_name ph) e \<in> set fs"
    using assms(2) by (auto simp: extends_def)
  show ?thesis
    by (rule extendsI [of _ _ "l @ m" "es @ fs"]) (use a b list_emb_append_mono [OF a(3) b(3)] in auto)
qed

lemma run_phase_extends: "extends [ph] s (snd (run_phase ctx_err ph any runner setr s))"
proof (cases runner)
  case None
  then show ?thesis by (simp add: run_phase_def extends_refl)
next
  case run: (Some run)
  show ?thesis
  proof (cases "ctx_err (rs_world s)")
    case (Some err)
    with run show ?thesis by (intro extendsI [of _ _ "[]" "[err]"]) (simp_all add: run_phase_def)
  next
    case None
    obtain w' r e where r: "run (rs_world s) = (w', r, e)" by (cases "run (rs_world s)")
    let ?es = "(case e of None \<Rightarrow> [] | Some x \<Rightarrow> [ErrWrap (phase_name ph) x]) @
      (case (e, ctx_err w') of
         (Some x, c) \<Rightarrow> if any \<or> isContextError x then [] else (case c of None \<Rightarrow> [] | Some y \<Rightarrow> [y])
       | (None, c) \<Rightarrow> (case c of None \<Rightarrow> [] | Some y \<Rightarrow> [y]))"
    show ?thesis
      by (rule extendsI [of _ _ "[(ph, e)]" ?es])
        (use run None r in \<open>auto simp: run_phase_def Let_def split: option.splits\<close>)
  qed
qed

lemma and_then_extends:
  assumes "extends ps s (snd r)" "\<And>s'. extends qs s' (snd (k s'))"
  shows "extends (ps @ qs) s (snd (and_then r k))"
proof (cases "fst r")
  case True
  then show ?thesis
    using extends_trans [OF assms(1) extends_refl [of qs "snd r"]] by (simp add: and_then_def)
next
  case False
  then show ?thesis using extends_trans [OF assms(1) assms(2)] by (simp add: and_then_def)
qed

lemma snd_and_then_test [simp]: "snd (and_then r (\<lambda>s. (P s, s))) = snd r"
  by (simp add: and_then_def)

lemma fst_and_then_test [simp]: "fst (and_then r (\<lambda>s. (P s, s))) \<longleftrightarrow> fst r \<or> P (snd r)"
  by (simp add: and_then_def)

lemma evidence_extends: "extends [ExportPhase, MountPhase, RestorePhase] s (snd (evidence_phases ctx_err config s))"
  using and_then_extends [OF and_then_extends [OF run_phase_extends run_phase_extends] run_phase_extends]
  by (simp add: evidence_phases_def)

lemma operation_extends: "extends [OperationPhase] s (snd (operation_phase ctx_err config s))"
  by (simp add: operation_phase_def run_phase_extends extends_refl)

lemma audit_extends: "extends [StalePhase, DeliveryPhase] s (snd (audit_phases ctx_err config s))"
  using and_then_extends [OF run_phase_extends run_phase_extends] by (simp add: audit_phases_def)

lemma run_pass_extends:
  "extends [ExportPhase, MountPhase, RestorePhase, OperationPhase, StalePhase, DeliveryPhase]
     (start_state w) (run_pass ctx_err config w)"
  using and_then_extends [OF and_then_extends [OF evidence_extends operation_extends] audit_extends]
  by (simp add: run_pass_def)

lemma log_since:
  assumes "extends ps s s'" "ph \<notin> set ps"
  shows "(ph, e) \<in> set (rs_log s') \<longleftrightarrow> (ph, e) \<in> set (rs_log s)"
proof -
  obtain l where l: "rs_log s' = rs_log s @ l" "subseq (map fst l) ps"
    using assms(1) by (auto simp: extends_def)
  have "(ph, e) \<notin> set l"
    using assms(2) set_nths_subset l(2) list_emb_set [OF l(2)] by force
  then show ?thesis by (simp add: l(1))
qed

text \<open>A pass that reaches the operation runner has complete evidence.\<close>

lemma run_phase_restore_result:
  "\<not> fst (run_phase ctx_err ph any (Some run) setr s) \<Longrightarrow>
     \<exists>w' r e. run (rs_world s) = (w', r, e) \<and>
       rs_result (snd (run_phase ctx_err ph any (Some run) setr s)) = setr r (rs_result s)"
  by (cases "run (rs_world s)")
    (auto simp: run_phase_def Let_def split: option.splits if_splits)

lemma operation_phase_log:
  assumes "(OperationPhase, e) \<in> set (rs_log (snd (operation_phase ctx_err config s)))"
    "(OperationPhase, e) \<notin> set (rs_log s)"
  shows "rs_errs s = []"
  using assms by (auto simp: operation_phase_def split: if_splits)


lemma evidence_no_early_return:
  assumes "\<not> fst (evidence_phases ctx_err config s)"
  shows "wc_RestoreReconciliation config \<noteq> None \<longrightarrow>
    rrr_Blocked (wr_RestoreReconciliation (rs_result (snd (evidence_phases ctx_err config s)))) \<le> 0 \<and>
    rrr_Failed (wr_RestoreReconciliation (rs_result (snd (evidence_phases ctx_err config s)))) \<le> 0"
  using assms unfolding evidence_phases_def snd_and_then_test fst_and_then_test by (auto simp: not_less)

text \<open>The restore result is set by its own phase only.\<close>

lemma run_phase_result:
  "(\<And>r res. sel (setr r res) = sel res) \<Longrightarrow>
     sel (rs_result (snd (run_phase ctx_err ph any runner setr s))) = sel (rs_result s)"
  by (auto simp: run_phase_def Let_def split: option.splits prod.splits)

lemma and_then_result:
  "(\<And>s. sel (rs_result (snd (k s))) = sel (rs_result s)) \<Longrightarrow>
     sel (rs_result (snd (and_then r k))) = sel (rs_result (snd r))"
  by (simp add: and_then_def)

lemma operation_keeps_restore:
  "wr_RestoreReconciliation (rs_result (snd (operation_phase ctx_err config s))) = wr_RestoreReconciliation (rs_result s)"
  by (simp add: operation_phase_def run_phase_result)

lemma audit_keeps_restore:
  "wr_RestoreReconciliation (rs_result (snd (audit_phases ctx_err config s))) = wr_RestoreReconciliation (rs_result s)"
  unfolding audit_phases_def
  by (subst and_then_result [where sel = wr_RestoreReconciliation]) (simp_all add: run_phase_result)

lemma run_pass_restore:
  "wr_RestoreReconciliation (rs_result (run_pass ctx_err config w)) =
     wr_RestoreReconciliation (rs_result (snd (evidence_phases ctx_err config (start_state w))))"
  unfolding run_pass_def
  by (subst and_then_result [where sel = wr_RestoreReconciliation], rule audit_keeps_restore)
    (rule and_then_result [where sel = wr_RestoreReconciliation], rule operation_keeps_restore)

lemma and_then_stays: "fst r \<Longrightarrow> and_then r k = r"
  by (simp add: and_then_def)

lemma run_pass_log_operation:
  assumes "(OperationPhase, e) \<in> set (rs_log (run_pass ctx_err config w))"
  shows "\<not> fst (evidence_phases ctx_err config (start_state w))
    \<and> rs_errs (snd (evidence_phases ctx_err config (start_state w))) = []"
proof -
  let ?ev = "evidence_phases ctx_err config (start_state w)"
  let ?op = "and_then ?ev (operation_phase ctx_err config)"
  have x: "(OperationPhase, e) \<in> set (rs_log (snd ?op))"
  proof (cases "fst ?op")
    case True
    with assms show ?thesis by (simp add: run_pass_def and_then_stays)
  next
    case False
    with assms log_since [OF audit_extends [of "snd ?op" ctx_err config], of OperationPhase e] show ?thesis
      by (simp add: run_pass_def and_then_def [of ?op])
  qed
  have y: "(OperationPhase, e) \<notin> set (rs_log (snd ?ev))"
    using log_since [OF evidence_extends [of "start_state w" ctx_err config], of OperationPhase e] by (simp add: start_state_def)
  have nf: "\<not> fst ?ev" using x y and_then_stays by metis
  with x y show ?thesis
    using operation_phase_log [of e ctx_err config "snd ?ev"] by (simp add: and_then_def)
qed

lemma evidence_errors:
  "(ph, Some x) \<in> set (rs_log (snd (evidence_phases ctx_err config (start_state w)))) \<Longrightarrow>
     rs_errs (snd (evidence_phases ctx_err config (start_state w))) \<noteq> []"
  using evidence_extends [of "start_state w" ctx_err config]
  by (force simp: extends_def start_state_def)

lemma run_pass_log_evidence:
  assumes "ph \<in> {ExportPhase, MountPhase, RestorePhase}"
  shows "(ph, x) \<in> set (rs_log (run_pass ctx_err config w)) \<longleftrightarrow>
    (ph, x) \<in> set (rs_log (snd (evidence_phases ctx_err config (start_state w))))"
proof -
  let ?ev = "evidence_phases ctx_err config (start_state w)"
  have a: "\<And>s. (ph, x) \<in> set (rs_log (snd (operation_phase ctx_err config s))) \<longleftrightarrow> (ph, x) \<in> set (rs_log s)"
    by (rule log_since [OF operation_extends]) (use assms in auto)
  have b: "\<And>s. (ph, x) \<in> set (rs_log (snd (audit_phases ctx_err config s))) \<longleftrightarrow> (ph, x) \<in> set (rs_log s)"
    by (rule log_since [OF audit_extends]) (use assms in auto)
  show ?thesis by (simp add: run_pass_def and_then_def a b)
qed

text \<open>Runners that return no context error do not end a pass whose context stays alive.\<close>

definition quiet :: "('w, 'r) runner option \<Rightarrow> bool" where
  "quiet runner \<longleftrightarrow> (\<forall>run w e. runner = Some run \<and> snd (snd (run w)) = Some e \<longrightarrow> \<not> isContextError e)"

lemma quiet_run_phase:
  assumes "\<And>w. ctx_err w = None" "quiet runner"
  shows "\<not> fst (run_phase ctx_err ph False runner setr s)"
proof (cases runner)
  case (Some run)
  obtain w' r e where r: "run (rs_world s) = (w', r, e)" by (cases "run (rs_world s)")
  then have "e = Some x \<Longrightarrow> \<not> isContextError x" for x
    using assms(2) Some by (auto simp: quiet_def dest: spec [of _ "rs_world s"])
  with Some r assms(1) show ?thesis by (auto simp: run_phase_def Let_def split: option.split)
qed (simp add: run_phase_def)

lemma and_then_goes: "\<not> fst r \<Longrightarrow> and_then r k = k (snd r)"
  by (simp add: and_then_def)

lemma run_phase_logs:
  "ctx_err (rs_world s) = None \<Longrightarrow>
     (ph, snd (snd (run (rs_world s)))) \<in> set (rs_log (snd (run_phase ctx_err ph any (Some run) setr s)))"
  by (cases "run (rs_world s)") (auto simp: run_phase_def Let_def split: option.split)

lemma quiet_stale_phase:
  assumes "\<And>w. ctx_err w = None" "snd (snd (run (rs_world s))) = None"
  shows "\<not> fst (run_phase ctx_err ph any (Some run) setr s)"
  using assms by (cases "run (rs_world s)") (auto simp: run_phase_def Let_def)

lemma quiet_evidence:
  assumes "\<And>w. ctx_err w = None"
    "quiet (wc_ExportSessionReconcile config)" "quiet (wc_WorkloadMountStale config)"
    "quiet (wc_RestoreReconciliation config)"
    "\<And>run w. wc_RestoreReconciliation config = Some run \<Longrightarrow> rrr_Blocked (fst (snd (run w))) \<le> 0 \<and> rrr_Failed (fst (snd (run w))) \<le> 0"
  shows "\<not> fst (evidence_phases ctx_err config s)"
proof (cases "wc_RestoreReconciliation config")
  case None
  then show ?thesis using assms
    by (simp add: evidence_phases_def and_then_goes quiet_run_phase)
next
  case (Some run)
  note q = quiet_run_phase [OF assms(1)]
  define s1 where "s1 = snd (run_phase ctx_err MountPhase False (wc_WorkloadMountStale config)
         (\<lambda>r res. res\<lparr>wr_WorkloadMountStale := r\<rparr>)
         (snd (run_phase ctx_err ExportPhase False (wc_ExportSessionReconcile config)
           (\<lambda>r res. res\<lparr>wr_ExportSessionReconcile := r\<rparr>) s)))"
  have qr: "\<not> fst (run_phase ctx_err RestorePhase False (Some run) (\<lambda>r res. res\<lparr>wr_RestoreReconciliation := r\<rparr>) s1)"
    using q assms(4) Some by simp
  from run_phase_restore_result [OF qr] obtain w' r e where r: "run (rs_world s1) = (w', r, e)"
    "rs_result (snd (run_phase ctx_err RestorePhase False (Some run) (\<lambda>r res. res\<lparr>wr_RestoreReconciliation := r\<rparr>) s1)) =
       (rs_result s1)\<lparr>wr_RestoreReconciliation := r\<rparr>" by blast
  have "rrr_Blocked r \<le> 0 \<and> rrr_Failed r \<le> 0" using assms(5) [OF Some, of "rs_world s1"] r(1) by simp
  then show ?thesis
    using qr r(2)
    by (simp add: evidence_phases_def Some and_then_goes q assms(2,3) s1_def [symmetric] not_less)
qed

section \<open>Properties\<close>

text \<open>A pass in which the operation runner finds nothing and every other runner succeeds.\<close>

definition idle_config :: "nat WorkerConfig" where
  "idle_config =
     \<lparr>wc_ExportSessionReconcile = Some (\<lambda>w. (Suc w, wr_ExportSessionReconcile zero_result, None)),
      wc_OperationRecovery = Some (\<lambda>w. (Suc w, wr_OperationRecovery zero_result, None)),
      wc_WorkloadMountStale = Some (\<lambda>w. (Suc w, wr_WorkloadMountStale zero_result, None)),
      wc_RestoreReconciliation = Some (\<lambda>w. (Suc w, wr_RestoreReconciliation zero_result, None)),
      wc_AuditStaleRecovery = Some (\<lambda>w. (Suc w, wr_AuditStaleRecovery zero_result, None)),
      wc_AuditDelivery = Some (\<lambda>w. (Suc w, wr_AuditDelivery zero_result, None))\<rparr>"

lemmas idle_simps = run_pass_def evidence_phases_def operation_phase_def audit_phases_def run_phase_def
  and_then_def start_state_def idle_config_def zero_result_def

text \<open>C29. Operation recovery is started only on complete evidence: when the pass called the
  operation runner, no export, mount or restore runner of the pass returned an error and the
  restore reconciliation reported no blocked and no failed restore.\<close>

theorem operation_recovery_needs_evidence:
  assumes "(OperationPhase, e) \<in> set (rs_log (run_pass ctx_err config w))"
  shows "(\<forall>ph x. (ph, Some x) \<in> set (rs_log (run_pass ctx_err config w)) \<longrightarrow>
            ph \<notin> {ExportPhase, MountPhase, RestorePhase}) \<and>
    (wc_RestoreReconciliation config \<noteq> None \<longrightarrow>
       rrr_Blocked (wr_RestoreReconciliation (rs_result (run_pass ctx_err config w))) \<le> 0 \<and>
       rrr_Failed (wr_RestoreReconciliation (rs_result (run_pass ctx_err config w))) \<le> 0)"
proof (intro conjI allI impI)
  fix ph x assume x: "(ph, Some x) \<in> set (rs_log (run_pass ctx_err config w))"
  show "ph \<notin> {ExportPhase, MountPhase, RestorePhase}"
  proof
    assume "ph \<in> {ExportPhase, MountPhase, RestorePhase}"
    from run_pass_log_evidence [OF this, of "Some x" ctx_err config w] x
    have "(ph, Some x) \<in> set (rs_log (snd (evidence_phases ctx_err config (start_state w))))" by simp
    from evidence_errors [OF this] run_pass_log_operation [OF assms] show False by simp
  qed
qed (use evidence_no_early_return [OF conjunct1 [OF run_pass_log_operation [OF assms]]] in \<open>simp_all add: run_pass_restore\<close>)

theorem operation_recovery_needs_evidence_witness:
  "rrr_Blocked (wr_RestoreReconciliation (rs_result (run_pass (\<lambda>_. None) idle_config 0))) \<le> 0"
  using operation_recovery_needs_evidence [of None "\<lambda>_. None" idle_config 0]
  by (simp add: idle_simps)

text \<open>C30. Every call of a pass is accounted for: the runners are called at most once each and in
  the fixed order, the error of every call is part of the joined error of \<open>RunOnce\<close>, and so
  a pass that reports success had no failing runner.\<close>

theorem worker_pass_accounted:
  "subseq (map fst (rs_log (run_pass ctx_err config w)))
     [ExportPhase, MountPhase, RestorePhase, OperationPhase, StalePhase, DeliveryPhase] \<and>
   (\<forall>ph x. \<not> no_runner config \<and> (ph, Some x) \<in> set (rs_log (run_pass ctx_err config w)) \<longrightarrow>
      (\<exists>errs. snd (snd (RunOnce ctx_err config w)) = Some (ErrJoin errs) \<and> ErrWrap (phase_name ph) x \<in> set errs)) \<and>
   (snd (snd (RunOnce ctx_err config w)) = None \<longrightarrow>
      (\<forall>ph x. (ph, x) \<in> set (rs_log (run_pass ctx_err config w)) \<longrightarrow> x = None))"
proof -
  obtain l es where l: "rs_log (run_pass ctx_err config w) = l" "rs_errs (run_pass ctx_err config w) = es"
    and s: "subseq (map fst l) [ExportPhase, MountPhase, RestorePhase, OperationPhase, StalePhase, DeliveryPhase]"
    and e: "\<And>ph x. (ph, Some x) \<in> set l \<Longrightarrow> ErrWrap (phase_name ph) x \<in> set es"
    using run_pass_extends [of w ctx_err config] by (auto simp: extends_def start_state_def)
  have j: "\<not> no_runner config \<Longrightarrow> snd (snd (RunOnce ctx_err config w)) = errors_Join es"
    by (simp add: RunOnce_def Let_def l)
  have n: "no_runner config \<Longrightarrow> snd (snd (RunOnce ctx_err config w)) \<noteq> None"
    by (simp add: RunOnce_def)
  show ?thesis
  proof (intro conjI allI impI)
    fix ph x
    assume "\<not> no_runner config \<and> (ph, Some x) \<in> set (rs_log (run_pass ctx_err config w))"
    then show "\<exists>errs. snd (snd (RunOnce ctx_err config w)) = Some (ErrJoin errs) \<and> ErrWrap (phase_name ph) x \<in> set errs"
      using e j by (fastforce simp: errors_Join_def l)
  next
    fix ph x
    assume a: "snd (snd (RunOnce ctx_err config w)) = None" "(ph, x) \<in> set (rs_log (run_pass ctx_err config w))"
    then have "errors_Join es = None" using n j by fastforce
    then have "es = []" by (simp add: errors_Join_def split: if_splits)
    with a(2) e show "x = None" by (cases x) (auto simp: l)
  qed (use s l in simp)
qed

theorem worker_pass_accounted_witness:
  "rs_log (run_pass (\<lambda>_. None) idle_config 0) =
     [(ExportPhase, None), (MountPhase, None), (RestorePhase, None), (OperationPhase, None), (StalePhase, None), (DeliveryPhase, None)]
   \<and> snd (snd (RunOnce (\<lambda>_. None) idle_config 0)) = None
   \<and> list_all (\<lambda>(ph, x). x = None) (rs_log (run_pass (\<lambda>_. None) idle_config 0))"
proof -
  have "snd (snd (RunOnce (\<lambda>_. None) idle_config 0)) = None"
    by (simp add: RunOnce_def no_runner_def errors_Join_def idle_simps)
  moreover have "rs_log (run_pass (\<lambda>_. None) idle_config 0) =
     [(ExportPhase, None), (MountPhase, None), (RestorePhase, None), (OperationPhase, None), (StalePhase, None), (DeliveryPhase, None)]"
    by (simp add: idle_simps)
  ultimately show ?thesis
    using worker_pass_accounted [of "\<lambda>_. None" idle_config 0] by (auto simp: list_all_iff)
qed

text \<open>Errors of the evidence and operation runners do not starve the audit runners: while the
  context is alive, no runner reports a context error and no restore is blocked or failed,
  every pass calls the audit stale recovery, and the audit delivery unless stale recovery
  failed.\<close>

theorem audit_phases_reached:
  assumes ctx: "\<And>w. ctx_err w = None"
    and quiet: "quiet (wc_ExportSessionReconcile config)" "quiet (wc_WorkloadMountStale config)"
      "quiet (wc_RestoreReconciliation config)" "quiet (wc_OperationRecovery config)"
    and restore: "\<And>run w. wc_RestoreReconciliation config = Some run \<Longrightarrow>
      rrr_Blocked (fst (snd (run w))) \<le> 0 \<and> rrr_Failed (fst (snd (run w))) \<le> 0"
    and audit: "wc_AuditStaleRecovery config = Some stale" "wc_AuditDelivery config = Some deliver"
  shows "\<exists>e. (StalePhase, e) \<in> set (rs_log (run_pass ctx_err config w)) \<and>
    (e = None \<longrightarrow> (\<exists>d. (DeliveryPhase, d) \<in> set (rs_log (run_pass ctx_err config w))))"
proof -
  let ?ev = "evidence_phases ctx_err config (start_state w)"
  let ?s = "snd (operation_phase ctx_err config (snd ?ev))"
  let ?st = "run_phase ctx_err StalePhase True (Some stale) (\<lambda>r res. res\<lparr>wr_AuditStaleRecovery := r\<rparr>) ?s"
  let ?dl = "run_phase ctx_err DeliveryPhase False (Some deliver) (\<lambda>r res. res\<lparr>wr_AuditDelivery := r\<rparr>)"
  have op: "\<not> fst (operation_phase ctx_err config (snd ?ev))"
    by (simp add: operation_phase_def quiet_run_phase [OF ctx quiet(4)])
  have ev: "\<not> fst ?ev"
    by (rule quiet_evidence) (use ctx quiet restore in simp_all)
  have p: "run_pass ctx_err config w = snd (and_then ?st ?dl)"
    using ev op by (simp add: run_pass_def and_then_goes audit_phases_def audit)
  have st: "(StalePhase, snd (snd (stale (rs_world ?s)))) \<in> set (rs_log (snd ?st))"
    by (rule run_phase_logs) (rule ctx)
  have keep: "\<And>x. (StalePhase, x) \<in> set (rs_log (snd (?dl (snd ?st)))) \<longleftrightarrow> (StalePhase, x) \<in> set (rs_log (snd ?st))"
    by (rule log_since [OF run_phase_extends]) simp
  show ?thesis
  proof (cases "fst ?st")
    case True
    then have "snd (snd (stale (rs_world ?s))) \<noteq> None" using quiet_stale_phase [of ctx_err stale ?s] ctx by blast
    with True st p show ?thesis by (auto simp: and_then_stays)
  next
    case False
    have "(DeliveryPhase, snd (snd (deliver (rs_world (snd ?st))))) \<in> set (rs_log (snd (?dl (snd ?st))))"
      by (rule run_phase_logs) (rule ctx)
    with False st keep p show ?thesis by (auto simp: and_then_goes)
  qed
qed

definition failing_scan :: "nat WorkerConfig" where
  "failing_scan = idle_config\<lparr>wc_ExportSessionReconcile :=
     Some (\<lambda>w. (w, wr_ExportSessionReconcile zero_result, Some (ErrText ''scan failed'')))\<rparr>"

theorem audit_phases_reached_witness:
  "\<exists>e. (StalePhase, e) \<in> set (rs_log (run_pass (\<lambda>_. None) failing_scan 0))"
proof -
  have "\<exists>e. (StalePhase, e) \<in> set (rs_log (run_pass (\<lambda>_. None) failing_scan 0)) \<and>
     (e = None \<longrightarrow> (\<exists>d. (DeliveryPhase, d) \<in> set (rs_log (run_pass (\<lambda>_. None) failing_scan 0))))"
    by (rule audit_phases_reached) (auto simp: failing_scan_def idle_config_def quiet_def zero_result_def)
  then show ?thesis by blast
qed

end
