(* ===== verification/Json_Check.thy ===== *)
theory Json_Check
  imports Prelude
begin

text \<open>
  \<open>json.Unmarshal\<close> into a \<open>map[string]any\<close>, as far as the control plane asks whether it
  succeeds: the scanner of \<open>encoding/json\<close> (one step per byte, with a stack of the open
  objects and arrays and the limit on their number), the type of the value at the top, and
  the range of the numbers, which are decoded as \<open>float64\<close>.
\<close>

section \<open>The scanner\<close>

datatype parse_state = ParseObjectKey | ParseObjectValue | ParseArrayValue

datatype scan_state =
    BeginValue | BeginValueOrEmpty | BeginString | BeginStringOrEmpty | EndValue | EndTop
  | InString | InStringEsc | InStringEscU nat
  | NumNeg | NumInt | NumZero | NumDot | NumDot0 | NumE | NumESign | NumE0
  | InLiteral string

type_synonym scanner = "scan_state \<times> parse_state list"

definition json_space :: "char \<Rightarrow> bool" where
  "json_space c \<longleftrightarrow> byte c \<in> {32, 9, 10, 13}"

definition json_digit :: "char \<Rightarrow> bool" where
  "json_digit c \<longleftrightarrow> 48 \<le> byte c \<and> byte c \<le> 57"

definition json_hex :: "char \<Rightarrow> bool" where
  "json_hex c \<longleftrightarrow> json_digit c \<or> (97 \<le> byte c \<and> byte c \<le> 102) \<or> (65 \<le> byte c \<and> byte c \<le> 70)"

definition maxNestingDepth :: int where
  "maxNestingDepth = 10000"

definition pushParseState :: "parse_state \<Rightarrow> scan_state \<Rightarrow> parse_state list \<Rightarrow> scanner option" where
  "pushParseState p next stack = (if int (length stack) < maxNestingDepth then Some (next, p # stack) else None)"

definition popParseState :: "parse_state list \<Rightarrow> scanner option" where
  "popParseState stack = (case stack of [] \<Rightarrow> None | [_] \<Rightarrow> Some (EndTop, []) | _ # rest \<Rightarrow> Some (EndValue, rest))"

definition end_value :: "parse_state list \<Rightarrow> char \<Rightarrow> scanner option" where
  "end_value stack c =
     (case stack of
        [] \<Rightarrow> if json_space c then Some (EndTop, []) else None
      | p # rest \<Rightarrow>
        if json_space c then Some (EndValue, stack)
        else case p of
          ParseObjectKey \<Rightarrow> if c = CHR '':'' then Some (BeginValue, ParseObjectValue # rest) else None
        | ParseObjectValue \<Rightarrow>
            if c = CHR '','' then Some (BeginString, ParseObjectKey # rest)
            else if c = CHR ''}'' then popParseState stack else None
        | ParseArrayValue \<Rightarrow>
            if c = CHR '','' then Some (BeginValue, stack)
            else if c = CHR '']'' then popParseState stack else None)"

definition begin_value :: "parse_state list \<Rightarrow> char \<Rightarrow> scanner option" where
  "begin_value stack c =
     (if json_space c then Some (BeginValue, stack)
      else if c = CHR ''{'' then pushParseState ParseObjectKey BeginStringOrEmpty stack
      else if c = CHR ''['' then pushParseState ParseArrayValue BeginValueOrEmpty stack
      else if c = CHR 0x22 then Some (InString, stack)
      else if c = CHR ''-'' then Some (NumNeg, stack)
      else if c = CHR ''0'' then Some (NumZero, stack)
      else if json_digit c then Some (NumInt, stack)
      else if c = CHR ''t'' then Some (InLiteral ''rue'', stack)
      else if c = CHR ''f'' then Some (InLiteral ''alse'', stack)
      else if c = CHR ''n'' then Some (InLiteral ''ull'', stack)
      else None)"

definition begin_string :: "parse_state list \<Rightarrow> char \<Rightarrow> scanner option" where
  "begin_string stack c =
     (if json_space c then Some (BeginString, stack)
      else if c = CHR 0x22 then Some (InString, stack) else None)"

definition number_end :: "parse_state list \<Rightarrow> char \<Rightarrow> scanner option" where
  "number_end stack c =
     (if c = CHR ''.'' then Some (NumDot, stack)
      else if c = CHR ''e'' \<or> c = CHR ''E'' then Some (NumE, stack)
      else end_value stack c)"

definition exponent_sign :: "parse_state list \<Rightarrow> char \<Rightarrow> scanner option" where
  "exponent_sign stack c = (if json_digit c then Some (NumE0, stack) else None)"

fun scan_step :: "scanner \<Rightarrow> char \<Rightarrow> scanner option" where
  "scan_step (BeginValue, stack) c = begin_value stack c"
| "scan_step (BeginValueOrEmpty, stack) c =
     (if json_space c then Some (BeginValueOrEmpty, stack)
      else if c = CHR '']'' then end_value stack c else begin_value stack c)"
| "scan_step (BeginString, stack) c = begin_string stack c"
| "scan_step (BeginStringOrEmpty, stack) c =
     (if json_space c then Some (BeginStringOrEmpty, stack)
      else if c = CHR ''}'' then end_value (ParseObjectValue # tl stack) c else begin_string stack c)"
| "scan_step (EndValue, stack) c = end_value stack c"
| "scan_step (EndTop, stack) c = (if json_space c then Some (EndTop, stack) else None)"
| "scan_step (InString, stack) c =
     (if c = CHR 0x22 then Some (EndValue, stack)
      else if c = CHR 0x5C then Some (InStringEsc, stack)
      else if byte c < 32 then None else Some (InString, stack))"
| "scan_step (InStringEsc, stack) c =
     (if c \<in> {CHR ''b'', CHR ''f'', CHR ''n'', CHR ''r'', CHR ''t'', CHR 0x5C, CHR ''/'', CHR 0x22}
      then Some (InString, stack)
      else if c = CHR ''u'' then Some (InStringEscU 4, stack) else None)"
| "scan_step (InStringEscU n, stack) c =
     (if json_hex c then Some (if n \<le> 1 then InString else InStringEscU (n - 1), stack) else None)"
| "scan_step (NumNeg, stack) c =
     (if c = CHR ''0'' then Some (NumZero, stack)
      else if json_digit c then Some (NumInt, stack) else None)"
| "scan_step (NumInt, stack) c = (if json_digit c then Some (NumInt, stack) else number_end stack c)"
| "scan_step (NumZero, stack) c = number_end stack c"
| "scan_step (NumDot, stack) c = (if json_digit c then Some (NumDot0, stack) else None)"
| "scan_step (NumDot0, stack) c =
     (if json_digit c then Some (NumDot0, stack)
      else if c = CHR ''e'' \<or> c = CHR ''E'' then Some (NumE, stack)
      else end_value stack c)"
| "scan_step (NumE, stack) c =
     (if c = CHR ''+'' \<or> c = CHR ''-'' then Some (NumESign, stack) else exponent_sign stack c)"
| "scan_step (NumESign, stack) c = exponent_sign stack c"
| "scan_step (NumE0, stack) c = (if json_digit c then Some (NumE0, stack) else end_value stack c)"
| "scan_step (InLiteral rest, stack) c =
     (case rest of
        [] \<Rightarrow> None
      | d # ds \<Rightarrow> if c = d then Some (if ds = [] then EndValue else InLiteral ds, stack) else None)"

fun scan_all :: "scanner \<Rightarrow> string \<Rightarrow> scanner option" where
  "scan_all s [] = Some s"
| "scan_all s (c # cs) = (case scan_step s c of None \<Rightarrow> None | Some s' \<Rightarrow> scan_all s' cs)"

text \<open>At the end of the text the scanner takes one more step on a space.\<close>

definition checkValid :: "string \<Rightarrow> bool" where
  "checkValid data =
     (case scan_all (BeginValue, []) data of
        None \<Rightarrow> False
      | Some s \<Rightarrow> fst s = EndTop \<or> (case scan_step s (CHR '' '') of Some (EndTop, _) \<Rightarrow> True | _ \<Rightarrow> False))"

section \<open>Numbers\<close>

text \<open>The number literals of a valid text: outside strings, a digit or minus sign starts one.\<close>

definition number_char :: "char \<Rightarrow> bool" where
  "number_char c \<longleftrightarrow> json_digit c \<or> c \<in> set ''+-.eE''"

datatype text_mode = Plain | Quoted | Escaped | Numeral string

fun number_literals :: "text_mode \<Rightarrow> string \<Rightarrow> string list" where
  "number_literals (Numeral acc) [] = [rev acc]"
| "number_literals mode [] = []"
| "number_literals Plain (c # cs) =
     (if c = CHR 0x22 then number_literals Quoted cs
      else if json_digit c \<or> c = CHR ''-'' then number_literals (Numeral [c]) cs
      else number_literals Plain cs)"
| "number_literals Quoted (c # cs) =
     number_literals (if c = CHR 0x22 then Plain else if c = CHR 0x5C then Escaped else Quoted) cs"
| "number_literals Escaped (c # cs) = number_literals Quoted cs"
| "number_literals (Numeral acc) (c # cs) =
     (if number_char c then number_literals (Numeral (c # acc)) cs
      else rev acc # number_literals (if c = CHR 0x22 then Quoted else Plain) cs)"

definition digits_value :: "string \<Rightarrow> int" where
  "digits_value s = foldl (\<lambda>n c. n * 10 + (int (byte c) - 48)) 0 s"

text \<open>\<open>strconv.ParseFloat\<close> fails on a JSON number exactly when its magnitude rounds to infinity.\<close>

definition float_limit :: int where
  "float_limit = 2 ^ 1024 - 2 ^ 970"

definition number_in_range :: "string \<Rightarrow> bool" where
  "number_in_range lit =
     (let s = (if lit \<noteq> [] \<and> hd lit = CHR ''-'' then tl lit else lit);
          int_part = takeWhile json_digit s;
          r = dropWhile json_digit s;
          frac = (if r \<noteq> [] \<and> hd r = CHR ''.'' then takeWhile json_digit (tl r) else []);
          r' = (if r \<noteq> [] \<and> hd r = CHR ''.'' then dropWhile json_digit (tl r) else r);
          e = (if r' = [] then 0
               else let t = tl r' in
                 if t \<noteq> [] \<and> hd t = CHR ''-'' then - digits_value (tl t)
                 else if t \<noteq> [] \<and> hd t = CHR ''+'' then digits_value (tl t)
                 else digits_value t);
          m = digits_value (int_part @ frac);
          e10 = e - int (length frac)
      in if 0 \<le> e10 then m * 10 ^ nat e10 < float_limit else m < float_limit * 10 ^ nat (- e10))"

section \<open>Decoding into an object\<close>

datatype object_result = NotAnObject | NilObject | ObjectValue

definition first_char :: "string \<Rightarrow> char option" where
  "first_char data = (case dropWhile json_space data of [] \<Rightarrow> None | c # _ \<Rightarrow> Some c)"

text \<open>\<open>var object map[string]any; err := json.Unmarshal(data, &object)\<close>: an error, a nil map
  (for \<open>null\<close>) or a map.\<close>

definition unmarshal_object :: "string \<Rightarrow> object_result" where
  "unmarshal_object data =
     (if \<not> checkValid data then NotAnObject
      else if first_char data = Some (CHR ''n'') then NilObject
      else if first_char data = Some (CHR ''{'') \<and> list_all number_in_range (number_literals Plain data)
        then ObjectValue
      else NotAnObject)"

lemma unmarshal_object_brace: "unmarshal_object data = ObjectValue \<Longrightarrow> checkValid data \<and> first_char data = Some (CHR ''{'')"
  by (simp add: unmarshal_object_def split: if_splits)

end
