(* ===== verification/Audit_Outbox.thy ===== *)
theory Audit_Outbox
  imports Audit_Events Json_Check "HOL-Library.Product_Lexorder"
begin

text \<open>
  The audit outbox: the record transitions of \<open>internal/audit/outbox.go\<close>, the table operations
  of \<open>internal/store/postgres/audit_outbox.go\<close> with the constraints of the table, and the
  two workers of \<open>internal/auditdelivery\<close> (delivery and recovery of stale deliveries).
  Each SQL statement is one atomic function on the list of rows; rows that a concurrent
  transaction has locked (\<open>SKIP LOCKED\<close>) are a parameter. The deliverer is an interface and
  a parameter. The theorems relate the SQL updates to the record transitions, bound the
  number of delivery attempts and say what a delivery pass guarantees. Not modelled: the
  serialisation of events by \<open>json.Marshal\<close>, which is a parameter of \<open>NewOutboxRecord\<close>.
\<close>

section \<open>Records\<close>

fun EventType_String :: "EventType \<Rightarrow> string" where
  "EventType_String EventTypeAuthzDenied = ''authz_denied''"
| "EventType_String EventTypePathDenied = ''path_denied''"
| "EventType_String EventTypeCapabilityDenied = ''capability_denied''"
| "EventType_String EventTypeResourceNamespaceMismatchDenied = ''resource_namespace_mismatch_denied''"
| "EventType_String EventTypeVolumeEnsure = ''volume_ensure''"
| "EventType_String EventTypeNamespaceUpsert = ''namespace_upsert''"
| "EventType_String EventTypeNamespaceDisable = ''namespace_disable''"
| "EventType_String EventTypeNamespaceVolumeBindingPut = ''namespace_volume_binding_put''"
| "EventType_String EventTypeRepoCreate = ''repo_create''"
| "EventType_String EventTypeRepoArchive = ''repo_archive''"
| "EventType_String EventTypeRepoRestoreArchived = ''repo_restore_archived''"
| "EventType_String EventTypeRepoDelete = ''repo_delete''"
| "EventType_String EventTypeRepoRestoreTombstoned = ''repo_restore_tombstoned''"
| "EventType_String EventTypeRepoPurge = ''repo_purge''"
| "EventType_String EventTypeSavePointCreate = ''save_point_create''"
| "EventType_String EventTypeRestore = ''restore''"
| "EventType_String EventTypeTemplateCreate = ''template_create''"
| "EventType_String EventTypeTemplateClone = ''template_clone''"
| "EventType_String EventTypeExportCreate = ''export_create''"
| "EventType_String EventTypeExportRevoke = ''export_revoke''"
| "EventType_String EventTypeExportSessionReconcile = ''export_session_reconcile''"
| "EventType_String EventTypeMountBindingCreate = ''mount_binding_create''"
| "EventType_String EventTypeMountBindingStatusUpdate = ''mount_binding_status_update''"
| "EventType_String EventTypeMountBindingHeartbeat = ''mount_binding_heartbeat''"
| "EventType_String EventTypeMountPlanIssued = ''mount_plan_issued''"
| "EventType_String EventTypeMountBindingRelease = ''mount_binding_release''"
| "EventType_String EventTypeMountBindingRevoke = ''mount_binding_revoke''"
| "EventType_String EventTypeMigrationCutover = ''migration_cutover''"
| "EventType_String EventTypeRestoreReconciliation = ''restore_reconciliation''"
| "EventType_String (EventTypeOther s) = s"

datatype OutboxErrorCode = OutboxErrorInvalidRequest | OutboxErrorInvalidRecord | OutboxErrorInvalidTransition

record OutboxError =
  oerr_Code :: OutboxErrorCode
  oerr_Field :: string
  oerr_Reason :: string

definition outboxInvalidRequest :: "string \<Rightarrow> string \<Rightarrow> OutboxError" where
  "outboxInvalidRequest fld reason = \<lparr>oerr_Code = OutboxErrorInvalidRequest, oerr_Field = fld, oerr_Reason = reason\<rparr>"

definition outboxInvalidRecord :: "string \<Rightarrow> string \<Rightarrow> OutboxError" where
  "outboxInvalidRecord fld reason = \<lparr>oerr_Code = OutboxErrorInvalidRecord, oerr_Field = fld, oerr_Reason = reason\<rparr>"

definition outboxInvalidTransition :: "string \<Rightarrow> string \<Rightarrow> OutboxError" where
  "outboxInvalidTransition fld reason = \<lparr>oerr_Code = OutboxErrorInvalidTransition, oerr_Field = fld, oerr_Reason = reason\<rparr>"

datatype OutboxStatus =
    OutboxStatusPending | OutboxStatusDelivering | OutboxStatusDelivered | OutboxStatusRetryWait
  | OutboxStatusFailed | OutboxStatusOther string

fun OutboxStatus_Valid :: "OutboxStatus \<Rightarrow> bool" where
  "OutboxStatus_Valid (OutboxStatusOther _) = False"
| "OutboxStatus_Valid _ = True"

fun OutboxStatus_Terminal :: "OutboxStatus \<Rightarrow> bool" where
  "OutboxStatus_Terminal OutboxStatusDelivered = True"
| "OutboxStatus_Terminal OutboxStatusFailed = True"
| "OutboxStatus_Terminal _ = False"

record OutboxRecord =
  ob_EventID :: string
  ob_EventType :: EventType
  ob_EventTime :: go_time
  ob_PayloadJSON :: string
  ob_Status :: OutboxStatus
  ob_DeliveryAttempt :: go_int
  ob_NextRetryAt :: "go_time option"
  ob_LastError :: string
  ob_CreatedAt :: go_time
  ob_UpdatedAt :: go_time
  ob_DeliveredAt :: "go_time option"

record DeliveryFailure =
  df_MaxAttempts :: go_int
  df_Backoff :: go_duration
  df_LastError :: string
  df_Now :: go_time

definition validateOutboxPayloadJSON :: "string \<Rightarrow> OutboxError option" where
  "validateOutboxPayloadJSON payload =
     (if trim_space payload = [] then Some (outboxInvalidRecord ''payload_json'' ''missing payload json'')
      else case unmarshal_object payload of
        NotAnObject \<Rightarrow> Some (outboxInvalidRecord ''payload_json'' ''payload json must be a valid object'')
      | NilObject \<Rightarrow> Some (outboxInvalidRecord ''payload_json'' ''payload json must be an object'')
      | ObjectValue \<Rightarrow> None)"

definition validateOutboxRecord :: "OutboxRecord \<Rightarrow> OutboxError option" where
  "validateOutboxRecord r =
     checks
      [check (trim_space (ob_EventID r) = []) (outboxInvalidRecord ''event_id'' ''missing audit event id''),
       check (trim_space (EventType_String (ob_EventType r)) = []) (outboxInvalidRecord ''event_type'' ''missing audit event type''),
       check (is_zero (ob_EventTime r)) (outboxInvalidRecord ''event_time'' ''missing audit event time''),
       validateOutboxPayloadJSON (ob_PayloadJSON r),
       check (\<not> OutboxStatus_Valid (ob_Status r)) (outboxInvalidRecord ''status'' ''unknown delivery status''),
       check (ob_DeliveryAttempt r < 0) (outboxInvalidRecord ''delivery_attempt'' ''delivery attempt cannot be negative'')]"

text \<open>\<open>marshal\<close> is \<open>json.Marshal\<close> on an event. The copies that \<open>copyOutboxRecord\<close> makes are
  invisible in values.\<close>

definition NewOutboxRecord :: "(AuditEvent \<Rightarrow> string + string) \<Rightarrow> AuditEvent \<Rightarrow> go_time \<Rightarrow> OutboxError + OutboxRecord" where
  "NewOutboxRecord marshal event now =
     (if trim_space (ev_EventID event) = [] then Inl (outboxInvalidRequest ''event_id'' ''missing audit event id'')
      else if EventType_String (ev_Type event) = [] then Inl (outboxInvalidRequest ''event_type'' ''missing audit event type'')
      else if is_zero (ev_Time event) then Inl (outboxInvalidRequest ''event_time'' ''missing audit event time'')
      else if is_zero now then Inl (outboxInvalidRequest ''now'' ''outbox creation time must be set'')
      else case marshal (Event_Sanitized event) of
        Inl err \<Rightarrow> Inl (outboxInvalidRequest ''payload_json'' (''marshal sanitized audit event: '' @ err))
      | Inr payload \<Rightarrow>
          Inr \<lparr>ob_EventID = ev_EventID event, ob_EventType = ev_Type event, ob_EventTime = ev_Time event,
               ob_PayloadJSON = payload, ob_Status = OutboxStatusPending, ob_DeliveryAttempt = 0,
               ob_NextRetryAt = None, ob_LastError = [], ob_CreatedAt = now, ob_UpdatedAt = now, ob_DeliveredAt = None\<rparr>)"

section \<open>Transitions of a record\<close>

definition MarkDelivering :: "OutboxRecord \<Rightarrow> string \<Rightarrow> go_time \<Rightarrow> OutboxError + OutboxRecord" where
  "MarkDelivering r owner now =
     (if trim_space owner = [] then Inl (outboxInvalidRequest ''owner'' ''missing delivery owner'')
      else if is_zero now then Inl (outboxInvalidRequest ''now'' ''delivery transition time must be set'')
      else case validateOutboxRecord r of
        Some err \<Rightarrow> Inl err
      | None \<Rightarrow>
        if ob_Status r \<noteq> OutboxStatusPending \<and> ob_Status r \<noteq> OutboxStatusRetryWait
          then Inl (outboxInvalidTransition ''delivery_status'' ''cannot transition to delivering'')
        else Inr (r\<lparr>ob_Status := OutboxStatusDelivering, ob_DeliveryAttempt := int64 (ob_DeliveryAttempt r + 1),
                     ob_NextRetryAt := None, ob_LastError := [], ob_UpdatedAt := now\<rparr>))"

definition MarkDelivered :: "OutboxRecord \<Rightarrow> go_time \<Rightarrow> OutboxError + OutboxRecord" where
  "MarkDelivered r now =
     (if is_zero now then Inl (outboxInvalidRequest ''now'' ''delivery transition time must be set'')
      else case validateOutboxRecord r of
        Some err \<Rightarrow> Inl err
      | None \<Rightarrow>
        if ob_Status r \<noteq> OutboxStatusDelivering
          then Inl (outboxInvalidTransition ''delivery_status'' ''cannot transition to delivered'')
        else Inr (r\<lparr>ob_Status := OutboxStatusDelivered, ob_NextRetryAt := None, ob_LastError := [],
                     ob_DeliveredAt := Some now, ob_UpdatedAt := now\<rparr>))"

definition failure_text :: "DeliveryFailure \<Rightarrow> string" where
  "failure_text failure =
     (let lastError = RedactString (trim_space (df_LastError failure)) in
      if lastError = [] then ''delivery failed'' else lastError)"

definition MarkDeliveryFailed :: "OutboxRecord \<Rightarrow> DeliveryFailure \<Rightarrow> OutboxError + OutboxRecord" where
  "MarkDeliveryFailed r failure =
     (if is_zero (df_Now failure) then Inl (outboxInvalidRequest ''now'' ''delivery transition time must be set'')
      else if df_MaxAttempts failure \<le> 0 then Inl (outboxInvalidRequest ''max_attempts'' ''max attempts must be positive'')
      else if df_Backoff failure < 0 then Inl (outboxInvalidRequest ''backoff'' ''retry backoff cannot be negative'')
      else case validateOutboxRecord r of
        Some err \<Rightarrow> Inl err
      | None \<Rightarrow>
        if ob_Status r \<noteq> OutboxStatusDelivering
          then Inl (outboxInvalidTransition ''delivery_status'' ''cannot transition after delivery failure'')
        else
          let updated = r\<lparr>ob_LastError := failure_text failure, ob_UpdatedAt := df_Now failure, ob_DeliveredAt := None\<rparr> in
          if df_MaxAttempts failure \<le> ob_DeliveryAttempt updated
            then Inr (updated\<lparr>ob_Status := OutboxStatusFailed, ob_NextRetryAt := None\<rparr>)
          else Inr (updated\<lparr>ob_Status := OutboxStatusRetryWait,
                            ob_NextRetryAt := Some (df_Now failure + df_Backoff failure)\<rparr>))"

section \<open>The table\<close>

datatype outbox_store_error =
    StoreOutboxError OutboxError
  | OutboxNoRows string
  | OutboxDuplicateID
  | OutboxCheckViolation
  | OutboxIntegerRange

definition max_int32 :: int where
  "max_int32 = 2 ^ 31 - 1"

text \<open>The primary key and the check constraints of the table (\<open>migrations/0001\<close>). The payload
  column is \<open>jsonb\<close>; its text is kept as it was written.\<close>

definition row_checks :: "OutboxRecord \<Rightarrow> bool" where
  "row_checks r \<longleftrightarrow>
     unmarshal_object (ob_PayloadJSON r) = ObjectValue \<and> OutboxStatus_Valid (ob_Status r) \<and>
     0 \<le> ob_DeliveryAttempt r \<and> ob_DeliveryAttempt r \<le> max_int32"

definition insert_row :: "OutboxRecord \<Rightarrow> OutboxRecord list \<Rightarrow> outbox_store_error + OutboxRecord list" where
  "insert_row r rows =
     (if \<not> row_checks r then Inl OutboxCheckViolation
      else if list_ex (\<lambda>q. ob_EventID q = ob_EventID r) rows then Inl OutboxDuplicateID
      else Inr (rows @ [r]))"

definition AppendAuditEvent ::
    "(AuditEvent \<Rightarrow> string + string) \<Rightarrow> go_time \<Rightarrow> AuditEvent \<Rightarrow> OutboxRecord list \<Rightarrow> outbox_store_error + OutboxRecord list" where
  "AppendAuditEvent marshal now event rows =
     (case NewOutboxRecord marshal event now of
        Inl err \<Rightarrow> Inl (StoreOutboxError err)
      | Inr r \<Rightarrow> insert_row r rows)"

text \<open>\<open>scanAuditOutboxRecord\<close> validates what it reads.\<close>

definition validateAuditOutboxRecord :: "OutboxRecord \<Rightarrow> OutboxError option" where
  "validateAuditOutboxRecord r =
     checks
      [check (trim_space (ob_EventID r) = []) (outboxInvalidRecord ''event_id'' ''missing audit event id''),
       check (trim_space (EventType_String (ob_EventType r)) = []) (outboxInvalidRecord ''event_type'' ''missing audit event type''),
       check (is_zero (ob_EventTime r)) (outboxInvalidRecord ''event_time'' ''missing audit event time''),
       check (is_zero (ob_CreatedAt r)) (outboxInvalidRecord ''created_at'' ''missing outbox creation time''),
       check (is_zero (ob_UpdatedAt r)) (outboxInvalidRecord ''updated_at'' ''missing outbox update time''),
       check (\<not> OutboxStatus_Valid (ob_Status r)) (outboxInvalidRecord ''delivery_status'' ''unknown delivery status''),
       check (ob_DeliveryAttempt r < 0) (outboxInvalidRecord ''delivery_attempt'' ''delivery attempt cannot be negative''),
       validateOutboxPayloadJSON (ob_PayloadJSON r)]"

definition scanAuditOutboxRecords :: "OutboxRecord list \<Rightarrow> outbox_store_error + OutboxRecord list" where
  "scanAuditOutboxRecords rows =
     (case first_error validateAuditOutboxRecord rows of
        Some err \<Rightarrow> Inl (StoreOutboxError err)
      | None \<Rightarrow> Inr rows)"

definition row_due :: "go_time \<Rightarrow> OutboxRecord \<Rightarrow> bool" where
  "row_due now r \<longleftrightarrow>
     ob_Status r = OutboxStatusPending \<or>
     (ob_Status r = OutboxStatusRetryWait \<and> (case ob_NextRetryAt r of None \<Rightarrow> False | Some t \<Rightarrow> t \<le> now))"

text \<open>\<open>ORDER BY event_time, audit_event_id LIMIT n\<close> (byte order of the identifiers).\<close>

definition due_rows :: "go_time \<Rightarrow> int \<Rightarrow> OutboxRecord list \<Rightarrow> OutboxRecord list" where
  "due_rows now limit rows =
     take (nat limit) (sort_key (\<lambda>r. (ob_EventTime r, ob_EventID r)) (filter (row_due now) rows))"

definition ListDueAuditOutboxRecords :: "go_time \<Rightarrow> int \<Rightarrow> OutboxRecord list \<Rightarrow> outbox_store_error + OutboxRecord list" where
  "ListDueAuditOutboxRecords now limit rows =
     (if is_zero now then Inl (StoreOutboxError (outboxInvalidRequest ''now'' ''list time must be set''))
      else if limit \<le> 0 then Inl (StoreOutboxError (outboxInvalidRequest ''limit'' ''limit must be positive''))
      else scanAuditOutboxRecords (due_rows now limit rows))"

definition claim_row :: "go_time \<Rightarrow> OutboxRecord \<Rightarrow> OutboxRecord" where
  "claim_row now r =
     r\<lparr>ob_Status := OutboxStatusDelivering, ob_DeliveryAttempt := ob_DeliveryAttempt r + 1, ob_NextRetryAt := None,
        ob_LastError := [], ob_DeliveredAt := None, ob_UpdatedAt := now\<rparr>"

text \<open>An \<open>UPDATE\<close> of the rows whose identifiers are selected; \<open>RETURNING\<close> gives the new rows.\<close>

definition update_rows :: "string set \<Rightarrow> (OutboxRecord \<Rightarrow> OutboxRecord) \<Rightarrow> OutboxRecord list \<Rightarrow> OutboxRecord list" where
  "update_rows ids f rows = map (\<lambda>r. if ob_EventID r \<in> ids then f r else r) rows"

definition returned_rows :: "string set \<Rightarrow> (OutboxRecord \<Rightarrow> OutboxRecord) \<Rightarrow> OutboxRecord list \<Rightarrow> OutboxRecord list" where
  "returned_rows ids f rows = map f (filter (\<lambda>r. ob_EventID r \<in> ids) rows)"

definition ClaimDueAuditOutboxRecords ::
    "(string \<Rightarrow> bool) \<Rightarrow> string \<Rightarrow> go_time \<Rightarrow> int \<Rightarrow> OutboxRecord list \<Rightarrow>
      OutboxRecord list \<times> (outbox_store_error + OutboxRecord list)" where
  "ClaimDueAuditOutboxRecords locked owner now limit rows =
     (if trim_space owner = [] then (rows, Inl (StoreOutboxError (outboxInvalidRequest ''owner'' ''missing delivery owner'')))
      else if is_zero now then (rows, Inl (StoreOutboxError (outboxInvalidRequest ''now'' ''claim time must be set'')))
      else if limit \<le> 0 then (rows, Inl (StoreOutboxError (outboxInvalidRequest ''limit'' ''limit must be positive'')))
      else
        let ids = set (map ob_EventID (due_rows now limit (filter (\<lambda>r. \<not> locked (ob_EventID r)) rows))) in
        if list_ex (\<lambda>r. ob_EventID r \<in> ids \<and> max_int32 \<le> ob_DeliveryAttempt r) rows
          then (rows, Inl OutboxIntegerRange)
        else (update_rows ids (claim_row now) rows, scanAuditOutboxRecords (returned_rows ids (claim_row now) rows)))"

definition stale_rows :: "go_time \<Rightarrow> int \<Rightarrow> OutboxRecord list \<Rightarrow> OutboxRecord list" where
  "stale_rows staleBefore limit rows =
     take (nat limit) (sort_key (\<lambda>r. (ob_UpdatedAt r, ob_EventID r))
       (filter (\<lambda>r. ob_Status r = OutboxStatusDelivering \<and> ob_UpdatedAt r \<le> staleBefore) rows))"

definition recover_row :: "DeliveryFailure \<Rightarrow> OutboxRecord \<Rightarrow> OutboxRecord" where
  "recover_row failure r =
     r\<lparr>ob_Status := OutboxStatusRetryWait, ob_NextRetryAt := Some (df_Now failure + df_Backoff failure),
        ob_LastError := failure_text failure, ob_DeliveredAt := None, ob_UpdatedAt := df_Now failure\<rparr>"

definition failure_error :: "DeliveryFailure \<Rightarrow> OutboxError option" where
  "failure_error failure =
     checks
      [check (is_zero (df_Now failure)) (outboxInvalidRequest ''now'' ''transition time must be set''),
       check (df_MaxAttempts failure \<le> 0) (outboxInvalidRequest ''max_attempts'' ''max attempts must be positive''),
       check (df_Backoff failure < 0) (outboxInvalidRequest ''backoff'' ''retry backoff cannot be negative'')]"

definition RecoverStaleAuditOutboxRecords ::
    "(string \<Rightarrow> bool) \<Rightarrow> string \<Rightarrow> go_duration \<Rightarrow> int \<Rightarrow> DeliveryFailure \<Rightarrow> OutboxRecord list \<Rightarrow>
      OutboxRecord list \<times> (outbox_store_error + OutboxRecord list)" where
  "RecoverStaleAuditOutboxRecords locked owner staleThreshold limit failure rows =
     (case checks
        [check (trim_space owner = []) (outboxInvalidRequest ''owner'' ''missing delivery owner''),
         check (staleThreshold \<le> 0) (outboxInvalidRequest ''stale_threshold'' ''stale threshold must be positive''),
         check (limit \<le> 0) (outboxInvalidRequest ''limit'' ''limit must be positive''),
         failure_error failure] of
        Some err \<Rightarrow> (rows, Inl (StoreOutboxError err))
      | None \<Rightarrow>
        let ids = set (map ob_EventID (stale_rows (df_Now failure - staleThreshold) limit
                    (filter (\<lambda>r. \<not> locked (ob_EventID r)) rows))) in
        (update_rows ids (recover_row failure) rows, scanAuditOutboxRecords (returned_rows ids (recover_row failure) rows)))"

definition delivered_row :: "go_time \<Rightarrow> OutboxRecord \<Rightarrow> OutboxRecord" where
  "delivered_row now r =
     r\<lparr>ob_Status := OutboxStatusDelivered, ob_DeliveredAt := Some now, ob_UpdatedAt := now,
        ob_NextRetryAt := None, ob_LastError := []\<rparr>"

definition delivering :: "string \<Rightarrow> OutboxRecord \<Rightarrow> bool" where
  "delivering eventID r \<longleftrightarrow> ob_EventID r = eventID \<and> ob_Status r = OutboxStatusDelivering"

text \<open>An \<open>UPDATE\<close> with its condition; no affected row is the error \<open>sql.ErrNoRows\<close>.\<close>

definition update_where ::
    "(OutboxRecord \<Rightarrow> bool) \<Rightarrow> (OutboxRecord \<Rightarrow> OutboxRecord) \<Rightarrow> string \<Rightarrow> OutboxRecord list \<Rightarrow> outbox_store_error + OutboxRecord list" where
  "update_where cond f eventID rows =
     (if list_ex cond rows then Inr (map (\<lambda>r. if cond r then f r else r) rows) else Inl (OutboxNoRows eventID))"

definition MarkAuditOutboxDelivered :: "string \<Rightarrow> go_time \<Rightarrow> OutboxRecord list \<Rightarrow> outbox_store_error + OutboxRecord list" where
  "MarkAuditOutboxDelivered eventID now rows =
     (if trim_space eventID = [] then Inl (StoreOutboxError (outboxInvalidRequest ''event_id'' ''missing audit event id''))
      else if is_zero now then Inl (StoreOutboxError (outboxInvalidRequest ''now'' ''delivery transition time must be set''))
      else update_where (delivering eventID) (delivered_row now) eventID rows)"

definition failed_row :: "DeliveryFailure \<Rightarrow> OutboxRecord \<Rightarrow> OutboxRecord" where
  "failed_row failure r =
     r\<lparr>ob_Status := (if df_MaxAttempts failure \<le> ob_DeliveryAttempt r then OutboxStatusFailed else OutboxStatusRetryWait),
        ob_NextRetryAt := (if df_MaxAttempts failure \<le> ob_DeliveryAttempt r then None
                           else Some (df_Now failure + df_Backoff failure)),
        ob_LastError := failure_text failure, ob_DeliveredAt := None, ob_UpdatedAt := df_Now failure\<rparr>"

definition MarkAuditOutboxDeliveryFailed ::
    "string \<Rightarrow> DeliveryFailure \<Rightarrow> OutboxRecord list \<Rightarrow> outbox_store_error + OutboxRecord list" where
  "MarkAuditOutboxDeliveryFailed eventID failure rows =
     (if trim_space eventID = [] then Inl (StoreOutboxError (outboxInvalidRequest ''event_id'' ''missing audit event id''))
      else case failure_error failure of
        Some err \<Rightarrow> Inl (StoreOutboxError err)
      | None \<Rightarrow> update_where (delivering eventID) (failed_row failure) eventID rows)"

section \<open>The delivery workers\<close>

text \<open>The store and the deliverer of a worker act on the state \<open>'w\<close> of the outside world. An error
  is its text.\<close>

record 'w DeliveryStore =
  ds_Claim :: "string \<Rightarrow> go_time \<Rightarrow> int \<Rightarrow> 'w \<Rightarrow> 'w \<times> (string + OutboxRecord list)"
  ds_Recover :: "string \<Rightarrow> go_duration \<Rightarrow> int \<Rightarrow> DeliveryFailure \<Rightarrow> 'w \<Rightarrow> 'w \<times> (string + OutboxRecord list)"
  ds_MarkDelivered :: "string \<Rightarrow> go_time \<Rightarrow> 'w \<Rightarrow> 'w \<times> string option"
  ds_MarkFailed :: "string \<Rightarrow> DeliveryFailure \<Rightarrow> 'w \<Rightarrow> 'w \<times> string option"

type_synonym 'w deliverer = "OutboxRecord \<Rightarrow> 'w \<Rightarrow> 'w \<times> string option"

record 'w DeliveryConfig =
  dc_Store :: "'w DeliveryStore option"
  dc_Deliverer :: "'w deliverer option"
  dc_Owner :: string
  dc_Limit :: go_int
  dc_MaxAttempts :: go_int
  dc_RetryBackoff :: go_duration
  dc_Now :: go_time
  dc_Clock :: "('w \<Rightarrow> go_time) option"

datatype DeliveryOutcome = OutcomeDelivered | OutcomeDeliveryFailureRecorded | OutcomeDeliveryFailed

record RecordResult =
  rr_EventID :: string
  rr_Outcome :: DeliveryOutcome
  rr_Reason :: string
  rr_Error :: "string option"

record BatchResult =
  br_Claimed :: go_int
  br_Delivered :: go_int
  br_DeliveryFailuresRecorded :: go_int
  br_Failed :: go_int
  br_Results :: "RecordResult list"

definition empty_batch :: BatchResult where
  "empty_batch = \<lparr>br_Claimed = 0, br_Delivered = 0, br_DeliveryFailuresRecorded = 0, br_Failed = 0, br_Results = []\<rparr>"

definition decision_time :: "go_time \<Rightarrow> ('w \<Rightarrow> go_time) option \<Rightarrow> 'w \<Rightarrow> go_time" where
  "decision_time now clock w = (if is_zero now then (case clock of None \<Rightarrow> now | Some c \<Rightarrow> c w) else now)"

text \<open>\<open>validatedConfig\<close>: the trimmed owner, the store, the deliverer and the time.\<close>

definition validated_delivery ::
    "'w DeliveryConfig \<Rightarrow> 'w \<Rightarrow> string + ('w DeliveryStore \<times> 'w deliverer \<times> string \<times> go_time)" where
  "validated_delivery config w =
     (case dc_Store config of
        None \<Rightarrow> Inl ''audit outbox delivery store is required''
      | Some store \<Rightarrow>
      case dc_Deliverer config of
        None \<Rightarrow> Inl ''audit outbox deliverer is required''
      | Some deliver \<Rightarrow>
        let owner = trim_space (dc_Owner config); now = decision_time (dc_Now config) (dc_Clock config) w in
        case checks
          [check (owner = []) ''audit outbox delivery owner is required'',
           check (dc_Limit config \<le> 0) ''audit outbox delivery limit must be positive'',
           check (dc_MaxAttempts config \<le> 0) ''audit outbox delivery max attempts must be positive'',
           check (dc_RetryBackoff config < 0) ''audit outbox delivery retry backoff cannot be negative'',
           check (is_zero now) ''audit outbox delivery time must be set''] of
          Some err \<Rightarrow> Inl err
        | None \<Rightarrow> Inr (store, deliver, owner, now))"

text \<open>The calls of a pass, as a ghost output: what was handed to the deliverer and what was marked.\<close>

datatype delivery_call = Handed string bool | MarkedDelivered string bool | MarkedFailed string bool

definition delivery_failure :: "'w DeliveryConfig \<Rightarrow> string \<Rightarrow> go_time \<Rightarrow> DeliveryFailure" where
  "delivery_failure config text now =
     \<lparr>df_MaxAttempts = dc_MaxAttempts config, df_Backoff = dc_RetryBackoff config, df_LastError = text, df_Now = now\<rparr>"

fun deliver_all ::
    "'w DeliveryConfig \<Rightarrow> 'w DeliveryStore \<Rightarrow> 'w deliverer \<Rightarrow> go_time \<Rightarrow> OutboxRecord list \<Rightarrow> BatchResult \<Rightarrow> 'w \<Rightarrow>
      'w \<times> BatchResult \<times> string option \<times> delivery_call list" where
  "deliver_all config store deliver now [] result w = (w, result, None, [])"
| "deliver_all config store deliver now (r # rs) result w =
     (case deliver r w of
        (w1, Some err) \<Rightarrow>
          let redacted = RedactString err in
          (case ds_MarkFailed store (ob_EventID r) (delivery_failure config redacted now) w1 of
             (w2, Some markErr) \<Rightarrow>
               (w2, result\<lparr>br_Failed := br_Failed result + 1, br_Results := br_Results result @
                  [\<lparr>rr_EventID = ob_EventID r, rr_Outcome = OutcomeDeliveryFailed, rr_Reason = redacted, rr_Error = Some markErr\<rparr>]\<rparr>,
                Some (''mark audit outbox delivery failed: '' @ markErr),
                [Handed (ob_EventID r) False, MarkedFailed (ob_EventID r) False])
           | (w2, None) \<Rightarrow>
               (case deliver_all config store deliver now rs
                  (result\<lparr>br_DeliveryFailuresRecorded := br_DeliveryFailuresRecorded result + 1, br_Results := br_Results result @
                    [\<lparr>rr_EventID = ob_EventID r, rr_Outcome = OutcomeDeliveryFailureRecorded, rr_Reason = redacted, rr_Error = None\<rparr>]\<rparr>) w2 of
                  (w3, result', err', calls) \<Rightarrow>
                    (w3, result', err', Handed (ob_EventID r) False # MarkedFailed (ob_EventID r) True # calls)))
      | (w1, None) \<Rightarrow>
          (case ds_MarkDelivered store (ob_EventID r) now w1 of
             (w2, Some markErr) \<Rightarrow>
               (w2, result\<lparr>br_Failed := br_Failed result + 1, br_Results := br_Results result @
                  [\<lparr>rr_EventID = ob_EventID r, rr_Outcome = OutcomeDeliveryFailed,
                    rr_Reason = ''mark_delivered_after_delivery_failed'', rr_Error = Some markErr\<rparr>]\<rparr>,
                Some (''mark audit outbox delivered: '' @ markErr),
                [Handed (ob_EventID r) True, MarkedDelivered (ob_EventID r) False])
           | (w2, None) \<Rightarrow>
               (case deliver_all config store deliver now rs
                  (result\<lparr>br_Delivered := br_Delivered result + 1, br_Results := br_Results result @
                    [\<lparr>rr_EventID = ob_EventID r, rr_Outcome = OutcomeDelivered, rr_Reason = [], rr_Error = None\<rparr>]\<rparr>) w2 of
                  (w3, result', err', calls) \<Rightarrow>
                    (w3, result', err', Handed (ob_EventID r) True # MarkedDelivered (ob_EventID r) True # calls))))"

definition Delivery_RunOnce ::
    "'w DeliveryConfig \<Rightarrow> 'w \<Rightarrow> 'w \<times> BatchResult \<times> string option \<times> delivery_call list" where
  "Delivery_RunOnce config w =
     (case validated_delivery config w of
        Inl err \<Rightarrow> (w, empty_batch, Some err, [])
      | Inr (store, deliver, owner, now) \<Rightarrow>
        case ds_Claim store owner now (dc_Limit config) w of
          (w1, Inl err) \<Rightarrow> (w1, empty_batch, Some err, [])
        | (w1, Inr records) \<Rightarrow>
            deliver_all config store deliver now records (empty_batch\<lparr>br_Claimed := int (length records)\<rparr>) w1)"

section \<open>Recovery of stale deliveries\<close>

record 'w StaleRecoveryConfig =
  sc_Store :: "'w DeliveryStore option"
  sc_Owner :: string
  sc_StaleThreshold :: go_duration
  sc_Limit :: go_int
  sc_MaxAttempts :: go_int
  sc_RetryBackoff :: go_duration
  sc_Now :: go_time
  sc_Clock :: "('w \<Rightarrow> go_time) option"

record StaleRecoveryResult =
  sr_Recovered :: go_int
  sr_RetryWait :: go_int
  sr_FailedTerminal :: go_int
  sr_Failed :: go_int
  sr_Records :: "OutboxRecord list"

definition validated_stale ::
    "'w StaleRecoveryConfig \<Rightarrow> 'w \<Rightarrow> string + ('w DeliveryStore \<times> string \<times> go_time)" where
  "validated_stale config w =
     (case sc_Store config of
        None \<Rightarrow> Inl ''audit stale delivery store is required''
      | Some store \<Rightarrow>
        let owner = trim_space (sc_Owner config); now = decision_time (sc_Now config) (sc_Clock config) w in
        case checks
          [check (owner = []) ''audit stale delivery owner is required'',
           check (sc_StaleThreshold config \<le> 0) ''audit stale delivery threshold must be positive'',
           check (sc_Limit config \<le> 0) ''audit stale delivery limit must be positive'',
           check (sc_MaxAttempts config \<le> 0) ''audit stale delivery max attempts must be positive'',
           check (sc_RetryBackoff config < 0) ''audit stale delivery retry backoff cannot be negative'',
           check (is_zero now) ''audit stale delivery time must be set''] of
          Some err \<Rightarrow> Inl err
        | None \<Rightarrow> Inr (store, owner, now))"

definition Stale_RunOnce :: "'w StaleRecoveryConfig \<Rightarrow> 'w \<Rightarrow> 'w \<times> StaleRecoveryResult \<times> string option" where
  "Stale_RunOnce config w =
     (let none = \<lparr>sr_Recovered = 0, sr_RetryWait = 0, sr_FailedTerminal = 0, sr_Failed = 0, sr_Records = []\<rparr> in
      case validated_stale config w of
        Inl err \<Rightarrow> (w, none, Some err)
      | Inr (store, owner, now) \<Rightarrow>
        case ds_Recover store owner (sc_StaleThreshold config) (sc_Limit config)
            \<lparr>df_MaxAttempts = sc_MaxAttempts config, df_Backoff = sc_RetryBackoff config,
             df_LastError = ''stale_delivering_recovered_for_replay'', df_Now = now\<rparr> w of
          (w', Inl err) \<Rightarrow> (w', none\<lparr>sr_Failed := 1\<rparr>, Some (''recover stale audit outbox records: '' @ err))
        | (w', Inr records) \<Rightarrow>
            (w', \<lparr>sr_Recovered = int (length records),
                  sr_RetryWait = int (length (filter (\<lambda>r. ob_Status r = OutboxStatusRetryWait) records)),
                  sr_FailedTerminal = int (length (filter (\<lambda>r. ob_Status r = OutboxStatusFailed) records)),
                  sr_Failed = 0, sr_Records = records\<rparr>, None))"

section \<open>The table implements the record transitions\<close>

text \<open>What every row of the table satisfies: it is a valid record, and it is marked delivered
  exactly in its final delivered state.\<close>

definition row_ok :: "OutboxRecord \<Rightarrow> bool" where
  "row_ok r \<longleftrightarrow>
     validateOutboxRecord r = None \<and> ob_DeliveryAttempt r \<le> max_int32 \<and>
     (ob_DeliveredAt r \<noteq> None \<longleftrightarrow> ob_Status r = OutboxStatusDelivered)"

definition outbox_inv :: "OutboxRecord list \<Rightarrow> bool" where
  "outbox_inv rows \<longleftrightarrow> list_all row_ok rows \<and> distinct (map ob_EventID rows)"

lemma valid_record_update:
  "validateOutboxRecord r = None \<Longrightarrow> OutboxStatus_Valid st \<Longrightarrow> 0 \<le> a \<Longrightarrow>
     validateOutboxRecord (r\<lparr>ob_Status := st, ob_DeliveryAttempt := a, ob_NextRetryAt := n, ob_LastError := e,
       ob_DeliveredAt := d, ob_UpdatedAt := u\<rparr>) = None"
  by (simp add: validateOutboxRecord_def)

lemma valid_record_parts:
  "validateOutboxRecord r = None \<Longrightarrow> 0 \<le> ob_DeliveryAttempt r \<and> OutboxStatus_Valid (ob_Status r)"
  by (simp add: validateOutboxRecord_def)

lemma row_update_ids [simp]:
  "ob_EventID (claim_row now r) = ob_EventID r"
  "ob_EventID (recover_row failure r) = ob_EventID r"
  "ob_EventID (delivered_row now r) = ob_EventID r"
  "ob_EventID (failed_row failure r) = ob_EventID r"
  by (simp_all add: claim_row_def recover_row_def delivered_row_def failed_row_def)

text \<open>The transitions of a single record.\<close>

inductive record_step :: "OutboxRecord \<Rightarrow> OutboxRecord \<Rightarrow> bool" where
  to_delivering: "MarkDelivering r owner now = Inr r' \<Longrightarrow> record_step r r'"
| to_delivered: "MarkDelivered r now = Inr r' \<Longrightarrow> record_step r r'"
| to_failed: "MarkDeliveryFailed r failure = Inr r' \<Longrightarrow> record_step r r'"

inductive_cases record_stepE: "record_step r r'"

lemma claim_row_step:
  assumes "row_ok r" "row_due now r" "now \<noteq> 0" "trim_space owner \<noteq> []" "ob_DeliveryAttempt r < max_int32"
  shows "MarkDelivering r owner now = Inr (claim_row now r)"
proof -
  have st: "ob_Status r = OutboxStatusPending \<or> ob_Status r = OutboxStatusRetryWait"
    using assms(2) by (auto simp: row_due_def)
  have "int64 (ob_DeliveryAttempt r + 1) = ob_DeliveryAttempt r + 1"
    using assms(1,5) valid_record_parts [of r] by (intro int64_id) (auto simp: row_ok_def max_int32_def max_int64_def)
  moreover have "ob_DeliveredAt r = None" using st assms(1) by (auto simp: row_ok_def)
  ultimately show ?thesis
    using assms st by (auto simp: MarkDelivering_def row_ok_def claim_row_def is_zero_def intro: OutboxRecord.equality)
qed

lemma delivered_row_step:
  "row_ok r \<Longrightarrow> delivering i r \<Longrightarrow> now \<noteq> 0 \<Longrightarrow> MarkDelivered r now = Inr (delivered_row now r)"
  by (simp add: MarkDelivered_def row_ok_def delivering_def delivered_row_def is_zero_def)

lemma failed_row_step:
  "row_ok r \<Longrightarrow> delivering i r \<Longrightarrow> failure_error failure = None \<Longrightarrow>
     MarkDeliveryFailed r failure = Inr (failed_row failure r)"
  by (simp add: MarkDeliveryFailed_def row_ok_def delivering_def failed_row_def failure_error_def Let_def)

text \<open>Stale recovery is a failed delivery that leaves room for one more attempt.\<close>

lemma recover_row_step:
  assumes "row_ok r" "ob_Status r = OutboxStatusDelivering" "failure_error failure = None"
  shows "MarkDeliveryFailed r (failure\<lparr>df_MaxAttempts := ob_DeliveryAttempt r + 1\<rparr>) = Inr (recover_row failure r)"
  using assms valid_record_parts [of r]
  by (simp add: MarkDeliveryFailed_def row_ok_def recover_row_def failure_error_def Let_def failure_text_def)

text \<open>What one statement does to the table: every row keeps its identifier and makes at most one
  transition, and new rows are fresh.\<close>

definition fresh_row :: "OutboxRecord \<Rightarrow> bool" where
  "fresh_row r \<longleftrightarrow> row_ok r \<and> ob_Status r = OutboxStatusPending \<and> ob_DeliveryAttempt r = 0"

definition rows_change :: "OutboxRecord list \<Rightarrow> OutboxRecord list \<Rightarrow> bool" where
  "rows_change rows rows' \<longleftrightarrow>
     (\<exists>f new. rows' = map f rows @ new \<and> (\<forall>r \<in> set rows. ob_EventID (f r) = ob_EventID r \<and> (f r = r \<or> record_step r (f r))) \<and>
        list_all fresh_row new \<and> distinct (map ob_EventID rows') )"

lemma rows_changeI:
  assumes "rows' = map f rows" "distinct (map ob_EventID rows)"
    "\<And>r. r \<in> set rows \<Longrightarrow> ob_EventID (f r) = ob_EventID r \<and> (f r = r \<or> record_step r (f r))"
  shows "rows_change rows rows'"
proof -
  have "map ob_EventID rows' = map ob_EventID rows" using assms(1,3) by simp
  then have "distinct (map ob_EventID rows')" using assms(2) by simp
  with assms(1,3) show ?thesis
    unfolding rows_change_def by (intro exI [of _ f] exI [of _ "[]"]) (auto simp del: map_map)
qed

lemma strip_prefixes_keeps: "x \<in> set s \<Longrightarrow> \<forall>p \<in> set ps. x \<notin> set p \<Longrightarrow> x \<in> set (strip_prefixes ps s)"
proof (induction ps s rule: strip_prefixes.induct)
  case (1 ps s)
  show ?case
  proof (cases "find_prefix ps s")
    case None
    with 1(2) show ?thesis by (simp add: strip_prefixes_None)
  next
    case (Some p)
    then obtain t where t: "s = p @ t" "p \<in> set ps" using find_prefix_Some by blast
    with 1 Some have "x \<in> set (strip_prefixes ps t)" by auto
    with Some t show ?thesis by (subst strip_prefixes.simps) simp
  qed
qed

lemma trim_space_keeps: "c \<in> set s \<Longrightarrow> \<forall>p \<in> set space_encodings. c \<notin> set p \<Longrightarrow> c \<in> set (trim_space s)"
  by (auto simp: trim_space_def intro!: strip_prefixes_keeps)

lemma object_not_blank: "unmarshal_object data = ObjectValue \<Longrightarrow> trim_space data \<noteq> []"
proof -
  assume "unmarshal_object data = ObjectValue"
  then have "first_char data = Some (CHR ''{'')" using unmarshal_object_brace by blast
  then have "CHR ''{'' \<in> set (dropWhile json_space data)" by (auto simp: first_char_def split: list.splits)
  then have "CHR ''{'' \<in> set data" by (rule set_dropWhileD)
  then have "CHR ''{'' \<in> set (trim_space data)"
    by (rule trim_space_keeps) (simp add: space_encodings_def)
  then show ?thesis by auto
qed

lemma append_fresh:
  assumes "AppendAuditEvent marshal now event rows = Inr rows'"
    "trim_space (EventType_String (ev_Type event)) \<noteq> []"
  shows "\<exists>r. rows' = rows @ [r] \<and> fresh_row r \<and> ob_EventID r \<notin> set (map ob_EventID rows)"
proof -
  obtain r where r: "NewOutboxRecord marshal event now = Inr r" "row_checks r" "rows' = rows @ [r]"
    "\<not> list_ex (\<lambda>q. ob_EventID q = ob_EventID r) rows"
    using assms(1) by (auto simp: AppendAuditEvent_def insert_row_def split: sum.splits if_splits)
  have "trim_space (ob_EventID r) \<noteq> []" "ob_EventType r = ev_Type event" "ob_EventTime r \<noteq> 0"
    "ob_Status r = OutboxStatusPending" "ob_DeliveryAttempt r = 0" "ob_DeliveredAt r = None"
    using r(1) by (auto simp: NewOutboxRecord_def is_zero_def split: if_splits sum.splits)
  moreover have "validateOutboxPayloadJSON (ob_PayloadJSON r) = None"
    using r(2) object_not_blank by (simp add: row_checks_def validateOutboxPayloadJSON_def)
  ultimately have "fresh_row r"
    using assms(2) by (simp add: fresh_row_def row_ok_def validateOutboxRecord_def is_zero_def max_int32_def)
  with r show ?thesis by (auto simp: list_ex_iff)
qed

text \<open>The steps of the table under a limit \<open>M\<close> on the attempts; the label says whether the step is
  a stale recovery. The event types are those of \<open>event.go\<close>, so not blank.\<close>

inductive outbox_step :: "go_int \<Rightarrow> bool \<Rightarrow> OutboxRecord list \<Rightarrow> OutboxRecord list \<Rightarrow> bool" for M where
  append: "AppendAuditEvent marshal now event rows = Inr rows' \<Longrightarrow>
    trim_space (EventType_String (ev_Type event)) \<noteq> [] \<Longrightarrow> outbox_step M False rows rows'"
| claim: "ClaimDueAuditOutboxRecords locked owner now limit rows = (rows', res) \<Longrightarrow> outbox_step M False rows rows'"
| delivered: "MarkAuditOutboxDelivered eventID now rows = Inr rows' \<Longrightarrow> outbox_step M False rows rows'"
| failed: "MarkAuditOutboxDeliveryFailed eventID failure rows = Inr rows' \<Longrightarrow> df_MaxAttempts failure = M \<Longrightarrow>
    outbox_step M False rows rows'"
| stale: "RecoverStaleAuditOutboxRecords locked owner threshold limit failure rows = (rows', res) \<Longrightarrow>
    outbox_step M True rows rows'"

inductive_cases outbox_stepE: "outbox_step M b rows rows'"

lemma due_rows_due:
  "r \<in> set (due_rows now limit rows) \<Longrightarrow> row_due now r \<and> r \<in> set rows"
  by (auto simp: due_rows_def dest: in_set_takeD)

lemma stale_rows_delivering:
  "r \<in> set (stale_rows b limit rows) \<Longrightarrow> ob_Status r = OutboxStatusDelivering \<and> r \<in> set rows"
  by (auto simp: stale_rows_def dest: in_set_takeD)

lemma inv_rows: "outbox_inv rows \<Longrightarrow> r \<in> set rows \<Longrightarrow> row_ok r"
  by (simp add: outbox_inv_def list_all_iff)

lemma inv_distinct: "outbox_inv rows \<Longrightarrow> distinct (map ob_EventID rows)"
  by (simp add: outbox_inv_def)

text \<open>In a table with distinct identifiers a selected identifier belongs to the selected row.\<close>

lemma selected_row:
  assumes "outbox_inv rows" "r \<in> set rows" "ob_EventID r \<in> set (map ob_EventID sel)" "set sel \<subseteq> set rows"
  shows "r \<in> set sel"
proof -
  obtain q where q: "q \<in> set sel" "ob_EventID q = ob_EventID r" using assms(3) by auto
  have "q = r"
    by (rule inj_onD [of ob_EventID "set rows"]) (use assms q in \<open>auto simp: outbox_inv_def distinct_map\<close>)
  with q show ?thesis by simp
qed

lemma update_rows_change:
  assumes "outbox_inv rows" "set sel \<subseteq> set rows"
    and "\<And>r. r \<in> set sel \<Longrightarrow> ob_EventID (f r) = ob_EventID r \<and> record_step r (f r)"
  shows "rows_change rows (update_rows (set (map ob_EventID sel)) f rows)"
  unfolding update_rows_def
proof (rule rows_changeI [OF refl inv_distinct [OF assms(1)]])
  fix r assume r: "r \<in> set rows"
  show "ob_EventID (if ob_EventID r \<in> set (map ob_EventID sel) then f r else r) = ob_EventID r \<and>
    ((if ob_EventID r \<in> set (map ob_EventID sel) then f r else r) = r \<or>
      record_step r (if ob_EventID r \<in> set (map ob_EventID sel) then f r else r))"
    using assms(3) [OF selected_row [OF assms(1) r _ assms(2)]] by auto
qed

lemma update_where_change:
  assumes "outbox_inv rows" "update_where c f i rows = Inr rows'"
    and "\<And>r. r \<in> set rows \<Longrightarrow> c r \<Longrightarrow> ob_EventID (f r) = ob_EventID r \<and> record_step r (f r)"
  shows "rows_change rows rows'"
proof (rule rows_changeI)
  show "rows' = map (\<lambda>r. if c r then f r else r) rows"
    using assms(2) by (auto simp: update_where_def split: if_splits)
qed (use assms inv_distinct in auto)

lemma unchanged: "outbox_inv rows \<Longrightarrow> rows_change rows rows"
  by (rule rows_changeI [of _ id]) (auto simp: inv_distinct)

lemma claim_change:
  assumes "outbox_inv rows" "ClaimDueAuditOutboxRecords locked owner now limit rows = (rows', res)"
  shows "rows_change rows rows'"
proof -
  let ?sel = "due_rows now limit (filter (\<lambda>r. \<not> locked (ob_EventID r)) rows)"
  let ?ids = "set (map ob_EventID ?sel)"
  have sel: "set ?sel \<subseteq> set rows" by (auto dest: due_rows_due)
  show ?thesis
  proof (cases "trim_space owner = [] \<or> is_zero now \<or> limit \<le> 0 \<or>
      list_ex (\<lambda>r. ob_EventID r \<in> ?ids \<and> max_int32 \<le> ob_DeliveryAttempt r) rows")
    case True
    then have "rows' = rows" using assms(2) by (auto simp: ClaimDueAuditOutboxRecords_def Let_def split: if_splits)
    with assms(1) show ?thesis by (simp add: unchanged)
  next
    case False
    have "rows' = update_rows ?ids (claim_row now) rows"
      using False assms(2) by (simp add: ClaimDueAuditOutboxRecords_def Let_def)
    moreover have "ob_EventID (claim_row now r) = ob_EventID r \<and> record_step r (claim_row now r)" if "r \<in> set ?sel" for r
    proof -
      have "ob_DeliveryAttempt r < max_int32"
        using False that sel by (auto simp: list_ex_iff not_le)
      then have "MarkDelivering r owner now = Inr (claim_row now r)"
        using False that sel due_rows_due [OF that] inv_rows [OF assms(1), of r]
        by (intro claim_row_step) (auto simp: is_zero_def)
      then show ?thesis by (auto intro: record_step.to_delivering)
    qed
    ultimately show ?thesis using update_rows_change [OF assms(1) sel] by simp
  qed
qed

lemma stale_change:
  assumes "outbox_inv rows" "RecoverStaleAuditOutboxRecords locked owner threshold limit failure rows = (rows', res)"
  shows "rows_change rows rows'"
proof -
  let ?sel = "stale_rows (df_Now failure - threshold) limit (filter (\<lambda>r. \<not> locked (ob_EventID r)) rows)"
  have sel: "set ?sel \<subseteq> set rows" by (auto dest: stale_rows_delivering)
  consider "rows' = rows" | "failure_error failure = None" "rows' = update_rows (set (map ob_EventID ?sel)) (recover_row failure) rows"
    using assms(2) by (auto simp: RecoverStaleAuditOutboxRecords_def Let_def split: option.splits)
  then show ?thesis
  proof cases
    case 1
    with assms(1) show ?thesis by (simp add: unchanged)
  next
    case 2
    have "ob_EventID (recover_row failure r) = ob_EventID r \<and> record_step r (recover_row failure r)" if "r \<in> set ?sel" for r
    proof -
      have "row_ok r" using that sel inv_rows [OF assms(1)] by auto
      from recover_row_step [OF this _ 2(1)] stale_rows_delivering [OF that] show ?thesis
        by (auto intro: record_step.to_failed)
    qed
    with 2(2) update_rows_change [OF assms(1) sel] show ?thesis by simp
  qed
qed

lemma outbox_step_change: "outbox_step M b rows rows' \<Longrightarrow> outbox_inv rows \<Longrightarrow> rows_change rows rows'"
proof (induction rule: outbox_step.induct)
  case (append marshal now event rows rows')
  then obtain r where "rows' = rows @ [r]" "fresh_row r" "ob_EventID r \<notin> set (map ob_EventID rows)"
    using append_fresh by blast
  with append(3) show ?case
    unfolding rows_change_def by (intro exI [of _ id] exI [of _ "[r]"]) (auto simp: inv_distinct)
next
  case (delivered eventID now rows rows')
  then have d: "now \<noteq> 0" "update_where (delivering eventID) (delivered_row now) eventID rows = Inr rows'"
    by (auto simp: MarkAuditOutboxDelivered_def is_zero_def split: if_splits)
  show ?case
    using delivered_row_step [OF inv_rows [OF delivered(2)] _ d(1)]
    by (intro update_where_change [OF delivered(2) d(2)])
      (auto intro: record_step.to_delivered)
next
  case (failed eventID failure rows rows')
  then have d: "failure_error failure = None" "update_where (delivering eventID) (failed_row failure) eventID rows = Inr rows'"
    by (auto simp: MarkAuditOutboxDeliveryFailed_def split: if_splits option.splits)
  show ?case
    using failed_row_step [OF inv_rows [OF failed(3)] _ d(1)]
    by (intro update_where_change [OF failed(3) d(2)])
      (auto intro: record_step.to_failed)
qed (auto intro: claim_change stale_change)

text \<open>Row-wise induction over a step: a property of the rows is carried along when every update
  of a single row carries it along.\<close>

lemma outbox_step_rows:
  assumes "outbox_step M b rows rows'" "outbox_inv rows" "\<And>r. r \<in> set rows \<Longrightarrow> P r"
    and fresh: "\<And>r. fresh_row r \<Longrightarrow> Q r"
    and same: "\<And>r. P r \<Longrightarrow> Q r"
    and claim_upd: "\<And>r now. P r \<Longrightarrow> row_due now r \<Longrightarrow> ob_DeliveryAttempt r < max_int32 \<Longrightarrow> Q (claim_row now r)"
    and delivered_upd: "\<And>r now. P r \<Longrightarrow> ob_Status r = OutboxStatusDelivering \<Longrightarrow> Q (delivered_row now r)"
    and failed_upd: "\<And>r failure. P r \<Longrightarrow> ob_Status r = OutboxStatusDelivering \<Longrightarrow> df_MaxAttempts failure = M \<Longrightarrow> Q (failed_row failure r)"
    and recover_upd: "\<And>r failure. b \<Longrightarrow> P r \<Longrightarrow> ob_Status r = OutboxStatusDelivering \<Longrightarrow> Q (recover_row failure r)"
    and r': "r' \<in> set rows'"
  shows "Q r'"
  using assms(1)
proof (cases rule: outbox_step.cases)
  case (append marshal now event)
  then obtain q where "rows' = rows @ [q]" "fresh_row q" using append_fresh by blast
  with r' assms(3) fresh same show ?thesis by auto
next
  case (claim locked owner now limit res)
  let ?sel = "due_rows now limit (filter (\<lambda>r. \<not> locked (ob_EventID r)) rows)"
  consider "rows' = rows" | "rows' = update_rows (set (map ob_EventID ?sel)) (claim_row now) rows"
      "\<not> list_ex (\<lambda>r. ob_EventID r \<in> set (map ob_EventID ?sel) \<and> max_int32 \<le> ob_DeliveryAttempt r) rows"
    using claim by (auto simp: ClaimDueAuditOutboxRecords_def Let_def split: if_splits)
  then show ?thesis
  proof cases
    case 2
    with r' obtain r where r: "r \<in> set rows" "r' = (if ob_EventID r \<in> set (map ob_EventID ?sel) then claim_row now r else r)"
      by (auto simp: update_rows_def)
    show ?thesis
    proof (cases "ob_EventID r \<in> set (map ob_EventID ?sel)")
      case True
      have "r \<in> set ?sel" by (rule selected_row [OF assms(2) r(1) True]) (auto dest: due_rows_due)
      then have "row_due now r" by (auto dest: due_rows_due)
      moreover have "ob_DeliveryAttempt r < max_int32" using 2(2) r(1) True by (auto simp: list_ex_iff not_le)
      ultimately show ?thesis using claim_upd assms(3) r True by simp
    qed (use same assms(3) r in simp)
  qed (use r' assms(3) same in auto)
next
  case (delivered eventID now)
  then have "rows' = map (\<lambda>r. if delivering eventID r then delivered_row now r else r) rows"
    by (auto simp: MarkAuditOutboxDelivered_def update_where_def split: if_splits)
  with r' assms(3) same delivered_upd show ?thesis by (auto simp: delivering_def)
next
  case (failed eventID failure)
  then have "rows' = map (\<lambda>r. if delivering eventID r then failed_row failure r else r) rows"
    by (auto simp: MarkAuditOutboxDeliveryFailed_def update_where_def split: if_splits option.splits)
  with r' assms(3) same failed_upd failed show ?thesis by (auto simp: delivering_def)
next
  case (stale locked owner threshold limit failure res)
  let ?sel = "stale_rows (df_Now failure - threshold) limit (filter (\<lambda>r. \<not> locked (ob_EventID r)) rows)"
  consider "rows' = rows" | "rows' = update_rows (set (map ob_EventID ?sel)) (recover_row failure) rows"
    using stale by (auto simp: RecoverStaleAuditOutboxRecords_def Let_def split: option.splits)
  then show ?thesis
  proof cases
    case 2
    with r' obtain r where r: "r \<in> set rows" "r' = (if ob_EventID r \<in> set (map ob_EventID ?sel) then recover_row failure r else r)"
      by (auto simp: update_rows_def)
    show ?thesis
    proof (cases "ob_EventID r \<in> set (map ob_EventID ?sel)")
      case True
      have "r \<in> set ?sel" by (rule selected_row [OF assms(2) r(1) True]) (auto dest: stale_rows_delivering)
      then show ?thesis using recover_upd stale assms(3) r True by (auto dest: stale_rows_delivering)
    qed (use same assms(3) r in simp)
  qed (use r' assms(3) same in auto)
qed

lemma row_ok_updates:
  assumes "row_ok r"
  shows "row_due now r \<Longrightarrow> ob_DeliveryAttempt r < max_int32 \<Longrightarrow> row_ok (claim_row now r)"
    and "ob_Status r = OutboxStatusDelivering \<Longrightarrow> row_ok (delivered_row now r)"
    and "row_ok (failed_row failure r)" "row_ok (recover_row failure r)"
  using assms valid_record_parts [of r]
  by (simp_all add: row_ok_def claim_row_def delivered_row_def failed_row_def recover_row_def validateOutboxRecord_def)

lemma outbox_step_inv:
  assumes "outbox_step M b rows rows'" "outbox_inv rows"
  shows "outbox_inv rows'"
proof -
  have "row_ok r'" if "r' \<in> set rows'" for r'
    by (rule outbox_step_rows [OF assms _ _ _ _ _ _ _ that, where P = row_ok])
      (auto simp: fresh_row_def row_ok_updates intro: inv_rows [OF assms(2)])
  moreover have "distinct (map ob_EventID rows')"
    using outbox_step_change [OF assms] by (auto simp: rows_change_def)
  ultimately show ?thesis by (simp add: outbox_inv_def list_all_iff)
qed

text \<open>Runs of the table from the empty one; \<open>n\<close> counts the stale recoveries.\<close>

inductive outbox_run :: "go_int \<Rightarrow> nat \<Rightarrow> OutboxRecord list \<Rightarrow> bool" for M where
  run_empty: "outbox_run M 0 []"
| run_step: "outbox_run M n rows \<Longrightarrow> outbox_step M b rows rows' \<Longrightarrow> outbox_run M (if b then Suc n else n) rows'"

lemma outbox_run_inv: "outbox_run M n rows \<Longrightarrow> outbox_inv rows"
proof (induction rule: outbox_run.induct)
  case run_empty
  then show ?case by (simp add: outbox_inv_def)
next
  case (run_step n rows b rows')
  then show ?case by (auto intro: outbox_step_inv)
qed

text \<open>The attempts of a row after \<open>n\<close> stale recoveries.\<close>

definition attempts_ok :: "go_int \<Rightarrow> nat \<Rightarrow> OutboxRecord \<Rightarrow> bool" where
  "attempts_ok M n r \<longleftrightarrow>
     0 \<le> ob_DeliveryAttempt r \<and> ob_DeliveryAttempt r \<le> M + int n \<and>
     (ob_Status r = OutboxStatusPending \<longrightarrow> ob_DeliveryAttempt r = 0) \<and>
     (ob_Status r = OutboxStatusRetryWait \<longrightarrow> ob_DeliveryAttempt r < M + int n) \<and>
     (ob_Status r = OutboxStatusFailed \<longrightarrow> M \<le> ob_DeliveryAttempt r)"

lemma attempts_step:
  assumes "outbox_step M b rows rows'" "outbox_inv rows" "0 < M"
    "\<And>r. r \<in> set rows \<Longrightarrow> attempts_ok M n r" "r' \<in> set rows'"
  shows "attempts_ok M (if b then Suc n else n) r'"
  by (rule outbox_step_rows [OF assms(1,2) _ _ _ _ _ _ _ assms(5), where P = "attempts_ok M n"])
    (use assms(3,4) in \<open>auto simp: attempts_ok_def fresh_row_def claim_row_def delivered_row_def failed_row_def
      recover_row_def row_due_def\<close>)

lemma outbox_run_attempts: "outbox_run M n rows \<Longrightarrow> 0 < M \<Longrightarrow> r \<in> set rows \<Longrightarrow> attempts_ok M n r"
proof (induction arbitrary: r rule: outbox_run.induct)
  case (run_step n rows b rows')
  show ?case
    by (rule attempts_step [OF run_step(2) outbox_run_inv [OF run_step(1)] run_step(4)])
      (use run_step in auto)
qed simp

interpretation outbox_machine: terminal_machine record_step "\<lambda>r. OutboxStatus_Terminal (ob_Status r)"
  by unfold_locales
    (auto elim!: record_stepE simp: MarkDelivering_def MarkDelivered_def MarkDeliveryFailed_def Let_def
      split: if_splits option.splits)

section \<open>What a delivery pass does\<close>

fun handed :: "delivery_call list \<Rightarrow> string list" where
  "handed [] = []"
| "handed (Handed i _ # calls) = i # handed calls"
| "handed (_ # calls) = handed calls"

definition marked_delivered :: "delivery_call list \<Rightarrow> nat" where
  "marked_delivered calls = length (filter (\<lambda>c. \<exists>i. c = MarkedDelivered i True) calls)"

definition marked_failed :: "delivery_call list \<Rightarrow> nat" where
  "marked_failed calls = length (filter (\<lambda>c. \<exists>i. c = MarkedFailed i True) calls)"

definition pass_ok :: "OutboxRecord list \<Rightarrow> BatchResult \<Rightarrow> BatchResult \<Rightarrow> string option \<Rightarrow> delivery_call list \<Rightarrow> bool" where
  "pass_ok records result result' err calls \<longleftrightarrow>
     take (length (handed calls)) (map ob_EventID records) = handed calls \<and> length (handed calls) \<le> length records \<and>
     (\<forall>i b. MarkedDelivered i b \<in> set calls \<longrightarrow> Handed i True \<in> set calls) \<and>
     br_Claimed result' = br_Claimed result \<and>
     br_Delivered result' = br_Delivered result + int (marked_delivered calls) \<and>
     br_DeliveryFailuresRecorded result' = br_DeliveryFailuresRecorded result + int (marked_failed calls) \<and>
     (err = None \<longrightarrow> handed calls = map ob_EventID records \<and> br_Failed result' = br_Failed result \<and>
        marked_delivered calls + marked_failed calls = length records) \<and>
     (err \<noteq> None \<longrightarrow> br_Failed result' = br_Failed result + 1)"

lemma pass_ok_step:
  assumes "pass_ok rs mid result' err calls" "br_Claimed mid = br_Claimed result" "br_Failed mid = br_Failed result"
    and "br_Delivered mid = br_Delivered result + (if ok then 1 else 0)"
    and "br_DeliveryFailuresRecorded mid = br_DeliveryFailuresRecorded result + (if ok then 0 else 1)"
  shows "pass_ok (r # rs) result result' err
    (Handed (ob_EventID r) ok # (if ok then MarkedDelivered (ob_EventID r) True else MarkedFailed (ob_EventID r) True) # calls)"
  using assms by (auto simp: pass_ok_def marked_delivered_def marked_failed_def)

lemma deliver_all_pass:
  "deliver_all config store deliver now records result w = (w', result', err, calls) \<Longrightarrow>
     pass_ok records result result' err calls"
proof (induction config store deliver now records result w arbitrary: w' result' err calls rule: deliver_all.induct)
  case (1 config store deliver now result w)
  then show ?case by (simp add: pass_ok_def marked_delivered_def marked_failed_def)
next
  case (2 config store deliver now r rs result w)
  obtain w1 derr where d: "deliver r w = (w1, derr)" by (cases "deliver r w")
  show ?case
  proof (cases derr)
    case None
    obtain w2 merr where m: "ds_MarkDelivered store (ob_EventID r) now w1 = (w2, merr)"
      by (cases "ds_MarkDelivered store (ob_EventID r) now w1")
    show ?thesis
    proof (cases merr)
      case (Some x)
      with 2(3) d m None show ?thesis by (auto simp: pass_ok_def marked_delivered_def marked_failed_def)
    next
      case mNone: None
      let ?mid = "result\<lparr>br_Delivered := br_Delivered result + 1, br_Results := br_Results result @
        [\<lparr>rr_EventID = ob_EventID r, rr_Outcome = OutcomeDelivered, rr_Reason = [], rr_Error = None\<rparr>]\<rparr>"
      obtain w3 res3 err3 calls3 where x: "deliver_all config store deliver now rs ?mid w2 = (w3, res3, err3, calls3)"
        by (cases "deliver_all config store deliver now rs ?mid w2")
      with 2(3) d m None mNone have y: "result' = res3" "err = err3"
        "calls = Handed (ob_EventID r) True # MarkedDelivered (ob_EventID r) True # calls3" by auto
      from 2(1) [OF d [symmetric] None m [symmetric] mNone x] show ?thesis
        unfolding y using pass_ok_step [of rs ?mid res3 err3 calls3 result True r] by simp
    qed
  next
    case (Some e)
    let ?f = "delivery_failure config (RedactString e) now"
    obtain w2 merr where m: "ds_MarkFailed store (ob_EventID r) ?f w1 = (w2, merr)"
      by (cases "ds_MarkFailed store (ob_EventID r) ?f w1")
    show ?thesis
    proof (cases merr)
      case (Some x)
      with 2(3) d m \<open>derr = Some e\<close> show ?thesis by (auto simp: pass_ok_def marked_delivered_def marked_failed_def Let_def)
    next
      case None
      let ?mid = "result\<lparr>br_DeliveryFailuresRecorded := br_DeliveryFailuresRecorded result + 1, br_Results := br_Results result @
        [\<lparr>rr_EventID = ob_EventID r, rr_Outcome = OutcomeDeliveryFailureRecorded, rr_Reason = RedactString e, rr_Error = None\<rparr>]\<rparr>"
      obtain w3 res3 err3 calls3 where x: "deliver_all config store deliver now rs ?mid w2 = (w3, res3, err3, calls3)"
        by (cases "deliver_all config store deliver now rs ?mid w2")
      with 2(3) d m None \<open>derr = Some e\<close> have y: "result' = res3" "err = err3"
        "calls = Handed (ob_EventID r) False # MarkedFailed (ob_EventID r) True # calls3" by (auto simp: Let_def)
      from 2(2) [OF d [symmetric] \<open>derr = Some e\<close> refl m [symmetric] None x] show ?thesis
        unfolding y using pass_ok_step [of rs ?mid res3 err3 calls3 result False r] by simp
    qed
  qed
qed

section \<open>Properties\<close>

text \<open>C32. The SQL statements implement the record transitions: on every table that can arise, one
  statement changes each row by at most one transition of \<open>outbox.go\<close> and never a delivered
  or failed one, identifiers stay unique, and new rows are pending with no attempt.\<close>

theorem outbox_refines_transitions:
  assumes "outbox_run M n rows" "outbox_step M b rows rows'"
  shows "\<exists>f new. rows' = map f rows @ new \<and> distinct (map ob_EventID rows') \<and>
    list_all (\<lambda>r. ob_EventID (f r) = ob_EventID r \<and> (f r = r \<or> record_step r (f r)) \<and>
      (OutboxStatus_Terminal (ob_Status r) \<longrightarrow> f r = r)) rows \<and>
    list_all (\<lambda>r. ob_Status r = OutboxStatusPending \<and> ob_DeliveryAttempt r = 0) new"
proof -
  obtain f new where f: "rows' = map f rows @ new"
    "\<forall>r \<in> set rows. ob_EventID (f r) = ob_EventID r \<and> (f r = r \<or> record_step r (f r))"
    "list_all fresh_row new" "distinct (map ob_EventID rows')"
    using outbox_step_change [OF assms(2) outbox_run_inv [OF assms(1)]] unfolding rows_change_def by blast
  have "list_all (\<lambda>r. ob_EventID (f r) = ob_EventID r \<and> (f r = r \<or> record_step r (f r)) \<and>
      (OutboxStatus_Terminal (ob_Status r) \<longrightarrow> f r = r)) rows"
    using f(2) outbox_machine.terminal_step by (auto simp: list_all_iff)
  moreover have "list_all (\<lambda>r. ob_Status r = OutboxStatusPending \<and> ob_DeliveryAttempt r = 0) new"
    using f(3) by (auto simp: list_all_iff fresh_row_def)
  ultimately show ?thesis using f(1,4) by blast
qed

text \<open>The number of delivery attempts of an event is bounded: after any run of the table with
  the limit \<open>M\<close> and \<open>n\<close> recoveries of stale deliveries no row has more than \<open>M + n\<close> attempts, a
  row that waits for a retry has fewer, and a row is failed for good only after \<open>M\<close>.\<close>

theorem delivery_attempts_bounded:
  assumes "outbox_run M n rows" "0 < M" "r \<in> set rows"
  shows "0 \<le> ob_DeliveryAttempt r \<and> ob_DeliveryAttempt r \<le> M + int n \<and>
    (ob_Status r = OutboxStatusRetryWait \<longrightarrow> ob_DeliveryAttempt r < M + int n) \<and>
    (ob_Status r = OutboxStatusFailed \<longrightarrow> M \<le> ob_DeliveryAttempt r)"
  using outbox_run_attempts [OF assms] by (simp add: attempts_ok_def)

text \<open>C33. A delivery pass hands the claimed records to the deliverer in order and each at most once,
  marks a record delivered only after the deliverer accepted it, counts exactly what it
  marked, and when it reports no error it has handed over and marked every claimed record.\<close>

theorem delivery_pass_exact:
  assumes "validated_delivery config w = Inr (store, deliver, owner, now)"
    "ds_Claim store owner now (dc_Limit config) w = (w1, Inr records)"
    "Delivery_RunOnce config w = (w', result, err, calls)"
  shows "take (length (handed calls)) (map ob_EventID records) = handed calls \<and>
    (\<forall>i b. MarkedDelivered i b \<in> set calls \<longrightarrow> Handed i True \<in> set calls) \<and>
    br_Claimed result = int (length records) \<and>
    br_Delivered result = int (marked_delivered calls) \<and>
    br_DeliveryFailuresRecorded result = int (marked_failed calls) \<and>
    (err = None \<longrightarrow> handed calls = map ob_EventID records \<and> br_Failed result = 0 \<and>
       br_Delivered result + br_DeliveryFailuresRecorded result = br_Claimed result) \<and>
    (err \<noteq> None \<longrightarrow> br_Failed result = 1)"
proof -
  have "deliver_all config store deliver now records (empty_batch\<lparr>br_Claimed := int (length records)\<rparr>) w1 =
      (w', result, err, calls)"
    using assms by (simp add: Delivery_RunOnce_def)
  from deliver_all_pass [OF this] show ?thesis
    unfolding pass_ok_def by (auto simp: empty_batch_def)
qed

section \<open>Examples\<close>

definition example_row :: OutboxRecord where
  "example_row =
     \<lparr>ob_EventID = ''e1'', ob_EventType = EventTypeRestore, ob_EventTime = 5, ob_PayloadJSON = ''{}'',
      ob_Status = OutboxStatusPending, ob_DeliveryAttempt = 0, ob_NextRetryAt = None, ob_LastError = [],
      ob_CreatedAt = 6, ob_UpdatedAt = 6, ob_DeliveredAt = None\<rparr>"

definition example_outbox_event :: AuditEvent where
  "example_outbox_event =
     \<lparr>ev_EventID = ''e1'', ev_Type = EventTypeRestore, ev_Time = 5, ev_CallerService = ''svc'',
      ev_AuthorizedActor = \<lparr>actor_Type = ''user'', actor_ID = ''u1''\<rparr>, ev_CorrelationID = ''c'', ev_OperationID = ''op_12'',
      ev_Resource = \<lparr>ares_Type = ''repo'', ares_ID = ''repo_12'', ares_NamespaceID = ''ns_12'', ares_Path = []\<rparr>,
      ev_Outcome = OutcomeSucceeded, ev_Reason = [], ev_Details = None\<rparr>"

lemma example_outbox_trims:
  "trim_space ''e1'' = ''e1''" "trim_space ''restore'' = ''restore''" "trim_space ''w1'' = ''w1''" "trim_space ''{}'' = ''{}''"
  by (simp_all add: trim_space_id is_space_byte_def byte_def)

lemma example_append:
  "AppendAuditEvent (\<lambda>_. Inr ''{}'') 6 example_outbox_event [] = Inr [example_row]"
proof -
  have "unmarshal_object ''{}'' = ObjectValue" by code_simp
  then show ?thesis
    by (simp add: AppendAuditEvent_def NewOutboxRecord_def insert_row_def row_checks_def example_outbox_event_def
        example_row_def example_outbox_trims is_zero_def max_int32_def)
qed

lemma example_outbox_run: "outbox_run 3 0 [example_row]"
proof -
  have "outbox_step 3 False [] [example_row]"
    by (rule outbox_step.append [OF example_append]) (simp add: example_outbox_event_def example_outbox_trims)
  from outbox_run.run_step [OF outbox_run.run_empty this] show ?thesis by simp
qed

lemma example_claim:
  "outbox_step 3 False [example_row] [claim_row 9 example_row]"
proof (rule outbox_step.claim [of "\<lambda>_. False" "''w1''" 9 10])
  show "ClaimDueAuditOutboxRecords (\<lambda>_. False) ''w1'' 9 10 [example_row] =
      ([claim_row 9 example_row], scanAuditOutboxRecords [claim_row 9 example_row])"
    by (simp add: ClaimDueAuditOutboxRecords_def example_outbox_trims is_zero_def due_rows_def row_due_def example_row_def
        update_rows_def returned_rows_def max_int32_def)
qed

theorem outbox_refines_transitions_witness:
  "\<exists>f new. [claim_row 9 example_row] = map f [example_row] @ new \<and> ob_EventID (f example_row) = ''e1''"
  using outbox_refines_transitions [OF example_outbox_run example_claim] by (auto simp: example_row_def)

theorem delivery_attempts_bounded_witness: "ob_DeliveryAttempt (claim_row 9 example_row) \<le> 3"
  using delivery_attempts_bounded [of 3 0 "[claim_row 9 example_row]" "claim_row 9 example_row"]
    outbox_run.run_step [OF example_outbox_run example_claim] by simp

definition example_delivery :: "nat DeliveryConfig" where
  "example_delivery =
     \<lparr>dc_Store = Some \<lparr>ds_Claim = (\<lambda>_ _ _ w. (w, Inr [example_row])), ds_Recover = (\<lambda>_ _ _ _ w. (w, Inr [])),
        ds_MarkDelivered = (\<lambda>_ _ w. (w + 1, None)), ds_MarkFailed = (\<lambda>_ _ w. (w, None))\<rparr>,
      dc_Deliverer = Some (\<lambda>_ w. (w, None)), dc_Owner = ''w1'', dc_Limit = 5, dc_MaxAttempts = 3, dc_RetryBackoff = 1,
      dc_Now = 9, dc_Clock = None\<rparr>"

lemma example_delivery_valid:
  "validated_delivery example_delivery w = Inr (the (dc_Store example_delivery), the (dc_Deliverer example_delivery), ''w1'', 9)"
  unfolding validated_delivery_def Let_def
  by (simp add: example_delivery_def example_outbox_trims decision_time_def is_zero_def check_def)

lemma example_delivery_run:
  "Delivery_RunOnce example_delivery 0 =
     (1, \<lparr>br_Claimed = 1, br_Delivered = 1, br_DeliveryFailuresRecorded = 0, br_Failed = 0,
          br_Results = [\<lparr>rr_EventID = ''e1'', rr_Outcome = OutcomeDelivered, rr_Reason = [], rr_Error = None\<rparr>]\<rparr>, None,
      [Handed ''e1'' True, MarkedDelivered ''e1'' True])"
  unfolding Delivery_RunOnce_def example_delivery_valid
  by (simp add: example_delivery_def empty_batch_def example_row_def decision_time_def is_zero_def)

theorem delivery_pass_exact_witness:
  "handed (snd (snd (snd (Delivery_RunOnce example_delivery 0)))) = [''e1''] \<and>
   br_Delivered (fst (snd (Delivery_RunOnce example_delivery 0))) = 1"
proof -
  have c: "ds_Claim (the (dc_Store example_delivery)) ''w1'' 9 (dc_Limit example_delivery) 0 = (0, Inr [example_row])"
    by (simp add: example_delivery_def)
  show ?thesis
    using delivery_pass_exact [OF example_delivery_valid c example_delivery_run] unfolding example_delivery_run
    by (simp add: example_row_def marked_delivered_def)
qed

end
