(* ===== verification/Recovery_Coordinator.thy ===== *)
theory Recovery_Coordinator
  imports Operation_Exec Recovery_Planner
begin

text \<open>
  The recovery coordinator: \<open>internal/recovery/operation.go\<close>. One pass lists the operations
  that need recovery, classifies each, acquires its lease and executes, finalises or parks
  it. The stores, the executor and the clock are parameters that act on a state \<open>'w\<close> of the
  outside world, which other workers may change as well: each parameter returns the state
  in which the pass goes on. While an operation is executed its lease is renewed by a
  goroutine; the parameter for an execution also returns the events that the goroutine
  sees, in any order and number. A ghost log records the calls.
\<close>

section \<open>Errors\<close>

datatype rec_error =
    RecText string
  | ErrLeaseUnavailable string
  | ErrOperationManualIntervention string
  | ErrOperationLeaseRenewalFailed string rec_error
  | RecJoin "rec_error list"
  | RecWrap string rec_error

text \<open>\<open>errors.Is\<close> for the two sentinels that the pass asks for.\<close>

fun is_unavailable :: "rec_error \<Rightarrow> bool" where
  "is_unavailable (ErrLeaseUnavailable _) = True"
| "is_unavailable (ErrOperationLeaseRenewalFailed _ e) = is_unavailable e"
| "is_unavailable (RecJoin es) = list_ex is_unavailable es"
| "is_unavailable (RecWrap _ e) = is_unavailable e"
| "is_unavailable _ = False"

fun is_manual :: "rec_error \<Rightarrow> bool" where
  "is_manual (ErrOperationManualIntervention _) = True"
| "is_manual (ErrOperationLeaseRenewalFailed _ e) = is_manual e"
| "is_manual (RecJoin es) = list_ex is_manual es"
| "is_manual (RecWrap _ e) = is_manual e"
| "is_manual _ = False"

section \<open>Configuration and results\<close>

type_synonym 'w reader = "go_time \<Rightarrow> go_int \<Rightarrow> 'w \<Rightarrow> 'w \<times> (rec_error + OperationRecord list)"
type_synonym 'w lease_call = "string \<Rightarrow> LeaseRequest \<Rightarrow> 'w \<Rightarrow> 'w \<times> (rec_error + OperationRecord)"
type_synonym 'w committer =
  "SanitizedOperationRecord \<Rightarrow> string \<Rightarrow> go_time \<Rightarrow> AuditEvent \<Rightarrow> 'w \<Rightarrow> 'w \<times> (rec_error + OperationRecord)"

record 'w LeaseStore =
  ls_Acquire :: "'w lease_call"
  ls_Renew :: "'w lease_call"

text \<open>What the renewal goroutine sees: a tick, with the answer of the store and whether at that
  moment the pass was cancelled or the renewal was stopped; the stop; the end of the pass.\<close>

datatype renewal_event =
    RenewTick "rec_error + OperationRecord" bool bool
  | RenewStop
  | RenewContextDone

record 'w OperationExecutor =
  oe_Supports :: "OperationRecord \<Rightarrow> RecoveryPlan \<Rightarrow> 'w \<Rightarrow> OperationSupport"
  oe_Execute :: "OperationRecord \<Rightarrow> RecoveryPlan \<Rightarrow> 'w \<Rightarrow> 'w \<times> rec_error option \<times> renewal_event list"

record 'w OperationConfig =
  oc_Reader :: "'w reader option"
  oc_LeaseStore :: "'w LeaseStore option"
  oc_CommitStore :: "'w committer option"
  oc_Executor :: "'w OperationExecutor option"
  oc_GetOperation :: "(string \<Rightarrow> 'w \<Rightarrow> rec_error + OperationRecord) option"
  oc_Owner :: string
  oc_LeaseDuration :: go_duration
  oc_Limit :: go_int
  oc_Now :: go_time
  oc_Clock :: "('w \<Rightarrow> go_time) option"
  oc_AuditEventID :: "('w \<Rightarrow> 'w \<times> string) option"

datatype OperationOutcome =
    OperationOutcomeClaimed | OperationOutcomeReclaimed | OperationOutcomeFinalized | OperationOutcomeSkipped
  | OperationOutcomeManual | OperationOutcomeUnsupported | OperationOutcomeRaceLost | OperationOutcomeFailed

record OperationResult =
  or_OperationID :: string
  or_Action :: RecoveryAction
  or_Outcome :: OperationOutcome
  or_Reason :: string
  or_Error :: "rec_error option"

record OperationBatchResult =
  ob_Scanned :: go_int
  ob_Claimed :: go_int
  ob_Reclaimed :: go_int
  ob_Finalized :: go_int
  ob_Skipped :: go_int
  ob_Manual :: go_int
  ob_Unsupported :: go_int
  ob_RaceLost :: go_int
  ob_Failed :: go_int
  ob_Results :: "OperationResult list"

definition empty_result :: OperationBatchResult where
  "empty_result = \<lparr>ob_Scanned = 0, ob_Claimed = 0, ob_Reclaimed = 0, ob_Finalized = 0, ob_Skipped = 0, ob_Manual = 0,
     ob_Unsupported = 0, ob_RaceLost = 0, ob_Failed = 0, ob_Results = []\<rparr>"

text \<open>A counter and its result item are written together.\<close>

fun count :: "OperationOutcome \<Rightarrow> OperationBatchResult \<Rightarrow> OperationBatchResult" where
  "count OperationOutcomeClaimed res = res\<lparr>ob_Claimed := ob_Claimed res + 1\<rparr>"
| "count OperationOutcomeReclaimed res = res\<lparr>ob_Reclaimed := ob_Reclaimed res + 1\<rparr>"
| "count OperationOutcomeFinalized res = res\<lparr>ob_Finalized := ob_Finalized res + 1\<rparr>"
| "count OperationOutcomeSkipped res = res\<lparr>ob_Skipped := ob_Skipped res + 1\<rparr>"
| "count OperationOutcomeManual res = res\<lparr>ob_Manual := ob_Manual res + 1\<rparr>"
| "count OperationOutcomeUnsupported res = res\<lparr>ob_Unsupported := ob_Unsupported res + 1\<rparr>"
| "count OperationOutcomeRaceLost res = res\<lparr>ob_RaceLost := ob_RaceLost res + 1\<rparr>"
| "count OperationOutcomeFailed res = res\<lparr>ob_Failed := ob_Failed res + 1\<rparr>"

definition report_result :: "OperationResult \<Rightarrow> OperationBatchResult \<Rightarrow> OperationBatchResult" where
  "report_result item res = (count (or_Outcome item) res)\<lparr>ob_Results := ob_Results res @ [item]\<rparr>"

datatype recovery_call =
    RecAcquire string LeaseCancelPolicy bool
  | RecExecute string
  | RecCommit string bool

record 'w pass_state =
  ps_world :: 'w
  ps_result :: OperationBatchResult
  ps_log :: "recovery_call list"

definition report_item :: "OperationResult \<Rightarrow> 'w pass_state \<Rightarrow> 'w pass_state" where
  "report_item item st = st\<lparr>ps_result := report_result item (ps_result st)\<rparr>"

section \<open>Helpers\<close>

definition operationDecisionNow :: "'w OperationConfig \<Rightarrow> 'w \<Rightarrow> rec_error + go_time" where
  "operationDecisionNow config w =
     (let now = (case oc_Clock config of Some clock \<Rightarrow> clock w | None \<Rightarrow> oc_Now config) in
      if is_zero now then Inl (RecText ''operation recovery time must be set'') else Inr now)"

definition unsupportedReason :: "OperationSupport \<Rightarrow> string" where
  "unsupportedReason support =
     (if trim_space (support_Reason support) \<noteq> [] then trim_space (support_Reason support) else ''unsupported_operation_recovery'')"

text \<open>\<open>operationLeaseRenewalInterval\<close>, in nanoseconds; Go's division of positive durations.\<close>

definition minOperationLeaseRenewalInterval :: go_duration where
  "minOperationLeaseRenewalInterval = 1000000000"

definition operationLeaseRenewalInterval :: "go_duration \<Rightarrow> go_duration" where
  "operationLeaseRenewalInterval leaseDuration =
     (if leaseDuration \<le> 0 then minOperationLeaseRenewalInterval
      else
        let interval = max (leaseDuration div 3) minOperationLeaseRenewalInterval;
            latestSafeInterval = leaseDuration div 2;
            interval' = (if 0 < latestSafeInterval \<and> latestSafeInterval < interval then latestSafeInterval else interval)
        in if interval' \<le> 0 then 1000000 else interval')"

definition validatedConfig ::
    "'w OperationConfig \<Rightarrow> 'w \<Rightarrow> rec_error + 'w OperationConfig \<times> go_time" where
  "validatedConfig config w =
     (case checks
        [check (oc_Reader config = None) ''operation recovery reader is required'',
         check (oc_LeaseStore config = None) ''operation lease store is required'',
         check (oc_CommitStore config = None) ''operation recovery commit store is required'',
         check (oc_Executor config = None) ''operation recovery executor is required'',
         check (oc_AuditEventID config = None) ''operation recovery audit event id generator is required'',
         check (trim_space (oc_Owner config) = []) ''operation recovery owner is required'',
         check (oc_LeaseDuration config \<le> 0) ''operation recovery lease duration must be positive'',
         check (oc_Limit config \<le> 0) ''operation recovery limit must be positive''] of
        Some err \<Rightarrow> Inl (RecText err)
      | None \<Rightarrow>
        (case operationDecisionNow config w of
           Inl err \<Rightarrow> Inl (RecText ''operation recovery time must be set'')
         | Inr now \<Rightarrow> Inr (config\<lparr>oc_Owner := trim_space (oc_Owner config), oc_Now := now\<rparr>, now)))"

definition acquireOperation ::
    "'w OperationConfig \<Rightarrow> 'w LeaseStore \<Rightarrow> string \<Rightarrow> LeaseCancelPolicy \<Rightarrow> 'w pass_state \<Rightarrow>
     'w pass_state \<times> (rec_error + OperationRecord)" where
  "acquireOperation config leases operationID cancelPolicy st =
     (case operationDecisionNow config (ps_world st) of
        Inl err \<Rightarrow> (st, Inl (RecWrap ''operation recovery lease decision time'' err))
      | Inr now \<Rightarrow>
        (case ls_Acquire leases operationID
            \<lparr>req_Owner = oc_Owner config, req_Duration = oc_LeaseDuration config, req_Now = now,
             req_RecoveryMode = LeaseRecoveryNone, req_CancelPolicy = cancelPolicy\<rparr> (ps_world st) of
           (w, res) \<Rightarrow>
             (st\<lparr>ps_world := w, ps_log := ps_log st @ [RecAcquire operationID cancelPolicy (\<not> isl res)]\<rparr>, res)))"

text \<open>\<open>recordAcquireError\<close> and \<open>recordUnsupportedCommitError\<close> differ in the text of the error that
  ends the pass.\<close>

definition record_error :: "string \<Rightarrow> OperationResult \<Rightarrow> rec_error \<Rightarrow> 'w pass_state \<Rightarrow> 'w pass_state \<times> rec_error option" where
  "record_error what item err st =
     (if is_unavailable err
      then (report_item (item\<lparr>or_Error := Some err, or_Outcome := OperationOutcomeRaceLost\<rparr>) st, None)
      else (report_item (item\<lparr>or_Error := Some err, or_Outcome := OperationOutcomeFailed\<rparr>) st,
        Some (RecWrap (what @ or_OperationID item) err)))"

definition recordAcquireError :: "OperationResult \<Rightarrow> rec_error \<Rightarrow> 'w pass_state \<Rightarrow> 'w pass_state \<times> rec_error option" where
  "recordAcquireError = record_error ''operation recovery acquire ''"

definition recordUnsupportedCommitError ::
    "OperationResult \<Rightarrow> rec_error \<Rightarrow> 'w pass_state \<Rightarrow> 'w pass_state \<times> rec_error option" where
  "recordUnsupportedCommitError = record_error ''operation recovery unsupported commit ''"

section \<open>Unsupported operations\<close>

fun RecoveryAction_String :: "RecoveryAction \<Rightarrow> string" where
  "RecoveryAction_String RecoveryActionNoop = ''noop''"
| "RecoveryAction_String RecoveryActionClaimable = ''claimable''"
| "RecoveryAction_String RecoveryActionRetry = ''retry''"
| "RecoveryAction_String RecoveryActionWait = ''wait''"
| "RecoveryAction_String RecoveryActionReclaim = ''reclaim''"
| "RecoveryAction_String RecoveryActionRecover = ''recover''"
| "RecoveryAction_String RecoveryActionDeliver = ''deliver''"
| "RecoveryAction_String RecoveryActionFinalizeCancellation = ''finalize_cancellation''"
| "RecoveryAction_String RecoveryActionManualIntervention = ''manual_intervention''"
| "RecoveryAction_String (RecoveryActionOther s) = s"

definition unsupportedOperationEvidence :: "OperationRecord \<Rightarrow> RecoveryPlan \<Rightarrow> go_object" where
  "unsupportedOperationEvidence opr plan =
     [(''operation_type'', AnyString (OperationType_String (op_Type opr))), (''phase'', AnyString (op_Phase opr)),
      (''recovery_action'', AnyString (RecoveryAction_String (plan_Action plan))),
      (''recovery_reason'', AnyString (plan_Reason plan))]"

definition unsupportedOperationUpdate :: "OperationRecord \<Rightarrow> string \<Rightarrow> go_object \<Rightarrow> OperationRecord" where
  "unsupportedOperationUpdate opr reason evidence =
     (let details = [(''reason'', AnyString reason), (''evidence'', AnyMap evidence)] in
      opr\<lparr>op_State := OperationStateOperatorInterventionRequired,
          op_Error := Some \<lparr>operr_Code = ''OPERATION_RECOVERY_REQUIRED'',
            operr_Message = ''operation recovery is unsupported; operator intervention required'', operr_Retryable = False,
            operr_CorrelationID = op_CorrelationID opr, operr_OperationID = op_ID opr, operr_Details = Some details\<rparr>,
          op_VerificationResult := AnyMap details\<rparr>)"

definition unsupportedOperationAuditEvent ::
    "('w \<Rightarrow> 'w \<times> string) \<Rightarrow> OperationRecord \<Rightarrow> string \<Rightarrow> go_object \<Rightarrow> go_time \<Rightarrow> 'w \<Rightarrow> 'w \<times> (rec_error + AuditEvent)" where
  "unsupportedOperationAuditEvent auditEventID opr reason evidence now w =
     (case auditEventID w of (w', generated) \<Rightarrow>
        (w', let eventID = trim_space generated in
          if eventID = [] then Inl (RecText ''operation recovery audit event id must be set'')
          else case EventTypeForOperationType (OperationType_String (op_Type opr)) of
            None \<Rightarrow> Inl (RecText ''operation recovery audit event type is not registered'')
          | Some eventType \<Rightarrow> Inr (NewEvent
              \<lparr>ev_EventID = eventID, ev_Type = eventType, ev_Time = now, ev_CallerService = op_CallerService opr,
               ev_AuthorizedActor = op_AuthorizedActor opr, ev_CorrelationID = op_CorrelationID opr,
               ev_OperationID = op_ID opr,
               ev_Resource = \<lparr>ares_Type = resource_Type (op_Resource opr), ares_ID = resource_ID (op_Resource opr),
                 ares_NamespaceID = op_NamespaceID opr, ares_Path = []\<rparr>,
               ev_Outcome = OutcomeFailed, ev_Reason = ''unsupported_operation_recovery'',
               ev_Details = Some [(''reason'', AnyString reason), (''evidence'', AnyMap evidence)]\<rparr>)))"

text \<open>The parts of a validated configuration.\<close>

record 'w coordinator =
  co_config :: "'w OperationConfig"
  co_leases :: "'w LeaseStore"
  co_commit :: "'w committer"
  co_executor :: "'w OperationExecutor"
  co_auditEventID :: "'w \<Rightarrow> 'w \<times> string"

text \<open>Not supported: the operation is leased and parked for an operator. The first result is
  whether the operation is supported.\<close>

definition operationSupported ::
    "'w coordinator \<Rightarrow> OperationRecord \<Rightarrow> RecoveryPlan \<Rightarrow> OperationResult \<Rightarrow> 'w pass_state \<Rightarrow>
     bool \<times> 'w pass_state \<times> rec_error option" where
  "operationSupported co opr plan item st =
     (let config = co_config co; support = oe_Supports (co_executor co) opr plan (ps_world st) in
      if support_Supported support then (True, st, None)
      else
        let reason = unsupportedReason support;
            item' = item\<lparr>or_Outcome := OperationOutcomeUnsupported, or_Reason := reason\<rparr> in
        case acquireOperation config (co_leases co) (op_ID opr) LeaseCancelPolicyNone st of
          (st1, Inl err) \<Rightarrow> (False, recordAcquireError item' err st1)
        | (st1, Inr updated) \<Rightarrow>
          let evidence = unsupportedOperationEvidence updated plan;
              operation = unsupportedOperationUpdate updated reason evidence in
          (case operationDecisionNow config (ps_world st1) of
             Inl err \<Rightarrow> (False, recordUnsupportedCommitError item' err st1)
           | Inr commitNow \<Rightarrow>
             (case unsupportedOperationAuditEvent (co_auditEventID co) updated reason evidence commitNow (ps_world st1) of
                (w2, Inl err) \<Rightarrow> (False, recordUnsupportedCommitError item' err (st1\<lparr>ps_world := w2\<rparr>))
              | (w2, Inr event) \<Rightarrow>
                (case co_commit co (SanitizedForPersistence operation) (oc_Owner config) commitNow event w2 of
                   (w3, res) \<Rightarrow>
                     let st2 = st1\<lparr>ps_world := w3, ps_log := ps_log st1 @ [RecCommit (op_ID operation) (\<not> isl res)]\<rparr> in
                     (case res of
                        Inl err \<Rightarrow> (False, recordUnsupportedCommitError item' err st2)
                      | Inr _ \<Rightarrow> (False, report_item item' st2, None))))))"

section \<open>Execution under renewal\<close>

text \<open>The goroutine of \<open>startOperationLeaseRenewal\<close>: the error it leaves in \<open>done\<close>, and in \<open>errs\<close> if
  it is one.\<close>

fun renewal_loop :: "string \<Rightarrow> renewal_event list \<Rightarrow> rec_error option" where
  "renewal_loop operationID [] = None"
| "renewal_loop operationID (RenewTick (Inr _) _ _ # es) = renewal_loop operationID es"
| "renewal_loop operationID (RenewTick (Inl err) passDone stopped # es) =
     (if passDone then None else if stopped then None else Some (ErrOperationLeaseRenewalFailed operationID err))"
| "renewal_loop operationID (RenewStop # es) = None"
| "renewal_loop operationID (RenewContextDone # es) = None"

definition operationCommittedOutcomeVisible ::
    "'w OperationConfig \<Rightarrow> string \<Rightarrow> rec_error option \<Rightarrow> 'w \<Rightarrow> rec_error + bool" where
  "operationCommittedOutcomeVisible config operationID execErr w =
     (let isManual = (case execErr of None \<Rightarrow> False | Some e \<Rightarrow> is_manual e) in
      if execErr \<noteq> None \<and> \<not> isManual then Inr False
      else case oc_GetOperation config of
        None \<Rightarrow> Inr False
      | Some get \<Rightarrow>
        (case get operationID w of
           Inl err \<Rightarrow> Inl err
         | Inr opr \<Rightarrow>
           if IsTerminal (op_State opr) then Inr True
           else Inr (isManual \<and> op_State opr = OperationStateOperatorInterventionRequired)))"

text \<open>Both branches of the \<open>select\<close> wait for the executor and for the goroutine: they end with the
  executor's error and the goroutine's. The first result is whether the claim counts.\<close>

definition executeOperation ::
    "'w coordinator \<Rightarrow> OperationRecord \<Rightarrow> RecoveryPlan \<Rightarrow> OperationResult \<Rightarrow> 'w pass_state \<Rightarrow>
     bool \<times> 'w pass_state \<times> rec_error option" where
  "executeOperation co opr plan item st =
     (case oe_Execute (co_executor co) opr plan (ps_world st) of (w, err, events) \<Rightarrow>
        let st1 = st\<lparr>ps_world := w, ps_log := ps_log st @ [RecExecute (op_ID opr)]\<rparr>;
            renewed = renewal_loop (op_ID opr) events;
            renewErr = (case renewed of
                None \<Rightarrow> None
              | Some e \<Rightarrow>
                (case operationCommittedOutcomeVisible (co_config co) (or_OperationID item) err w of
                   Inr True \<Rightarrow> None
                 | Inr False \<Rightarrow> Some e
                 | Inl readErr \<Rightarrow> Some (RecJoin [e, RecWrap ''operation recovery terminal state read'' readErr])))
        in case renewErr of
          Some e \<Rightarrow>
            let joined = RecJoin ((case err of None \<Rightarrow> [] | Some x \<Rightarrow> [x]) @ [e]) in
            (False, report_item (item\<lparr>or_Outcome := OperationOutcomeFailed, or_Error := Some joined\<rparr>) st1,
             Some (RecWrap (''operation recovery renew '' @ or_OperationID item) joined))
        | None \<Rightarrow>
          (case err of
             None \<Rightarrow> (True, st1, None)
           | Some e \<Rightarrow>
             if is_manual e
             then (False, report_item (item\<lparr>or_Outcome := OperationOutcomeManual, or_Error := Some e\<rparr>) st1, None)
             else (False, report_item (item\<lparr>or_Outcome := OperationOutcomeFailed, or_Error := Some e\<rparr>) st1,
               Some (RecWrap (''operation recovery execute '' @ or_OperationID item) e))))"

section \<open>The pass\<close>

definition run_supported ::
    "'w coordinator \<Rightarrow> OperationRecord \<Rightarrow> RecoveryPlan \<Rightarrow> OperationResult \<Rightarrow> 'w pass_state \<Rightarrow> 'w pass_state \<times> rec_error option" where
  "run_supported co opr plan item st =
     (case operationSupported co opr plan item st of
        (_, st1, Some fatal) \<Rightarrow> (st1, Some fatal)
      | (False, st1, None) \<Rightarrow> (st1, None)
      | (True, st1, None) \<Rightarrow>
        (case acquireOperation (co_config co) (co_leases co) (op_ID opr) LeaseCancelPolicyNone st1 of
           (st2, Inl err) \<Rightarrow> recordAcquireError item err st2
         | (st2, Inr updated) \<Rightarrow>
           (case executeOperation co updated plan item st2 of
              (_, st3, Some fatal) \<Rightarrow> (st3, Some fatal)
            | (counted, st3, None) \<Rightarrow> ((if counted then report_item item st3 else st3), None))))"

definition recover_operation ::
    "'w coordinator \<Rightarrow> go_time \<Rightarrow> OperationRecord \<Rightarrow> 'w pass_state \<Rightarrow> 'w pass_state \<times> rec_error option" where
  "recover_operation co now opr st =
     (let plan = ClassifyOperationRecovery opr \<lparr>rc_Now = now, rc_ExplicitRecovery = False, rc_StaleDeliveringThreshold = 0\<rparr>;
          item = (\<lambda>outcome. \<lparr>or_OperationID = op_ID opr, or_Action = plan_Action plan, or_Outcome = outcome,
            or_Reason = plan_Reason plan, or_Error = None\<rparr>) in
      case plan_Action plan of
        RecoveryActionClaimable \<Rightarrow> run_supported co opr plan (item OperationOutcomeClaimed) st
      | RecoveryActionRetry \<Rightarrow> run_supported co opr plan (item OperationOutcomeClaimed) st
      | RecoveryActionReclaim \<Rightarrow> run_supported co opr plan (item OperationOutcomeReclaimed) st
      | RecoveryActionFinalizeCancellation \<Rightarrow>
        (case acquireOperation (co_config co) (co_leases co) (op_ID opr) LeaseCancelPolicyFinalize st of
           (st1, Inl err) \<Rightarrow> recordAcquireError (item OperationOutcomeFinalized) err st1
         | (st1, Inr _) \<Rightarrow> (report_item (item OperationOutcomeFinalized) st1, None))
      | RecoveryActionWait \<Rightarrow> (report_item (item OperationOutcomeSkipped) st, None)
      | RecoveryActionNoop \<Rightarrow> (report_item (item OperationOutcomeSkipped) st, None)
      | _ \<Rightarrow> (report_item (item OperationOutcomeManual) st, None))"

fun recover_all ::
    "'w coordinator \<Rightarrow> go_time \<Rightarrow> OperationRecord list \<Rightarrow> 'w pass_state \<Rightarrow> 'w pass_state \<times> rec_error option" where
  "recover_all co now [] st = (st, None)"
| "recover_all co now (opr # oprs) st =
     (case recover_operation co now opr st of
        (st1, Some fatal) \<Rightarrow> (st1, Some fatal)
      | (st1, None) \<Rightarrow> recover_all co now oprs st1)"

text \<open>\<open>RunOnce\<close>: the batch result and the error; the loop stops at the limit.\<close>

definition Coordinator_RunOnce ::
    "'w OperationConfig \<Rightarrow> 'w \<Rightarrow> 'w pass_state \<times> rec_error option" where
  "Coordinator_RunOnce config w =
     (let start = (\<lambda>w scanned. \<lparr>ps_world = w, ps_result = empty_result\<lparr>ob_Scanned := scanned\<rparr>, ps_log = []\<rparr>) in
      case (validatedConfig config w, oc_Reader config, oc_LeaseStore config, oc_CommitStore config, oc_Executor config,
          oc_AuditEventID config) of
        (Inr (config', now), Some list_ops, Some leases, Some commit, Some executor, Some auditEventID) \<Rightarrow>
          (case list_ops now (oc_Limit config') w of
             (w1, Inl err) \<Rightarrow> (start w1 0, Some err)
           | (w1, Inr oprs) \<Rightarrow>
             recover_all \<lparr>co_config = config', co_leases = leases, co_commit = commit, co_executor = executor,
                 co_auditEventID = auditEventID\<rparr> now (take (nat (oc_Limit config')) oprs)
               (start w1 (min (int (length oprs)) (oc_Limit config'))))
      | (Inl err, _) \<Rightarrow> (start w 0, Some err)
      | _ \<Rightarrow> (start w 0, Some (RecText ''operation recovery configuration'')))"

section \<open>Counters\<close>

definition counted :: "OperationBatchResult \<Rightarrow> int" where
  "counted res = ob_Claimed res + ob_Reclaimed res + ob_Finalized res + ob_Skipped res + ob_Manual res +
     ob_Unsupported res + ob_RaceLost res + ob_Failed res"

lemma report_result_simps [simp]:
  "ob_Results (report_result item res) = ob_Results res @ [item]"
  "ob_Scanned (report_result item res) = ob_Scanned res"
  "counted (report_result item res) = counted res + 1"
  "ob_Failed (report_result item res) = (if or_Outcome item = OperationOutcomeFailed then ob_Failed res + 1 else ob_Failed res)"
  by (cases "or_Outcome item"; simp add: report_result_def counted_def)+

lemma report_item_simps [simp]:
  "ps_world (report_item item st) = ps_world st"
  "ps_log (report_item item st) = ps_log st"
  "ps_result (report_item item st) = report_result item (ps_result st)"
  by (simp_all add: report_item_def)

section \<open>Calls of one operation\<close>

text \<open>The calls that an outcome stands for: nothing is executed and nothing is committed unless the
  lease of the operation was acquired just before.\<close>

definition acquired_call :: "string \<Rightarrow> recovery_call" where
  "acquired_call ident = RecAcquire ident LeaseCancelPolicyNone True"

fun outcome_calls :: "OperationOutcome \<Rightarrow> string \<Rightarrow> recovery_call list \<Rightarrow> bool" where
  "outcome_calls OperationOutcomeClaimed ident cs = (cs = [acquired_call ident, RecExecute (trim_space ident)])"
| "outcome_calls OperationOutcomeReclaimed ident cs = (cs = [acquired_call ident, RecExecute (trim_space ident)])"
| "outcome_calls OperationOutcomeFinalized ident cs = (cs = [RecAcquire ident LeaseCancelPolicyFinalize True])"
| "outcome_calls OperationOutcomeSkipped ident cs = (cs = [])"
| "outcome_calls OperationOutcomeManual ident cs = (cs = [] \<or> cs = [acquired_call ident, RecExecute (trim_space ident)])"
| "outcome_calls OperationOutcomeUnsupported ident cs = (cs = [acquired_call ident, RecCommit (trim_space ident) True])"
| "outcome_calls OperationOutcomeRaceLost ident cs =
     (cs = [RecAcquire ident LeaseCancelPolicyNone False] \<or> cs = [RecAcquire ident LeaseCancelPolicyFinalize False] \<or>
      cs = [acquired_call ident, RecCommit (trim_space ident) False])"
| "outcome_calls OperationOutcomeFailed ident cs =
     (cs = [] \<or> cs = [RecAcquire ident LeaseCancelPolicyNone False] \<or> cs = [RecAcquire ident LeaseCancelPolicyFinalize False] \<or>
      cs = [acquired_call ident] \<or> cs = [acquired_call ident, RecCommit (trim_space ident) False] \<or>
      cs = [acquired_call ident, RecExecute (trim_space ident)])"

text \<open>What a coordinator relies on: a relation \<open>R\<close> that every call of a store, of the executor and of
  the generator of event ids keeps, and that an acquired record is the one asked for (by its trimmed id).\<close>

locale coordinator_world =
  fixes co :: "'w coordinator"
    and R :: "'w \<Rightarrow> 'w \<Rightarrow> bool"
  assumes R_refl: "R w w"
    and R_trans: "R w1 w2 \<Longrightarrow> R w2 w3 \<Longrightarrow> R w1 w3"
    and acquire_R: "ls_Acquire (co_leases co) ident q w = (w', res) \<Longrightarrow> R w w'"
    and acquire_ident: "ls_Acquire (co_leases co) ident q w = (w', Inr opr) \<Longrightarrow> op_ID opr = trim_space ident"
    and commit_R: "co_commit co s owner now event w = (w', res') \<Longrightarrow> R w w'"
    and execute_R: "oe_Execute (co_executor co) opr plan w = (w', err, events) \<Longrightarrow> R w w'"
    and event_R: "co_auditEventID co w = (w', text) \<Longrightarrow> R w w'"
begin

definition op_effect :: "string \<Rightarrow> 'w pass_state \<Rightarrow> 'w pass_state \<Rightarrow> rec_error option \<Rightarrow> bool" where
  "op_effect ident st st' fatal \<longleftrightarrow>
     (\<exists>item cs. or_OperationID item = ident \<and> outcome_calls (or_Outcome item) ident cs \<and>
       ps_log st' = ps_log st @ cs \<and> ps_result st' = report_result item (ps_result st) \<and>
       R (ps_world st) (ps_world st') \<and> (fatal = None \<longleftrightarrow> or_Outcome item \<noteq> OperationOutcomeFailed))"

lemma op_effectI:
  "or_OperationID item = ident \<Longrightarrow> outcome_calls (or_Outcome item) ident cs \<Longrightarrow> ps_log st' = ps_log st @ cs \<Longrightarrow>
   ps_result st' = report_result item (ps_result st) \<Longrightarrow> R (ps_world st) (ps_world st') \<Longrightarrow>
   (fatal = None \<longleftrightarrow> or_Outcome item \<noteq> OperationOutcomeFailed) \<Longrightarrow> op_effect ident st st' fatal"
  unfolding op_effect_def by blast

text \<open>\<open>went_on ident cs st st'\<close>: the calls were made, nothing was reported yet.\<close>

definition went_on :: "recovery_call list \<Rightarrow> 'w pass_state \<Rightarrow> 'w pass_state \<Rightarrow> bool" where
  "went_on cs st st' \<longleftrightarrow>
     ps_log st' = ps_log st @ cs \<and> ps_result st' = ps_result st \<and> R (ps_world st) (ps_world st')"

lemma went_on_refl: "went_on [] st st"
  by (simp add: went_on_def R_refl)

lemma acquire_cases:
  assumes "acquireOperation config (co_leases co) ident policy st = (st1, res)"
  obtains (no_time) e where "went_on [] st st1" "res = Inl e" "\<not> is_unavailable e"
  | (denied) e where "went_on [RecAcquire ident policy False] st st1" "res = Inl e"
  | (granted) opr where "went_on [RecAcquire ident policy True] st st1" "res = Inr opr" "op_ID opr = trim_space ident"
  using assms
proof (cases "operationDecisionNow config (ps_world st)")
  case (Inl e)
  then have "\<not> is_unavailable e" by (auto simp: operationDecisionNow_def Let_def split: if_splits)
  moreover have "st1 = st" "res = Inl (RecWrap ''operation recovery lease decision time'' e)"
    using Inl assms by (simp_all add: acquireOperation_def)
  ultimately show ?thesis by (intro no_time [of "RecWrap ''operation recovery lease decision time'' e"]) (simp_all add: went_on_refl)
next
  case (Inr now)
  then obtain q w where "ls_Acquire (co_leases co) ident q (ps_world st) = (w, res)"
      "st1 = st\<lparr>ps_world := w, ps_log := ps_log st @ [RecAcquire ident policy (\<not> isl res)]\<rparr>"
    using assms by (auto simp: acquireOperation_def split: prod.splits)
  then show ?thesis using denied granted acquire_R acquire_ident
    by (cases res) (auto simp: went_on_def)
qed

lemma record_error_effect:
  assumes "record_error what item err st1 = (st', fatal)" "went_on cs st st1" "or_OperationID item = ident"
    and "outcome_calls (if is_unavailable err then OperationOutcomeRaceLost else OperationOutcomeFailed) ident cs"
  shows "op_effect ident st st' fatal"
proof -
  let ?item = "item\<lparr>or_Error := Some err,
    or_Outcome := if is_unavailable err then OperationOutcomeRaceLost else OperationOutcomeFailed\<rparr>"
  have "st' = report_item ?item st1" "fatal = None \<longleftrightarrow> is_unavailable err"
    using assms(1) by (auto simp: record_error_def split: if_splits)
  with assms(2-4) show ?thesis
    by (intro op_effectI [where cs = cs and item = ?item]) (auto simp: went_on_def split: if_splits)
qed

lemma operationSupported_effect:
  assumes "operationSupported co opr plan item st = (ok, st', fatal)" "or_OperationID item = op_ID opr"
  shows "(ok \<and> st' = st \<and> fatal = None) \<or> (\<not> ok \<and> op_effect (op_ID opr) st st' fatal)"
proof (cases "support_Supported (oe_Supports (co_executor co) opr plan (ps_world st))")
  case True
  with assms show ?thesis by (simp add: operationSupported_def Let_def)
next
  case False
  let ?reason = "unsupportedReason (oe_Supports (co_executor co) opr plan (ps_world st))"
  let ?item = "item\<lparr>or_Outcome := OperationOutcomeUnsupported, or_Reason := ?reason\<rparr>"
  have ident: "or_OperationID ?item = op_ID opr" using assms(2) by simp
  note unfolded = assms(1) [unfolded operationSupported_def Let_def recordAcquireError_def recordUnsupportedCommitError_def]
  obtain st1 res where acq: "acquireOperation (co_config co) (co_leases co) (op_ID opr) LeaseCancelPolicyNone st = (st1, res)"
    by (cases "acquireOperation (co_config co) (co_leases co) (op_ID opr) LeaseCancelPolicyNone st")
  then show ?thesis
  proof (cases rule: acquire_cases)
    case (no_time e)
    with unfolded False acq have "\<not> ok" "record_error ''operation recovery acquire '' ?item e st1 = (st', fatal)" by auto
    with record_error_effect [OF this(2) no_time(1) ident] no_time(3) show ?thesis by simp
  next
    case (denied e)
    with unfolded False acq have "\<not> ok" "record_error ''operation recovery acquire '' ?item e st1 = (st', fatal)" by auto
    with record_error_effect [OF this(2) denied(1) ident] show ?thesis by simp
  next
    case (granted updated)
    let ?evidence = "unsupportedOperationEvidence updated plan"
    let ?operation = "unsupportedOperationUpdate updated ?reason ?evidence"
    have went: "went_on [acquired_call (op_ID opr)] st st1" using granted(1) by (simp add: acquired_call_def)
    show ?thesis
    proof (cases "operationDecisionNow (co_config co) (ps_world st1)")
      case (Inl e)
      then have "\<not> is_unavailable e" by (auto simp: operationDecisionNow_def Let_def split: if_splits)
      moreover have "\<not> ok" "record_error ''operation recovery unsupported commit '' ?item e st1 = (st', fatal)"
        using unfolded False acq granted(2) Inl by auto
      ultimately show ?thesis using record_error_effect [OF _ went ident] by simp
    next
      case (Inr now)
      obtain w2 ev where event: "unsupportedOperationAuditEvent (co_auditEventID co) updated ?reason ?evidence now (ps_world st1) = (w2, ev)"
        by (cases "unsupportedOperationAuditEvent (co_auditEventID co) updated ?reason ?evidence now (ps_world st1)")
      then have R2: "R (ps_world st1) w2" using event_R
        by (auto simp: unsupportedOperationAuditEvent_def split: prod.splits)
      show ?thesis
      proof (cases ev)
        case (Inl e)
        then have "\<not> is_unavailable e" using event
          by (auto simp: unsupportedOperationAuditEvent_def Let_def split: prod.splits if_splits option.splits)
        moreover have "\<not> ok"
            "record_error ''operation recovery unsupported commit '' ?item e (st1\<lparr>ps_world := w2\<rparr>) = (st', fatal)"
          using unfolded False acq granted(2) Inr event Inl by auto
        moreover have "went_on [acquired_call (op_ID opr)] st (st1\<lparr>ps_world := w2\<rparr>)"
          using went R2 R_trans by (auto simp: went_on_def)
        ultimately show ?thesis using record_error_effect [OF _ _ ident] by simp
      next
        case ev: (Inr evt)
        obtain w3 res3 where commit: "co_commit co (SanitizedForPersistence ?operation) (oc_Owner (co_config co)) now evt w2 = (w3, res3)"
          by (cases "co_commit co (SanitizedForPersistence ?operation) (oc_Owner (co_config co)) now evt w2")
        let ?st2 = "st1\<lparr>ps_world := w3, ps_log := ps_log st1 @ [RecCommit (op_ID ?operation) (\<not> isl res3)]\<rparr>"
        have "op_ID ?operation = trim_space (op_ID opr)" using granted(3) by (simp add: unsupportedOperationUpdate_def Let_def)
        then have went2: "went_on [acquired_call (op_ID opr), RecCommit (trim_space (op_ID opr)) (\<not> isl res3)] st ?st2"
          using went R2 commit_R [OF commit] R_trans by (auto simp: went_on_def)
        show ?thesis
        proof (cases res3)
          case (Inl e)
          with unfolded False acq granted(2) Inr event ev commit
          have "\<not> ok" "record_error ''operation recovery unsupported commit '' ?item e ?st2 = (st', fatal)" by auto
          with record_error_effect [OF this(2) went2 ident] Inl show ?thesis by simp
        next
          case (Inr x)
          with unfolded False acq granted(2) \<open>operationDecisionNow (co_config co) (ps_world st1) = Inr now\<close> event ev commit
          have "\<not> ok" "st' = report_item ?item ?st2" "fatal = None" by auto
          with went2 ident Inr show ?thesis
            by (auto simp: went_on_def intro!: op_effectI [where item = ?item])
        qed
      qed
    qed
  qed
qed

lemma executeOperation_effect:
  assumes "executeOperation co updated plan item st1 = (ok, st', fatal)"
    and "went_on [acquired_call ident] st st1" "or_OperationID item = ident" "op_ID updated = trim_space ident"
  shows "(ok \<and> fatal = None \<and> went_on [acquired_call ident, RecExecute (trim_space ident)] st st') \<or>
    (\<not> ok \<and> op_effect ident st st' fatal)"
proof -
  obtain w err events where exec: "oe_Execute (co_executor co) updated plan (ps_world st1) = (w, err, events)"
    by (cases "oe_Execute (co_executor co) updated plan (ps_world st1)") auto
  let ?st2 = "st1\<lparr>ps_world := w, ps_log := ps_log st1 @ [RecExecute (op_ID updated)]\<rparr>"
  have went: "went_on [acquired_call ident, RecExecute (trim_space ident)] st ?st2"
    using assms(2,4) execute_R [OF exec] R_trans by (auto simp: went_on_def)
  have failed: "op_effect ident st (report_item (item\<lparr>or_Outcome := out, or_Error := Some e\<rparr>) ?st2) fatal'"
    if "out = OperationOutcomeManual \<and> fatal' = None \<or> out = OperationOutcomeFailed \<and> fatal' \<noteq> None" for out e fatal'
    using went assms(3) that
    by (intro op_effectI [where item = "item\<lparr>or_Outcome := out, or_Error := Some e\<rparr>"]) (auto simp: went_on_def)
  show ?thesis
    using assms(1) went failed
    by (auto simp: executeOperation_def exec Let_def split: option.splits if_splits)
qed

lemma run_supported_effect:
  assumes "run_supported co opr plan item st = (st', fatal)" "or_OperationID item = op_ID opr"
    and "or_Outcome item = OperationOutcomeClaimed \<or> or_Outcome item = OperationOutcomeReclaimed"
  shows "op_effect (op_ID opr) st st' fatal"
proof -
  obtain ok st1 f where sup: "operationSupported co opr plan item st = (ok, st1, f)"
    by (cases "operationSupported co opr plan item st") auto
  show ?thesis
  proof (cases ok)
    case False
    with assms(1) sup have "st' = st1" "fatal = f" by (auto simp: run_supported_def split: option.splits)
    with operationSupported_effect [OF sup assms(2)] False show ?thesis by simp
  next
    case True
    with operationSupported_effect [OF sup assms(2)] have s1: "st1 = st" "f = None" by auto
    obtain st2 res where acq: "acquireOperation (co_config co) (co_leases co) (op_ID opr) LeaseCancelPolicyNone st = (st2, res)"
      by (cases "acquireOperation (co_config co) (co_leases co) (op_ID opr) LeaseCancelPolicyNone st")
    note run = assms(1) [unfolded run_supported_def recordAcquireError_def]
    from acq show ?thesis
    proof (cases rule: acquire_cases)
      case (no_time e)
      then have "record_error ''operation recovery acquire '' item e st2 = (st', fatal)" using run sup s1 True acq by simp
      with record_error_effect [OF _ no_time(1) assms(2)] no_time(3) show ?thesis by simp
    next
      case (denied e)
      then have "record_error ''operation recovery acquire '' item e st2 = (st', fatal)" using run sup s1 True acq by simp
      with record_error_effect [OF _ denied(1) assms(2)] show ?thesis by simp
    next
      case (granted updated)
      obtain counted st3 f3 where exec: "executeOperation co updated plan item st2 = (counted, st3, f3)"
        by (cases "executeOperation co updated plan item st2") auto
      have st': "(st', fatal) = ((if counted \<and> f3 = None then report_item item st3 else st3), f3)"
        using run sup s1 True acq granted(2) exec by (auto split: option.splits)
      have "went_on [acquired_call (op_ID opr)] st st2" using granted(1) by (simp add: acquired_call_def)
      from executeOperation_effect [OF exec this assms(2) granted(3)] show ?thesis
      proof (elim disjE conjE)
        assume "counted" "f3 = None" "went_on [acquired_call (op_ID opr), RecExecute (trim_space (op_ID opr))] st st3"
        then show ?thesis using st' assms(2,3)
          by (intro op_effectI [where item = item and cs = "[acquired_call (op_ID opr), RecExecute (trim_space (op_ID opr))]"])
            (auto simp: went_on_def)
      next
        assume "\<not> counted" "op_effect (op_ID opr) st st3 f3"
        with st' show ?thesis by simp
      qed
    qed
  qed
qed

lemma recover_operation_effect:
  assumes "recover_operation co now opr st = (st', fatal)"
  shows "op_effect (op_ID opr) st st' fatal"
proof -
  let ?plan = "ClassifyOperationRecovery opr \<lparr>rc_Now = now, rc_ExplicitRecovery = False, rc_StaleDeliveringThreshold = 0\<rparr>"
  let ?item = "\<lambda>outcome. \<lparr>or_OperationID = op_ID opr, or_Action = plan_Action ?plan, or_Outcome = outcome,
    or_Reason = plan_Reason ?plan, or_Error = None\<rparr>"
  note step = assms [unfolded recover_operation_def Let_def]
  have reported: "op_effect (op_ID opr) st (report_item (?item outcome) st) None"
    if "outcome \<in> {OperationOutcomeSkipped, OperationOutcomeManual}" for outcome
    using that by (intro op_effectI [where item = "?item outcome" and cs = "[]"]) (auto simp: R_refl)
  show ?thesis
  proof (cases "plan_Action ?plan")
    case RecoveryActionFinalizeCancellation
    obtain st1 res where acq: "acquireOperation (co_config co) (co_leases co) (op_ID opr) LeaseCancelPolicyFinalize st = (st1, res)"
      by (cases "acquireOperation (co_config co) (co_leases co) (op_ID opr) LeaseCancelPolicyFinalize st")
    then show ?thesis
    proof (cases rule: acquire_cases)
      case (no_time e)
      then have "record_error ''operation recovery acquire '' (?item OperationOutcomeFinalized) e st1 = (st', fatal)"
        using step RecoveryActionFinalizeCancellation acq by (simp add: recordAcquireError_def)
      then show ?thesis using no_time by (elim record_error_effect) auto
    next
      case (denied e)
      then have "record_error ''operation recovery acquire '' (?item OperationOutcomeFinalized) e st1 = (st', fatal)"
        using step RecoveryActionFinalizeCancellation acq by (simp add: recordAcquireError_def)
      then show ?thesis using denied by (elim record_error_effect) auto
    next
      case (granted updated)
      then have "st' = report_item (?item OperationOutcomeFinalized) st1" "fatal = None"
        using step RecoveryActionFinalizeCancellation acq by auto
      then show ?thesis using granted(1)
        by (intro op_effectI [where item = "?item OperationOutcomeFinalized"]) (auto simp: went_on_def)
    qed
  qed (use step reported run_supported_effect in auto)
qed

lemma recover_all_effect:
  assumes "recover_all co now oprs st = (st', fatal)"
  shows "\<exists>items blocks. ob_Results (ps_result st') = ob_Results (ps_result st) @ items \<and>
    map or_OperationID items = map op_ID (take (length items) oprs) \<and> length items \<le> length oprs \<and>
    ps_log st' = ps_log st @ concat blocks \<and> list_all2 (\<lambda>item. outcome_calls (or_Outcome item) (or_OperationID item)) items blocks \<and>
    counted (ps_result st') = counted (ps_result st) + int (length items) \<and>
    ob_Scanned (ps_result st') = ob_Scanned (ps_result st) \<and> R (ps_world st) (ps_world st') \<and>
    (case fatal of
       None \<Rightarrow> length items = length oprs \<and> ob_Failed (ps_result st') = ob_Failed (ps_result st)
     | Some _ \<Rightarrow> items \<noteq> [] \<and> or_Outcome (last items) = OperationOutcomeFailed \<and>
         ob_Failed (ps_result st') = ob_Failed (ps_result st) + 1)"
  using assms
proof (induction oprs arbitrary: st)
  case Nil
  then show ?case by (intro exI [of _ "[]"]) (auto simp: R_refl)
next
  case (Cons opr oprs)
  obtain st1 f where step: "recover_operation co now opr st = (st1, f)" by (cases "recover_operation co now opr st")
  obtain item cs where effect: "or_OperationID item = op_ID opr" "outcome_calls (or_Outcome item) (op_ID opr) cs"
      "ps_log st1 = ps_log st @ cs" "ps_result st1 = report_result item (ps_result st)" "R (ps_world st) (ps_world st1)"
      "f = None \<longleftrightarrow> or_Outcome item \<noteq> OperationOutcomeFailed"
    using recover_operation_effect [OF step] unfolding op_effect_def by blast
  show ?case
  proof (cases f)
    case None
    with Cons.prems step have "recover_all co now oprs st1 = (st', fatal)" by simp
    from Cons.IH [OF this] obtain items blocks where "ob_Results (ps_result st') = ob_Results (ps_result st1) @ items"
        "map or_OperationID items = map op_ID (take (length items) oprs)" "length items \<le> length oprs"
        "ps_log st' = ps_log st1 @ concat blocks"
        "list_all2 (\<lambda>item. outcome_calls (or_Outcome item) (or_OperationID item)) items blocks"
        "counted (ps_result st') = counted (ps_result st1) + int (length items)"
        "ob_Scanned (ps_result st') = ob_Scanned (ps_result st1)" "R (ps_world st1) (ps_world st')"
        "case fatal of
           None \<Rightarrow> length items = length oprs \<and> ob_Failed (ps_result st') = ob_Failed (ps_result st1)
         | Some _ \<Rightarrow> items \<noteq> [] \<and> or_Outcome (last items) = OperationOutcomeFailed \<and>
             ob_Failed (ps_result st') = ob_Failed (ps_result st1) + 1"
      by blast
    then show ?thesis using effect None R_trans
      by (intro exI [of _ "item # items"] exI [of _ "cs # blocks"]) (auto split: option.splits)
  next
    case (Some e)
    with Cons.prems step have "st' = st1" "fatal = Some e" by simp_all
    then show ?thesis using effect Some
      by (intro exI [of _ "[item]"] exI [of _ "[cs]"]) auto
  qed
qed

text \<open>A whole pass.\<close>

lemma pass_effect:
  assumes "recover_all co now (take (nat limit) oprs) \<lparr>ps_world = w, ps_result = empty_result\<lparr>ob_Scanned := scanned\<rparr>, ps_log = []\<rparr>
    = (st, err)"
  shows "\<exists>blocks. map or_OperationID (ob_Results (ps_result st)) =
      map op_ID (take (length (ob_Results (ps_result st))) (take (nat limit) oprs)) \<and>
    ps_log st = concat blocks \<and>
    list_all2 (\<lambda>item. outcome_calls (or_Outcome item) (or_OperationID item)) (ob_Results (ps_result st)) blocks \<and>
    counted (ps_result st) = int (length (ob_Results (ps_result st))) \<and> ob_Scanned (ps_result st) = scanned \<and> R w (ps_world st) \<and>
    (case err of
       None \<Rightarrow> length (ob_Results (ps_result st)) = length (take (nat limit) oprs) \<and> ob_Failed (ps_result st) = 0
     | Some _ \<Rightarrow> ob_Results (ps_result st) \<noteq> [] \<and> or_Outcome (last (ob_Results (ps_result st))) = OperationOutcomeFailed \<and>
         ob_Failed (ps_result st) = 1)"
  using recover_all_effect [OF assms]
  by (elim exE conjE) (auto simp: empty_result_def counted_def split: option.splits)

end

section \<open>Renewal\<close>

text \<open>The renewal interval is positive, and for leases of two nanoseconds or more at most half of the
  lease, so that a renewal is tried while the lease is live.\<close>

lemma renewal_interval_bounds:
  "0 < operationLeaseRenewalInterval d \<and> (2 \<le> d \<longrightarrow> operationLeaseRenewalInterval d \<le> d div 2)"
  by (auto simp: operationLeaseRenewalInterval_def minOperationLeaseRenewalInterval_def Let_def max_def)

text \<open>A failed renewal ends the goroutine with its error unless the pass is over or the renewal was
  stopped.\<close>

lemma renewal_loop_Some:
  "renewal_loop operationID events = Some e \<Longrightarrow>
     \<exists>err before after. e = ErrOperationLeaseRenewalFailed operationID err \<and>
       events = before @ RenewTick (Inl err) False False # after \<and>
       (\<forall>ev \<in> set before. \<exists>opr pd sd. ev = RenewTick (Inr opr) pd sd)"
proof (induction operationID events rule: renewal_loop.induct)
  case (2 operationID opr pd sd es)
  then obtain err before after where "e = ErrOperationLeaseRenewalFailed operationID err"
      "es = before @ RenewTick (Inl err) False False # after" "\<forall>ev \<in> set before. \<exists>opr pd sd. ev = RenewTick (Inr opr) pd sd"
    by auto
  then show ?case by (intro exI [of _ err] exI [of _ "RenewTick (Inr opr) pd sd # before"] exI [of _ after]) auto
next
  case (3 operationID err pd sd es)
  then show ?case by (intro exI [of _ err] exI [of _ "[]"] exI [of _ es]) (auto split: if_splits)
qed simp_all

end
