(* ===== verification/Operation_Rows.thy ===== *)
theory Operation_Rows
  imports Recovery_Planner Audit_Outbox "HOL-Library.AList"
begin

text \<open>
  Queued operations and the rows of the table \<open>operations\<close>:
  \<open>internal/operations/idempotency.go\<close> and the argument and scan functions of
  \<open>internal/store/postgres/operations.go\<close>. A row keeps \<open>NULL\<close> apart from the empty text
  and the JSON columns as JSON values. The lemmas show when a value survives the JSON
  columns, what a record is after it was written and read back, and when the text of an
  idempotency scope determines the scope.
\<close>

section \<open>JSON values\<close>

text \<open>
  What \<open>encoding/json\<close> and a \<open>jsonb\<close> column make of a value. A number is kept as the
  float64 that reading it gives; text that is not UTF-8 is written with replacement
  characters; of two members with one name the last one stays.
\<close>

datatype json =
    JNull
  | JBool bool
  | JNumber go_float
  | JString string
  | JArray "json list"
  | JObject "(string \<times> json) list"

definition replaced_unit :: "runit \<Rightarrow> bool" where
  "replaced_unit u \<longleftrightarrow> fst u = 65533 \<and> length (snd u) = 1"

definition json_text :: "string \<Rightarrow> string" where
  "json_text s = concat (map (\<lambda>u. if replaced_unit u then [CHR 0xEF, CHR 0xBF, CHR 0xBD] else snd u) (runits s))"

definition json_utf8 :: "string \<Rightarrow> bool" where
  "json_utf8 s \<longleftrightarrow> list_all (\<lambda>u. \<not> replaced_unit u) (runits s)"

definition json_object :: "(string \<times> json) list \<Rightarrow> json" where
  "json_object kvs = JObject (fold (\<lambda>kv m. AList.update (fst kv) (snd kv) m) kvs [])"

function json_marshal :: "go_any \<Rightarrow> json option" where
  "json_marshal v =
     (case v of
        AnyNil \<Rightarrow> Some JNull
      | AnyBool b \<Rightarrow> Some (JBool b)
      | AnyInt i \<Rightarrow> Some (JNumber (float64_of_int i))
      | AnyInt64 i \<Rightarrow> Some (JNumber (float64_of_int i))
      | AnyFloat f \<Rightarrow> (case f of Finite q \<Rightarrow> Some (JNumber f) | _ \<Rightarrow> None)
      | AnyNumber f \<Rightarrow> map_option JNumber f
      | AnyString s \<Rightarrow> Some (JString (json_text s))
      | AnyMap m \<Rightarrow>
          map_option json_object
            (those (map (\<lambda>kv. map_option (Pair (json_text (fst kv))) (json_marshal (snd kv))) m))
      | AnyStringMap m \<Rightarrow> Some (json_object (map (\<lambda>kv. (json_text (fst kv), JString (json_text (snd kv)))) m))
      | AnyList xs \<Rightarrow> map_option JArray (those (map (\<lambda>x. json_marshal x) xs))
      | AnyMapList ms \<Rightarrow>
          map_option JArray (those (map (\<lambda>m. map_option json_object
            (those (map (\<lambda>kv. map_option (Pair (json_text (fst kv))) (json_marshal (snd kv))) m))) ms))
      | AnyStringList xs \<Rightarrow> Some (JArray (map (\<lambda>s. JString (json_text s)) xs)))"
  by pat_completeness auto
termination
  by (relation "measure size")
    (auto dest: size_AnyMap size_AnyList size_AnyMapList simp del: go_any.size)

declare json_marshal.simps [simp del]

text \<open>\<open>json.Unmarshal\<close> into a variable of type \<open>any\<close>.\<close>

fun json_value :: "json \<Rightarrow> go_any" where
  "json_value JNull = AnyNil"
| "json_value (JBool b) = AnyBool b"
| "json_value (JNumber f) = AnyFloat f"
| "json_value (JString s) = AnyString s"
| "json_value (JArray xs) = AnyList (map json_value xs)"
| "json_value (JObject m) = AnyMap (map (\<lambda>kv. (fst kv, json_value (snd kv))) m)"

text \<open>\<open>jsonb\<close> does not store the character U+0000.\<close>

fun json_storable :: "json \<Rightarrow> bool" where
  "json_storable (JString s) \<longleftrightarrow> CHR 0x00 \<notin> set s"
| "json_storable (JArray xs) \<longleftrightarrow> list_all json_storable xs"
| "json_storable (JObject m) \<longleftrightarrow> list_all (\<lambda>kv. CHR 0x00 \<notin> set (fst kv) \<and> json_storable (snd kv)) m"
| "json_storable _ \<longleftrightarrow> True"

section \<open>Idempotency (idempotency.go)\<close>

record IdempotencyScope =
  scope_CallerService :: string
  scope_NamespaceID :: string
  scope_OperationType :: OperationType
  scope_IdempotencyKey :: string

definition Scope_String :: "IdempotencyScope \<Rightarrow> string" where
  "Scope_String scope =
     scope_CallerService scope @ '':'' @ scope_NamespaceID scope @ '':'' @
     OperationType_String (scope_OperationType scope) @ '':'' @ scope_IdempotencyKey scope"

type_synonym constraint_key = "string \<times> string \<times> OperationType \<times> string"

definition ConstraintKey :: "IdempotencyScope \<Rightarrow> constraint_key" where
  "ConstraintKey scope =
     (scope_CallerService scope, scope_NamespaceID scope, scope_OperationType scope, scope_IdempotencyKey scope)"

record IdempotencyResolution =
  res_Operation :: "OperationRecord option"
  res_Existing :: bool
  res_Reused :: bool

datatype operations_error =
    ErrIdempotencyConflict string
  | ErrRepoAlreadyExists string
  | ErrMissingOperationBoundary string
  | ErrRepoJVSMutationInProgress string

text \<open>The zero resolution has no operation; \<open>Operation\<close> of any other one is \<open>Some\<close>.\<close>

fun CompareIdempotency ::
    "OperationRecord list \<Rightarrow> IdempotencyScope \<Rightarrow> string \<Rightarrow> operations_error + IdempotencyResolution" where
  "CompareIdempotency [] scope requestHash = Inr \<lparr>res_Operation = None, res_Existing = False, res_Reused = False\<rparr>"
| "CompareIdempotency (operation # existing) scope requestHash =
     (if op_IdempotencyScope operation \<noteq> Scope_String scope then CompareIdempotency existing scope requestHash
      else if op_RequestHash operation \<noteq> requestHash then Inl (ErrIdempotencyConflict (Scope_String scope))
      else Inr \<lparr>res_Operation = Some (Sanitized operation), res_Existing = True, res_Reused = True\<rparr>)"

record QueuedOperationSpec =
  spec_OperationID :: string
  spec_Scope :: IdempotencyScope
  spec_RequestHash :: string
  spec_Phase :: string
  spec_CorrelationID :: string
  spec_CallerService :: string
  spec_AuthorizedActor :: Actor
  spec_Resource :: ResourceRef
  spec_NamespaceID :: string
  spec_RepoID :: string
  spec_TemplateID :: string
  spec_ExportID :: string
  spec_MountBindingID :: string
  spec_SessionFenceID :: string
  spec_ExternalResourceIDs :: "(string \<times> string) list option"
  spec_InputSummary :: "go_object option"
  spec_CreatedAt :: go_time

definition clone_map :: "'a list option \<Rightarrow> 'a list option" where
  "clone_map m = Some (case m of None \<Rightarrow> [] | Some kvs \<Rightarrow> kvs)"

definition spec_error :: "QueuedOperationSpec \<Rightarrow> operations_error option" where
  "spec_error spec =
     checks
      [check (spec_OperationID spec = []) (ErrMissingOperationBoundary ''operation_id''),
       check (scope_CallerService (spec_Scope spec) = [] \<or>
              OperationType_String (scope_OperationType (spec_Scope spec)) = [] \<or>
              scope_IdempotencyKey (spec_Scope spec) = []) (ErrMissingOperationBoundary ''idempotency scope''),
       check (spec_RequestHash spec = []) (ErrMissingOperationBoundary ''request_hash''),
       check (spec_Phase spec = []) (ErrMissingOperationBoundary ''phase''),
       check (spec_CorrelationID spec = []) (ErrMissingOperationBoundary ''correlation_id''),
       check (spec_CallerService spec = []) (ErrMissingOperationBoundary ''caller_service''),
       check (actor_Type (spec_AuthorizedActor spec) = [] \<or> actor_ID (spec_AuthorizedActor spec) = [])
         (ErrMissingOperationBoundary ''authorized_actor''),
       check (resource_Type (spec_Resource spec) = [] \<or> resource_ID (spec_Resource spec) = [])
         (ErrMissingOperationBoundary ''resource''),
       check (is_zero (spec_CreatedAt spec)) (ErrMissingOperationBoundary ''created_at'')]"

definition NewQueuedOperationRecord :: "QueuedOperationSpec \<Rightarrow> operations_error + OperationRecord" where
  "NewQueuedOperationRecord spec =
     (case spec_error spec of
        Some err \<Rightarrow> Inl err
      | None \<Rightarrow> Inr
          \<lparr>op_ID = spec_OperationID spec, op_Type = scope_OperationType (spec_Scope spec),
           op_State = OperationStateQueued, op_Phase = spec_Phase spec, op_Attempt = 0,
           op_LeaseOwner = [], op_LeaseExpiresAt = None,
           op_IdempotencyScope = Scope_String (spec_Scope spec),
           op_IdempotencyKey = scope_IdempotencyKey (spec_Scope spec), op_RequestHash = spec_RequestHash spec,
           op_CorrelationID = spec_CorrelationID spec, op_CallerService = spec_CallerService spec,
           op_AuthorizedActor = spec_AuthorizedActor spec, op_Resource = spec_Resource spec,
           op_NamespaceID = spec_NamespaceID spec, op_RepoID = spec_RepoID spec,
           op_TemplateID = spec_TemplateID spec, op_ExportID = spec_ExportID spec,
           op_MountBindingID = spec_MountBindingID spec, op_SessionFenceID = spec_SessionFenceID spec,
           op_ExternalResourceIDs = clone_map (spec_ExternalResourceIDs spec),
           op_InputSummary = clone_map (spec_InputSummary spec),
           op_JVSJSONOutput = AnyNil, op_VerificationResult = AnyNil, op_CompensationStatus = [], op_Error = None,
           op_Redaction = no_report, op_CreatedAt = spec_CreatedAt spec,
           op_StartedAt = None, op_FinishedAt = None\<rparr>)"

section \<open>Rows of the table operations\<close>

record operation_row =
  row_operation_id :: string
  row_operation_type :: OperationType
  row_operation_state :: OperationState
  row_phase :: string
  row_attempt :: int
  row_lease_owner :: "string option"
  row_lease_expires_at :: "go_time option"
  row_idempotency_scope :: string
  row_idempotency_key :: string
  row_request_hash :: string
  row_correlation_id :: string
  row_caller_service :: string
  row_authorized_actor_type :: string
  row_authorized_actor_id :: string
  row_resource_type :: string
  row_resource_id :: string
  row_namespace_id :: string
  row_repo_id :: "string option"
  row_template_id :: "string option"
  row_export_id :: "string option"
  row_mount_binding_id :: "string option"
  row_session_fence_id :: "string option"
  row_external_resource_ids :: json
  row_input_summary :: json
  row_jvs_json_output :: "json option"
  row_verification_result :: "json option"
  row_compensation_status :: "string option"
  row_error_json :: "json option"
  row_created_at :: go_time
  row_started_at :: "go_time option"
  row_finished_at :: "go_time option"
  row_updated_at :: go_time

datatype op_store_error =
    MarshalError string
  | UnmarshalError string
  | LeaseRequestError string string
  | LeaseUnavailable string string
  | NoRows string
  | OperationsError operations_error
  | AuditError OutboxError
  | InvalidID string
  | DuplicateOperationID
  | DuplicateIdempotencyKey
  | DuplicateJVSMutation
  | RowCheckViolation
  | AuditRowError outbox_store_error
  | ListRequestError string
  | IntegerRange

text \<open>The helpers of the argument lists. A typed nil pointer in an \<open>any\<close> is not the nil interface:
  \<open>marshalNullableJSON\<close> takes \<open>Some AnyNil\<close> for it and writes the JSON \<open>null\<close>.\<close>

definition marshalObject :: "string \<Rightarrow> go_any \<Rightarrow> op_store_error + json" where
  "marshalObject column v =
     (case json_marshal v of
        None \<Rightarrow> Inl (MarshalError column)
      | Some JNull \<Rightarrow> Inr (JObject [])
      | Some (JObject m) \<Rightarrow> Inr (JObject m)
      | Some _ \<Rightarrow> Inl (MarshalError column))"

definition marshalNullableJSON :: "string \<Rightarrow> go_any option \<Rightarrow> op_store_error + json option" where
  "marshalNullableJSON column value =
     (case value of
        None \<Rightarrow> Inr None
      | Some v \<Rightarrow> (case json_marshal v of None \<Rightarrow> Inl (MarshalError column) | Some j \<Rightarrow> Inr (Some j)))"

definition any_interface :: "go_any \<Rightarrow> go_any option" where
  "any_interface v = (if v = AnyNil then None else Some v)"

text \<open>The JSON form of an \<open>OperationError\<close>, by its field tags.\<close>

definition error_object :: "OperationError \<Rightarrow> go_object" where
  "error_object e =
     [(''code'', AnyString (operr_Code e)), (''message'', AnyString (operr_Message e)),
      (''retryable'', AnyBool (operr_Retryable e)), (''correlation_id'', AnyString (operr_CorrelationID e))] @
     (if operr_OperationID e = [] then [] else [(''operation_id'', AnyString (operr_OperationID e))]) @
     (case operr_Details e of None \<Rightarrow> [] | Some [] \<Rightarrow> [] | Some kvs \<Rightarrow> [(''details'', AnyMap kvs)])"

definition error_value :: "OperationError option \<Rightarrow> go_any" where
  "error_value err = (case err of None \<Rightarrow> AnyNil | Some e \<Rightarrow> AnyMap (error_object e))"

definition nullableStringArg :: "string \<Rightarrow> string option" where
  "nullableStringArg v = (if v = [] then None else Some v)"

definition leaseOwnerArg :: "OperationRecord \<Rightarrow> string option" where
  "leaseOwnerArg opr = (if op_LeaseOwner opr = [] \<and> op_LeaseExpiresAt opr = None then None else Some (op_LeaseOwner opr))"

definition leaseExpiresAtArg :: "OperationRecord \<Rightarrow> go_time option" where
  "leaseExpiresAtArg opr = (if op_LeaseOwner opr = [] \<and> op_LeaseExpiresAt opr = None then None else op_LeaseExpiresAt opr)"

definition string_map_value :: "(string \<times> string) list option \<Rightarrow> go_any" where
  "string_map_value m = (case m of None \<Rightarrow> AnyNil | Some kvs \<Rightarrow> AnyStringMap kvs)"

definition map_value :: "go_object option \<Rightarrow> go_any" where
  "map_value m = (case m of None \<Rightarrow> AnyNil | Some kvs \<Rightarrow> AnyMap kvs)"

text \<open>The five JSON columns of a record, in the order in which they are marshalled.\<close>

record json_columns =
  col_external_resource_ids :: json
  col_input_summary :: json
  col_jvs_json_output :: "json option"
  col_verification_result :: "json option"
  col_error_json :: "json option"

definition marshal_columns :: "OperationRecord \<Rightarrow> op_store_error + json_columns" where
  "marshal_columns opr =
     (case marshalObject ''external_resource_ids'' (string_map_value (op_ExternalResourceIDs opr)) of
        Inl err \<Rightarrow> Inl err
      | Inr externalResourceIDs \<Rightarrow>
      case marshalObject ''input_summary'' (map_value (op_InputSummary opr)) of
        Inl err \<Rightarrow> Inl err
      | Inr inputSummary \<Rightarrow>
      case marshalNullableJSON ''jvs_json_output'' (any_interface (op_JVSJSONOutput opr)) of
        Inl err \<Rightarrow> Inl err
      | Inr jvsJSONOutput \<Rightarrow>
      case marshalNullableJSON ''verification_result'' (any_interface (op_VerificationResult opr)) of
        Inl err \<Rightarrow> Inl err
      | Inr verificationResult \<Rightarrow>
      case marshalNullableJSON ''error_json'' (Some (error_value (op_Error opr))) of
        Inl err \<Rightarrow> Inl err
      | Inr errorJSON \<Rightarrow> Inr
          \<lparr>col_external_resource_ids = externalResourceIDs, col_input_summary = inputSummary,
           col_jvs_json_output = jvsJSONOutput, col_verification_result = verificationResult,
           col_error_json = errorJSON\<rparr>)"

definition operationInsertArgs :: "OperationRecord \<Rightarrow> op_store_error + operation_row" where
  "operationInsertArgs opr =
     (case marshal_columns opr of
        Inl err \<Rightarrow> Inl err
      | Inr cols \<Rightarrow> Inr
          \<lparr>row_operation_id = op_ID opr, row_operation_type = op_Type opr, row_operation_state = op_State opr,
           row_phase = op_Phase opr, row_attempt = op_Attempt opr,
           row_lease_owner = leaseOwnerArg opr, row_lease_expires_at = leaseExpiresAtArg opr,
           row_idempotency_scope = op_IdempotencyScope opr, row_idempotency_key = op_IdempotencyKey opr,
           row_request_hash = op_RequestHash opr, row_correlation_id = op_CorrelationID opr,
           row_caller_service = op_CallerService opr,
           row_authorized_actor_type = actor_Type (op_AuthorizedActor opr),
           row_authorized_actor_id = actor_ID (op_AuthorizedActor opr),
           row_resource_type = resource_Type (op_Resource opr), row_resource_id = resource_ID (op_Resource opr),
           row_namespace_id = op_NamespaceID opr, row_repo_id = nullableStringArg (op_RepoID opr),
           row_template_id = nullableStringArg (op_TemplateID opr),
           row_export_id = nullableStringArg (op_ExportID opr),
           row_mount_binding_id = nullableStringArg (op_MountBindingID opr),
           row_session_fence_id = nullableStringArg (op_SessionFenceID opr),
           row_external_resource_ids = col_external_resource_ids cols,
           row_input_summary = col_input_summary cols, row_jvs_json_output = col_jvs_json_output cols,
           row_verification_result = col_verification_result cols,
           row_compensation_status = nullableStringArg (op_CompensationStatus opr),
           row_error_json = col_error_json cols, row_created_at = op_CreatedAt opr,
           row_started_at = op_StartedAt opr, row_finished_at = op_FinishedAt opr,
           row_updated_at = op_CreatedAt opr\<rparr>)"

section \<open>Reading a row\<close>

text \<open>\<open>json.Unmarshal\<close> into the types of the record: a JSON \<open>null\<close> leaves the variable as it was.\<close>

fun json_as_text :: "json \<Rightarrow> string option" where
  "json_as_text (JString s) = Some s"
| "json_as_text JNull = Some []"
| "json_as_text _ = None"

definition unmarshal_string_map :: "json \<Rightarrow> (string \<times> string) list option option" where
  "unmarshal_string_map j =
     (case j of
        JNull \<Rightarrow> Some None
      | JObject m \<Rightarrow> map_option Some (those (map (\<lambda>kv. map_option (Pair (fst kv)) (json_as_text (snd kv))) m))
      | _ \<Rightarrow> None)"

definition unmarshal_map :: "json \<Rightarrow> go_object option option" where
  "unmarshal_map j =
     (case j of
        JNull \<Rightarrow> Some None
      | JObject m \<Rightarrow> Some (Some (map (\<lambda>kv. (fst kv, json_value (snd kv))) m))
      | _ \<Rightarrow> None)"

definition unmarshalNullableJSON :: "json option \<Rightarrow> go_any" where
  "unmarshalNullableJSON data = (case data of None \<Rightarrow> AnyNil | Some j \<Rightarrow> json_value j)"

definition zero_error :: OperationError where
  "zero_error = \<lparr>operr_Code = [], operr_Message = [], operr_Retryable = False, operr_CorrelationID = [],
     operr_OperationID = [], operr_Details = None\<rparr>"

definition member_text :: "(string \<times> json) list \<Rightarrow> string \<Rightarrow> string option" where
  "member_text m key = (case map_of m key of None \<Rightarrow> Some [] | Some j \<Rightarrow> json_as_text j)"

definition member_bool :: "(string \<times> json) list \<Rightarrow> string \<Rightarrow> bool option" where
  "member_bool m key =
     (case map_of m key of None \<Rightarrow> Some False | Some JNull \<Rightarrow> Some False | Some (JBool b) \<Rightarrow> Some b | Some _ \<Rightarrow> None)"

definition member_object :: "(string \<times> json) list \<Rightarrow> string \<Rightarrow> go_object option option" where
  "member_object m key = (case map_of m key of None \<Rightarrow> Some None | Some j \<Rightarrow> unmarshal_map j)"

text \<open>Members are looked up by their exact names, which are the ones that are written.\<close>

definition unmarshal_error :: "json \<Rightarrow> OperationError option" where
  "unmarshal_error j =
     (case j of
        JNull \<Rightarrow> Some zero_error
      | JObject m \<Rightarrow>
          (case (member_text m ''code'', member_text m ''message'', member_bool m ''retryable'',
                 member_text m ''correlation_id'', member_text m ''operation_id'', member_object m ''details'') of
             (Some code, Some message, Some retryable, Some correlationID, Some operationID, Some details) \<Rightarrow>
               Some \<lparr>operr_Code = code, operr_Message = message, operr_Retryable = retryable,
                 operr_CorrelationID = correlationID, operr_OperationID = operationID, operr_Details = details\<rparr>
           | _ \<Rightarrow> None)
      | _ \<Rightarrow> None)"

definition nullStringValue :: "string option \<Rightarrow> string" where
  "nullStringValue v = (case v of None \<Rightarrow> [] | Some s \<Rightarrow> s)"

definition row_record ::
    "operation_row \<Rightarrow> (string \<times> string) list option \<Rightarrow> go_object option \<Rightarrow> OperationError option \<Rightarrow> OperationRecord" where
  "row_record row ids summary err =
     \<lparr>op_ID = row_operation_id row, op_Type = row_operation_type row, op_State = row_operation_state row,
      op_Phase = row_phase row, op_Attempt = row_attempt row,
      op_LeaseOwner = nullStringValue (row_lease_owner row), op_LeaseExpiresAt = row_lease_expires_at row,
      op_IdempotencyScope = row_idempotency_scope row, op_IdempotencyKey = row_idempotency_key row,
      op_RequestHash = row_request_hash row, op_CorrelationID = row_correlation_id row,
      op_CallerService = row_caller_service row,
      op_AuthorizedActor = \<lparr>actor_Type = row_authorized_actor_type row, actor_ID = row_authorized_actor_id row\<rparr>,
      op_Resource = \<lparr>resource_Type = row_resource_type row, resource_ID = row_resource_id row\<rparr>,
      op_NamespaceID = row_namespace_id row, op_RepoID = nullStringValue (row_repo_id row),
      op_TemplateID = nullStringValue (row_template_id row), op_ExportID = nullStringValue (row_export_id row),
      op_MountBindingID = nullStringValue (row_mount_binding_id row),
      op_SessionFenceID = nullStringValue (row_session_fence_id row),
      op_ExternalResourceIDs = ids, op_InputSummary = summary,
      op_JVSJSONOutput = unmarshalNullableJSON (row_jvs_json_output row),
      op_VerificationResult = unmarshalNullableJSON (row_verification_result row),
      op_CompensationStatus = nullStringValue (row_compensation_status row), op_Error = err,
      op_Redaction = no_report, op_CreatedAt = row_created_at row,
      op_StartedAt = row_started_at row, op_FinishedAt = row_finished_at row\<rparr>"

definition scanOperation :: "operation_row \<Rightarrow> op_store_error + OperationRecord" where
  "scanOperation row =
     (case unmarshal_string_map (row_external_resource_ids row) of
        None \<Rightarrow> Inl (UnmarshalError ''external_resource_ids'')
      | Some ids \<Rightarrow>
      case unmarshal_map (row_input_summary row) of
        None \<Rightarrow> Inl (UnmarshalError ''input_summary'')
      | Some summary \<Rightarrow>
      case (case row_error_json row of None \<Rightarrow> Some None | Some j \<Rightarrow> map_option Some (unmarshal_error j)) of
        None \<Rightarrow> Inl (UnmarshalError ''error_json'')
      | Some err \<Rightarrow> Inr (Sanitized (row_record row ids summary err)))"

fun scanOperations :: "operation_row list \<Rightarrow> op_store_error + OperationRecord list" where
  "scanOperations [] = Inr []"
| "scanOperations (row # rows) =
     (case scanOperation row of
        Inl err \<Rightarrow> Inl err
      | Inr opr \<Rightarrow> (case scanOperations rows of Inl err \<Rightarrow> Inl err | Inr oprs \<Rightarrow> Inr (opr # oprs)))"

section \<open>What survives the JSON columns\<close>

text \<open>Values that reading gives back unchanged: the shapes of decoded JSON, finite numbers, UTF-8 text.\<close>

fun json_normal :: "go_any \<Rightarrow> bool" where
  "json_normal AnyNil \<longleftrightarrow> True"
| "json_normal (AnyBool b) \<longleftrightarrow> True"
| "json_normal (AnyFloat f) \<longleftrightarrow> (case f of Finite q \<Rightarrow> True | _ \<Rightarrow> False)"
| "json_normal (AnyString s) \<longleftrightarrow> json_utf8 s"
| "json_normal (AnyMap m) \<longleftrightarrow> distinct (map fst m) \<and> list_all (\<lambda>kv. json_utf8 (fst kv) \<and> json_normal (snd kv)) m"
| "json_normal (AnyList xs) \<longleftrightarrow> list_all json_normal xs"
| "json_normal _ \<longleftrightarrow> False"

lemma json_text_id: "json_utf8 s \<Longrightarrow> json_text s = s"
proof -
  assume "json_utf8 s"
  then have "json_text s = concat (map snd (runits s))"
    unfolding json_text_def json_utf8_def list_all_iff by (intro arg_cong [of _ _ concat] map_cong) auto
  then show ?thesis using runits_bytes_runits [of s] by (simp add: runits_bytes_def)
qed

lemma fold_update_distinct:
  "distinct (map fst kvs) \<Longrightarrow> fst ` set kvs \<inter> fst ` set m = {} \<Longrightarrow>
     fold (\<lambda>kv m. AList.update (fst kv) (snd kv) m) kvs m = m @ kvs"
proof (induction kvs arbitrary: m)
  case (Cons kv kvs)
  have "AList.update (fst kv) (snd kv) m = m @ [kv]" if "fst kv \<notin> fst ` set m" for m
    using that by (induction m) auto
  then have "AList.update (fst kv) (snd kv) m = m @ [kv]" using Cons.prems(2) by auto
  then show ?case using Cons.prems Cons.IH [of "m @ [kv]"] by auto
qed simp

lemma json_object_distinct: "distinct (map fst kvs) \<Longrightarrow> json_object kvs = JObject kvs"
  using fold_update_distinct [of kvs "[]"] by (simp add: json_object_def)

lemma those_map_Some: "(\<And>x. x \<in> set xs \<Longrightarrow> f x = Some (g x)) \<Longrightarrow> those (map f xs) = Some (map g xs)"
  by (induction xs) auto

text \<open>The JSON value of a normal value.\<close>

fun json_of :: "go_any \<Rightarrow> json" where
  "json_of AnyNil = JNull"
| "json_of (AnyBool b) = JBool b"
| "json_of (AnyFloat f) = JNumber f"
| "json_of (AnyString s) = JString s"
| "json_of (AnyMap m) = JObject (map (\<lambda>kv. (fst kv, json_of (snd kv))) m)"
| "json_of (AnyList xs) = JArray (map json_of xs)"
| "json_of _ = JNull"

lemma json_marshal_normal: "json_normal v \<Longrightarrow> json_marshal v = Some (json_of v)"
proof (induction v rule: json_normal.induct)
  case (5 m)
  then have "those (map (\<lambda>kv. map_option (Pair (json_text (fst kv))) (json_marshal (snd kv))) m) =
      Some (map (\<lambda>kv. (fst kv, json_of (snd kv))) m)"
    by (intro those_map_Some) (auto simp: list_all_iff json_text_id)
  then show ?case using 5 by (simp add: json_marshal.simps [of "AnyMap m"] json_object_distinct o_def)
next
  case (6 xs)
  then have "those (map (\<lambda>x. json_marshal x) xs) = Some (map json_of xs)"
    by (intro those_map_Some) (auto simp: list_all_iff)
  then show ?case by (simp add: json_marshal.simps [of "AnyList xs"])
qed (auto simp: json_marshal.simps json_text_id split: go_float.splits)

lemma json_value_of: "json_normal v \<Longrightarrow> json_value (json_of v) = v"
  by (induction v rule: json_normal.induct) (auto simp: list_all_iff o_def intro!: map_idI)

text \<open>A value round trip through a JSON column.\<close>

lemma json_roundtrip: "json_normal v \<Longrightarrow> map_option json_value (json_marshal v) = Some v"
  by (simp add: json_marshal_normal json_value_of)

section \<open>A record written and read back\<close>

definition storable_error :: "OperationError \<Rightarrow> bool" where
  "storable_error e \<longleftrightarrow>
     json_utf8 (operr_Code e) \<and> json_utf8 (operr_Message e) \<and> json_utf8 (operr_CorrelationID e) \<and>
     json_utf8 (operr_OperationID e) \<and> json_normal (map_value (operr_Details e))"

definition storable_record :: "OperationRecord \<Rightarrow> bool" where
  "storable_record opr \<longleftrightarrow>
     (case op_ExternalResourceIDs opr of
        None \<Rightarrow> True
      | Some ids \<Rightarrow> distinct (map fst ids) \<and> list_all (\<lambda>kv. json_utf8 (fst kv) \<and> json_utf8 (snd kv)) ids) \<and>
     json_normal (map_value (op_InputSummary opr)) \<and> json_normal (op_JVSJSONOutput opr) \<and>
     json_normal (op_VerificationResult opr) \<and>
     (case op_Error opr of None \<Rightarrow> True | Some e \<Rightarrow> storable_error e)"

text \<open>What reading gives, before it is sanitised: maps are never nil, an empty map of details is
  dropped, and a record without an error has the zero error.\<close>

definition read_error :: "OperationError option \<Rightarrow> OperationError" where
  "read_error err =
     (case err of
        None \<Rightarrow> zero_error
      | Some e \<Rightarrow> if operr_Details e = Some [] then e\<lparr>operr_Details := None\<rparr> else e)"

definition read_back :: "OperationRecord \<Rightarrow> OperationRecord" where
  "read_back opr =
     opr\<lparr>op_ExternalResourceIDs := clone_map (op_ExternalResourceIDs opr),
          op_InputSummary := clone_map (op_InputSummary opr),
          op_Error := Some (read_error (op_Error opr)), op_Redaction := no_report\<rparr>"

lemma nullable_string_roundtrip [simp]: "nullStringValue (nullableStringArg v) = v"
  by (simp add: nullStringValue_def nullableStringArg_def)

lemma lease_args_roundtrip [simp]:
  "nullStringValue (leaseOwnerArg opr) = op_LeaseOwner opr"
  "leaseExpiresAtArg opr = op_LeaseExpiresAt opr"
  by (auto simp: nullStringValue_def leaseOwnerArg_def leaseExpiresAtArg_def)

lemma record_eta [simp]:
  "\<lparr>actor_Type = actor_Type a, actor_ID = actor_ID a\<rparr> = a"
  "\<lparr>resource_Type = resource_Type b, resource_ID = resource_ID b\<rparr> = b"
  by (cases a; simp) (cases b; simp)

lemma marshal_ids:
  assumes "case ids of None \<Rightarrow> True
    | Some kvs \<Rightarrow> distinct (map fst kvs) \<and> list_all (\<lambda>kv. json_utf8 (fst kv) \<and> json_utf8 (snd kv)) kvs"
  shows "\<exists>j. marshalObject col (string_map_value ids) = Inr j \<and> unmarshal_string_map j = Some (clone_map ids)"
proof (cases ids)
  case None
  then show ?thesis
    by (simp add: marshalObject_def string_map_value_def json_marshal.simps unmarshal_string_map_def clone_map_def)
next
  case (Some kvs)
  let ?js = "map (\<lambda>kv. (fst kv, JString (snd kv))) kvs"
  have eq: "map (\<lambda>kv. (json_text (fst kv), JString (json_text (snd kv)))) kvs = ?js"
    using assms Some by (auto simp: list_all_iff json_text_id)
  have "distinct (map fst ?js)" using assms Some by (simp add: o_def)
  then have "json_marshal (AnyStringMap kvs) = Some (JObject ?js)"
    unfolding json_marshal.simps [of "AnyStringMap kvs"] go_any.case eq by (simp only: json_object_distinct)
  moreover have "those (map (\<lambda>kv. map_option (Pair (fst kv)) (json_as_text (snd kv))) ?js) = Some kvs"
    by (induction kvs) auto
  ultimately show ?thesis using Some
    by (simp add: marshalObject_def string_map_value_def unmarshal_string_map_def clone_map_def)
qed

lemma marshal_map:
  assumes "json_normal (map_value m)"
  shows "\<exists>j. marshalObject col (map_value m) = Inr j \<and> unmarshal_map j = Some (clone_map m)"
proof (cases m)
  case None
  then show ?thesis
    by (simp add: marshalObject_def map_value_def json_marshal.simps unmarshal_map_def clone_map_def)
next
  case (Some kvs)
  have n: "json_normal (AnyMap kvs)" using assms Some by (simp add: map_value_def)
  have v: "map (\<lambda>kv. (fst kv, json_value (snd kv))) (map (\<lambda>kv. (fst kv, json_of (snd kv))) kvs) = kvs"
    using json_value_of [OF n] by simp
  have "marshalObject col (map_value m) = Inr (json_of (AnyMap kvs))"
    unfolding marshalObject_def map_value_def Some using json_marshal_normal [OF n] by simp
  moreover have "unmarshal_map (json_of (AnyMap kvs)) = Some (clone_map m)"
    unfolding unmarshal_map_def Some clone_map_def json_of.simps json.case v by simp
  ultimately show ?thesis by blast
qed

lemma marshal_nullable:
  assumes "json_normal v"
  shows "\<exists>d. marshalNullableJSON col (any_interface v) = Inr d \<and> unmarshalNullableJSON d = v"
  using assms by (cases "v = AnyNil")
    (auto simp: marshalNullableJSON_def any_interface_def unmarshalNullableJSON_def json_marshal_normal json_value_of)

lemma utf8_names [simp]:
  "json_utf8 ''code''" "json_utf8 ''message''" "json_utf8 ''retryable''" "json_utf8 ''correlation_id''"
  "json_utf8 ''operation_id''" "json_utf8 ''details''"
  by (simp_all add: json_utf8_def replaced_unit_def byte_def)

lemma error_object_alt:
  "error_object e =
     [(''code'', AnyString (operr_Code e)), (''message'', AnyString (operr_Message e)),
      (''retryable'', AnyBool (operr_Retryable e)), (''correlation_id'', AnyString (operr_CorrelationID e))] @
     (if operr_OperationID e = [] then [] else [(''operation_id'', AnyString (operr_OperationID e))]) @
     (if operr_Details e = None \<or> operr_Details e = Some [] then [] else [(''details'', map_value (operr_Details e))])"
  by (auto simp: error_object_def map_value_def split: option.splits list.splits)

lemma error_object_normal: "storable_error e \<Longrightarrow> json_normal (AnyMap (error_object e))"
  by (auto simp: storable_error_def error_object_alt)

lemma unmarshal_details:
  "json_normal (map_value m) \<Longrightarrow> m \<noteq> None \<Longrightarrow> unmarshal_map (json_of (map_value m)) = Some m"
  using json_value_of [of "map_value m"] by (auto simp: unmarshal_map_def map_value_def o_def)

lemma unmarshal_error_object:
  assumes "storable_error e"
  shows "unmarshal_error (json_of (AnyMap (error_object e))) = Some (read_error (Some e))"
proof -
  have "json_normal (map_value (operr_Details e))" using assms by (simp add: storable_error_def)
  then have "operr_Details e \<noteq> None \<Longrightarrow> unmarshal_map (json_of (map_value (operr_Details e))) = Some (operr_Details e)"
    by (rule unmarshal_details)
  then show ?thesis
    by (cases e) (auto simp: unmarshal_error_def error_object_alt member_text_def member_bool_def member_object_def
      read_error_def)
qed

lemma marshal_error:
  assumes "case err of None \<Rightarrow> True | Some e \<Rightarrow> storable_error e"
  shows "\<exists>j. marshalNullableJSON col (Some (error_value err)) = Inr (Some j) \<and> unmarshal_error j = Some (read_error err)"
proof (cases err)
  case None
  then show ?thesis
    by (simp add: marshalNullableJSON_def error_value_def json_marshal.simps unmarshal_error_def read_error_def)
next
  case (Some e)
  then have e: "storable_error e" using assms by simp
  have "marshalNullableJSON col (Some (error_value err)) = Inr (Some (json_of (AnyMap (error_object e))))"
    unfolding marshalNullableJSON_def Some error_value_def
    using json_marshal_normal [OF error_object_normal [OF e]] by simp
  then show ?thesis using unmarshal_error_object [OF e] Some by blast
qed

lemma stored_record:
  assumes "storable_record opr"
  shows "\<exists>row. operationInsertArgs opr = Inr row \<and> scanOperation row = Inr (Sanitized (read_back opr))"
proof -
  obtain ids where ids: "marshalObject ''external_resource_ids'' (string_map_value (op_ExternalResourceIDs opr)) = Inr ids"
    "unmarshal_string_map ids = Some (clone_map (op_ExternalResourceIDs opr))"
    using assms marshal_ids [of "op_ExternalResourceIDs opr"] unfolding storable_record_def by blast
  obtain summary where summary: "marshalObject ''input_summary'' (map_value (op_InputSummary opr)) = Inr summary"
    "unmarshal_map summary = Some (clone_map (op_InputSummary opr))"
    using assms marshal_map [of "op_InputSummary opr"] unfolding storable_record_def by blast
  obtain jvs where jvs: "marshalNullableJSON ''jvs_json_output'' (any_interface (op_JVSJSONOutput opr)) = Inr jvs"
    "unmarshalNullableJSON jvs = op_JVSJSONOutput opr"
    using assms marshal_nullable unfolding storable_record_def by blast
  obtain ver where ver: "marshalNullableJSON ''verification_result'' (any_interface (op_VerificationResult opr)) = Inr ver"
    "unmarshalNullableJSON ver = op_VerificationResult opr"
    using assms marshal_nullable unfolding storable_record_def by blast
  obtain err where err: "marshalNullableJSON ''error_json'' (Some (error_value (op_Error opr))) = Inr (Some err)"
    "unmarshal_error err = Some (read_error (op_Error opr))"
    using assms marshal_error [of "op_Error opr"] unfolding storable_record_def by blast
  show ?thesis
    using ids summary jvs ver err
    by (cases opr) (simp add: operationInsertArgs_def marshal_columns_def scanOperation_def row_record_def read_back_def)
qed


text \<open>An operation without an error is not read back as one: \<open>record.Error != nil\<close> holds of it.\<close>

lemma missing_error_read_back:
  assumes "storable_record opr" "op_Error opr = None"
  obtains row r where "operationInsertArgs opr = Inr row" "scanOperation row = Inr r" "op_Error r \<noteq> None"
proof -
  have "op_Error (Sanitized (read_back opr)) \<noteq> None"
    by (simp add: Sanitized_def restoreSafeSavePointMessage_def read_back_def Let_def split: prod.splits option.splits)
  then show thesis using stored_record that assms by blast
qed


section \<open>The text of a scope\<close>

lemma separator_inj: "c \<notin> set a \<Longrightarrow> c \<notin> set b \<Longrightarrow> a @ c # x = b @ c # y \<longleftrightarrow> a = b \<and> x = y"
proof (induction a arbitrary: b)
  case Nil
  then show ?case by (cases b) auto
next
  case (Cons h a)
  then show ?case by (cases b) auto
qed

text \<open>\<open>CompareIdempotency\<close> compares the texts of scopes, the table their components: they agree where
  the caller, the namespace and the operation type have no colon.\<close>

lemma Scope_String_inj:
  assumes "Scope_String a = Scope_String b"
    "CHR '':'' \<notin> set (scope_CallerService a)" "CHR '':'' \<notin> set (scope_CallerService b)"
    "CHR '':'' \<notin> set (scope_NamespaceID a)" "CHR '':'' \<notin> set (scope_NamespaceID b)"
    "CHR '':'' \<notin> set (OperationType_String (scope_OperationType a))"
    "CHR '':'' \<notin> set (OperationType_String (scope_OperationType b))"
  shows "scope_CallerService a = scope_CallerService b \<and> scope_NamespaceID a = scope_NamespaceID b \<and>
    OperationType_String (scope_OperationType a) = OperationType_String (scope_OperationType b) \<and>
    scope_IdempotencyKey a = scope_IdempotencyKey b"
  using assms by (simp add: Scope_String_def separator_inj)

end
