(* ===== verification/Operation_Store.thy ===== *)
theory Operation_Store
  imports Operation_Rows
begin

text \<open>
  The operations table of \<open>internal/store/postgres/operations.go\<close>: every query and
  statement of the file over the rows of \<open>Operation_Rows\<close>, with the constraints of
  \<open>migrations/0001\<close>. A statement runs atomically; it either fails and changes nothing or
  changes the table as its \<open>SET\<close> and \<open>WHERE\<close> clauses say. The check of
  \<open>migrations/0008\<close> concerns only rows with a terminal \<open>repo_create\<close> validation code, which
  the writers of this file refuse (\<open>rejectGenericRepoCreateTerminalValidation\<close>). Texts are
  compared by bytes.
\<close>

section \<open>The database\<close>

record op_db =
  db_operations :: "operation_row list"
  db_outbox :: "OutboxRecord list"
  db_fences :: "Fence list"
  db_repo_ids :: "string list"

definition jvs_types :: "OperationType list" where
  "jvs_types = [OperationSavePointCreate, OperationRestore, OperationTemplateCreate, OperationTemplateClone]"

definition lifecycle_types :: "OperationType list" where
  "lifecycle_types = [OperationRepoArchive, OperationRepoRestoreArchived, OperationRepoDelete, OperationRepoRestoreTombstoned]"

definition lifecycle_and_purge_types :: "OperationType list" where
  "lifecycle_and_purge_types = lifecycle_types @ [OperationRepoPurge]"

definition mount_types :: "OperationType list" where
  "mount_types = [OperationMountBindingCreate, OperationMountBindingStatusUpdate, OperationMountBindingHeartbeat,
     OperationMountBindingRelease, OperationMountBindingRevoke]"

definition mount_phases :: "string list" where
  "mount_phases = [''validate_mount_binding_create'', ''validate_mount_binding_status_update'',
     ''validate_mount_binding_heartbeat'', ''validate_mount_binding_release'', ''validate_mount_binding_revoke'']"

text \<open>\<open>operation_state NOT IN ('succeeded','failed','cancelled')\<close>.\<close>

definition open_row :: "operation_row \<Rightarrow> bool" where
  "open_row r \<longleftrightarrow> \<not> IsTerminal (row_operation_state r)"

definition row_key :: "operation_row \<Rightarrow> constraint_key" where
  "row_key r = (row_caller_service r, row_namespace_id r, row_operation_type r, row_idempotency_key r)"

fun is_object :: "json \<Rightarrow> bool" where
  "is_object (JObject _) = True"
| "is_object _ = False"

text \<open>The check constraints of the table, and what its column types hold.\<close>

definition operation_checks :: "operation_row \<Rightarrow> bool" where
  "operation_checks r \<longleftrightarrow>
     row_operation_type r \<in> set OperationTypes \<and> OperationState_Valid (row_operation_state r) \<and>
     0 \<le> row_attempt r \<and> row_phase r \<noteq> [] \<and>
     row_caller_service r \<noteq> [] \<and> row_idempotency_key r \<noteq> [] \<and> row_request_hash r \<noteq> [] \<and>
     is_object (row_external_resource_ids r) \<and> is_object (row_input_summary r) \<and>
     (row_lease_owner r = None \<longleftrightarrow> row_lease_expires_at r = None)"

definition storable_row :: "operation_row \<Rightarrow> bool" where
  "storable_row r \<longleftrightarrow>
     json_storable (row_external_resource_ids r) \<and> json_storable (row_input_summary r) \<and>
     pred_option json_storable (row_jvs_json_output r) \<and> pred_option json_storable (row_verification_result r) \<and>
     pred_option json_storable (row_error_json r)"

definition row_error :: "operation_row \<Rightarrow> op_store_error option" where
  "row_error r =
     (if max_int32 < row_attempt r \<or> row_attempt r < - max_int32 - 1 then Some IntegerRange
      else if \<not> operation_checks r \<or> \<not> storable_row r then Some RowCheckViolation
      else None)"

text \<open>\<open>operations_one_non_terminal_jvs_mutation_per_repo_idx\<close>.\<close>

definition active_jvs :: "operation_row \<Rightarrow> bool" where
  "active_jvs r \<longleftrightarrow> row_repo_id r \<noteq> None \<and> row_operation_type r \<in> set jvs_types \<and> open_row r"

definition jvs_clash :: "operation_row \<Rightarrow> operation_row \<Rightarrow> bool" where
  "jvs_clash r q \<longleftrightarrow> active_jvs r \<and> active_jvs q \<and> row_repo_id r = row_repo_id q"

section \<open>Statements on one row\<close>

definition insert_operation :: "operation_row \<Rightarrow> operation_row list \<Rightarrow> op_store_error + operation_row list" where
  "insert_operation r rows =
     (case row_error r of
        Some err \<Rightarrow> Inl err
      | None \<Rightarrow>
        if list_ex (\<lambda>q. row_operation_id q = row_operation_id r) rows then Inl DuplicateOperationID
        else if list_ex (\<lambda>q. row_key q = row_key r) rows then Inl DuplicateIdempotencyKey
        else if list_ex (jvs_clash r) rows then Inl DuplicateJVSMutation
        else Inr (rows @ [r]))"

text \<open>The row with the identifier of \<open>r\<close> becomes \<open>r\<close>, unless a constraint forbids it.\<close>

definition write_row :: "operation_row \<Rightarrow> operation_row list \<Rightarrow> op_store_error + operation_row list" where
  "write_row r rows =
     (case row_error r of
        Some err \<Rightarrow> Inl err
      | None \<Rightarrow>
        if list_ex (\<lambda>q. row_operation_id q \<noteq> row_operation_id r \<and> jvs_clash r q) rows then Inl DuplicateJVSMutation
        else Inr (map (\<lambda>q. if row_operation_id q = row_operation_id r then r else q) rows))"

text \<open>\<open>UPDATE operations SET ... WHERE operation_id = $id AND ... RETURNING ...\<close>.\<close>

definition update_returning ::
    "string \<Rightarrow> (operation_row \<Rightarrow> bool) \<Rightarrow> (operation_row \<Rightarrow> operation_row) \<Rightarrow> operation_row list \<Rightarrow>
      op_store_error + operation_row list \<times> operation_row" where
  "update_returning operationID cond f rows =
     (case find (\<lambda>r. row_operation_id r = operationID \<and> cond r) rows of
        None \<Rightarrow> Inl (NoRows operationID)
      | Some r \<Rightarrow> (case write_row (f r) rows of Inl err \<Rightarrow> Inl err | Inr rows' \<Rightarrow> Inr (rows', f r)))"

section \<open>Create, update, get\<close>

definition repoCreateTerminalValidationCode :: "string \<Rightarrow> bool" where
  "repoCreateTerminalValidationCode code \<longleftrightarrow>
     code = ''REPO_CREATE_VALIDATION_FAILED'' \<or> code = ''REPO_CREATE_VALIDATION_FAILED_WITH_FENCE''"

definition rejectGenericRepoCreateTerminalValidation :: "OperationRecord \<Rightarrow> op_store_error option" where
  "rejectGenericRepoCreateTerminalValidation opr =
     (if op_Type opr \<noteq> OperationRepoCreate then None
      else case op_Error opr of
        None \<Rightarrow> None
      | Some e \<Rightarrow> check (repoCreateTerminalValidationCode (operr_Code e))
          (LeaseRequestError ''operation_type'' ''repo_create validation failures must use repo_create typed commit''))"

definition CreateOperation :: "SanitizedOperationRecord \<Rightarrow> op_db \<Rightarrow> op_db \<times> op_store_error option" where
  "CreateOperation sanitized db =
     (let opr = Record sanitized in
      case rejectGenericRepoCreateTerminalValidation opr of
        Some err \<Rightarrow> (db, Some err)
      | None \<Rightarrow>
      case operationInsertArgs opr of
        Inl err \<Rightarrow> (db, Some err)
      | Inr row \<Rightarrow>
      case insert_operation row (db_operations db) of
        Inl err \<Rightarrow> (db, Some err)
      | Inr rows \<Rightarrow> (db\<lparr>db_operations := rows\<rparr>, None))"

definition operationUpdateSQL :: "OperationRecord \<Rightarrow> json_columns \<Rightarrow> go_time \<Rightarrow> operation_row \<Rightarrow> operation_row" where
  "operationUpdateSQL opr cols updatedAt row =
     row\<lparr>row_operation_state := op_State opr, row_phase := op_Phase opr, row_attempt := op_Attempt opr,
          row_lease_owner := leaseOwnerArg opr, row_lease_expires_at := leaseExpiresAtArg opr,
          row_external_resource_ids := col_external_resource_ids cols, row_input_summary := col_input_summary cols,
          row_jvs_json_output := col_jvs_json_output cols, row_verification_result := col_verification_result cols,
          row_compensation_status := nullableStringArg (op_CompensationStatus opr),
          row_error_json := col_error_json cols, row_started_at := op_StartedAt opr,
          row_finished_at := op_FinishedAt opr, row_updated_at := updatedAt\<rparr>"

definition UpdateOperation :: "go_time \<Rightarrow> SanitizedOperationRecord \<Rightarrow> op_db \<Rightarrow> op_db \<times> op_store_error option" where
  "UpdateOperation now sanitized db =
     (let opr = Record sanitized in
      case rejectGenericRepoCreateTerminalValidation opr of
        Some err \<Rightarrow> (db, Some err)
      | None \<Rightarrow>
      case marshal_columns opr of
        Inl err \<Rightarrow> (db, Some err)
      | Inr cols \<Rightarrow>
      case update_returning (op_ID opr) (\<lambda>_. True) (operationUpdateSQL opr cols now) (db_operations db) of
        Inl err \<Rightarrow> (db, Some err)
      | Inr (rows, _) \<Rightarrow> (db\<lparr>db_operations := rows\<rparr>, None))"

definition find_row :: "string \<Rightarrow> op_db \<Rightarrow> operation_row option" where
  "find_row operationID db = find (\<lambda>r. row_operation_id r = operationID) (db_operations db)"

definition GetOperation :: "string \<Rightarrow> op_db \<Rightarrow> op_store_error + OperationRecord" where
  "GetOperation operationID db =
     (case find_row operationID db of None \<Rightarrow> Inl (NoRows operationID) | Some row \<Rightarrow> scanOperation row)"

definition GetOperationByIdempotencyScope :: "IdempotencyScope \<Rightarrow> op_db \<Rightarrow> op_store_error + OperationRecord" where
  "GetOperationByIdempotencyScope scope db =
     (if trim_space (scope_CallerService scope) = [] \<or> trim_space (scope_IdempotencyKey scope) = [] \<or>
         trim_space (OperationType_String (scope_OperationType scope)) = []
      then Inl (LeaseRequestError ''idempotency_scope'' ''operation idempotency scope is incomplete'')
      else case find (\<lambda>r. row_key r = ConstraintKey scope) (db_operations db) of
        None \<Rightarrow> Inl (NoRows [])
      | Some row \<Rightarrow> scanOperation row)"

section \<open>Candidates for recovery\<close>

text \<open>\<open>btrim\<close> of the database removes blanks only.\<close>

definition btrim :: "string \<Rightarrow> string" where
  "btrim s = rev (dropWhile (\<lambda>c. c = CHR '' '') (rev (dropWhile (\<lambda>c. c = CHR '' '') s)))"

definition noLeasePair :: "operation_row \<Rightarrow> bool" where
  "noLeasePair r \<longleftrightarrow> row_lease_owner r = None \<and> row_lease_expires_at r = None"

definition completeLeasePair :: "operation_row \<Rightarrow> bool" where
  "completeLeasePair r \<longleftrightarrow>
     (case row_lease_owner r of None \<Rightarrow> False | Some o' \<Rightarrow> btrim o' \<noteq> []) \<and> row_lease_expires_at r \<noteq> None"

definition invalidLeasePair :: "operation_row \<Rightarrow> bool" where
  "invalidLeasePair r \<longleftrightarrow>
     (row_lease_owner r = None \<and> row_lease_expires_at r \<noteq> None) \<or>
     (case row_lease_owner r of None \<Rightarrow> False | Some o' \<Rightarrow> btrim o' = []) \<or>
     ((case row_lease_owner r of None \<Rightarrow> False | Some o' \<Rightarrow> btrim o' \<noteq> []) \<and> row_lease_expires_at r = None)"

definition expired :: "go_time \<Rightarrow> operation_row \<Rightarrow> bool" where
  "expired now r \<longleftrightarrow> (case row_lease_expires_at r of None \<Rightarrow> False | Some t \<Rightarrow> t \<le> now)"

definition not_live :: "go_time \<Rightarrow> operation_row \<Rightarrow> bool" where
  "not_live now r \<longleftrightarrow> noLeasePair r \<or> invalidLeasePair r \<or> (completeLeasePair r \<and> expired now r)"

definition operationRecoveryCandidatesSQL :: "go_time \<Rightarrow> operation_row \<Rightarrow> bool" where
  "operationRecoveryCandidatesSQL now r \<longleftrightarrow>
     row_operation_state r = OperationStateQueued \<or>
     (row_operation_state r = OperationStateRunning \<and> not_live now r) \<or>
     (row_operation_state r = OperationStateCancelRequested \<and> not_live now r) \<or>
     row_operation_state r = OperationStateOperatorInterventionRequired"

definition scopedOperationRecoveryCandidatesSQL ::
    "OperationType \<Rightarrow> string \<Rightarrow> bool \<Rightarrow> go_time \<Rightarrow> operation_row \<Rightarrow> bool" where
  "scopedOperationRecoveryCandidatesSQL operationType phase requireGlobal now r \<longleftrightarrow>
     row_operation_type r = operationType \<and> row_phase r = phase \<and> (requireGlobal \<longrightarrow> row_namespace_id r = []) \<and>
     operationRecoveryCandidatesSQL now r"

definition namespaceUpsertOperationRecoveryCandidatesSQL :: "go_time \<Rightarrow> operation_row \<Rightarrow> bool" where
  "namespaceUpsertOperationRecoveryCandidatesSQL now r \<longleftrightarrow>
     row_operation_type r = OperationNamespaceUpsert \<and> row_phase r = ''validate_namespace_upsert'' \<and>
     operationRecoveryCandidatesSQL now r"

definition volumeEnsureOperationRecoveryCandidatesSQL :: "go_time \<Rightarrow> operation_row \<Rightarrow> bool" where
  "volumeEnsureOperationRecoveryCandidatesSQL now r \<longleftrightarrow>
     row_operation_type r = OperationVolumeEnsure \<and> row_phase r = ''validate_volume_ensure'' \<and> row_namespace_id r = [] \<and>
     operationRecoveryCandidatesSQL now r"

definition namespaceVolumeBindingPutOperationRecoveryCandidatesSQL :: "go_time \<Rightarrow> operation_row \<Rightarrow> bool" where
  "namespaceVolumeBindingPutOperationRecoveryCandidatesSQL now r \<longleftrightarrow>
     row_operation_type r = OperationNamespaceVolumeBindingPut \<and> row_phase r = ''validate_namespace_volume_binding_put'' \<and>
     operationRecoveryCandidatesSQL now r"

definition repoCreateOperationRecoveryCandidatesSQL :: "go_time \<Rightarrow> operation_row \<Rightarrow> bool" where
  "repoCreateOperationRecoveryCandidatesSQL now r \<longleftrightarrow>
     row_operation_type r = OperationRepoCreate \<and> row_phase r = ''validate_repo_create'' \<and> operationRecoveryCandidatesSQL now r"

definition repoLifecycleOperationRecoveryCandidatesSQL :: "go_time \<Rightarrow> operation_row \<Rightarrow> bool" where
  "repoLifecycleOperationRecoveryCandidatesSQL now r \<longleftrightarrow>
     row_operation_type r \<in> set lifecycle_types \<and> row_phase r = ''validate_repo_lifecycle'' \<and>
     operationRecoveryCandidatesSQL now r"

text \<open>A purge is not listed once its cancellation was requested.\<close>

definition repoPurgeOperationRecoveryCandidatesSQL :: "go_time \<Rightarrow> operation_row \<Rightarrow> bool" where
  "repoPurgeOperationRecoveryCandidatesSQL now r \<longleftrightarrow>
     row_operation_type r = OperationRepoPurge \<and> row_phase r = ''validate_repo_lifecycle'' \<and>
     (row_operation_state r = OperationStateQueued \<or>
      (row_operation_state r = OperationStateRunning \<and> not_live now r) \<or>
      row_operation_state r = OperationStateOperatorInterventionRequired)"

definition savePointCreateOperationRecoveryCandidatesSQL :: "go_time \<Rightarrow> operation_row \<Rightarrow> bool" where
  "savePointCreateOperationRecoveryCandidatesSQL now r \<longleftrightarrow>
     row_operation_type r = OperationSavePointCreate \<and>
     row_phase r \<in> {''validate_save_point_create'', ''save_point_create_prepared''} \<and> operationRecoveryCandidatesSQL now r"

definition restoreOperationRecoveryCandidatesSQL :: "go_time \<Rightarrow> operation_row \<Rightarrow> bool" where
  "restoreOperationRecoveryCandidatesSQL now r \<longleftrightarrow>
     row_operation_type r = OperationRestore \<and> row_phase r \<in> {''validate_restore'', ''restore_writer_fenced''} \<and>
     (row_operation_state r = OperationStateQueued \<or>
      (row_operation_state r = OperationStateRunning \<and> not_live now r) \<or>
      (row_operation_state r = OperationStateCancelRequested \<and> row_phase r = ''validate_restore'' \<and> not_live now r) \<or>
      row_operation_state r = OperationStateOperatorInterventionRequired)"

definition templateCreateOperationRecoveryCandidatesSQL :: "go_time \<Rightarrow> operation_row \<Rightarrow> bool" where
  "templateCreateOperationRecoveryCandidatesSQL now r \<longleftrightarrow>
     row_operation_type r = OperationTemplateCreate \<and>
     row_phase r \<in> {''validate_template_create'', ''template_create_writer_fenced''} \<and>
     (row_operation_state r = OperationStateQueued \<or>
      (row_operation_state r = OperationStateRunning \<and> not_live now r) \<or>
      (row_operation_state r = OperationStateCancelRequested \<and> row_phase r = ''validate_template_create'' \<and> not_live now r) \<or>
      row_operation_state r = OperationStateOperatorInterventionRequired)"

definition workloadMountBindingOperationRecoveryCandidatesSQL :: "go_time \<Rightarrow> operation_row \<Rightarrow> bool" where
  "workloadMountBindingOperationRecoveryCandidatesSQL now r \<longleftrightarrow>
     row_operation_type r \<in> set mount_types \<and> row_phase r \<in> set mount_phases \<and> operationRecoveryCandidatesSQL now r"

text \<open>\<open>ORDER BY created_at, operation_id LIMIT n\<close> over the rows that a condition selects.\<close>

definition list_for_recovery ::
    "string \<Rightarrow> (go_time \<Rightarrow> operation_row \<Rightarrow> bool) \<Rightarrow> go_time \<Rightarrow> int \<Rightarrow> op_db \<Rightarrow> op_store_error + OperationRecord list" where
  "list_for_recovery name cond now limit db =
     (if is_zero now then Inl (ListRequestError (''list '' @ name @ '' for recovery: now must be set''))
      else if limit \<le> 0 then Inl (ListRequestError (''list '' @ name @ '' for recovery: limit must be positive''))
      else scanOperations (take (nat limit)
        (sort_key (\<lambda>r. (row_created_at r, row_operation_id r)) (filter (cond now) (db_operations db)))))"

definition ListOperationsForRecovery :: "go_time \<Rightarrow> int \<Rightarrow> op_db \<Rightarrow> op_store_error + OperationRecord list" where
  "ListOperationsForRecovery = list_for_recovery ''operations'' operationRecoveryCandidatesSQL"

definition ListNamespaceUpsertOperationsForRecovery :: "go_time \<Rightarrow> int \<Rightarrow> op_db \<Rightarrow> op_store_error + OperationRecord list" where
  "ListNamespaceUpsertOperationsForRecovery =
     list_for_recovery ''namespace upsert operations'' namespaceUpsertOperationRecoveryCandidatesSQL"

definition ListNamespaceDisableOperationsForRecovery :: "go_time \<Rightarrow> int \<Rightarrow> op_db \<Rightarrow> op_store_error + OperationRecord list" where
  "ListNamespaceDisableOperationsForRecovery =
     list_for_recovery ''namespace disable operations''
       (scopedOperationRecoveryCandidatesSQL OperationNamespaceDisable ''validate_namespace_disable'' False)"

definition ListVolumeEnsureOperationsForRecovery :: "go_time \<Rightarrow> int \<Rightarrow> op_db \<Rightarrow> op_store_error + OperationRecord list" where
  "ListVolumeEnsureOperationsForRecovery =
     list_for_recovery ''volume ensure operations'' volumeEnsureOperationRecoveryCandidatesSQL"

definition ListNamespaceVolumeBindingPutOperationsForRecovery ::
    "go_time \<Rightarrow> int \<Rightarrow> op_db \<Rightarrow> op_store_error + OperationRecord list" where
  "ListNamespaceVolumeBindingPutOperationsForRecovery =
     list_for_recovery ''namespace volume binding put operations'' namespaceVolumeBindingPutOperationRecoveryCandidatesSQL"

definition ListRepoCreateOperationsForRecovery :: "go_time \<Rightarrow> int \<Rightarrow> op_db \<Rightarrow> op_store_error + OperationRecord list" where
  "ListRepoCreateOperationsForRecovery =
     list_for_recovery ''repo create operations'' repoCreateOperationRecoveryCandidatesSQL"

definition ListRepoLifecycleOperationsForRecovery :: "go_time \<Rightarrow> int \<Rightarrow> op_db \<Rightarrow> op_store_error + OperationRecord list" where
  "ListRepoLifecycleOperationsForRecovery =
     list_for_recovery ''repo lifecycle operations'' repoLifecycleOperationRecoveryCandidatesSQL"

definition ListRepoPurgeOperationsForRecovery :: "go_time \<Rightarrow> int \<Rightarrow> op_db \<Rightarrow> op_store_error + OperationRecord list" where
  "ListRepoPurgeOperationsForRecovery =
     list_for_recovery ''repo purge operations'' repoPurgeOperationRecoveryCandidatesSQL"

definition ListSavePointCreateOperationsForRecovery :: "go_time \<Rightarrow> int \<Rightarrow> op_db \<Rightarrow> op_store_error + OperationRecord list" where
  "ListSavePointCreateOperationsForRecovery =
     list_for_recovery ''save point create operations'' savePointCreateOperationRecoveryCandidatesSQL"

definition ListRestoreOperationsForRecovery :: "go_time \<Rightarrow> int \<Rightarrow> op_db \<Rightarrow> op_store_error + OperationRecord list" where
  "ListRestoreOperationsForRecovery = list_for_recovery ''restore operations'' restoreOperationRecoveryCandidatesSQL"

definition ListTemplateCreateOperationsForRecovery :: "go_time \<Rightarrow> int \<Rightarrow> op_db \<Rightarrow> op_store_error + OperationRecord list" where
  "ListTemplateCreateOperationsForRecovery =
     list_for_recovery ''template create operations'' templateCreateOperationRecoveryCandidatesSQL"

definition ListTemplateCloneOperationsForRecovery :: "go_time \<Rightarrow> int \<Rightarrow> op_db \<Rightarrow> op_store_error + OperationRecord list" where
  "ListTemplateCloneOperationsForRecovery =
     list_for_recovery ''template clone operations''
       (scopedOperationRecoveryCandidatesSQL OperationTemplateClone ''validate_template_clone'' False)"

definition ListWorkloadMountBindingOperationsForRecovery ::
    "go_time \<Rightarrow> int \<Rightarrow> op_db \<Rightarrow> op_store_error + OperationRecord list" where
  "ListWorkloadMountBindingOperationsForRecovery =
     list_for_recovery ''workload mount binding operations'' workloadMountBindingOperationRecoveryCandidatesSQL"

section \<open>Other operations of a repo\<close>

definition jvs_mutation_of :: "string \<Rightarrow> operation_row \<Rightarrow> bool" where
  "jvs_mutation_of repoID r \<longleftrightarrow> row_repo_id r = Some repoID \<and> row_operation_type r \<in> set jvs_types \<and> open_row r"

definition RepoHasNonTerminalJVSMutation :: "string \<Rightarrow> op_db \<Rightarrow> op_store_error + bool" where
  "RepoHasNonTerminalJVSMutation repoID db =
     (case ValidateID RepoID (trim_space repoID) of
        Some _ \<Rightarrow> Inl (InvalidID repoID)
      | None \<Rightarrow> Inr (list_ex (jvs_mutation_of repoID) (db_operations db)))"

definition GetRepoJVSMutationGateStatus :: "string \<Rightarrow> op_db \<Rightarrow> op_store_error + RepoJVSMutationGateStatus" where
  "GetRepoJVSMutationGateStatus repoID db =
     (case ValidateID RepoID (trim_space repoID) of
        Some _ \<Rightarrow> Inl (InvalidID repoID)
      | None \<Rightarrow>
        case sort_key (\<lambda>r. (if row_operation_state r = OperationStateOperatorInterventionRequired then 0 else 1 :: int,
                          row_created_at r, row_operation_id r))
               (filter (jvs_mutation_of repoID) (db_operations db)) of
          [] \<Rightarrow> Inr \<lparr>gate_InProgress = False, gate_OperationID = [], gate_OperationType = OperationTypeOther [],
                    gate_OperationState = OperationStateOther [], gate_RecoveryRequired = False\<rparr>
        | r # _ \<Rightarrow> Inr (NewRepoJVSMutationGateStatus (row_operation_id r) (row_operation_type r) (row_operation_state r)))"

definition ListEarlierNonTerminalRepoLifecycleOperations ::
    "string \<Rightarrow> string \<Rightarrow> go_time \<Rightarrow> op_db \<Rightarrow> op_store_error + OperationRecord list" where
  "ListEarlierNonTerminalRepoLifecycleOperations repoID operationID createdAt db =
     (if ValidateID RepoID repoID \<noteq> None then Inl (InvalidID repoID)
      else if ValidateID OperationID operationID \<noteq> None then Inl (InvalidID operationID)
      else scanOperations (sort_key (\<lambda>r. (row_created_at r, row_operation_id r))
        (filter (\<lambda>r. row_repo_id r = Some repoID \<and>
             (row_created_at r < createdAt \<or> (row_created_at r = createdAt \<and> row_operation_id r < operationID)) \<and>
             row_operation_type r \<in> set lifecycle_and_purge_types \<and> open_row r)
           (db_operations db))))"

section \<open>Acquiring a lease\<close>

record operationLeaseArgs =
  la_operationID :: string
  la_owner :: string
  la_expiresAt :: go_time
  la_now :: go_time
  la_recoveryMode :: LeaseRecoveryMode
  la_cancelPolicy :: LeaseCancelPolicy

definition operationLeaseRequestArgs :: "string \<Rightarrow> LeaseRequest \<Rightarrow> op_store_error + operationLeaseArgs" where
  "operationLeaseRequestArgs operationID request =
     (case checks
        [check (trim_space operationID = []) (LeaseRequestError ''operation_id'' ''missing operation id''),
         check (trim_space (req_Owner request) = []) (LeaseRequestError ''owner'' ''missing lease owner''),
         check (req_Duration request \<le> 0) (LeaseRequestError ''duration'' ''lease duration must be positive''),
         check (is_zero (req_Now request)) (LeaseRequestError ''now'' ''lease decision time must be set''),
         check (\<not> LeaseRecoveryMode_valid (req_RecoveryMode request)) (LeaseRequestError ''recovery_mode'' ''unknown recovery mode''),
         check (\<not> LeaseCancelPolicy_valid (req_CancelPolicy request)) (LeaseRequestError ''cancel_policy'' ''unknown cancel policy'')] of
        Some err \<Rightarrow> Inl err
      | None \<Rightarrow> Inr \<lparr>la_operationID = trim_space operationID, la_owner = trim_space (req_Owner request),
          la_expiresAt = req_Now request + req_Duration request, la_now = req_Now request,
          la_recoveryMode = req_RecoveryMode request, la_cancelPolicy = req_CancelPolicy request\<rparr>)"

text \<open>The \<open>SET\<close> clause that all acquisitions share.\<close>

definition finalizes :: "operationLeaseArgs \<Rightarrow> operation_row \<Rightarrow> bool" where
  "finalizes args r \<longleftrightarrow>
     row_operation_state r = OperationStateCancelRequested \<and> la_cancelPolicy args = LeaseCancelPolicyFinalize"

definition coalesce :: "'a option \<Rightarrow> 'a \<Rightarrow> 'a option" where
  "coalesce v d = (case v of None \<Rightarrow> Some d | Some x \<Rightarrow> Some x)"

definition acquire_assign :: "operationLeaseArgs \<Rightarrow> operation_row \<Rightarrow> operation_row" where
  "acquire_assign args r =
     (if finalizes args r
      then r\<lparr>row_operation_state := OperationStateCancelled, row_lease_owner := None, row_lease_expires_at := None,
             row_finished_at := coalesce (row_finished_at r) (la_now args), row_updated_at := la_now args\<rparr>
      else r\<lparr>row_operation_state := OperationStateRunning, row_attempt := row_attempt r + 1,
             row_lease_owner := Some (la_owner args), row_lease_expires_at := Some (la_expiresAt args),
             row_started_at := coalesce (row_started_at r) (la_now args), row_updated_at := la_now args\<rparr>)"

definition validLeasePair :: "operation_row \<Rightarrow> bool" where
  "validLeasePair r \<longleftrightarrow> noLeasePair r \<or> completeLeasePair r"

definition cancelFinalizableLease :: "go_time \<Rightarrow> operation_row \<Rightarrow> bool" where
  "cancelFinalizableLease now r \<longleftrightarrow> noLeasePair r \<or> (completeLeasePair r \<and> expired now r)"

definition operationAcquireLeaseSQL :: "operationLeaseArgs \<Rightarrow> operation_row \<Rightarrow> bool" where
  "operationAcquireLeaseSQL args r \<longleftrightarrow>
     (row_operation_state r = OperationStateQueued \<and> noLeasePair r) \<or>
     (row_operation_state r = OperationStateRunning \<and> completeLeasePair r \<and> expired (la_now args) r) \<or>
     (row_operation_state r = OperationStateOperatorInterventionRequired \<and>
        la_recoveryMode args = LeaseRecoveryExplicitAction \<and> validLeasePair r) \<or>
     (row_operation_state r = OperationStateCancelRequested \<and> la_cancelPolicy args = LeaseCancelPolicyFinalize \<and>
        cancelFinalizableLease (la_now args) r)"

text \<open>The condition on state and lease of the acquisitions for one kind of operation: a claim or a
  reclaim without a cancel policy, a finalisation with it, never an operator recovery.\<close>

definition scoped_lease :: "operationLeaseArgs \<Rightarrow> operation_row \<Rightarrow> bool" where
  "scoped_lease args r \<longleftrightarrow>
     (row_operation_state r = OperationStateQueued \<and> la_cancelPolicy args = LeaseCancelPolicyNone \<and> noLeasePair r) \<or>
     (row_operation_state r = OperationStateRunning \<and> la_cancelPolicy args = LeaseCancelPolicyNone \<and>
        completeLeasePair r \<and> expired (la_now args) r) \<or>
     (row_operation_state r = OperationStateCancelRequested \<and> la_cancelPolicy args = LeaseCancelPolicyFinalize \<and>
        cancelFinalizableLease (la_now args) r)"

text \<open>Earlier operations of the same repo that are not terminal.\<close>

definition earlier_open :: "OperationType list \<Rightarrow> operation_row list \<Rightarrow> operation_row \<Rightarrow> bool" where
  "earlier_open types rows e =
     list_ex (\<lambda>q. row_repo_id q \<noteq> None \<and> row_repo_id q = row_repo_id e \<and> row_operation_id q \<noteq> row_operation_id e \<and>
       (row_created_at q < row_created_at e \<or>
        (row_created_at q = row_created_at e \<and> row_operation_id q < row_operation_id e)) \<and>
       row_operation_type q \<in> set types \<and> open_row q) rows"

type_synonym acquire_cond = "operationLeaseArgs \<Rightarrow> operation_row list \<Rightarrow> operation_row \<Rightarrow> bool"

definition namespaceUpsertOperationAcquireLeaseSQL :: acquire_cond where
  "namespaceUpsertOperationAcquireLeaseSQL args rows r \<longleftrightarrow>
     row_operation_type r = OperationNamespaceUpsert \<and> row_phase r = ''validate_namespace_upsert'' \<and> scoped_lease args r"

definition namespaceDisableOperationAcquireLeaseSQL :: acquire_cond where
  "namespaceDisableOperationAcquireLeaseSQL args rows r \<longleftrightarrow>
     row_operation_type r = OperationNamespaceDisable \<and> row_phase r = ''validate_namespace_disable'' \<and> scoped_lease args r"

definition scopedOperationAcquireLeaseSQL :: "OperationType \<Rightarrow> string \<Rightarrow> acquire_cond" where
  "scopedOperationAcquireLeaseSQL operationType phase args rows r \<longleftrightarrow>
     row_operation_type r = operationType \<and> row_phase r = phase \<and> scoped_lease args r"

definition volumeEnsureOperationAcquireLeaseSQL :: acquire_cond where
  "volumeEnsureOperationAcquireLeaseSQL args rows r \<longleftrightarrow>
     row_operation_type r = OperationVolumeEnsure \<and> row_phase r = ''validate_volume_ensure'' \<and> row_namespace_id r = [] \<and>
     scoped_lease args r"

definition namespaceVolumeBindingPutOperationAcquireLeaseSQL :: acquire_cond where
  "namespaceVolumeBindingPutOperationAcquireLeaseSQL args rows r \<longleftrightarrow>
     row_operation_type r = OperationNamespaceVolumeBindingPut \<and>
     row_phase r = ''validate_namespace_volume_binding_put'' \<and> scoped_lease args r"

definition repoCreateOperationAcquireLeaseSQL :: acquire_cond where
  "repoCreateOperationAcquireLeaseSQL args rows r \<longleftrightarrow>
     row_operation_type r = OperationRepoCreate \<and> row_phase r = ''validate_repo_create'' \<and> scoped_lease args r"

definition repoLifecycleOperationAcquireLeaseSQL :: acquire_cond where
  "repoLifecycleOperationAcquireLeaseSQL args rows r \<longleftrightarrow>
     row_operation_type r \<in> set lifecycle_types \<and> row_phase r = ''validate_repo_lifecycle'' \<and> scoped_lease args r \<and>
     (la_cancelPolicy args = LeaseCancelPolicyFinalize \<or> \<not> earlier_open jvs_types rows r)"

definition repoPurgeOperationAcquireLeaseSQL :: acquire_cond where
  "repoPurgeOperationAcquireLeaseSQL args rows r \<longleftrightarrow>
     row_operation_type r = OperationRepoPurge \<and> row_phase r = ''validate_repo_lifecycle'' \<and>
     la_cancelPolicy args = LeaseCancelPolicyNone \<and>
     ((row_operation_state r = OperationStateQueued \<and> noLeasePair r) \<or>
      (row_operation_state r = OperationStateRunning \<and> completeLeasePair r \<and> expired (la_now args) r)) \<and>
     \<not> earlier_open jvs_types rows r"

definition no_earlier_repo_work :: acquire_cond where
  "no_earlier_repo_work args rows r \<longleftrightarrow>
     la_cancelPolicy args = LeaseCancelPolicyFinalize \<or>
     (\<not> earlier_open jvs_types rows r \<and> \<not> earlier_open lifecycle_and_purge_types rows r)"

definition savePointCreateOperationAcquireLeaseSQL :: acquire_cond where
  "savePointCreateOperationAcquireLeaseSQL args rows r \<longleftrightarrow>
     row_operation_type r = OperationSavePointCreate \<and>
     row_phase r \<in> {''validate_save_point_create'', ''save_point_create_prepared''} \<and> scoped_lease args r \<and>
     no_earlier_repo_work args rows r"

text \<open>\<open>(input_summary->>'save_point_id') IS NOT NULL AND btrim(...) <> ''\<close>.\<close>

definition has_save_point_id :: "json \<Rightarrow> bool" where
  "has_save_point_id j =
     (case j of
        JObject m \<Rightarrow>
          (case map_of m ''save_point_id'' of
             None \<Rightarrow> False | Some JNull \<Rightarrow> False | Some (JString s) \<Rightarrow> btrim s \<noteq> [] | Some _ \<Rightarrow> True)
      | _ \<Rightarrow> False)"

text \<open>A restore or a template creation that has fenced its writers is not queued and is not cancelled.\<close>

definition fencing_lease :: "string \<Rightarrow> operationLeaseArgs \<Rightarrow> operation_row \<Rightarrow> bool" where
  "fencing_lease validate args r \<longleftrightarrow>
     scoped_lease args r \<and> (row_operation_state r \<noteq> OperationStateRunning \<longrightarrow> row_phase r = validate) \<and>
     (la_cancelPolicy args = LeaseCancelPolicyFinalize \<longrightarrow> row_phase r = validate)"

definition restoreOperationAcquireLeaseSQL :: acquire_cond where
  "restoreOperationAcquireLeaseSQL args rows r \<longleftrightarrow>
     row_operation_type r = OperationRestore \<and> row_phase r \<in> {''validate_restore'', ''restore_writer_fenced''} \<and>
     has_save_point_id (row_input_summary r) \<and> fencing_lease ''validate_restore'' args r \<and> no_earlier_repo_work args rows r"

definition templateCreateOperationAcquireLeaseSQL :: acquire_cond where
  "templateCreateOperationAcquireLeaseSQL args rows r \<longleftrightarrow>
     row_operation_type r = OperationTemplateCreate \<and>
     row_phase r \<in> {''validate_template_create'', ''template_create_writer_fenced''} \<and>
     fencing_lease ''validate_template_create'' args r \<and> no_earlier_repo_work args rows r"

definition workloadMountBindingOperationAcquireLeaseSQL :: acquire_cond where
  "workloadMountBindingOperationAcquireLeaseSQL args rows r \<longleftrightarrow>
     row_operation_type r \<in> set mount_types \<and> row_phase r \<in> set mount_phases \<and> scoped_lease args r"

text \<open>One acquisition: the statement, then the scan of the returned row. No row is \<open>ErrLeaseUnavailable\<close>.\<close>

definition run_acquire ::
    "string \<Rightarrow> (operation_row \<Rightarrow> bool) \<Rightarrow> operationLeaseArgs \<Rightarrow> op_db \<Rightarrow> op_db \<times> (op_store_error + OperationRecord)" where
  "run_acquire action cond args db =
     (case update_returning (la_operationID args) cond (acquire_assign args) (db_operations db) of
        Inl (NoRows _) \<Rightarrow> (db, Inl (LeaseUnavailable action (la_operationID args)))
      | Inl err \<Rightarrow> (db, Inl err)
      | Inr (rows, row) \<Rightarrow> (db\<lparr>db_operations := rows\<rparr>, scanOperation row))"

definition AcquireOperationLease ::
    "string \<Rightarrow> LeaseRequest \<Rightarrow> op_db \<Rightarrow> op_db \<times> (op_store_error + OperationRecord)" where
  "AcquireOperationLease operationID request db =
     (case operationLeaseRequestArgs operationID request of
        Inl err \<Rightarrow> (db, Inl err)
      | Inr args \<Rightarrow> run_acquire ''acquire'' (operationAcquireLeaseSQL args) args db)"

definition acquire_scoped ::
    "string \<Rightarrow> acquire_cond \<Rightarrow> string \<Rightarrow> LeaseRequest \<Rightarrow> op_db \<Rightarrow> op_db \<times> (op_store_error + OperationRecord)" where
  "acquire_scoped name cond operationID request db =
     (case operationLeaseRequestArgs operationID request of
        Inl err \<Rightarrow> (db, Inl err)
      | Inr args \<Rightarrow>
        if la_recoveryMode args \<noteq> LeaseRecoveryNone
          then (db, Inl (LeaseRequestError ''recovery_mode'' (name @ '' recovery does not perform explicit recovery actions'')))
        else run_acquire (''acquire '' @ name) (cond args (db_operations db)) args db)"

definition AcquireNamespaceUpsertOperationLease ::
    "string \<Rightarrow> LeaseRequest \<Rightarrow> op_db \<Rightarrow> op_db \<times> (op_store_error + OperationRecord)" where
  "AcquireNamespaceUpsertOperationLease =
     acquire_scoped ''namespace upsert'' namespaceUpsertOperationAcquireLeaseSQL"

definition AcquireNamespaceDisableOperationLease ::
    "string \<Rightarrow> LeaseRequest \<Rightarrow> op_db \<Rightarrow> op_db \<times> (op_store_error + OperationRecord)" where
  "AcquireNamespaceDisableOperationLease =
     acquire_scoped ''namespace disable'' namespaceDisableOperationAcquireLeaseSQL"

definition AcquireVolumeEnsureOperationLease ::
    "string \<Rightarrow> LeaseRequest \<Rightarrow> op_db \<Rightarrow> op_db \<times> (op_store_error + OperationRecord)" where
  "AcquireVolumeEnsureOperationLease =
     acquire_scoped ''volume ensure'' volumeEnsureOperationAcquireLeaseSQL"

definition AcquireNamespaceVolumeBindingPutOperationLease ::
    "string \<Rightarrow> LeaseRequest \<Rightarrow> op_db \<Rightarrow> op_db \<times> (op_store_error + OperationRecord)" where
  "AcquireNamespaceVolumeBindingPutOperationLease =
     acquire_scoped ''namespace volume binding put'' namespaceVolumeBindingPutOperationAcquireLeaseSQL"

definition AcquireRepoCreateOperationLease ::
    "string \<Rightarrow> LeaseRequest \<Rightarrow> op_db \<Rightarrow> op_db \<times> (op_store_error + OperationRecord)" where
  "AcquireRepoCreateOperationLease =
     acquire_scoped ''repo create'' repoCreateOperationAcquireLeaseSQL"

definition AcquireRepoPurgeOperationLease ::
    "string \<Rightarrow> LeaseRequest \<Rightarrow> op_db \<Rightarrow> op_db \<times> (op_store_error + OperationRecord)" where
  "AcquireRepoPurgeOperationLease operationID request db =
     (case acquire_scoped ''repo purge'' repoPurgeOperationAcquireLeaseSQL operationID request db of
        (db', Inl (LeaseUnavailable _ _)) \<Rightarrow> (db', Inl (LeaseUnavailable ''repo purge acquire lease'' operationID))
      | res \<Rightarrow> res)"

definition AcquireSavePointCreateOperationLease ::
    "string \<Rightarrow> LeaseRequest \<Rightarrow> op_db \<Rightarrow> op_db \<times> (op_store_error + OperationRecord)" where
  "AcquireSavePointCreateOperationLease =
     acquire_scoped ''save point create'' savePointCreateOperationAcquireLeaseSQL"

definition AcquireRestoreOperationLease ::
    "string \<Rightarrow> LeaseRequest \<Rightarrow> op_db \<Rightarrow> op_db \<times> (op_store_error + OperationRecord)" where
  "AcquireRestoreOperationLease =
     acquire_scoped ''restore'' restoreOperationAcquireLeaseSQL"

definition AcquireTemplateCreateOperationLease ::
    "string \<Rightarrow> LeaseRequest \<Rightarrow> op_db \<Rightarrow> op_db \<times> (op_store_error + OperationRecord)" where
  "AcquireTemplateCreateOperationLease =
     acquire_scoped ''template create'' templateCreateOperationAcquireLeaseSQL"

definition AcquireTemplateCloneOperationLease ::
    "string \<Rightarrow> LeaseRequest \<Rightarrow> op_db \<Rightarrow> op_db \<times> (op_store_error + OperationRecord)" where
  "AcquireTemplateCloneOperationLease =
     acquire_scoped ''template clone'' (scopedOperationAcquireLeaseSQL OperationTemplateClone ''validate_template_clone'')"

definition AcquireWorkloadMountBindingOperationLease ::
    "string \<Rightarrow> LeaseRequest \<Rightarrow> op_db \<Rightarrow> op_db \<times> (op_store_error + OperationRecord)" where
  "AcquireWorkloadMountBindingOperationLease =
     acquire_scoped ''workload mount binding'' workloadMountBindingOperationAcquireLeaseSQL"

text \<open>Finalising the cancellation of a lifecycle operation also releases the lifecycle fence it holds.\<close>

definition held_fence :: "operationLeaseArgs \<Rightarrow> operation_row \<Rightarrow> Fence \<Rightarrow> bool" where
  "held_fence args r f \<longleftrightarrow>
     la_cancelPolicy args = LeaseCancelPolicyFinalize \<and> row_operation_state r = OperationStateCancelRequested \<and>
     row_repo_id r = Some (fence_RepoID f) \<and> fence_Kind f = KindLifecycle \<and>
     fence_HolderOperationID f = la_operationID args \<and> fence_Status f = StatusActive \<and>
     fence_ReleasedAt f = None \<and> fence_RecoveredAt f = None"

definition release_held :: "operationLeaseArgs \<Rightarrow> operation_row \<Rightarrow> Fence list \<Rightarrow> Fence list" where
  "release_held args r fences =
     map (\<lambda>f. if held_fence args r f
               then f\<lparr>fence_Status := StatusReleased, fence_ReleasedAt := Some (la_now args), fence_UpdatedAt := la_now args\<rparr>
               else f) fences"

definition AcquireRepoLifecycleOperationLease ::
    "string \<Rightarrow> LeaseRequest \<Rightarrow> op_db \<Rightarrow> op_db \<times> (op_store_error + OperationRecord)" where
  "AcquireRepoLifecycleOperationLease operationID request db =
     (case operationLeaseRequestArgs operationID request of
        Inl err \<Rightarrow> (db, Inl err)
      | Inr args \<Rightarrow>
        if la_recoveryMode args \<noteq> LeaseRecoveryNone
          then (db, Inl (LeaseRequestError ''recovery_mode'' ''repo lifecycle recovery does not perform explicit recovery actions''))
        else case update_returning (la_operationID args)
                    (repoLifecycleOperationAcquireLeaseSQL args (db_operations db)) (acquire_assign args) (db_operations db) of
          Inl (NoRows _) \<Rightarrow> (db, Inl (LeaseUnavailable ''acquire repo lifecycle'' (la_operationID args)))
        | Inl err \<Rightarrow> (db, Inl err)
        | Inr (rows, row) \<Rightarrow>
            (db\<lparr>db_operations := rows,
                 db_fences := (case find_row (la_operationID args) db of
                                 None \<Rightarrow> db_fences db | Some r \<Rightarrow> release_held args r (db_fences db))\<rparr>,
             scanOperation row))"

section \<open>Renewal and lease-fenced updates\<close>

definition operationRenewLeaseSQL :: "operationLeaseArgs \<Rightarrow> operation_row \<Rightarrow> bool" where
  "operationRenewLeaseSQL args r \<longleftrightarrow>
     row_operation_state r = OperationStateRunning \<and> row_lease_owner r = Some (la_owner args) \<and>
     ptr_after (row_lease_expires_at r) (la_now args)"

definition renew_assign :: "operationLeaseArgs \<Rightarrow> operation_row \<Rightarrow> operation_row" where
  "renew_assign args r =
     r\<lparr>row_lease_expires_at := (case row_lease_expires_at r of
            None \<Rightarrow> Some (la_expiresAt args) | Some t \<Rightarrow> Some (max t (la_expiresAt args))),
        row_updated_at := la_now args\<rparr>"

definition RenewOperationLease ::
    "string \<Rightarrow> LeaseRequest \<Rightarrow> op_db \<Rightarrow> op_db \<times> (op_store_error + OperationRecord)" where
  "RenewOperationLease operationID request db =
     (case operationLeaseRequestArgs operationID request of
        Inl err \<Rightarrow> (db, Inl err)
      | Inr args \<Rightarrow>
        case update_returning (la_operationID args) (operationRenewLeaseSQL args) (renew_assign args) (db_operations db) of
          Inl (NoRows _) \<Rightarrow> (db, Inl (LeaseUnavailable ''renew'' (la_operationID args)))
        | Inl err \<Rightarrow> (db, Inl err)
        | Inr (rows, row) \<Rightarrow> (db\<lparr>db_operations := rows\<rparr>, scanOperation row))"

fun validOperationLeaseFencedUpdateState :: "OperationState \<Rightarrow> bool" where
  "validOperationLeaseFencedUpdateState OperationStateRunning = True"
| "validOperationLeaseFencedUpdateState OperationStateSucceeded = True"
| "validOperationLeaseFencedUpdateState OperationStateFailed = True"
| "validOperationLeaseFencedUpdateState OperationStateCancelled = True"
| "validOperationLeaseFencedUpdateState OperationStateOperatorInterventionRequired = True"
| "validOperationLeaseFencedUpdateState _ = False"

record fenced_args =
  fa_record :: OperationRecord
  fa_columns :: json_columns
  fa_operationID :: string
  fa_owner :: string
  fa_now :: go_time

definition operationLeaseFencedUpdateArgs :: "OperationRecord \<Rightarrow> string \<Rightarrow> go_time \<Rightarrow> op_store_error + fenced_args" where
  "operationLeaseFencedUpdateArgs opr owner now =
     (case checks
        [check (trim_space owner = []) (LeaseRequestError ''owner'' ''missing lease owner''),
         check (trim_space (op_ID opr) = []) (LeaseRequestError ''operation_id'' ''missing operation id''),
         check (is_zero now) (LeaseRequestError ''now'' ''lease fence time must be set''),
         check (\<not> validOperationLeaseFencedUpdateState (op_State opr))
           (LeaseRequestError ''operation_state'' ''state cannot be written through a lease-fenced worker update''),
         check (trim_space (op_LeaseOwner opr) \<noteq> [] \<and> trim_space (op_LeaseOwner opr) \<noteq> trim_space owner)
           (LeaseRequestError ''lease_owner'' ''record lease owner differs from fence owner'')] of
        Some err \<Rightarrow> Inl err
      | None \<Rightarrow>
      case marshal_columns opr of
        Inl err \<Rightarrow> Inl err
      | Inr cols \<Rightarrow> Inr \<lparr>fa_record = opr, fa_columns = cols, fa_operationID = trim_space (op_ID opr),
          fa_owner = trim_space owner, fa_now = now\<rparr>)"

definition fenced_cond :: "fenced_args \<Rightarrow> operation_row \<Rightarrow> bool" where
  "fenced_cond args r \<longleftrightarrow>
     row_operation_state r = OperationStateRunning \<and> row_lease_owner r = Some (fa_owner args) \<and>
     ptr_after (row_lease_expires_at r) (fa_now args)"

definition operationLeaseFencedUpdateBaseSQL :: "fenced_args \<Rightarrow> operation_row \<Rightarrow> operation_row" where
  "operationLeaseFencedUpdateBaseSQL args r =
     (let opr = fa_record args; cols = fa_columns args; running = (op_State opr = OperationStateRunning) in
      r\<lparr>row_operation_state := op_State opr, row_phase := op_Phase opr,
         row_lease_owner := (if running then row_lease_owner r else None),
         row_lease_expires_at := (if running then row_lease_expires_at r else None),
         row_external_resource_ids := col_external_resource_ids cols, row_input_summary := col_input_summary cols,
         row_jvs_json_output := col_jvs_json_output cols, row_verification_result := col_verification_result cols,
         row_compensation_status := nullableStringArg (op_CompensationStatus opr), row_error_json := col_error_json cols,
         row_started_at := (case row_started_at r of Some t \<Rightarrow> Some t | None \<Rightarrow> coalesce (op_StartedAt opr) (fa_now args)),
         row_finished_at := (if IsTerminal (op_State opr) then coalesce (op_FinishedAt opr) (fa_now args) else None),
         row_updated_at := fa_now args\<rparr>)"

definition UpdateOperationWithLease ::
    "SanitizedOperationRecord \<Rightarrow> string \<Rightarrow> go_time \<Rightarrow> op_db \<Rightarrow> op_db \<times> (op_store_error + OperationRecord)" where
  "UpdateOperationWithLease sanitized owner now db =
     (let opr = Record sanitized in
      case rejectGenericRepoCreateTerminalValidation opr of
        Some err \<Rightarrow> (db, Inl err)
      | None \<Rightarrow>
      case operationLeaseFencedUpdateArgs opr owner now of
        Inl err \<Rightarrow> (db, Inl err)
      | Inr args \<Rightarrow>
      case update_returning (fa_operationID args) (fenced_cond args) (operationLeaseFencedUpdateBaseSQL args) (db_operations db) of
        Inl (NoRows _) \<Rightarrow> (db, Inl (LeaseUnavailable ''update'' (op_ID opr)))
      | Inl err \<Rightarrow> (db, Inl err)
      | Inr (rows, row) \<Rightarrow> (db\<lparr>db_operations := rows\<rparr>, scanOperation row))"

text \<open>The commit of a worker: the fenced update and the audit row in one statement. \<open>marshal\<close> is
  \<open>json.Marshal\<close> of the event.\<close>

definition CommitOperationWithLease ::
    "(AuditEvent \<Rightarrow> string + string) \<Rightarrow> SanitizedOperationRecord \<Rightarrow> string \<Rightarrow> go_time \<Rightarrow> AuditEvent \<Rightarrow> op_db \<Rightarrow>
      op_db \<times> (op_store_error + OperationRecord)" where
  "CommitOperationWithLease marshal sanitized owner now event db =
     (let opr = Record sanitized; operationID = trim_space (op_ID opr) in
      case rejectGenericRepoCreateTerminalValidation opr of
        Some err \<Rightarrow> (db, Inl err)
      | None \<Rightarrow>
      if trim_space (ev_OperationID event) = []
        then (db, Inl (AuditError (outboxInvalidRequest ''operation_id'' ''missing audit operation id'')))
      else if ev_OperationID event \<noteq> operationID
        then (db, Inl (AuditError (outboxInvalidRequest ''operation_id'' ''audit operation id must match operation update'')))
      else
      case operationLeaseFencedUpdateArgs opr owner now of
        Inl err \<Rightarrow> (db, Inl err)
      | Inr args \<Rightarrow>
      case NewOutboxRecord marshal event now of
        Inl err \<Rightarrow> (db, Inl (AuditError err))
      | Inr outboxRecord \<Rightarrow>
      case update_returning (fa_operationID args) (fenced_cond args) (operationLeaseFencedUpdateBaseSQL args) (db_operations db) of
        Inl (NoRows _) \<Rightarrow> (db, Inl (LeaseUnavailable ''commit'' operationID))
      | Inl err \<Rightarrow> (db, Inl err)
      | Inr (rows, row) \<Rightarrow>
      case insert_row outboxRecord (db_outbox db) of
        Inl err \<Rightarrow> (db, Inl (AuditRowError err))
      | Inr outbox \<Rightarrow> (db\<lparr>db_operations := rows, db_outbox := outbox\<rparr>, scanOperation row))"

section \<open>Intake of operations\<close>

text \<open>\<open>INSERT ... ON CONFLICT (caller_service, namespace_id, operation_type, idempotency_key) DO UPDATE
  SET operation_id = operations.operation_id\<close>: the stored row with the key, or the new one.\<close>

definition insert_or_reuse ::
    "operation_row \<Rightarrow> operation_row list \<Rightarrow> op_store_error + operation_row list \<times> operation_row \<times> bool" where
  "insert_or_reuse r rows =
     (case row_error r of
        Some err \<Rightarrow> Inl err
      | None \<Rightarrow>
      case find (\<lambda>q. row_key q = row_key r) rows of
        Some q \<Rightarrow> Inr (rows, q, False)
      | None \<Rightarrow> (case insert_operation r rows of Inl err \<Rightarrow> Inl err | Inr rows' \<Rightarrow> Inr (rows', r, True)))"

definition mapOperationUniqueViolation :: "op_store_error \<Rightarrow> string \<Rightarrow> op_store_error" where
  "mapOperationUniqueViolation err repoID =
     (if err = DuplicateJVSMutation then OperationsError (ErrRepoJVSMutationInProgress repoID) else err)"

text \<open>What the intakes do with the returned row.\<close>

definition resolve_intake ::
    "QueuedOperationSpec \<Rightarrow> operation_row \<Rightarrow> bool \<Rightarrow> op_store_error + IdempotencyResolution" where
  "resolve_intake spec row inserted =
     (case scanOperation row of
        Inl err \<Rightarrow> Inl err
      | Inr got \<Rightarrow>
        if \<not> inserted \<and> op_RequestHash got \<noteq> spec_RequestHash spec
          then Inl (OperationsError (ErrIdempotencyConflict (Scope_String (spec_Scope spec))))
        else Inr \<lparr>res_Operation = Some (Sanitized got), res_Existing = \<not> inserted, res_Reused = \<not> inserted\<rparr>)"

definition intake ::
    "(OperationRecord \<Rightarrow> op_store_error option) \<Rightarrow>
      (operation_row \<Rightarrow> op_db \<Rightarrow> op_store_error + operation_row list \<times> operation_row \<times> bool) \<Rightarrow>
      QueuedOperationSpec \<Rightarrow> op_db \<Rightarrow> op_db \<times> (op_store_error + IdempotencyResolution)" where
  "intake validate sql spec db =
     (case NewQueuedOperationRecord spec of
        Inl err \<Rightarrow> (db, Inl (OperationsError err))
      | Inr queued \<Rightarrow>
      case validate queued of
        Some err \<Rightarrow> (db, Inl err)
      | None \<Rightarrow>
      let opr = Record (SanitizedForPersistence queued) in
      case operationInsertArgs opr of
        Inl err \<Rightarrow> (db, Inl err)
      | Inr row \<Rightarrow>
      case sql row db of
        Inl err \<Rightarrow> (db, Inl (mapOperationUniqueViolation err (op_RepoID opr)))
      | Inr (rows, got, inserted) \<Rightarrow> (db\<lparr>db_operations := rows\<rparr>, resolve_intake spec got inserted))"

definition CreateOrReuseOperation ::
    "QueuedOperationSpec \<Rightarrow> op_db \<Rightarrow> op_db \<times> (op_store_error + IdempotencyResolution)" where
  "CreateOrReuseOperation = intake (\<lambda>_. None) (\<lambda>row db. insert_or_reuse row (db_operations db))"

definition validateRepoCreateOperationSpec :: "OperationRecord \<Rightarrow> op_store_error option" where
  "validateRepoCreateOperationSpec opr =
     checks
      [check (op_Type opr \<noteq> OperationRepoCreate) (LeaseRequestError ''operation_type'' ''operation record must be repo_create''),
       check (op_State opr \<noteq> OperationStateQueued) (LeaseRequestError ''operation_state'' ''repo_create intake requires queued operation''),
       check (op_Phase opr \<noteq> ''validate_repo_create'') (LeaseRequestError ''phase'' ''repo_create intake requires validate phase''),
       check (trim_space (op_NamespaceID opr) = [] \<or> trim_space (op_RepoID opr) = [])
         (LeaseRequestError ''resource'' ''repo_create intake requires namespace and repo ids''),
       check (resource_Type (op_Resource opr) \<noteq> ''repo'' \<or> resource_ID (op_Resource opr) \<noteq> op_RepoID opr)
         (LeaseRequestError ''resource'' ''repo_create resource must match target repo'')]"

definition summary_text :: "go_object option \<Rightarrow> string \<Rightarrow> string" where
  "summary_text m key =
     (case m of
        None \<Rightarrow> []
      | Some kvs \<Rightarrow> (case map_of kvs key of None \<Rightarrow> [] | Some v \<Rightarrow> (case as_text v of None \<Rightarrow> [] | Some s \<Rightarrow> s)))"

definition validateRestoreOperationSpec :: "OperationRecord \<Rightarrow> op_store_error option" where
  "validateRestoreOperationSpec opr =
     checks
      [check (op_Type opr \<noteq> OperationRestore) (LeaseRequestError ''operation_type'' ''operation record must be restore''),
       check (op_State opr \<noteq> OperationStateQueued) (LeaseRequestError ''operation_state'' ''restore intake requires queued operation''),
       check (op_Phase opr \<noteq> ''validate_restore'') (LeaseRequestError ''phase'' ''restore intake requires validate phase''),
       check (trim_space (op_NamespaceID opr) = [] \<or> trim_space (op_RepoID opr) = [])
         (LeaseRequestError ''resource'' ''restore intake requires namespace and repo ids''),
       check (resource_Type (op_Resource opr) \<noteq> ''repo'' \<or> resource_ID (op_Resource opr) \<noteq> op_RepoID opr)
         (LeaseRequestError ''resource'' ''restore resource must match target repo''),
       check (\<not> ValidateSavePointID (trim_space (summary_text (op_InputSummary opr) ''save_point_id'')))
         (LeaseRequestError ''input_summary.save_point_id'' ''restore intake requires safe save point id'')]"

definition validateTemplateCreateOperationSpec :: "OperationRecord \<Rightarrow> op_store_error option" where
  "validateTemplateCreateOperationSpec opr =
     checks
      [check (op_Type opr \<noteq> OperationTemplateCreate) (LeaseRequestError ''operation_type'' ''operation record must be template_create''),
       check (op_State opr \<noteq> OperationStateQueued \<or> op_Phase opr \<noteq> ''validate_template_create'')
         (LeaseRequestError ''phase'' ''template_create intake requires queued validate phase''),
       check (trim_space (op_NamespaceID opr) = [] \<or> trim_space (op_RepoID opr) = [] \<or> trim_space (op_TemplateID opr) = [])
         (LeaseRequestError ''resource'' ''template_create intake requires namespace, source repo, and template ids''),
       check (resource_Type (op_Resource opr) \<noteq> ''repo_template'' \<or> resource_ID (op_Resource opr) \<noteq> op_TemplateID opr)
         (LeaseRequestError ''resource'' ''template_create resource must match target template''),
       check (ValidateID RepoID (op_RepoID opr) \<noteq> None)
         (LeaseRequestError ''repo_id'' ''template_create requires safe source repo id''),
       check (ValidateID TemplateID (op_TemplateID opr) \<noteq> None)
         (LeaseRequestError ''template_id'' ''template_create requires safe target template id'')]"

definition validateTemplateCloneOperationSpec :: "OperationRecord \<Rightarrow> op_store_error option" where
  "validateTemplateCloneOperationSpec opr =
     checks
      [check (op_Type opr \<noteq> OperationTemplateClone) (LeaseRequestError ''operation_type'' ''operation record must be template_clone''),
       check (op_State opr \<noteq> OperationStateQueued \<or> op_Phase opr \<noteq> ''validate_template_clone'')
         (LeaseRequestError ''phase'' ''template_clone intake requires queued validate phase''),
       check (trim_space (op_NamespaceID opr) = [] \<or> trim_space (op_RepoID opr) = [] \<or> trim_space (op_TemplateID opr) = [])
         (LeaseRequestError ''resource'' ''template_clone intake requires namespace, target repo, and template ids''),
       check (resource_Type (op_Resource opr) \<noteq> ''repo'' \<or> resource_ID (op_Resource opr) \<noteq> op_RepoID opr)
         (LeaseRequestError ''resource'' ''template_clone resource must match target repo''),
       check (ValidateID RepoID (op_RepoID opr) \<noteq> None)
         (LeaseRequestError ''repo_id'' ''template_clone requires safe target repo id''),
       check (ValidateID TemplateID (op_TemplateID opr) \<noteq> None)
         (LeaseRequestError ''template_id'' ''template_clone requires safe template id'')]"

text \<open>The intakes of resources that must not exist yet: a stored operation with the key first, then
  no row when the repo (or the repo with the identifier of the template) exists.\<close>

definition insert_unless_repo ::
    "(operation_row \<Rightarrow> string option) \<Rightarrow> operation_row \<Rightarrow> op_db \<Rightarrow>
      op_store_error + operation_row list \<times> operation_row \<times> bool" where
  "insert_unless_repo target row db =
     (case find (\<lambda>q. row_key q = row_key row) (db_operations db) of
        Some q \<Rightarrow> Inr (db_operations db, q, False)
      | None \<Rightarrow>
        (case target row of
           None \<Rightarrow> insert_or_reuse row (db_operations db)
         | Some t \<Rightarrow>
             if t \<in> set (db_repo_ids db) then Inl (OperationsError (ErrRepoAlreadyExists t))
             else insert_or_reuse row (db_operations db)))"

definition CreateOrReuseRepoCreateOperation ::
    "QueuedOperationSpec \<Rightarrow> op_db \<Rightarrow> op_db \<times> (op_store_error + IdempotencyResolution)" where
  "CreateOrReuseRepoCreateOperation = intake validateRepoCreateOperationSpec (insert_unless_repo row_repo_id)"

definition CreateOrReuseTemplateCreateOperation ::
    "QueuedOperationSpec \<Rightarrow> op_db \<Rightarrow> op_db \<times> (op_store_error + IdempotencyResolution)" where
  "CreateOrReuseTemplateCreateOperation = intake validateTemplateCreateOperationSpec (insert_unless_repo row_template_id)"

definition CreateOrReuseTemplateCloneOperation ::
    "QueuedOperationSpec \<Rightarrow> op_db \<Rightarrow> op_db \<times> (op_store_error + IdempotencyResolution)" where
  "CreateOrReuseTemplateCloneOperation = intake validateTemplateCloneOperationSpec (insert_unless_repo row_repo_id)"

text \<open>The restore intake answers with the gate \<open>same_repo_jvs_mutation\<close> when the repo has one.\<close>

definition restoreOperationCreateOrReuseSQL ::
    "operation_row \<Rightarrow> op_db \<Rightarrow> op_store_error + operation_row list \<times> operation_row \<times> bool" where
  "restoreOperationCreateOrReuseSQL row db =
     (case find (\<lambda>q. row_key q = row_key row) (db_operations db) of
        Some q \<Rightarrow> Inr (db_operations db, q, False)
      | None \<Rightarrow>
        (case row_repo_id row of
           None \<Rightarrow> insert_or_reuse row (db_operations db)
         | Some repo \<Rightarrow>
             if list_ex (jvs_mutation_of repo) (db_operations db)
             then Inl (OperationsError (ErrRepoJVSMutationInProgress repo))
             else insert_or_reuse row (db_operations db)))"

definition CreateOrReuseRestoreOperation ::
    "QueuedOperationSpec \<Rightarrow> op_db \<Rightarrow> op_db \<times> (op_store_error + IdempotencyResolution)" where
  "CreateOrReuseRestoreOperation = intake validateRestoreOperationSpec restoreOperationCreateOrReuseSQL"

section \<open>The store of the recovery worker (workerapp)\<close>

text \<open>The worker tries the acquisitions one after the other until one does not answer
  \<open>ErrLeaseUnavailable\<close>.\<close>

fun first_available ::
    "('d \<Rightarrow> 'd \<times> (op_store_error + 'a)) list \<Rightarrow> 'd \<Rightarrow> 'd \<times> (op_store_error + 'a)" where
  "first_available [] db = (db, Inl (LeaseUnavailable [] []))"
| "first_available (acquire # rest) db =
     (case acquire db of
        (db', Inl (LeaseUnavailable _ _)) \<Rightarrow> first_available rest db'
      | res \<Rightarrow> res)"

definition worker_AcquireOperationLease ::
    "string \<Rightarrow> LeaseRequest \<Rightarrow> op_db \<Rightarrow> op_db \<times> (op_store_error + OperationRecord)" where
  "worker_AcquireOperationLease operationID request =
     first_available
      [AcquireVolumeEnsureOperationLease operationID request,
       AcquireNamespaceUpsertOperationLease operationID request,
       AcquireNamespaceDisableOperationLease operationID request,
       AcquireNamespaceVolumeBindingPutOperationLease operationID request,
       AcquireWorkloadMountBindingOperationLease operationID request,
       AcquireRepoCreateOperationLease operationID request,
       AcquireRepoLifecycleOperationLease operationID request,
       AcquireRepoPurgeOperationLease operationID request,
       AcquireSavePointCreateOperationLease operationID request,
       AcquireTemplateCreateOperationLease operationID request,
       AcquireTemplateCloneOperationLease operationID request,
       AcquireRestoreOperationLease operationID request]"

fun concat_results :: "('e + 'a list) list \<Rightarrow> 'e + 'a list" where
  "concat_results [] = Inr []"
| "concat_results (res # rest) =
     (case res of
        Inl err \<Rightarrow> Inl err
      | Inr xs \<Rightarrow> (case concat_results rest of Inl err \<Rightarrow> Inl err | Inr ys \<Rightarrow> Inr (xs @ ys)))"

definition worker_ListOperationsForRecovery :: "go_time \<Rightarrow> int \<Rightarrow> op_db \<Rightarrow> op_store_error + OperationRecord list" where
  "worker_ListOperationsForRecovery now limit db =
     (case concat_results
        [ListVolumeEnsureOperationsForRecovery now limit db,
         ListNamespaceUpsertOperationsForRecovery now limit db,
         ListNamespaceDisableOperationsForRecovery now limit db,
         ListNamespaceVolumeBindingPutOperationsForRecovery now limit db,
         ListWorkloadMountBindingOperationsForRecovery now limit db,
         ListRepoCreateOperationsForRecovery now limit db,
         ListRepoLifecycleOperationsForRecovery now limit db,
         ListRepoPurgeOperationsForRecovery now limit db,
         ListSavePointCreateOperationsForRecovery now limit db,
         ListTemplateCreateOperationsForRecovery now limit db,
         ListTemplateCloneOperationsForRecovery now limit db,
         ListRestoreOperationsForRecovery now limit db] of
        Inl err \<Rightarrow> Inl err
      | Inr oprs \<Rightarrow> Inr (take (nat limit) (sort_key (\<lambda>r. (op_CreatedAt r, op_ID r)) oprs)))"

end
