(* ===== verification/Operation_Runs.thy ===== *)
theory Operation_Runs
  imports Operation_Table
begin

text \<open>
  Runs of the operations table: the intakes of the API, the acquisitions, renewals and
  commits of the workers, in any interleaving. Every step is one of four changes of the
  rows; from them follow the constraints, the order of operations on one repo, the
  idempotency of the intakes and the atomicity of commits.
\<close>

section \<open>Changes of the rows\<close>

inductive row_change :: "operation_row list \<Rightarrow> operation_row list \<Rightarrow> bool" where
  same: "row_change rows rows"
| lease: "r \<in> set rows \<Longrightarrow> operationAcquireLeaseSQL args r \<Longrightarrow> gate_ok args rows r \<Longrightarrow> la_owner args \<noteq> [] \<Longrightarrow>
    trim_space (la_owner args) = la_owner args \<Longrightarrow> row_error (acquire_assign args r) = None \<Longrightarrow>
    \<forall>q \<in> set rows. row_operation_id q \<noteq> row_operation_id r \<longrightarrow> \<not> jvs_clash (acquire_assign args r) q \<Longrightarrow>
    row_change rows (replace_row (acquire_assign args r) rows)"
| held: "r \<in> set rows \<Longrightarrow> row_operation_state r = OperationStateRunning \<Longrightarrow> same_identity r r' \<Longrightarrow> row_error r' = None \<Longrightarrow>
    row_lease_owner r' = row_lease_owner r \<or> row_lease_owner r' = None \<Longrightarrow>
    \<forall>q \<in> set rows. row_operation_id q \<noteq> row_operation_id r \<longrightarrow> \<not> jvs_clash r' q \<Longrightarrow>
    row_change rows (replace_row r' rows)"
| insert: "insert_operation r rows = Inr rows' \<Longrightarrow> row_operation_state r = OperationStateQueued \<Longrightarrow> row_lease_owner r = None \<Longrightarrow>
    row_change rows rows'"

lemma row_change_inv: "row_change rows rows' \<Longrightarrow> ops_inv rows \<Longrightarrow> ops_inv rows'"
proof (induction rule: row_change.induct)
  case (lease r rows args)
  then show ?case by (intro replace_row_inv) auto
next
  case (held r rows r')
  then show ?case by (intro replace_row_inv)
qed (auto intro: insert_operation_inv)

lemma row_change_owners:
  assumes "row_change rows rows'" "\<forall>r \<in> set rows. lease_row_ok r"
  shows "\<forall>r \<in> set rows'. lease_row_ok r"
  using assms
proof (induction rule: row_change.induct)
  case (lease r rows args)
  have "lease_row_ok (acquire_assign args r)" using lease(4,5) by (simp add: lease_row_ok_def acquire_assign_def)
  then show ?case using lease.prems replace_row_set by blast
next
  case (held r rows r')
  have "lease_row_ok r'" using held(1,5) held.prems by (auto simp: lease_row_ok_def)
  then show ?case using held.prems replace_row_set by blast
qed (auto simp: insert_operation_Inr lease_row_ok_def)

lemma replace_row_kept:
  assumes "ops_inv rows" "r \<in> set rows" "same_identity r r'" "q \<in> set rows"
  shows "\<exists>q' \<in> set (replace_row r' rows). same_identity q q'"
proof (cases "row_operation_id q = row_operation_id r")
  case True
  then have "q = r" using ops_inv_unique assms(1,2,4) by blast
  then show ?thesis using assms(3,4) True by (auto simp: replace_row_def same_identity_def intro!: bexI [of _ r'] image_eqI [of _ _ r])
next
  case False
  then show ?thesis using assms(3,4) by (auto simp: replace_row_def same_identity_def intro!: bexI [of _ q] image_eqI [of _ _ q])
qed

text \<open>No operation disappears or changes its identity.\<close>

lemma row_change_kept: "row_change rows rows' \<Longrightarrow> ops_inv rows \<Longrightarrow> q \<in> set rows \<Longrightarrow> \<exists>q' \<in> set rows'. same_identity q q'"
proof (induction rule: row_change.induct)
  case (lease r rows args)
  then show ?case using replace_row_kept [of rows r "acquire_assign args r" q] by simp
next
  case (held r rows r')
  then show ?case using replace_row_kept by blast
next
  case (insert r rows rows')
  then show ?case by (intro bexI [of _ q]) (auto simp: same_identity_def insert_operation_Inr)
qed (auto simp: same_identity_def)

lemma same_identity_trans: "same_identity a b \<Longrightarrow> same_identity b c \<Longrightarrow> same_identity a c"
  by (simp add: same_identity_def)

section \<open>One repo, one kind of work at a time\<close>

definition before :: "operation_row \<Rightarrow> operation_row \<Rightarrow> bool" where
  "before r q \<longleftrightarrow>
     row_created_at r < row_created_at q \<or> (row_created_at r = row_created_at q \<and> row_operation_id r < row_operation_id q)"

lemma before_asym: "before r q \<Longrightarrow> \<not> before q r"
  by (auto simp: before_def)

lemma before_total: "row_operation_id r \<noteq> row_operation_id q \<Longrightarrow> \<not> before q r \<Longrightarrow> before r q"
  by (auto simp: before_def)

definition excluded :: "operation_row \<Rightarrow> operation_row \<Rightarrow> bool" where
  "excluded r q \<longleftrightarrow>
     row_repo_id r \<noteq> None \<and> row_repo_id r = row_repo_id q \<and>
     ((row_operation_type r \<in> set content_types \<and> row_operation_type q \<in> set lifecycle_and_purge_types) \<or>
      (row_operation_type r \<in> set lifecycle_and_purge_types \<and> row_operation_type q \<in> set content_types))"

lemma excluded_sym: "excluded r q \<longleftrightarrow> excluded q r"
  by (auto simp: excluded_def)

lemma excluded_irrefl: "excluded r q \<Longrightarrow> same_identity r q \<Longrightarrow> False"
  by (auto simp: excluded_def type_lists dest: same_identity_type)

lemma excluded_identity: "same_identity r r' \<Longrightarrow> excluded r' q \<longleftrightarrow> excluded r q"
  using same_identity_type [of r r'] by (simp add: excluded_def same_identity_def)

lemma before_identity:
  "same_identity r r' \<Longrightarrow> before r' q \<longleftrightarrow> before r q" "same_identity r r' \<Longrightarrow> before q r' \<longleftrightarrow> before q r"
  by (simp_all add: before_def same_identity_def)

definition running :: "operation_row \<Rightarrow> bool" where
  "running r \<longleftrightarrow> row_operation_state r = OperationStateRunning"

text \<open>A running operation comes before every open operation that it excludes.\<close>

definition serial :: "operation_row list \<Rightarrow> bool" where
  "serial rows \<longleftrightarrow> (\<forall>r \<in> set rows. \<forall>q \<in> set rows. running r \<longrightarrow> open_row q \<longrightarrow> excluded r q \<longrightarrow> before r q)"

lemma gate_before:
  assumes "gate_ok args rows r" "\<not> finalizes args r" "q \<in> set rows" "row_operation_id q \<noteq> row_operation_id r"
    "open_row q" "excluded r q"
  shows "before r q"
proof (rule ccontr)
  assume "\<not> before r q"
  then have b: "before q r" using before_total [of q r] assms(4) by blast
  have c: "row_repo_id q \<noteq> None" "row_repo_id q = row_repo_id r" using assms(6) by (auto simp: excluded_def)
  have "earlier_open types rows r" if "row_operation_type q \<in> set types" for types
    using assms(3-5) b c that unfolding earlier_open_def list_ex_iff before_def by blast
  moreover have "row_operation_type q \<in> set jvs_types" if "row_operation_type q \<in> set content_types"
    using that by (auto simp: content_types_def jvs_types_def)
  ultimately show False using assms(1,2,6) by (auto simp: gate_ok_def excluded_def)
qed

lemma serial_replace:
  assumes "serial rows" "ops_inv rows" "r \<in> set rows" "same_identity r r'" "open_row r' \<Longrightarrow> open_row r"
    "\<And>q. running r' \<Longrightarrow> q \<in> set rows \<Longrightarrow> row_operation_id q \<noteq> row_operation_id r \<Longrightarrow> open_row q \<Longrightarrow> excluded r q \<Longrightarrow> before r q"
  shows "serial (replace_row r' rows)"
  unfolding serial_def
proof (intro ballI impI)
  fix a b
  assume ab: "a \<in> set (replace_row r' rows)" "b \<in> set (replace_row r' rows)" "running a" "open_row b" "excluded a b"
  have i: "row_operation_id r' = row_operation_id r" using assms(4) by (simp add: same_identity_def)
  consider "a = r'" "b = r'" | "a = r'" "b \<in> set rows" "row_operation_id b \<noteq> row_operation_id r"
    | "a \<in> set rows" "b = r'" | "a \<in> set rows" "b \<in> set rows"
    using replace_row_set [OF ab(1)] replace_row_set [OF ab(2)] i by auto
  then show "before a b"
  proof cases
    case 1
    then show ?thesis using ab(5) excluded_irrefl [of r' r'] by (simp add: same_identity_def)
  next
    case 2
    then show ?thesis using ab assms(6) excluded_identity [OF assms(4)] before_identity(1) [OF assms(4)] by blast
  next
    case 3
    then have "excluded a r" using ab(5) excluded_identity [OF assms(4), of a] excluded_sym by blast
    moreover have "open_row r" using 3 ab(4) assms(5) by simp
    ultimately have "before a r" using 3 ab(3) assms(1,3) unfolding serial_def by blast
    then show ?thesis using 3 before_identity(2) [OF assms(4)] by simp
  next
    case 4
    then show ?thesis using ab assms(1) unfolding serial_def by blast
  qed
qed

text \<open>New operations of a repo are created after the ones it has.\<close>

definition created_last :: "operation_row list \<Rightarrow> operation_row list \<Rightarrow> bool" where
  "created_last rows rows' \<longleftrightarrow>
     (\<forall>r \<in> set rows'. row_operation_id r \<notin> row_operation_id ` set rows \<longrightarrow>
        (\<forall>q \<in> set rows. row_repo_id q = row_repo_id r \<longrightarrow> before q r))"

lemma row_change_serial:
  assumes "row_change rows rows'" "ops_inv rows" "serial rows" "created_last rows rows'"
  shows "serial rows'"
  using assms
proof (induction rule: row_change.induct)
  case (lease r rows args)
  have o: "open_row r" using lease(2) by (auto simp: operationAcquireLeaseSQL_def open_row_def)
  have "before r q" if "running (acquire_assign args r)" "q \<in> set rows" "row_operation_id q \<noteq> row_operation_id r" "open_row q"
      "excluded r q" for q
  proof (rule gate_before [OF lease(3) _ that(2-5)])
    show "\<not> finalizes args r" using that(1) by (auto simp: running_def acquire_assign_def)
  qed
  then show ?case using lease o by (intro serial_replace) auto
next
  case (held r rows r')
  have "open_row r" using held(2) by (simp add: open_row_def)
  moreover have "before r q" if "q \<in> set rows" "open_row q" "excluded r q" for q
    using that held(1,2) held.prems unfolding serial_def running_def by blast
  ultimately show ?case using held by (intro serial_replace) auto
next
  case (insert r rows rows')
  have i: "rows' = rows @ [r]" "row_operation_id r \<notin> row_operation_id ` set rows"
    using insert(1) by (auto simp: insert_operation_Inr)
  have n: "\<not> running r" using insert(2) by (simp add: running_def)
  have last: "before q r" if "q \<in> set rows" "row_repo_id q = row_repo_id r" for q
    using insert.prems(3) i that by (auto simp: created_last_def)
  show ?case unfolding serial_def
  proof (intro ballI impI)
    fix a b
    assume ab: "a \<in> set rows'" "b \<in> set rows'" "running a" "open_row b" "excluded a b"
    then have "a \<in> set rows" using n i by auto
    then show "before a b"
    proof (cases "b = r")
      case True
      then show ?thesis using last [OF \<open>a \<in> set rows\<close>] ab(5) by (simp add: excluded_def)
    next
      case False
      then show ?thesis using ab i \<open>a \<in> set rows\<close> insert.prems(2) by (auto simp: serial_def)
    qed
  qed
qed

section \<open>Intakes\<close>

text \<open>What an intake promises its callers: it adds at most the row of its specification, in state
  queued, and only when no stored operation has its key; otherwise it answers with the
  stored one, or with an error.\<close>

definition intake_key :: "QueuedOperationSpec \<Rightarrow> constraint_key" where
  "intake_key spec = (spec_CallerService spec, spec_NamespaceID spec, scope_OperationType (spec_Scope spec),
     scope_IdempotencyKey (spec_Scope spec))"

definition queued_row :: "QueuedOperationSpec \<Rightarrow> operation_row \<Rightarrow> bool" where
  "queued_row spec row \<longleftrightarrow>
     row_operation_id row = spec_OperationID spec \<and> row_key row = intake_key spec \<and>
     row_request_hash row = spec_RequestHash spec \<and> row_operation_state row = OperationStateQueued \<and>
     row_lease_owner row = None \<and> row_repo_id row = nullableStringArg (spec_RepoID spec) \<and>
     row_created_at row = spec_CreatedAt spec"

locale operation_intake =
  fixes submit :: "QueuedOperationSpec \<Rightarrow> op_db \<Rightarrow> op_db \<times> (op_store_error + IdempotencyResolution)"
  assumes submit_law: "submit spec db = (db', res) \<Longrightarrow>
    (db' = db \<and> (\<exists>err. res = Inl err)) \<or>
    (\<exists>q. db' = db \<and> q \<in> set (db_operations db) \<and> row_key q = intake_key spec \<and> res = resolve_intake spec q False) \<or>
    (\<exists>row. queued_row spec row \<and> insert_operation row (db_operations db) = Inr (db_operations db') \<and>
       db' = db\<lparr>db_operations := db_operations db'\<rparr> \<and> res = resolve_intake spec row True)"
begin

lemma submit_change: "submit spec db = (db', res) \<Longrightarrow> row_change (db_operations db) (db_operations db')"
  using submit_law [of spec db db' res] by (auto simp: queued_row_def intro: row_change.intros)

text \<open>An accepted submission leaves the operation it answers with in the table.\<close>

lemma submit_stored:
  assumes "submit spec db = (db', Inr res)"
  obtains q opr where "q \<in> set (db_operations db')" "row_key q = intake_key spec" "row_request_hash q = spec_RequestHash spec"
    "res_Operation res = Some opr" "op_ID opr = row_operation_id q"
proof -
  have f: "op_RequestHash got = row_request_hash q \<and> op_ID got = row_operation_id q" if "scanOperation q = Inr got" for q got
    using scan_fields [OF that] by simp
  from submit_law [OF assms] consider
      (reuse) q where "db' = db" "q \<in> set (db_operations db)" "row_key q = intake_key spec" "Inr res = resolve_intake spec q False"
    | (new) row where "queued_row spec row" "insert_operation row (db_operations db) = Inr (db_operations db')"
        "Inr res = resolve_intake spec row True"
    by auto
  then show thesis
  proof cases
    case reuse
    then obtain got where g: "scanOperation q = Inr got" "op_RequestHash got = spec_RequestHash spec" "res_Operation res = Some (Sanitized got)"
      by (auto simp: resolve_intake_def split: sum.splits if_splits)
    then show thesis using reuse f [OF g(1)] that [of q "Sanitized got"] by simp
  next
    case new
    then obtain got where g: "scanOperation row = Inr got" "res_Operation res = Some (Sanitized got)"
      by (auto simp: resolve_intake_def split: sum.splits if_splits)
    have "row \<in> set (db_operations db')" using new(2) by (auto simp: insert_operation_Inr)
    then show thesis using new(1) g f [OF g(1)] that [of row "Sanitized got"] by (simp add: queued_row_def)
  qed
qed

text \<open>A submission whose key is stored adds nothing, and is accepted only with the same hash.\<close>

lemma submit_again:
  assumes "submit spec db = (db', res)" "ops_inv (db_operations db)" "q \<in> set (db_operations db)" "row_key q = intake_key spec"
  shows "db' = db \<and> (\<forall>r. res = Inr r \<longrightarrow> res_Existing r \<and> row_request_hash q = spec_RequestHash spec \<and>
    map_option op_ID (res_Operation r) = Some (row_operation_id q))"
proof -
  have inj: "inj_on row_key (set (db_operations db))" using assms(2) by (simp add: ops_inv_def distinct_map)
  have "p = q" if "p \<in> set (db_operations db)" "row_key p = intake_key spec" for p
    using inj_onD [OF inj, of p q] assms(3,4) that by simp
  moreover have "row_key q \<noteq> row_key row" if "insert_operation row (db_operations db) = Inr (db_operations db')" for row
    using that assms(3) by (auto simp: insert_operation_Inr)
  ultimately have l: "db' = db \<and> ((\<exists>err. res = Inl err) \<or> res = resolve_intake spec q False)"
    using submit_law [OF assms(1)] assms(4) unfolding queued_row_def by metis
  moreover have "res_Existing r \<and> row_request_hash q = spec_RequestHash spec \<and> map_option op_ID (res_Operation r) = Some (row_operation_id q)"
    if "resolve_intake spec q False = Inr r" for r
    using that scan_fields [of q] by (auto simp: resolve_intake_def split: sum.splits if_splits)
  ultimately show ?thesis by (metis sum.distinct(1))
qed

end

lemma NewQueued_row:
  assumes "NewQueuedOperationRecord spec = Inr queued" "operationInsertArgs (Record (SanitizedForPersistence queued)) = Inr row"
  shows "queued_row spec row"
proof -
  have q: "op_ID queued = spec_OperationID spec" "op_State queued = OperationStateQueued" "op_LeaseOwner queued = []"
    "op_LeaseExpiresAt queued = None" "op_RepoID queued = spec_RepoID spec" "op_CreatedAt queued = spec_CreatedAt spec"
    "op_RequestHash queued = spec_RequestHash spec" "op_CallerService queued = spec_CallerService spec"
    "op_NamespaceID queued = spec_NamespaceID spec" "op_Type queued = scope_OperationType (spec_Scope spec)"
    "op_IdempotencyKey queued = scope_IdempotencyKey (spec_Scope spec)"
    using assms(1) by (auto simp: NewQueuedOperationRecord_def split: option.splits)
  show ?thesis
    using assms(2) q
    by (auto simp: operationInsertArgs_def queued_row_def row_key_def intake_key_def Record_def SanitizedForPersistence_def
        leaseOwnerArg_def split: sum.splits)
qed

text \<open>What the statement of an intake may do.\<close>

definition intake_statement ::
    "(operation_row \<Rightarrow> op_db \<Rightarrow> op_store_error + operation_row list \<times> operation_row \<times> bool) \<Rightarrow> bool" where
  "intake_statement sql \<longleftrightarrow>
     (\<forall>row db rows got inserted. sql row db = Inr (rows, got, inserted) \<longrightarrow>
        (if inserted then got = row \<and> insert_operation row (db_operations db) = Inr rows
         else rows = db_operations db \<and> got \<in> set rows \<and> row_key got = row_key row))"

lemma insert_or_reuse_statement:
  "insert_or_reuse row rows = Inr (rows', got, inserted) \<Longrightarrow>
     (if inserted then got = row \<and> insert_operation row rows = Inr rows' else rows' = rows \<and> got \<in> set rows' \<and> row_key got = row_key row)"
  by (auto simp: insert_or_reuse_def find_Some_iff split: option.splits sum.splits)

lemma intake_statements:
  "intake_statement (\<lambda>row db. insert_or_reuse row (db_operations db))"
  "intake_statement (insert_unless_repo target)"
  "intake_statement restoreOperationCreateOrReuseSQL"
  unfolding intake_statement_def insert_unless_repo_def restoreOperationCreateOrReuseSQL_def
  using insert_or_reuse_statement
  by (auto simp: find_Some_iff split: option.splits if_splits)

lemma intake_law:
  assumes "intake_statement sql"
  shows "operation_intake (intake validate sql)"
proof
  fix spec db db' res
  assume a: "intake validate sql spec db = (db', res)"
  show "(db' = db \<and> (\<exists>err. res = Inl err)) \<or>
    (\<exists>q. db' = db \<and> q \<in> set (db_operations db) \<and> row_key q = intake_key spec \<and> res = resolve_intake spec q False) \<or>
    (\<exists>row. queued_row spec row \<and> insert_operation row (db_operations db) = Inr (db_operations db') \<and>
       db' = db\<lparr>db_operations := db_operations db'\<rparr> \<and> res = resolve_intake spec row True)"
  proof (cases "\<exists>queued row rows got inserted. NewQueuedOperationRecord spec = Inr queued \<and> validate queued = None \<and>
      operationInsertArgs (Record (SanitizedForPersistence queued)) = Inr row \<and> sql row db = Inr (rows, got, inserted)")
    case True
    then obtain queued row rows got inserted where q: "NewQueuedOperationRecord spec = Inr queued" "validate queued = None"
      "operationInsertArgs (Record (SanitizedForPersistence queued)) = Inr row" "sql row db = Inr (rows, got, inserted)" by blast
    have r: "queued_row spec row" using NewQueued_row q(1,3) by blast
    have d: "db' = db\<lparr>db_operations := rows\<rparr>" "res = resolve_intake spec got inserted"
      using a q by (auto simp: intake_def Let_def)
    have s: "if inserted then got = row \<and> insert_operation row (db_operations db) = Inr rows
        else rows = db_operations db \<and> got \<in> set rows \<and> row_key got = row_key row"
      using assms q(4) unfolding intake_statement_def by blast
    show ?thesis
    proof (cases inserted)
      case True
      then show ?thesis using r d s by (intro disjI2) (auto intro!: exI [of _ row])
    next
      case False
      then show ?thesis using r d s by (intro disjI2 disjI1) (auto simp: queued_row_def)
    qed
  next
    case False
    then show ?thesis using a by (auto simp: intake_def Let_def split: sum.splits option.splits prod.splits)
  qed
qed

interpretation generic_intake: operation_intake CreateOrReuseOperation
  unfolding CreateOrReuseOperation_def by (rule intake_law [OF intake_statements(1)])

interpretation repo_create_intake: operation_intake CreateOrReuseRepoCreateOperation
  unfolding CreateOrReuseRepoCreateOperation_def by (rule intake_law [OF intake_statements(2)])

interpretation template_create_intake: operation_intake CreateOrReuseTemplateCreateOperation
  unfolding CreateOrReuseTemplateCreateOperation_def by (rule intake_law [OF intake_statements(2)])

interpretation template_clone_intake: operation_intake CreateOrReuseTemplateCloneOperation
  unfolding CreateOrReuseTemplateCloneOperation_def by (rule intake_law [OF intake_statements(2)])

interpretation restore_intake: operation_intake CreateOrReuseRestoreOperation
  unfolding CreateOrReuseRestoreOperation_def by (rule intake_law [OF intake_statements(3)])

definition intakes :: "(QueuedOperationSpec \<Rightarrow> op_db \<Rightarrow> op_db \<times> (op_store_error + IdempotencyResolution)) list" where
  "intakes = [CreateOrReuseOperation, CreateOrReuseRepoCreateOperation, CreateOrReuseTemplateCreateOperation,
     CreateOrReuseTemplateCloneOperation, CreateOrReuseRestoreOperation]"

lemma intakes_law: "submit \<in> set intakes \<Longrightarrow> operation_intake submit"
  using generic_intake.operation_intake_axioms repo_create_intake.operation_intake_axioms
    template_create_intake.operation_intake_axioms template_clone_intake.operation_intake_axioms
    restore_intake.operation_intake_axioms
  by (auto simp: intakes_def)

section \<open>Workers\<close>

lemma acquired_change:
  assumes "acquired ident q db db' res"
  shows "row_change (db_operations db) (db_operations db')"
proof -
  obtain args r fences where a: "operationLeaseRequestArgs ident q = Inr args" "r \<in> set (db_operations db)"
    "operationAcquireLeaseSQL args r" "gate_ok args (db_operations db) r" "row_error (acquire_assign args r) = None"
    "\<forall>q' \<in> set (db_operations db). row_operation_id q' \<noteq> row_operation_id r \<longrightarrow> \<not> jvs_clash (acquire_assign args r) q'"
    "db' = db\<lparr>db_operations := replace_row (acquire_assign args r) (db_operations db), db_fences := fences\<rparr>"
    using assms unfolding acquired_def by blast
  have "la_owner args \<noteq> []" "trim_space (la_owner args) = la_owner args"
    using a(1) by (simp_all add: request_args lease_request_ok_def)
  then have "row_change (db_operations db) (replace_row (acquire_assign args r) (db_operations db))"
    using a by (intro row_change.lease) auto
  then show ?thesis using a(7) by simp
qed

lemma update_held:
  assumes "update_returning ident cond f rows = Inr (rows', row)" "\<And>r. same_identity r (f r)"
    "\<And>r. cond r \<Longrightarrow> row_operation_state r = OperationStateRunning"
    "\<And>r. row_lease_owner (f r) = row_lease_owner r \<or> row_lease_owner (f r) = None"
  shows "row_change rows rows'"
proof -
  obtain r where r: "r \<in> set rows" "row_operation_id r = ident" "cond r" "rows' = replace_row (f r) rows"
    "row_error (f r) = None" "\<forall>q \<in> set rows. row_operation_id q \<noteq> ident \<longrightarrow> \<not> jvs_clash (f r) q"
    using update_returning_Inr [OF assms(1,2)] by metis
  show ?thesis unfolding r(4)
    using r(1,2,5,6) assms(2) assms(3) [OF r(3)] assms(4) [of r] by (intro row_change.held) auto
qed

lemma renew_change: "RenewOperationLease ident q db = (db', res) \<Longrightarrow> row_change (db_operations db) (db_operations db')"
proof -
  assume a: "RenewOperationLease ident q db = (db', res)"
  show ?thesis
  proof (cases "db' = db")
    case False
    then obtain args rows row where u:
      "update_returning (la_operationID args) (operationRenewLeaseSQL args) (renew_assign args) (db_operations db) = Inr (rows, row)"
      "db' = db\<lparr>db_operations := rows\<rparr>"
      using a by (auto simp: RenewOperationLease_def split: sum.splits op_store_error.splits)
    have "row_change (db_operations db) rows"
      by (rule update_held [OF u(1)]) (auto simp: operationRenewLeaseSQL_def renew_assign_def same_identity_def row_key_def)
    then show ?thesis using u(2) by simp
  qed (simp add: row_change.same)
qed

lemma fenced_change:
  "update_returning ident (fenced_cond args) (operationLeaseFencedUpdateBaseSQL args) rows = Inr (rows', row) \<Longrightarrow>
     row_change rows rows'"
  by (erule update_held) (auto simp: fenced_cond_def operationLeaseFencedUpdateBaseSQL_def Let_def same_identity_def row_key_def)

lemma update_with_lease_change:
  "UpdateOperationWithLease s owner now db = (db', res) \<Longrightarrow> row_change (db_operations db) (db_operations db')"
proof -
  assume a: "UpdateOperationWithLease s owner now db = (db', res)"
  show ?thesis
  proof (cases "db' = db")
    case False
    then obtain args rows row where u:
      "update_returning (fa_operationID args) (fenced_cond args) (operationLeaseFencedUpdateBaseSQL args) (db_operations db) = Inr (rows, row)"
      "db' = db\<lparr>db_operations := rows\<rparr>"
      using a by (auto simp: UpdateOperationWithLease_def Let_def split: sum.splits op_store_error.splits option.splits)
    then show ?thesis using fenced_change [OF u(1)] by simp
  qed (simp add: row_change.same)
qed

lemma commit_effect:
  assumes "CommitOperationWithLease marshal s owner now event db = (db', res)"
  shows "(db' = db \<and> (\<exists>err. res = Inl err)) \<or>
    (\<exists>args rows row ob outbox. operationLeaseFencedUpdateArgs (Record s) owner now = Inr args \<and>
       update_returning (fa_operationID args) (fenced_cond args) (operationLeaseFencedUpdateBaseSQL args) (db_operations db) = Inr (rows, row) \<and>
       NewOutboxRecord marshal event now = Inr ob \<and> insert_row ob (db_outbox db) = Inr outbox \<and>
       ev_OperationID event = fa_operationID args \<and> db' = db\<lparr>db_operations := rows, db_outbox := outbox\<rparr> \<and> res = scanOperation row)"
  using assms
  by (auto simp: CommitOperationWithLease_def operationLeaseFencedUpdateArgs_def Let_def
      split: sum.splits op_store_error.splits option.splits if_splits)

lemma commit_change:
  "CommitOperationWithLease marshal s owner now event db = (db', res) \<Longrightarrow> row_change (db_operations db) (db_operations db')"
  using commit_effect [of marshal s owner now event db db' res] by (auto intro: row_change.same fenced_change)

section \<open>Runs\<close>

text \<open>The steps of the API servers and the workers on the database; the other tables may change at
  any time. \<open>marshal\<close> is \<open>json.Marshal\<close> of audit events.\<close>

inductive op_step :: "(AuditEvent \<Rightarrow> string + string) \<Rightarrow> op_db \<Rightarrow> op_db \<Rightarrow> bool" for marshal where
  submit: "submit \<in> set intakes \<Longrightarrow> submit spec db = (db', res) \<Longrightarrow> op_step marshal db db'"
| acquire: "worker_AcquireOperationLease ident q db = (db', res) \<Longrightarrow> op_step marshal db db'"
| renew: "RenewOperationLease ident q db = (db', res) \<Longrightarrow> op_step marshal db db'"
| update: "UpdateOperationWithLease s owner now db = (db', res) \<Longrightarrow> op_step marshal db db'"
| commit: "CommitOperationWithLease marshal s owner now event db = (db', res) \<Longrightarrow> op_step marshal db db'"
| other: "op_step marshal db (db\<lparr>db_outbox := outbox, db_fences := fences, db_repo_ids := repos\<rparr>)"

lemma op_step_change: "op_step marshal db db' \<Longrightarrow> row_change (db_operations db) (db_operations db')"
proof (induction rule: op_step.induct)
  case (submit submit spec db db' res)
  then show ?case using operation_intake.submit_change [OF intakes_law] by blast
next
  case (acquire ident q db db' res)
  then show ?case using worker_store.acquire_law [of ident q db db' res] acquired_change row_change.same by blast
qed (auto intro: renew_change update_with_lease_change commit_change row_change.same)

inductive op_steps :: "(AuditEvent \<Rightarrow> string + string) \<Rightarrow> op_db \<Rightarrow> op_db \<Rightarrow> bool" for marshal where
  steps_none: "op_steps marshal db db"
| steps_more: "op_steps marshal db db1 \<Longrightarrow> op_step marshal db1 db2 \<Longrightarrow> op_steps marshal db db2"

lemma op_steps_inv: "op_steps marshal db db' \<Longrightarrow> ops_inv (db_operations db) \<Longrightarrow> ops_inv (db_operations db')"
  by (induction rule: op_steps.induct) (auto intro: row_change_inv op_step_change)

lemma op_steps_owners:
  "op_steps marshal db db' \<Longrightarrow> \<forall>r \<in> set (db_operations db). lease_row_ok r \<Longrightarrow> \<forall>r \<in> set (db_operations db'). lease_row_ok r"
  by (induction rule: op_steps.induct) (auto dest: row_change_owners op_step_change)

lemma op_steps_kept:
  assumes "op_steps marshal db db'" "ops_inv (db_operations db)" "q \<in> set (db_operations db)"
  shows "\<exists>q' \<in> set (db_operations db'). same_identity q q'"
  using assms
proof (induction rule: op_steps.induct)
  case (steps_none db)
  then show ?case by (auto simp: same_identity_def)
next
  case (steps_more db db1 db2)
  then obtain q1 where q1: "q1 \<in> set (db_operations db1)" "same_identity q q1" by blast
  have "ops_inv (db_operations db1)" using op_steps_inv steps_more.hyps(1) steps_more.prems(1) by blast
  then obtain q2 where "q2 \<in> set (db_operations db2)" "same_identity q1 q2"
    using row_change_kept [OF op_step_change [OF steps_more.hyps(2)]] q1(1) by blast
  then show ?case using q1(2) same_identity_trans by blast
qed

text \<open>Runs from an empty table in which the operations of a repo are created one after the other.\<close>

inductive op_run :: "(AuditEvent \<Rightarrow> string + string) \<Rightarrow> op_db \<Rightarrow> bool" for marshal where
  run_start: "db_operations db = [] \<Longrightarrow> op_run marshal db"
| run_step: "op_run marshal db \<Longrightarrow> op_step marshal db db' \<Longrightarrow> created_last (db_operations db) (db_operations db') \<Longrightarrow> op_run marshal db'"

lemma op_run_inv:
  "op_run marshal db \<Longrightarrow> ops_inv (db_operations db) \<and> serial (db_operations db) \<and> (\<forall>r \<in> set (db_operations db). lease_row_ok r)"
proof (induction rule: op_run.induct)
  case (run_step db db')
  note c = op_step_change [OF run_step.hyps(2)]
  show ?case using run_step c row_change_inv [OF c] row_change_serial [OF c] row_change_owners [OF c] by blast
qed (simp add: serial_def)

section \<open>Properties\<close>



lemma fenced_transition: "validOperationLeaseFencedUpdateState st \<Longrightarrow> ValidateTransition OperationStateRunning st = None"
  by (cases st) (auto simp: ValidateTransition_def)

lemma fenced_args:
  "operationLeaseFencedUpdateArgs opr owner now = Inr args \<Longrightarrow>
     fa_record args = opr \<and> fa_owner args = trim_space owner \<and> fa_now args = now \<and> validOperationLeaseFencedUpdateState (op_State opr)"
  by (auto simp: operationLeaseFencedUpdateArgs_def check_def split: sum.splits if_splits)

lemma fenced_row:
  "let r' = operationLeaseFencedUpdateBaseSQL args r in
     row_operation_state r' = op_State (fa_record args) \<and> row_attempt r' = row_attempt r \<and> row_started_at r' \<noteq> None \<and>
     (row_operation_state r' = OperationStateRunning \<or> (row_lease_owner r' = None \<and> row_lease_expires_at r' = None)) \<and>
     (IsTerminal (row_operation_state r') \<longleftrightarrow> row_finished_at r' \<noteq> None)"
  by (auto simp: operationLeaseFencedUpdateBaseSQL_def Let_def coalesce_def split: option.splits)

lemma new_outbox_pending:
  "NewOutboxRecord marshal event now = Inr ob \<Longrightarrow> ob_Status ob = OutboxStatusPending \<and> ob_DeliveryAttempt ob = 0"
  by (auto simp: NewOutboxRecord_def Let_def split: sum.splits option.splits if_splits)

text \<open>C16. A commit is all or nothing: either it fails and changes nothing, or the operation of the
  audit event, which is running under an unexpired lease of the committing worker, makes a
  legal transition and exactly one pending audit row is added, with an identifier the
  outbox does not have. A committed operation that is not running any more has no lease, a
  terminal one its time of finishing; the attempt and the identity stay.\<close>

theorem commit_atomic:
  "case CommitOperationWithLease marshal s owner now event db of (db', res) \<Rightarrow>
    (db' = db \<and> (\<exists>err. res = Inl err)) \<or>
    (\<exists>r r' ob. r \<in> set (db_operations db) \<and> row_operation_id r = ev_OperationID event \<and>
       row_operation_state r = OperationStateRunning \<and> row_lease_owner r = Some (trim_space owner) \<and>
       ptr_after (row_lease_expires_at r) now \<and> same_identity r r' \<and>
       row_operation_state r' = op_State (Record s) \<and> ValidateTransition (row_operation_state r) (row_operation_state r') = None \<and>
       row_attempt r' = row_attempt r \<and> row_started_at r' \<noteq> None \<and>
       (row_operation_state r' = OperationStateRunning \<or> (row_lease_owner r' = None \<and> row_lease_expires_at r' = None)) \<and>
       (IsTerminal (row_operation_state r') \<longleftrightarrow> row_finished_at r' \<noteq> None) \<and>
       NewOutboxRecord marshal event now = Inr ob \<and> ob_Status ob = OutboxStatusPending \<and> ob_DeliveryAttempt ob = 0 \<and>
       ob_EventID ob \<notin> ob_EventID ` set (db_outbox db) \<and>
       db' = db\<lparr>db_operations := replace_row r' (db_operations db), db_outbox := db_outbox db @ [ob]\<rparr> \<and>
       res = scanOperation r')"
proof (cases "CommitOperationWithLease marshal s owner now event db")
  case (Pair db' res)
  from commit_effect [OF Pair] show ?thesis
  proof (elim disjE exE conjE)
    fix args rows row ob outbox
    assume a: "operationLeaseFencedUpdateArgs (Record s) owner now = Inr args"
      "update_returning (fa_operationID args) (fenced_cond args) (operationLeaseFencedUpdateBaseSQL args) (db_operations db) = Inr (rows, row)"
      "NewOutboxRecord marshal event now = Inr ob" "insert_row ob (db_outbox db) = Inr outbox"
      "ev_OperationID event = fa_operationID args" "db' = db\<lparr>db_operations := rows, db_outbox := outbox\<rparr>" "res = scanOperation row"
    obtain r where r: "r \<in> set (db_operations db)" "row_operation_id r = fa_operationID args" "fenced_cond args r"
      "row = operationLeaseFencedUpdateBaseSQL args r" "rows = replace_row (operationLeaseFencedUpdateBaseSQL args r) (db_operations db)"
      using update_returning_Inr [OF a(2) assign_identity(3)] by metis
    have o: "outbox = db_outbox db @ [ob]" "ob_EventID ob \<notin> ob_EventID ` set (db_outbox db)"
      using a(4) by (auto simp: insert_row_def list_ex_iff split: if_splits)
    note f = fenced_args [OF a(1)] fenced_row [of args r, unfolded Let_def]
    show ?thesis
      using a r o f fenced_transition new_outbox_pending [OF a(3)] unfolding Pair fenced_cond_def
      by (intro case_prodI disjI2 exI [of _ r] exI [of _ "operationLeaseFencedUpdateBaseSQL args r"] exI [of _ ob]) auto
  qed (simp add: Pair)
qed

section \<open>The recovery listing\<close>

definition needs_action :: "go_time \<Rightarrow> OperationRecord \<Rightarrow> bool" where
  "needs_action now opr \<longleftrightarrow>
     plan_Action (ClassifyOperationRecovery opr \<lparr>rc_Now = now, rc_ExplicitRecovery = False, rc_StaleDeliveringThreshold = 0\<rparr>) \<notin> {RecoveryActionWait, RecoveryActionNoop}"

lemma candidate_iff:
  assumes "scanOperation r = Inr opr" "row_error r = None" "lease_row_ok r" "now \<noteq> 0"
  shows "operationRecoveryCandidatesSQL now r \<longleftrightarrow> needs_action now opr"
proof -
  have c: "0 \<le> row_attempt r" "OperationState_Valid (row_operation_state r)" "row_lease_owner r = None \<longleftrightarrow> row_lease_expires_at r = None"
    using assms(2) by (auto simp: row_error_def operation_checks_def split: if_splits)
  note f = scan_fields [OF assms(1)] and p = lease_pairs [OF assms(2,3)]
  show ?thesis
    using c p assms(3,4)
    by (cases "row_operation_state r"; cases "row_lease_expires_at r"; cases "row_lease_owner r")
      (auto simp: operationRecoveryCandidatesSQL_def needs_action_def ClassifyOperationRecovery_def f not_live_def expired_def
        validateOperationLeasePair_def nullStringValue_def lease_row_ok_def is_zero_def recovery_plan_def manual_def Let_def)
qed

lemma scanOperations_Inr: "scanOperations rows = Inr oprs \<Longrightarrow> list_all2 (\<lambda>r opr. scanOperation r = Inr opr) rows oprs"
  by (induction rows arbitrary: oprs) (auto split: sum.splits)

lemma scanned_keys:
  "list_all2 (\<lambda>r opr. scanOperation r = Inr opr) rows oprs \<Longrightarrow>
     map (\<lambda>opr. (op_CreatedAt opr, op_ID opr)) oprs = map (\<lambda>r. (row_created_at r, row_operation_id r)) rows"
  by (induction rows oprs rule: list_all2_induct) (auto simp: scan_fields)

lemma sorted_take_drop:
  assumes "sorted (map f xs)" "x \<in> set (take n xs)" "y \<in> set (drop n xs)"
  shows "f x \<le> f y"
proof -
  have "sorted (map f (take n xs) @ map f (drop n xs))"
    using assms(1) by (simp flip: map_append)
  then show ?thesis using assms(2,3) by (auto simp: sorted_append)
qed

text \<open>C35. The recovery listing and the recovery planner agree: on a table that keeps its constraints
  the listing returns, oldest first, operations for which the planner has an action or
  asks for an operator, and leaves one out only when the limit is reached by older ones;
  operations with a live lease and terminal ones are never listed.\<close>

theorem recovery_listing_exact:
  assumes "ops_inv (db_operations db)" "\<forall>r \<in> set (db_operations db). lease_row_ok r"
    "ListOperationsForRecovery now limit db = Inr oprs"
  shows "list_all (needs_action now) oprs \<and> sorted (map (\<lambda>opr. (op_CreatedAt opr, op_ID opr)) oprs) \<and>
    length oprs \<le> nat limit \<and>
    (\<forall>r \<in> set (db_operations db). \<forall>opr. scanOperation r = Inr opr \<longrightarrow> needs_action now opr \<longrightarrow>
       opr \<in> set oprs \<or> (length oprs = nat limit \<and>
         list_all (\<lambda>listed. (op_CreatedAt listed, op_ID listed) \<le> (op_CreatedAt opr, op_ID opr)) oprs))"
proof -
  let ?key = "\<lambda>r. (row_created_at r, row_operation_id r)"
  define srt where "srt = sort_key ?key (filter (operationRecoveryCandidatesSQL now) (db_operations db))"
  define top where "top = take (nat limit) srt"
  have n: "now \<noteq> 0" and l: "list_all2 (\<lambda>r opr. scanOperation r = Inr opr) top oprs"
    using assms(3) by (auto simp: ListOperationsForRecovery_def list_for_recovery_def is_zero_def
        top_def srt_def split: if_splits dest!: scanOperations_Inr)
  have srt_set: "set srt = {r \<in> set (db_operations db). operationRecoveryCandidatesSQL now r}" by (auto simp: srt_def)
  have srt_sorted: "sorted (map ?key srt)" by (simp add: srt_def)
  have cand: "operationRecoveryCandidatesSQL now r \<longleftrightarrow> needs_action now opr"
    if "r \<in> set (db_operations db)" "scanOperation r = Inr opr" for r opr
    using candidate_iff [OF that(2)] that(1) assms(1,2) n by (simp add: ops_inv_def)
  have keys: "map (\<lambda>opr. (op_CreatedAt opr, op_ID opr)) oprs = map ?key top" using scanned_keys [OF l] .
  have "needs_action now opr" if "opr \<in> set oprs" for opr
  proof -
    obtain i where "i < length oprs" "oprs ! i = opr" using \<open>opr \<in> set oprs\<close> by (auto simp: in_set_conv_nth)
    then have "top ! i \<in> set top" "scanOperation (top ! i) = Inr opr" using l by (auto simp: list_all2_conv_all_nth)
    moreover have "r \<in> set srt" if "r \<in> set top" for r using that unfolding top_def by (rule in_set_takeD)
    ultimately show ?thesis using cand srt_set by blast
  qed
  moreover have "sorted (map (\<lambda>opr. (op_CreatedAt opr, op_ID opr)) oprs)"
    unfolding keys top_def take_map [symmetric] using srt_sorted by (rule sorted_wrt_take)
  moreover have len: "length oprs = length top" using l by (simp add: list_all2_lengthD)
  moreover have "opr \<in> set oprs \<or> (length oprs = nat limit \<and>
      list_all (\<lambda>listed. (op_CreatedAt listed, op_ID listed) \<le> (op_CreatedAt opr, op_ID opr)) oprs)"
    if r: "r \<in> set (db_operations db)" "scanOperation r = Inr opr" "needs_action now opr" for r opr
  proof -
    have "r \<in> set srt" using cand r srt_set by blast
    then consider "r \<in> set top" | "r \<in> set (drop (nat limit) srt)"
      unfolding top_def by (metis Un_iff append_take_drop_id set_append)
    then show ?thesis
    proof cases
      case 1
      then show ?thesis using l r(2) by (fastforce simp: list_all2_conv_all_nth in_set_conv_nth)
    next
      case 2
      then have "nat limit < length srt" by (metis drop_all empty_iff list.set(1) not_le)
      then have "length top = nat limit" by (simp add: top_def)
      moreover have "\<forall>k \<in> set (map ?key top). k \<le> ?key r"
        using sorted_take_drop [OF srt_sorted _ 2] unfolding top_def by auto
      ultimately show ?thesis using len r(2) unfolding keys [symmetric] by (auto simp: list_all_iff scan_fields)
    qed
  qed
  ultimately show ?thesis by (auto simp: list_all_iff top_def)
qed

section \<open>An example table\<close>

definition example_spec :: "OperationType \<Rightarrow> string \<Rightarrow> go_time \<Rightarrow> QueuedOperationSpec" where
  "example_spec ty ident created =
     \<lparr>spec_OperationID = ident,
      spec_Scope = \<lparr>scope_CallerService = ''svc'', scope_NamespaceID = ''ns_1'', scope_OperationType = ty, scope_IdempotencyKey = ident\<rparr>,
      spec_RequestHash = ''h1'', spec_Phase = ''validate'', spec_CorrelationID = ''c1'', spec_CallerService = ''svc'',
      spec_AuthorizedActor = \<lparr>actor_Type = ''user'', actor_ID = ''u1''\<rparr>,
      spec_Resource = \<lparr>resource_Type = ''repo'', resource_ID = ''repo_1''\<rparr>,
      spec_NamespaceID = ''ns_1'', spec_RepoID = ''repo_1'', spec_TemplateID = [], spec_ExportID = [], spec_MountBindingID = [],
      spec_SessionFenceID = [], spec_ExternalResourceIDs = None, spec_InputSummary = None, spec_CreatedAt = created\<rparr>"

definition example_op_row :: "OperationType \<Rightarrow> string \<Rightarrow> go_time \<Rightarrow> operation_row" where
  "example_op_row ty ident created =
     \<lparr>row_operation_id = ident, row_operation_type = ty, row_operation_state = OperationStateQueued,
      row_phase = ''validate'', row_attempt = 0, row_lease_owner = None, row_lease_expires_at = None,
      row_idempotency_scope = Scope_String (spec_Scope (example_spec ty ident created)), row_idempotency_key = ident,
      row_request_hash = ''h1'', row_correlation_id = ''c1'', row_caller_service = ''svc'',
      row_authorized_actor_type = ''user'', row_authorized_actor_id = ''u1'', row_resource_type = ''repo'',
      row_resource_id = ''repo_1'', row_namespace_id = ''ns_1'', row_repo_id = Some ''repo_1'', row_template_id = None,
      row_export_id = None, row_mount_binding_id = None, row_session_fence_id = None,
      row_external_resource_ids = JObject [], row_input_summary = JObject [], row_jvs_json_output = None,
      row_verification_result = None, row_compensation_status = None, row_error_json = Some JNull,
      row_created_at = created, row_started_at = None, row_finished_at = None, row_updated_at = created\<rparr>"

lemma Sanitized_plain:
  assumes "op_ExternalResourceIDs opr = Some []" "op_InputSummary opr = Some []" "op_JVSJSONOutput opr = AnyNil"
    "op_VerificationResult opr = AnyNil" "op_Error opr = None" "op_Type opr \<noteq> OperationSavePointCreate"
  shows "\<exists>report. Sanitized opr = opr\<lparr>op_Redaction := report\<rparr>"
proof -
  have r: "fst (RedactValue (AnyMap [])) = AnyMap []" "fst (RedactValue AnyNil) = AnyNil"
    by (simp_all add: RedactValue_def redact.simps)
  show ?thesis
    using assms r by (cases opr) (auto simp: Sanitized_def RedactExternalResourceIDs_def restoreSafeSavePointMessage_def object_value_def
        Let_def case_prod_unfold)
qed

lemma example_insert_args:
  assumes "ty \<noteq> OperationSavePointCreate" "NewQueuedOperationRecord (example_spec ty ident created) = Inr queued"
  shows "operationInsertArgs (Record (SanitizedForPersistence queued)) = Inr (example_op_row ty ident created)"
proof -
  have q: "queued = \<lparr>op_ID = ident, op_Type = ty, op_State = OperationStateQueued, op_Phase = ''validate'', op_Attempt = 0,
      op_LeaseOwner = [], op_LeaseExpiresAt = None, op_IdempotencyScope = Scope_String (spec_Scope (example_spec ty ident created)),
      op_IdempotencyKey = ident, op_RequestHash = ''h1'', op_CorrelationID = ''c1'', op_CallerService = ''svc'',
      op_AuthorizedActor = \<lparr>actor_Type = ''user'', actor_ID = ''u1''\<rparr>, op_Resource = \<lparr>resource_Type = ''repo'', resource_ID = ''repo_1''\<rparr>,
      op_NamespaceID = ''ns_1'', op_RepoID = ''repo_1'', op_TemplateID = [], op_ExportID = [], op_MountBindingID = [],
      op_SessionFenceID = [], op_ExternalResourceIDs = Some [], op_InputSummary = Some [], op_JVSJSONOutput = AnyNil,
      op_VerificationResult = AnyNil, op_CompensationStatus = [], op_Error = None, op_Redaction = no_report,
      op_CreatedAt = created, op_StartedAt = None, op_FinishedAt = None\<rparr>"
    using assms(2) by (auto simp: NewQueuedOperationRecord_def example_spec_def clone_map_def split: option.splits)
  have s: "\<exists>rep'. Sanitized (queued\<lparr>op_Redaction := rep\<rparr>) = queued\<lparr>op_Redaction := rep\<rparr>\<lparr>op_Redaction := rep'\<rparr>" for rep
    by (rule Sanitized_plain) (simp_all add: q assms(1))
  obtain rep where s1: "Sanitized queued = queued\<lparr>op_Redaction := rep\<rparr>" using s [of no_report] by (auto simp: q)
  obtain rep' where s2: "Sanitized (queued\<lparr>op_Redaction := rep\<rparr>) = queued\<lparr>op_Redaction := rep'\<rparr>" using s [of rep] by auto
  show ?thesis
    unfolding Record_def SanitizedForPersistence_def SanitizedOperationRecord.sel s1 s2
    by (simp add: q operationInsertArgs_def marshal_columns_def marshalObject_def marshalNullableJSON_def string_map_value_def
        map_value_def any_interface_def error_value_def json_marshal.simps [of "AnyStringMap []"] json_marshal.simps [of "AnyMap []"]
        json_marshal.simps [of AnyNil] json_object_def leaseOwnerArg_def leaseExpiresAtArg_def
        nullableStringArg_def example_op_row_def)
qed

lemma example_queued:
  assumes "OperationType_String ty \<noteq> []" "ident \<noteq> []" "created \<noteq> 0"
  shows "\<exists>queued. NewQueuedOperationRecord (example_spec ty ident created) = Inr queued \<and> op_RepoID queued = ''repo_1''"
  using assms by (simp add: NewQueuedOperationRecord_def spec_error_def example_spec_def is_zero_def check_def)

lemma example_op_row_ok:
  assumes "ty \<in> set OperationTypes" "ident \<noteq> []"
  shows "row_error (example_op_row ty ident created) = None"
  using assms by (simp add: row_error_def operation_checks_def storable_row_def example_op_row_def max_int32_def)

lemma example_submit:
  assumes "ty \<noteq> OperationSavePointCreate" "ty \<in> set OperationTypes" "OperationType_String ty \<noteq> []" "ident \<noteq> []" "created \<noteq> 0"
    "\<forall>q \<in> set (db_operations db). row_operation_id q \<noteq> ident \<and> row_idempotency_key q \<noteq> ident \<and> \<not> jvs_clash (example_op_row ty ident created) q"
  shows "CreateOrReuseOperation (example_spec ty ident created) db =
    (db\<lparr>db_operations := db_operations db @ [example_op_row ty ident created]\<rparr>,
     resolve_intake (example_spec ty ident created) (example_op_row ty ident created) True)"
proof -
  obtain queued where q: "NewQueuedOperationRecord (example_spec ty ident created) = Inr queued"
    using example_queued [OF assms(3-5)] by blast
  have i: "row_operation_id (example_op_row ty ident created) = ident" "row_idempotency_key (example_op_row ty ident created) = ident"
    by (simp_all add: example_op_row_def)
  have "insert_operation (example_op_row ty ident created) (db_operations db) = Inr (db_operations db @ [example_op_row ty ident created])"
    using assms(6) i by (auto simp: insert_operation_Inr example_op_row_ok [OF assms(2,4)] row_key_def)
  moreover have "find (\<lambda>q. row_key q = row_key (example_op_row ty ident created)) (db_operations db) = None"
    using assms(6) i by (auto simp: find_None_iff row_key_def)
  ultimately have "insert_or_reuse (example_op_row ty ident created) (db_operations db) =
      Inr (db_operations db @ [example_op_row ty ident created], example_op_row ty ident created, True)"
    by (simp add: insert_or_reuse_def example_op_row_ok [OF assms(2,4)])
  then show ?thesis
    using q example_insert_args [OF assms(1) q] by (simp add: CreateOrReuseOperation_def intake_def Let_def)
qed

lemma example_scan: "\<exists>opr. scanOperation (example_op_row ty ident created) = Inr opr"
  by (simp add: scanOperation_def example_op_row_def unmarshal_string_map_def unmarshal_map_def unmarshal_error_def)

definition example_db :: op_db where
  "example_db = \<lparr>db_operations = [], db_outbox = [], db_fences = [], db_repo_ids = []\<rparr>"

definition example_db1 :: op_db where
  "example_db1 = example_db\<lparr>db_operations := [example_op_row OperationRestore ''a'' 3]\<rparr>"

definition example_db2 :: op_db where
  "example_db2 = example_db\<lparr>db_operations := [example_op_row OperationRestore ''a'' 3, example_op_row OperationRepoArchive ''b'' 4]\<rparr>"

lemma example_types: "OperationRestore \<in> set OperationTypes" "OperationRepoArchive \<in> set OperationTypes"
  by (simp_all add: OperationTypes_def)

lemma example_submit1:
  "CreateOrReuseOperation (example_spec OperationRestore ''a'' 3) example_db =
     (example_db1, resolve_intake (example_spec OperationRestore ''a'' 3) (example_op_row OperationRestore ''a'' 3) True)"
  using example_submit [of OperationRestore "''a''" 3 example_db] example_types by (simp add: example_db_def example_db1_def)

lemma example_submit2:
  "CreateOrReuseOperation (example_spec OperationRepoArchive ''b'' 4) example_db1 =
     (example_db2, resolve_intake (example_spec OperationRepoArchive ''b'' 4) (example_op_row OperationRepoArchive ''b'' 4) True)"
  using example_submit [of OperationRepoArchive "''b''" 4 example_db1] example_types
  by (simp add: example_db_def example_db1_def example_db2_def jvs_clash_def active_jvs_def jvs_types_def)
    (simp add: example_op_row_def)

lemma example_run2: "op_run marshal example_db2"
proof -
  have g: "CreateOrReuseOperation \<in> set intakes" by (simp add: intakes_def)
  have "op_run marshal example_db" by (rule op_run.run_start) (simp add: example_db_def)
  then have "op_run marshal example_db1"
    by (rule op_run.run_step [OF _ op_step.submit [OF g example_submit1]]) (simp add: created_last_def example_db_def)
  then show ?thesis
    by (rule op_run.run_step [OF _ op_step.submit [OF g example_submit2]])
      (auto simp: created_last_def example_db1_def example_db2_def example_db_def before_def example_op_row_def)
qed



theorem recovery_listing_exact_witness:
  "\<exists>oprs. ListOperationsForRecovery 9 10 example_db1 = Inr oprs \<and> list_all (needs_action 9) oprs \<and> length oprs = 1"
proof -
  obtain opr where o: "scanOperation (example_op_row OperationRestore ''a'' 3) = Inr opr" using example_scan by blast
  have l: "ListOperationsForRecovery 9 10 example_db1 = Inr [opr]"
    using o by (simp add: ListOperationsForRecovery_def list_for_recovery_def example_db1_def is_zero_def
        operationRecoveryCandidatesSQL_def) (simp add: example_op_row_def)
  have "ops_inv (db_operations example_db1)"
    using row_change_inv [OF generic_intake.submit_change [OF example_submit1]] by (simp add: example_db_def)
  moreover have "\<forall>r \<in> set (db_operations example_db1). lease_row_ok r"
    by (simp add: example_db1_def lease_row_ok_def example_op_row_def)
  ultimately show ?thesis using recovery_listing_exact [of example_db1 9 10 "[opr]"] l by simp
qed

theorem lease_statements_match_witness:
  "\<exists>r' opr. AcquireOperationLease ''a'' (example_request ''w1'' 7) example_db1 =
     (example_db1\<lparr>db_operations := replace_row r' (db_operations example_db1)\<rparr>, Inr opr)"
proof -
  let ?r = "example_op_row OperationRestore ''a'' 3"
  obtain opr where o: "scanOperation ?r = Inr opr" using example_scan by blast
  have inv: "ops_inv (db_operations example_db1)"
    using row_change_inv [OF generic_intake.submit_change [OF example_submit1]] by (simp add: example_db_def)
  have ok: "lease_row_ok ?r" "row_attempt ?r < max_int32" "row_operation_id ?r = ''a''" "?r \<in> set (db_operations example_db1)"
    by (simp_all add: lease_row_ok_def example_op_row_def max_int32_def example_db1_def)
  have e: "row_error ?r = None" by (rule example_op_row_ok [OF example_types(1)]) simp
  have "dec_Allowed (AcquireLease opr (example_request ''w1'' 7))"
    unfolding AcquireLease_allowed_iff scan_record_inv [OF o e ok(1)]
    by (simp add: lease_available.simps scan_fields [OF o] lease_request_ok_def example_request_def) (simp add: example_op_row_def)
  moreover have "trim_space ''a'' = ''a''" by (simp add: trim_space_id is_space_byte_def byte_def)
  ultimately show ?thesis
    using lease_statements_match [OF inv ok(4,1) o ok(2), of "example_request ''w1'' 7"] ok(3) by auto
qed

end
