(* ===== verification/Recovery_Passes.thy ===== *)
theory Recovery_Passes
  imports Recovery_Coordinator Operation_Runs
begin

text \<open>
  The recovery coordinator on the operations table: the configuration that
  \<open>internal/workerapp/run_once.go\<close> builds, with \<open>operationRecoveryStore\<close> as reader, lease store
  and commit store. The executor and the generator of event ids stay parameters.
\<close>

section \<open>The configuration of the worker\<close>

text \<open>Of the errors of the store the coordinator only asks for \<open>ErrLeaseUnavailable\<close>.\<close>

fun table_error :: "op_store_error \<Rightarrow> rec_error" where
  "table_error (LeaseUnavailable what operationID) = ErrLeaseUnavailable operationID"
| "table_error _ = RecText ''operation store''"

definition table_result :: "'d \<times> (op_store_error + 'a) \<Rightarrow> 'd \<times> (rec_error + 'a)" where
  "table_result res = (fst res, case snd res of Inl err \<Rightarrow> Inl (table_error err) | Inr x \<Rightarrow> Inr x)"

definition worker_leases :: "op_db LeaseStore" where
  "worker_leases =
     \<lparr>ls_Acquire = (\<lambda>operationID request db. table_result (worker_AcquireOperationLease operationID request db)),
      ls_Renew = (\<lambda>operationID request db. table_result (RenewOperationLease operationID request db))\<rparr>"

definition worker_committer :: "(AuditEvent \<Rightarrow> string + string) \<Rightarrow> op_db committer" where
  "worker_committer marshal rec owner now event db = table_result (CommitOperationWithLease marshal rec owner now event db)"

text \<open>\<open>operationRecoveryStore\<close> has no \<open>GetOperation\<close>, so the coordinator has no reader for committed
  outcomes.\<close>

definition worker_config ::
    "(AuditEvent \<Rightarrow> string + string) \<Rightarrow> op_db OperationExecutor \<Rightarrow> (op_db \<Rightarrow> op_db \<times> string) \<Rightarrow> string \<Rightarrow> go_duration \<Rightarrow> go_int \<Rightarrow>
     (op_db \<Rightarrow> go_time) \<Rightarrow> op_db OperationConfig" where
  "worker_config marshal executor eventID owner duration limit clock =
     \<lparr>oc_Reader = Some (\<lambda>now limit db. table_result (db, worker_ListOperationsForRecovery now limit db)),
      oc_LeaseStore = Some worker_leases, oc_CommitStore = Some (worker_committer marshal), oc_Executor = Some executor,
      oc_GetOperation = None, oc_Owner = owner, oc_LeaseDuration = duration, oc_Limit = limit, oc_Now = 0,
      oc_Clock = Some clock, oc_AuditEventID = Some eventID\<rparr>"

definition worker_coordinator ::
    "(AuditEvent \<Rightarrow> string + string) \<Rightarrow> op_db OperationExecutor \<Rightarrow> (op_db \<Rightarrow> op_db \<times> string) \<Rightarrow> op_db OperationConfig \<Rightarrow> op_db coordinator" where
  "worker_coordinator marshal executor eventID config =
     \<lparr>co_config = config, co_leases = worker_leases, co_commit = worker_committer marshal, co_executor = executor,
      co_auditEventID = eventID\<rparr>"

section \<open>The table as a world of the coordinator\<close>

lemma worker_acquired_ident:
  assumes "ls_Acquire worker_leases ident q db = (db', Inr opr)"
  shows "op_ID opr = trim_space ident"
proof -
  obtain res where "worker_AcquireOperationLease ident q db = (db', res)" "res = Inr opr"
    using assms by (cases "worker_AcquireOperationLease ident q db") (auto simp: worker_leases_def table_result_def split: sum.splits)
  then have "acquired ident q db db' (Inr opr)" using worker_store.granted_acquired by blast
  then obtain args r where "operationLeaseRequestArgs ident q = Inr args" "row_operation_id r = la_operationID args"
      "scanOperation (acquire_assign args r) = Inr opr"
    unfolding acquired_def by metis
  then show ?thesis by (simp add: scan_fields request_args acquire_assign_def)
qed

interpretation table_pass: coordinator_world "worker_coordinator marshal executor eventID config" "\<lambda>_ _. True"
  for marshal executor eventID config
  by unfold_locales (auto simp: worker_coordinator_def dest: worker_acquired_ident)

lemma op_steps_trans: "op_steps marshal db1 db2 \<Longrightarrow> op_steps marshal db db1 \<Longrightarrow> op_steps marshal db db2"
  by (induction rule: op_steps.induct) (auto intro: op_steps.intros)

lemma op_steps_one: "op_step marshal db db' \<Longrightarrow> op_steps marshal db db'"
  by (auto intro: op_steps.intros)

lemma worker_steps:
  assumes "\<And>opr plan db db' err events. oe_Execute executor opr plan db = (db', err, events) \<Longrightarrow> op_steps marshal db db'"
    and "\<And>db db' text. eventID db = (db', text) \<Longrightarrow> op_steps marshal db db'"
  shows "coordinator_world (worker_coordinator marshal executor eventID config) (op_steps marshal)"
proof
  fix db1 db2 db3 assume "op_steps marshal db1 db2" "op_steps marshal db2 db3"
  then show "op_steps marshal db1 db3" using op_steps_trans by blast
next
  fix ident q db db' res assume "ls_Acquire (co_leases (worker_coordinator marshal executor eventID config)) ident q db = (db', res)"
  then obtain res' where "worker_AcquireOperationLease ident q db = (db', res')"
    by (cases "worker_AcquireOperationLease ident q db") (auto simp: worker_coordinator_def worker_leases_def table_result_def)
  then show "op_steps marshal db db'" by (blast intro: op_steps_one op_step.acquire)
next
  fix s owner now event db db' res
  assume "co_commit (worker_coordinator marshal executor eventID config) s owner now event db = (db', res)"
  then obtain res' where "CommitOperationWithLease marshal s owner now event db = (db', res')"
    by (cases "CommitOperationWithLease marshal s owner now event db")
      (auto simp: worker_coordinator_def worker_committer_def table_result_def)
  then show "op_steps marshal db db'" by (blast intro: op_steps_one op_step.commit)
qed (use assms worker_acquired_ident in \<open>auto simp: worker_coordinator_def intro: op_steps.intros\<close>)

section \<open>Properties\<close>

lemma worker_run:
  assumes "Coordinator_RunOnce (worker_config marshal executor eventID owner duration limit clock) db = (st, err)"
  obtains (stopped) e where "err = Some e" "ob_Results (ps_result st) = []" "counted (ps_result st) = 0" "ps_log st = []" "ps_world st = db"
  | (ran) config oprs where "worker_ListOperationsForRecovery (clock db) limit db = Inr oprs" "0 < limit"
      "recover_all (worker_coordinator marshal executor eventID config) (clock db) (take (nat limit) oprs)
        \<lparr>ps_world = db, ps_result = empty_result\<lparr>ob_Scanned := min (int (length oprs)) limit\<rparr>, ps_log = []\<rparr> = (st, err)"
proof (cases "validatedConfig (worker_config marshal executor eventID owner duration limit clock) db")
  case (Inl e)
  with assms stopped show ?thesis
    by (auto simp: Coordinator_RunOnce_def worker_config_def empty_result_def counted_def)
next
  case (Inr p)
  then obtain config' where p: "p = (config', clock db)" "oc_Limit config' = limit" "0 < limit"
    by (auto simp: validatedConfig_def worker_config_def operationDecisionNow_def Let_def check_def split: if_splits)
  show ?thesis
  proof (cases "worker_ListOperationsForRecovery (clock db) limit db")
    case (Inl e)
    with assms stopped Inr p show ?thesis
      by (auto simp: Coordinator_RunOnce_def worker_config_def empty_result_def counted_def table_result_def)
  next
    case listed: (Inr oprs)
    with assms Inr p have "recover_all (worker_coordinator marshal executor eventID config') (clock db) (take (nat limit) oprs)
        \<lparr>ps_world = db, ps_result = empty_result\<lparr>ob_Scanned := min (int (length oprs)) limit\<rparr>, ps_log = []\<rparr> = (st, err)"
      by (auto simp: Coordinator_RunOnce_def worker_config_def table_result_def worker_coordinator_def)
    with ran listed p(3) show ?thesis by blast
  qed
qed

text \<open>C8. A pass of the recovery coordinator over the operations table: every result item belongs to
  one listed operation, in the order of the listing, and each outcome stands for exactly
  the calls it names, so that nothing is executed and nothing is committed for an
  operation unless its lease was acquired just before. The counters add up to the number
  of items. Without an error all listed operations up to the limit have an item and none
  failed; an error of the pass comes with exactly one failed item, the last one, unless
  nothing was done. If the executor changes the table only by statements of the store,
  the pass is a run of such statements.\<close>

theorem recovery_pass_sound:
  assumes "Coordinator_RunOnce (worker_config marshal executor eventID owner duration limit clock) db = (st, err)"
  shows "(\<exists>blocks. ps_log st = concat blocks \<and>
      list_all2 (\<lambda>item. outcome_calls (or_Outcome item) (or_OperationID item)) (ob_Results (ps_result st)) blocks) \<and>
    counted (ps_result st) = int (length (ob_Results (ps_result st))) \<and>
    (err = None \<longrightarrow> (\<exists>oprs. worker_ListOperationsForRecovery (clock db) limit db = Inr oprs \<and>
       map or_OperationID (ob_Results (ps_result st)) = map op_ID (take (nat limit) oprs) \<and> ob_Failed (ps_result st) = 0 \<and>
       ob_Scanned (ps_result st) = int (length (ob_Results (ps_result st))))) \<and>
    (err \<noteq> None \<longrightarrow> ob_Results (ps_result st) = [] \<and> ps_log st = [] \<and> ps_world st = db \<or>
       or_Outcome (last (ob_Results (ps_result st))) = OperationOutcomeFailed \<and> ob_Failed (ps_result st) = 1) \<and>
    ((\<forall>opr plan db db' e events. oe_Execute executor opr plan db = (db', e, events) \<longrightarrow> op_steps marshal db db') \<and>
     (\<forall>db db' text. eventID db = (db', text) \<longrightarrow> op_steps marshal db db') \<longrightarrow> op_steps marshal db (ps_world st))"
  using assms
proof (cases rule: worker_run)
  case (stopped e)
  then show ?thesis by (auto intro: op_steps.intros exI [of _ "[]"])
next
  case (ran config oprs)
  note effect = table_pass.pass_effect [OF ran(3)]
  have steps: "op_steps marshal db (ps_world st)"
    if "\<forall>opr plan db db' e events. oe_Execute executor opr plan db = (db', e, events) \<longrightarrow> op_steps marshal db db'"
      "\<forall>db db' text. eventID db = (db', text) \<longrightarrow> op_steps marshal db db'"
    using coordinator_world.pass_effect [OF worker_steps ran(3)] that by blast
  have "ob_Scanned (ps_result st) = int (length (ob_Results (ps_result st)))" if "err = None"
    using effect that ran(2) by (elim exE conjE) (auto simp: min_def)
  moreover have "map or_OperationID (ob_Results (ps_result st)) = map op_ID (take (nat limit) oprs)" if "err = None"
    using effect that by (elim exE conjE) (auto simp: min_def)
  ultimately show ?thesis using effect steps ran(1)
    by (elim exE conjE) (cases err; auto)
qed

definition example_executor :: "op_db OperationExecutor" where
  "example_executor = \<lparr>oe_Supports = (\<lambda>_ _ _. \<lparr>support_Supported = True, support_Reason = []\<rparr>), oe_Execute = (\<lambda>_ _ db. (db, None, []))\<rparr>"

definition example_pass :: "op_db pass_state \<times> rec_error option" where
  "example_pass = Coordinator_RunOnce
     (worker_config (\<lambda>_. Inr ''{}'') example_executor (\<lambda>db. (db, ''e'')) ''w1'' 60 10 (\<lambda>_. 9)) example_db1"

theorem recovery_pass_sound_witness:
  "counted (ps_result (fst example_pass)) = int (length (ob_Results (ps_result (fst example_pass)))) \<and>
   op_steps (\<lambda>_. Inr ''{}'') example_db1 (ps_world (fst example_pass))"
proof -
  obtain st err where p: "example_pass = (st, err)" by (cases example_pass)
  from recovery_pass_sound [OF p [unfolded example_pass_def]] show ?thesis
    by (simp add: p example_executor_def op_steps.steps_none)
qed

end
