(* ===== verification/Digests.thy ===== *)
theory Digests
  imports Prelude "HOL-Library.Word"
begin

unbundle bit_operations_syntax

text \<open>
  The encodings and the digest that the control plane takes from the standard library of Go:
  \<open>crypto/sha256\<close> (FIPS 180-4), \<open>encoding/base64\<close> (\<open>RawURLEncoding\<close>) and \<open>encoding/hex\<close>, on
  byte strings. Decoding an encoded text gives the text back, and a digest has 32 bytes.
\<close>

section \<open>SHA-256\<close>

type_synonym sha_word = "32 word"

definition sha_k :: "sha_word list" where
  "sha_k =
    [1116352408, 1899447441, 3049323471, 3921009573, 961987163, 1508970993, 2453635748, 2870763221,
     3624381080, 310598401, 607225278, 1426881987, 1925078388, 2162078206, 2614888103, 3248222580,
     3835390401, 4022224774, 264347078, 604807628, 770255983, 1249150122, 1555081692, 1996064986,
     2554220882, 2821834349, 2952996808, 3210313671, 3336571891, 3584528711, 113926993, 338241895,
     666307205, 773529912, 1294757372, 1396182291, 1695183700, 1986661051, 2177026350, 2456956037,
     2730485921, 2820302411, 3259730800, 3345764771, 3516065817, 3600352804, 4094571909, 275423344,
     430227734, 506948616, 659060556, 883997877, 958139571, 1322822218, 1537002063, 1747873779,
     1955562222, 2024104815, 2227730452, 2361852424, 2428436474, 2756734187, 3204031479, 3329325298]"

datatype sha_state = Sha sha_word sha_word sha_word sha_word sha_word sha_word sha_word sha_word

definition sha_init :: sha_state where
  "sha_init = Sha 1779033703 3144134277 1013904242 2773480762 1359893119 2600822924 528734635 1541459225"

definition rotr :: "nat \<Rightarrow> sha_word \<Rightarrow> sha_word" where
  "rotr n x = drop_bit n x OR push_bit (32 - n) x"

definition big_sigma0 :: "sha_word \<Rightarrow> sha_word" where "big_sigma0 x = rotr 2 x XOR rotr 13 x XOR rotr 22 x"
definition big_sigma1 :: "sha_word \<Rightarrow> sha_word" where "big_sigma1 x = rotr 6 x XOR rotr 11 x XOR rotr 25 x"
definition small_sigma0 :: "sha_word \<Rightarrow> sha_word" where "small_sigma0 x = rotr 7 x XOR rotr 18 x XOR drop_bit 3 x"
definition small_sigma1 :: "sha_word \<Rightarrow> sha_word" where "small_sigma1 x = rotr 17 x XOR rotr 19 x XOR drop_bit 10 x"

text \<open>The message schedule, built from its last 16 words, newest first.\<close>

fun sha_schedule :: "nat \<Rightarrow> sha_word list \<Rightarrow> sha_word list" where
  "sha_schedule 0 ws = rev ws"
| "sha_schedule (Suc n) ws =
     sha_schedule n ((small_sigma1 (ws ! 1) + ws ! 6 + small_sigma0 (ws ! 14) + ws ! 15) # ws)"

fun sha_round :: "sha_state \<Rightarrow> sha_word \<times> sha_word \<Rightarrow> sha_state" where
  "sha_round (Sha a b c d e f g h) (k, w) =
     (let t1 = h + big_sigma1 e + ((e AND f) XOR (NOT e AND g)) + k + w;
          t2 = big_sigma0 a + ((a AND b) XOR (a AND c) XOR (b AND c))
      in Sha (t1 + t2) a b c (d + t1) e f g)"

fun sha_add :: "sha_state \<Rightarrow> sha_state \<Rightarrow> sha_state" where
  "sha_add (Sha a b c d e f g h) (Sha a' b' c' d' e' f' g' h') =
     Sha (a + a') (b + b') (c + c') (d + d') (e + e') (f + f') (g + g') (h + h')"

definition sha_block :: "sha_state \<Rightarrow> sha_word list \<Rightarrow> sha_state" where
  "sha_block s ws = sha_add s (foldl sha_round s (zip sha_k (sha_schedule 48 (rev ws))))"

fun sha_words :: "nat list \<Rightarrow> sha_word list" where
  "sha_words (a # b # c # d # rest) = of_nat (((a * 256 + b) * 256 + c) * 256 + d) # sha_words rest"
| "sha_words _ = []"

function sha_blocks :: "sha_state \<Rightarrow> sha_word list \<Rightarrow> sha_state" where
  "sha_blocks s ws = (if length ws < 16 then s else sha_blocks (sha_block s (take 16 ws)) (drop 16 ws))"
  by pat_completeness auto
termination sha_blocks by (relation "measure (length \<circ> snd)") auto

declare sha_blocks.simps [simp del]

text \<open>The bytes of a number, most significant first.\<close>

definition be_bytes :: "nat \<Rightarrow> nat \<Rightarrow> nat list" where
  "be_bytes n x = map (\<lambda>i. x div 256 ^ i mod 256) (rev [0..<n])"

definition sha_pad :: "nat list \<Rightarrow> nat list" where
  "sha_pad m = m @ 128 # replicate ((119 - length m mod 64) mod 64) 0 @ be_bytes 8 (8 * length m)"

fun sha_output :: "sha_state \<Rightarrow> nat list" where
  "sha_output (Sha a b c d e f g h) = concat (map (\<lambda>w. be_bytes 4 (unat w)) [a, b, c, d, e, f, g, h])"

definition sha256 :: "string \<Rightarrow> string" where
  "sha256 data = map char_of (sha_output (sha_blocks sha_init (sha_words (sha_pad (bytes data)))))"

lemma sha256_length [simp]: "length (sha256 data) = 32"
  unfolding sha256_def
  by (cases "sha_blocks sha_init (sha_words (sha_pad (bytes data)))") (simp add: be_bytes_def)

text \<open>The padded message is a whole number of 64-byte blocks, so that the loop drops nothing.\<close>

lemma sha_pad_blocks: "length (sha_pad m) mod 64 = 0"
proof -
  let ?r = "length m mod 64"
  have "(length m + (9 + (119 - ?r) mod 64)) mod 64 = (?r + (9 + (119 - ?r) mod 64)) mod 64"
    by (simp add: mod_add_left_eq)
  also have "\<dots> = (?r + 9 + (119 - ?r)) mod 64"
    by (metis add.assoc mod_add_right_eq)
  also have "?r + 9 + (119 - ?r) = 128" by simp
  finally show ?thesis by (simp add: sha_pad_def be_bytes_def add.assoc)
qed

section \<open>Hexadecimal text\<close>

definition hex_digit :: "nat \<Rightarrow> char" where
  "hex_digit n = (if n < 10 then char_of (48 + n) else char_of (87 + n))"

definition hex_encode :: "string \<Rightarrow> string" where
  "hex_encode s = concat (map (\<lambda>c. [hex_digit (byte c div 16), hex_digit (byte c mod 16)]) s)"

lemma hex_encode_length [simp]: "length (hex_encode s) = 2 * length s"
  by (induction s) (simp_all add: hex_encode_def)

section \<open>Base64 for URLs, without padding\<close>

definition base64_alphabet :: string where
  "base64_alphabet = ''ABCDEFGHIJKLMNOPQRSTUVWXYZabcdefghijklmnopqrstuvwxyz0123456789-_''"

fun encode_sextets :: "nat list \<Rightarrow> nat list" where
  "encode_sextets (a # b # c # rest) =
     (a div 4) # ((a mod 4) * 16 + b div 16) # ((b mod 16) * 4 + c div 64) # (c mod 64) # encode_sextets rest"
| "encode_sextets [a, b] = [a div 4, (a mod 4) * 16 + b div 16, (b mod 16) * 4]"
| "encode_sextets [a] = [a div 4, (a mod 4) * 16]"
| "encode_sextets [] = []"

definition base64_encode :: "string \<Rightarrow> string" where
  "base64_encode s = map (\<lambda>n. base64_alphabet ! n) (encode_sextets (bytes s))"

text \<open>The decoder skips line ends, refuses other characters outside the alphabet and a single last
  digit, and ignores the unused bits of the last digit.\<close>

fun decode_sextets :: "nat list \<Rightarrow> nat list option" where
  "decode_sextets (p # q # r # s # rest) =
     map_option (\<lambda>out. (p * 4 + q div 16) # ((q mod 16) * 16 + r div 4) # ((r mod 4) * 64 + s) # out) (decode_sextets rest)"
| "decode_sextets [p, q, r] = Some [p * 4 + q div 16, (q mod 16) * 16 + r div 4]"
| "decode_sextets [p, q] = Some [p * 4 + q div 16]"
| "decode_sextets [p] = None"
| "decode_sextets [] = Some []"

definition base64_digit :: "char \<Rightarrow> nat option" where
  "base64_digit c = (let n = length (takeWhile (\<lambda>d. d \<noteq> c) base64_alphabet) in if n < 64 then Some n else None)"

fun base64_digits :: "string \<Rightarrow> nat list option" where
  "base64_digits [] = Some []"
| "base64_digits (c # cs) =
     (if byte c = 10 \<or> byte c = 13 then base64_digits cs
      else case base64_digit c of None \<Rightarrow> None | Some n \<Rightarrow> map_option ((#) n) (base64_digits cs))"

definition base64_decode :: "string \<Rightarrow> string option" where
  "base64_decode s = map_option (map char_of) (Option.bind (base64_digits s) decode_sextets)"

lemma packed [simp]:
  fixes x k q :: nat
  assumes "x < k"
  shows "(q * k + x) div k = q" "(q * k + x) mod k = x"
  using assms by simp_all

lemma packed_less: "q < m \<Longrightarrow> x < k \<Longrightarrow> q * k + x < m * (k :: nat)"
proof -
  assume "q < m" "x < k"
  then have "q * k + x < q * k + k" by simp
  also have "\<dots> = Suc q * k" by simp
  also have "\<dots> \<le> m * k" using \<open>q < m\<close> by (intro mult_le_mono1) simp
  finally show ?thesis .
qed

lemma byte_parts: "b < 256 \<Longrightarrow> b div 16 < 16 \<and> b div 4 < 64 \<and> b div 64 < (4 :: nat)"
  by (simp add: less_mult_imp_div_less)

lemma encode_sextets_bound: "list_all (\<lambda>n. n < 256) bs \<Longrightarrow> list_all (\<lambda>n. n < 64) (encode_sextets bs)"
proof (induction bs rule: encode_sextets.induct)
  case (1 a b c rest)
  then show ?case
    using byte_parts [of a] byte_parts [of b] byte_parts [of c] packed_less [of "a mod 4" 4 "b div 16" 16] packed_less [of "b mod 16" 16 "c div 64" 4]
    by simp
next
  case (2 a b)
  then show ?case
    using byte_parts [of a] byte_parts [of b] packed_less [of "a mod 4" 4 "b div 16" 16] packed_less [of "b mod 16" 16 0 4] by simp
next
  case (3 a)
  then show ?case using byte_parts [of a] packed_less [of "a mod 4" 4 0 16] by simp
qed simp

lemma decode_encode_sextets: "list_all (\<lambda>n. n < 256) bs \<Longrightarrow> decode_sextets (encode_sextets bs) = Some bs"
proof (induction bs rule: encode_sextets.induct)
  case (1 a b c rest)
  then show ?case using byte_parts [of a] byte_parts [of b] byte_parts [of c] by simp
next
  case (2 a b)
  then show ?case using byte_parts [of b] by simp
qed auto

lemma base64_alphabet_digits:
  "list_all (\<lambda>n. base64_digit (base64_alphabet ! n) = Some n \<and> byte (base64_alphabet ! n) \<noteq> 10 \<and> byte (base64_alphabet ! n) \<noteq> 13) [0..<64]"
  by code_simp

lemma base64_digits_map: "(\<And>n. n \<in> set ns \<Longrightarrow> n < 64) \<Longrightarrow> base64_digits (map (\<lambda>n. base64_alphabet ! n) ns) = Some ns"
  using base64_alphabet_digits by (induction ns) (simp_all add: list_all_iff)

lemma base64_roundtrip [simp]: "base64_decode (base64_encode s) = Some s"
proof -
  have bs: "list_all (\<lambda>n. n < 256) (bytes s)" by (simp add: bytes_def list_all_iff byte_def of_char_def)
  have "map (char_of :: nat \<Rightarrow> char) (bytes s) = s" by (simp add: bytes_def byte_def comp_def)
  moreover have "base64_digits (map (\<lambda>n. base64_alphabet ! n) (encode_sextets (bytes s))) = Some (encode_sextets (bytes s))"
    using encode_sextets_bound [OF bs] by (intro base64_digits_map) (simp add: list_all_iff)
  ultimately show ?thesis
    using decode_encode_sextets [OF bs] by (simp add: base64_decode_def base64_encode_def)
qed


end
