(* ===== verification/Session_Records.thy ===== *)
theory Session_Records
  imports Session_State Digests
begin

text \<open>
  Access sessions as they are stored: export sessions with their password verifiers and the
  ledger of gateway requests (\<open>internal/exportaccess/exportaccess.go\<close>), and workload mount
  bindings (\<open>internal/workloadmount/workloadmount.go\<close>).
\<close>

section \<open>Export sessions\<close>

datatype Protocol = ProtocolWebDAV | ProtocolOther string

definition Protocol_Valid :: "Protocol \<Rightarrow> bool" where
  "Protocol_Valid protocol \<longleftrightarrow> protocol = ProtocolWebDAV"

record ExportActor =
  xa_Type :: string
  xa_ID :: string

record Session =
  xs_ID :: string
  xs_NamespaceID :: string
  xs_RepoID :: string
  xs_Protocol :: Protocol
  xs_Mode :: AccessMode
  xs_Status :: ExportStatus
  xs_ExpiresAt :: go_time
  xs_CreatedByCallerService :: string
  xs_CreatedByActor :: ExportActor
  xs_RevokedAt :: "go_time option"
  xs_LastAccessedAt :: "go_time option"
  xs_ActiveRequestCount :: go_int
  xs_ActiveWriteCount :: go_int
  xs_LastObservedAt :: "go_time option"
  xs_LastGatewayHeartbeatAt :: "go_time option"
  xs_GatewayHeartbeatExpiresAt :: "go_time option"
  xs_WriteDrainedAt :: "go_time option"
  xs_TerminalObservedAt :: "go_time option"
  xs_StatusReason :: string
  xs_CreatedAt :: go_time
  xs_UpdatedAt :: go_time

datatype export_error = ExportPathError path_error | ExportText string

definition path_check :: "IDKind \<Rightarrow> string \<Rightarrow> export_error option" where
  "path_check kind ident = map_option ExportPathError (ValidateID kind ident)"

definition Session_Validate :: "Session \<Rightarrow> export_error option" where
  "Session_Validate session =
     checks
      [path_check ExportID (trim_space (xs_ID session)),
       path_check NamespaceID (trim_space (xs_NamespaceID session)),
       path_check RepoID (trim_space (xs_RepoID session)),
       check (\<not> Protocol_Valid (xs_Protocol session)) (ExportText ''invalid export protocol''),
       check (xs_Mode session \<notin> {AccessModeReadOnly, AccessModeReadWrite}) (ExportText ''invalid export mode''),
       check (xs_Status session \<notin> {ExportStatusActive, ExportStatusRevoking, ExportStatusRevoked, ExportStatusExpired, ExportStatusFailed})
         (ExportText ''invalid export status''),
       check (is_zero (xs_ExpiresAt session) \<or> is_zero (xs_CreatedAt session) \<or> is_zero (xs_UpdatedAt session))
         (ExportText ''export timestamps must be set''),
       check (trim_space (xs_CreatedByCallerService session) = [] \<or> trim_space (xa_Type (xs_CreatedByActor session)) = [] \<or>
           trim_space (xa_ID (xs_CreatedByActor session)) = []) (ExportText ''export creator context must be set''),
       check (xs_ActiveRequestCount session < 0 \<or> xs_ActiveWriteCount session < 0)
         (ExportText ''export runtime counts must be non-negative''),
       check (xs_ActiveWriteCount session > xs_ActiveRequestCount session)
         (ExportText ''export active_write_count cannot exceed active_request_count'')]"

section \<open>Requests of the gateway\<close>

record RuntimeRequestBegin =
  rb_RequestID :: string
  rb_ExportID :: string
  rb_StartedAt :: go_time
  rb_HeartbeatExpiresAt :: go_time
  rb_Write :: bool

record RuntimeRequestHeartbeat =
  rh_RequestID :: string
  rh_ExportID :: string
  rh_ObservedAt :: go_time
  rh_HeartbeatExpiresAt :: go_time

record RuntimeRequestEnd =
  re_RequestID :: string
  re_ExportID :: string
  re_EndedAt :: go_time
  re_SuccessfulRequestAccessedAt :: "go_time option"

record StaleRuntimeRequestRecovery =
  sr_Now :: go_time
  sr_Limit :: go_int

definition asciiAlnum :: "char \<Rightarrow> bool" where
  "asciiAlnum ch \<longleftrightarrow> (97 \<le> byte ch \<and> byte ch \<le> 122) \<or> (65 \<le> byte ch \<and> byte ch \<le> 90) \<or> (48 \<le> byte ch \<and> byte ch \<le> 57)"

definition validateRuntimeRequestID :: "string \<Rightarrow> export_error option" where
  "validateRuntimeRequestID ident =
     (let rest = drop 5 ident in
      check
        (\<not> has_prefix ident ''errq_'' \<or> length rest < 2 \<or> length rest > 63 \<or> \<not> asciiAlnum (hd rest) \<or>
         list_ex (\<lambda>c. \<not> asciiAlnum c \<and> c \<noteq> CHR ''_'' \<and> c \<noteq> CHR ''-'') (tl rest))
        (ExportText ''invalid export runtime request id''))"

definition RuntimeRequestBegin_Validate :: "RuntimeRequestBegin \<Rightarrow> export_error option" where
  "RuntimeRequestBegin_Validate request =
     checks
      [validateRuntimeRequestID (trim_space (rb_RequestID request)),
       path_check ExportID (trim_space (rb_ExportID request)),
       check (is_zero (rb_StartedAt request) \<or> is_zero (rb_HeartbeatExpiresAt request))
         (ExportText ''export runtime request begin timestamps must be set''),
       check (\<not> rb_HeartbeatExpiresAt request > rb_StartedAt request)
         (ExportText ''export runtime request heartbeat expiry must be after start'')]"

definition RuntimeRequestHeartbeat_Validate :: "RuntimeRequestHeartbeat \<Rightarrow> export_error option" where
  "RuntimeRequestHeartbeat_Validate request =
     checks
      [validateRuntimeRequestID (trim_space (rh_RequestID request)),
       path_check ExportID (trim_space (rh_ExportID request)),
       check (is_zero (rh_ObservedAt request) \<or> is_zero (rh_HeartbeatExpiresAt request))
         (ExportText ''export runtime request heartbeat timestamps must be set''),
       check (\<not> rh_HeartbeatExpiresAt request > rh_ObservedAt request)
         (ExportText ''export runtime request heartbeat expiry must be after observation'')]"

definition RuntimeRequestEnd_Validate :: "RuntimeRequestEnd \<Rightarrow> export_error option" where
  "RuntimeRequestEnd_Validate request =
     checks
      [validateRuntimeRequestID (trim_space (re_RequestID request)),
       path_check ExportID (trim_space (re_ExportID request)),
       check (is_zero (re_EndedAt request)) (ExportText ''export runtime request end time must be set'')]"

definition StaleRuntimeRequestRecovery_Validate :: "StaleRuntimeRequestRecovery \<Rightarrow> export_error option" where
  "StaleRuntimeRequestRecovery_Validate request =
     checks
      [check (is_zero (sr_Now request)) (ExportText ''export runtime stale recovery time must be set''),
       check (sr_Limit request \<le> 0) (ExportText ''export runtime stale recovery limit must be positive'')]"

section \<open>Time to live\<close>

definition MinTTLSeconds :: go_int where "MinTTLSeconds = 60"
definition DefaultTTLSeconds :: go_int where "DefaultTTLSeconds = 3600"

definition ResolveTTLSeconds :: "go_int \<Rightarrow> go_int \<Rightarrow> export_error + go_int" where
  "ResolveTTLSeconds requested maximum =
     (if maximum < MinTTLSeconds then Inl (ExportText ''export max ttl must be at least 60 seconds'')
      else if requested = 0 then Inr (if DefaultTTLSeconds > maximum then maximum else DefaultTTLSeconds)
      else if requested < MinTTLSeconds then Inl (ExportText ''export ttl must be at least 60 seconds'')
      else if requested > maximum then Inl (ExportText ''export ttl must not exceed the maximum'')
      else Inr requested)"

section \<open>Password verifiers\<close>

record PasswordVerifier =
  pv_Algorithm :: string
  pv_Salt :: string
  pv_Hash :: string

definition NewPasswordVerifier :: "string \<Rightarrow> string \<Rightarrow> export_error + PasswordVerifier" where
  "NewPasswordVerifier password salt =
     (if trim_space password = [] then Inl (ExportText ''password is required'')
      else if length salt < 16 then Inl (ExportText ''password verifier salt must be at least 16 bytes'')
      else Inr \<lparr>pv_Algorithm = ''sha256'', pv_Salt = base64_encode salt,
                pv_Hash = base64_encode (sha256 (salt @ trim_space password))\<rparr>)"

definition PasswordVerifier_Validate :: "PasswordVerifier \<Rightarrow> export_error option" where
  "PasswordVerifier_Validate verifier =
     checks
      [check (pv_Algorithm verifier \<noteq> ''sha256'') (ExportText ''unsupported password verifier algorithm''),
       check (case base64_decode (pv_Salt verifier) of None \<Rightarrow> True | Some salt \<Rightarrow> length salt < 16)
         (ExportText ''invalid password verifier salt''),
       check (case base64_decode (pv_Hash verifier) of None \<Rightarrow> True | Some hash \<Rightarrow> length hash \<noteq> 32)
         (ExportText ''invalid password verifier hash'')]"

definition Verify :: "PasswordVerifier \<Rightarrow> string \<Rightarrow> bool" where
  "Verify verifier password =
     (if PasswordVerifier_Validate verifier \<noteq> None then False
      else sha256 (the (base64_decode (pv_Salt verifier)) @ trim_space password) = the (base64_decode (pv_Hash verifier)))"

section \<open>Workload mounts\<close>

definition MinLeaseSeconds :: go_int where "MinLeaseSeconds = 60"
definition MaxLeaseSeconds :: go_int where "MaxLeaseSeconds = 86400"

record Binding =
  wb_ID :: string
  wb_NamespaceID :: string
  wb_RepoID :: string
  wb_VolumeID :: string
  wb_MountPath :: string
  wb_ReadOnly :: bool
  wb_Status :: MountStatus
  wb_LeaseSeconds :: go_int
  wb_LeaseExpiresAt :: go_time
  wb_LastHeartbeatAt :: "go_time option"
  wb_LastObservedAt :: "go_time option"
  wb_ConfirmedUnmountedAt :: "go_time option"
  wb_UnableToWriteAt :: "go_time option"
  wb_TerminalObservedAt :: "go_time option"
  wb_StatusReason :: string
  wb_CreatedAt :: go_time
  wb_UpdatedAt :: go_time

definition reserved_mount_paths :: "string list" where
  "reserved_mount_paths = [''/proc'', ''/sys'', ''/dev'', ''/run/secrets'', ''/var/run/secrets'']"

text \<open>\<open>unicode.IsControl\<close>: the runes of category Cc.\<close>

definition is_control :: "nat \<Rightarrow> bool" where
  "is_control r \<longleftrightarrow> r < 32 \<or> (127 \<le> r \<and> r < 160)"

definition ValidateMountPath :: "string \<Rightarrow> export_error option" where
  "ValidateMountPath path =
     (let parts = tl (split_char (CHR ''/'') path) in
      checks
       [check (path = [] \<or> trim_space path \<noteq> path) (ExportText ''mount_path must be a non-empty absolute container path''),
        check (\<not> has_prefix path ''/'') (ExportText ''mount_path must be absolute''),
        check (path = ''/'') (ExportText ''mount_path must not be root''),
        check (CHR 0x5C \<in> set path) (ExportText ''mount_path must not contain backslashes''),
        check (list_ex is_control (runes (bytes path))) (ExportText ''mount_path must not contain control characters''),
        check (list_ex (\<lambda>part. part = [] \<or> part = ''.'' \<or> part = ''..'') parts) (ExportText ''mount_path must be clean''),
        check (''/'' @ join_with ''/'' parts \<noteq> path) (ExportText ''mount_path must be clean''),
        check (list_ex (\<lambda>reserved. path = reserved \<or> has_prefix path (reserved @ ''/'')) reserved_mount_paths)
          (ExportText ''mount_path uses a runtime reserved path'')])"

fun ValidStatus :: "MountStatus \<Rightarrow> bool" where
  "ValidStatus (MountStatusOther _) = False"
| "ValidStatus _ = True"

fun ValidOrchestratorStatus :: "MountStatus \<Rightarrow> bool" where
  "ValidOrchestratorStatus MountStatusPending = True"
| "ValidOrchestratorStatus MountStatusActive = True"
| "ValidOrchestratorStatus MountStatusReleased = True"
| "ValidOrchestratorStatus MountStatusRevoked = True"
| "ValidOrchestratorStatus MountStatusExpired = True"
| "ValidOrchestratorStatus MountStatusFailed = True"
| "ValidOrchestratorStatus _ = False"

fun Mount_Terminal :: "MountStatus \<Rightarrow> bool" where
  "Mount_Terminal MountStatusReleased = True"
| "Mount_Terminal MountStatusRevoked = True"
| "Mount_Terminal MountStatusExpired = True"
| "Mount_Terminal MountStatusFailed = True"
| "Mount_Terminal _ = False"

definition Binding_Validate :: "Binding \<Rightarrow> export_error option" where
  "Binding_Validate binding =
     checks
      [path_check WorkloadMountBindingID (wb_ID binding),
       path_check NamespaceID (wb_NamespaceID binding),
       path_check RepoID (wb_RepoID binding),
       path_check VolumeID (wb_VolumeID binding),
       ValidateMountPath (wb_MountPath binding),
       check (\<not> ValidStatus (wb_Status binding)) (ExportText ''invalid workload mount status''),
       check (wb_LeaseSeconds binding < MinLeaseSeconds \<or> wb_LeaseSeconds binding > MaxLeaseSeconds)
         (ExportText ''invalid workload mount lease seconds''),
       check (is_zero (wb_LeaseExpiresAt binding) \<or> is_zero (wb_CreatedAt binding) \<or> is_zero (wb_UpdatedAt binding))
         (ExportText ''workload mount timestamps must be set'')]"

datatype PlanFreshnessDecision =
    PlanFreshnessAllowIssuance | PlanFreshnessStaleIssuance | PlanFreshnessAllowTeardown | PlanFreshnessNoOrdinaryPlan

definition BindingPlanFreshnessDecision :: "Binding \<Rightarrow> go_time \<Rightarrow> PlanFreshnessDecision" where
  "BindingPlanFreshnessDecision binding now =
     (case wb_Status binding of
        MountStatusIssued \<Rightarrow> if is_zero (wb_LeaseExpiresAt binding) \<or> \<not> wb_LeaseExpiresAt binding > now
          then PlanFreshnessStaleIssuance else PlanFreshnessAllowIssuance
      | MountStatusPending \<Rightarrow> if is_zero (wb_LeaseExpiresAt binding) \<or> \<not> wb_LeaseExpiresAt binding > now
          then PlanFreshnessStaleIssuance else PlanFreshnessAllowIssuance
      | MountStatusActive \<Rightarrow> if is_zero (wb_LeaseExpiresAt binding) \<or> \<not> wb_LeaseExpiresAt binding > now
          then PlanFreshnessStaleIssuance else PlanFreshnessAllowIssuance
      | MountStatusReleasing \<Rightarrow> PlanFreshnessAllowTeardown
      | _ \<Rightarrow> PlanFreshnessNoOrdinaryPlan)"

record SecretRef =
  sref_Namespace :: string
  sref_Name :: string

text \<open>A label is checked rune by rune; \<open>idx\<close> is the byte offset of a rune, and every accepted rune is one
  byte long, so the loop is the same over bytes.\<close>

definition validSecretRefDNSLabel :: "string \<Rightarrow> nat \<Rightarrow> bool" where
  "validSecretRefDNSLabel v maxLen \<longleftrightarrow>
     v \<noteq> [] \<and> length v \<le> maxLen \<and>
     list_all (\<lambda>(idx, c). (97 \<le> byte c \<and> byte c \<le> 122) \<or> (48 \<le> byte c \<and> byte c \<le> 57) \<or>
       (c = CHR ''-'' \<and> 0 < idx \<and> idx < length v - 1)) (zip [0..<length v] v)"

definition validSecretRefDNSSubdomain :: "string \<Rightarrow> nat \<Rightarrow> bool" where
  "validSecretRefDNSSubdomain v maxLen \<longleftrightarrow>
     (let t = trim_space v in
      t \<noteq> [] \<and> length t \<le> maxLen \<and> list_all (\<lambda>part. validSecretRefDNSLabel part 63) (split_char (CHR ''.'') t))"

definition ValidateSecretRef :: "SecretRef \<Rightarrow> export_error option" where
  "ValidateSecretRef ref =
     check (\<not> validSecretRefDNSLabel (sref_Namespace ref) 63 \<or> \<not> validSecretRefDNSSubdomain (sref_Name ref) 253)
       (ExportText ''workload mount secret_ref must contain a valid namespace and name'')"

section \<open>Properties\<close>

lemma ttl_Inr:
  "ResolveTTLSeconds requested maximum = Inr ttl \<longleftrightarrow>
     MinTTLSeconds \<le> maximum \<and>
     (if requested = 0 then ttl = min DefaultTTLSeconds maximum
      else MinTTLSeconds \<le> requested \<and> requested \<le> maximum \<and> ttl = requested)"
  by (auto simp: ResolveTTLSeconds_def MinTTLSeconds_def DefaultTTLSeconds_def min_def)


lemma verifier_Inr:
  assumes "NewPasswordVerifier password salt = Inr verifier"
  shows "PasswordVerifier_Validate verifier = None"
    "Verify verifier attempt \<longleftrightarrow> sha256 (salt @ trim_space attempt) = sha256 (salt @ trim_space password)"
  using assms by (auto simp: NewPasswordVerifier_def PasswordVerifier_Validate_def Verify_def check_def split: if_splits)

text \<open>C39. A password verifier made for a password and a salt is valid when it is read back from its
  two base64 texts and accepts the password; it accepts another password only if, after
  trimming, its salted SHA-256 digest is the same.\<close>

theorem password_verifier_roundtrip:
  assumes "NewPasswordVerifier password salt = Inr verifier"
  shows "PasswordVerifier_Validate verifier = None \<and> Verify verifier password \<and>
    (Verify verifier attempt \<longleftrightarrow> sha256 (salt @ trim_space attempt) = sha256 (salt @ trim_space password))"
  using verifier_Inr [OF assms] by simp

theorem password_verifier_roundtrip_witness:
  "\<exists>verifier. NewPasswordVerifier ''secret'' ''0123456789abcdef'' = Inr verifier \<and> Verify verifier ''secret''"
proof -
  have "trim_space ''secret'' = ''secret''" by (simp add: trim_space_id is_space_byte_def byte_def)
  then obtain verifier where v: "NewPasswordVerifier ''secret'' ''0123456789abcdef'' = Inr verifier"
    by (simp add: NewPasswordVerifier_def)
  from password_verifier_roundtrip [OF this, of "''secret''"] v show ?thesis by blast
qed

end
