(* ===== verification/Export_Store.thy ===== *)
theory Export_Store
  imports Session_Records Operation_Store Resources
begin

text \<open>
  The export sessions and the ledger of gateway requests in the database:
  \<open>internal/store/postgres/export_sessions.go\<close> and the reader of \<open>session_state.go\<close>, with the
  constraints of \<open>migrations/0001\<close> to \<open>0003\<close>. Every statement runs atomically: its
  \<open>WITH\<close> parts see the same rows, and it either fails and changes nothing or makes all of
  its changes. A request that runs several statements sees one state of the database. The
  JSON flags of policies and capabilities are booleans, as their validation demands.
\<close>

section \<open>The database\<close>

datatype RequestState = RequestOpen | RequestClosed | RequestRecovered

record RuntimeRequest =
  rr_ID :: string
  rr_ExportID :: string
  rr_NamespaceID :: string
  rr_RepoID :: string
  rr_State :: RequestState
  rr_Write :: bool
  rr_StartedAt :: go_time
  rr_LastHeartbeatAt :: go_time
  rr_HeartbeatExpiresAt :: go_time
  rr_ClosedAt :: "go_time option"
  rr_CloseReason :: string
  rr_CreatedAt :: go_time
  rr_UpdatedAt :: go_time

datatype RestoreRunMode = RunReconciling | RunBlockedOperatorIntervention | RunCompleted

record session_db = op_db +
  db_namespaces :: "Namespace list"
  db_bindings :: "NamespaceVolumeBinding list"
  db_repos :: "Repo list"
  db_volumes :: "Volume list"
  db_mounts :: "Binding list"
  db_exports :: "(Session \<times> PasswordVerifier) list"
  db_requests :: "RuntimeRequest list"
  db_restore_runs :: "(string \<times> RestoreRunMode) list"

datatype sess_error =
    SessExport export_error
  | SessOp op_store_error
  | ErrExportNotReady
  | SessNoRows
  | SessCheckViolation
  | SessDuplicateExport
  | SessDuplicateMount
  | SessForeignKey

definition invalid_request :: "string \<Rightarrow> string \<Rightarrow> sess_error" where
  "invalid_request field reason = SessOp (LeaseRequestError field reason)"

definition audit_invalid :: "string \<Rightarrow> string \<Rightarrow> sess_error" where
  "audit_invalid field reason = SessOp (AuditError (outboxInvalidRequest field reason))"

definition export_check :: "export_error option \<Rightarrow> sess_error option" where
  "export_check = map_option SessExport"

text \<open>\<open>GREATEST(COALESCE(column, $n), $n)\<close>.\<close>

definition greatest :: "go_time option \<Rightarrow> go_time \<Rightarrow> go_time option" where
  "greatest column t = Some (max (case column of None \<Rightarrow> t | Some u \<Rightarrow> u) t)"

section \<open>Rows and constraints\<close>

definition session_checks :: "Session \<Rightarrow> bool" where
  "session_checks s \<longleftrightarrow>
     xs_Protocol s = ProtocolWebDAV \<and> AccessMode_valid (xs_Mode s) \<and> ExportStatus_valid (xs_Status s) \<and>
     0 \<le> xs_ActiveRequestCount s \<and> 0 \<le> xs_ActiveWriteCount s \<and> xs_ActiveWriteCount s \<le> xs_ActiveRequestCount s \<and>
     xs_ActiveRequestCount s \<le> max_int32 \<and>
     (exportTerminal (xs_Status s) \<longrightarrow> xs_ActiveRequestCount s = 0 \<and> xs_ActiveWriteCount s = 0)"

definition verifier_checks :: "PasswordVerifier \<Rightarrow> bool" where
  "verifier_checks v \<longleftrightarrow> btrim (pv_Algorithm v) \<noteq> [] \<and> btrim (pv_Hash v) \<noteq> [] \<and> btrim (pv_Salt v) \<noteq> []"

definition request_checks :: "RuntimeRequest \<Rightarrow> bool" where
  "request_checks r \<longleftrightarrow>
     rr_StartedAt r \<le> rr_LastHeartbeatAt r \<and> rr_LastHeartbeatAt r \<le> rr_HeartbeatExpiresAt r \<and>
     (case rr_ClosedAt r of None \<Rightarrow> True | Some t \<Rightarrow> rr_StartedAt r \<le> t \<and> rr_LastHeartbeatAt r \<le> t) \<and>
     (if rr_State r = RequestOpen then rr_ClosedAt r = None \<and> rr_CloseReason r = []
      else rr_ClosedAt r \<noteq> None \<and> btrim (rr_CloseReason r) \<noteq> [])"

definition find_export :: "string \<Rightarrow> (Session \<times> PasswordVerifier) list \<Rightarrow> Session option" where
  "find_export exportID rows = map_option fst (find (\<lambda>row. xs_ID (fst row) = exportID) rows)"

definition put_export :: "Session \<Rightarrow> (Session \<times> PasswordVerifier) list \<Rightarrow> (Session \<times> PasswordVerifier) list" where
  "put_export s rows = map (\<lambda>row. if xs_ID (fst row) = xs_ID s then (s, snd row) else row) rows"

definition find_request :: "string \<Rightarrow> RuntimeRequest list \<Rightarrow> RuntimeRequest option" where
  "find_request ident = find (\<lambda>r. rr_ID r = ident)"

definition put_request :: "RuntimeRequest \<Rightarrow> RuntimeRequest list \<Rightarrow> RuntimeRequest list" where
  "put_request r rows = map (\<lambda>q. if rr_ID q = rr_ID r then r else q) rows"

definition held :: "FenceKind \<Rightarrow> string \<Rightarrow> session_db \<Rightarrow> bool" where
  "held kind repoID db \<longleftrightarrow>
     list_ex (\<lambda>f. fence_RepoID f = repoID \<and> fence_Kind f = kind \<and>
       fence_Status f \<in> {StatusActive, StatusExpired, StatusRecoveryRequired} \<and>
       fence_ReleasedAt f = None \<and> fence_RecoveredAt f = None) (db_fences db)"

text \<open>\<open>COALESCE((column->>'key')::boolean, false) = true\<close>.\<close>

definition json_flag :: "go_object option \<Rightarrow> string \<Rightarrow> bool" where
  "json_flag column k \<longleftrightarrow> lookup_key column k = Some (AnyBool True)"

definition active_namespace :: "string \<Rightarrow> session_db \<Rightarrow> bool" where
  "active_namespace namespaceID db \<longleftrightarrow> list_ex (\<lambda>n. ns_ID n = namespaceID \<and> ns_Status n = NamespaceStatusActive) (db_namespaces db)"

definition webdav_binding :: "string \<Rightarrow> session_db \<Rightarrow> bool" where
  "webdav_binding namespaceID db \<longleftrightarrow>
     list_ex (\<lambda>b. nvb_NamespaceID b = namespaceID \<and> nvb_Status b = NamespaceStatusActive \<and>
       json_flag (nvb_ExportPolicy b) ''webdav_enabled'') (db_bindings db)"

definition repo_is_active :: "Repo \<Rightarrow> bool" where
  "repo_is_active r \<longleftrightarrow> repo_Kind r = RepoKindRepo \<and> repo_Status r = RepoStatusActive \<and> rl_Status (repo_Lifecycle r) = RepoStatusActive"

definition active_repo :: "string \<Rightarrow> string \<Rightarrow> session_db \<Rightarrow> bool" where
  "active_repo namespaceID repoID db \<longleftrightarrow>
     list_ex (\<lambda>r. repo_NamespaceID r = namespaceID \<and> repo_ID r = repoID \<and> repo_is_active r) (db_repos db)"

definition webdav_volume :: "Volume \<Rightarrow> bool" where
  "webdav_volume v \<longleftrightarrow> vol_Status v = VolumeStatusActive \<and> json_flag (vol_Capabilities v) ''webdav_export''"

definition active_volume :: "string \<Rightarrow> string \<Rightarrow> session_db \<Rightarrow> bool" where
  "active_volume namespaceID repoID db \<longleftrightarrow>
     list_ex (\<lambda>r. repo_NamespaceID r = namespaceID \<and> repo_ID r = repoID \<and>
       list_ex (\<lambda>v. vol_ID v = repo_VolumeID r \<and> webdav_volume v) (db_volumes db)) (db_repos db)"

definition releasing_mount :: "string \<Rightarrow> string \<Rightarrow> session_db \<Rightarrow> bool" where
  "releasing_mount namespaceID repoID db \<longleftrightarrow>
     active_repo namespaceID repoID db \<and>
     list_ex (\<lambda>m. wb_NamespaceID m = namespaceID \<and> wb_RepoID m = repoID \<and> wb_Status m = MountStatusReleasing) (db_mounts db)"

text \<open>The admission of the create statement, apart from the releasing mounts. The fences are joined with
  the active repo, which the other conditions demand.\<close>

definition export_target_ready :: "string \<Rightarrow> string \<Rightarrow> AccessMode \<Rightarrow> session_db \<Rightarrow> bool" where
  "export_target_ready namespaceID repoID mode db \<longleftrightarrow>
     active_namespace namespaceID db \<and> webdav_binding namespaceID db \<and> active_repo namespaceID repoID db \<and>
     active_volume namespaceID repoID db \<and> \<not> held KindLifecycle repoID db \<and>
     (mode = AccessModeReadOnly \<or> \<not> held KindWriterSession repoID db)"

section \<open>Checks of the commit requests\<close>

record CreateRequest =
  cr_Session :: Session
  cr_Verifier :: PasswordVerifier
  cr_Operation :: OperationRecord
  cr_Audit :: AuditEvent

record RevokeRequest =
  rv_ExportID :: string
  rv_NamespaceID :: string
  rv_Operation :: OperationRecord
  rv_Audit :: AuditEvent
  rv_Now :: go_time

record ReconcileRequest =
  rq_ExportID :: string
  rq_NamespaceID :: string
  rq_TargetStatus :: ExportStatus
  rq_ObservedAt :: go_time
  rq_StatusReason :: string
  rq_ActiveRequestCount :: go_int
  rq_ActiveWriteCount :: go_int
  rq_Operation :: OperationRecord
  rq_Audit :: AuditEvent

text \<open>\<open>CreateResult\<close>, \<open>RevokeResult\<close> and \<open>ReconcileResult\<close> have the same fields.\<close>

record CommitResult =
  cm_Session :: Session
  cm_Operation :: OperationRecord
  cm_Reused :: bool

definition validateExportOperationRecord :: "OperationRecord \<Rightarrow> OperationType \<Rightarrow> string \<Rightarrow> string \<Rightarrow> sess_error option" where
  "validateExportOperationRecord opr typ phase exportID =
     checks
      [check (op_Type opr \<noteq> typ) (invalid_request ''operation_type'' ''operation type does not match export commit''),
       check (op_State opr \<noteq> OperationStateSucceeded) (invalid_request ''operation_state'' ''export commit requires succeeded operation update''),
       check (trim_space (op_Phase opr) \<noteq> phase) (invalid_request ''phase'' ''export commit requires committed phase''),
       export_check (path_check ExportID exportID),
       check (op_ExportID opr \<noteq> exportID \<or> resource_Type (op_Resource opr) \<noteq> ''export'' \<or> resource_ID (op_Resource opr) \<noteq> exportID)
         (invalid_request ''export_id'' ''operation must target export'')]"

definition validateExportAuditEvent :: "OperationRecord \<Rightarrow> AuditEvent \<Rightarrow> EventType \<Rightarrow> sess_error option" where
  "validateExportAuditEvent opr event eventType =
     checks
      [check (ev_OperationID event \<noteq> op_ID opr) (audit_invalid ''operation_id'' ''audit operation id must match operation update''),
       check (ev_Type event \<noteq> eventType) (audit_invalid ''event_type'' ''export audit event must match operation type''),
       check (ev_Outcome event \<noteq> OutcomeSucceeded) (audit_invalid ''outcome'' ''export audit outcome must be succeeded''),
       check (ares_Type (ev_Resource event) \<noteq> ''export'' \<or> ares_ID (ev_Resource event) \<noteq> op_ExportID opr \<or>
           ares_NamespaceID (ev_Resource event) \<noteq> op_NamespaceID opr)
         (audit_invalid ''resource'' ''export audit resource must match operation''),
       check (ev_CallerService event \<noteq> op_CallerService opr \<or> ev_CorrelationID event \<noteq> op_CorrelationID opr \<or>
           ev_AuthorizedActor event \<noteq> op_AuthorizedActor opr)
         (audit_invalid ''caller'' ''export audit caller context must match operation'')]"

section \<open>Creating a session\<close>

text \<open>\<open>scanExportSessionAndOperationWithInserted\<close> and the comparison of the request hashes. What
  \<open>scanExportAccessSession\<close> reads is the session of the row.\<close>

definition commit_result :: "OperationRecord \<Rightarrow> Session \<Rightarrow> operation_row \<Rightarrow> bool \<Rightarrow> sess_error + CommitResult" where
  "commit_result opr session row inserted =
     (case scanOperation row of
        Inl err \<Rightarrow> Inl (SessOp err)
      | Inr got \<Rightarrow>
        if \<not> inserted \<and> op_RequestHash got \<noteq> op_RequestHash opr
          then Inl (SessOp (OperationsError (ErrIdempotencyConflict (op_IdempotencyScope opr))))
        else Inr \<lparr>cm_Session = session, cm_Operation = got, cm_Reused = \<not> inserted\<rparr>)"

definition existing_operation :: "OperationType \<Rightarrow> operation_row \<Rightarrow> session_db \<Rightarrow> operation_row option" where
  "existing_operation typ row db =
     find (\<lambda>q. row_key q = (row_caller_service row, row_namespace_id row, typ, row_idempotency_key row)) (db_operations db)"

text \<open>The session of an earlier operation: joined by export, and on creation also by namespace and repo.\<close>

definition created_session :: "operation_row \<Rightarrow> session_db \<Rightarrow> Session option" where
  "created_session q db =
     map_option fst (find (\<lambda>row. row_export_id q = Some (xs_ID (fst row)) \<and> xs_NamespaceID (fst row) = row_namespace_id q \<and>
       row_repo_id q = Some (xs_RepoID (fst row))) (db_exports db))"

definition session_of_operation :: "string \<Rightarrow> operation_row \<Rightarrow> session_db \<Rightarrow> Session option" where
  "session_of_operation namespaceID q db =
     map_option fst (find (\<lambda>row. row_export_id q = Some (xs_ID (fst row)) \<and> xs_NamespaceID (fst row) = namespaceID) (db_exports db))"

definition exportCreateReplaySQL :: "operation_row \<Rightarrow> session_db \<Rightarrow> (Session \<times> operation_row) option" where
  "exportCreateReplaySQL row db =
     (case existing_operation OperationExportCreate row db of
        None \<Rightarrow> None
      | Some q \<Rightarrow> map_option (\<lambda>s. (s, q)) (created_session q db))"

definition exportCreateBlockedByReleasingWorkloadMountSQL :: "string \<Rightarrow> string \<Rightarrow> AccessMode \<Rightarrow> session_db \<Rightarrow> bool" where
  "exportCreateBlockedByReleasingWorkloadMountSQL namespaceID repoID mode db \<longleftrightarrow>
     export_target_ready namespaceID repoID mode db \<and> releasing_mount namespaceID repoID db"

definition create_guard :: "operation_row \<Rightarrow> Session \<Rightarrow> session_db \<Rightarrow> bool" where
  "create_guard row session db \<longleftrightarrow>
     row_operation_state row = OperationStateSucceeded \<and> row_operation_type row = OperationExportCreate \<and>
     row_phase row = ''export_create_committed'' \<and> row_resource_type row = ''export'' \<and>
     Some (row_resource_id row) = row_export_id row \<and> row_export_id row = Some (xs_ID session) \<and>
     row_namespace_id row = xs_NamespaceID session \<and> row_repo_id row = Some (xs_RepoID session) \<and>
     export_target_ready (row_namespace_id row) (xs_RepoID session) (xs_Mode session) db \<and>
     \<not> releasing_mount (row_namespace_id row) (xs_RepoID session) db"

definition insert_export :: "Session \<Rightarrow> PasswordVerifier \<Rightarrow> session_db \<Rightarrow> sess_error + (Session \<times> PasswordVerifier) list" where
  "insert_export session verifier db =
     (if \<not> session_checks session \<or> \<not> verifier_checks verifier then Inl SessCheckViolation
      else if find_export (xs_ID session) (db_exports db) \<noteq> None then Inl SessDuplicateExport
      else if \<not> list_ex (\<lambda>r. repo_NamespaceID r = xs_NamespaceID session \<and> repo_ID r = xs_RepoID session) (db_repos db) then Inl SessForeignKey
      else Inr (db_exports db @ [(session, verifier)]))"

definition exportCreateOrReuseSQL ::
    "operation_row \<Rightarrow> Session \<Rightarrow> PasswordVerifier \<Rightarrow> OutboxRecord \<Rightarrow> session_db \<Rightarrow>
      session_db \<times> (sess_error + (Session \<times> operation_row \<times> bool) option)" where
  "exportCreateOrReuseSQL row session verifier outboxRecord db =
     (case existing_operation OperationExportCreate row db of
        Some q \<Rightarrow> (db, Inr (map_option (\<lambda>s. (s, q, False)) (created_session q db)))
      | None \<Rightarrow>
      if \<not> create_guard row session db then (db, Inr None)
      else
      case insert_or_reuse row (db_operations db) of
        Inl err \<Rightarrow> (db, Inl (SessOp err))
      | Inr (rows, q, inserted) \<Rightarrow>
      if \<not> inserted then (db, Inr None)
      else
      case insert_export session verifier db of
        Inl err \<Rightarrow> (db, Inl err)
      | Inr exports \<Rightarrow>
      case insert_row outboxRecord (db_outbox db) of
        Inl err \<Rightarrow> (db, Inl (SessOp (AuditRowError err)))
      | Inr outbox \<Rightarrow>
          (db\<lparr>db_operations := rows, db_exports := exports, db_outbox := outbox\<rparr>, Inr (Some (session, q, True))))"

definition CreateOrReuseExport ::
    "(AuditEvent \<Rightarrow> string + string) \<Rightarrow> CreateRequest \<Rightarrow> session_db \<Rightarrow> session_db \<times> (sess_error + CommitResult)" where
  "CreateOrReuseExport marshal request db =
     (let session = cr_Session request; opr = Record (SanitizedForPersistence (cr_Operation request)) in
      case checks
        [export_check (Session_Validate session),
         export_check (PasswordVerifier_Validate (cr_Verifier request)),
         validateExportOperationRecord opr OperationExportCreate ''export_create_committed'' (xs_ID session),
         check (op_NamespaceID opr \<noteq> xs_NamespaceID session \<or> op_RepoID opr \<noteq> xs_RepoID session)
           (invalid_request ''session'' ''operation metadata must match export session''),
         validateExportAuditEvent opr (cr_Audit request) EventTypeExportCreate] of
        Some err \<Rightarrow> (db, Inl err)
      | None \<Rightarrow>
      case operationInsertArgs opr of
        Inl err \<Rightarrow> (db, Inl (SessOp err))
      | Inr row \<Rightarrow>
      case NewOutboxRecord marshal (cr_Audit request) (op_CreatedAt opr) of
        Inl err \<Rightarrow> (db, Inl (SessOp (AuditError err)))
      | Inr outboxRecord \<Rightarrow>
      case exportCreateOrReuseSQL row session (cr_Verifier request) outboxRecord db of
        (db', Inl err) \<Rightarrow> (db', Inl err)
      | (db', Inr (Some (s, q, inserted))) \<Rightarrow> (db', commit_result opr s q inserted)
      | (db', Inr None) \<Rightarrow>
          (db', case exportCreateReplaySQL row db' of
             Some (s, q) \<Rightarrow> commit_result opr s q False
           | None \<Rightarrow>
             if exportCreateBlockedByReleasingWorkloadMountSQL (xs_NamespaceID session) (xs_RepoID session) (xs_Mode session) db'
             then Inl ErrExportNotReady else Inl SessNoRows))"

text \<open>The session that the API creates (\<open>exportLeafHandler.create\<close>).\<close>

definition new_export_session ::
    "string \<Rightarrow> string \<Rightarrow> string \<Rightarrow> AccessMode \<Rightarrow> go_time \<Rightarrow> string \<Rightarrow> ExportActor \<Rightarrow> go_time \<Rightarrow> Session" where
  "new_export_session exportID namespaceID repoID mode expiresAt callerService actor now =
     \<lparr>xs_ID = exportID, xs_NamespaceID = namespaceID, xs_RepoID = repoID, xs_Protocol = ProtocolWebDAV, xs_Mode = mode,
      xs_Status = ExportStatusActive, xs_ExpiresAt = expiresAt, xs_CreatedByCallerService = callerService,
      xs_CreatedByActor = actor, xs_RevokedAt = None, xs_LastAccessedAt = None, xs_ActiveRequestCount = 0,
      xs_ActiveWriteCount = 0, xs_LastObservedAt = None, xs_LastGatewayHeartbeatAt = None,
      xs_GatewayHeartbeatExpiresAt = None, xs_WriteDrainedAt = None, xs_TerminalObservedAt = None,
      xs_StatusReason = [], xs_CreatedAt = now, xs_UpdatedAt = now\<rparr>"

section \<open>Reading and revoking\<close>

definition GetExportSession :: "string \<Rightarrow> session_db \<Rightarrow> sess_error + Session" where
  "GetExportSession exportID db =
     (let ident = trim_space exportID in
      case export_check (path_check ExportID ident) of
        Some err \<Rightarrow> Inl err
      | None \<Rightarrow> (case find_export ident (db_exports db) of None \<Rightarrow> Inl SessNoRows | Some s \<Rightarrow> Inr s))"

definition revoked_session :: "go_time \<Rightarrow> Session \<Rightarrow> Session" where
  "revoked_session now s =
     s\<lparr>xs_Status := if exportTerminal (xs_Status s) then xs_Status s else ExportStatusRevoking,
        xs_RevokedAt := Some (case xs_RevokedAt s of None \<Rightarrow> now | Some t \<Rightarrow> t), xs_UpdatedAt := now\<rparr>"

text \<open>The operation is inserted also when no session matches; then nothing else happens and the
  statement has no row.\<close>

definition exportRevokeSQL ::
    "operation_row \<Rightarrow> string \<Rightarrow> string \<Rightarrow> go_time \<Rightarrow> OutboxRecord \<Rightarrow> session_db \<Rightarrow>
      session_db \<times> (sess_error + (Session \<times> operation_row \<times> bool))" where
  "exportRevokeSQL row exportID namespaceID now outboxRecord db =
     (case existing_operation OperationExportRevoke row db of
        Some q \<Rightarrow>
          (db, case session_of_operation namespaceID q db of None \<Rightarrow> Inl SessNoRows | Some s \<Rightarrow> Inr (s, q, False))
      | None \<Rightarrow>
      if row_export_id row \<noteq> Some exportID \<or> row_namespace_id row \<noteq> namespaceID then (db, Inl SessNoRows)
      else
      case insert_or_reuse row (db_operations db) of
        Inl err \<Rightarrow> (db, Inl (SessOp err))
      | Inr (rows, q, inserted) \<Rightarrow>
      case find_export exportID (db_exports db) of
        None \<Rightarrow> (db\<lparr>db_operations := rows\<rparr>, Inl SessNoRows)
      | Some s \<Rightarrow>
      if xs_NamespaceID s \<noteq> namespaceID then (db\<lparr>db_operations := rows\<rparr>, Inl SessNoRows)
      else if \<not> session_checks (revoked_session now s) then (db, Inl SessCheckViolation)
      else
      case insert_row outboxRecord (db_outbox db) of
        Inl err \<Rightarrow> (db, Inl (SessOp (AuditRowError err)))
      | Inr outbox \<Rightarrow>
          (db\<lparr>db_operations := rows, db_exports := put_export (revoked_session now s) (db_exports db), db_outbox := outbox\<rparr>,
           Inr (revoked_session now s, q, inserted)))"

definition RevokeExport ::
    "(AuditEvent \<Rightarrow> string + string) \<Rightarrow> RevokeRequest \<Rightarrow> session_db \<Rightarrow> session_db \<times> (sess_error + CommitResult)" where
  "RevokeExport marshal request db =
     (let opr = Record (SanitizedForPersistence (rv_Operation request)) in
      case checks
        [export_check (path_check ExportID (trim_space (rv_ExportID request))),
         export_check (path_check NamespaceID (trim_space (rv_NamespaceID request))),
         check (is_zero (rv_Now request)) (invalid_request ''now'' ''revoke time must be set''),
         validateExportOperationRecord opr OperationExportRevoke ''export_revoke_committed'' (rv_ExportID request),
         check (op_NamespaceID opr \<noteq> rv_NamespaceID request) (invalid_request ''namespace_id'' ''operation namespace must match revoke request''),
         validateExportAuditEvent opr (rv_Audit request) EventTypeExportRevoke] of
        Some err \<Rightarrow> (db, Inl err)
      | None \<Rightarrow>
      case operationInsertArgs opr of
        Inl err \<Rightarrow> (db, Inl (SessOp err))
      | Inr row \<Rightarrow>
      case NewOutboxRecord marshal (rv_Audit request) (rv_Now request) of
        Inl err \<Rightarrow> (db, Inl (SessOp (AuditError err)))
      | Inr outboxRecord \<Rightarrow>
      case exportRevokeSQL row (rv_ExportID request) (rv_NamespaceID request) (rv_Now request) outboxRecord db of
        (db', Inl err) \<Rightarrow> (db', Inl err)
      | (db', Inr (s, q, inserted)) \<Rightarrow> (db', commit_result opr s q inserted))"

record GatewayCredential =
  gc_Session :: Session
  gc_Verifier :: PasswordVerifier
  gc_VolumeID :: string
  gc_PayloadVolumeSubdir :: string

text \<open>The join of \<open>exportGatewayCredentialSQL\<close>; repos, volumes, namespaces and bindings are unique by their
  keys, so that it has at most one row.\<close>

definition exportGatewayCredentialSQL :: "string \<Rightarrow> session_db \<Rightarrow> GatewayCredential option" where
  "exportGatewayCredentialSQL exportID db =
     (case find (\<lambda>row. xs_ID (fst row) = exportID) (db_exports db) of
        None \<Rightarrow> None
      | Some (s, verifier) \<Rightarrow>
        if xs_Status s \<noteq> ExportStatusActive \<or> xs_Protocol s \<noteq> ProtocolWebDAV \<or>
           \<not> active_namespace (xs_NamespaceID s) db \<or> \<not> webdav_binding (xs_NamespaceID s) db then None
        else case find (\<lambda>r. repo_NamespaceID r = xs_NamespaceID s \<and> repo_ID r = xs_RepoID s \<and> repo_is_active r \<and>
              list_ex (\<lambda>v. vol_ID v = repo_VolumeID r \<and> webdav_volume v) (db_volumes db)) (db_repos db) of
            None \<Rightarrow> None
          | Some r \<Rightarrow> Some \<lparr>gc_Session = s, gc_Verifier = verifier, gc_VolumeID = repo_VolumeID r,
              gc_PayloadVolumeSubdir = repo_PayloadVolumeSubdir r\<rparr>)"

definition GetExportGatewayCredential :: "string \<Rightarrow> session_db \<Rightarrow> sess_error + GatewayCredential" where
  "GetExportGatewayCredential exportID db =
     (let ident = trim_space exportID in
      case export_check (path_check ExportID ident) of
        Some err \<Rightarrow> Inl err
      | None \<Rightarrow>
      case exportGatewayCredentialSQL ident db of
        None \<Rightarrow> Inl SessNoRows
      | Some credential \<Rightarrow>
      (case export_check (PasswordVerifier_Validate (gc_Verifier credential)) of Some err \<Rightarrow> Inl err | None \<Rightarrow> Inr credential))"

definition RecordExportAccess :: "string \<Rightarrow> go_time \<Rightarrow> session_db \<Rightarrow> session_db \<times> sess_error option" where
  "RecordExportAccess exportID accessedAt db =
     (let ident = trim_space exportID in
      case checks [export_check (path_check ExportID ident), check (is_zero accessedAt) (invalid_request ''accessed_at'' ''access time must be set'')] of
        Some err \<Rightarrow> (db, Some err)
      | None \<Rightarrow>
      case find_export ident (db_exports db) of
        None \<Rightarrow> (db, None)
      | Some s \<Rightarrow>
          (db\<lparr>db_exports := put_export (s\<lparr>xs_LastAccessedAt := greatest (xs_LastAccessedAt s) accessedAt, xs_UpdatedAt := accessedAt\<rparr>) (db_exports db)\<rparr>,
           None))"

section \<open>The ledger of gateway requests\<close>

definition delta :: "bool \<Rightarrow> int" where
  "delta write = (if write then 1 else 0)"

definition active_restore_reconciliation :: "session_db \<Rightarrow> bool" where
  "active_restore_reconciliation db \<longleftrightarrow>
     list_ex (\<lambda>run. snd run \<in> {RunReconciling, RunBlockedOperatorIntervention}) (db_restore_runs db)"

text \<open>\<open>CASE WHEN <writes left> = 0 THEN GREATEST(COALESCE(write_drained_at, $n), $n) ELSE NULL END\<close>.\<close>

definition drained_at :: "int \<Rightarrow> go_time option \<Rightarrow> go_time \<Rightarrow> go_time option" where
  "drained_at writes column t = (if writes = 0 then greatest column t else None)"

definition incremented_session :: "RuntimeRequestBegin \<Rightarrow> Session \<Rightarrow> Session" where
  "incremented_session request s =
     s\<lparr>xs_ActiveRequestCount := xs_ActiveRequestCount s + 1,
        xs_ActiveWriteCount := xs_ActiveWriteCount s + delta (rb_Write request),
        xs_LastObservedAt := greatest (xs_LastObservedAt s) (rb_StartedAt request),
        xs_LastGatewayHeartbeatAt := greatest (xs_LastGatewayHeartbeatAt s) (rb_StartedAt request),
        xs_GatewayHeartbeatExpiresAt := greatest (xs_GatewayHeartbeatExpiresAt s) (rb_HeartbeatExpiresAt request),
        xs_WriteDrainedAt := drained_at (xs_ActiveWriteCount s + delta (rb_Write request)) (xs_WriteDrainedAt s) (rb_StartedAt request),
        xs_UpdatedAt := rb_StartedAt request\<rparr>"

definition begun_request :: "RuntimeRequestBegin \<Rightarrow> Session \<Rightarrow> RuntimeRequest" where
  "begun_request request s =
     \<lparr>rr_ID = rb_RequestID request, rr_ExportID = xs_ID s, rr_NamespaceID = xs_NamespaceID s, rr_RepoID = xs_RepoID s,
      rr_State = RequestOpen, rr_Write = rb_Write request, rr_StartedAt = rb_StartedAt request,
      rr_LastHeartbeatAt = rb_StartedAt request, rr_HeartbeatExpiresAt = rb_HeartbeatExpiresAt request,
      rr_ClosedAt = None, rr_CloseReason = [], rr_CreatedAt = rb_StartedAt request, rr_UpdatedAt = rb_StartedAt request\<rparr>"

definition begin_eligible :: "RuntimeRequestBegin \<Rightarrow> session_db \<Rightarrow> Session \<Rightarrow> bool" where
  "begin_eligible request db s \<longleftrightarrow>
     xs_Status s = ExportStatusActive \<and> xs_ExpiresAt s > rb_StartedAt request \<and>
     \<not> (rb_Write request \<and> active_restore_reconciliation db)"

definition exportRuntimeRequestBeginSQL :: "RuntimeRequestBegin \<Rightarrow> session_db \<Rightarrow> session_db \<times> (sess_error + Session)" where
  "exportRuntimeRequestBeginSQL request db =
     (case find_request (rb_RequestID request) (db_requests db) of
        Some r \<Rightarrow>
          (db,
           if rr_ExportID r = rb_ExportID request \<and> rr_Write r = rb_Write request \<and> rr_State r = RequestOpen
           then (case find_export (rr_ExportID r) (db_exports db) of None \<Rightarrow> Inl SessNoRows | Some s \<Rightarrow> Inr s)
           else Inl SessNoRows)
      | None \<Rightarrow>
      case find_export (rb_ExportID request) (db_exports db) of
        None \<Rightarrow> (db, Inl SessNoRows)
      | Some s \<Rightarrow>
      if \<not> begin_eligible request db s then (db, Inl SessNoRows)
      else if \<not> request_checks (begun_request request s) \<or> \<not> session_checks (incremented_session request s)
        then (db, Inl SessCheckViolation)
      else (db\<lparr>db_requests := db_requests db @ [begun_request request s],
               db_exports := put_export (incremented_session request s) (db_exports db)\<rparr>,
            Inr (incremented_session request s)))"

definition BeginExportRuntimeRequest :: "RuntimeRequestBegin \<Rightarrow> session_db \<Rightarrow> session_db \<times> (sess_error + Session)" where
  "BeginExportRuntimeRequest request db =
     (let request = request\<lparr>rb_RequestID := trim_space (rb_RequestID request), rb_ExportID := trim_space (rb_ExportID request)\<rparr> in
      case export_check (RuntimeRequestBegin_Validate request) of
        Some err \<Rightarrow> (db, Inl err)
      | None \<Rightarrow> exportRuntimeRequestBeginSQL request db)"

definition touched_request :: "RuntimeRequestHeartbeat \<Rightarrow> RuntimeRequest \<Rightarrow> RuntimeRequest" where
  "touched_request request r =
     r\<lparr>rr_LastHeartbeatAt := max (rr_LastHeartbeatAt r) (rh_ObservedAt request),
        rr_HeartbeatExpiresAt := max (rr_HeartbeatExpiresAt r) (rh_HeartbeatExpiresAt request),
        rr_UpdatedAt := max (rr_UpdatedAt r) (rh_ObservedAt request)\<rparr>"

definition observed_session :: "RuntimeRequestHeartbeat \<Rightarrow> Session \<Rightarrow> Session" where
  "observed_session request s =
     s\<lparr>xs_LastObservedAt := greatest (xs_LastObservedAt s) (rh_ObservedAt request),
        xs_LastGatewayHeartbeatAt := greatest (xs_LastGatewayHeartbeatAt s) (rh_ObservedAt request),
        xs_GatewayHeartbeatExpiresAt := greatest (xs_GatewayHeartbeatExpiresAt s) (rh_HeartbeatExpiresAt request),
        xs_UpdatedAt := max (xs_UpdatedAt s) (rh_ObservedAt request)\<rparr>"

definition exportRuntimeRequestHeartbeatSQL :: "RuntimeRequestHeartbeat \<Rightarrow> session_db \<Rightarrow> session_db \<times> (sess_error + Session)" where
  "exportRuntimeRequestHeartbeatSQL request db =
     (case find_request (rh_RequestID request) (db_requests db) of
        None \<Rightarrow> (db, Inl SessNoRows)
      | Some r \<Rightarrow>
      if rr_ExportID r \<noteq> rh_ExportID request \<or> rr_State r \<noteq> RequestOpen then (db, Inl SessNoRows)
      else if \<not> request_checks (touched_request request r) then (db, Inl SessCheckViolation)
      else
      let db' = db\<lparr>db_requests := put_request (touched_request request r) (db_requests db)\<rparr> in
      case find_export (rr_ExportID r) (db_exports db) of
        None \<Rightarrow> (db', Inl SessNoRows)
      | Some s \<Rightarrow> (db'\<lparr>db_exports := put_export (observed_session request s) (db_exports db)\<rparr>, Inr (observed_session request s)))"

definition HeartbeatExportRuntimeRequest :: "RuntimeRequestHeartbeat \<Rightarrow> session_db \<Rightarrow> session_db \<times> (sess_error + Session)" where
  "HeartbeatExportRuntimeRequest request db =
     (let request = request\<lparr>rh_RequestID := trim_space (rh_RequestID request), rh_ExportID := trim_space (rh_ExportID request)\<rparr> in
      case export_check (RuntimeRequestHeartbeat_Validate request) of
        Some err \<Rightarrow> (db, Inl err)
      | None \<Rightarrow> exportRuntimeRequestHeartbeatSQL request db)"

definition closed_request :: "RequestState \<Rightarrow> string \<Rightarrow> go_time \<Rightarrow> go_time \<Rightarrow> RuntimeRequest \<Rightarrow> RuntimeRequest" where
  "closed_request state reason t updated r =
     r\<lparr>rr_State := state, rr_ClosedAt := Some t, rr_CloseReason := reason, rr_UpdatedAt := updated\<rparr>"

definition released_session :: "int \<Rightarrow> int \<Rightarrow> go_time \<Rightarrow> go_time \<Rightarrow> Session \<Rightarrow> Session" where
  "released_session requests writes t updated s =
     s\<lparr>xs_ActiveRequestCount := xs_ActiveRequestCount s - requests,
        xs_ActiveWriteCount := xs_ActiveWriteCount s - writes,
        xs_LastObservedAt := greatest (xs_LastObservedAt s) t,
        xs_WriteDrainedAt := drained_at (xs_ActiveWriteCount s - writes) (xs_WriteDrainedAt s) t,
        xs_UpdatedAt := updated\<rparr>"

definition close_eligible :: "RuntimeRequest \<Rightarrow> Session \<Rightarrow> bool" where
  "close_eligible r s \<longleftrightarrow>
     xs_ActiveRequestCount s \<ge> 1 \<and> xs_ActiveWriteCount s \<ge> delta (rr_Write r) \<and>
     xs_ActiveWriteCount s - delta (rr_Write r) \<le> xs_ActiveRequestCount s - 1"

definition ended_session :: "RuntimeRequestEnd \<Rightarrow> RuntimeRequest \<Rightarrow> Session \<Rightarrow> Session" where
  "ended_session request r s =
     (released_session 1 (delta (rr_Write r)) (re_EndedAt request) (max (xs_UpdatedAt s) (re_EndedAt request)) s)
       \<lparr>xs_LastAccessedAt := (case re_SuccessfulRequestAccessedAt request of
          None \<Rightarrow> xs_LastAccessedAt s | Some t \<Rightarrow> greatest (xs_LastAccessedAt s) t)\<rparr>"

definition exportRuntimeRequestEndSQL :: "RuntimeRequestEnd \<Rightarrow> session_db \<Rightarrow> session_db \<times> (sess_error + Session)" where
  "exportRuntimeRequestEndSQL request db =
     (case find_request (re_RequestID request) (db_requests db) of
        None \<Rightarrow> (db, Inl SessNoRows)
      | Some r \<Rightarrow>
      if rr_ExportID r \<noteq> re_ExportID request then (db, Inl SessNoRows)
      else
      case find_export (rr_ExportID r) (db_exports db) of
        None \<Rightarrow> (db, Inl SessNoRows)
      | Some s \<Rightarrow>
      if rr_State r \<noteq> RequestOpen then (db, Inr s)
      else if \<not> close_eligible r s then (db, Inl SessNoRows)
      else
      let r' = closed_request RequestClosed ''request_finished'' (re_EndedAt request) (max (rr_UpdatedAt r) (re_EndedAt request)) r;
          s' = ended_session request r s in
      if \<not> request_checks r' \<or> \<not> session_checks s' then (db, Inl SessCheckViolation)
      else (db\<lparr>db_requests := put_request r' (db_requests db), db_exports := put_export s' (db_exports db)\<rparr>, Inr s'))"

definition EndExportRuntimeRequest :: "RuntimeRequestEnd \<Rightarrow> session_db \<Rightarrow> session_db \<times> (sess_error + Session)" where
  "EndExportRuntimeRequest request db =
     (let request = request\<lparr>re_RequestID := trim_space (re_RequestID request), re_ExportID := trim_space (re_ExportID request)\<rparr> in
      case export_check (RuntimeRequestEnd_Validate request) of
        Some err \<Rightarrow> (db, Inl err)
      | None \<Rightarrow> exportRuntimeRequestEndSQL request db)"

section \<open>Recovery of stale requests\<close>

text \<open>\<open>locked\<close> are the requests that other transactions hold, which the statement skips.\<close>

definition stale_requests :: "string set \<Rightarrow> go_time \<Rightarrow> int \<Rightarrow> RuntimeRequest list \<Rightarrow> RuntimeRequest list" where
  "stale_requests locked now limit rows =
     take (nat limit) (sort_key (\<lambda>r. (rr_HeartbeatExpiresAt r, rr_ID r))
       (filter (\<lambda>r. rr_State r = RequestOpen \<and> rr_HeartbeatExpiresAt r \<le> now \<and> rr_ID r \<notin> locked) rows))"

definition request_count :: "string \<Rightarrow> RuntimeRequest list \<Rightarrow> int" where
  "request_count exportID rows = int (length (filter (\<lambda>r. rr_ExportID r = exportID) rows))"

definition write_count :: "string \<Rightarrow> RuntimeRequest list \<Rightarrow> int" where
  "write_count exportID rows = int (length (filter (\<lambda>r. rr_ExportID r = exportID \<and> rr_Write r) rows))"

definition all_groups_eligible :: "RuntimeRequest list \<Rightarrow> session_db \<Rightarrow> bool" where
  "all_groups_eligible stale db \<longleftrightarrow>
     list_all (\<lambda>r. case find_export (rr_ExportID r) (db_exports db) of
        None \<Rightarrow> False
      | Some s \<Rightarrow> xs_ActiveRequestCount s \<ge> request_count (rr_ExportID r) stale \<and>
          xs_ActiveWriteCount s \<ge> write_count (rr_ExportID r) stale) stale"

definition recovered_request :: "go_time \<Rightarrow> RuntimeRequest list \<Rightarrow> RuntimeRequest \<Rightarrow> RuntimeRequest" where
  "recovered_request now stale r =
     (if rr_ID r \<in> set (map rr_ID stale) then closed_request RequestRecovered ''stale_gateway_heartbeat'' now now r else r)"

definition recovered_session :: "go_time \<Rightarrow> RuntimeRequest list \<Rightarrow> Session \<Rightarrow> Session" where
  "recovered_session now stale s =
     (if xs_ID s \<in> set (map rr_ExportID stale)
      then released_session (request_count (xs_ID s) stale) (write_count (xs_ID s) stale) now now s else s)"

definition exportRuntimeRequestRecoverStaleSQL ::
    "string set \<Rightarrow> go_time \<Rightarrow> int \<Rightarrow> session_db \<Rightarrow> session_db \<times> (sess_error + int \<times> int)" where
  "exportRuntimeRequestRecoverStaleSQL locked now limit db =
     (let stale = stale_requests locked now limit (db_requests db);
          requests = map (recovered_request now stale) (db_requests db);
          exports = map (\<lambda>row. (recovered_session now stale (fst row), snd row)) (db_exports db) in
      if \<not> all_groups_eligible stale db then (db, Inl SessNoRows)
      else if \<not> list_all request_checks requests \<or> \<not> list_all (\<lambda>row. session_checks (fst row)) exports then (db, Inl SessCheckViolation)
      else (db\<lparr>db_requests := requests, db_exports := exports\<rparr>,
            Inr (int (length stale), int (length (filter rr_Write stale)))))"

definition RecoverStaleExportRuntimeRequests ::
    "string set \<Rightarrow> StaleRuntimeRequestRecovery \<Rightarrow> session_db \<Rightarrow> session_db \<times> (sess_error + int \<times> int)" where
  "RecoverStaleExportRuntimeRequests locked request db =
     (case export_check (StaleRuntimeRequestRecovery_Validate request) of
        Some err \<Rightarrow> (db, Inl err)
      | None \<Rightarrow> exportRuntimeRequestRecoverStaleSQL locked (sr_Now request) (sr_Limit request) db)"

section \<open>Closing sessions\<close>

definition no_open_request :: "string \<Rightarrow> session_db \<Rightarrow> bool" where
  "no_open_request exportID db \<longleftrightarrow> \<not> list_ex (\<lambda>r. rr_ExportID r = exportID \<and> rr_State r = RequestOpen) (db_requests db)"

definition terminal_candidate :: "go_time \<Rightarrow> session_db \<Rightarrow> Session \<Rightarrow> bool" where
  "terminal_candidate now db s \<longleftrightarrow>
     xs_ActiveRequestCount s = 0 \<and> xs_ActiveWriteCount s = 0 \<and> no_open_request (xs_ID s) db \<and>
     (xs_Status s = ExportStatusRevoking \<or> (xs_Status s = ExportStatusActive \<and> xs_ExpiresAt s \<le> now))"

definition ListExportSessionsForTerminalReconcile :: "go_time \<Rightarrow> int \<Rightarrow> session_db \<Rightarrow> sess_error + Session list" where
  "ListExportSessionsForTerminalReconcile now limit db =
     (if is_zero now then Inl (invalid_request ''now'' ''terminal reconcile list time must be set'')
      else if limit \<le> 0 then Inl (invalid_request ''limit'' ''terminal reconcile list limit must be positive'')
      else Inr (take (nat limit) (sort_key (\<lambda>s. (xs_UpdatedAt s, xs_ID s))
        (filter (terminal_candidate now db) (map fst (db_exports db))))))"

definition terminal_eligible :: "ReconcileRequest \<Rightarrow> session_db \<Rightarrow> Session \<Rightarrow> bool" where
  "terminal_eligible request db s \<longleftrightarrow>
     xs_ActiveRequestCount s = 0 \<and> xs_ActiveWriteCount s = 0 \<and> rq_ActiveRequestCount request = 0 \<and> rq_ActiveWriteCount request = 0 \<and>
     no_open_request (xs_ID s) db \<and>
     (rq_TargetStatus request = ExportStatusRevoked \<and> xs_Status s = ExportStatusRevoking \<and> xs_RevokedAt s \<noteq> None \<or>
      rq_TargetStatus request = ExportStatusExpired \<and> xs_Status s = ExportStatusActive \<and> xs_ExpiresAt s \<le> rq_ObservedAt request \<or>
      rq_TargetStatus request = ExportStatusFailed \<and> btrim (trim_space (rq_StatusReason request)) \<noteq> [])"

definition terminal_session :: "ReconcileRequest \<Rightarrow> Session \<Rightarrow> Session" where
  "terminal_session request s =
     s\<lparr>xs_Status := rq_TargetStatus request, xs_TerminalObservedAt := Some (rq_ObservedAt request),
        xs_ActiveRequestCount := 0, xs_ActiveWriteCount := 0,
        xs_WriteDrainedAt := Some (case xs_WriteDrainedAt s of None \<Rightarrow> rq_ObservedAt request | Some t \<Rightarrow> t),
        xs_StatusReason := trim_space (rq_StatusReason request), xs_UpdatedAt := rq_ObservedAt request\<rparr>"

definition exportReconcileTerminalSQL ::
    "operation_row \<Rightarrow> ReconcileRequest \<Rightarrow> OutboxRecord \<Rightarrow> session_db \<Rightarrow>
      session_db \<times> (sess_error + (Session \<times> operation_row \<times> bool))" where
  "exportReconcileTerminalSQL row request outboxRecord db =
     (case existing_operation OperationExportSessionReconcile row db of
        Some q \<Rightarrow>
          (db, case session_of_operation (row_namespace_id row) q db of None \<Rightarrow> Inl SessNoRows | Some s \<Rightarrow> Inr (s, q, False))
      | None \<Rightarrow>
      case find_export (rq_ExportID request) (db_exports db) of
        None \<Rightarrow> (db, Inl SessNoRows)
      | Some s \<Rightarrow>
      if xs_NamespaceID s \<noteq> row_namespace_id row \<or> \<not> terminal_eligible request db s \<or>
         row_operation_state row \<noteq> OperationStateSucceeded \<or> row_operation_type row \<noteq> OperationExportSessionReconcile \<or>
         row_phase row \<noteq> ''export_session_reconcile_committed'' \<or> row_resource_type row \<noteq> ''export'' \<or>
         Some (row_resource_id row) \<noteq> row_export_id row \<or> row_export_id row \<noteq> Some (rq_ExportID request)
        then (db, Inl SessNoRows)
      else
      case insert_or_reuse row (db_operations db) of
        Inl err \<Rightarrow> (db, Inl (SessOp err))
      | Inr (rows, q, inserted) \<Rightarrow>
      if \<not> inserted then (db, Inl SessNoRows)
      else if \<not> session_checks (terminal_session request s) then (db, Inl SessCheckViolation)
      else
      case insert_row outboxRecord (db_outbox db) of
        Inl err \<Rightarrow> (db, Inl (SessOp (AuditRowError err)))
      | Inr outbox \<Rightarrow>
          (db\<lparr>db_operations := rows, db_exports := put_export (terminal_session request s) (db_exports db), db_outbox := outbox\<rparr>,
           Inr (terminal_session request s, q, True)))"

definition ReconcileExportSessionTerminal ::
    "(AuditEvent \<Rightarrow> string + string) \<Rightarrow> ReconcileRequest \<Rightarrow> session_db \<Rightarrow> session_db \<times> (sess_error + CommitResult)" where
  "ReconcileExportSessionTerminal marshal request db =
     (let request = request\<lparr>rq_ExportID := trim_space (rq_ExportID request), rq_NamespaceID := trim_space (rq_NamespaceID request)\<rparr>;
          opr = Record (SanitizedForPersistence (rq_Operation request)) in
      case checks
        [export_check (path_check ExportID (rq_ExportID request)),
         export_check (path_check NamespaceID (rq_NamespaceID request)),
         check (is_zero (rq_ObservedAt request)) (invalid_request ''observed_at'' ''terminal observation time must be set''),
         check (rq_ActiveRequestCount request \<noteq> 0 \<or> rq_ActiveWriteCount request \<noteq> 0)
           (invalid_request ''active_counts'' ''terminal reconcile requires zero active counts''),
         (if rq_TargetStatus request \<in> {ExportStatusRevoked, ExportStatusExpired} then None
          else if rq_TargetStatus request = ExportStatusFailed
            then check (trim_space (rq_StatusReason request) = []) (invalid_request ''status_reason'' ''failed export reconcile requires a reason'')
          else Some (invalid_request ''status'' ''export terminal reconcile requires revoked, expired, or failed'')),
         validateExportOperationRecord opr OperationExportSessionReconcile ''export_session_reconcile_committed'' (rq_ExportID request),
         check (op_NamespaceID opr \<noteq> rq_NamespaceID request) (invalid_request ''namespace_id'' ''operation namespace must match reconcile request''),
         validateExportAuditEvent opr (rq_Audit request) EventTypeExportSessionReconcile] of
        Some err \<Rightarrow> (db, Inl err)
      | None \<Rightarrow>
      case operationInsertArgs opr of
        Inl err \<Rightarrow> (db, Inl (SessOp err))
      | Inr row \<Rightarrow>
      case NewOutboxRecord marshal (rq_Audit request) (rq_ObservedAt request) of
        Inl err \<Rightarrow> (db, Inl (SessOp (AuditError err)))
      | Inr outboxRecord \<Rightarrow>
      case exportReconcileTerminalSQL row request outboxRecord db of
        (db', Inl err) \<Rightarrow> (db', Inl err)
      | (db', Inr (s, q, inserted)) \<Rightarrow> (db', commit_result opr s q inserted))"

section \<open>What the session gates read\<close>

text \<open>\<open>scanExportSession\<close> and \<open>scanWorkloadMountBinding\<close> of \<open>session_state.go\<close>.\<close>

definition scanExportSession :: "Session \<Rightarrow> ExportSession" where
  "scanExportSession s =
     \<lparr>es_ID = xs_ID s, es_NamespaceID = xs_NamespaceID s, es_RepoID = xs_RepoID s, es_Mode = xs_Mode s, es_Status = xs_Status s,
      es_ExpiresAt = xs_ExpiresAt s, es_ActiveRequestCount = xs_ActiveRequestCount s, es_ActiveWriteCount = xs_ActiveWriteCount s,
      es_LastObservedAt = xs_LastObservedAt s, es_LastGatewayHeartbeatAt = xs_LastGatewayHeartbeatAt s,
      es_GatewayHeartbeatExpiresAt = xs_GatewayHeartbeatExpiresAt s, es_WriteDrainedAt = xs_WriteDrainedAt s,
      es_TerminalObservedAt = xs_TerminalObservedAt s, es_StatusReason = xs_StatusReason s,
      es_CreatedAt = xs_CreatedAt s, es_UpdatedAt = xs_UpdatedAt s\<rparr>"

definition scanWorkloadMountBinding :: "Binding \<Rightarrow> WorkloadMountBinding" where
  "scanWorkloadMountBinding m =
     \<lparr>mb_ID = wb_ID m, mb_NamespaceID = wb_NamespaceID m, mb_RepoID = wb_RepoID m, mb_ReadOnly = wb_ReadOnly m,
      mb_Status = wb_Status m, mb_LeaseExpiresAt = wb_LeaseExpiresAt m, mb_ConfirmedUnmountedAt = wb_ConfirmedUnmountedAt m,
      mb_UnableToWriteAt = wb_UnableToWriteAt m, mb_TerminalObservedAt = wb_TerminalObservedAt m,
      mb_CreatedAt = wb_CreatedAt m, mb_UpdatedAt = wb_UpdatedAt m\<rparr>"

definition ListExportSessionsByRepo :: "string \<Rightarrow> session_db \<Rightarrow> sess_error + ExportSession list" where
  "ListExportSessionsByRepo repoID db =
     (case export_check (path_check RepoID repoID) of
        Some err \<Rightarrow> Inl err
      | None \<Rightarrow> Inr (map scanExportSession (sort_key (\<lambda>s. (xs_CreatedAt s, xs_ID s))
          (filter (\<lambda>s. xs_RepoID s = repoID) (map fst (db_exports db))))))"

definition ListWorkloadMountBindingsByRepo :: "string \<Rightarrow> session_db \<Rightarrow> sess_error + WorkloadMountBinding list" where
  "ListWorkloadMountBindingsByRepo repoID db =
     (case export_check (path_check RepoID repoID) of
        Some err \<Rightarrow> Inl err
      | None \<Rightarrow> Inr (map scanWorkloadMountBinding (sort_key (\<lambda>m. (wb_CreatedAt m, wb_ID m))
          (filter (\<lambda>m. wb_RepoID m = repoID) (db_mounts db)))))"

end
