(* ===== verification/Typed_Commits.thy ===== *)
theory Typed_Commits
  imports Export_Store
begin

text \<open>
  The shape that the typed commits of \<open>internal/store/postgres\<close> share: one statement that
  updates the operation under its lease, changes the rows of a resource and adds an audit
  row. Of its parts the update of the operation takes effect also when the resource has no
  matching row; then nothing else changes, the statement has no row and the caller is told
  that the lease is unavailable.
\<close>

section \<open>The statement\<close>

text \<open>The effect on the resource sees the updated row of the operation: an error, no row, or the changed
  database with what is returned.\<close>

type_synonym 'a effect = "operation_row \<Rightarrow> session_db \<Rightarrow> sess_error + (session_db \<times> 'a) option"

definition fenced_commit ::
    "string \<Rightarrow> string \<Rightarrow> (AuditEvent \<Rightarrow> string + string) \<Rightarrow> OperationRecord \<Rightarrow> string \<Rightarrow> go_time \<Rightarrow> AuditEvent \<Rightarrow>
      (operation_row \<Rightarrow> session_db \<Rightarrow> bool) \<Rightarrow> 'a effect \<Rightarrow> session_db \<Rightarrow> session_db \<times> (sess_error + 'a \<times> OperationRecord)" where
  "fenced_commit what ident marshal opr owner now event cond effect db =
     (case operationLeaseFencedUpdateArgs opr owner now of
        Inl err \<Rightarrow> (db, Inl (SessOp err))
      | Inr args \<Rightarrow>
      case NewOutboxRecord marshal event now of
        Inl err \<Rightarrow> (db, Inl (SessOp (AuditError err)))
      | Inr outboxRecord \<Rightarrow>
      case update_returning (fa_operationID args) (\<lambda>r. fenced_cond args r \<and> cond r db) (operationLeaseFencedUpdateBaseSQL args) (db_operations db) of
        Inl (NoRows _) \<Rightarrow> (db, Inl (SessOp (LeaseUnavailable what ident)))
      | Inl err \<Rightarrow> (db, Inl (SessOp err))
      | Inr (rows, row) \<Rightarrow>
      case effect row db of
        Inl err \<Rightarrow> (db, Inl err)
      | Inr None \<Rightarrow> (db\<lparr>db_operations := rows\<rparr>, Inl (SessOp (LeaseUnavailable what ident)))
      | Inr (Some (db', x)) \<Rightarrow>
      case insert_row outboxRecord (db_outbox db) of
        Inl err \<Rightarrow> (db, Inl (SessOp (AuditRowError err)))
      | Inr outbox \<Rightarrow>
          (db'\<lparr>db_operations := rows, db_outbox := outbox\<rparr>,
           case scanOperation row of Inl err \<Rightarrow> Inl (SessOp err) | Inr got \<Rightarrow> Inr (x, got)))"

text \<open>\<open>input_summary @> jsonb_build_object(...)\<close> with scalar values.\<close>

definition summary_has :: "operation_row \<Rightarrow> (string \<times> json) list \<Rightarrow> bool" where
  "summary_has r kvs \<longleftrightarrow>
     (case row_input_summary r of
        JObject m \<Rightarrow> list_all (\<lambda>kv. map_of m (fst kv) = Some (snd kv)) kvs
      | _ \<Rightarrow> False)"

section \<open>What a commit does\<close>

text \<open>Nothing changes, or only the operation is updated, or the operation is updated, the effect is made
  and one audit row is added.\<close>

lemma fenced_commit_cases:
  assumes "fenced_commit what ident marshal opr owner now event cond effect db = (db', res)"
  obtains (unchanged) err where "db' = db" "res = Inl err"
  | (no_row) args rows row where "operationLeaseFencedUpdateArgs opr owner now = Inr args"
      "update_returning (fa_operationID args) (\<lambda>r. fenced_cond args r \<and> cond r db) (operationLeaseFencedUpdateBaseSQL args) (db_operations db) = Inr (rows, row)"
      "effect row db = Inr None" "db' = db\<lparr>db_operations := rows\<rparr>" "res = Inl (SessOp (LeaseUnavailable what ident))"
  | (committed) args rows row db1 x outboxRecord outbox where "operationLeaseFencedUpdateArgs opr owner now = Inr args"
      "update_returning (fa_operationID args) (\<lambda>r. fenced_cond args r \<and> cond r db) (operationLeaseFencedUpdateBaseSQL args) (db_operations db) = Inr (rows, row)"
      "effect row db = Inr (Some (db1, x))" "NewOutboxRecord marshal event now = Inr outboxRecord" "insert_row outboxRecord (db_outbox db) = Inr outbox"
      "db' = db1\<lparr>db_operations := rows, db_outbox := outbox\<rparr>"
      "res = (case scanOperation row of Inl err \<Rightarrow> Inl (SessOp err) | Inr got \<Rightarrow> Inr (x, got))"
proof -
  note u = assms [unfolded fenced_commit_def]
  show ?thesis
  proof (cases "operationLeaseFencedUpdateArgs opr owner now")
    case (Inl err)
    with u unchanged show ?thesis by auto
  next
    case args: (Inr args)
    show ?thesis
    proof (cases "NewOutboxRecord marshal event now")
      case (Inl err)
      with u args unchanged show ?thesis by auto
    next
      case outboxRecord: (Inr outboxRecord)
      show ?thesis
      proof (cases "update_returning (fa_operationID args) (\<lambda>r. fenced_cond args r \<and> cond r db) (operationLeaseFencedUpdateBaseSQL args) (db_operations db)")
        case (Inl err)
        with u args outboxRecord unchanged show ?thesis by (cases err) auto
      next
        case updated: (Inr upd)
        obtain rows row where upd: "upd = (rows, row)" by (cases upd)
        show ?thesis
        proof (cases "effect row db")
          case (Inl err)
          with u args outboxRecord updated upd unchanged show ?thesis by auto
        next
          case made: (Inr eff)
          show ?thesis
          proof (cases eff)
            case None
            with u args outboxRecord updated upd made no_row show ?thesis by auto
          next
            case (Some dx)
            obtain db1 x where dx: "dx = (db1, x)" by (cases dx)
            with u args outboxRecord updated upd made Some unchanged committed show ?thesis
              by (cases "insert_row outboxRecord (db_outbox db)") auto
          qed
        qed
      qed
    qed
  qed
qed

lemma fenced_commit_row:
  assumes "update_returning ident (\<lambda>r. fenced_cond args r \<and> cond r) (operationLeaseFencedUpdateBaseSQL args) rows0 = Inr (rows, row)"
  obtains r where "r \<in> set rows0" "row_operation_id r = ident" "fenced_cond args r" "cond r" "row = operationLeaseFencedUpdateBaseSQL args r"
    "rows = map (\<lambda>q. if row_operation_id q = row_operation_id row then row else q) rows0"
proof -
  from assms obtain r where r: "find (\<lambda>r. row_operation_id r = ident \<and> fenced_cond args r \<and> cond r) rows0 = Some r"
      "write_row (operationLeaseFencedUpdateBaseSQL args r) rows0 = Inr rows" "row = operationLeaseFencedUpdateBaseSQL args r"
    by (auto simp: update_returning_def split: option.splits sum.splits)
  from r(1) have "r \<in> set rows0 \<and> row_operation_id r = ident \<and> fenced_cond args r \<and> cond r" by (auto simp: find_Some_iff)
  with r(2,3) that show ?thesis by (auto simp: write_row_def split: option.splits if_splits)
qed

end
