(* ===== verification/Mount_Store.thy ===== *)
theory Mount_Store
  imports Typed_Commits
begin

text \<open>
  Workload mount bindings in the database: \<open>internal/store/postgres/workload_mount_bindings.go\<close>.
  The worker creates a binding, records what the orchestrator observes, renews its lease and
  asks for its release; a binding that is released, revoked, expired or failed stays so.
\<close>

section \<open>Rows\<close>

definition mount_checks :: "Binding \<Rightarrow> bool" where
  "mount_checks m \<longleftrightarrow> ValidStatus (wb_Status m) \<and> - max_int32 - 1 \<le> wb_LeaseSeconds m \<and> wb_LeaseSeconds m \<le> max_int32"

definition find_mount :: "string \<Rightarrow> session_db \<Rightarrow> Binding option" where
  "find_mount ident db = find (\<lambda>m. wb_ID m = ident) (db_mounts db)"

definition put_mount :: "Binding \<Rightarrow> Binding list \<Rightarrow> Binding list" where
  "put_mount m rows = map (\<lambda>q. if wb_ID q = wb_ID m then m else q) rows"

section \<open>Checks of the commit requests\<close>

definition validateWorkloadMountOperationRecord :: "OperationRecord \<Rightarrow> OperationType \<Rightarrow> string \<Rightarrow> string \<Rightarrow> sess_error option" where
  "validateWorkloadMountOperationRecord opr typ phase mountBindingID =
     checks
      [check (op_Type opr \<noteq> typ) (invalid_request ''operation_type'' ''operation type does not match workload mount commit''),
       check (op_State opr \<noteq> OperationStateSucceeded) (invalid_request ''operation_state'' ''workload mount commit requires succeeded operation update''),
       check (trim_space (op_Phase opr) \<noteq> phase) (invalid_request ''phase'' ''workload mount commit requires committed phase''),
       export_check (path_check WorkloadMountBindingID mountBindingID),
       check (op_MountBindingID opr \<noteq> mountBindingID \<or> resource_Type (op_Resource opr) \<noteq> ''workload_mount_binding'' \<or>
           resource_ID (op_Resource opr) \<noteq> mountBindingID)
         (invalid_request ''mount_binding_id'' ''operation must target workload mount binding'')]"

definition validateWorkloadMountAuditEvent :: "OperationRecord \<Rightarrow> AuditEvent \<Rightarrow> sess_error option" where
  "validateWorkloadMountAuditEvent opr event =
     checks
      [check (ev_OperationID event \<noteq> op_ID opr) (audit_invalid ''operation_id'' ''audit operation id must match operation update''),
       check (EventTypeForOperationType (OperationType_String (op_Type opr)) = None) (audit_invalid ''event_type'' ''operation type has no audit event type''),
       check (EventTypeForOperationType (OperationType_String (op_Type opr)) \<noteq> Some (ev_Type event))
         (audit_invalid ''event_type'' ''workload mount audit event must match operation type''),
       check (ev_Outcome event \<noteq> OutcomeSucceeded) (audit_invalid ''outcome'' ''workload mount audit outcome must be succeeded''),
       check (ares_Type (ev_Resource event) \<noteq> ''workload_mount_binding'' \<or> ares_ID (ev_Resource event) \<noteq> op_MountBindingID opr \<or>
           ares_NamespaceID (ev_Resource event) \<noteq> op_NamespaceID opr)
         (audit_invalid ''resource'' ''workload mount audit resource must match operation''),
       check (ev_CallerService event \<noteq> op_CallerService opr \<or> ev_CorrelationID event \<noteq> op_CorrelationID opr \<or>
           ev_AuthorizedActor event \<noteq> op_AuthorizedActor opr)
         (audit_invalid ''caller'' ''workload mount audit caller context must match operation'')]"

text \<open>\<open>commitWorkloadMountBinding\<close>: the row that is read back is validated.\<close>

definition validated_mount :: "sess_error + Binding \<times> OperationRecord \<Rightarrow> sess_error + Binding \<times> OperationRecord" where
  "validated_mount res =
     (case res of
        Inl err \<Rightarrow> Inl err
      | Inr (m, opr) \<Rightarrow> (case export_check (Binding_Validate m) of Some err \<Rightarrow> Inl err | None \<Rightarrow> Inr (m, opr)))"

definition commitWorkloadMountBinding ::
    "(AuditEvent \<Rightarrow> string + string) \<Rightarrow> OperationRecord \<Rightarrow> string \<Rightarrow> go_time \<Rightarrow> AuditEvent \<Rightarrow>
      (operation_row \<Rightarrow> session_db \<Rightarrow> bool) \<Rightarrow> Binding effect \<Rightarrow> session_db \<Rightarrow> session_db \<times> (sess_error + Binding \<times> OperationRecord)" where
  "commitWorkloadMountBinding marshal opr owner now event cond effect db =
     (case fenced_commit ''workload mount binding commit'' [] marshal opr owner now event cond effect db of
        (db', res) \<Rightarrow> (db', validated_mount res))"

section \<open>Creating a binding\<close>

definition mount_namespace_binding :: "string \<Rightarrow> session_db \<Rightarrow> bool" where
  "mount_namespace_binding namespaceID db \<longleftrightarrow>
     list_ex (\<lambda>b. nvb_NamespaceID b = namespaceID \<and> nvb_Status b = NamespaceStatusActive \<and>
       json_flag (nvb_MountPolicy b) ''workload_mount_enabled'' \<and>
       json_flag (nvb_MountPolicy b) ''workload_mount_requires_external_control_root'') (db_bindings db)"

definition mount_repo :: "Binding \<Rightarrow> session_db \<Rightarrow> bool" where
  "mount_repo m db \<longleftrightarrow>
     list_ex (\<lambda>r. repo_NamespaceID r = wb_NamespaceID m \<and> repo_ID r = wb_RepoID m \<and> repo_VolumeID r = wb_VolumeID m \<and> repo_is_active r) (db_repos db)"

definition mount_volume :: "string \<Rightarrow> session_db \<Rightarrow> bool" where
  "mount_volume volumeID db \<longleftrightarrow>
     list_ex (\<lambda>v. vol_ID v = volumeID \<and> vol_Status v = VolumeStatusActive \<and>
       json_flag (vol_Capabilities v) ''workload_mount'' \<and> json_flag (vol_Capabilities v) ''jvs_external_control_root'') (db_volumes db)"

definition mount_target_ready :: "Binding \<Rightarrow> session_db \<Rightarrow> bool" where
  "mount_target_ready m db \<longleftrightarrow>
     active_namespace (wb_NamespaceID m) db \<and> mount_namespace_binding (wb_NamespaceID m) db \<and> mount_repo m db \<and>
     mount_volume (wb_VolumeID m) db \<and> \<not> held KindLifecycle (wb_RepoID m) db \<and>
     (wb_ReadOnly m \<or> \<not> held KindWriterSession (wb_RepoID m) db)"

definition mount_create_cond :: "Binding \<Rightarrow> operation_row \<Rightarrow> session_db \<Rightarrow> bool" where
  "mount_create_cond m r db \<longleftrightarrow>
     row_operation_type r = OperationMountBindingCreate \<and> row_phase r = ''validate_mount_binding_create'' \<and>
     row_mount_binding_id r = Some (wb_ID m) \<and> row_namespace_id r = wb_NamespaceID m \<and> row_repo_id r = Some (wb_RepoID m) \<and>
     row_resource_type r = ''workload_mount_binding'' \<and> row_resource_id r = wb_ID m \<and>
     summary_has r [(''mount_binding_id'', JString (wb_ID m)), (''namespace_id'', JString (wb_NamespaceID m)),
       (''repo_id'', JString (wb_RepoID m)), (''volume_id'', JString (wb_VolumeID m)), (''mount_path'', JString (wb_MountPath m)),
       (''read_only'', JBool (wb_ReadOnly m)), (''lease_seconds'', JNumber (float64_of_int (wb_LeaseSeconds m)))] \<and>
     mount_target_ready m db"

definition insert_mount :: "Binding \<Rightarrow> Binding effect" where
  "insert_mount m row db =
     (if \<not> mount_checks m then Inl SessCheckViolation
      else if find_mount (wb_ID m) db \<noteq> None then Inl SessDuplicateMount
      else Inr (Some (db\<lparr>db_mounts := db_mounts db @ [m]\<rparr>, m)))"

definition CommitWorkloadMountBindingCreateWithLease ::
    "(AuditEvent \<Rightarrow> string + string) \<Rightarrow> Binding \<Rightarrow> SanitizedOperationRecord \<Rightarrow> string \<Rightarrow> go_time \<Rightarrow> AuditEvent \<Rightarrow> session_db \<Rightarrow>
      session_db \<times> (sess_error + Binding \<times> OperationRecord)" where
  "CommitWorkloadMountBindingCreateWithLease marshal m sanitized owner now event db =
     (let opr = Record sanitized in
      case checks
        [export_check (Binding_Validate m),
         validateWorkloadMountOperationRecord opr OperationMountBindingCreate ''mount_binding_create_committed'' (wb_ID m),
         check (op_NamespaceID opr \<noteq> wb_NamespaceID m \<or> op_RepoID opr \<noteq> wb_RepoID m)
           (invalid_request ''binding'' ''operation metadata must match workload mount binding''),
         validateWorkloadMountAuditEvent opr event] of
        Some err \<Rightarrow> (db, Inl err)
      | None \<Rightarrow> commitWorkloadMountBinding marshal opr owner now event (mount_create_cond m) (insert_mount m) db)"

section \<open>Updates of a binding\<close>

text \<open>\<open>workloadMountBindingUpdateCommitSQL\<close>: the binding of the operation, changed by the \<open>SET\<close> clause.\<close>

definition mount_update_cond :: "OperationType \<Rightarrow> string \<Rightarrow> string \<Rightarrow> operation_row \<Rightarrow> session_db \<Rightarrow> bool" where
  "mount_update_cond typ phase ident r db \<longleftrightarrow>
     row_operation_type r = typ \<and> row_phase r = phase \<and> row_mount_binding_id r = Some ident \<and>
     row_resource_type r = ''workload_mount_binding'' \<and> row_resource_id r = ident"

definition update_mount :: "string \<Rightarrow> (Binding \<Rightarrow> Binding) \<Rightarrow> Binding effect" where
  "update_mount ident f row db =
     (case find_mount ident db of
        None \<Rightarrow> Inr None
      | Some m \<Rightarrow>
        if wb_NamespaceID m \<noteq> row_namespace_id row \<or> Some (wb_RepoID m) \<noteq> row_repo_id row then Inr None
        else if \<not> mount_checks (f m) then Inl SessCheckViolation
        else Inr (Some (db\<lparr>db_mounts := put_mount (f m) (db_mounts db)\<rparr>, f m)))"

definition commit_mount_update ::
    "OperationType \<Rightarrow> string \<Rightarrow> string \<Rightarrow> (Binding \<Rightarrow> Binding) \<Rightarrow> (AuditEvent \<Rightarrow> string + string) \<Rightarrow> OperationRecord \<Rightarrow> string \<Rightarrow> go_time \<Rightarrow>
      AuditEvent \<Rightarrow> session_db \<Rightarrow> session_db \<times> (sess_error + Binding \<times> OperationRecord)" where
  "commit_mount_update typ phase ident f marshal opr owner now event db =
     commitWorkloadMountBinding marshal opr owner now event (mount_update_cond typ phase ident) (update_mount ident f) db"

definition status_refused :: "MountStatus \<Rightarrow> Binding \<Rightarrow> bool" where
  "status_refused status m \<longleftrightarrow>
     Mount_Terminal (wb_Status m) \<or> wb_Status m = MountStatusReleasing \<and> status \<in> {MountStatusPending, MountStatusActive}"

definition status_mount :: "MountStatus \<Rightarrow> string \<Rightarrow> go_time \<Rightarrow> go_time option \<Rightarrow> go_time \<Rightarrow> Binding \<Rightarrow> Binding" where
  "status_mount status reason observedAt leaseExpiresAt now m =
     (let ends = Mount_Terminal status \<and> \<not> Mount_Terminal (wb_Status m);
          unmounts = status \<in> {MountStatusReleased, MountStatusRevoked} \<and> \<not> Mount_Terminal (wb_Status m) in
      m\<lparr>wb_Status := if status_refused status m then wb_Status m else status,
         wb_LastObservedAt := if status_refused status m then wb_LastObservedAt m else Some observedAt,
         wb_LeaseExpiresAt := if status_refused status m then wb_LeaseExpiresAt m
           else case leaseExpiresAt of Some t \<Rightarrow> t | None \<Rightarrow> wb_LeaseExpiresAt m,
         wb_TerminalObservedAt := if ends then Some observedAt else wb_TerminalObservedAt m,
         wb_ConfirmedUnmountedAt := if unmounts then Some observedAt else wb_ConfirmedUnmountedAt m,
         wb_UnableToWriteAt := if unmounts then Some observedAt else wb_UnableToWriteAt m,
         wb_StatusReason := if status_refused status m then wb_StatusReason m else reason,
         wb_UpdatedAt := now\<rparr>)"

definition CommitWorkloadMountBindingStatusWithLease ::
    "(AuditEvent \<Rightarrow> string + string) \<Rightarrow> string \<Rightarrow> MountStatus \<Rightarrow> string \<Rightarrow> go_time \<Rightarrow> go_time option \<Rightarrow> SanitizedOperationRecord \<Rightarrow>
      string \<Rightarrow> go_time \<Rightarrow> AuditEvent \<Rightarrow> session_db \<Rightarrow> session_db \<times> (sess_error + Binding \<times> OperationRecord)" where
  "CommitWorkloadMountBindingStatusWithLease marshal ident status reason observedAt leaseExpiresAt sanitized owner now event db =
     (let opr = Record sanitized in
      case checks
        [validateWorkloadMountOperationRecord opr OperationMountBindingStatusUpdate ''mount_binding_status_update_committed'' ident,
         check (\<not> ValidOrchestratorStatus status) (invalid_request ''status'' ''invalid workload mount status''),
         check (is_zero observedAt) (invalid_request ''observed_at'' ''observed_at must be set''),
         check (length (trim_space reason) > 1024) (invalid_request ''reason'' ''workload mount status reason is too long''),
         check (case leaseExpiresAt of None \<Rightarrow> False | Some t \<Rightarrow> t < observedAt)
           (invalid_request ''lease_expires_at'' ''lease_expires_at cannot be before observed_at''),
         validateWorkloadMountAuditEvent opr event] of
        Some err \<Rightarrow> (db, Inl err)
      | None \<Rightarrow>
        commit_mount_update OperationMountBindingStatusUpdate ''validate_mount_binding_status_update'' ident
          (status_mount status (trim_space reason) observedAt leaseExpiresAt now) marshal opr owner now event db)"

definition second :: go_duration where "second = 1000000000"

definition heartbeat_mount :: "go_time \<Rightarrow> Binding \<Rightarrow> Binding" where
  "heartbeat_mount now m =
     (let fixed = Mount_Terminal (wb_Status m) \<or> wb_Status m = MountStatusReleasing in
      m\<lparr>wb_LastHeartbeatAt := if fixed then wb_LastHeartbeatAt m else Some now,
         wb_LeaseExpiresAt := if fixed then wb_LeaseExpiresAt m else now + wb_LeaseSeconds m * second,
         wb_UpdatedAt := now\<rparr>)"

definition CommitWorkloadMountBindingHeartbeatWithLease ::
    "(AuditEvent \<Rightarrow> string + string) \<Rightarrow> string \<Rightarrow> SanitizedOperationRecord \<Rightarrow> string \<Rightarrow> go_time \<Rightarrow> AuditEvent \<Rightarrow> session_db \<Rightarrow>
      session_db \<times> (sess_error + Binding \<times> OperationRecord)" where
  "CommitWorkloadMountBindingHeartbeatWithLease marshal ident sanitized owner now event db =
     (let opr = Record sanitized in
      case checks
        [validateWorkloadMountOperationRecord opr OperationMountBindingHeartbeat ''mount_binding_heartbeat_committed'' ident,
         validateWorkloadMountAuditEvent opr event] of
        Some err \<Rightarrow> (db, Inl err)
      | None \<Rightarrow>
        commit_mount_update OperationMountBindingHeartbeat ''validate_mount_binding_heartbeat'' ident (heartbeat_mount now)
          marshal opr owner now event db)"

definition releasing :: "string \<Rightarrow> go_time \<Rightarrow> Binding \<Rightarrow> Binding" where
  "releasing reason now m =
     m\<lparr>wb_Status := if Mount_Terminal (wb_Status m) then wb_Status m else MountStatusReleasing,
        wb_LastObservedAt := Some now,
        wb_StatusReason := if Mount_Terminal (wb_Status m) then wb_StatusReason m else reason,
        wb_UpdatedAt := now\<rparr>"

definition CommitWorkloadMountBindingReleaseWithLease ::
    "(AuditEvent \<Rightarrow> string + string) \<Rightarrow> string \<Rightarrow> SanitizedOperationRecord \<Rightarrow> string \<Rightarrow> go_time \<Rightarrow> AuditEvent \<Rightarrow> session_db \<Rightarrow>
      session_db \<times> (sess_error + Binding \<times> OperationRecord)" where
  "CommitWorkloadMountBindingReleaseWithLease marshal ident sanitized owner now event db =
     (let opr = Record sanitized in
      case checks
        [validateWorkloadMountOperationRecord opr OperationMountBindingRelease ''mount_binding_release_committed'' ident,
         validateWorkloadMountAuditEvent opr event] of
        Some err \<Rightarrow> (db, Inl err)
      | None \<Rightarrow>
        commit_mount_update OperationMountBindingRelease ''validate_mount_binding_release'' ident (releasing ''released'' now)
          marshal opr owner now event db)"

definition CommitWorkloadMountBindingRevokeWithLease ::
    "(AuditEvent \<Rightarrow> string + string) \<Rightarrow> string \<Rightarrow> SanitizedOperationRecord \<Rightarrow> string \<Rightarrow> go_time \<Rightarrow> AuditEvent \<Rightarrow> session_db \<Rightarrow>
      session_db \<times> (sess_error + Binding \<times> OperationRecord)" where
  "CommitWorkloadMountBindingRevokeWithLease marshal ident sanitized owner now event db =
     (let opr = Record sanitized in
      case checks
        [validateWorkloadMountOperationRecord opr OperationMountBindingRevoke ''mount_binding_revoke_committed'' ident,
         validateWorkloadMountAuditEvent opr event] of
        Some err \<Rightarrow> (db, Inl err)
      | None \<Rightarrow>
        commit_mount_update OperationMountBindingRevoke ''validate_mount_binding_revoke'' ident (releasing ''releasing'' now)
          marshal opr owner now event db)"

section \<open>Reading bindings\<close>

text \<open>The identifier is checked trimmed and looked up as it is.\<close>

definition GetWorkloadMountBinding :: "string \<Rightarrow> session_db \<Rightarrow> sess_error + Binding" where
  "GetWorkloadMountBinding ident db =
     (case export_check (path_check WorkloadMountBindingID (trim_space ident)) of
        Some err \<Rightarrow> Inl err
      | None \<Rightarrow> (case find_mount ident db of None \<Rightarrow> Inl SessNoRows | Some m \<Rightarrow> Inr m))"

definition stale_mount :: "go_time \<Rightarrow> Binding \<Rightarrow> bool" where
  "stale_mount now m \<longleftrightarrow>
     wb_LeaseExpiresAt m \<le> now \<and> wb_Status m \<in> {MountStatusIssued, MountStatusPending, MountStatusActive, MountStatusReleasing}"

definition ListStaleNonTerminalWorkloadMountBindings :: "go_time \<Rightarrow> int \<Rightarrow> session_db \<Rightarrow> sess_error + Binding list" where
  "ListStaleNonTerminalWorkloadMountBindings now limit db =
     (if is_zero now then Inl (SessExport (ExportText ''list stale workload mount bindings: now must be set''))
      else if limit \<le> 0 then Inl (SessExport (ExportText ''list stale workload mount bindings: limit must be positive''))
      else Inr (take (nat limit) (sort_key (\<lambda>m. (wb_LeaseExpiresAt m, wb_ID m)) (filter (stale_mount now) (db_mounts db)))))"

record StaleLeaseResult =
  sl_Scanned :: go_int
  sl_KeptBlocked :: go_int
  sl_Failed :: go_int

record StaleLeaseReconciler =
  slr_clock :: go_time
  slr_limit :: go_int

definition NewStaleLeaseReconciler :: "go_time option \<Rightarrow> go_int \<Rightarrow> export_error + StaleLeaseReconciler" where
  "NewStaleLeaseReconciler clock limit =
     (case clock of
        None \<Rightarrow> Inl (ExportText ''workload mount stale lease clock is required'')
      | Some t \<Rightarrow>
        if limit \<le> 0 then Inl (ExportText ''workload mount stale lease limit must be positive'')
        else Inr \<lparr>slr_clock = t, slr_limit = limit\<rparr>)"

definition StaleLease_RunOnce :: "StaleLeaseReconciler option \<Rightarrow> session_db \<Rightarrow> StaleLeaseResult \<times> sess_error option" where
  "StaleLease_RunOnce reconciler db =
     (let none = \<lparr>sl_Scanned = 0, sl_KeptBlocked = 0, sl_Failed = 0\<rparr> in
      case reconciler of
        None \<Rightarrow> (none, Some (SessExport (ExportText ''workload mount stale lease reconciler is not configured'')))
      | Some r \<Rightarrow>
        if slr_limit r \<le> 0 then (none, Some (SessExport (ExportText ''workload mount stale lease reconciler is not configured'')))
        else if is_zero (slr_clock r) then (none, Some (SessExport (ExportText ''workload mount stale lease reconcile time must be set'')))
        else case ListStaleNonTerminalWorkloadMountBindings (slr_clock r) (slr_limit r) db of
          Inl err \<Rightarrow> (none\<lparr>sl_Failed := 1\<rparr>, Some err)
        | Inr ms \<Rightarrow> (none\<lparr>sl_Scanned := int (length ms), sl_KeptBlocked := int (length ms)\<rparr>, None))"

section \<open>The plan of the orchestrator\<close>

record Plan =
  pl_MountBindingID :: string
  pl_VolumeID :: string
  pl_PayloadVolumeSubdir :: string
  pl_MountPath :: string
  pl_ReadOnly :: bool
  pl_SecretRef :: SecretRef
  pl_RunAsNonRoot :: bool
  pl_AllowPrivileged :: bool
  pl_JVSControlOutsidePayload :: bool

definition validateWorkloadMountRuntimeSecretRefs :: "(string \<times> SecretRef) list \<Rightarrow> export_error option" where
  "validateWorkloadMountRuntimeSecretRefs refs =
     check (list_ex (\<lambda>(volumeID, ref). ValidateID VolumeID volumeID \<noteq> None \<or> ValidateSecretRef ref \<noteq> None) refs)
       (ExportText ''workload mount runtime secret refs must be valid'')"

definition workloadMountRuntimeSecretRef :: "(string \<times> SecretRef) list \<Rightarrow> string \<Rightarrow> export_error + SecretRef" where
  "workloadMountRuntimeSecretRef refs volumeID =
     (case validateWorkloadMountRuntimeSecretRefs refs of
        Some err \<Rightarrow> Inl err
      | None \<Rightarrow>
      case map_of refs volumeID of
        None \<Rightarrow> Inl (ExportText ''workload mount runtime secret ref is not configured for volume'')
      | Some ref \<Rightarrow>
        if ValidateSecretRef ref \<noteq> None then Inl (ExportText ''workload mount runtime secret ref is invalid'') else Inr ref)"

definition issuance_repo :: "Binding \<Rightarrow> Repo \<Rightarrow> bool" where
  "issuance_repo m r \<longleftrightarrow>
     repo_NamespaceID r = wb_NamespaceID m \<and> repo_ID r = wb_RepoID m \<and> repo_VolumeID r = wb_VolumeID m \<and> repo_is_active r"

definition teardown_repo :: "Binding \<Rightarrow> Repo \<Rightarrow> bool" where
  "teardown_repo m r \<longleftrightarrow>
     repo_NamespaceID r = wb_NamespaceID m \<and> repo_ID r = wb_RepoID m \<and> repo_VolumeID r = wb_VolumeID m \<and> repo_Kind r = RepoKindRepo"

definition mount_policy :: "string \<Rightarrow> session_db \<Rightarrow> NamespaceVolumeBinding option" where
  "mount_policy namespaceID db =
     find (\<lambda>b. nvb_NamespaceID b = namespaceID \<and> nvb_Status b = NamespaceStatusActive \<and>
       json_flag (nvb_MountPolicy b) ''workload_mount_enabled'' \<and>
       json_flag (nvb_MountPolicy b) ''workload_mount_requires_external_control_root'') (db_bindings db)"

text \<open>The row of \<open>workloadMountPlanSelectSQL\<close>: binding, repo and the privilege flag. \<open>dbnow\<close> is the time of the
  statement. Namespaces, repos and bindings are unique by their keys.\<close>

definition workloadMountPlanSelectSQL :: "go_time \<Rightarrow> string \<Rightarrow> string \<Rightarrow> session_db \<Rightarrow> (Binding \<times> Repo \<times> bool) option" where
  "workloadMountPlanSelectSQL dbnow namespaceID ident db =
     (case find_mount ident db of
        None \<Rightarrow> None
      | Some m \<Rightarrow>
      if wb_NamespaceID m \<noteq> namespaceID then None
      else if wb_Status m \<in> {MountStatusIssued, MountStatusPending, MountStatusActive} then
        (if wb_LeaseExpiresAt m > dbnow \<and> active_namespace namespaceID db \<and> mount_volume (wb_VolumeID m) db \<and> \<not> held KindLifecycle (wb_RepoID m) db
         then (case (find (issuance_repo m) (db_repos db), mount_policy namespaceID db) of
                 (Some r, Some b) \<Rightarrow> Some (m, r, json_flag (nvb_MountPolicy b) ''allow_privileged_workload'')
               | _ \<Rightarrow> None)
         else None)
      else if wb_Status m = MountStatusReleasing then
        (if list_ex (\<lambda>n. ns_ID n = namespaceID \<and> ns_Status n \<in> {NamespaceStatusActive, NamespaceStatusDisabled}) (db_namespaces db)
         then map_option (\<lambda>r. (m, r, False)) (find (teardown_repo m) (db_repos db)) else None)
      else None)"

definition GetOrchestratorMountPlan ::
    "(string \<times> SecretRef) list \<Rightarrow> go_time \<Rightarrow> string \<Rightarrow> string \<Rightarrow> session_db \<Rightarrow> sess_error + Plan" where
  "GetOrchestratorMountPlan refs dbnow namespaceID ident db =
     (case checks [export_check (path_check NamespaceID (trim_space namespaceID)),
         export_check (path_check WorkloadMountBindingID (trim_space ident))] of
        Some err \<Rightarrow> Inl err
      | None \<Rightarrow>
      case workloadMountPlanSelectSQL dbnow namespaceID ident db of
        None \<Rightarrow> Inl SessNoRows
      | Some (m, r, privileged) \<Rightarrow>
      case checks
        [check (wb_ID m \<noteq> ident) (SessExport (ExportText ''workload mount plan identity mismatch'')),
         export_check (path_check VolumeID (wb_VolumeID m)),
         export_check (path_check RepoID (repo_ID r))] of
        Some err \<Rightarrow> Inl err
      | None \<Rightarrow>
      case ResolveRepoPaths namespaceID (repo_ID r) of
        Inl err \<Rightarrow> Inl (SessExport (ExportPathError err))
      | Inr paths \<Rightarrow>
      if repo_PayloadVolumeSubdir r \<noteq> PayloadVolumeSubdir paths then Inl (SessExport (ExportText ''workload mount plan payload root mismatch''))
      else
      case export_check (ValidateMountPath (wb_MountPath m)) of
        Some err \<Rightarrow> Inl err
      | None \<Rightarrow>
      case workloadMountRuntimeSecretRef refs (wb_VolumeID m) of
        Inl err \<Rightarrow> Inl (SessExport err)
      | Inr ref \<Rightarrow>
        Inr \<lparr>pl_MountBindingID = wb_ID m, pl_VolumeID = wb_VolumeID m, pl_PayloadVolumeSubdir = repo_PayloadVolumeSubdir r,
             pl_MountPath = wb_MountPath m, pl_ReadOnly = wb_ReadOnly m, pl_SecretRef = ref, pl_RunAsNonRoot = True,
             pl_AllowPrivileged = privileged, pl_JVSControlOutsidePayload = True\<rparr>)"

end
