(* ===== verification/Namespace_Store.thy ===== *)
theory Namespace_Store
  imports Typed_Commits
begin

text \<open>
  Namespaces in the database: \<open>internal/store/postgres/namespace_operations.go\<close>. A namespace is
  created or refreshed by \<open>namespace_upsert\<close>, which never reactivates a disabled one, and closed
  by \<open>namespace_disable\<close>, which in the same statement sends its open export sessions and mounts
  into their release.
\<close>

definition find_namespace :: "string \<Rightarrow> session_db \<Rightarrow> Namespace option" where
  "find_namespace ident db = find (\<lambda>n. ns_ID n = ident) (db_namespaces db)"

definition put_namespace :: "Namespace \<Rightarrow> Namespace list \<Rightarrow> Namespace list" where
  "put_namespace n rows = map (\<lambda>q. if ns_ID q = ns_ID n then n else q) rows"

text \<open>The check constraints of \<open>namespaces\<close> (\<open>migrations/0001\<close>).\<close>

definition namespace_checks :: "Namespace \<Rightarrow> bool" where
  "namespace_checks n \<longleftrightarrow>
     (ns_Status n = NamespaceStatusActive \<and> ns_DisabledAt n = None) \<or>
     (ns_Status n = NamespaceStatusDisabled \<and> ns_DisabledAt n \<noteq> None)"

section \<open>Checks of the commit requests\<close>

definition validateNamespaceUpsertOperationRecord :: "Namespace \<Rightarrow> OperationRecord \<Rightarrow> sess_error option" where
  "validateNamespaceUpsertOperationRecord n opr =
     checks
      [check (op_Type opr \<noteq> OperationNamespaceUpsert) (invalid_request ''operation_type'' ''operation record must be namespace_upsert''),
       check (op_State opr \<noteq> OperationStateSucceeded) (invalid_request ''operation_state'' ''namespace upsert commit requires succeeded operation update''),
       check (trim_space (op_NamespaceID opr) = [] \<or> op_NamespaceID opr \<noteq> ns_ID n)
         (invalid_request ''namespace_id'' ''operation namespace must match namespace metadata''),
       check (resource_Type (op_Resource opr) \<noteq> ''namespace'') (invalid_request ''resource_type'' ''operation resource must be namespace''),
       check (trim_space (resource_ID (op_Resource opr)) = [] \<or> resource_ID (op_Resource opr) \<noteq> ns_ID n)
         (invalid_request ''resource_id'' ''operation resource id must match namespace metadata'')]"

definition validateNamespaceUpsertAuditEvent :: "Namespace \<Rightarrow> OperationRecord \<Rightarrow> AuditEvent \<Rightarrow> sess_error option" where
  "validateNamespaceUpsertAuditEvent n opr event =
     checks
      [check (ev_Outcome event \<noteq> OutcomeSucceeded) (audit_invalid ''outcome'' ''namespace upsert audit outcome must be succeeded''),
       check (ares_Type (ev_Resource event) \<noteq> ''namespace'') (audit_invalid ''resource_type'' ''namespace upsert audit resource must be namespace''),
       check (trim_space (ares_ID (ev_Resource event)) = [] \<or> ares_ID (ev_Resource event) \<noteq> ns_ID n)
         (audit_invalid ''resource_id'' ''namespace upsert audit resource id must match namespace metadata''),
       check (trim_space (ares_NamespaceID (ev_Resource event)) \<noteq> [] \<and> ares_NamespaceID (ev_Resource event) \<noteq> ns_ID n)
         (audit_invalid ''resource_namespace_id'' ''namespace upsert audit resource namespace must match namespace metadata''),
       check (ev_CallerService event \<noteq> op_CallerService opr) (audit_invalid ''caller_service'' ''audit caller service must match operation''),
       check (ev_CorrelationID event \<noteq> op_CorrelationID opr) (audit_invalid ''correlation_id'' ''audit correlation id must match operation''),
       check (ev_AuthorizedActor event \<noteq> op_AuthorizedActor opr) (audit_invalid ''authorized_actor'' ''audit actor must match operation'')]"

text \<open>\<open>namespaceUpsertStoredPredicateArgs\<close> and the conditions that the two statements put on the stored
  operation.\<close>

definition stored_namespace_predicate :: "OperationRecord \<Rightarrow> OperationType \<Rightarrow> operation_row \<Rightarrow> bool" where
  "stored_namespace_predicate opr typ r \<longleftrightarrow>
     row_operation_type r = typ \<and> row_namespace_id r = op_NamespaceID opr \<and> row_resource_type r = ''namespace'' \<and>
     row_resource_id r = op_NamespaceID opr \<and> row_caller_service r = op_CallerService opr \<and>
     row_correlation_id r = op_CorrelationID opr \<and> row_authorized_actor_type r = actor_Type (op_AuthorizedActor opr) \<and>
     row_authorized_actor_id r = actor_ID (op_AuthorizedActor opr)"

definition namespaceUpsertOperationLeaseFencedUpdateBaseSQL :: "OperationRecord \<Rightarrow> operation_row \<Rightarrow> session_db \<Rightarrow> bool" where
  "namespaceUpsertOperationLeaseFencedUpdateBaseSQL opr r db \<longleftrightarrow> stored_namespace_predicate opr OperationNamespaceUpsert r"

definition namespaceDisableOperationLeaseFencedUpdateBaseSQL :: "OperationRecord \<Rightarrow> operation_row \<Rightarrow> session_db \<Rightarrow> bool" where
  "namespaceDisableOperationLeaseFencedUpdateBaseSQL opr r db \<longleftrightarrow>
     stored_namespace_predicate opr OperationNamespaceDisable r \<and> row_phase r = ''validate_namespace_disable''"

section \<open>Upsert\<close>

definition upserted :: "Namespace \<Rightarrow> Namespace \<Rightarrow> Namespace" where
  "upserted n old =
     (if ns_Status old = NamespaceStatusDisabled then old\<lparr>ns_UpdatedAt := ns_UpdatedAt n\<rparr>
      else old\<lparr>ns_Status := ns_Status n, ns_DisabledReason := ns_DisabledReason n, ns_DisabledAt := ns_DisabledAt n,
                ns_UpdatedAt := ns_UpdatedAt n\<rparr>)"

definition upsert_namespace :: "Namespace \<Rightarrow> Namespace effect" where
  "upsert_namespace n row db =
     (case find_namespace (ns_ID n) db of
        None \<Rightarrow>
          if \<not> namespace_checks n then Inl SessCheckViolation
          else Inr (Some (db\<lparr>db_namespaces := db_namespaces db @ [n]\<rparr>, n))
      | Some old \<Rightarrow>
          if \<not> namespace_checks (upserted n old) then Inl SessCheckViolation
          else Inr (Some (db\<lparr>db_namespaces := put_namespace (upserted n old) (db_namespaces db)\<rparr>, upserted n old)))"

datatype namespace_error = NamespaceInvalid resource_error | NamespaceStore sess_error

definition store_check :: "sess_error option \<Rightarrow> namespace_error option" where
  "store_check = map_option NamespaceStore"

definition namespace_commit ::
    "string \<Rightarrow> string \<Rightarrow> (AuditEvent \<Rightarrow> string + string) \<Rightarrow> OperationRecord \<Rightarrow> string \<Rightarrow> go_time \<Rightarrow> AuditEvent \<Rightarrow>
      (operation_row \<Rightarrow> session_db \<Rightarrow> bool) \<Rightarrow> Namespace effect \<Rightarrow> session_db \<Rightarrow> session_db \<times> (namespace_error + Namespace \<times> OperationRecord)" where
  "namespace_commit what ident marshal opr owner now event cond effect db =
     (case fenced_commit what ident marshal opr owner now event cond effect db of
        (db', Inl err) \<Rightarrow> (db', Inl (NamespaceStore err))
      | (db', Inr (n, got)) \<Rightarrow> (db', case Namespace_Validate n of Some err \<Rightarrow> Inl (NamespaceInvalid err) | None \<Rightarrow> Inr (n, got)))"

definition CommitNamespaceUpsertWithLease ::
    "(AuditEvent \<Rightarrow> string + string) \<Rightarrow> Namespace \<Rightarrow> SanitizedOperationRecord \<Rightarrow> string \<Rightarrow> go_time \<Rightarrow> AuditEvent \<Rightarrow> session_db \<Rightarrow>
      session_db \<times> (namespace_error + Namespace \<times> OperationRecord)" where
  "CommitNamespaceUpsertWithLease marshal n sanitized owner now event db =
     (let opr = Record sanitized; operationID = trim_space (op_ID opr) in
      case checks
        [map_option NamespaceInvalid (Namespace_Validate n),
         check (ns_Status n \<noteq> NamespaceStatusActive)
           (NamespaceStore (invalid_request ''namespace_status'' ''namespace upsert commit requires active namespace metadata'')),
         store_check (validateNamespaceUpsertOperationRecord n opr),
         check (trim_space (ev_OperationID event) = []) (NamespaceStore (audit_invalid ''operation_id'' ''missing audit operation id'')),
         check (ev_OperationID event \<noteq> operationID) (NamespaceStore (audit_invalid ''operation_id'' ''audit operation id must match operation update'')),
         check (EventTypeForOperationType (OperationType_String (op_Type opr)) = None)
           (NamespaceStore (audit_invalid ''event_type'' ''operation type has no audit event type'')),
         check (EventTypeForOperationType (OperationType_String (op_Type opr)) \<noteq> Some (ev_Type event))
           (NamespaceStore (audit_invalid ''event_type'' ''audit event type must match operation type'')),
         store_check (validateNamespaceUpsertAuditEvent n opr event)] of
        Some err \<Rightarrow> (db, Inl err)
      | None \<Rightarrow>
        namespace_commit ''namespace upsert commit'' operationID marshal opr owner now event
          (namespaceUpsertOperationLeaseFencedUpdateBaseSQL opr) (upsert_namespace n) db)"

section \<open>Disable\<close>

text \<open>\<open>revoking_exports\<close> and \<open>releasing_mounts\<close>.\<close>

definition disabled_export :: "go_time option \<Rightarrow> go_time \<Rightarrow> Session \<Rightarrow> Session" where
  "disabled_export disabledAt updatedAt s =
     (if xs_Status s \<in> {ExportStatusActive, ExportStatusRevoking}
      then s\<lparr>xs_Status := ExportStatusRevoking,
              xs_RevokedAt := (case xs_RevokedAt s of None \<Rightarrow> disabledAt | Some t \<Rightarrow> Some t),
              xs_StatusReason := (if btrim (xs_StatusReason s) = [] then ''namespace_disabled'' else xs_StatusReason s),
              xs_UpdatedAt := updatedAt\<rparr>
      else s)"

definition disabled_mount :: "go_time \<Rightarrow> Binding \<Rightarrow> Binding" where
  "disabled_mount updatedAt m =
     (if wb_Status m \<in> {MountStatusIssued, MountStatusPending, MountStatusActive, MountStatusReleasing}
      then m\<lparr>wb_Status := MountStatusReleasing,
              wb_StatusReason := (if btrim (wb_StatusReason m) = [] then ''namespace_disabled'' else wb_StatusReason m),
              wb_UpdatedAt := updatedAt\<rparr>
      else m)"

definition disabled_namespace :: "Namespace \<Rightarrow> Namespace \<Rightarrow> Namespace" where
  "disabled_namespace n old =
     old\<lparr>ns_Status := ns_Status n, ns_DisabledReason := ns_DisabledReason n, ns_DisabledAt := ns_DisabledAt n,
          ns_UpdatedAt := ns_UpdatedAt n\<rparr>"

definition disable_namespace :: "Namespace \<Rightarrow> Namespace effect" where
  "disable_namespace n row db =
     (case find_namespace (ns_ID n) db of
        None \<Rightarrow> Inr None
      | Some old \<Rightarrow>
        if ns_Status old \<noteq> NamespaceStatusActive then Inr None
        else if \<not> namespace_checks (disabled_namespace n old) then Inl SessCheckViolation
        else Inr (Some
          (db\<lparr>db_namespaces := put_namespace (disabled_namespace n old) (db_namespaces db),
              db_exports := map (\<lambda>row. if xs_NamespaceID (fst row) = ns_ID n
                then (disabled_export (ns_DisabledAt n) (ns_UpdatedAt n) (fst row), snd row) else row) (db_exports db),
              db_mounts := map (\<lambda>m. if wb_NamespaceID m = ns_ID n then disabled_mount (ns_UpdatedAt n) m else m) (db_mounts db)\<rparr>,
           disabled_namespace n old)))"

definition CommitNamespaceDisableWithLease ::
    "(AuditEvent \<Rightarrow> string + string) \<Rightarrow> Namespace \<Rightarrow> SanitizedOperationRecord \<Rightarrow> string \<Rightarrow> go_time \<Rightarrow> AuditEvent \<Rightarrow> session_db \<Rightarrow>
      session_db \<times> (namespace_error + Namespace \<times> OperationRecord)" where
  "CommitNamespaceDisableWithLease marshal n sanitized owner now event db =
     (let opr = Record sanitized in
      case checks
        [map_option NamespaceInvalid (Namespace_Validate n),
         check (ns_Status n \<noteq> NamespaceStatusDisabled)
           (NamespaceStore (invalid_request ''namespace_status'' ''namespace disable commit requires disabled namespace metadata'')),
         check (op_Type opr \<noteq> OperationNamespaceDisable) (NamespaceStore (invalid_request ''operation_type'' ''operation record must be namespace_disable'')),
         check (op_State opr \<noteq> OperationStateSucceeded \<or> op_Phase opr \<noteq> ''namespace_disable_committed'')
           (NamespaceStore (invalid_request ''operation_state'' ''namespace disable commit requires succeeded committed operation update'')),
         check (trim_space (op_NamespaceID opr) = [] \<or> op_NamespaceID opr \<noteq> ns_ID n \<or> resource_Type (op_Resource opr) \<noteq> ''namespace'' \<or>
             resource_ID (op_Resource opr) \<noteq> ns_ID n)
           (NamespaceStore (invalid_request ''namespace_id'' ''operation namespace resource must match namespace metadata'')),
         check (trim_space (ev_OperationID event) = [] \<or> ev_OperationID event \<noteq> op_ID opr)
           (NamespaceStore (audit_invalid ''operation_id'' ''audit operation id must match operation update'')),
         check (ev_Type event \<noteq> EventTypeNamespaceDisable \<or> ev_Outcome event \<noteq> OutcomeSucceeded)
           (NamespaceStore (audit_invalid ''event_type'' ''namespace disable audit event must be succeeded namespace_disable'')),
         store_check (validateNamespaceUpsertAuditEvent n opr event)] of
        Some err \<Rightarrow> (db, Inl err)
      | None \<Rightarrow>
        namespace_commit ''namespace disable commit'' (op_ID opr) marshal opr owner now event
          (namespaceDisableOperationLeaseFencedUpdateBaseSQL opr) (disable_namespace n) db)"

end
