(* ===== verification/Session_Runs.thy ===== *)
theory Session_Runs
  imports Mount_Store Namespace_Store
begin

text \<open>
  Runs of the session tables: the API creates and revokes export sessions, the gateways open,
  touch and close requests in the ledger, the worker recovers stale requests, closes drained
  sessions, works on mounts and disables namespaces, in any order. The counters of a session
  are the numbers of its open requests, and an open restore gate keeps writers away as long
  as the writer fence is held.
\<close>

section \<open>Changes of the ledger\<close>

definition open_requests :: "RuntimeRequest list \<Rightarrow> RuntimeRequest list" where
  "open_requests = filter (\<lambda>r. rr_State r = RequestOpen)"

definition counts_match :: "RuntimeRequest list \<Rightarrow> Session \<Rightarrow> bool" where
  "counts_match requests s \<longleftrightarrow>
     xs_ActiveRequestCount s = request_count (xs_ID s) (open_requests requests) \<and>
     xs_ActiveWriteCount s = write_count (xs_ID s) (open_requests requests)"

definition export_ids :: "(Session \<times> PasswordVerifier) list \<Rightarrow> string list" where
  "export_ids = map (\<lambda>row. xs_ID (fst row))"

definition ledger_inv :: "session_db \<Rightarrow> bool" where
  "ledger_inv db \<longleftrightarrow>
     distinct (export_ids (db_exports db)) \<and> distinct (map rr_ID (db_requests db)) \<and>
     (\<forall>r \<in> set (db_requests db). request_checks r \<and> rr_ExportID r \<in> set (export_ids (db_exports db))) \<and>
     (\<forall>row \<in> set (db_exports db). session_checks (fst row) \<and> counts_match (db_requests db) (fst row))"

definition kept_session :: "Session \<Rightarrow> Session \<Rightarrow> bool" where
  "kept_session s s' \<longleftrightarrow>
     xs_ID s' = xs_ID s \<and> xs_NamespaceID s' = xs_NamespaceID s \<and> xs_RepoID s' = xs_RepoID s \<and> xs_Mode s' = xs_Mode s \<and>
     xs_ExpiresAt s' = xs_ExpiresAt s \<and> xs_ActiveRequestCount s' = xs_ActiveRequestCount s \<and>
     xs_ActiveWriteCount s' = xs_ActiveWriteCount s \<and> (session_checks s \<longrightarrow> session_checks s') \<and>
     (xs_Status s' = ExportStatusActive \<longrightarrow> xs_Status s = ExportStatusActive)"

definition map_exports :: "(Session \<Rightarrow> Session) \<Rightarrow> (Session \<times> PasswordVerifier) list \<Rightarrow> (Session \<times> PasswordVerifier) list" where
  "map_exports f = map (\<lambda>row. (f (fst row), snd row))"

definition sessions_kept :: "(Session \<times> PasswordVerifier) list \<Rightarrow> (Session \<times> PasswordVerifier) list \<Rightarrow> bool" where
  "sessions_kept rows rows' \<longleftrightarrow> list_all2 (\<lambda>row row'. kept_session (fst row) (fst row')) rows rows'"

text \<open>What the statements do to sessions and requests; \<open>t\<close> is the time at which a request begins.\<close>

inductive ledger_change :: "go_time \<Rightarrow> session_db \<Rightarrow> session_db \<Rightarrow> bool" where
  keep: "sessions_kept (db_exports db) (db_exports db') \<Longrightarrow> db_requests db' = db_requests db \<Longrightarrow> ledger_change t db db'"
| add: "xs_ID s \<notin> set (export_ids (db_exports db)) \<Longrightarrow> session_checks s \<Longrightarrow> xs_ActiveRequestCount s = 0 \<Longrightarrow> xs_ActiveWriteCount s = 0 \<Longrightarrow>
    xs_Mode s = AccessModeReadOnly \<or> \<not> held KindWriterSession (xs_RepoID s) db \<Longrightarrow>
    db_exports db' = db_exports db @ [(s, v)] \<Longrightarrow> db_requests db' = db_requests db \<Longrightarrow> ledger_change t db db'"
| begin_request: "find_request (rb_RequestID q) (db_requests db) = None \<Longrightarrow> find_export (rb_ExportID q) (db_exports db) = Some s \<Longrightarrow>
    begin_eligible q db s \<Longrightarrow> request_checks (begun_request q s) \<Longrightarrow> session_checks (incremented_session q s) \<Longrightarrow>
    db_exports db' = put_export (incremented_session q s) (db_exports db) \<Longrightarrow>
    db_requests db' = db_requests db @ [begun_request q s] \<Longrightarrow> ledger_change (rb_StartedAt q) db db'"
| touch: "r \<in> set (db_requests db) \<Longrightarrow> request_checks (touched_request q r) \<Longrightarrow> sessions_kept (db_exports db) (db_exports db') \<Longrightarrow>
    db_requests db' = put_request (touched_request q r) (db_requests db) \<Longrightarrow> ledger_change t db db'"
| close: "r \<in> set (db_requests db) \<Longrightarrow> rr_State r = RequestOpen \<Longrightarrow> request_checks (closed_request RequestClosed reason t1 t2 r) \<Longrightarrow>
    find_export (rr_ExportID r) (db_exports db) = Some s \<Longrightarrow> session_checks (ended_session q r s) \<Longrightarrow>
    db_exports db' = put_export (ended_session q r s) (db_exports db) \<Longrightarrow>
    db_requests db' = put_request (closed_request RequestClosed reason t1 t2 r) (db_requests db) \<Longrightarrow> ledger_change t db db'"
| recover: "stale = stale_requests locked now limit (db_requests db) \<Longrightarrow>
    list_all request_checks (map (recovered_request now stale) (db_requests db)) \<Longrightarrow>
    list_all (\<lambda>row. session_checks (fst row)) (map_exports (recovered_session now stale) (db_exports db)) \<Longrightarrow>
    db_exports db' = map_exports (recovered_session now stale) (db_exports db) \<Longrightarrow>
    db_requests db' = map (recovered_request now stale) (db_requests db) \<Longrightarrow> ledger_change t db db'"

section \<open>Rows\<close>

lemma find_export_Some:
  "find_export i rows = Some s \<Longrightarrow> \<exists>v. (s, v) \<in> set rows \<and> xs_ID s = i"
  by (induction rows) (auto simp: find_export_def split: if_splits)

lemma find_export_None: "find_export i rows = None \<longleftrightarrow> i \<notin> set (export_ids rows)"
  by (induction rows) (auto simp: find_export_def export_ids_def)

lemma find_request_Some: "find_request i rows = Some r \<Longrightarrow> r \<in> set rows \<and> rr_ID r = i"
  by (auto simp: find_request_def find_Some_iff)

lemma find_request_None: "find_request i rows = None \<longleftrightarrow> i \<notin> set (map rr_ID rows)"
  by (auto simp: find_request_def find_None_iff)

lemma put_export_map: "put_export s rows = map_exports (\<lambda>q. if xs_ID q = xs_ID s then s else q) rows"
  by (auto simp: put_export_def map_exports_def)

lemma export_ids_map_exports: "(\<And>s. xs_ID (f s) = xs_ID s) \<Longrightarrow> export_ids (map_exports f rows) = export_ids rows"
  by (simp add: export_ids_def map_exports_def)

lemma export_ids_put [simp]: "export_ids (put_export s rows) = export_ids rows"
  by (auto simp: put_export_def export_ids_def)

lemma put_request_ids [simp]: "map rr_ID (put_request r rows) = map rr_ID rows"
  by (auto simp: put_request_def)

lemma same_export:
  assumes "distinct (export_ids rows)" "row \<in> set rows" "row' \<in> set rows" "xs_ID (fst row) = xs_ID (fst row')"
  shows "row = row'"
  using assms unfolding export_ids_def distinct_map by (auto dest: inj_onD)

lemma same_request:
  assumes "distinct (map rr_ID rows)" "r \<in> set rows" "r' \<in> set rows" "rr_ID r = rr_ID r'"
  shows "r = r'"
  using assms unfolding distinct_map by (auto dest: inj_onD)

lemma kept_session_refl [simp, intro]: "kept_session s s"
  by (simp add: kept_session_def)

lemma sessions_kept_refl [simp, intro]: "sessions_kept rows rows"
  by (simp add: sessions_kept_def list_all2_same)

lemma sessions_kept_map:
  "(\<And>row. row \<in> set rows \<Longrightarrow> kept_session (fst row) (f (fst row))) \<Longrightarrow> sessions_kept rows (map_exports f rows)"
  by (simp add: sessions_kept_def map_exports_def list_all2_conv_all_nth)

lemma put_kept:
  assumes "distinct (export_ids rows)" "find_export i rows = Some s" "kept_session s s'"
  shows "sessions_kept rows (put_export s' rows)"
proof -
  obtain v where v: "(s, v) \<in> set rows" using find_export_Some [OF assms(2)] by blast
  have "kept_session (fst row) (if xs_ID (fst row) = xs_ID s' then s' else fst row)" if "row \<in> set rows" for row
    using same_export [OF assms(1) that v] assms(3) by (auto simp: kept_session_def)
  then show ?thesis unfolding put_export_map by (rule sessions_kept_map)
qed

lemma sessions_kept_ids: "sessions_kept rows rows' \<Longrightarrow> export_ids rows' = export_ids rows"
  unfolding sessions_kept_def export_ids_def by (induction rule: list_all2_induct) (auto simp: kept_session_def)

lemma sessions_kept_set:
  assumes "sessions_kept rows rows'" "row' \<in> set rows'"
  obtains row where "row \<in> set rows" "kept_session (fst row) (fst row')"
  using assms unfolding sessions_kept_def by (metis in_set_conv_nth list_all2_conv_all_nth)

section \<open>Counting requests\<close>

definition open_for :: "string \<Rightarrow> RuntimeRequest \<Rightarrow> bool" where
  "open_for i r \<longleftrightarrow> rr_State r = RequestOpen \<and> rr_ExportID r = i"

lemma request_count_open: "request_count i (open_requests rows) = int (length (filter (open_for i) rows))"
  unfolding request_count_def open_requests_def filter_filter by (rule arg_cong [where f = "\<lambda>xs. int (length xs)"], rule filter_cong) (auto simp: open_for_def)

lemma write_count_open: "write_count i (open_requests rows) = int (length (filter (\<lambda>r. open_for i r \<and> rr_Write r) rows))"
  unfolding write_count_def open_requests_def filter_filter by (rule arg_cong [where f = "\<lambda>xs. int (length xs)"], rule filter_cong) (auto simp: open_for_def)

lemma filter_put_absent: "rr_ID r' \<notin> rr_ID ` set rows \<Longrightarrow> put_request r' rows = rows"
  by (induction rows) (auto simp: put_request_def)

lemma count_put:
  assumes "distinct (map rr_ID rows)" "r \<in> set rows" "rr_ID r' = rr_ID r"
  shows "int (length (filter P (put_request r' rows))) =
    int (length (filter P rows)) - (if P r then 1 else 0) + (if P r' then 1 else 0)"
  using assms
proof (induction rows)
  case (Cons q rows)
  show ?case
  proof (cases "rr_ID q = rr_ID r'")
    case True
    then have "q = r" using Cons.prems by force
    moreover have "put_request r' rows = rows" using Cons.prems True by (intro filter_put_absent) auto
    ultimately show ?thesis using True by (auto simp: put_request_def)
  next
    case False
    then show ?thesis using Cons by (auto simp: put_request_def)
  qed
qed simp

lemma stale_subset:
  "r \<in> set (stale_requests locked now limit rows) \<Longrightarrow> r \<in> set rows \<and> rr_State r = RequestOpen \<and> rr_HeartbeatExpiresAt r \<le> now"
  by (auto simp: stale_requests_def dest: in_set_takeD)

lemma stale_distinct: "distinct (map rr_ID rows) \<Longrightarrow> distinct (map rr_ID (stale_requests locked now limit rows))"
proof -
  assume "distinct (map rr_ID rows)"
  then have "distinct (map rr_ID (filter P rows))" for P by (simp add: distinct_map_filter)
  then have "distinct (filter P rows)" "inj_on rr_ID (set (filter P rows))" for P by (metis distinct_map)+
  then have "distinct (map rr_ID (sort_key k (filter P rows)))" for P and k :: "RuntimeRequest \<Rightarrow> go_time \<times> string"
    by (simp add: distinct_map)
  then show ?thesis unfolding stale_requests_def take_map [symmetric] by (rule distinct_take)
qed

lemma recovered_open:
  "rr_State (recovered_request now stale r) = RequestOpen \<longleftrightarrow> rr_State r = RequestOpen \<and> rr_ID r \<notin> set (map rr_ID stale)"
  "rr_ID (recovered_request now stale r) = rr_ID r" "rr_ExportID (recovered_request now stale r) = rr_ExportID r"
  "rr_Write (recovered_request now stale r) = rr_Write r"
  by (simp_all add: recovered_request_def closed_request_def)

lemma count_recovered:
  assumes "distinct (map rr_ID rows)" "stale = stale_requests locked now limit rows"
    and P: "\<And>r. P r \<longleftrightarrow> rr_State r = RequestOpen \<and> Q (rr_ExportID r) (rr_Write r)"
  shows "int (length (filter P (map (recovered_request now stale) rows))) = int (length (filter P rows)) - int (length (filter P stale))"
proof -
  let ?old = "\<lambda>r. rr_ID r \<in> set (map rr_ID stale)"
  have "filter P (map (recovered_request now stale) rows) = map (recovered_request now stale) (filter (\<lambda>r. P r \<and> \<not> ?old r) rows)"
    by (induction rows) (auto simp: P recovered_open)
  moreover have "length (filter P rows) = length (filter (\<lambda>r. P r \<and> ?old r) rows) + length (filter (\<lambda>r. P r \<and> \<not> ?old r) rows)"
    using sum_length_filter_compl [of ?old "filter P rows"] by (simp add: conj_commute)
  moreover have "length (filter (\<lambda>r. P r \<and> ?old r) rows) = length (filter P stale)"
  proof -
    have "r \<in> set stale" if "r \<in> set rows" "?old r" for r
    proof -
      obtain q where "q \<in> set stale" "rr_ID r = rr_ID q" using \<open>?old r\<close> by auto
      with same_request [OF assms(1) that(1)] stale_subset show ?thesis unfolding assms(2) by blast
    qed
    then have "set (filter (\<lambda>r. P r \<and> ?old r) rows) = set (filter P stale)"
      using stale_subset unfolding assms(2) by auto
    moreover have "distinct (filter (\<lambda>r. P r \<and> ?old r) rows)" "distinct (filter P stale)"
      using assms(1) stale_distinct [OF assms(1), of locked now limit] unfolding assms(2) by (simp_all add: distinct_map)
    ultimately show ?thesis by (metis distinct_card)
  qed
  ultimately show ?thesis by simp
qed

lemma count_stale:
  assumes "distinct (map rr_ID rows)" "stale = stale_requests locked now limit rows"
  shows "filter (open_for i) stale = filter (\<lambda>r. rr_ExportID r = i) stale"
    "filter (\<lambda>r. open_for i r \<and> rr_Write r) stale = filter (\<lambda>r. rr_ExportID r = i \<and> rr_Write r) stale"
  using stale_subset unfolding assms(2) by (auto simp: open_for_def intro!: filter_cong)

section \<open>The counters are the open requests\<close>

lemma kept_counts: "kept_session s s' \<Longrightarrow> counts_match requests s \<Longrightarrow> counts_match requests s'"
  by (simp add: kept_session_def counts_match_def)

lemma counts_match_iff:
  "counts_match requests s \<longleftrightarrow>
     xs_ActiveRequestCount s = int (length (filter (open_for (xs_ID s)) requests)) \<and>
     xs_ActiveWriteCount s = int (length (filter (\<lambda>r. open_for (xs_ID s) r \<and> rr_Write r) requests))"
  by (simp add: counts_match_def request_count_open write_count_open)

lemma ledger_inv_keep:
  assumes "ledger_inv db" "sessions_kept (db_exports db) exports'" "distinct (map rr_ID requests')"
    "\<forall>r \<in> set requests'. request_checks r \<and> rr_ExportID r \<in> set (export_ids (db_exports db))"
    "\<And>s. counts_match (db_requests db) s \<Longrightarrow> counts_match requests' s"
    "db_exports db' = exports'" "db_requests db' = requests'"
  shows "ledger_inv db'"
proof -
  have "session_checks (fst row') \<and> counts_match requests' (fst row')" if row': "row' \<in> set exports'" for row'
  proof -
    obtain row where "row \<in> set (db_exports db)" "kept_session (fst row) (fst row')"
      using sessions_kept_set [OF assms(2) row'] .
    then show ?thesis using assms(1,5) kept_counts unfolding ledger_inv_def kept_session_def by blast
  qed
  then show ?thesis using assms(1,3,4,6,7) sessions_kept_ids [OF assms(2)] by (simp add: ledger_inv_def)
qed

lemma touched_same:
  "rr_ID (touched_request q r) = rr_ID r" "rr_ExportID (touched_request q r) = rr_ExportID r"
  "rr_State (touched_request q r) = rr_State r" "rr_Write (touched_request q r) = rr_Write r"
  by (simp_all add: touched_request_def)

lemma closed_same:
  "rr_ID (closed_request st reason t u r) = rr_ID r" "rr_ExportID (closed_request st reason t u r) = rr_ExportID r"
  "rr_State (closed_request st reason t u r) = st"
  by (simp_all add: closed_request_def)

lemma put_request_set: "q \<in> set (put_request r rows) \<Longrightarrow> q = r \<or> q \<in> set rows"
  by (auto simp: put_request_def split: if_splits)

lemma put_export_set: "row \<in> set (put_export s rows) \<Longrightarrow> (\<exists>old \<in> set rows. xs_ID (fst old) = xs_ID s \<and> row = (s, snd old)) \<or>
    (row \<in> set rows \<and> xs_ID (fst row) \<noteq> xs_ID s)"
  by (auto simp: put_export_def split: if_splits)

text \<open>A change of one session together with one of its requests.\<close>

lemma ledger_inv_put:
  assumes inv: "ledger_inv db" and s: "find_export (xs_ID s') (db_exports db) = Some s"
    and checks: "session_checks s'" and d: "distinct (map rr_ID requests')"
    and rs: "\<forall>r \<in> set requests'. request_checks r \<and> rr_ExportID r \<in> set (export_ids (db_exports db))"
    and own: "counts_match requests' s'"
    and others: "\<And>q. xs_ID q \<noteq> xs_ID s' \<Longrightarrow> counts_match (db_requests db) q \<Longrightarrow> counts_match requests' q"
    and db': "db_exports db' = put_export s' (db_exports db)" "db_requests db' = requests'"
  shows "ledger_inv db'"
proof -
  have "session_checks (fst row) \<and> counts_match requests' (fst row)" if "row \<in> set (put_export s' (db_exports db))" for row
    using put_export_set [OF that] inv own checks others unfolding ledger_inv_def by auto
  then show ?thesis using inv d rs db' by (simp add: ledger_inv_def)
qed

lemma ledger_inv_begin:
  assumes "ledger_inv db" "find_request (rb_RequestID q) (db_requests db) = None" "find_export (rb_ExportID q) (db_exports db) = Some s"
    "request_checks (begun_request q s)" "session_checks (incremented_session q s)"
    "db_exports db' = put_export (incremented_session q s) (db_exports db)" "db_requests db' = db_requests db @ [begun_request q s]"
  shows "ledger_inv db'"
proof -
  obtain v where v: "(s, v) \<in> set (db_exports db)" "xs_ID s = rb_ExportID q" using find_export_Some [OF assms(3)] by blast
  have i: "xs_ID (incremented_session q s) = xs_ID s" by (simp add: incremented_session_def)
  have c: "counts_match (db_requests db) s" using assms(1) v(1) by (force simp: ledger_inv_def)
  show ?thesis
  proof (rule ledger_inv_put [OF assms(1) _ assms(5) _ _ _ _ assms(6,7)])
    show "find_export (xs_ID (incremented_session q s)) (db_exports db) = Some s" using assms(3) v(2) i by simp
    show "distinct (map rr_ID (db_requests db @ [begun_request q s]))"
      using assms(1,2) by (auto simp: ledger_inv_def find_request_None begun_request_def)
    show "\<forall>r \<in> set (db_requests db @ [begun_request q s]). request_checks r \<and> rr_ExportID r \<in> set (export_ids (db_exports db))"
      using assms(1,4) v(1) by (force simp: ledger_inv_def begun_request_def export_ids_def)
    show "counts_match (db_requests db @ [begun_request q s]) (incremented_session q s)"
      using c by (simp add: counts_match_iff incremented_session_def begun_request_def open_for_def delta_def)
  next
    fix p assume "xs_ID p \<noteq> xs_ID (incremented_session q s)" "counts_match (db_requests db) p"
    then show "counts_match (db_requests db @ [begun_request q s]) p"
      by (simp add: counts_match_iff i begun_request_def open_for_def)
  qed
qed

lemma ledger_inv_close:
  assumes "ledger_inv db" "r \<in> set (db_requests db)" "rr_State r = RequestOpen"
    "request_checks (closed_request RequestClosed reason t1 t2 r)" "find_export (rr_ExportID r) (db_exports db) = Some s"
    "session_checks (ended_session q r s)"
    "db_exports db' = put_export (ended_session q r s) (db_exports db)"
    "db_requests db' = put_request (closed_request RequestClosed reason t1 t2 r) (db_requests db)"
  shows "ledger_inv db'"
proof -
  let ?r = "closed_request RequestClosed reason t1 t2 r"
  obtain v where v: "(s, v) \<in> set (db_exports db)" "xs_ID s = rr_ExportID r" using find_export_Some [OF assms(5)] by blast
  have i: "xs_ID (ended_session q r s) = xs_ID s" by (simp add: ended_session_def released_session_def)
  have c: "counts_match (db_requests db) s" using assms(1) v(1) by (force simp: ledger_inv_def)
  have d: "distinct (map rr_ID (db_requests db))" using assms(1) by (simp add: ledger_inv_def)
  note put = count_put [OF d assms(2), of ?r, unfolded closed_same, OF refl]
  show ?thesis
  proof (rule ledger_inv_put [OF assms(1) _ assms(6) _ _ _ _ assms(7,8)])
    show "find_export (xs_ID (ended_session q r s)) (db_exports db) = Some s" using assms(5) v(2) i by simp
    show "distinct (map rr_ID (put_request ?r (db_requests db)))" using d by simp
    show "\<forall>p \<in> set (put_request ?r (db_requests db)). request_checks p \<and> rr_ExportID p \<in> set (export_ids (db_exports db))"
      using assms(1,2,4) by (auto simp: ledger_inv_def closed_same dest!: put_request_set)
    show "counts_match (put_request ?r (db_requests db)) (ended_session q r s)"
      using c assms(3) v(2)
      by (simp add: counts_match_iff put i ended_session_def released_session_def open_for_def closed_same delta_def)
  next
    fix p assume "xs_ID p \<noteq> xs_ID (ended_session q r s)" "counts_match (db_requests db) p"
    then show "counts_match (put_request ?r (db_requests db)) p"
      using v(2) by (simp add: counts_match_iff put i open_for_def closed_same)
  qed
qed

lemma recovered_id: "xs_ID (recovered_session now stale s) = xs_ID s"
  by (simp add: recovered_session_def released_session_def)

lemma recovered_counts:
  assumes "distinct (map rr_ID requests)" "stale = stale_requests locked now limit requests" "counts_match requests s"
  shows "counts_match (map (recovered_request now stale) requests) (recovered_session now stale s)"
proof -
  have "filter (\<lambda>r. rr_ExportID r = xs_ID s) stale = []" "filter (\<lambda>r. rr_ExportID r = xs_ID s \<and> rr_Write r) stale = []"
    if "xs_ID s \<notin> set (map rr_ExportID stale)" using that by (auto simp: filter_empty_conv image_iff)
  moreover have "int (length (filter (open_for (xs_ID s)) (map (recovered_request now stale) requests))) =
      int (length (filter (open_for (xs_ID s)) requests)) - int (length (filter (\<lambda>r. rr_ExportID r = xs_ID s) stale))"
    unfolding count_stale(1) [OF assms(1) assms(2), symmetric]
    by (rule count_recovered [OF assms(1) assms(2), where Q = "\<lambda>e w. e = xs_ID s"]) (simp add: open_for_def)
  moreover have "int (length (filter (\<lambda>r. open_for (xs_ID s) r \<and> rr_Write r) (map (recovered_request now stale) requests))) =
      int (length (filter (\<lambda>r. open_for (xs_ID s) r \<and> rr_Write r) requests)) -
      int (length (filter (\<lambda>r. rr_ExportID r = xs_ID s \<and> rr_Write r) stale))"
    unfolding count_stale(2) [OF assms(1) assms(2), symmetric]
    by (rule count_recovered [OF assms(1) assms(2), where Q = "\<lambda>e w. e = xs_ID s \<and> w"]) (auto simp: open_for_def)
  ultimately show ?thesis
    using assms(3) unfolding counts_match_iff recovered_id
    by (auto simp: recovered_session_def released_session_def request_count_def write_count_def)
qed

lemma ledger_inv_recover:
  assumes "ledger_inv db" "stale = stale_requests locked now limit (db_requests db)"
    "list_all request_checks (map (recovered_request now stale) (db_requests db))"
    "list_all (\<lambda>row. session_checks (fst row)) (map_exports (recovered_session now stale) (db_exports db))"
    "db_exports db' = map_exports (recovered_session now stale) (db_exports db)"
    "db_requests db' = map (recovered_request now stale) (db_requests db)"
  shows "ledger_inv db'"
proof -
  have d: "distinct (map rr_ID (db_requests db))" using assms(1) by (simp add: ledger_inv_def)
  have "counts_match (map (recovered_request now stale) (db_requests db)) (fst row)" if "row \<in> set (map_exports (recovered_session now stale) (db_exports db))" for row
    using that recovered_counts [OF d assms(2)] assms(1) by (auto simp: map_exports_def ledger_inv_def)
  moreover have "export_ids (map_exports (recovered_session now stale) (db_exports db)) = export_ids (db_exports db)"
    by (rule export_ids_map_exports) (rule recovered_id)
  moreover have "map rr_ID (map (recovered_request now stale) (db_requests db)) = map rr_ID (db_requests db)"
    by (simp add: recovered_open)
  ultimately show ?thesis
    using assms(1,3-6) by (auto simp: ledger_inv_def list_all_iff recovered_open o_def)
qed

lemma ledger_change_inv: "ledger_change t db db' \<Longrightarrow> ledger_inv db \<Longrightarrow> ledger_inv db'"
proof (induction rule: ledger_change.induct)
  case (keep db db' t)
  show ?case
    by (rule ledger_inv_keep [OF keep.prems keep.hyps(1) _ _ _ refl keep.hyps(2)])
      (use keep.prems in \<open>auto simp: ledger_inv_def\<close>)
next
  case (add s db db' v t)
  have "filter (open_for (xs_ID s)) (db_requests db) = []" "filter (\<lambda>r. open_for (xs_ID s) r \<and> rr_Write r) (db_requests db) = []"
    using add.hyps(1) add.prems by (auto simp: filter_empty_conv open_for_def ledger_inv_def)
  then have "counts_match (db_requests db) s" using add.hyps(3,4) by (simp add: counts_match_iff)
  then show ?case using add.hyps add.prems by (auto simp: ledger_inv_def export_ids_def)
next
  case (begin_request q db s db')
  then show ?case using ledger_inv_begin by blast
next
  case (touch r db q db' t)
  have d: "distinct (map rr_ID (db_requests db))" using touch.prems by (simp add: ledger_inv_def)
  show ?case
  proof (rule ledger_inv_keep [OF touch.prems touch.hyps(3) _ _ _ refl touch.hyps(4)])
    show "distinct (map rr_ID (put_request (touched_request q r) (db_requests db)))" using d by simp
    show "\<forall>p \<in> set (put_request (touched_request q r) (db_requests db)). request_checks p \<and> rr_ExportID p \<in> set (export_ids (db_exports db))"
      using touch.prems touch.hyps(1,2) by (auto simp: ledger_inv_def touched_same dest!: put_request_set)
    show "counts_match (put_request (touched_request q r) (db_requests db)) s" if "counts_match (db_requests db) s" for s
      using that count_put [OF d touch.hyps(1), of "touched_request q r"]
      by (simp add: counts_match_iff touched_same open_for_def)
  qed
next
  case (close r db reason t1 t2 s q db' t)
  then show ?case using ledger_inv_close by blast
next
  case (recover stale locked now limit db db' t)
  then show ?case using ledger_inv_recover by blast
qed

section \<open>Every statement makes such a change\<close>

definition mount_commits ::
    "((AuditEvent \<Rightarrow> string + string) \<Rightarrow> session_db \<Rightarrow> session_db \<times> (sess_error + Binding \<times> OperationRecord)) set" where
  "mount_commits =
     {c. \<exists>m sanitized owner now event. c = (\<lambda>marshal. CommitWorkloadMountBindingCreateWithLease marshal m sanitized owner now event)} \<union>
     {c. \<exists>i st reason ob le sanitized owner now event. c = (\<lambda>marshal. CommitWorkloadMountBindingStatusWithLease marshal i st reason ob le sanitized owner now event)} \<union>
     {c. \<exists>i sanitized owner now event. c = (\<lambda>marshal. CommitWorkloadMountBindingHeartbeatWithLease marshal i sanitized owner now event) \<or>
        c = (\<lambda>marshal. CommitWorkloadMountBindingReleaseWithLease marshal i sanitized owner now event) \<or>
        c = (\<lambda>marshal. CommitWorkloadMountBindingRevokeWithLease marshal i sanitized owner now event)}"

text \<open>The steps; \<open>other\<close> stands for everything that leaves sessions, requests and mounts alone.\<close>

inductive session_step :: "(AuditEvent \<Rightarrow> string + string) \<Rightarrow> go_time \<Rightarrow> session_db \<Rightarrow> session_db \<Rightarrow> bool" for marshal where
  create: "CreateOrReuseExport marshal request db = (db', res) \<Longrightarrow>
    cr_Session request = new_export_session exportID namespaceID repoID mode expiresAt callerService actor now \<Longrightarrow> session_step marshal t db db'"
| revoke: "RevokeExport marshal rrequest db = (db', res) \<Longrightarrow> session_step marshal t db db'"
| access: "RecordExportAccess exportID accessedAt db = (db', err) \<Longrightarrow> session_step marshal t db db'"
| begin_req: "BeginExportRuntimeRequest brequest db = (db', sres) \<Longrightarrow> session_step marshal (rb_StartedAt brequest) db db'"
| heartbeat: "HeartbeatExportRuntimeRequest hrequest db = (db', sres) \<Longrightarrow> session_step marshal t db db'"
| end_req: "EndExportRuntimeRequest erequest db = (db', sres) \<Longrightarrow> session_step marshal t db db'"
| recover_stale: "RecoverStaleExportRuntimeRequests locked srequest db = (db', cres) \<Longrightarrow> session_step marshal t db db'"
| reconcile: "ReconcileExportSessionTerminal marshal qrequest db = (db', res) \<Longrightarrow> session_step marshal t db db'"
| disable: "CommitNamespaceDisableWithLease marshal n sanitized owner now event db = (db', nres) \<Longrightarrow> session_step marshal t db db'"
| upsert: "CommitNamespaceUpsertWithLease marshal n sanitized owner now event db = (db', nres) \<Longrightarrow> session_step marshal t db db'"
| mount: "c \<in> mount_commits \<Longrightarrow> c marshal db = (db', mres) \<Longrightarrow> session_step marshal t db db'"
| other: "db_exports db' = db_exports db \<Longrightarrow> db_requests db' = db_requests db \<Longrightarrow> db_mounts db' = db_mounts db \<Longrightarrow> session_step marshal t db db'"

lemma change_same: "db_exports db' = db_exports db \<Longrightarrow> db_requests db' = db_requests db \<Longrightarrow> ledger_change t db db'"
  by (rule ledger_change.keep) simp_all

lemma change_put:
  assumes "ledger_inv db" "find_export i (db_exports db) = Some s" "kept_session s s'"
    "db_exports db' = put_export s' (db_exports db)" "db_requests db' = db_requests db"
  shows "ledger_change t db db'"
  using assms put_kept [of "db_exports db" i s s'] by (intro ledger_change.keep) (simp_all add: ledger_inv_def)

lemma create_sql:
  assumes "exportCreateOrReuseSQL row session verifier outboxRecord db = (db', res)"
  shows "db_mounts db' = db_mounts db \<and> (db_exports db' = db_exports db \<and> db_requests db' = db_requests db \<or>
    create_guard row session db \<and> xs_ID session \<notin> set (export_ids (db_exports db)) \<and> session_checks session \<and>
    db_exports db' = db_exports db @ [(session, verifier)] \<and> db_requests db' = db_requests db)"
  using assms unfolding exportCreateOrReuseSQL_def insert_export_def
  by (auto simp: find_export_None split: option.splits sum.splits prod.splits if_splits)

lemma create_change:
  assumes "CreateOrReuseExport marshal request db = (db', res)"
  obtains "db' = db"
  | row outboxRecord sres where "exportCreateOrReuseSQL row (cr_Session request) (cr_Verifier request) outboxRecord db = (db', sres)"
  using assms unfolding CreateOrReuseExport_def Let_def by (auto split: option.splits sum.splits prod.splits)

lemma revoked_kept: "kept_session s (revoked_session now s)" if "session_checks (revoked_session now s)"
  using that by (auto simp: kept_session_def revoked_session_def)

lemma revoke_sql:
  assumes "exportRevokeSQL row exportID namespaceID now outboxRecord db = (db', res)" "ledger_inv db"
  shows "ledger_change t db db' \<and> db_mounts db' = db_mounts db"
  using assms unfolding exportRevokeSQL_def
  by (auto intro: change_same change_put revoked_kept split: option.splits sum.splits prod.splits if_splits)

lemma revoke_change:
  assumes "RevokeExport marshal request db = (db', res)" "ledger_inv db"
  shows "ledger_change t db db' \<and> db_mounts db' = db_mounts db"
proof (cases "db' = db")
  case False
  then obtain row outboxRecord sres where
    "exportRevokeSQL row (rv_ExportID request) (rv_NamespaceID request) (rv_Now request) outboxRecord db = (db', sres)"
    using assms(1) unfolding RevokeExport_def Let_def by (auto split: option.splits sum.splits prod.splits)
  then show ?thesis using revoke_sql assms(2) by blast
qed (simp add: change_same)

lemma access_change:
  assumes "RecordExportAccess exportID accessedAt db = (db', err)" "ledger_inv db"
  shows "ledger_change t db db' \<and> db_mounts db' = db_mounts db"
proof (cases "db' = db")
  case False
  with assms(1) obtain s where s: "find_export (trim_space exportID) (db_exports db) = Some s"
    "db' = db\<lparr>db_exports := put_export (s\<lparr>xs_LastAccessedAt := greatest (xs_LastAccessedAt s) accessedAt, xs_UpdatedAt := accessedAt\<rparr>) (db_exports db)\<rparr>"
    unfolding RecordExportAccess_def Let_def by (auto split: option.splits)
  show ?thesis
    using change_put [OF assms(2) s(1), of "s\<lparr>xs_LastAccessedAt := greatest (xs_LastAccessedAt s) accessedAt, xs_UpdatedAt := accessedAt\<rparr>" db' t] s(2)
    by (simp add: kept_session_def session_checks_def)
qed (simp add: change_same)

lemma begin_sql:
  assumes "exportRuntimeRequestBeginSQL q db = (db', res)"
  shows "ledger_change (rb_StartedAt q) db db' \<and> db_mounts db' = db_mounts db"
proof (cases "db' = db")
  case False
  with assms obtain s where "find_request (rb_RequestID q) (db_requests db) = None" "find_export (rb_ExportID q) (db_exports db) = Some s"
    "begin_eligible q db s" "request_checks (begun_request q s)" "session_checks (incremented_session q s)"
    "db' = db\<lparr>db_requests := db_requests db @ [begun_request q s], db_exports := put_export (incremented_session q s) (db_exports db)\<rparr>"
    unfolding exportRuntimeRequestBeginSQL_def by (auto split: option.splits if_splits)
  then show ?thesis using ledger_change.begin_request [of q db s db'] by simp
qed (simp add: change_same)

lemma begin_change:
  assumes "BeginExportRuntimeRequest request db = (db', res)"
  shows "ledger_change (rb_StartedAt request) db db' \<and> db_mounts db' = db_mounts db"
proof (cases "db' = db")
  case False
  let ?q = "request\<lparr>rb_RequestID := trim_space (rb_RequestID request), rb_ExportID := trim_space (rb_ExportID request)\<rparr>"
  have "exportRuntimeRequestBeginSQL ?q db = (db', res)"
    using assms False unfolding BeginExportRuntimeRequest_def Let_def by (auto split: option.splits)
  from begin_sql [OF this] show ?thesis by simp
qed (simp add: change_same)

lemma observed_kept: "kept_session s (observed_session q s)"
  by (auto simp: kept_session_def observed_session_def session_checks_def)

lemma heartbeat_change:
  assumes "HeartbeatExportRuntimeRequest request db = (db', res)" "ledger_inv db"
  shows "ledger_change t db db' \<and> db_mounts db' = db_mounts db"
proof (cases "db' = db")
  case False
  then obtain q where sql: "exportRuntimeRequestHeartbeatSQL q db = (db', res)"
    using assms(1) unfolding HeartbeatExportRuntimeRequest_def Let_def by (auto split: option.splits)
  have d: "distinct (export_ids (db_exports db))" using assms(2) by (simp add: ledger_inv_def)
  from sql have "ledger_change t db db'"
    using False unfolding exportRuntimeRequestHeartbeatSQL_def
    by (auto intro!: ledger_change.touch put_kept [OF d] simp: Let_def observed_kept dest: find_request_Some
        split: option.splits if_splits)
  moreover have "db_mounts db' = db_mounts db"
    using sql unfolding exportRuntimeRequestHeartbeatSQL_def by (auto simp: Let_def split: option.splits if_splits)
  ultimately show ?thesis by simp
qed (simp add: change_same)

lemma end_change:
  assumes "EndExportRuntimeRequest request db = (db', res)"
  shows "ledger_change t db db' \<and> db_mounts db' = db_mounts db"
proof (cases "db' = db")
  case False
  then obtain q where sql: "exportRuntimeRequestEndSQL q db = (db', res)"
    using assms(1) unfolding EndExportRuntimeRequest_def Let_def by (auto split: option.splits)
  then have "ledger_change t db db'"
    using False unfolding exportRuntimeRequestEndSQL_def
    by (auto intro!: ledger_change.close simp: Let_def dest: find_request_Some split: option.splits if_splits)
  moreover have "db_mounts db' = db_mounts db"
    using sql unfolding exportRuntimeRequestEndSQL_def by (auto simp: Let_def split: option.splits if_splits)
  ultimately show ?thesis by simp
qed (simp add: change_same)

lemma recover_change:
  assumes "RecoverStaleExportRuntimeRequests locked request db = (db', res)"
  shows "ledger_change t db db' \<and> db_mounts db' = db_mounts db"
proof (cases "db' = db")
  case False
  then have sql: "exportRuntimeRequestRecoverStaleSQL locked (sr_Now request) (sr_Limit request) db = (db', res)"
    using assms unfolding RecoverStaleExportRuntimeRequests_def by (auto split: option.splits)
  let ?stale = "stale_requests locked (sr_Now request) (sr_Limit request) (db_requests db)"
  from sql False have "list_all request_checks (map (recovered_request (sr_Now request) ?stale) (db_requests db))"
    "list_all (\<lambda>row. session_checks (fst row)) (map_exports (recovered_session (sr_Now request) ?stale) (db_exports db))"
    "db_exports db' = map_exports (recovered_session (sr_Now request) ?stale) (db_exports db)"
    "db_requests db' = map (recovered_request (sr_Now request) ?stale) (db_requests db)" "db_mounts db' = db_mounts db"
    unfolding exportRuntimeRequestRecoverStaleSQL_def Let_def map_exports_def by (auto split: if_splits)
  then show ?thesis using ledger_change.recover [OF refl] by blast
qed (simp add: change_same)

lemma terminal_kept:
  "terminal_eligible q db s \<Longrightarrow> rq_TargetStatus q \<noteq> ExportStatusActive \<Longrightarrow> session_checks (terminal_session q s) \<Longrightarrow> kept_session s (terminal_session q s)"
  by (auto simp: kept_session_def terminal_session_def terminal_eligible_def)

lemma reconcile_sql:
  assumes "exportReconcileTerminalSQL row q outboxRecord db = (db', res)" "ledger_inv db"
  shows "ledger_change t db db' \<and> db_mounts db' = db_mounts db"
proof (cases "db' = db")
  case False
  have "db' = db \<or> (\<exists>s. find_export (rq_ExportID q) (db_exports db) = Some s \<and> terminal_eligible q db s \<and>
      session_checks (terminal_session q s) \<and> db_exports db' = put_export (terminal_session q s) (db_exports db) \<and>
      db_requests db' = db_requests db \<and> db_mounts db' = db_mounts db)"
    using assms(1) unfolding exportReconcileTerminalSQL_def by (auto split: option.splits sum.splits prod.splits if_splits)
  with False obtain s where s: "find_export (rq_ExportID q) (db_exports db) = Some s" "terminal_eligible q db s"
      "session_checks (terminal_session q s)" "db_exports db' = put_export (terminal_session q s) (db_exports db)"
      "db_requests db' = db_requests db" "db_mounts db' = db_mounts db" by blast
  moreover have "rq_TargetStatus q \<noteq> ExportStatusActive" using s(2) by (auto simp: terminal_eligible_def)
  ultimately show ?thesis using change_put [OF assms(2) s(1) terminal_kept [OF s(2)]] by simp
qed (simp add: change_same)

lemma reconcile_change:
  assumes "ReconcileExportSessionTerminal marshal request db = (db', res)" "ledger_inv db"
  shows "ledger_change t db db' \<and> db_mounts db' = db_mounts db"
proof (cases "db' = db")
  case False
  then obtain row q outboxRecord sres where "exportReconcileTerminalSQL row q outboxRecord db = (db', sres)"
    using assms(1) unfolding ReconcileExportSessionTerminal_def Let_def by (auto split: option.splits sum.splits prod.splits)
  then show ?thesis using reconcile_sql assms(2) by blast
qed (simp add: change_same)

lemma disabled_kept: "kept_session s (disabled_export da u s)"
  by (auto simp: kept_session_def disabled_export_def session_checks_def)

lemma disable_effect:
  assumes "disable_namespace n row db = Inr (Some (db1, x))"
  shows "sessions_kept (db_exports db) (db_exports db1) \<and> db_requests db1 = db_requests db \<and>
    db_mounts db1 = map (\<lambda>m. if wb_NamespaceID m = ns_ID n then disabled_mount (ns_UpdatedAt n) m else m) (db_mounts db)"
proof -
  let ?f = "\<lambda>s. if xs_NamespaceID s = ns_ID n then disabled_export (ns_DisabledAt n) (ns_UpdatedAt n) s else s"
  have "db_exports db1 = map_exports ?f (db_exports db)" "db_requests db1 = db_requests db"
    "db_mounts db1 = map (\<lambda>m. if wb_NamespaceID m = ns_ID n then disabled_mount (ns_UpdatedAt n) m else m) (db_mounts db)"
    using assms unfolding disable_namespace_def by (auto simp: map_exports_def split: option.splits if_splits)
  moreover have "sessions_kept (db_exports db) (map_exports ?f (db_exports db))"
    by (rule sessions_kept_map) (simp add: disabled_kept)
  ultimately show ?thesis by simp
qed

lemma namespace_commit_cases:
  assumes "namespace_commit what ident marshal opr owner now event cond effect db = (db', res)"
  obtains "db_exports db' = db_exports db" "db_requests db' = db_requests db" "db_mounts db' = db_mounts db"
  | row db1 x where "effect row db = Inr (Some (db1, x))" "db_exports db' = db_exports db1" "db_requests db' = db_requests db1"
      "db_mounts db' = db_mounts db1"
proof -
  obtain fres where "fenced_commit what ident marshal opr owner now event cond effect db = (db', fres)"
    using assms unfolding namespace_commit_def by (auto split: prod.splits sum.splits)
  then show ?thesis by (cases rule: fenced_commit_cases) (auto intro: that)
qed

definition mounts_disabled :: "session_db \<Rightarrow> session_db \<Rightarrow> bool" where
  "mounts_disabled db db' \<longleftrightarrow>
     (\<exists>n u. db_mounts db' = map (\<lambda>m. if wb_NamespaceID m = n then disabled_mount u m else m) (db_mounts db))"

lemma disable_change:
  assumes "CommitNamespaceDisableWithLease marshal n sanitized owner now event db = (db', res)"
  shows "ledger_change t db db' \<and> (db_mounts db' = db_mounts db \<or> mounts_disabled db db')"
proof (cases "db' = db")
  case False
  then obtain what ident opr cond where "namespace_commit what ident marshal opr owner now event cond (disable_namespace n) db = (db', res)"
    using assms unfolding CommitNamespaceDisableWithLease_def Let_def by (auto split: option.splits)
  then show ?thesis
    by (cases rule: namespace_commit_cases)
      (auto simp: mounts_disabled_def intro: change_same ledger_change.keep dest!: disable_effect)
qed (simp add: change_same)

lemma upsert_change:
  assumes "CommitNamespaceUpsertWithLease marshal n sanitized owner now event db = (db', res)"
  shows "ledger_change t db db' \<and> db_mounts db' = db_mounts db"
proof (cases "db' = db")
  case False
  then obtain what ident opr cond where "namespace_commit what ident marshal opr owner now event cond (upsert_namespace n) db = (db', res)"
    using assms unfolding CommitNamespaceUpsertWithLease_def Let_def by (auto split: option.splits)
  then show ?thesis
    by (cases rule: namespace_commit_cases)
      (auto simp: upsert_namespace_def intro: change_same split: option.splits if_splits)
qed (simp add: change_same)

section \<open>Mounts\<close>

text \<open>A mount stays as it is, moves on without leaving a terminal status, or is created.\<close>

definition kept_mount :: "Binding \<Rightarrow> Binding \<Rightarrow> bool" where
  "kept_mount m m' \<longleftrightarrow>
     wb_ID m' = wb_ID m \<and> wb_NamespaceID m' = wb_NamespaceID m \<and> wb_RepoID m' = wb_RepoID m \<and> wb_VolumeID m' = wb_VolumeID m \<and>
     wb_MountPath m' = wb_MountPath m \<and> wb_ReadOnly m' = wb_ReadOnly m \<and>
     (Mount_Terminal (wb_Status m) \<longrightarrow> wb_Status m' = wb_Status m \<and> wb_TerminalObservedAt m' = wb_TerminalObservedAt m \<and>
        wb_ConfirmedUnmountedAt m' = wb_ConfirmedUnmountedAt m \<and> wb_UnableToWriteAt m' = wb_UnableToWriteAt m \<and>
        wb_LeaseExpiresAt m' = wb_LeaseExpiresAt m) \<and>
     (wb_Status m = MountStatusReleasing \<longrightarrow> wb_Status m' = MountStatusReleasing \<or> Mount_Terminal (wb_Status m'))"

inductive mount_change :: "session_db \<Rightarrow> session_db \<Rightarrow> bool" where
  kept: "list_all2 kept_mount (db_mounts db) (db_mounts db') \<Longrightarrow> mount_change db db'"
| created: "mount_target_ready m db \<Longrightarrow> db_mounts db' = db_mounts db @ [m] \<Longrightarrow> mount_change db db'"

lemma kept_mount_refl [simp, intro]: "kept_mount m m"
  by (auto simp: kept_mount_def)

lemma mount_change_same: "db_mounts db' = db_mounts db \<Longrightarrow> mount_change db db'"
  by (rule mount_change.kept) (simp add: list_all2_same)

lemma disabled_mount_kept: "kept_mount m (disabled_mount u m)"
  by (cases "wb_Status m") (auto simp: kept_mount_def disabled_mount_def)

lemma status_mount_kept: "ValidOrchestratorStatus st \<Longrightarrow> kept_mount m (status_mount st reason ob le now m)"
  by (cases st; cases "wb_Status m") (auto simp: kept_mount_def status_mount_def status_refused_def Let_def)

lemma heartbeat_mount_kept: "kept_mount m (heartbeat_mount now m)"
  by (auto simp: kept_mount_def heartbeat_mount_def Let_def)

lemma releasing_kept: "kept_mount m (releasing reason now m)"
  by (auto simp: kept_mount_def releasing_def)

lemma put_mount_kept:
  assumes "\<And>m. kept_mount m (f m)" "find_mount ident db = Some m" "distinct (map wb_ID (db_mounts db))"
  shows "list_all2 kept_mount (db_mounts db) (put_mount (f m) (db_mounts db))"
proof -
  have m: "m \<in> set (db_mounts db)" using assms(2) by (auto simp: find_mount_def find_Some_iff)
  have "kept_mount q (if wb_ID q = wb_ID (f m) then f m else q)" if "q \<in> set (db_mounts db)" for q
  proof -
    have "wb_ID (f m) = wb_ID m" using assms(1) by (simp add: kept_mount_def)
    moreover have "q = m" if "wb_ID q = wb_ID m" using assms(3) m \<open>q \<in> set (db_mounts db)\<close> that by (auto simp: distinct_map dest: inj_onD)
    ultimately show ?thesis using assms(1) by auto
  qed
  then show ?thesis by (simp add: put_mount_def list_all2_conv_all_nth)
qed

lemma mount_commit_cases:
  assumes "commitWorkloadMountBinding marshal opr owner now event cond effect db = (db', res)"
  obtains "db_exports db' = db_exports db" "db_requests db' = db_requests db" "db_mounts db' = db_mounts db"
  | r row db1 x where "cond r db" "effect row db = Inr (Some (db1, x))" "db_exports db' = db_exports db1"
      "db_requests db' = db_requests db1" "db_mounts db' = db_mounts db1"
proof -
  obtain fres where "fenced_commit ''workload mount binding commit'' [] marshal opr owner now event cond effect db = (db', fres)"
    using assms unfolding commitWorkloadMountBinding_def by (auto split: prod.splits)
  then show ?thesis
  proof (cases rule: fenced_commit_cases)
    case (committed args rows row db1 x outboxRecord outbox)
    obtain r where "cond r db" using fenced_commit_row [OF committed(2)] .
    then show ?thesis using committed(3,6) by (intro that(2)) simp_all
  qed (auto intro: that)
qed

definition mounts_updated :: "session_db \<Rightarrow> session_db \<Rightarrow> bool" where
  "mounts_updated db db' \<longleftrightarrow>
     db_exports db' = db_exports db \<and> db_requests db' = db_requests db \<and> list_all2 kept_mount (db_mounts db) (db_mounts db')"

lemma mounts_updated_same: "mounts_updated db db"
  by (simp add: mounts_updated_def list_all2_same)

lemma update_mount_change:
  assumes "commit_mount_update typ phase ident f marshal opr owner now event db = (db', res)" "\<And>m. kept_mount m (f m)"
    "distinct (map wb_ID (db_mounts db))"
  shows "mounts_updated db db'"
  using assms(1) [unfolded commit_mount_update_def]
proof (cases rule: mount_commit_cases)
  case 1
  then show ?thesis by (simp add: mounts_updated_def list_all2_same)
next
  case (2 r row db1 x)
  from 2(2) obtain m where m: "find_mount ident db = Some m" "db1 = db\<lparr>db_mounts := put_mount (f m) (db_mounts db)\<rparr>"
    by (auto simp: update_mount_def split: option.splits if_splits)
  then show ?thesis using 2 put_mount_kept [OF assms(2) m(1) assms(3)] by (auto simp: mounts_updated_def)
qed

lemma mount_update_commits:
  assumes "distinct (map wb_ID (db_mounts db))"
  shows "CommitWorkloadMountBindingStatusWithLease marshal i st reason ob le sanitized owner now event db = (db', res) \<Longrightarrow> mounts_updated db db'"
    "CommitWorkloadMountBindingHeartbeatWithLease marshal i sanitized owner now event db = (db', res) \<Longrightarrow> mounts_updated db db'"
    "CommitWorkloadMountBindingReleaseWithLease marshal i sanitized owner now event db = (db', res) \<Longrightarrow> mounts_updated db db'"
    "CommitWorkloadMountBindingRevokeWithLease marshal i sanitized owner now event db = (db', res) \<Longrightarrow> mounts_updated db db'"
  unfolding CommitWorkloadMountBindingStatusWithLease_def CommitWorkloadMountBindingHeartbeatWithLease_def
    CommitWorkloadMountBindingReleaseWithLease_def CommitWorkloadMountBindingRevokeWithLease_def Let_def
  by (auto simp: check_def mounts_updated_same split: option.splits if_splits
      dest!: update_mount_change [OF _ _ assms] intro: status_mount_kept heartbeat_mount_kept releasing_kept)

lemma create_mount_change:
  assumes "CommitWorkloadMountBindingCreateWithLease marshal m sanitized owner now event db = (db', res)"
  shows "db_exports db' = db_exports db \<and> db_requests db' = db_requests db \<and>
    (db_mounts db' = db_mounts db \<or> mount_target_ready m db \<and> wb_ID m \<notin> set (map wb_ID (db_mounts db)) \<and> db_mounts db' = db_mounts db @ [m])"
proof (cases "db' = db")
  case False
  then have "commitWorkloadMountBinding marshal (Record sanitized) owner now event (mount_create_cond m) (insert_mount m) db = (db', res)"
    using assms unfolding CommitWorkloadMountBindingCreateWithLease_def Let_def by (auto split: option.splits)
  then show ?thesis
    by (cases rule: mount_commit_cases)
      (auto simp: insert_mount_def mount_create_cond_def find_mount_def find_None_iff split: if_splits)
qed simp

lemma kept_mount_ids: "list_all2 kept_mount ms ms' \<Longrightarrow> map wb_ID ms' = map wb_ID ms"
  by (induction rule: list_all2_induct) (auto simp: kept_mount_def)

lemma mount_commit_change:
  assumes "c \<in> mount_commits" "c marshal db = (db', res)" "distinct (map wb_ID (db_mounts db))"
  shows "db_exports db' = db_exports db \<and> db_requests db' = db_requests db \<and> mount_change db db' \<and> distinct (map wb_ID (db_mounts db'))"
proof -
  have "mounts_updated db db' \<or> (\<exists>m sanitized owner now event. CommitWorkloadMountBindingCreateWithLease marshal m sanitized owner now event db = (db', res))"
    using assms(1,2) unfolding mount_commits_def
    by (elim UnE CollectE exE disjE) (auto dest: mount_update_commits [OF assms(3)])
  then show ?thesis
  proof
    assume "mounts_updated db db'"
    then show ?thesis using assms(3) kept_mount_ids unfolding mounts_updated_def by (auto intro: mount_change.kept)
  next
    assume "\<exists>m sanitized owner now event. CommitWorkloadMountBindingCreateWithLease marshal m sanitized owner now event db = (db', res)"
    then show ?thesis using create_mount_change assms(3) by (fastforce intro: mount_change_same mount_change.created)
  qed
qed

section \<open>Runs\<close>

definition session_inv :: "session_db \<Rightarrow> bool" where
  "session_inv db \<longleftrightarrow> ledger_inv db \<and> distinct (map wb_ID (db_mounts db))"

lemma mount_change_other: "db_mounts db' = db_mounts db \<or> mounts_disabled db db' \<Longrightarrow> mount_change db db' \<and> map wb_ID (db_mounts db') = map wb_ID (db_mounts db)"
proof (elim disjE)
  assume "mounts_disabled db db'"
  then obtain n u where "db_mounts db' = map (\<lambda>m. if wb_NamespaceID m = n then disabled_mount u m else m) (db_mounts db)"
    unfolding mounts_disabled_def by blast
  then have "list_all2 kept_mount (db_mounts db) (db_mounts db')"
    by (simp add: list_all2_conv_all_nth disabled_mount_kept)
  then show ?thesis using kept_mount_ids mount_change.kept by blast
qed (simp add: mount_change_same)

lemma session_step_change:
  assumes "session_step marshal t db db'" "session_inv db"
  shows "ledger_change t db db' \<and> mount_change db db' \<and> session_inv db'"
proof -
  have l: "ledger_inv db" "distinct (map wb_ID (db_mounts db))" using assms(2) by (simp_all add: session_inv_def)
  have "ledger_change t db db' \<and> mount_change db db' \<and> distinct (map wb_ID (db_mounts db'))"
    using assms(1)
  proof cases
    case (create request res exportID namespaceID repoID mode expiresAt callerService actor now)
    from create(1) show ?thesis
    proof (cases rule: create_change)
      case 1
      then show ?thesis using l by (simp add: change_same mount_change_same)
    next
      case (2 row outboxRecord sres)
      from create_sql [OF 2] show ?thesis
      proof (elim conjE disjE)
        assume a: "create_guard row (cr_Session request) db" "xs_ID (cr_Session request) \<notin> set (export_ids (db_exports db))"
          "session_checks (cr_Session request)" "db_exports db' = db_exports db @ [(cr_Session request, cr_Verifier request)]"
          "db_requests db' = db_requests db" "db_mounts db' = db_mounts db"
        have "ledger_change t db db'"
          by (rule ledger_change.add [OF a(2,3) _ _ _ a(4,5)])
            (use a(1) create(2) in \<open>auto simp: new_export_session_def create_guard_def export_target_ready_def\<close>)
        then show ?thesis using a(6) l by (simp add: mount_change_same)
      qed (use l in \<open>simp add: change_same mount_change_same\<close>)
    qed
  next
    case (disable n sanitized owner now event nres)
    then show ?thesis using disable_change mount_change_other l by metis
  next
    case (mount c mres)
    then show ?thesis using mount_commit_change l change_same by blast
  next
    case (begin_req brequest sres)
    then show ?thesis using begin_change l by (auto simp: mount_change_same)
  next
    case (end_req erequest sres)
    then show ?thesis using end_change l by (auto simp: mount_change_same)
  next
    case (recover_stale locked srequest cres)
    then show ?thesis using recover_change l by (auto simp: mount_change_same)
  next
    case (upsert n sanitized owner now event nres)
    then show ?thesis using upsert_change l by (auto simp: mount_change_same)
  qed (use l revoke_change access_change heartbeat_change reconcile_change in \<open>auto simp: mount_change_same change_same\<close>)
  then show ?thesis using ledger_change_inv l(1) by (auto simp: session_inv_def)
qed

inductive session_run :: "(AuditEvent \<Rightarrow> string + string) \<Rightarrow> session_db \<Rightarrow> bool" for marshal where
  start: "db_exports db = [] \<Longrightarrow> db_requests db = [] \<Longrightarrow> db_mounts db = [] \<Longrightarrow> session_run marshal db"
| step: "session_run marshal db \<Longrightarrow> session_step marshal t db db' \<Longrightarrow> session_run marshal db'"

lemma session_run_inv: "session_run marshal db \<Longrightarrow> session_inv db"
proof (induction rule: session_run.induct)
  case (start db)
  then show ?case by (simp add: session_inv_def ledger_inv_def export_ids_def)
next
  case (step db t db')
  then show ?case using session_step_change by blast
qed

section \<open>Stale requests\<close>

lemma recovered_checks:
  assumes "session_inv db" "stale = stale_requests locked now limit (db_requests db)"
  shows "all_groups_eligible stale db" "list_all request_checks (map (recovered_request now stale) (db_requests db))"
    "list_all (\<lambda>row. session_checks (fst row)) (map_exports (recovered_session now stale) (db_exports db))"
proof -
  have inv: "ledger_inv db" and d: "distinct (map rr_ID (db_requests db))" using assms(1) by (simp_all add: session_inv_def ledger_inv_def)
  have match: "counts_match (db_requests db) s" "session_checks s" if "(s, v) \<in> set (db_exports db)" for s v
    using inv that by (force simp: ledger_inv_def)+
  note rec = recovered_counts [OF d assms(2)]
  have bound: "request_count (xs_ID s) stale \<le> xs_ActiveRequestCount s" "write_count (xs_ID s) stale \<le> xs_ActiveWriteCount s"
    if "(s, v) \<in> set (db_exports db)" "xs_ID s \<in> set (map rr_ExportID stale)" for s v
    using rec [OF match(1) [OF that(1)]] that(2)
    by (auto simp: counts_match_iff recovered_session_def released_session_def)
  show "all_groups_eligible stale db"
    unfolding all_groups_eligible_def list_all_iff
  proof
    fix r assume r: "r \<in> set stale"
    then have "rr_ExportID r \<in> set (export_ids (db_exports db))" using inv stale_subset assms(2) by (force simp: ledger_inv_def)
    then obtain s where s: "find_export (rr_ExportID r) (db_exports db) = Some s" using find_export_None by (metis not_None_eq)
    then obtain v where "(s, v) \<in> set (db_exports db)" "xs_ID s = rr_ExportID r" using find_export_Some by blast
    then show "case find_export (rr_ExportID r) (db_exports db) of None \<Rightarrow> False
        | Some s \<Rightarrow> request_count (rr_ExportID r) stale \<le> xs_ActiveRequestCount s \<and> write_count (rr_ExportID r) stale \<le> xs_ActiveWriteCount s"
      using s bound r by force
  qed
  have "request_checks (recovered_request now stale r)" if r: "r \<in> set (db_requests db)" for r
  proof (cases "rr_ID r \<in> set (map rr_ID stale)")
    case True
    then have "r \<in> set stale" using same_request [OF d r] stale_subset assms(2) by fastforce
    then have "rr_HeartbeatExpiresAt r \<le> now" using stale_subset assms(2) by blast
    moreover have "request_checks r" using inv r by (simp add: ledger_inv_def)
    ultimately show ?thesis using True by (auto simp: request_checks_def recovered_request_def closed_request_def btrim_def)
  next
    case False
    then show ?thesis using inv r by (auto simp: recovered_request_def ledger_inv_def)
  qed
  then show "list_all request_checks (map (recovered_request now stale) (db_requests db))" by (simp add: list_all_iff)
  have "session_checks (recovered_session now stale s)" if "(s, v) \<in> set (db_exports db)" for s v
  proof -
    let ?n = "filter (open_for (xs_ID s)) (map (recovered_request now stale) (db_requests db))"
    have "length (filter rr_Write ?n) \<le> length ?n" by (rule length_filter_le)
    then have "length (filter (\<lambda>r. open_for (xs_ID s) r \<and> rr_Write r) (map (recovered_request now stale) (db_requests db))) \<le> length ?n"
      unfolding filter_filter by (simp only: conj_commute)
    then have "0 \<le> xs_ActiveWriteCount (recovered_session now stale s)"
        "xs_ActiveWriteCount (recovered_session now stale s) \<le> xs_ActiveRequestCount (recovered_session now stale s)"
      using rec [OF match(1) [OF that]] unfolding counts_match_iff recovered_id by linarith+
    moreover have "xs_ActiveRequestCount (recovered_session now stale s) \<le> xs_ActiveRequestCount s"
      by (simp add: recovered_session_def released_session_def request_count_def)
    ultimately show ?thesis
      using match(2) [OF that] by (auto simp: session_checks_def recovered_session_def released_session_def split: if_splits)
  qed
  then show "list_all (\<lambda>row. session_checks (fst row)) (map_exports (recovered_session now stale) (db_exports db))"
    by (auto simp: list_all_iff map_exports_def)
qed

lemma recover_granted:
  assumes "session_inv db" "now \<noteq> 0" "0 < limit"
  shows "\<exists>db'. RecoverStaleExportRuntimeRequests locked \<lparr>sr_Now = now, sr_Limit = limit\<rparr> db =
      (db', Inr (int (length (stale_requests locked now limit (db_requests db))), int (length (filter rr_Write (stale_requests locked now limit (db_requests db)))))) \<and>
    db_requests db' = map (recovered_request now (stale_requests locked now limit (db_requests db))) (db_requests db)"
  using recovered_checks [where locked = locked and now = now and limit = limit, OF assms(1) refl] assms(2,3)
  by (simp add: RecoverStaleExportRuntimeRequests_def StaleRuntimeRequestRecovery_Validate_def export_check_def check_def
      exportRuntimeRequestRecoverStaleSQL_def Let_def is_zero_def map_exports_def)

lemma stale_all:
  assumes "nat limit \<ge> length rows" "r \<in> set rows" "rr_State r = RequestOpen" "rr_HeartbeatExpiresAt r \<le> now" "rr_ID r \<notin> locked"
  shows "r \<in> set (stale_requests locked now limit rows)"
proof -
  have "length (filter P rows) \<le> nat limit" for P using assms(1) length_filter_le [of P rows] by linarith
  then show ?thesis using assms(2-5) by (simp add: stale_requests_def)
qed

end
