(* ===== verification/Export_Reconcile.thy ===== *)
theory Export_Reconcile
  imports Session_Safety
begin

text \<open>
  The worker that closes export sessions: \<open>internal/exportreconcile/reconcile.go\<close>. A pass first recovers
  the requests of dead gateways and then moves every drained session that is revoked or
  expired into its final status. Between two calls of the store other processes change the database:
  \<open>other n\<close> is what they do before the \<open>n\<close>-th call. \<open>encode\<close> is the text that \<open>json.Marshal\<close> produces for a request.
\<close>

section \<open>Requests\<close>

definition HashRequest :: "(go_any \<Rightarrow> string + string) \<Rightarrow> go_any \<Rightarrow> string + string" where
  "HashRequest encode request =
     (case encode request of Inl err \<Rightarrow> Inl err | Inr encoded \<Rightarrow> Inr (''sha256:'' @ hex_encode (sha256 encoded)))"

definition stableID :: "string \<Rightarrow> string \<Rightarrow> string" where
  "stableID pre key = pre @ hex_encode (take 8 (sha256 key))"

fun ExportStatus_String :: "ExportStatus \<Rightarrow> string" where
  "ExportStatus_String ExportStatusActive = ''active''"
| "ExportStatus_String ExportStatusRevoking = ''revoking''"
| "ExportStatus_String ExportStatusRevoked = ''revoked''"
| "ExportStatus_String ExportStatusExpired = ''expired''"
| "ExportStatus_String ExportStatusFailed = ''failed''"
| "ExportStatus_String (ExportStatusOther s) = s"

record ReconcileConfig =
  xc_Store :: bool
  xc_Owner :: string
  xc_Limit :: go_int
  xc_Now :: go_time
  xc_Clock :: "go_time option"
  xc_AuditEventID :: "(string \<Rightarrow> string) option"

text \<open>The counters of a pass. \<open>xc_AuditEventID\<close> is asked once for each session.\<close>

record ReconcileCounts =
  rn_RecoveredRuntimeRequests :: int
  rn_RecoveredRuntimeWrites :: int
  rn_Scanned :: int
  rn_Terminalized :: int
  rn_Reused :: int
  rn_Skipped :: int
  rn_RaceLost :: int
  rn_Failed :: int

definition no_counts :: ReconcileCounts where
  "no_counts = \<lparr>rn_RecoveredRuntimeRequests = 0, rn_RecoveredRuntimeWrites = 0, rn_Scanned = 0, rn_Terminalized = 0, rn_Reused = 0,
     rn_Skipped = 0, rn_RaceLost = 0, rn_Failed = 0\<rparr>"

datatype reconcile_error =
    ReconcileText string
  | ReconcileRecover sess_error
  | ReconcileList sess_error
  | ReconcileRequestError string
  | ReconcileSession string sess_error

definition defaultLimit :: int where "defaultLimit = 10"

text \<open>\<open>wall\<close> is the time of the machine, taken when neither time nor clock is set.\<close>

definition validatedConfig :: "go_time \<Rightarrow> ReconcileConfig \<Rightarrow> reconcile_error + ReconcileConfig \<times> go_time" where
  "validatedConfig wall config =
     (let owner = trim_space (xc_Owner config);
          clocked = (if is_zero (xc_Now config) then (case xc_Clock config of None \<Rightarrow> xc_Now config | Some t \<Rightarrow> t) else xc_Now config);
          now = (if is_zero clocked then wall else clocked) in
      if \<not> xc_Store config then Inl (ReconcileText ''export session reconcile store is required'')
      else if owner = [] then Inl (ReconcileText ''export session reconcile owner is required'')
      else Inr (config\<lparr>xc_Owner := owner, xc_Limit := if xc_Limit config \<le> 0 then defaultLimit else xc_Limit config\<rparr>, now))"

definition targetStatus :: "Session \<Rightarrow> go_time \<Rightarrow> (ExportStatus \<times> string) option" where
  "targetStatus session now =
     (if xs_ActiveRequestCount session \<noteq> 0 \<or> xs_ActiveWriteCount session \<noteq> 0 then None
      else if xs_Status session = ExportStatusRevoking then Some (ExportStatusRevoked, ''export session drained after revoke'')
      else if xs_Status session = ExportStatusActive \<and> \<not> xs_ExpiresAt session > now
        then Some (ExportStatusExpired, ''export session expired with no active requests'')
      else None)"

definition reconcile_summary :: "Session \<Rightarrow> ExportStatus \<Rightarrow> go_object" where
  "reconcile_summary session target =
     [(''export_id'', AnyString (xs_ID session)), (''repo_id'', AnyString (xs_RepoID session)),
      (''target_status'', AnyString (ExportStatus_String target))]"

definition reconcileRequest ::
    "(go_any \<Rightarrow> string + string) \<Rightarrow> ReconcileConfig \<Rightarrow> Session \<Rightarrow> ExportStatus \<Rightarrow> string \<Rightarrow> go_time \<Rightarrow> string + ReconcileRequest" where
  "reconcileRequest encode config session target reason now =
     (let key = xs_ID session @ '':'' @ ExportStatus_String target;
          operationID = stableID ''op_exportreconcile_'' key in
      case HashRequest encode (AnyMap [(''export_id'', AnyString (xs_ID session)), (''namespace_id'', AnyString (xs_NamespaceID session)),
          (''target_status'', AnyString (ExportStatus_String target))]) of
        Inl err \<Rightarrow> Inl err
      | Inr requestHash \<Rightarrow>
        let opr = \<lparr>op_ID = operationID, op_Type = OperationExportSessionReconcile, op_State = OperationStateSucceeded,
              op_Phase = ''export_session_reconcile_committed'', op_Attempt = 1, op_LeaseOwner = [], op_LeaseExpiresAt = None,
              op_IdempotencyScope = Scope_String \<lparr>scope_CallerService = xc_Owner config, scope_NamespaceID = xs_NamespaceID session,
                scope_OperationType = OperationExportSessionReconcile, scope_IdempotencyKey = key\<rparr>,
              op_IdempotencyKey = key, op_RequestHash = requestHash, op_CorrelationID = ''corr_'' @ operationID,
              op_CallerService = xc_Owner config, op_AuthorizedActor = \<lparr>actor_Type = ''service'', actor_ID = xc_Owner config\<rparr>,
              op_Resource = \<lparr>resource_Type = ''export'', resource_ID = xs_ID session\<rparr>, op_NamespaceID = xs_NamespaceID session,
              op_RepoID = xs_RepoID session, op_TemplateID = [], op_ExportID = xs_ID session, op_MountBindingID = [], op_SessionFenceID = [],
              op_ExternalResourceIDs = Some [], op_InputSummary = Some (reconcile_summary session target), op_JVSJSONOutput = AnyNil,
              op_VerificationResult = AnyNil, op_CompensationStatus = [], op_Error = None, op_Redaction = no_report,
              op_CreatedAt = now, op_StartedAt = Some now, op_FinishedAt = Some now\<rparr>;
            generated = (case xc_AuditEventID config of None \<Rightarrow> [] | Some f \<Rightarrow> trim_space (f (xs_ID session)));
            eventID = (if generated = [] then stableID ''evt_exportreconcile_'' key else generated);
            event = NewEvent \<lparr>ev_EventID = eventID, ev_Type = EventTypeExportSessionReconcile, ev_Time = now, ev_CallerService = xc_Owner config,
              ev_AuthorizedActor = \<lparr>actor_Type = ''service'', actor_ID = xc_Owner config\<rparr>, ev_CorrelationID = op_CorrelationID opr,
              ev_OperationID = op_ID opr,
              ev_Resource = \<lparr>ares_Type = ''export'', ares_ID = xs_ID session, ares_NamespaceID = xs_NamespaceID session, ares_Path = []\<rparr>,
              ev_Outcome = OutcomeSucceeded, ev_Reason = reason, ev_Details = Some (reconcile_summary session target)\<rparr> in
        Inr \<lparr>rq_ExportID = xs_ID session, rq_NamespaceID = xs_NamespaceID session, rq_TargetStatus = target, rq_ObservedAt = now,
             rq_StatusReason = reason, rq_ActiveRequestCount = 0, rq_ActiveWriteCount = 0, rq_Operation = opr, rq_Audit = event\<rparr>)"

section \<open>A pass\<close>

text \<open>The loop; \<open>n\<close> numbers the calls of the store.\<close>

fun reconcile_all ::
    "(nat \<Rightarrow> session_db \<Rightarrow> session_db) \<Rightarrow> (AuditEvent \<Rightarrow> string + string) \<Rightarrow> (go_any \<Rightarrow> string + string) \<Rightarrow> ReconcileConfig \<Rightarrow> go_time \<Rightarrow>
      nat \<Rightarrow> Session list \<Rightarrow> ReconcileCounts \<Rightarrow> session_db \<Rightarrow> session_db \<times> ReconcileCounts \<times> reconcile_error option" where
  "reconcile_all other marshal encode config now n [] counts db = (db, counts, None)"
| "reconcile_all other marshal encode config now n (session # rest) counts db =
     (case targetStatus session now of
        None \<Rightarrow> reconcile_all other marshal encode config now n rest (counts\<lparr>rn_Skipped := rn_Skipped counts + 1\<rparr>) db
      | Some (target, reason) \<Rightarrow>
      case reconcileRequest encode config session target reason now of
        Inl err \<Rightarrow> (db, counts\<lparr>rn_Failed := rn_Failed counts + 1\<rparr>, Some (ReconcileRequestError err))
      | Inr request \<Rightarrow>
      case ReconcileExportSessionTerminal marshal request (other n db) of
        (db', Inl SessNoRows) \<Rightarrow> reconcile_all other marshal encode config now (Suc n) rest (counts\<lparr>rn_RaceLost := rn_RaceLost counts + 1\<rparr>) db'
      | (db', Inl err) \<Rightarrow> (db', counts\<lparr>rn_Failed := rn_Failed counts + 1\<rparr>, Some (ReconcileSession (xs_ID session) err))
      | (db', Inr reconciled) \<Rightarrow>
          reconcile_all other marshal encode config now (Suc n) rest
            (if cm_Reused reconciled then counts\<lparr>rn_Reused := rn_Reused counts + 1\<rparr> else counts\<lparr>rn_Terminalized := rn_Terminalized counts + 1\<rparr>) db')"

definition Reconcile_RunOnce ::
    "(nat \<Rightarrow> session_db \<Rightarrow> session_db) \<Rightarrow> (AuditEvent \<Rightarrow> string + string) \<Rightarrow> (go_any \<Rightarrow> string + string) \<Rightarrow> string set \<Rightarrow> go_time \<Rightarrow>
      ReconcileConfig \<Rightarrow> session_db \<Rightarrow> session_db \<times> ReconcileCounts \<times> reconcile_error option" where
  "Reconcile_RunOnce other marshal encode locked wall config0 db0 =
     (case validatedConfig wall config0 of
        Inl err \<Rightarrow> (db0, no_counts, Some err)
      | Inr (config, now) \<Rightarrow>
      case RecoverStaleExportRuntimeRequests locked \<lparr>sr_Now = now, sr_Limit = xc_Limit config\<rparr> (other 0 db0) of
        (db, Inl err) \<Rightarrow> (db, no_counts\<lparr>rn_Failed := 1\<rparr>, Some (ReconcileRecover err))
      | (db, Inr (recovered, recoveredWrites)) \<Rightarrow>
      case ListExportSessionsForTerminalReconcile now (xc_Limit config) (other 1 db) of
        Inl err \<Rightarrow> (other 1 db, no_counts, Some (ReconcileList err))
      | Inr sessions \<Rightarrow>
          reconcile_all other marshal encode config now 2 (take (nat (xc_Limit config)) sessions)
            (no_counts\<lparr>rn_RecoveredRuntimeRequests := recovered, rn_RecoveredRuntimeWrites := recoveredWrites,
              rn_Scanned := min (int (length sessions)) (xc_Limit config)\<rparr>) (other 1 db))"

section \<open>What a pass does\<close>

lemma candidate_target: "terminal_candidate now db session \<Longrightarrow> targetStatus session now \<noteq> None"
  by (auto simp: terminal_candidate_def targetStatus_def)

lemma listed_candidates:
  assumes "ListExportSessionsForTerminalReconcile now limit db = Inr sessions"
  shows "list_all (\<lambda>s. targetStatus s now \<noteq> None) sessions" "int (length sessions) \<le> limit"
proof -
  have s: "0 < limit" "sessions = take (nat limit) (sort_key (\<lambda>s. (xs_UpdatedAt s, xs_ID s))
      (filter (terminal_candidate now db) (map fst (db_exports db))))"
    using assms by (auto simp: ListExportSessionsForTerminalReconcile_def split: if_splits)
  have "set sessions \<subseteq> set (filter (terminal_candidate now db) (map fst (db_exports db)))"
    unfolding s(2) by (metis set_sort set_take_subset)
  then show "list_all (\<lambda>s. targetStatus s now \<noteq> None) sessions"
    using candidate_target by (fastforce simp: list_all_iff)
  show "int (length sessions) \<le> limit" using s by simp
qed

text \<open>What the counters add up to, without the failures.\<close>

definition handled :: "ReconcileCounts \<Rightarrow> int" where
  "handled counts = rn_Terminalized counts + rn_Reused counts + rn_RaceLost counts"

lemma reconcile_all_counts:
  assumes "reconcile_all other marshal encode config now n sessions counts db = (db', counts', err)"
    "list_all (\<lambda>s. targetStatus s now \<noteq> None) sessions"
  shows "rn_Skipped counts' = rn_Skipped counts \<and> rn_Scanned counts' = rn_Scanned counts \<and>
    (if err = None then rn_Failed counts' = rn_Failed counts \<and> handled counts' = handled counts + int (length sessions)
     else rn_Failed counts' = rn_Failed counts + 1 \<and> handled counts' < handled counts + int (length sessions))"
  using assms
proof (induction other marshal encode config now n sessions counts db rule: reconcile_all.induct)
  case (2 other marshal encode config now n session rest counts db)
  obtain target reason where t: "targetStatus session now = Some (target, reason)" using 2(5) by auto
  have rest: "list_all (\<lambda>s. targetStatus s now \<noteq> None) rest" using 2(5) by simp
  show ?case
  proof (cases "reconcileRequest encode config session target reason now")
    case (Inl e)
    then show ?thesis using 2(4) t by (auto simp: handled_def)
  next
    case request: (Inr request)
    obtain d res where r: "ReconcileExportSessionTerminal marshal request (other n db) = (d, res)" by force
    show ?thesis
    proof (cases res)
      case (Inl e)
      then show ?thesis using 2(4) 2(2) [OF t refl request r [symmetric] Inl _ _ rest] t request r
        by (cases e) (auto simp: handled_def split: if_splits)
    next
      case (Inr reconciled)
      then show ?thesis using 2(4) 2(3) [OF t refl request r [symmetric] Inr _ rest] t request r
        by (auto simp: handled_def split: if_splits)
    qed
  qed
qed (auto simp: handled_def)

lemma reconcile_all_run:
  assumes "reconcile_all other marshal encode config now n sessions counts db = (db', counts', err)" "session_run marshal db"
    and "\<And>n d. session_run marshal d \<Longrightarrow> session_run marshal (other n d)"
  shows "session_run marshal db'"
  using assms(1,2)
proof (induction sessions arbitrary: n counts db)
  case (Cons session rest)
  have step: "session_run marshal d" if "ReconcileExportSessionTerminal marshal request (other n db) = (d, res)" for request d res
    using session_run.step [OF assms(3) [OF Cons.prems(2)] session_step.reconcile [OF that]] .
  from Cons.prems(1) show ?case
    using Cons.prems(2) by (auto split: option.splits sum.splits prod.splits sess_error.splits dest!: step intro: Cons.IH)
qed simp


text \<open>The session of the example is expired at the time of this pass, while its request is still open.\<close>

definition example_reconcile_config :: ReconcileConfig where
  "example_reconcile_config = \<lparr>xc_Store = True, xc_Owner = ''worker'', xc_Limit = 0, xc_Now = 1000, xc_Clock = None, xc_AuditEventID = None\<rparr>"


end
