(* ===== verification/Lifecycle_Store.thy ===== *)
theory Lifecycle_Store
  imports Typed_Commits
begin

text \<open>
  Lifecycle commits of repos: \<open>repo_lifecycle_operations.go\<close>, \<open>repo_purge_operations.go\<close> and the readers
  of \<open>resources.go\<close> that the lifecycle executors use, all in \<open>internal/store/postgres\<close>. A commit
  moves the repo, finishes the operation, releases the lifecycle fence and adds the audit
  row in one statement, and checks again everything the executor has seen before. The
  repo of a request is validated first, and a validated repo satisfies the check constraints of its table.
\<close>

section \<open>Reading resources\<close>

datatype repo_error = RepoInvalid resource_error | RepoBadID path_error | RepoStore sess_error

definition find_repo :: "string \<Rightarrow> session_db \<Rightarrow> Repo option" where
  "find_repo repoID db = find (\<lambda>r. repo_ID r = repoID) (db_repos db)"

definition put_repo :: "Repo \<Rightarrow> Repo list \<Rightarrow> Repo list" where
  "put_repo r rows = map (\<lambda>q. if repo_ID q = repo_ID r then r else q) rows"

text \<open>A row that is read is validated.\<close>

definition scan_resource :: "('a \<Rightarrow> resource_error option) \<Rightarrow> 'a option \<Rightarrow> repo_error + 'a" where
  "scan_resource validate row =
     (case row of
        None \<Rightarrow> Inl (RepoStore SessNoRows)
      | Some x \<Rightarrow> (case validate x of Some err \<Rightarrow> Inl (RepoInvalid err) | None \<Rightarrow> Inr x))"

definition validateRepoOrTemplateID :: "string \<Rightarrow> repo_error option" where
  "validateRepoOrTemplateID ident =
     (if ValidateID RepoID ident = None then None
      else if ValidateID TemplateID ident = None then None
      else Some (RepoInvalid (ResourceText ''invalid repo or template id'')))"

definition GetRepo :: "string \<Rightarrow> session_db \<Rightarrow> repo_error + Repo" where
  "GetRepo repoID db = scan_resource Repo_Validate (find_repo repoID db)"

definition GetRepoInNamespace :: "string \<Rightarrow> string \<Rightarrow> session_db \<Rightarrow> repo_error + Repo" where
  "GetRepoInNamespace namespaceID repoID db =
     (case checks [map_option RepoBadID (ValidateID NamespaceID namespaceID), validateRepoOrTemplateID repoID] of
        Some err \<Rightarrow> Inl err
      | None \<Rightarrow>
        scan_resource Repo_Validate (find (\<lambda>r. repo_NamespaceID r = namespaceID \<and> repo_ID r = repoID) (db_repos db)))"

definition GetNamespace :: "string \<Rightarrow> session_db \<Rightarrow> repo_error + Namespace" where
  "GetNamespace namespaceID db = scan_resource Namespace_Validate (find (\<lambda>n. ns_ID n = namespaceID) (db_namespaces db))"

definition GetNamespaceVolumeBinding :: "string \<Rightarrow> session_db \<Rightarrow> repo_error + NamespaceVolumeBinding" where
  "GetNamespaceVolumeBinding namespaceID db =
     scan_resource NamespaceVolumeBinding_Validate (find (\<lambda>b. nvb_NamespaceID b = namespaceID) (db_bindings db))"

definition GetVolume :: "string \<Rightarrow> session_db \<Rightarrow> repo_error + Volume" where
  "GetVolume volumeID db = scan_resource Volume_Validate (find (\<lambda>v. vol_ID v = volumeID) (db_volumes db))"

section \<open>Checks of the commit requests\<close>

definition repoLifecycleOperationTypeSupported :: "OperationType \<Rightarrow> bool" where
  "repoLifecycleOperationTypeSupported typ \<longleftrightarrow> typ \<in> set lifecycle_types"

definition validateRepoLifecycleSuccessRecord :: "Repo \<Rightarrow> OperationRecord \<Rightarrow> sess_error option" where
  "validateRepoLifecycleSuccessRecord repo opr =
     checks
      [check (\<not> repoLifecycleOperationTypeSupported (op_Type opr))
         (invalid_request ''operation_type'' ''operation record must be supported repo lifecycle type''),
       check (op_State opr \<noteq> OperationStateSucceeded)
         (invalid_request ''operation_state'' ''repo lifecycle success requires succeeded operation update''),
       check (op_Phase opr \<noteq> ''repo_lifecycle_committed'')
         (invalid_request ''phase'' ''repo lifecycle success requires committed terminal phase''),
       check (op_NamespaceID opr \<noteq> repo_NamespaceID repo \<or> op_RepoID opr \<noteq> repo_ID repo \<or>
           resource_Type (op_Resource opr) \<noteq> ''repo'' \<or> resource_ID (op_Resource opr) \<noteq> repo_ID repo)
         (invalid_request ''resource'' ''repo lifecycle operation resource must match repo''),
       check (repo_Kind repo \<noteq> RepoKindRepo \<or> repo_Status repo \<noteq> rl_Status (repo_Lifecycle repo) \<or>
           rl_LastLifecycleOperationID (repo_Lifecycle repo) \<noteq> op_ID opr)
         (invalid_request ''repo_lifecycle'' ''repo lifecycle metadata must match terminal operation'')]"

definition validateRepoLifecycleFailureRecord :: "OperationRecord \<Rightarrow> sess_error option" where
  "validateRepoLifecycleFailureRecord opr =
     checks
      [check (\<not> repoLifecycleOperationTypeSupported (op_Type opr))
         (invalid_request ''operation_type'' ''operation record must be supported repo lifecycle type''),
       check (op_State opr \<noteq> OperationStateFailed \<and> op_State opr \<noteq> OperationStateOperatorInterventionRequired)
         (invalid_request ''operation_state'' ''repo lifecycle failure requires failed or operator intervention operation update''),
       check (op_Phase opr \<noteq> ''validate_repo_lifecycle'')
         (invalid_request ''phase'' ''repo lifecycle failure stays in validate phase''),
       check (trim_space (op_NamespaceID opr) = [] \<or> trim_space (op_RepoID opr) = [] \<or> resource_Type (op_Resource opr) \<noteq> ''repo'' \<or>
           resource_ID (op_Resource opr) \<noteq> op_RepoID opr \<or> op_Error opr = None)
         (invalid_request ''resource'' ''repo lifecycle failure requires target repo and error'')]"

definition validateRepoPurgeSuccessRecord :: "Repo \<Rightarrow> OperationRecord \<Rightarrow> sess_error option" where
  "validateRepoPurgeSuccessRecord repo opr =
     checks
      [check (op_Type opr \<noteq> OperationRepoPurge) (invalid_request ''operation_type'' ''operation record must be repo_purge''),
       check (op_State opr \<noteq> OperationStateSucceeded \<or> op_Phase opr \<noteq> ''repo_lifecycle_committed'')
         (invalid_request ''operation_state'' ''repo purge success requires succeeded committed operation''),
       check (op_NamespaceID opr \<noteq> repo_NamespaceID repo \<or> op_RepoID opr \<noteq> repo_ID repo \<or>
           resource_Type (op_Resource opr) \<noteq> ''repo'' \<or> resource_ID (op_Resource opr) \<noteq> repo_ID repo)
         (invalid_request ''resource'' ''repo purge operation resource must match repo''),
       check (repo_Kind repo \<noteq> RepoKindRepo \<or> repo_Status repo \<noteq> RepoStatusPurged \<or>
           rl_Status (repo_Lifecycle repo) \<noteq> RepoStatusPurged \<or> rl_LastLifecycleOperationID (repo_Lifecycle repo) \<noteq> op_ID opr \<or>
           rl_RetentionExpiresAt (repo_Lifecycle repo) \<noteq> None \<or>
           (rl_PreDeleteStatus (repo_Lifecycle repo) \<noteq> RepoStatusActive \<and> rl_PreDeleteStatus (repo_Lifecycle repo) \<noteq> RepoStatusArchived))
         (invalid_request ''repo_lifecycle'' ''repo purge metadata must match terminal operation'')]"

definition validateRepoPurgeFailureRecord :: "OperationRecord \<Rightarrow> sess_error option" where
  "validateRepoPurgeFailureRecord opr =
     checks
      [check (op_Type opr \<noteq> OperationRepoPurge) (invalid_request ''operation_type'' ''operation record must be repo_purge''),
       check (op_State opr \<noteq> OperationStateFailed \<and> op_State opr \<noteq> OperationStateOperatorInterventionRequired)
         (invalid_request ''operation_state'' ''repo purge failure requires failed or operator intervention operation update''),
       check (op_Phase opr \<noteq> ''validate_repo_lifecycle'' \<or> trim_space (op_NamespaceID opr) = [] \<or> trim_space (op_RepoID opr) = [] \<or>
           resource_Type (op_Resource opr) \<noteq> ''repo'' \<or> resource_ID (op_Resource opr) \<noteq> op_RepoID opr \<or> op_Error opr = None)
         (invalid_request ''resource'' ''repo purge failure requires target repo and error'')]"

text \<open>The repo of the event is given by its namespace and its identifier. An operation type without event
  type has the empty event type.\<close>

definition validateRepoLifecycleAuditEvent :: "string \<Rightarrow> string \<Rightarrow> OperationRecord \<Rightarrow> AuditEvent \<Rightarrow> AuditOutcome \<Rightarrow> sess_error option" where
  "validateRepoLifecycleAuditEvent namespaceID repoID opr event outcome =
     checks
      [check (ev_OperationID event \<noteq> op_ID opr) (audit_invalid ''operation_id'' ''audit operation id must match operation update''),
       check ((case EventTypeForOperationType (OperationType_String (op_Type opr)) of
             None \<Rightarrow> EventType_String (ev_Type event) \<noteq> [] | Some want \<Rightarrow> ev_Type event \<noteq> want) \<or> ev_Outcome event \<noteq> outcome)
         (audit_invalid ''event_type'' ''repo lifecycle audit event must match operation outcome''),
       check (ares_Type (ev_Resource event) \<noteq> ''repo'' \<or> ares_ID (ev_Resource event) \<noteq> repoID \<or>
           ares_NamespaceID (ev_Resource event) \<noteq> namespaceID)
         (audit_invalid ''resource'' ''repo lifecycle audit resource must match repo metadata''),
       check (ev_CallerService event \<noteq> op_CallerService opr \<or> ev_CorrelationID event \<noteq> op_CorrelationID opr \<or>
           ev_AuthorizedActor event \<noteq> op_AuthorizedActor opr)
         (audit_invalid ''caller'' ''repo lifecycle audit caller context must match operation'')]"

definition validateRepoLifecycleFailureAuditEvent :: "OperationRecord \<Rightarrow> AuditEvent \<Rightarrow> sess_error option" where
  "validateRepoLifecycleFailureAuditEvent opr event =
     validateRepoLifecycleAuditEvent (op_NamespaceID opr) (op_RepoID opr) opr event OutcomeFailed"

section \<open>Conditions of the statements\<close>

text \<open>\<open>eligible_operation\<close>, apart from the lease that \<open>fenced_cond\<close> checks.\<close>

definition stored_lifecycle_predicate :: "OperationRecord \<Rightarrow> OperationType list \<Rightarrow> operation_row \<Rightarrow> bool" where
  "stored_lifecycle_predicate opr types r \<longleftrightarrow>
     row_operation_type r \<in> set types \<and> row_phase r = ''validate_repo_lifecycle'' \<and> row_namespace_id r = op_NamespaceID opr \<and>
     row_repo_id r = Some (op_RepoID opr) \<and> row_resource_type r = ''repo'' \<and> row_resource_id r = op_RepoID opr \<and>
     row_caller_service r = op_CallerService opr \<and> row_correlation_id r = op_CorrelationID opr \<and>
     row_authorized_actor_type r = actor_Type (op_AuthorizedActor opr) \<and> row_authorized_actor_id r = actor_ID (op_AuthorizedActor opr)"

definition lifecycle_fence :: "string \<Rightarrow> string \<Rightarrow> string \<Rightarrow> Fence \<Rightarrow> bool" where
  "lifecycle_fence repoID fenceID holder f \<longleftrightarrow>
     release_matches repoID fenceID f \<and> fence_Kind f = KindLifecycle \<and> fence_HolderOperationID f = holder"

definition live_session :: "Session \<Rightarrow> bool" where
  "live_session s \<longleftrightarrow>
     \<not> exportTerminal (xs_Status s) \<or> xs_TerminalObservedAt s = None \<or> xs_ActiveRequestCount s \<noteq> 0 \<or> xs_ActiveWriteCount s \<noteq> 0 \<or>
     (xs_Status s = ExportStatusFailed \<and> btrim (xs_StatusReason s) = [])"

definition live_mount :: "Binding \<Rightarrow> bool" where
  "live_mount m \<longleftrightarrow> \<not> mountTerminal (wb_Status m) \<or> wb_ConfirmedUnmountedAt m = None"

definition no_sessions :: "string \<Rightarrow> session_db \<Rightarrow> bool" where
  "no_sessions repoID db \<longleftrightarrow>
     \<not> list_ex (\<lambda>row. xs_RepoID (fst row) = repoID \<and> live_session (fst row)) (db_exports db) \<and>
     \<not> list_ex (\<lambda>m. wb_RepoID m = repoID \<and> live_mount m) (db_mounts db)"

definition no_earlier_lifecycle :: "string \<Rightarrow> string \<Rightarrow> operation_row \<Rightarrow> session_db \<Rightarrow> bool" where
  "no_earlier_lifecycle repoID operationID r db \<longleftrightarrow>
     \<not> list_ex (\<lambda>q. row_repo_id q = Some repoID \<and>
         (row_created_at q < row_created_at r \<or> (row_created_at q = row_created_at r \<and> row_operation_id q < operationID)) \<and>
         row_operation_type q \<in> set lifecycle_and_purge_types \<and> open_row q) (db_operations db)"

definition lifecycle_target_ready :: "Repo \<Rightarrow> session_db \<Rightarrow> bool" where
  "lifecycle_target_ready repo db \<longleftrightarrow>
     list_ex (\<lambda>n. ns_ID n = repo_NamespaceID repo \<and> ns_Status n = NamespaceStatusActive) (db_namespaces db) \<and>
     list_ex (\<lambda>b. nvb_NamespaceID b = repo_NamespaceID repo \<and> nvb_Status b = NamespaceStatusActive) (db_bindings db) \<and>
     list_ex (\<lambda>v. vol_ID v = repo_VolumeID repo \<and> vol_Status v = VolumeStatusActive \<and>
       json_flag (vol_Capabilities v) ''jvs_external_control_root'') (db_volumes db)"

definition same_repo :: "Repo \<Rightarrow> Repo \<Rightarrow> bool" where
  "same_repo repo old \<longleftrightarrow>
     repo_ID old = repo_ID repo \<and> repo_NamespaceID old = repo_NamespaceID repo \<and> repo_VolumeID old = repo_VolumeID repo \<and>
     repo_JVSRepoID old = repo_JVSRepoID repo \<and> repo_Kind old = repo_Kind repo \<and>
     repo_ControlVolumeSubdir old = repo_ControlVolumeSubdir repo \<and> repo_PayloadVolumeSubdir old = repo_PayloadVolumeSubdir repo \<and>
     repo_CreatedAt old = repo_CreatedAt repo"

definition becomes :: "Repo \<Rightarrow> RepoStatus \<Rightarrow> bool" where
  "becomes repo status \<longleftrightarrow> repo_Status repo = status \<and> rl_Status (repo_Lifecycle repo) = status"

definition lifecycle_transition :: "OperationType \<Rightarrow> go_time \<Rightarrow> Repo \<Rightarrow> Repo \<Rightarrow> bool" where
  "lifecycle_transition typ createdAt old repo \<longleftrightarrow>
     (let retention = rl_RetentionExpiresAt (repo_Lifecycle repo); before_delete = rl_PreDeleteStatus (repo_Lifecycle repo) in
      (typ = OperationRepoArchive \<and> repo_Status old = RepoStatusActive \<and> becomes repo RepoStatusArchived \<and>
         retention = None \<and> before_delete = RepoStatusEmpty) \<or>
      (typ = OperationRepoRestoreArchived \<and> repo_Status old = RepoStatusArchived \<and> becomes repo RepoStatusActive \<and>
         retention = None \<and> before_delete = RepoStatusEmpty) \<or>
      (typ = OperationRepoDelete \<and> repo_Status old \<in> {RepoStatusActive, RepoStatusArchived} \<and> becomes repo RepoStatusTombstoned \<and>
         retention \<noteq> None \<and> before_delete = repo_Status old) \<or>
      (typ = OperationRepoRestoreTombstoned \<and> repo_Status old = RepoStatusTombstoned \<and>
         (case rl_RetentionExpiresAt (repo_Lifecycle old) of None \<Rightarrow> False | Some t \<Rightarrow> createdAt < t) \<and>
         createdAt > repo_UpdatedAt old \<and> rl_PreDeleteStatus (repo_Lifecycle old) \<noteq> RepoStatusEmpty \<and>
         becomes repo (rl_PreDeleteStatus (repo_Lifecycle old)) \<and> retention = None \<and> before_delete = RepoStatusEmpty))"

definition purge_transition :: "go_time \<Rightarrow> Repo \<Rightarrow> Repo \<Rightarrow> bool" where
  "purge_transition createdAt old repo \<longleftrightarrow>
     repo_Status old = RepoStatusTombstoned \<and> createdAt > repo_UpdatedAt old \<and> becomes repo RepoStatusPurged \<and>
     rl_RetentionExpiresAt (repo_Lifecycle repo) = None \<and> rl_PreDeleteStatus (repo_Lifecycle old) \<noteq> RepoStatusEmpty \<and>
     rl_PreDeleteStatus (repo_Lifecycle repo) = rl_PreDeleteStatus (repo_Lifecycle old)"

section \<open>The statements\<close>

definition released_by :: "go_time \<Rightarrow> (Fence \<Rightarrow> bool) \<Rightarrow> Fence list \<Rightarrow> Fence list" where
  "released_by now which fences =
     map (\<lambda>f. if which f then f\<lparr>fence_Status := StatusReleased, fence_ReleasedAt := Some now, fence_UpdatedAt := now\<rparr> else f) fences"

text \<open>\<open>updated_repo\<close> and \<open>released_fence\<close>; the update leaves a row equal to the repo of the request.\<close>

definition moved_repo :: "Repo \<Rightarrow> Repo \<Rightarrow> Repo" where
  "moved_repo repo old =
     old\<lparr>repo_Status := repo_Status repo, repo_Lifecycle := repo_Lifecycle repo, repo_UpdatedAt := repo_UpdatedAt repo\<rparr>"

definition move_repo :: "Repo \<Rightarrow> string \<Rightarrow> string \<Rightarrow> go_time \<Rightarrow> Repo effect" where
  "move_repo repo fenceID holder now row db =
     (case find_repo (repo_ID repo) db of
        None \<Rightarrow> Inr None
      | Some old \<Rightarrow>
          Inr (Some (db\<lparr>db_repos := put_repo (moved_repo repo old) (db_repos db),
              db_fences := released_by now (lifecycle_fence (repo_ID repo) fenceID holder) (db_fences db)\<rparr>, moved_repo repo old)))"

definition repoLifecycleSuccessCommitWithLeaseSQL :: "Repo \<Rightarrow> OperationRecord \<Rightarrow> string \<Rightarrow> operation_row \<Rightarrow> session_db \<Rightarrow> bool" where
  "repoLifecycleSuccessCommitWithLeaseSQL repo opr fenceID r db \<longleftrightarrow>
     stored_lifecycle_predicate opr lifecycle_types r \<and> lifecycle_target_ready repo db \<and>
     list_ex (lifecycle_fence (op_RepoID opr) fenceID (trim_space (op_ID opr))) (db_fences db) \<and>
     no_sessions (op_RepoID opr) db \<and>
     (case find_repo (repo_ID repo) db of
        None \<Rightarrow> False
      | Some old \<Rightarrow> same_repo repo old \<and> lifecycle_transition (row_operation_type r) (row_created_at r) old repo)"

definition repoPurgeSuccessCommitWithLeaseSQL :: "Repo \<Rightarrow> OperationRecord \<Rightarrow> string \<Rightarrow> operation_row \<Rightarrow> session_db \<Rightarrow> bool" where
  "repoPurgeSuccessCommitWithLeaseSQL repo opr fenceID r db \<longleftrightarrow>
     stored_lifecycle_predicate opr [OperationRepoPurge] r \<and>
     list_ex (lifecycle_fence (op_RepoID opr) fenceID (trim_space (op_ID opr))) (db_fences db) \<and>
     no_sessions (op_RepoID opr) db \<and> no_earlier_lifecycle (op_RepoID opr) (trim_space (op_ID opr)) r db \<and>
     (case find_repo (repo_ID repo) db of
        None \<Rightarrow> False
      | Some old \<Rightarrow> same_repo repo old \<and> purge_transition (row_created_at r) old repo)"

text \<open>\<open>scanRepoAndOperation\<close> validates the row it reads.\<close>

definition repo_commit ::
    "string \<Rightarrow> (AuditEvent \<Rightarrow> string + string) \<Rightarrow> OperationRecord \<Rightarrow> string \<Rightarrow> go_time \<Rightarrow> AuditEvent \<Rightarrow>
      (operation_row \<Rightarrow> session_db \<Rightarrow> bool) \<Rightarrow> Repo effect \<Rightarrow> session_db \<Rightarrow> session_db \<times> (repo_error + Repo \<times> OperationRecord)" where
  "repo_commit what marshal opr owner now event cond effect db =
     (case fenced_commit what (op_ID opr) marshal opr owner now event cond effect db of
        (db', Inl err) \<Rightarrow> (db', Inl (RepoStore err))
      | (db', Inr (x, got)) \<Rightarrow> (db', case Repo_Validate x of Some err \<Rightarrow> Inl (RepoInvalid err) | None \<Rightarrow> Inr (x, got)))"

definition CommitRepoLifecycleSucceededWithLease ::
    "(AuditEvent \<Rightarrow> string + string) \<Rightarrow> Repo \<Rightarrow> SanitizedOperationRecord \<Rightarrow> string \<Rightarrow> go_time \<Rightarrow> AuditEvent \<Rightarrow> string \<Rightarrow> session_db \<Rightarrow>
      session_db \<times> (repo_error + Repo \<times> OperationRecord)" where
  "CommitRepoLifecycleSucceededWithLease marshal repo sanitized owner now event fenceID db =
     (let opr = Record sanitized in
      case checks
        [map_option RepoInvalid (Repo_Validate repo),
         map_option RepoStore (validateRepoLifecycleSuccessRecord repo opr),
         map_option RepoStore (validateRepoLifecycleAuditEvent (repo_NamespaceID repo) (repo_ID repo) opr event OutcomeSucceeded),
         check (trim_space fenceID = []) (RepoStore (invalid_request ''fence_id'' ''repo lifecycle success requires lifecycle fence id''))] of
        Some err \<Rightarrow> (db, Inl err)
      | None \<Rightarrow>
        repo_commit ''repo lifecycle success commit'' marshal opr owner now event
          (repoLifecycleSuccessCommitWithLeaseSQL repo opr (trim_space fenceID))
          (move_repo repo (trim_space fenceID) (trim_space (op_ID opr)) now) db)"

definition CommitRepoPurgeSucceededWithLease ::
    "(AuditEvent \<Rightarrow> string + string) \<Rightarrow> Repo \<Rightarrow> SanitizedOperationRecord \<Rightarrow> string \<Rightarrow> go_time \<Rightarrow> AuditEvent \<Rightarrow> string \<Rightarrow> session_db \<Rightarrow>
      session_db \<times> (repo_error + Repo \<times> OperationRecord)" where
  "CommitRepoPurgeSucceededWithLease marshal repo sanitized owner now event fenceID db =
     (let opr = Record sanitized in
      case checks
        [map_option RepoInvalid (Repo_Validate repo),
         map_option RepoStore (validateRepoPurgeSuccessRecord repo opr),
         map_option RepoStore (validateRepoLifecycleAuditEvent (repo_NamespaceID repo) (repo_ID repo) opr event OutcomeSucceeded),
         check (trim_space fenceID = []) (RepoStore (invalid_request ''fence_id'' ''repo purge success requires lifecycle fence id''))] of
        Some err \<Rightarrow> (db, Inl err)
      | None \<Rightarrow>
        repo_commit ''repo purge success commit'' marshal opr owner now event
          (repoPurgeSuccessCommitWithLeaseSQL repo opr (trim_space fenceID))
          (move_repo repo (trim_space fenceID) (trim_space (op_ID opr)) now) db)"

text \<open>The failure statements: the operation is finished only when the fence to release, if one is named, is held by it.\<close>

definition repoLifecycleFailureCommitWithLeaseSQL :: "OperationRecord \<Rightarrow> string \<Rightarrow> operation_row \<Rightarrow> session_db \<Rightarrow> bool" where
  "repoLifecycleFailureCommitWithLeaseSQL opr fenceID r db \<longleftrightarrow>
     stored_lifecycle_predicate opr lifecycle_types r \<and>
     (fenceID = [] \<or> list_ex (lifecycle_fence (op_RepoID opr) fenceID (trim_space (op_ID opr))) (db_fences db))"

definition repoPurgeFailureCommitWithLeaseSQL :: "OperationRecord \<Rightarrow> string \<Rightarrow> operation_row \<Rightarrow> session_db \<Rightarrow> bool" where
  "repoPurgeFailureCommitWithLeaseSQL opr fenceID r db \<longleftrightarrow> stored_lifecycle_predicate opr [OperationRepoPurge] r \<and> fenceID = []"

definition release_fence :: "string \<Rightarrow> string \<Rightarrow> string \<Rightarrow> go_time \<Rightarrow> unit effect" where
  "release_fence repoID fenceID holder now row db =
     Inr (Some (if fenceID = [] then db
       else db\<lparr>db_fences := released_by now (lifecycle_fence repoID fenceID holder) (db_fences db)\<rparr>, ()))"

definition failure_commit ::
    "string \<Rightarrow> (AuditEvent \<Rightarrow> string + string) \<Rightarrow> OperationRecord \<Rightarrow> string \<Rightarrow> go_time \<Rightarrow> AuditEvent \<Rightarrow>
      (operation_row \<Rightarrow> session_db \<Rightarrow> bool) \<Rightarrow> unit effect \<Rightarrow> session_db \<Rightarrow> session_db \<times> (repo_error + OperationRecord)" where
  "failure_commit what marshal opr owner now event cond effect db =
     (case fenced_commit what (op_ID opr) marshal opr owner now event cond effect db of
        (db', Inl err) \<Rightarrow> (db', Inl (RepoStore err))
      | (db', Inr (x, got)) \<Rightarrow> (db', Inr got))"

definition CommitRepoLifecycleFailedWithLease ::
    "(AuditEvent \<Rightarrow> string + string) \<Rightarrow> SanitizedOperationRecord \<Rightarrow> string \<Rightarrow> go_time \<Rightarrow> AuditEvent \<Rightarrow> string \<Rightarrow> session_db \<Rightarrow>
      session_db \<times> (repo_error + OperationRecord)" where
  "CommitRepoLifecycleFailedWithLease marshal sanitized owner now event releaseFenceID db =
     (let opr = Record sanitized in
      case checks
        [map_option RepoStore (validateRepoLifecycleFailureRecord opr),
         map_option RepoStore (validateRepoLifecycleFailureAuditEvent opr event)] of
        Some err \<Rightarrow> (db, Inl err)
      | None \<Rightarrow>
        failure_commit ''repo lifecycle failure commit'' marshal opr owner now event
          (repoLifecycleFailureCommitWithLeaseSQL opr (trim_space releaseFenceID))
          (release_fence (op_RepoID opr) (trim_space releaseFenceID) (trim_space (op_ID opr)) now) db)"

definition CommitRepoPurgeFailedWithLease ::
    "(AuditEvent \<Rightarrow> string + string) \<Rightarrow> SanitizedOperationRecord \<Rightarrow> string \<Rightarrow> go_time \<Rightarrow> AuditEvent \<Rightarrow> string \<Rightarrow> session_db \<Rightarrow>
      session_db \<times> (repo_error + OperationRecord)" where
  "CommitRepoPurgeFailedWithLease marshal sanitized owner now event releaseFenceID db =
     (let opr = Record sanitized in
      case checks
        [map_option RepoStore (validateRepoPurgeFailureRecord opr),
         map_option RepoStore (validateRepoLifecycleFailureAuditEvent opr event)] of
        Some err \<Rightarrow> (db, Inl err)
      | None \<Rightarrow>
        failure_commit ''repo purge failure commit'' marshal opr owner now event
          (repoPurgeFailureCommitWithLeaseSQL opr (trim_space releaseFenceID))
          (release_fence (op_RepoID opr) [] (trim_space (op_ID opr)) now) db)"

end
