(* ===== verification/Lifecycle_Exec.thy ===== *)
theory Lifecycle_Exec
  imports Lifecycle_Store Recovery_Planner Operation_Exec
begin

text \<open>
  The executors that carry out lifecycle operations on repos:
  \<open>internal/repoexec/lifecycle_executor.go\<close> (archive, delete and their reversal) and
  \<open>purge_executor.go\<close> (the removal of the storage of a tombstoned repo), with the helpers of
  \<open>executor.go\<close>, \<open>jvs_error.go\<close> and \<open>jvs_doctor_projection.go\<close>. Between two calls of the store other
  processes change the database: \<open>rt_other n\<close> is what they do before the \<open>n\<close>-th call. The
  diagnosis of JVS and the generator of event identifiers are values of the runtime; the
  file system is a world on which only the purger acts. A clock is the time it shows.
\<close>

section \<open>Runtime and errors\<close>

record CommandError =
  ce_Command :: string
  ce_ExitCode :: go_int
  ce_Code :: string

record DirectTarget =
  dt_ControlRoot :: string
  dt_Home :: string

record DirectDoctorFindingSummary =
  df_Code :: string
  df_Severity :: string
  df_Message :: string
  df_Retryable :: bool

record DirectDoctorSummary =
  dd_RepoID :: string
  dd_Healthy :: bool
  dd_FindingCount :: go_int
  dd_Findings :: "DirectDoctorFindingSummary list"
  dd_MetadataState :: string
  dd_Journal :: string
  dd_Recovery :: string

text \<open>An error of the runner is a \<open>CommandError\<close> or something else.\<close>

record exec_runtime =
  rt_other :: "nat \<Rightarrow> session_db \<Rightarrow> session_db"
  rt_marshal :: "AuditEvent \<Rightarrow> string + string"
  rt_collate :: "string \<Rightarrow> nat"
  rt_doctor :: "DirectTarget \<Rightarrow> CommandError option + DirectDoctorSummary"
  rt_auditEventID :: string

datatype repo_exec_error =
    RepoExecText string
  | RepoExecUnsupported string
  | RepoExecCommit string repo_error
  | RepoExecManual string

record RepoExecutor =
  rx_owner :: string
  rx_now :: go_time
  rx_clock :: "go_time option"
  rx_volumeRoots :: "(string \<times> string) list"

text \<open>The nil checks of the configuration are the flags; the messages name the kind of the executor.\<close>

record RepoExecConfig =
  rc_Store :: bool
  rc_JVSRunner :: bool
  rc_StoragePurger :: bool
  rc_Owner :: string
  rc_Now0 :: go_time
  rc_Clock :: "go_time option"
  rc_AuditEventID :: bool
  rc_VolumeRoots :: "(string \<times> string) list"

definition validateVolumeRoot :: "string \<Rightarrow> bool" where
  "validateVolumeRoot path \<longleftrightarrow> path \<noteq> [] \<and> filepath_IsAbs path \<and> filepath_Clean path = path \<and> path \<noteq> ''/''"

definition NewLifecycleExecutor :: "RepoExecConfig \<Rightarrow> string + RepoExecutor" where
  "NewLifecycleExecutor config =
     (let owner = trim_space (rc_Owner config) in
      if \<not> rc_Store config then Inl ''repo lifecycle recovery store is required''
      else if \<not> rc_JVSRunner config then Inl ''repo lifecycle jvs runner is required''
      else if owner = [] then Inl ''repo lifecycle recovery owner is required''
      else if is_zero (rc_Now0 config) \<and> rc_Clock config = None then Inl ''repo lifecycle recovery time or clock is required''
      else if \<not> rc_AuditEventID config then Inl ''repo lifecycle audit event id generator is required''
      else if list_ex (\<lambda>kv. ValidateID VolumeID (fst kv) \<noteq> None \<or> \<not> validateVolumeRoot (snd kv)) (rc_VolumeRoots config)
        then Inl ''repo lifecycle volume root config is invalid''
      else Inr \<lparr>rx_owner = owner, rx_now = rc_Now0 config, rx_clock = rc_Clock config, rx_volumeRoots = rc_VolumeRoots config\<rparr>)"

definition NewPurgeExecutor :: "RepoExecConfig \<Rightarrow> string + RepoExecutor" where
  "NewPurgeExecutor config =
     (let owner = trim_space (rc_Owner config) in
      if \<not> rc_Store config then Inl ''repo purge recovery store is required''
      else if \<not> rc_JVSRunner config then Inl ''repo purge jvs runner is required''
      else if \<not> rc_StoragePurger config then Inl ''repo purge storage purger is required''
      else if owner = [] then Inl ''repo purge recovery owner is required''
      else if is_zero (rc_Now0 config) \<and> rc_Clock config = None then Inl ''repo purge recovery time or clock is required''
      else if \<not> rc_AuditEventID config then Inl ''repo purge audit event id generator is required''
      else if list_ex (\<lambda>kv. ValidateID VolumeID (fst kv) \<noteq> None \<or> \<not> validateVolumeRoot (snd kv)) (rc_VolumeRoots config)
        then Inl ''repo purge volume root config is invalid''
      else Inr \<lparr>rx_owner = owner, rx_now = rc_Now0 config, rx_clock = rc_Clock config, rx_volumeRoots = rc_VolumeRoots config\<rparr>)"

definition executor_time :: "RepoExecutor \<Rightarrow> go_time" where
  "executor_time executor = (case rx_clock executor of None \<Rightarrow> rx_now executor | Some t \<Rightarrow> t)"

definition supports :: "string \<Rightarrow> bool \<Rightarrow> OperationRecord \<Rightarrow> RecoveryPlan \<Rightarrow> OperationSupport" where
  "supports what typed opr plan =
     (if \<not> typed then \<lparr>support_Supported = False, support_Reason = ''unsupported_'' @ what @ ''_operation''\<rparr>
      else if trim_space (op_Phase opr) \<noteq> ''validate_repo_lifecycle''
        then \<lparr>support_Supported = False, support_Reason = ''unsupported_'' @ what @ ''_phase''\<rparr>
      else if plan_Action plan \<in> {RecoveryActionClaimable, RecoveryActionRetry, RecoveryActionReclaim}
        then \<lparr>support_Supported = True, support_Reason = []\<rparr>
      else \<lparr>support_Supported = False, support_Reason = ''unsupported_'' @ what @ ''_recovery_action''\<rparr>)"

definition repoLifecycleSupportedType :: "OperationType \<Rightarrow> bool" where
  "repoLifecycleSupportedType typ \<longleftrightarrow> typ \<in> set lifecycle_types"

definition Lifecycle_Supports :: "OperationRecord \<Rightarrow> RecoveryPlan \<Rightarrow> OperationSupport" where
  "Lifecycle_Supports opr = supports ''repo_lifecycle'' (repoLifecycleSupportedType (op_Type opr)) opr"

definition Purge_Supports :: "OperationRecord \<Rightarrow> RecoveryPlan \<Rightarrow> OperationSupport" where
  "Purge_Supports opr = supports ''repo_purge'' (op_Type opr = OperationRepoPurge) opr"

definition validateRepoLifecycleLeasedRecord :: "OperationRecord \<Rightarrow> string \<Rightarrow> bool" where
  "validateRepoLifecycleLeasedRecord opr owner \<longleftrightarrow>
     \<not> (trim_space (op_ID opr) = [] \<or> op_State opr \<noteq> OperationStateRunning \<or> op_LeaseOwner opr \<noteq> owner \<or> op_LeaseExpiresAt opr = None) \<and>
     \<not> (trim_space (op_NamespaceID opr) = [] \<or> trim_space (op_RepoID opr) = [] \<or> resource_Type (op_Resource opr) \<noteq> ''repo'' \<or>
        resource_ID (op_Resource opr) \<noteq> op_RepoID opr) \<and>
     \<not> (trim_space (op_CallerService opr) = [] \<or> trim_space (op_CorrelationID opr) = [] \<or>
        trim_space (actor_Type (op_AuthorizedActor opr)) = [] \<or> trim_space (actor_ID (op_AuthorizedActor opr)) = [])"

fun RepoStatus_String :: "RepoStatus \<Rightarrow> string" where
  "RepoStatus_String RepoStatusActive = ''active''"
| "RepoStatus_String RepoStatusArchiving = ''archiving''"
| "RepoStatus_String RepoStatusArchived = ''archived''"
| "RepoStatus_String RepoStatusRestoringArchived = ''restoring_archived''"
| "RepoStatus_String RepoStatusDeleting = ''deleting''"
| "RepoStatus_String RepoStatusTombstoned = ''tombstoned''"
| "RepoStatus_String RepoStatusRestoringTombstoned = ''restoring_tombstoned''"
| "RepoStatus_String RepoStatusPurging = ''purging''"
| "RepoStatus_String RepoStatusPurged = ''purged''"
| "RepoStatus_String RepoStatusOperatorInterventionRequired = ''operator_intervention_required''"
| "RepoStatus_String (RepoStatusOther s) = s"

fun SessionErrorFamily_String :: "SessionErrorFamily \<Rightarrow> string" where
  "SessionErrorFamily_String SessionNoError = []"
| "SessionErrorFamily_String SessionInternalError = ''INTERNAL_ERROR''"
| "SessionErrorFamily_String ActiveWriterSessions = ''ACTIVE_WRITER_SESSIONS''"
| "SessionErrorFamily_String StaleWriterSessionUncertain = ''STALE_WRITER_SESSION_UNCERTAIN''"
| "SessionErrorFamily_String ActiveSessionsBlockLifecycle = ''ACTIVE_SESSIONS_BLOCK_LIFECYCLE''"
| "SessionErrorFamily_String StaleSessionsBlockLifecycle = ''STALE_SESSION_BLOCKS_LIFECYCLE''"

section \<open>Diagnosis and details\<close>

definition directDoctorMetadataReady :: "string \<Rightarrow> bool" where
  "directDoctorMetadataReady metadataState \<longleftrightarrow> trim_space metadataState = ''ready''"

definition directDoctorRecoveryNone :: "string \<Rightarrow> bool" where
  "directDoctorRecoveryNone recovery \<longleftrightarrow> trim_space recovery \<in> {[], ''none''}"

definition directDoctorHasNonBlockingCleanupEvidence :: "DirectDoctorSummary \<Rightarrow> bool" where
  "directDoctorHasNonBlockingCleanupEvidence doctor \<longleftrightarrow>
     \<not> dd_Healthy doctor \<and> dd_FindingCount doctor = 1 \<and> trim_space (dd_Recovery doctor) = ''cleanup_pending'' \<and>
     directDoctorMetadataReady (dd_MetadataState doctor) \<and> trim_space (dd_Journal doctor) = ''clean'' \<and>
     (case dd_Findings doctor of
        [finding] \<Rightarrow> trim_space (df_Code finding) = [] \<and> trim_space (df_Severity finding) = ''warning'' \<and>
          trim_space (df_Message finding) = ''direct restore cleanup pending'' \<and> \<not> df_Retryable finding
      | _ \<Rightarrow> False)"

definition directDoctorAllowsMutation :: "DirectDoctorSummary \<Rightarrow> bool" where
  "directDoctorAllowsMutation doctor \<longleftrightarrow>
     directDoctorHasNonBlockingCleanupEvidence doctor \<or>
     (dd_Healthy doctor \<and> directDoctorMetadataReady (dd_MetadataState doctor) \<and> trim_space (dd_Journal doctor) = ''clean'' \<and>
      directDoctorRecoveryNone (dd_Recovery doctor))"

definition put_key :: "string \<Rightarrow> go_any \<Rightarrow> go_object \<Rightarrow> go_object" where
  "put_key k v m = (if k \<in> fst ` set m then map (\<lambda>kv. if fst kv = k then (k, v) else kv) m else m @ [(k, v)])"

definition asStringAnyMap :: "go_object option \<Rightarrow> go_object" where
  "asStringAnyMap m = (case m of None \<Rightarrow> [] | Some kvs \<Rightarrow> kvs)"

definition jvsDetailKeys :: "string list" where
  "jvsDetailKeys = [''jvs_error_code'', ''jvs_command'', ''jvs_exit_code'']"

definition withJVSErrorDetails :: "go_object \<Rightarrow> CommandError option \<Rightarrow> go_object" where
  "withJVSErrorDetails details err =
     (case err of
        None \<Rightarrow> details
      | Some e \<Rightarrow> put_key ''jvs_exit_code'' (AnyInt (ce_ExitCode e)) (put_key ''jvs_command'' (AnyString (ce_Command e))
          (put_key ''jvs_error_code'' (AnyString (ce_Code e)) details)))"

definition attachJVSErrorDetails :: "go_object option \<Rightarrow> OperationRecord \<Rightarrow> OperationRecord" where
  "attachJVSErrorDetails details opr =
     (case (op_Error opr, details) of
        (Some e, Some kvs) \<Rightarrow>
          opr\<lparr>op_Error := Some (e\<lparr>operr_Details := Some (fold (\<lambda>k m. case map_of kvs k of None \<Rightarrow> m | Some v \<Rightarrow> put_key k v m)
                jvsDetailKeys (asStringAnyMap (operr_Details e)))\<rparr>)\<rparr>
      | _ \<Rightarrow> opr)"

definition sameOperationHeldFence :: "OperationRecord \<Rightarrow> Fence list \<Rightarrow> Fence option" where
  "sameOperationHeldFence opr = find (\<lambda>f. fence_RepoID f = op_RepoID opr \<and> fence_Kind f = KindLifecycle \<and>
     fence_HolderOperationID f = op_ID opr \<and> Held f)"

definition hour :: go_duration where "hour = 3600000000000"

definition leaseOrDefault :: "OperationRecord \<Rightarrow> go_time \<Rightarrow> go_time" where
  "leaseOrDefault opr now =
     (case op_LeaseExpiresAt opr of Some t \<Rightarrow> if now < t then t else now + hour | None \<Rightarrow> now + hour)"

section \<open>Outcomes\<close>

definition repoLifecycleFailedOperation :: "OperationRecord \<Rightarrow> go_time \<Rightarrow> OperationState \<Rightarrow> string \<Rightarrow> string \<Rightarrow> OperationRecord" where
  "repoLifecycleFailedOperation opr now state code message =
     opr\<lparr>op_State := state, op_Phase := ''validate_repo_lifecycle'',
         op_Error := Some \<lparr>operr_Code = code, operr_Message = message, operr_Retryable = False,
           operr_CorrelationID = op_CorrelationID opr, operr_OperationID = op_ID opr,
           operr_Details = Some [(''repo_id'', AnyString (op_RepoID opr))]\<rparr>,
         op_FinishedAt := Some now\<rparr>"

definition lifecycleAuditEvent ::
    "exec_runtime \<Rightarrow> OperationRecord \<Rightarrow> go_time \<Rightarrow> AuditOutcome \<Rightarrow> string \<Rightarrow> go_object \<Rightarrow> string + AuditEvent" where
  "lifecycleAuditEvent rt opr now outcome reason details =
     (let eventID = trim_space (rt_auditEventID rt) in
      if eventID = [] then Inl ''repo lifecycle audit event id must be set''
      else case EventTypeForOperationType (OperationType_String (op_Type opr)) of
        None \<Rightarrow> Inl ''repo lifecycle audit type is unsupported''
      | Some eventType \<Rightarrow>
          Inr (NewEvent \<lparr>ev_EventID = eventID, ev_Type = eventType, ev_Time = now, ev_CallerService = op_CallerService opr,
            ev_AuthorizedActor = op_AuthorizedActor opr, ev_CorrelationID = op_CorrelationID opr, ev_OperationID = op_ID opr,
            ev_Resource = \<lparr>ares_Type = ''repo'', ares_ID = op_RepoID opr, ares_NamespaceID = op_NamespaceID opr, ares_Path = []\<rparr>,
            ev_Outcome = outcome, ev_Reason = reason, ev_Details = Some details\<rparr>))"

definition repo_details :: "OperationRecord \<Rightarrow> go_object" where
  "repo_details opr = [(''repo_id'', AnyString (op_RepoID opr))]"

text \<open>The last argument of the commits is the database as the store call finds it.\<close>

definition commitLifecycleFailed ::
    "exec_runtime \<Rightarrow> RepoExecutor \<Rightarrow> OperationRecord \<Rightarrow> go_time \<Rightarrow> string \<Rightarrow> string \<Rightarrow> string \<Rightarrow> session_db \<Rightarrow>
      session_db \<times> repo_exec_error option" where
  "commitLifecycleFailed rt executor opr now code message releaseFenceID db =
     (let operation = repoLifecycleFailedOperation opr now OperationStateFailed code message in
      case lifecycleAuditEvent rt operation now OutcomeFailed (OperationType_String (op_Type opr) @ ''_failed'') (repo_details opr) of
        Inl err \<Rightarrow> (db, Some (RepoExecText err))
      | Inr event \<Rightarrow>
      case CommitRepoLifecycleFailedWithLease (rt_marshal rt) (SanitizedForPersistence operation) (rx_owner executor) now event releaseFenceID db of
        (db', Inl err) \<Rightarrow> (db', Some (RepoExecCommit ''repo lifecycle failure commit failed'' err))
      | (db', Inr _) \<Rightarrow> (db', None))"

definition commitLifecycleIntervention ::
    "exec_runtime \<Rightarrow> RepoExecutor \<Rightarrow> OperationRecord \<Rightarrow> go_time \<Rightarrow> string \<Rightarrow> string \<Rightarrow> go_object option \<Rightarrow> session_db \<Rightarrow>
      session_db \<times> repo_exec_error option" where
  "commitLifecycleIntervention rt executor opr now code message details db =
     (let failed = (repoLifecycleFailedOperation opr now OperationStateOperatorInterventionRequired code message)
            \<lparr>op_VerificationResult := object_value details\<rparr>;
          operation = attachJVSErrorDetails details failed in
      case lifecycleAuditEvent rt operation now OutcomeFailed
          (OperationType_String (op_Type opr) @ ''_operator_intervention_required'') (repo_details opr) of
        Inl err \<Rightarrow> (db, Some (RepoExecText err))
      | Inr event \<Rightarrow>
      case CommitRepoLifecycleFailedWithLease (rt_marshal rt) (SanitizedForPersistence operation) (rx_owner executor) now event [] db of
        (db', Inl err) \<Rightarrow> (db', Some (RepoExecCommit ''repo lifecycle intervention commit failed'' err))
      | (db', Inr _) \<Rightarrow> (db', Some (RepoExecManual ''repo lifecycle operator intervention required'')))"

section \<open>Targets of the lifecycle operations\<close>

fun repoLifecycleSourceMatches :: "OperationType \<Rightarrow> RepoStatus \<Rightarrow> bool" where
  "repoLifecycleSourceMatches OperationRepoArchive status = (status = RepoStatusActive)"
| "repoLifecycleSourceMatches OperationRepoRestoreArchived status = (status = RepoStatusArchived)"
| "repoLifecycleSourceMatches OperationRepoDelete status = (status = RepoStatusActive \<or> status = RepoStatusArchived)"
| "repoLifecycleSourceMatches OperationRepoRestoreTombstoned status = (status = RepoStatusTombstoned)"
| "repoLifecycleSourceMatches _ status = False"

definition repoLifecycleRequiresSessionDrain :: "OperationType \<Rightarrow> bool" where
  "repoLifecycleRequiresSessionDrain typ \<longleftrightarrow> typ \<in> set lifecycle_types"

definition repoLifecycleWaitsForActiveSessions :: "OperationType \<Rightarrow> bool" where
  "repoLifecycleWaitsForActiveSessions typ \<longleftrightarrow> typ = OperationRepoArchive \<or> typ = OperationRepoDelete"

definition repoLifecycleRequiresDoctor :: "OperationType \<Rightarrow> bool" where
  "repoLifecycleRequiresDoctor typ \<longleftrightarrow> typ = OperationRepoRestoreArchived \<or> typ = OperationRepoRestoreTombstoned"

definition maxDurationSeconds :: int where
  "maxDurationSeconds = (2 ^ 63 - 1) div 1000000000"

definition repoLifecycleRetentionSeconds :: "go_any \<Rightarrow> int option" where
  "repoLifecycleRetentionSeconds v =
     (let bounded = (\<lambda>seconds. if seconds < 0 \<or> seconds > maxDurationSeconds then None else Some seconds) in
      case v of
        AnyInt i \<Rightarrow> bounded i
      | AnyInt64 i \<Rightarrow> bounded i
      | AnyFloat (Finite q) \<Rightarrow>
          if q < 0 \<or> q > of_int maxDurationSeconds \<or> q \<noteq> of_int \<lfloor>q\<rfloor> then None else bounded \<lfloor>q\<rfloor>
      | _ \<Rightarrow> None)"

definition repoLifecycleDeleteRetentionExpiresAt :: "OperationRecord \<Rightarrow> go_time option" where
  "repoLifecycleDeleteRetentionExpiresAt opr =
     (case lookup_key (op_InputSummary opr) ''lifecycle_policy_snapshot'' of
        Some (AnyMap snapshot) \<Rightarrow>
          (case map_of snapshot ''tombstone_retention_seconds'' of
             None \<Rightarrow> None
           | Some v \<Rightarrow> map_option (\<lambda>seconds. op_CreatedAt opr + seconds * 1000000000) (repoLifecycleRetentionSeconds v))
      | _ \<Rightarrow> None)"

definition set_lifecycle :: "RepoStatus \<Rightarrow> go_time option \<Rightarrow> RepoStatus \<Rightarrow> Repo \<Rightarrow> Repo" where
  "set_lifecycle status retention before_delete repo =
     repo\<lparr>repo_Status := status,
          repo_Lifecycle := (repo_Lifecycle repo)\<lparr>rl_Status := status, rl_RetentionExpiresAt := retention, rl_PreDeleteStatus := before_delete\<rparr>\<rparr>"

definition repoLifecycleTarget :: "Repo \<Rightarrow> OperationRecord \<Rightarrow> go_time \<Rightarrow> Repo option" where
  "repoLifecycleTarget repo opr now =
     (let target = repo\<lparr>repo_Lifecycle := (repo_Lifecycle repo)\<lparr>rl_LastLifecycleOperationID := op_ID opr\<rparr>, repo_UpdatedAt := now\<rparr>;
          before_delete = rl_PreDeleteStatus (repo_Lifecycle repo) in
      case op_Type opr of
        OperationRepoArchive \<Rightarrow> Some (set_lifecycle RepoStatusArchived None RepoStatusEmpty target)
      | OperationRepoRestoreArchived \<Rightarrow> Some (set_lifecycle RepoStatusActive None RepoStatusEmpty target)
      | OperationRepoDelete \<Rightarrow>
          (case repoLifecycleDeleteRetentionExpiresAt opr of
             None \<Rightarrow> None
           | Some t \<Rightarrow> Some (set_lifecycle RepoStatusTombstoned (Some t) (repo_Status repo) target))
      | OperationRepoRestoreTombstoned \<Rightarrow>
          if before_delete \<noteq> RepoStatusActive \<and> before_delete \<noteq> RepoStatusArchived then None
          else if (case rl_RetentionExpiresAt (repo_Lifecycle repo) of None \<Rightarrow> True | Some t \<Rightarrow> \<not> op_CreatedAt opr < t) then None
          else if \<not> op_CreatedAt opr > repo_UpdatedAt repo then None
          else Some (set_lifecycle before_delete None RepoStatusEmpty target)
      | _ \<Rightarrow> None)"

section \<open>The lifecycle executor\<close>

definition lifecycleDrainDecision :: "OperationRecord \<Rightarrow> go_time \<Rightarrow> session_db \<Rightarrow> session_db \<Rightarrow> GateDecision option" where
  "lifecycleDrainDecision opr now dbe dbm =
     (case ListExportSessionsByRepo (op_RepoID opr) dbe of
        Inl err \<Rightarrow> None
      | Inr exports \<Rightarrow>
      case ListWorkloadMountBindingsByRepo (op_RepoID opr) dbm of
        Inl err \<Rightarrow> None
      | Inr mounts \<Rightarrow>
          Some (LifecycleDrainGate \<lparr>gr_NamespaceID = op_NamespaceID opr, gr_RepoID = op_RepoID opr, gr_Now = now,
            gr_ExportSessions = exports, gr_Mounts = mounts\<rparr>))"

definition validateMetadata :: "Repo \<Rightarrow> session_db \<Rightarrow> session_db \<Rightarrow> session_db \<Rightarrow> bool" where
  "validateMetadata repo dbn dbb dbv \<longleftrightarrow>
     (case GetNamespace (repo_NamespaceID repo) dbn of Inl err \<Rightarrow> False | Inr n \<Rightarrow> ns_Status n = NamespaceStatusActive) \<and>
     (case GetNamespaceVolumeBinding (repo_NamespaceID repo) dbb of Inl err \<Rightarrow> False | Inr b \<Rightarrow> nvb_Status b = NamespaceStatusActive) \<and>
     (case GetVolume (repo_VolumeID repo) dbv of
        Inl err \<Rightarrow> False
      | Inr v \<Rightarrow> vol_Status v = VolumeStatusActive \<and> json_flag (vol_Capabilities v) ''jvs_external_control_root'')"

definition directTarget :: "RepoExecutor \<Rightarrow> Repo \<Rightarrow> DirectTarget option" where
  "directTarget executor repo =
     (case map_of (rx_volumeRoots executor) (repo_VolumeID repo) of
        None \<Rightarrow> None
      | Some vroot \<Rightarrow>
      case ResolveRepoRootPaths vroot (repo_NamespaceID repo) (repo_ID repo) of
        Inl err \<Rightarrow> None
      | Inr roots \<Rightarrow>
        if ControlVolumeSubdir roots \<noteq> repo_ControlVolumeSubdir repo \<or> PayloadVolumeSubdir roots \<noteq> repo_PayloadVolumeSubdir repo then None
        else Some \<lparr>dt_ControlRoot = ControlRootPath roots, dt_Home = PayloadRootPath roots\<rparr>)"

definition lifecycle_fence_of :: "OperationRecord \<Rightarrow> go_time \<Rightarrow> Fence" where
  "lifecycle_fence_of opr now =
     \<lparr>fence_ID = ''fence_'' @ op_ID opr, fence_RepoID = op_RepoID opr, fence_Kind = KindLifecycle, fence_HolderOperationID = op_ID opr,
      fence_Status = StatusActive, fence_ExpiresAt = leaseOrDefault opr now, fence_ReleasedAt = None, fence_RecoveryOperationID = [],
      fence_RecoveryReason = [], fence_RecoveryStartedAt = None, fence_RecoveredAt = None, fence_CreatedAt = now, fence_UpdatedAt = now\<rparr>"

definition lifecycle_acquisition :: "OperationRecord \<Rightarrow> AcquisitionRequest" where
  "lifecycle_acquisition opr =
     \<lparr>acq_RepoID = op_RepoID opr, acq_Kind = KindLifecycle, acq_HolderOperationID = op_ID opr, acq_ConflictMode = ConflictModeFailClosed\<rparr>"

text \<open>The success commit.\<close>

definition lifecycle_succeeded :: "OperationRecord \<Rightarrow> go_time \<Rightarrow> RepoStatus \<Rightarrow> OperationRecord" where
  "lifecycle_succeeded opr now status =
     opr\<lparr>op_State := OperationStateSucceeded, op_Phase := ''repo_lifecycle_committed'',
         op_VerificationResult := AnyMap [(''repo_id'', AnyString (op_RepoID opr)), (''lifecycle_status'', AnyString (RepoStatus_String status))],
         op_Error := None, op_FinishedAt := Some now\<rparr>"

definition commit_lifecycle ::
    "exec_runtime \<Rightarrow> RepoExecutor \<Rightarrow> OperationRecord \<Rightarrow> go_time \<Rightarrow> Repo \<Rightarrow> string \<Rightarrow> session_db \<Rightarrow> session_db \<times> repo_exec_error option" where
  "commit_lifecycle rt executor opr now target fenceID db =
     (let operation = lifecycle_succeeded opr now (repo_Status target) in
      case lifecycleAuditEvent rt operation now OutcomeSucceeded (OperationType_String (op_Type opr) @ ''_committed'')
          [(''repo_id'', AnyString (op_RepoID opr)), (''lifecycle_status'', AnyString (RepoStatus_String (repo_Status target)))] of
        Inl err \<Rightarrow> (db, Some (RepoExecText err))
      | Inr event \<Rightarrow>
      case CommitRepoLifecycleSucceededWithLease (rt_marshal rt) target (SanitizedForPersistence operation) (rx_owner executor) now event fenceID db of
        (db', Inl err) \<Rightarrow> (db', Some (RepoExecCommit ''repo lifecycle success commit failed'' err))
      | (db', Inr _) \<Rightarrow> (db', None))"

text \<open>With the fence: target, drain of the sessions, diagnosis, commit. \<open>releaseFenceID\<close> is not passed on by
  the intervention.\<close>

definition lifecycle_fenced ::
    "exec_runtime \<Rightarrow> RepoExecutor \<Rightarrow> OperationRecord \<Rightarrow> go_time \<Rightarrow> Repo \<Rightarrow> string \<Rightarrow> session_db \<Rightarrow> session_db \<times> repo_exec_error option" where
  "lifecycle_fenced rt executor opr now repo fenceID db =
     (let dbe = rt_other rt 6 db; dbm = rt_other rt 7 dbe in
      case repoLifecycleTarget repo opr now of
        None \<Rightarrow> commitLifecycleIntervention rt executor opr now ''REPO_LIFECYCLE_VALIDATION_FAILED'' ''repo lifecycle validation failed'' None dbe
      | Some target \<Rightarrow>
      case (if repoLifecycleRequiresSessionDrain (op_Type opr) then lifecycleDrainDecision opr now dbe dbm else Some session_allow) of
        None \<Rightarrow> commitLifecycleIntervention rt executor opr now ''REPO_LIFECYCLE_SESSION_READ_FAILED'' ''repo lifecycle session validation failed'' None dbm
      | Some decision \<Rightarrow>
        if \<not> gd_Allowed decision then
          (if repoLifecycleWaitsForActiveSessions (op_Type opr) \<and> gd_ErrorFamily decision = ActiveSessionsBlockLifecycle then (dbm, None)
           else commitLifecycleIntervention rt executor opr now (SessionErrorFamily_String (gd_ErrorFamily decision))
             ''repo lifecycle session drain requires operator intervention'' (Some [(''blocking_kind'', AnyString (gd_BlockingKind decision))]) dbm)
        else if \<not> repoLifecycleRequiresDoctor (op_Type opr)
          then commit_lifecycle rt executor opr now target fenceID (rt_other rt 8 dbm)
        else case directTarget executor repo of
          None \<Rightarrow> commitLifecycleIntervention rt executor opr now ''REPO_LIFECYCLE_VALIDATION_FAILED'' ''repo lifecycle validation failed'' None (rt_other rt 8 dbm)
        | Some dt \<Rightarrow>
          (case rt_doctor rt dt of
             Inl err \<Rightarrow> commitLifecycleIntervention rt executor opr now ''JVS_DOCTOR_FAILED'' ''jvs doctor failed''
               (Some (withJVSErrorDetails [(''repo_id'', AnyString (repo_JVSRepoID repo))] err)) (rt_other rt 8 dbm)
           | Inr doctor \<Rightarrow>
               if \<not> directDoctorAllowsMutation doctor \<or> dd_RepoID doctor \<noteq> repo_JVSRepoID repo
               then commitLifecycleIntervention rt executor opr now ''JVS_DOCTOR_FAILED'' ''jvs doctor failed''
                 (Some [(''repo_id'', AnyString (repo_JVSRepoID repo))]) (rt_other rt 8 dbm)
               else commit_lifecycle rt executor opr now target fenceID (rt_other rt 8 dbm)))"

text \<open>The fence: the one this operation already holds, or a new one if the listed fences allow it.\<close>

definition lifecycle_acquire ::
    "exec_runtime \<Rightarrow> RepoExecutor \<Rightarrow> OperationRecord \<Rightarrow> go_time \<Rightarrow> Repo \<Rightarrow> Fence list \<Rightarrow> session_db \<Rightarrow> session_db \<times> repo_exec_error option" where
  "lifecycle_acquire rt executor opr now repo listed db =
     (case sameOperationHeldFence opr listed of
        Some f \<Rightarrow> lifecycle_fenced rt executor opr now repo (fence_ID f) db
      | None \<Rightarrow>
        let decision = CanAcquire (lifecycle_acquisition opr) listed; dbf = rt_other rt 5 db; fence = lifecycle_fence_of opr now in
        if \<not> ad_Allowed decision then
          (if (case ad_Error decision of None \<Rightarrow> False | Some err \<Rightarrow> fe_Family err = ErrorFamilyOperationRecoveryRequired)
           then commitLifecycleIntervention rt executor opr now ''OPERATION_RECOVERY_REQUIRED'' ''repo lifecycle fence requires recovery'' None dbf
           else commitLifecycleFailed rt executor opr now ''REPO_LIFECYCLE_FENCE_HELD'' ''repo lifecycle fence held'' [] dbf)
        else case CreateRepoFence (map row_operation_id (db_operations dbf)) (db_fences dbf) fence of
          Inl err \<Rightarrow> (dbf, Some (RepoExecText ''repo lifecycle fence acquisition failed''))
        | Inr rows \<Rightarrow> lifecycle_fenced rt executor opr now repo (fence_ID fence) (dbf\<lparr>db_fences := rows\<rparr>))"

definition Lifecycle_ExecuteOperationRecovery ::
    "exec_runtime \<Rightarrow> RepoExecutor \<Rightarrow> OperationRecord \<Rightarrow> RecoveryPlan \<Rightarrow> session_db \<Rightarrow> session_db \<times> repo_exec_error option" where
  "Lifecycle_ExecuteOperationRecovery rt executor opr plan db0 =
     (let now = executor_time executor; db = rt_other rt 0 db0; dbr = rt_other rt 1 db; dbn = rt_other rt 2 dbr;
          dbb = rt_other rt 3 dbn; dbv = rt_other rt 4 dbb in
      if \<not> support_Supported (Lifecycle_Supports opr plan) then (db0, Some (RepoExecUnsupported (support_Reason (Lifecycle_Supports opr plan))))
      else if \<not> validateRepoLifecycleLeasedRecord opr (rx_owner executor) then (db0, Some (RepoExecText ''invalid repo lifecycle recovery record''))
      else if is_zero now then (db0, Some (RepoExecText ''repo lifecycle recovery time must be set''))
      else case ListHeldRepoFences (rt_collate rt) (db_fences db) (op_RepoID opr) of
        Inl err \<Rightarrow> (db, Some (RepoExecText ''repo lifecycle fence read failed''))
      | Inr listed \<Rightarrow>
      let existing = sameOperationHeldFence opr listed;
          releaseOnTerminalFailure = (case existing of None \<Rightarrow> [] | Some f \<Rightarrow> fence_ID f) in
      if (case existing of None \<Rightarrow> False | Some f \<Rightarrow> fence_Status f \<noteq> StatusActive) then
        commitLifecycleIntervention rt executor opr now ''REPO_LIFECYCLE_FENCE_RECOVERY_REQUIRED'' ''repo lifecycle fence requires operator intervention''
          (Some [(''fence_status'', AnyString (FenceStatus_String (fence_Status (the existing))))]) dbr
      else case GetRepoInNamespace (op_NamespaceID opr) (op_RepoID opr) dbr of
        Inl err \<Rightarrow> commitLifecycleFailed rt executor opr now ''REPO_LIFECYCLE_VALIDATION_FAILED'' ''repo lifecycle validation failed'' releaseOnTerminalFailure dbn
      | Inr repo \<Rightarrow>
        if \<not> repoLifecycleSourceMatches (op_Type opr) (repo_Status repo)
          then commitLifecycleFailed rt executor opr now ''REPO_LIFECYCLE_INVALID_STATE'' ''repo lifecycle source status invalid'' releaseOnTerminalFailure dbn
        else if \<not> validateMetadata repo dbn dbb dbv
          then commitLifecycleFailed rt executor opr now ''REPO_LIFECYCLE_VALIDATION_FAILED'' ''repo lifecycle validation failed'' releaseOnTerminalFailure dbv
        else lifecycle_acquire rt executor opr now repo listed dbv)"

section \<open>The storage of a repo\<close>

datatype RepoStorageState = RepoStoragePresent | RepoStorageAbsent | RepoStoragePartialAbsent | RepoStorageOther string

record RepoStoragePaths =
  sp_VolumeRootPath :: string
  sp_ContainerRootPath :: string
  sp_ControlRootPath :: string
  sp_PayloadRootPath :: string

definition strictly_below :: "string \<Rightarrow> string \<Rightarrow> bool" where
  "strictly_below path parent \<longleftrightarrow> has_prefix path (parent @ ''/'')"

definition validatePurgeRoot :: "string \<Rightarrow> string \<Rightarrow> string \<Rightarrow> string \<Rightarrow> bool" where
  "validatePurgeRoot volumeRoot container control payload \<longleftrightarrow>
     list_all validateVolumeRoot [volumeRoot, container, control, payload] \<and>
     strictly_below container volumeRoot \<and> strictly_below control container \<and> strictly_below payload container \<and>
     \<not> (control = payload \<or> strictly_below control payload \<or> strictly_below payload control)"

definition storagePaths :: "RepoExecutor \<Rightarrow> Repo \<Rightarrow> RepoStoragePaths option" where
  "storagePaths executor repo =
     (case map_of (rx_volumeRoots executor) (repo_VolumeID repo) of
        None \<Rightarrow> None
      | Some vroot \<Rightarrow>
      case ResolveRepoRootPaths vroot (repo_NamespaceID repo) (repo_ID repo) of
        Inl err \<Rightarrow> None
      | Inr resolved \<Rightarrow>
        if repo_ControlVolumeSubdir repo \<noteq> ControlVolumeSubdir resolved \<or> repo_PayloadVolumeSubdir repo \<noteq> PayloadVolumeSubdir resolved then None
        else
        let container = filepath_Join2 vroot (ContainerVolumeSubdir resolved) in
        if \<not> validatePurgeRoot vroot container (ControlRootPath resolved) (PayloadRootPath resolved) then None
        else Some \<lparr>sp_VolumeRootPath = vroot, sp_ContainerRootPath = container,
                   sp_ControlRootPath = ControlRootPath resolved, sp_PayloadRootPath = PayloadRootPath resolved\<rparr>)"

text \<open>\<open>FilesystemStoragePurger\<close>. The file system is a world: \<open>lstat\<close> tells whether a path exists and is a
  symbolic link, \<open>osRemoveAll\<close> removes a tree and may fail on the way.\<close>

datatype lstat_result = LstatNotExist | LstatFailed | LstatInfo bool

fun walk_ancestors :: "(string \<Rightarrow> lstat_result) \<Rightarrow> string \<Rightarrow> string list \<Rightarrow> bool" where
  "walk_ancestors lstat path [] = True"
| "walk_ancestors lstat path (part # parts) =
     (if part \<in> {[], ''.'', ''..''} then False
      else case lstat (filepath_Join2 path part) of
        LstatNotExist \<Rightarrow> True
      | LstatFailed \<Rightarrow> False
      | LstatInfo symlink \<Rightarrow> \<not> symlink \<and> walk_ancestors lstat (filepath_Join2 path part) parts)"

definition validateNoSymlinkAncestors :: "(string \<Rightarrow> lstat_result) \<Rightarrow> string \<Rightarrow> string \<Rightarrow> bool" where
  "validateNoSymlinkAncestors lstat volumeRoot target \<longleftrightarrow>
     lstat volumeRoot = LstatInfo False \<and>
     (case filepath_Rel volumeRoot target of
        None \<Rightarrow> False
      | Some rel \<Rightarrow> rel \<noteq> ''.'' \<and> \<not> has_prefix rel ''..'' \<and> walk_ancestors lstat volumeRoot (split_char (CHR ''/'') rel))"

definition InspectRepoStorage :: "(string \<Rightarrow> lstat_result) \<Rightarrow> RepoStoragePaths \<Rightarrow> RepoStorageState option" where
  "InspectRepoStorage lstat paths =
     (let seen = map lstat [sp_ContainerRootPath paths, sp_ControlRootPath paths, sp_PayloadRootPath paths] in
      if \<not> validateNoSymlinkAncestors lstat (sp_VolumeRootPath paths) (sp_ContainerRootPath paths) then None
      else if list_ex (\<lambda>r. r = LstatFailed \<or> r = LstatInfo True) seen then None
      else if list_all (\<lambda>r. r = LstatNotExist) seen then Some RepoStorageAbsent
      else if list_ex (\<lambda>r. r = LstatNotExist) seen then Some RepoStoragePartialAbsent
      else Some RepoStoragePresent)"

definition PurgeRepoStorage ::
    "('w \<Rightarrow> string \<Rightarrow> lstat_result) \<Rightarrow> (string \<Rightarrow> 'w \<Rightarrow> 'w \<times> bool) \<Rightarrow> RepoStoragePaths \<Rightarrow> 'w \<Rightarrow> 'w \<times> bool" where
  "PurgeRepoStorage lstat osRemoveAll paths w =
     (if \<not> validatePurgeRoot (sp_VolumeRootPath paths) (sp_ContainerRootPath paths) (sp_ControlRootPath paths) (sp_PayloadRootPath paths) then (w, False)
      else if \<not> validateNoSymlinkAncestors (lstat w) (sp_VolumeRootPath paths) (sp_ContainerRootPath paths) then (w, False)
      else case lstat w (sp_ContainerRootPath paths) of
        LstatNotExist \<Rightarrow> (w, True)
      | LstatFailed \<Rightarrow> (w, False)
      | LstatInfo symlink \<Rightarrow> if symlink then (w, False) else osRemoveAll (sp_ContainerRootPath paths) w)"

section \<open>The purge executor\<close>

definition validatePurgePolicy :: "OperationRecord \<Rightarrow> Repo \<Rightarrow> bool" where
  "validatePurgePolicy opr repo \<longleftrightarrow>
     (case rl_RetentionExpiresAt (repo_Lifecycle repo) of
        None \<Rightarrow> False
      | Some retention \<Rightarrow>
        rl_PreDeleteStatus (repo_Lifecycle repo) \<noteq> RepoStatusEmpty \<and>
        (case lookup_key (op_InputSummary opr) ''lifecycle_policy_snapshot'' of
           Some (AnyMap snapshot) \<Rightarrow>
             lookup_key (op_InputSummary opr) ''product_confirmation_present'' = Some (AnyBool True) \<and>
             (\<not> op_CreatedAt opr < retention \<or>
              list_all (\<lambda>k. map_of snapshot k = Some (AnyBool True))
                [''retention_override_requested'', ''operator_approval_present'', ''break_glass_enabled'', ''break_glass_authorized''])
         | _ \<Rightarrow> False))"

definition validPurgeRefFingerprint :: "string \<Rightarrow> bool" where
  "validPurgeRefFingerprint v \<longleftrightarrow>
     length v = 71 \<and> has_prefix v ''sha256:'' \<and>
     list_all (\<lambda>c. (48 \<le> byte c \<and> byte c \<le> 57) \<or> (97 \<le> byte c \<and> byte c \<le> 102)) (drop 7 v)"

definition purgeAuditDetails :: "OperationRecord \<Rightarrow> go_object \<Rightarrow> go_object" where
  "purgeAuditDetails opr base =
     fold (\<lambda>k m. case lookup_key (op_InputSummary opr) k of
         Some (AnyString v) \<Rightarrow> if validPurgeRefFingerprint v then put_key k (AnyString v) m else m
       | _ \<Rightarrow> m) [''product_confirmation_ref_fingerprint'', ''operator_approval_ref_fingerprint''] base"

definition purgeAuditEvent ::
    "exec_runtime \<Rightarrow> OperationRecord \<Rightarrow> go_time \<Rightarrow> AuditOutcome \<Rightarrow> string \<Rightarrow> go_object \<Rightarrow> string + AuditEvent" where
  "purgeAuditEvent rt opr now outcome reason details =
     (let eventID = trim_space (rt_auditEventID rt) in
      if eventID = [] then Inl ''repo purge audit event id must be set''
      else
        Inr (NewEvent \<lparr>ev_EventID = eventID, ev_Type = EventTypeRepoPurge, ev_Time = now, ev_CallerService = op_CallerService opr,
          ev_AuthorizedActor = op_AuthorizedActor opr, ev_CorrelationID = op_CorrelationID opr, ev_OperationID = op_ID opr,
          ev_Resource = \<lparr>ares_Type = ''repo'', ares_ID = op_RepoID opr, ares_NamespaceID = op_NamespaceID opr, ares_Path = []\<rparr>,
          ev_Outcome = outcome, ev_Reason = reason, ev_Details = Some details\<rparr>))"

definition commitPurgeIntervention ::
    "exec_runtime \<Rightarrow> RepoExecutor \<Rightarrow> OperationRecord \<Rightarrow> go_time \<Rightarrow> string \<Rightarrow> string \<Rightarrow> go_object option \<Rightarrow> session_db \<Rightarrow>
      session_db \<times> repo_exec_error option" where
  "commitPurgeIntervention rt executor opr now code message details db =
     (let failed = (repoLifecycleFailedOperation opr now OperationStateOperatorInterventionRequired code message)
            \<lparr>op_VerificationResult := object_value details\<rparr>;
          operation = attachJVSErrorDetails details failed in
      case purgeAuditEvent rt operation now OutcomeFailed
          (OperationType_String (op_Type opr) @ ''_operator_intervention_required'') (purgeAuditDetails opr (repo_details opr)) of
        Inl err \<Rightarrow> (db, Some (RepoExecText err))
      | Inr event \<Rightarrow>
      case CommitRepoPurgeFailedWithLease (rt_marshal rt) (SanitizedForPersistence operation) (rx_owner executor) now event [] db of
        (db', Inl err) \<Rightarrow> (db', Some (RepoExecText ''repo purge intervention commit failed''))
      | (db', Inr _) \<Rightarrow> (db', Some (RepoExecManual ''repo purge operator intervention required'')))"

definition purged_repo :: "OperationRecord \<Rightarrow> go_time \<Rightarrow> Repo \<Rightarrow> Repo" where
  "purged_repo opr now repo =
     repo\<lparr>repo_Status := RepoStatusPurged,
          repo_Lifecycle := (repo_Lifecycle repo)\<lparr>rl_Status := RepoStatusPurged, rl_RetentionExpiresAt := None,
            rl_LastLifecycleOperationID := op_ID opr\<rparr>,
          repo_UpdatedAt := now\<rparr>"

definition commit_purge ::
    "exec_runtime \<Rightarrow> RepoExecutor \<Rightarrow> OperationRecord \<Rightarrow> go_time \<Rightarrow> Repo \<Rightarrow> string \<Rightarrow> session_db \<Rightarrow> session_db \<times> repo_exec_error option" where
  "commit_purge rt executor opr now repo fenceID db =
     (let operation = lifecycle_succeeded opr now RepoStatusPurged in
      case purgeAuditEvent rt operation now OutcomeSucceeded ''repo_purge_committed''
          (purgeAuditDetails opr [(''repo_id'', AnyString (op_RepoID opr)), (''lifecycle_status'', AnyString ''purged'')]) of
        Inl err \<Rightarrow> (db, Some (RepoExecText err))
      | Inr event \<Rightarrow>
      case CommitRepoPurgeSucceededWithLease (rt_marshal rt) (purged_repo opr now repo) (SanitizedForPersistence operation) (rx_owner executor) now event fenceID db of
        (db', Inl err) \<Rightarrow> (db', Some (RepoExecText ''repo purge success commit failed''))
      | (db', Inr _) \<Rightarrow> (db', None))"

text \<open>Outcome with the world it leaves.\<close>

type_synonym 'w purge_result = "(session_db \<times> 'w) \<times> repo_exec_error option"

definition in_world :: "'w \<Rightarrow> session_db \<times> repo_exec_error option \<Rightarrow> 'w purge_result" where
  "in_world w res = ((fst res, w), snd res)"

text \<open>\<open>inspect\<close> and \<open>purge\<close> are the interface \<open>StoragePurger\<close>. The storage is removed and its absence confirmed, or an operator is asked.\<close>

definition purge_confirmed ::
    "exec_runtime \<Rightarrow> ('w \<Rightarrow> RepoStoragePaths \<Rightarrow> RepoStorageState option) \<Rightarrow> (RepoStoragePaths \<Rightarrow> 'w \<Rightarrow> 'w \<times> bool) \<Rightarrow> RepoExecutor \<Rightarrow> OperationRecord \<Rightarrow> go_time \<Rightarrow>
      RepoStoragePaths \<Rightarrow> (session_db \<Rightarrow> session_db \<times> repo_exec_error option) \<Rightarrow> session_db \<Rightarrow> 'w \<Rightarrow> 'w purge_result" where
  "purge_confirmed rt inspect purge executor opr now paths commit db w =
     (case purge paths w of
        (w', False) \<Rightarrow> in_world w' (commitPurgeIntervention rt executor opr now ''REPO_PURGE_STORAGE_FAILED'' ''repo purge storage delete failed'' None db)
      | (w', True) \<Rightarrow>
        if inspect w' paths \<noteq> Some RepoStorageAbsent
        then in_world w' (commitPurgeIntervention rt executor opr now ''REPO_PURGE_STORAGE_UNCERTAIN'' ''repo purge storage delete not confirmed'' None db)
        else in_world w' (commit db))"

text \<open>With the fence: drain of the sessions, inspection of the storage, removal, commit.\<close>

definition purge_storage ::
    "exec_runtime \<Rightarrow> ('w \<Rightarrow> RepoStoragePaths \<Rightarrow> RepoStorageState option) \<Rightarrow> (RepoStoragePaths \<Rightarrow> 'w \<Rightarrow> 'w \<times> bool) \<Rightarrow> RepoExecutor \<Rightarrow> OperationRecord \<Rightarrow> go_time \<Rightarrow>
      Repo \<Rightarrow> string \<Rightarrow> session_db \<Rightarrow> 'w \<Rightarrow> 'w purge_result" where
  "purge_storage rt inspect purge executor opr now repo fenceID db w =
     (let commit = (\<lambda>db. commit_purge rt executor opr now repo fenceID (rt_other rt 9 db));
          dbn = rt_other rt 6 db; dbb = rt_other rt 7 dbn; dbv = rt_other rt 8 dbb in
      case storagePaths executor repo of
        None \<Rightarrow> in_world w (commitPurgeIntervention rt executor opr now ''REPO_LIFECYCLE_VALIDATION_FAILED'' ''repo purge storage validation failed'' None db)
      | Some paths \<Rightarrow>
      case inspect w paths of
        None \<Rightarrow> in_world w (commitPurgeIntervention rt executor opr now ''REPO_PURGE_STORAGE_UNCERTAIN'' ''repo purge storage inspection failed'' None db)
      | Some RepoStorageAbsent \<Rightarrow> in_world w (commit db)
      | Some RepoStoragePartialAbsent \<Rightarrow> purge_confirmed rt inspect purge executor opr now paths commit db w
      | Some RepoStoragePresent \<Rightarrow>
          if \<not> validateMetadata repo dbn dbb dbv
            then in_world w (commitPurgeIntervention rt executor opr now ''REPO_LIFECYCLE_VALIDATION_FAILED'' ''repo purge validation failed'' None dbv)
          else if trim_space (repo_ControlVolumeSubdir repo) = [] then purge_confirmed rt inspect purge executor opr now paths commit dbv w
          else (case rt_doctor rt \<lparr>dt_ControlRoot = sp_ControlRootPath paths, dt_Home = sp_PayloadRootPath paths\<rparr> of
             Inl err \<Rightarrow> in_world w (commitPurgeIntervention rt executor opr now ''JVS_DOCTOR_FAILED'' ''jvs doctor failed''
               (Some (withJVSErrorDetails [(''repo_id'', AnyString (repo_JVSRepoID repo))] err)) dbv)
           | Inr doctor \<Rightarrow>
               if \<not> directDoctorAllowsMutation doctor \<or> dd_RepoID doctor \<noteq> repo_JVSRepoID repo
               then in_world w (commitPurgeIntervention rt executor opr now ''JVS_DOCTOR_FAILED'' ''jvs doctor failed''
                 (Some [(''repo_id'', AnyString (repo_JVSRepoID repo))]) dbv)
               else purge_confirmed rt inspect purge executor opr now paths commit dbv w)
      | Some (RepoStorageOther _) \<Rightarrow>
          in_world w (commitPurgeIntervention rt executor opr now ''REPO_PURGE_STORAGE_UNCERTAIN'' ''repo purge storage state is uncertain'' None db))"

definition purge_fenced ::
    "exec_runtime \<Rightarrow> ('w \<Rightarrow> RepoStoragePaths \<Rightarrow> RepoStorageState option) \<Rightarrow> (RepoStoragePaths \<Rightarrow> 'w \<Rightarrow> 'w \<times> bool) \<Rightarrow> RepoExecutor \<Rightarrow> OperationRecord \<Rightarrow> go_time \<Rightarrow>
      Repo \<Rightarrow> string \<Rightarrow> session_db \<Rightarrow> 'w \<Rightarrow> 'w purge_result" where
  "purge_fenced rt inspect purge executor opr now repo fenceID db w =
     (let dbe = rt_other rt 4 db; dbm = rt_other rt 5 dbe in
      case lifecycleDrainDecision opr now dbe dbm of
        None \<Rightarrow> in_world w (commitPurgeIntervention rt executor opr now ''REPO_LIFECYCLE_SESSION_READ_FAILED'' ''repo purge session validation failed'' None dbm)
      | Some decision \<Rightarrow>
        if \<not> gd_Allowed decision then
          (if gd_ErrorFamily decision = ActiveSessionsBlockLifecycle then ((dbm, w), None)
           else in_world w (commitPurgeIntervention rt executor opr now (SessionErrorFamily_String (gd_ErrorFamily decision))
             ''repo purge session drain requires operator intervention'' (Some [(''blocking_kind'', AnyString (gd_BlockingKind decision))]) dbm))
        else purge_storage rt inspect purge executor opr now repo fenceID dbm w)"

definition Purge_ExecuteOperationRecovery ::
    "exec_runtime \<Rightarrow> ('w \<Rightarrow> RepoStoragePaths \<Rightarrow> RepoStorageState option) \<Rightarrow> (RepoStoragePaths \<Rightarrow> 'w \<Rightarrow> 'w \<times> bool) \<Rightarrow> RepoExecutor \<Rightarrow> OperationRecord \<Rightarrow> RecoveryPlan \<Rightarrow>
      session_db \<Rightarrow> 'w \<Rightarrow> 'w purge_result" where
  "Purge_ExecuteOperationRecovery rt inspect purge executor opr plan db0 w =
     (let now = executor_time executor; db = rt_other rt 0 db0; dbr = rt_other rt 1 db; dbl = rt_other rt 2 dbr; dbf = rt_other rt 3 dbl in
      if \<not> support_Supported (Purge_Supports opr plan) then ((db0, w), Some (RepoExecUnsupported (support_Reason (Purge_Supports opr plan))))
      else if \<not> validateRepoLifecycleLeasedRecord opr (rx_owner executor) then ((db0, w), Some (RepoExecText ''invalid repo lifecycle recovery record''))
      else if is_zero now then ((db0, w), Some (RepoExecText ''repo purge recovery time must be set''))
      else case ListHeldRepoFences (rt_collate rt) (db_fences db) (op_RepoID opr) of
        Inl err \<Rightarrow> ((db, w), Some (RepoExecText ''repo purge fence read failed''))
      | Inr listed \<Rightarrow>
      let existing = sameOperationHeldFence opr listed in
      if (case existing of None \<Rightarrow> False | Some f \<Rightarrow> fence_Status f \<noteq> StatusActive) then
        in_world w (commitPurgeIntervention rt executor opr now ''REPO_LIFECYCLE_FENCE_RECOVERY_REQUIRED'' ''repo purge fence requires operator intervention''
          (Some [(''fence_status'', AnyString (FenceStatus_String (fence_Status (the existing))))]) dbr)
      else case GetRepoInNamespace (op_NamespaceID opr) (op_RepoID opr) dbr of
        Inl err \<Rightarrow> in_world w (commitPurgeIntervention rt executor opr now ''REPO_LIFECYCLE_INVALID_STATE'' ''repo purge source status invalid'' None dbl)
      | Inr repo \<Rightarrow>
        if repo_Status repo \<noteq> RepoStatusTombstoned
          then in_world w (commitPurgeIntervention rt executor opr now ''REPO_LIFECYCLE_INVALID_STATE'' ''repo purge source status invalid'' None dbl)
        else if \<not> validatePurgePolicy opr repo
          then in_world w (commitPurgeIntervention rt executor opr now ''PURGE_RETENTION_NOT_MET'' ''repo purge policy validation failed'' None dbl)
        else if \<not> op_CreatedAt opr > repo_UpdatedAt repo
          then in_world w (commitPurgeIntervention rt executor opr now ''OPERATION_RECOVERY_REQUIRED'' ''repo purge operation is not in current tombstone cycle'' None dbl)
        else if ListEarlierNonTerminalRepoLifecycleOperations (op_RepoID opr) (op_ID opr) (op_CreatedAt opr) (op_db.truncate dbl) \<noteq> Inr []
          then in_world w (commitPurgeIntervention rt executor opr now ''OPERATION_RECOVERY_REQUIRED'' ''earlier repo lifecycle operation blocks purge'' None dbf)
        else case existing of
          Some f \<Rightarrow> purge_fenced rt inspect purge executor opr now repo (fence_ID f) dbf w
        | None \<Rightarrow>
          let decision = CanAcquire (lifecycle_acquisition opr) listed; fence = lifecycle_fence_of opr now in
          if \<not> ad_Allowed decision then
            (if (case ad_Error decision of None \<Rightarrow> False | Some err \<Rightarrow> fe_Family err = ErrorFamilyOperationRecoveryRequired)
             then in_world w (commitPurgeIntervention rt executor opr now ''OPERATION_RECOVERY_REQUIRED'' ''repo purge fence requires recovery'' None dbf)
             else in_world w (commitPurgeIntervention rt executor opr now ''REPO_LIFECYCLE_FENCE_HELD'' ''repo purge fence held'' None dbf))
          else case CreateRepoFence (map row_operation_id (db_operations dbf)) (db_fences dbf) fence of
            Inl err \<Rightarrow> ((dbf, w), Some (RepoExecText ''repo purge fence acquisition failed''))
          | Inr rows \<Rightarrow> purge_fenced rt inspect purge executor opr now repo (fence_ID fence) (dbf\<lparr>db_fences := rows\<rparr>) w)"

end
