(* ===== verification/Lifecycle_Safety.thy ===== *)
theory Lifecycle_Safety
  imports Lifecycle_Exec Operation_Runs
begin

text \<open>
  What the lifecycle of repos guarantees: a commit moves a repo only along the legal transitions, under the fence
  of its operation and without live sessions; the statement accepts what the executor has
  checked; and the purge executor removes nothing but the container of a tombstoned repo whose
  purge is authorised.
\<close>

section \<open>Commits\<close>

lemma moved_repo_same: "same_repo repo old \<Longrightarrow> moved_repo repo old = repo"
  by (cases repo; cases old) (simp add: same_repo_def moved_repo_def)

lemma repo_commit_cases:
  assumes "repo_commit what marshal opr owner now event cond effect db = (db', Inr (x, got))"
  obtains args rows row r db1 outboxRecord where "operationLeaseFencedUpdateArgs opr owner now = Inr args"
    "r \<in> set (db_operations db)" "row_operation_id r = fa_operationID args" "fenced_cond args r" "cond r db"
    "row = operationLeaseFencedUpdateBaseSQL args r" "effect row db = Inr (Some (db1, x))"
    "rows = map (\<lambda>q. if row_operation_id q = row_operation_id row then row else q) (db_operations db)"
    "NewOutboxRecord marshal event now = Inr outboxRecord"
    "db' = db1\<lparr>db_operations := rows, db_outbox := db_outbox db @ [outboxRecord]\<rparr>"
proof -
  obtain fres where "fenced_commit what (op_ID opr) marshal opr owner now event cond effect db = (db', Inr fres)" "fst fres = x"
    using assms unfolding repo_commit_def by (auto split: prod.splits sum.splits option.splits)
  then show ?thesis
  proof (cases rule: fenced_commit_cases)
    case (committed args rows row db1 y outboxRecord outbox)
    obtain r where r: "r \<in> set (db_operations db)" "row_operation_id r = fa_operationID args" "fenced_cond args r" "cond r db"
      "row = operationLeaseFencedUpdateBaseSQL args r"
      "rows = map (\<lambda>q. if row_operation_id q = row_operation_id row then row else q) (db_operations db)"
      using fenced_commit_row [OF committed(2)] .
    have "outbox = db_outbox db @ [outboxRecord]" using committed(5) by (auto simp: insert_row_def split: if_splits)
    moreover have "y = x" using committed(7) \<open>fst fres = x\<close> by (auto split: sum.splits)
    ultimately show ?thesis using that committed r by blast
  qed auto
qed

lemma released_none:
  assumes "\<And>f. which f \<Longrightarrow> fence_ReleasedAt f = None" "f \<in> set (released_by now which fences)"
  shows "\<not> which f"
proof -
  obtain g where "g \<in> set fences"
    "f = (if which g then g\<lparr>fence_Status := StatusReleased, fence_ReleasedAt := Some now, fence_UpdatedAt := now\<rparr> else g)"
    using assms(2) unfolding released_by_def by auto
  then show ?thesis using assms(1) [of f] by (cases "which g") auto
qed

lemma lifecycle_fence_open: "lifecycle_fence repoID fenceID holder f \<Longrightarrow> fence_ReleasedAt f = None"
  by (simp add: lifecycle_fence_def release_matches_def)

text \<open>The legal moves of a repo: from, by, to.\<close>

definition legal_move :: "Repo \<Rightarrow> operation_row \<Rightarrow> Repo \<Rightarrow> bool" where
  "legal_move old r repo \<longleftrightarrow>
     (repo_Status old, row_operation_type r, repo_Status repo) \<in>
       {(RepoStatusActive, OperationRepoArchive, RepoStatusArchived), (RepoStatusArchived, OperationRepoRestoreArchived, RepoStatusActive),
        (RepoStatusActive, OperationRepoDelete, RepoStatusTombstoned), (RepoStatusArchived, OperationRepoDelete, RepoStatusTombstoned)} \<or>
     (repo_Status old = RepoStatusTombstoned \<and> row_created_at r > repo_UpdatedAt old \<and>
      (row_operation_type r = OperationRepoRestoreTombstoned \<and> repo_Status repo = rl_PreDeleteStatus (repo_Lifecycle old) \<and>
         (\<exists>t. rl_RetentionExpiresAt (repo_Lifecycle old) = Some t \<and> row_created_at r < t) \<or>
       row_operation_type r = OperationRepoPurge \<and> repo_Status repo = RepoStatusPurged))"

lemma legal_moves:
  "lifecycle_transition (row_operation_type r) (row_created_at r) old repo \<Longrightarrow> legal_move old r repo"
  "purge_transition (row_created_at r) old repo \<Longrightarrow> row_operation_type r = OperationRepoPurge \<Longrightarrow> legal_move old r repo"
  by (auto simp: legal_move_def lifecycle_transition_def purge_transition_def becomes_def Let_def split: option.splits)

definition committed_move :: "Repo \<Rightarrow> string \<Rightarrow> go_time \<Rightarrow> string \<Rightarrow> session_db \<Rightarrow> session_db \<Rightarrow> bool" where
  "committed_move repo owner now fenceID db db' \<longleftrightarrow>
     (\<exists>old r f. find_repo (repo_ID repo) db = Some old \<and> r \<in> set (db_operations db) \<and> f \<in> set (db_fences db) \<and>
        same_repo repo old \<and> legal_move old r repo \<and> row_repo_id r = Some (repo_ID repo) \<and>
        row_operation_state r = OperationStateRunning \<and> row_lease_owner r = Some (trim_space owner) \<and> ptr_after (row_lease_expires_at r) now \<and>
        lifecycle_fence (repo_ID repo) (trim_space fenceID) (row_operation_id r) f \<and>
        no_sessions (repo_ID repo) db \<and>
        db_repos db' = put_repo repo (db_repos db) \<and>
        list_all (\<lambda>g. \<not> lifecycle_fence (repo_ID repo) (trim_space fenceID) (row_operation_id r) g) (db_fences db') \<and>
        (\<exists>record. db_outbox db' = db_outbox db @ [record]))"

lemma move_committed:
  assumes "repo_commit what marshal opr owner now event cond (move_repo repo (trim_space fenceID) (trim_space (op_ID opr)) now) db = (db', Inr (repo', got))"
    and "op_RepoID opr = repo_ID repo"
    and cond: "\<And>r. cond r db \<Longrightarrow> \<exists>old. find_repo (repo_ID repo) db = Some old \<and> same_repo repo old \<and> legal_move old r repo \<and>
      row_repo_id r = Some (op_RepoID opr) \<and> no_sessions (op_RepoID opr) db \<and>
      list_ex (lifecycle_fence (op_RepoID opr) (trim_space fenceID) (trim_space (op_ID opr))) (db_fences db)"
  shows "repo' = repo \<and> committed_move repo owner now fenceID db db'"
  using assms(1)
proof (cases rule: repo_commit_cases)
  case (1 args rows row r db1 outboxRecord)
  obtain old where old: "find_repo (repo_ID repo) db = Some old" "same_repo repo old" "legal_move old r repo" "row_repo_id r = Some (repo_ID repo)"
      "no_sessions (repo_ID repo) db" "list_ex (lifecycle_fence (repo_ID repo) (trim_space fenceID) (trim_space (op_ID opr))) (db_fences db)"
    using cond [OF 1(5)] assms(2) by auto
  have ids: "fa_operationID args = trim_space (op_ID opr)" "fa_owner args = trim_space owner" "fa_now args = now"
    using 1(1) by (auto simp: operationLeaseFencedUpdateArgs_def split: option.splits sum.splits)
  have repo': "repo' = repo" and db1: "db1 = db\<lparr>db_repos := put_repo repo (db_repos db),
      db_fences := released_by now (lifecycle_fence (repo_ID repo) (trim_space fenceID) (trim_space (op_ID opr))) (db_fences db)\<rparr>"
    using 1(7) old(1) moved_repo_same [OF old(2)] by (auto simp: move_repo_def)
  have "list_all (\<lambda>g. \<not> lifecycle_fence (repo_ID repo) (trim_space fenceID) (trim_space (op_ID opr)) g)
      (released_by now (lifecycle_fence (repo_ID repo) (trim_space fenceID) (trim_space (op_ID opr))) (db_fences db))"
    unfolding list_all_iff using released_none [where which = "lifecycle_fence (repo_ID repo) (trim_space fenceID) (trim_space (op_ID opr))"]
      lifecycle_fence_open by blast
  moreover obtain f where "f \<in> set (db_fences db)" "lifecycle_fence (repo_ID repo) (trim_space fenceID) (trim_space (op_ID opr)) f"
    using old(6) by (auto simp: list_ex_iff)
  ultimately have "committed_move repo owner now fenceID db db'"
    unfolding committed_move_def
    by (intro exI [of _ old] exI [of _ r] exI [of _ f]) (use 1(2,3,4,10) old(1-5) ids db1 in \<open>simp add: fenced_cond_def\<close>)
  with repo' show ?thesis by simp
qed

lemma lifecycle_commit_cond:
  "repoLifecycleSuccessCommitWithLeaseSQL repo opr fenceID r db \<Longrightarrow> \<exists>old. find_repo (repo_ID repo) db = Some old \<and> same_repo repo old \<and>
     legal_move old r repo \<and> row_repo_id r = Some (op_RepoID opr) \<and> no_sessions (op_RepoID opr) db \<and>
     list_ex (lifecycle_fence (op_RepoID opr) fenceID (trim_space (op_ID opr))) (db_fences db)"
  "repoPurgeSuccessCommitWithLeaseSQL repo opr fenceID r db \<Longrightarrow> \<exists>old. find_repo (repo_ID repo) db = Some old \<and> same_repo repo old \<and>
     legal_move old r repo \<and> row_repo_id r = Some (op_RepoID opr) \<and> no_sessions (op_RepoID opr) db \<and>
     list_ex (lifecycle_fence (op_RepoID opr) fenceID (trim_space (op_ID opr))) (db_fences db)"
  by (auto simp: repoLifecycleSuccessCommitWithLeaseSQL_def repoPurgeSuccessCommitWithLeaseSQL_def stored_lifecycle_predicate_def
      intro: legal_moves split: option.splits)


section \<open>The gate and the statement agree\<close>

lemma trimmed_empty:
  assumes "rev (dropWhile P (rev (dropWhile P s))) = []"
  shows "set s \<subseteq> Collect P"
proof -
  have "set (dropWhile P s) \<subseteq> Collect P"
    using assms unfolding rev_is_Nil_conv dropWhile_eq_Nil_conv set_rev by (rule subsetI [OF CollectI, OF bspec])
  moreover have "set (takeWhile P s) \<subseteq> Collect P" by (blast dest: set_takeWhileD)
  moreover have "set s = set (takeWhile P s) \<union> set (dropWhile P s)" using arg_cong [OF takeWhile_dropWhile_id, of set P s] unfolding set_append by (rule sym)
  ultimately show ?thesis by blast
qed

lemma blank_strips: "set s \<subseteq> {CHR '' ''} \<Longrightarrow> strip_prefixes space_encodings s = []"
proof (induction s)
  case (Cons c s)
  then have "c = CHR '' ''" by simp
  then have "find_prefix space_encodings (c # s) = Some '' ''" by (simp add: space_encodings_def)
  then show ?case using Cons by (subst strip_prefixes.simps) simp
qed simp

lemma btrim_trim:
  assumes "btrim s = []"
  shows "trim_space s = []"
proof -
  have "set s \<subseteq> {CHR '' ''}" using trimmed_empty [OF assms [unfolded btrim_def]] unfolding singleton_conv .
  from blank_strips [OF this] show ?thesis unfolding trim_space_def by (simp only: rev.simps strip_prefixes_Nil)
qed

lemma drain_gate_quiet:
  assumes "lifecycleDrainDecision opr now db db = Some decision" "gd_Allowed decision"
  shows "no_sessions (op_RepoID opr) db"
proof -
  obtain es ms where l: "ListExportSessionsByRepo (op_RepoID opr) db = Inr es" "ListWorkloadMountBindingsByRepo (op_RepoID opr) db = Inr ms"
    and gate: "gd_Allowed (evaluate_gate \<lparr>gr_NamespaceID = op_NamespaceID opr, gr_RepoID = op_RepoID opr, gr_Now = now,
      gr_ExportSessions = es, gr_Mounts = ms\<rparr> gateLifecycleDrain)"
    using assms by (auto simp: lifecycleDrainDecision_def LifecycleDrainGate_def split: sum.splits)
  let ?r = "\<lparr>gr_NamespaceID = op_NamespaceID opr, gr_RepoID = op_RepoID opr, gr_Now = now, gr_ExportSessions = es, gr_Mounts = ms\<rparr>"
  have g: "stored_sound ?r" "blocking_exports gateLifecycleDrain ?r \<subseteq> {blockerNone}" "blocking_mounts gateLifecycleDrain ?r \<subseteq> {blockerNone}"
    using gate by (simp_all add: gate_allowed_iff)
  have "\<not> live_session (fst row)" if row: "row \<in> set (db_exports db)" "xs_RepoID (fst row) = op_RepoID opr" for row
  proof -
    let ?s = "scanExportSession (fst row)"
    have "?s \<in> set es" using l(1) row unfolding ListExportSessionsByRepo_def by (auto split: option.splits)
    moreover have "es_RepoID ?s = op_RepoID opr" using row(2) by (simp add: scanExportSession_def)
    ultimately have "validateExport ?s = None" "exportBlocker gateLifecycleDrain ?s now = blockerNone"
      using g(1,2) by (auto simp: stored_sound_def list_all_iff export_sound_def blocking_exports_def image_subset_iff)
    then show ?thesis
      by (cases "xs_Status (fst row)")
        (auto simp: live_session_def exportBlocker_def exportHasTerminalEvidence_def scanExportSession_def validateExport_def
          nonZeroTimePtr_def non_zero_time_ptr_def btrim_trim split: if_splits option.splits)
  qed
  moreover have "\<not> live_mount m" if m: "m \<in> set (db_mounts db)" "wb_RepoID m = op_RepoID opr" for m
  proof -
    let ?m = "scanWorkloadMountBinding m"
    have "?m \<in> set ms" using l(2) m unfolding ListWorkloadMountBindingsByRepo_def by (auto split: option.splits)
    moreover have "mb_RepoID ?m = op_RepoID opr" using m(2) by (simp add: scanWorkloadMountBinding_def)
    ultimately have "mountBlocker gateLifecycleDrain ?m now = blockerNone"
      using g(3) by (auto simp: blocking_mounts_def image_subset_iff)
    then show ?thesis
      by (auto simp: live_mount_def mountBlocker_def mountHasTerminalEvidence_def scanWorkloadMountBinding_def
          nonZeroTimePtr_def non_zero_time_ptr_def split: if_splits option.splits)
  qed
  ultimately show ?thesis by (auto simp: no_sessions_def list_ex_iff)
qed

text \<open>What the executor has checked on one state of the store is what the success statement asks for.\<close>

lemma metadata_ready: "validateMetadata repo db db db \<Longrightarrow> lifecycle_target_ready repo db"
  by (auto simp: validateMetadata_def lifecycle_target_ready_def GetNamespace_def GetNamespaceVolumeBinding_def GetVolume_def
      scan_resource_def list_ex_iff find_Some_iff nth_mem split: sum.splits option.splits)

lemma target_same: "repoLifecycleTarget repo opr now = Some target \<Longrightarrow> same_repo target repo"
  by (auto simp: repoLifecycleTarget_def set_lifecycle_def same_repo_def Let_def split: OperationType.splits option.splits if_splits)

lemma target_transition:
  assumes "repoLifecycleTarget repo opr now = Some target" "repoLifecycleSourceMatches (op_Type opr) (repo_Status repo)"
  shows "lifecycle_transition (op_Type opr) (op_CreatedAt opr) repo target"
  using assms
  by (cases "op_Type opr")
    (auto simp: repoLifecycleTarget_def set_lifecycle_def lifecycle_transition_def becomes_def Let_def split: option.splits if_splits)


section \<open>The purge\<close>

text \<open>The interface \<open>StoragePurger\<close>: a purge leaves the world alone or removes the container of the repo.\<close>

locale storage_purger =
  fixes inspect :: "'w \<Rightarrow> RepoStoragePaths \<Rightarrow> RepoStorageState option"
    and purge :: "RepoStoragePaths \<Rightarrow> 'w \<Rightarrow> 'w \<times> bool"
    and remove :: "string \<Rightarrow> 'w \<Rightarrow> 'w \<times> bool"
  assumes purge_effect: "fst (purge paths w) \<noteq> w \<Longrightarrow>
      purge paths w = remove (sp_ContainerRootPath paths) w \<and>
      validatePurgeRoot (sp_VolumeRootPath paths) (sp_ContainerRootPath paths) (sp_ControlRootPath paths) (sp_PayloadRootPath paths)"
begin

lemma confirmed_world:
  assumes "purge_confirmed rt inspect purge executor opr now paths commit db w = ((db', w'), res)"
  shows "w' = fst (purge paths w)"
  using assms unfolding purge_confirmed_def in_world_def by (auto split: prod.splits bool.splits if_splits)

lemma storage_world:
  assumes "purge_storage rt inspect purge executor opr now repo fenceID db w = ((db', w'), res)" "w' \<noteq> w"
  shows "\<exists>paths. storagePaths executor repo = Some paths \<and> w' = fst (remove (sp_ContainerRootPath paths) w)"
proof -
  obtain paths where p: "storagePaths executor repo = Some paths"
    using assms unfolding purge_storage_def in_world_def by (cases "storagePaths executor repo") auto
  have "w' = w \<or> w' = fst (purge paths w)"
    using assms(1) p unfolding purge_storage_def Let_def
    by (auto simp: in_world_def dest!: confirmed_world split: option.splits RepoStorageState.splits if_splits sum.splits)
  then show ?thesis using p assms(2) purge_effect [of paths w] by auto
qed

lemma fenced_world:
  assumes "purge_fenced rt inspect purge executor opr now repo fenceID db w = ((db', w'), res)" "w' \<noteq> w"
  shows "(\<exists>decision. lifecycleDrainDecision opr now (rt_other rt 4 db) (rt_other rt 5 (rt_other rt 4 db)) = Some decision \<and> gd_Allowed decision) \<and>
    (\<exists>paths. storagePaths executor repo = Some paths \<and> w' = fst (remove (sp_ContainerRootPath paths) w))"
  using assms unfolding purge_fenced_def Let_def
  by (auto simp: in_world_def dest: storage_world split: option.splits if_splits)

end

interpretation filesystem: storage_purger "\<lambda>w paths. InspectRepoStorage (lstat w) paths" "PurgeRepoStorage lstat osRemoveAll" osRemoveAll
  for lstat :: "'w \<Rightarrow> string \<Rightarrow> lstat_result" and osRemoveAll :: "string \<Rightarrow> 'w \<Rightarrow> 'w \<times> bool"
  by unfold_locales (auto simp: PurgeRepoStorage_def split: lstat_result.splits if_splits)

lemma purge_reaches_storage:
  assumes "Purge_ExecuteOperationRecovery rt inspect purge executor opr plan db w = ((db', w'), res)" "w' \<noteq> w"
  obtains repo fenceID dbf where "GetRepoInNamespace (op_NamespaceID opr) (op_RepoID opr) (rt_other rt 1 (rt_other rt 0 db)) = Inr repo"
    "repo_Status repo = RepoStatusTombstoned" "validatePurgePolicy opr repo" "repo_UpdatedAt repo < op_CreatedAt opr"
    "validateRepoLifecycleLeasedRecord opr (rx_owner executor)"
    "purge_fenced rt inspect purge executor opr (executor_time executor) repo fenceID dbf w = ((db', w'), res)"
proof -
  let ?dbr = "rt_other rt 1 (rt_other rt 0 db)"
  have w: "in_world w x = ((db', w'), res) \<longleftrightarrow> False" for x using assms(2) by (simp add: in_world_def)
  obtain listed where listed: "ListHeldRepoFences (rt_collate rt) (db_fences (rt_other rt 0 db)) (op_RepoID opr) = Inr listed"
    using assms unfolding Purge_ExecuteOperationRecovery_def Let_def by (auto split: if_splits sum.splits)
  obtain repo where repo: "GetRepoInNamespace (op_NamespaceID opr) (op_RepoID opr) ?dbr = Inr repo"
    using assms unfolding Purge_ExecuteOperationRecovery_def Let_def listed by (auto simp: w split: if_splits sum.splits)
  have guards: "repo_Status repo = RepoStatusTombstoned \<and> validatePurgePolicy opr repo \<and> repo_UpdatedAt repo < op_CreatedAt opr \<and>
      validateRepoLifecycleLeasedRecord opr (rx_owner executor) \<and>
      (\<exists>fenceID dbf. purge_fenced rt inspect purge executor opr (executor_time executor) repo fenceID dbf w = ((db', w'), res))"
    using assms unfolding Purge_ExecuteOperationRecovery_def Let_def listed repo
    by (auto simp: w split: if_splits sum.splits option.splits)
  with repo that show ?thesis by blast
qed

lemma storagePaths_container:
  assumes "storagePaths executor repo = Some paths"
  shows "map_of (rx_volumeRoots executor) (repo_VolumeID repo) = Some (sp_VolumeRootPath paths)"
    and "sp_ContainerRootPath paths =
      sp_VolumeRootPath paths @ ''/afscp/namespaces/'' @ repo_NamespaceID repo @ ''/repos/'' @ repo_ID repo"
proof -
  obtain vroot resolved where v: "map_of (rx_volumeRoots executor) (repo_VolumeID repo) = Some vroot"
    and r: "ResolveRepoRootPaths vroot (repo_NamespaceID repo) (repo_ID repo) = Inr resolved"
    and p: "sp_VolumeRootPath paths = vroot" "sp_ContainerRootPath paths = filepath_Join2 vroot (ContainerVolumeSubdir resolved)"
    using assms by (auto simp: storagePaths_def Let_def split: option.splits sum.splits if_splits)
  show "map_of (rx_volumeRoots executor) (repo_VolumeID repo) = Some (sp_VolumeRootPath paths)" using v p(1) by simp
  let ?ss = "container_segs (repo_NamespaceID repo) ''repos'' (repo_ID repo)"
  have trusted: "validateTrustedVolumeRoot vroot = None" and segs: "list_all plain_seg ?ss"
    and sub: "ContainerVolumeSubdir resolved = join_with ''/'' ?ss"
    using r unfolding ResolveRepoRootPaths_concat
    by (auto simp: ResolveRepoPaths_eq RepoPaths.defs intro: container_segs_plain dest: valid_id_plain split: option.splits sum.splits)
  have "filepath_Join2 vroot (join_with ''/'' ?ss) = vroot @ ''/'' @ join_with ''/'' ?ss"
    by (rule join_below_root [OF trusted segs]) (simp add: container_segs_def)
  then show "sp_ContainerRootPath paths =
      sp_VolumeRootPath paths @ ''/afscp/namespaces/'' @ repo_NamespaceID repo @ ''/repos/'' @ repo_ID repo"
    unfolding p sub container_segs_join(1) by simp
qed

lemma policy_parts:
  assumes "validatePurgePolicy opr repo"
  obtains expires snapshot where "rl_RetentionExpiresAt (repo_Lifecycle repo) = Some expires"
    "lookup_key (op_InputSummary opr) ''lifecycle_policy_snapshot'' = Some (AnyMap snapshot)"
    "lookup_key (op_InputSummary opr) ''product_confirmation_present'' = Some (AnyBool True)"
    "expires \<le> op_CreatedAt opr \<or>
      map_of snapshot ''break_glass_enabled'' = Some (AnyBool True) \<and> map_of snapshot ''break_glass_authorized'' = Some (AnyBool True) \<and>
      map_of snapshot ''operator_approval_present'' = Some (AnyBool True)"
  using assms unfolding validatePurgePolicy_def by (auto split: option.splits go_any.splits)


section \<open>Example runs\<close>

text \<open>A tombstoned repo is purged after its retention; another repo lies beside it. The world of the example
  is the list of the paths that exist.\<close>

definition example_purge_op :: OperationRecord where
  "example_purge_op =
     \<lparr>op_ID = ''op_p1'', op_Type = OperationRepoPurge, op_State = OperationStateRunning, op_Phase = ''validate_repo_lifecycle'', op_Attempt = 1,
      op_LeaseOwner = ''w1'', op_LeaseExpiresAt = Some 300, op_IdempotencyScope = ''scope'',
      op_IdempotencyKey = ''k1'', op_RequestHash = ''h1'', op_CorrelationID = ''c1'', op_CallerService = ''svc'',
      op_AuthorizedActor = \<lparr>actor_Type = ''user'', actor_ID = ''u1''\<rparr>, op_Resource = \<lparr>resource_Type = ''repo'', resource_ID = ''repo_r1''\<rparr>,
      op_NamespaceID = ''ns_aa'', op_RepoID = ''repo_r1'', op_TemplateID = [], op_ExportID = [], op_MountBindingID = [],
      op_SessionFenceID = [], op_ExternalResourceIDs = Some [],
      op_InputSummary = Some [(''lifecycle_policy_snapshot'', AnyMap []), (''product_confirmation_present'', AnyBool True)], op_JVSJSONOutput = AnyNil,
      op_VerificationResult = AnyNil, op_CompensationStatus = [], op_Error = None, op_Redaction = no_report,
      op_CreatedAt = 100, op_StartedAt = Some 110, op_FinishedAt = None\<rparr>"

definition example_purge_fence :: Fence where
  "example_purge_fence = lifecycle_fence_of example_purge_op 120"

definition example_volume :: Volume where
  "example_volume =
     \<lparr>vol_ID = ''vol_v1'', vol_Backend = VolumeBackendJuiceFS, vol_IsolationClass = VolumeIsolationShared, vol_Status = VolumeStatusActive,
      vol_Capabilities = Some [(''webdav_export'', AnyBool True), (''workload_mount'', AnyBool True),
        (''jvs_external_control_root'', AnyBool True), (''directory_quota'', AnyBool True)], vol_CreatedAt = 1, vol_UpdatedAt = 1\<rparr>"

definition example_purge_db :: session_db where
  "example_purge_db =
     \<lparr>db_operations = [], db_outbox = [], db_fences = [example_purge_fence], db_repo_ids = [''repo_r1''],
      db_namespaces = [example_namespace], db_bindings = [example_binding], db_repos = [example_repo ''ns_aa''],
      db_volumes = [example_volume],
      db_mounts = [], db_exports = [], db_requests = [], db_restore_runs = []\<rparr>"

definition example_runtime :: exec_runtime where
  "example_runtime =
     \<lparr>rt_other = (\<lambda>n db. db), rt_marshal = (\<lambda>event. Inr ''{}''), rt_collate = length,
      rt_doctor = (\<lambda>target. Inr \<lparr>dd_RepoID = ''jvs1'', dd_Healthy = True, dd_FindingCount = 0, dd_Findings = [],
        dd_MetadataState = ''ready'', dd_Journal = ''clean'', dd_Recovery = ''none''\<rparr>),
      rt_auditEventID = ''evt_1''\<rparr>"

definition example_repo_executor :: RepoExecutor where
  "example_repo_executor = \<lparr>rx_owner = ''w1'', rx_now = 200, rx_clock = None, rx_volumeRoots = [(''vol_v1'', ''/v'')]\<rparr>"

definition example_purge_plan :: RecoveryPlan where
  "example_purge_plan = \<lparr>plan_Action = RecoveryActionReclaim, plan_Reason = []\<rparr>"

definition example_lstat :: "string list \<Rightarrow> string \<Rightarrow> lstat_result" where
  "example_lstat w path = (if list_ex (\<lambda>q. q = path \<or> strictly_below q path) w then LstatInfo False else LstatNotExist)"

definition example_remove :: "string \<Rightarrow> string list \<Rightarrow> string list \<times> bool" where
  "example_remove path w = (filter (\<lambda>q. \<not> (q = path \<or> strictly_below q path)) w, True)"

definition example_world :: "string list" where
  "example_world = [''/v/afscp/namespaces/ns_aa/repos/repo_r1/control'', ''/v/afscp/namespaces/ns_aa/repos/repo_r1/payload'',
     ''/v/afscp/namespaces/ns_aa/repos/repo_r2/control'']"

definition example_paths_r1 :: RepoStoragePaths where
  "example_paths_r1 = \<lparr>sp_VolumeRootPath = ''/v'', sp_ContainerRootPath = ''/v/afscp/namespaces/ns_aa/repos/repo_r1'',
     sp_ControlRootPath = ''/v/afscp/namespaces/ns_aa/repos/repo_r1/control'', sp_PayloadRootPath = ''/v/afscp/namespaces/ns_aa/repos/repo_r1/payload''\<rparr>"

lemma example_purge_steps:
  "support_Supported (Purge_Supports example_purge_op example_purge_plan)"
  "validateRepoLifecycleLeasedRecord example_purge_op ''w1''"
  "ListHeldRepoFences length [example_purge_fence] ''repo_r1'' = Inr [example_purge_fence]"
  "sameOperationHeldFence example_purge_op [example_purge_fence] = Some example_purge_fence"
  "fence_Status example_purge_fence = StatusActive"
  "GetRepoInNamespace ''ns_aa'' ''repo_r1'' example_purge_db = Inr (example_repo ''ns_aa'')"
  "validatePurgePolicy example_purge_op (example_repo ''ns_aa'')"
  "ListEarlierNonTerminalRepoLifecycleOperations ''repo_r1'' ''op_p1'' 100 (op_db.truncate example_purge_db) = Inr []"
  "storagePaths example_repo_executor (example_repo ''ns_aa'') = Some example_paths_r1"
  by code_simp+

lemma example_volume_valid: "Volume_Validate example_volume = None"
proof -
  have keys: "\<not> sensitive_key ''webdav_export''" "\<not> sensitive_key ''workload_mount''" "\<not> sensitive_key ''directory_quota''"
    "\<not> sensitive_key ''jvs_external_control_root''"
    by (simp_all add: sensitive_key_def forbidden_words_def lower_runes_def byte_def to_lower_rune_def)
  have "validateVolumeCapabilities (vol_Capabilities example_volume) = None" "validateObject (vol_Capabilities example_volume) = None"
    "validateTimestamps (vol_CreatedAt example_volume) (vol_UpdatedAt example_volume) = None" by code_simp+
  with keys show ?thesis
    by (simp add: Volume_Validate_def) (simp add: example_volume_def example_resource_ids)
qed

lemma example_metadata:
  assumes "db_namespaces db = [example_namespace]" "db_bindings db = [example_binding]" "db_volumes db = [example_volume]"
    and "repo_NamespaceID repo = ''ns_aa''" "repo_VolumeID repo = ''vol_v1''"
  shows "validateMetadata repo db db db"
proof -
  have n: "Namespace_Validate example_namespace = None" by code_simp
  have "GetNamespace ''ns_aa'' db = Inr example_namespace"
    by (simp add: GetNamespace_def scan_resource_def n assms) (simp add: example_namespace_def)
  moreover have "GetNamespaceVolumeBinding ''ns_aa'' db = Inr example_binding"
    by (simp add: GetNamespaceVolumeBinding_def scan_resource_def example_binding_valid assms) (simp add: example_binding_def)
  moreover have "GetVolume ''vol_v1'' db = Inr example_volume"
    by (simp add: GetVolume_def scan_resource_def example_volume_valid assms) (simp add: example_volume_def)
  ultimately show ?thesis
    unfolding validateMetadata_def using assms(4,5)
    by (simp add: example_namespace_def example_binding_def example_volume_def json_flag_def lookup_key_def)
qed

lemma example_purge_metadata: "validateMetadata (example_repo ''ns_aa'') example_purge_db example_purge_db example_purge_db"
  by (rule example_metadata) (simp_all add: example_purge_db_def example_repo_def)

lemma example_purge_gate:
  "lifecycleDrainDecision example_purge_op 200 example_purge_db example_purge_db = Some session_allow" "gd_Allowed session_allow"
  by code_simp+

lemma example_purge_world:
  "InspectRepoStorage (example_lstat example_world) example_paths_r1 = Some RepoStoragePresent"
  "PurgeRepoStorage example_lstat example_remove example_paths_r1 example_world = ([''/v/afscp/namespaces/ns_aa/repos/repo_r2/control''], True)"
  by code_simp+

lemma example_purge_doctor:
  "case rt_doctor example_runtime target of Inl err \<Rightarrow> False | Inr doctor \<Rightarrow> directDoctorAllowsMutation doctor \<and> dd_RepoID doctor = ''jvs1''"
  by code_simp

lemma example_purge_run:
  "snd (fst (Purge_ExecuteOperationRecovery example_runtime (\<lambda>w paths. InspectRepoStorage (example_lstat w) paths)
     (PurgeRepoStorage example_lstat example_remove) example_repo_executor example_purge_op example_purge_plan example_purge_db example_world)) =
   [''/v/afscp/namespaces/ns_aa/repos/repo_r2/control'']"
proof -
  let ?in = "\<lambda>w paths. InspectRepoStorage (example_lstat w) paths"
  have rt: "rt_other example_runtime n db = db" "rt_collate example_runtime = length" for n db by (simp_all add: example_runtime_def)
  have ex: "executor_time example_repo_executor = 200" "rx_owner example_repo_executor = ''w1''" by (simp_all add: executor_time_def example_repo_executor_def)
  have op: "op_NamespaceID example_purge_op = ''ns_aa''" "op_RepoID example_purge_op = ''repo_r1''" "op_ID example_purge_op = ''op_p1''"
    "op_CreatedAt example_purge_op = 100" by (simp_all add: example_purge_op_def)
  have rp: "repo_Status (example_repo ''ns_aa'') = RepoStatusTombstoned" "repo_UpdatedAt (example_repo ''ns_aa'') = 2"
    "repo_JVSRepoID (example_repo ''ns_aa'') = ''jvs1''" by (simp_all add: example_repo_def)
  have fences: "db_fences example_purge_db = [example_purge_fence]" by (simp add: example_purge_db_def)
  have confirmed: "snd (fst (purge_confirmed example_runtime ?in (PurgeRepoStorage example_lstat example_remove) example_repo_executor example_purge_op
      200 example_paths_r1 commit example_purge_db example_world)) = [''/v/afscp/namespaces/ns_aa/repos/repo_r2/control'']" for commit
    by (simp add: purge_confirmed_def example_purge_world in_world_def)
  obtain doctor where "rt_doctor example_runtime \<lparr>dt_ControlRoot = sp_ControlRootPath example_paths_r1, dt_Home = sp_PayloadRootPath example_paths_r1\<rparr> = Inr doctor"
    "directDoctorAllowsMutation doctor" "dd_RepoID doctor = ''jvs1''"
    using example_purge_doctor by (force split: sum.splits)
  then have "snd (fst (purge_storage example_runtime ?in (PurgeRepoStorage example_lstat example_remove) example_repo_executor example_purge_op
      200 (example_repo ''ns_aa'') fenceID example_purge_db example_world)) = [''/v/afscp/namespaces/ns_aa/repos/repo_r2/control'']" for fenceID
    by (simp add: purge_storage_def rt example_purge_steps example_purge_world example_purge_metadata confirmed rp Let_def)
  then show ?thesis
    by (simp add: Purge_ExecuteOperationRecovery_def purge_fenced_def rt ex op rp fences example_purge_steps example_purge_gate is_zero_def)
qed


text \<open>An active repo is archived.\<close>

definition example_active_repo :: Repo where
  "example_active_repo = set_lifecycle RepoStatusActive None RepoStatusEmpty (example_repo ''ns_aa'')"

definition example_archive_op :: OperationRecord where
  "example_archive_op = example_purge_op\<lparr>op_ID := ''op_a1'', op_Type := OperationRepoArchive, op_InputSummary := Some []\<rparr>"

definition example_archived_repo :: Repo where
  "example_archived_repo = set_lifecycle RepoStatusArchived None RepoStatusEmpty
     (example_active_repo\<lparr>repo_Lifecycle := (repo_Lifecycle example_active_repo)\<lparr>rl_LastLifecycleOperationID := ''op_a1''\<rparr>, repo_UpdatedAt := 200\<rparr>)"

definition example_archive_row :: operation_row where
  "example_archive_row =
     \<lparr>row_operation_id = ''op_a1'', row_operation_type = OperationRepoArchive, row_operation_state = OperationStateRunning,
      row_phase = ''validate_repo_lifecycle'', row_attempt = 1, row_lease_owner = Some ''w1'', row_lease_expires_at = Some 300,
      row_idempotency_scope = ''scope'', row_idempotency_key = ''k1'',
      row_request_hash = ''h1'', row_correlation_id = ''c1'', row_caller_service = ''svc'',
      row_authorized_actor_type = ''user'', row_authorized_actor_id = ''u1'', row_resource_type = ''repo'',
      row_resource_id = ''repo_r1'', row_namespace_id = ''ns_aa'', row_repo_id = Some ''repo_r1'', row_template_id = None,
      row_export_id = None, row_mount_binding_id = None, row_session_fence_id = None,
      row_external_resource_ids = JObject [], row_input_summary = JObject [], row_jvs_json_output = None,
      row_verification_result = None, row_compensation_status = None, row_error_json = Some JNull,
      row_created_at = 100, row_started_at = Some 110, row_finished_at = None, row_updated_at = 110\<rparr>"

definition example_archive_db :: session_db where
  "example_archive_db = example_purge_db\<lparr>db_operations := [example_archive_row],
     db_fences := [lifecycle_fence_of example_archive_op 120], db_repos := [example_active_repo]\<rparr>"

lemma example_archive_checked:
  "find_repo (op_RepoID example_archive_op) example_archive_db = Some example_active_repo"
  "repo_NamespaceID example_active_repo = op_NamespaceID example_archive_op"
  "repoLifecycleSourceMatches (op_Type example_archive_op) (repo_Status example_active_repo)"
  "repoLifecycleTarget example_active_repo example_archive_op 200 = Some example_archived_repo"
  "lifecycleDrainDecision example_archive_op 200 example_archive_db example_archive_db = Some session_allow" "gd_Allowed session_allow"
  "lifecycle_fence_of example_archive_op 120 \<in> set (db_fences example_archive_db)"
  "lifecycle_fence (op_RepoID example_archive_op) ''fence_op_a1'' (trim_space (op_ID example_archive_op)) (lifecycle_fence_of example_archive_op 120)"
  "stored_lifecycle_predicate example_archive_op lifecycle_types example_archive_row"
  "row_operation_type example_archive_row = op_Type example_archive_op" "row_created_at example_archive_row = op_CreatedAt example_archive_op"
  by code_simp+

lemma example_archive_metadata: "validateMetadata example_active_repo example_archive_db example_archive_db example_archive_db"
  by (rule example_metadata)
    (simp_all add: example_archive_db_def example_purge_db_def example_active_repo_def set_lifecycle_def example_repo_def)


lemma example_archive_statement:
  "repoLifecycleSuccessCommitWithLeaseSQL example_archived_repo example_archive_op ''fence_op_a1'' example_archive_row example_archive_db"
proof -
  have "lifecycle_target_ready example_archived_repo example_archive_db"
    using metadata_ready [OF example_archive_metadata]
    by (simp add: lifecycle_target_ready_def example_archived_repo_def set_lifecycle_def)
  moreover have "list_ex (lifecycle_fence (op_RepoID example_archive_op) ''fence_op_a1'' (trim_space (op_ID example_archive_op))) (db_fences example_archive_db)"
    "no_sessions (op_RepoID example_archive_op) example_archive_db"
    "case find_repo (repo_ID example_archived_repo) example_archive_db of None \<Rightarrow> False
      | Some old \<Rightarrow> same_repo example_archived_repo old \<and>
          lifecycle_transition (row_operation_type example_archive_row) (row_created_at example_archive_row) old example_archived_repo"
    by code_simp+
  ultimately show ?thesis using example_archive_checked(9) unfolding repoLifecycleSuccessCommitWithLeaseSQL_def by blast
qed

definition example_archived_op :: OperationRecord where
  "example_archived_op = example_archive_op\<lparr>op_State := OperationStateSucceeded, op_Phase := ''repo_lifecycle_committed'', op_FinishedAt := Some 200\<rparr>"

definition example_archive_event :: AuditEvent where
  "example_archive_event =
     \<lparr>ev_EventID = ''evt_1'', ev_Type = EventTypeRepoArchive, ev_Time = 200, ev_CallerService = ''svc'',
       ev_AuthorizedActor = \<lparr>actor_Type = ''user'', actor_ID = ''u1''\<rparr>, ev_CorrelationID = ''c1'', ev_OperationID = ''op_a1'',
       ev_Resource = \<lparr>ares_Type = ''repo'', ares_ID = ''repo_r1'', ares_NamespaceID = ''ns_aa'', ares_Path = []\<rparr>,
       ev_Outcome = OutcomeSucceeded, ev_Reason = [], ev_Details = None\<rparr>"

lemma example_archive_sanitized:
  obtains rep where "Record (SanitizedForPersistence example_archived_op) = example_archived_op\<lparr>op_Redaction := rep\<rparr>"
proof -
  have s: "\<exists>rep'. Sanitized (example_archived_op\<lparr>op_Redaction := rep\<rparr>) = example_archived_op\<lparr>op_Redaction := rep\<rparr>\<lparr>op_Redaction := rep'\<rparr>" for rep
    by (rule Sanitized_plain) (simp_all add: example_archived_op_def example_archive_op_def example_purge_op_def)
  obtain rep where s1: "Sanitized example_archived_op = example_archived_op\<lparr>op_Redaction := rep\<rparr>"
    using s [of no_report] by (auto simp: example_archived_op_def example_archive_op_def example_purge_op_def)
  obtain rep' where s2: "Sanitized (example_archived_op\<lparr>op_Redaction := rep\<rparr>) = example_archived_op\<lparr>op_Redaction := rep'\<rparr>" using s [of rep] by auto
  show ?thesis by (rule that [of rep']) (simp add: Record_def SanitizedForPersistence_def s1 s2)
qed

lemma example_archive_args:
  "\<exists>args. operationLeaseFencedUpdateArgs (example_archived_op\<lparr>op_Redaction := rep\<rparr>) ''w1'' 200 = Inr args \<and> fa_operationID args = ''op_a1'' \<and>
     fenced_cond args example_archive_row \<and> row_error (operationLeaseFencedUpdateBaseSQL args example_archive_row) = None \<and>
     row_operation_id (operationLeaseFencedUpdateBaseSQL args example_archive_row) = ''op_a1'' \<and>
     (\<exists>got. scanOperation (operationLeaseFencedUpdateBaseSQL args example_archive_row) = Inr got)"
  by (simp add: example_archived_op_def example_archive_op_def example_purge_op_def operationLeaseFencedUpdateArgs_def check_def is_zero_def
      trim_space_id is_space_byte_def byte_def
      marshal_columns_def marshalObject_def marshalNullableJSON_def string_map_value_def
      map_value_def any_interface_def error_value_def json_marshal.simps [of "AnyStringMap []"] json_marshal.simps [of "AnyMap []"]
      json_marshal.simps [of AnyNil] json_object_def nullableStringArg_def operationLeaseFencedUpdateBaseSQL_def Let_def
      scanOperation_def unmarshal_string_map_def unmarshal_map_def unmarshal_error_def
      row_error_def operation_checks_def storable_row_def OperationTypes_def max_int32_def fenced_cond_def ptr_after_def
      example_archive_row_def)

lemma example_archive_run:
  "\<exists>db' got. CommitRepoLifecycleSucceededWithLease (\<lambda>event. Inr ''{}'') example_archived_repo (SanitizedForPersistence example_archived_op)
     ''w1'' 200 example_archive_event ''fence_op_a1'' example_archive_db = (db', Inr (example_archived_repo, got))"
proof -
  obtain rep where r: "Record (SanitizedForPersistence example_archived_op) = example_archived_op\<lparr>op_Redaction := rep\<rparr>"
    by (rule example_archive_sanitized)
  let ?op = "example_archived_op\<lparr>op_Redaction := rep\<rparr>"
  let ?orow = "\<lparr>ob_EventID = ''evt_1'', ob_EventType = EventTypeRepoArchive, ob_EventTime = 200, ob_PayloadJSON = ''{}'',
    ob_Status = OutboxStatusPending, ob_DeliveryAttempt = 0, ob_NextRetryAt = None, ob_LastError = [], ob_CreatedAt = 200,
    ob_UpdatedAt = 200, ob_DeliveredAt = None\<rparr>"
  obtain args got where a: "operationLeaseFencedUpdateArgs ?op ''w1'' 200 = Inr args" "fa_operationID args = ''op_a1''"
    "fenced_cond args example_archive_row" "row_error (operationLeaseFencedUpdateBaseSQL args example_archive_row) = None"
    "row_operation_id (operationLeaseFencedUpdateBaseSQL args example_archive_row) = ''op_a1''"
    "scanOperation (operationLeaseFencedUpdateBaseSQL args example_archive_row) = Inr got"
    using example_archive_args [of rep] by blast
  have valid: "Repo_Validate example_archived_repo = None" by code_simp
  have ids: "trim_space ''op_a1'' = ''op_a1''" "trim_space ''fence_op_a1'' = ''fence_op_a1''" "op_ID ?op = ''op_a1''"
    by (simp_all add: trim_space_id is_space_byte_def byte_def example_archived_op_def example_archive_op_def)
  have "validateRepoLifecycleSuccessRecord example_archived_repo ?op = None"
    by (simp add: validateRepoLifecycleSuccessRecord_def repoLifecycleOperationTypeSupported_def lifecycle_types_def example_archived_op_def
        example_archive_op_def example_purge_op_def example_archived_repo_def example_active_repo_def set_lifecycle_def example_repo_def)
  moreover have "validateRepoLifecycleAuditEvent (repo_NamespaceID example_archived_repo) (repo_ID example_archived_repo) ?op example_archive_event OutcomeSucceeded = None"
    by (simp add: validateRepoLifecycleAuditEvent_def example_archived_op_def example_archive_op_def example_purge_op_def example_archive_event_def
        example_archived_repo_def example_active_repo_def set_lifecycle_def example_repo_def EventTypeForOperationType_def operationEventTypes_def)
  moreover have cond: "repoLifecycleSuccessCommitWithLeaseSQL example_archived_repo ?op ''fence_op_a1'' example_archive_row example_archive_db"
    using example_archive_statement by (simp add: repoLifecycleSuccessCommitWithLeaseSQL_def stored_lifecycle_predicate_def example_archived_op_def)
  moreover have "unmarshal_object ''{}'' = ObjectValue" by code_simp
  then have "NewOutboxRecord (\<lambda>event. Inr ''{}'') example_archive_event 200 = Inr ?orow" "row_checks ?orow"
    by (simp_all add: NewOutboxRecord_def example_archive_event_def is_zero_def row_checks_def max_int32_def trim_space_id is_space_byte_def byte_def)
  moreover obtain db1 where "move_repo example_archived_repo ''fence_op_a1'' ''op_a1'' 200 (operationLeaseFencedUpdateBaseSQL args example_archive_row)
      example_archive_db = Inr (Some (db1, example_archived_repo))"
    using cond by (auto simp: repoLifecycleSuccessCommitWithLeaseSQL_def move_repo_def moved_repo_same split: option.splits)
  moreover have "update_returning ''op_a1'' (\<lambda>r. fenced_cond args r \<and> repoLifecycleSuccessCommitWithLeaseSQL example_archived_repo ?op ''fence_op_a1'' r example_archive_db)
      (operationLeaseFencedUpdateBaseSQL args) (db_operations example_archive_db) =
      Inr ([operationLeaseFencedUpdateBaseSQL args example_archive_row], operationLeaseFencedUpdateBaseSQL args example_archive_row)"
    using a cond by (simp add: update_returning_def example_archive_db_def write_row_def) (simp add: example_archive_row_def)
  moreover have "db_outbox example_archive_db = []" by (simp add: example_archive_db_def example_purge_db_def)
  ultimately show ?thesis
    using a valid ids
    by (simp add: CommitRepoLifecycleSucceededWithLease_def r Let_def check_def repo_commit_def fenced_commit_def insert_row_def)
qed


end
