(* ===== verification/Spec2Isabelle.thy ===== *)
theory Spec2Isabelle
  imports Leases Path_Resolver Fences Session_State Resources Repo_Access Recovery_Planner
    Redaction Audit_Events Api_Errors Auth_Gate Operation_Exec Worker Audit_Outbox Recovery_Passes
    Session_Safety Export_Reconcile Lifecycle_Safety
begin

text \<open>
  \<^bold>\<open>A verification development for the AFSCP storage control plane.\<close>

  The program keeps the records of a multi-tenant file storage service. Namespaces own repos
  on volumes; clients reach the payload of a repo through WebDAV export sessions and through
  workload mounts; JVS, a versioning tool, keeps its history. An API server admits requests
  and records them as operations in PostgreSQL. Workers take leases on operations, execute
  them (create, save, restore, archive, delete, purge, ...) and commit the outcome with an audit
  row in one statement. Gateways serve exports and report their requests in a ledger.
  Fences on repos keep lifecycle work, restores and writers apart, and session gates tell
  when a repo is quiet. Passes of the worker recover what a crash left behind and
  deliver the audit rows.

  \<^bold>\<open>Theories and sources\<close> (paths below \<open>src/internal\<close> unless noted).
  \<^item> \<open>Prelude\<close>: integers of fixed width, times, strings as byte lists, JSON-like values, the
    style of checks that return the first error, lemmas on lists and options.
  \<^item> \<open>Operations\<close>, \<open>Leases\<close>: \<open>operations/state.go\<close>, \<open>types.go\<close>, \<open>lease.go\<close>, \<open>jvs_mutation_gate.go\<close>. The state
    machine of operations and the lease functions, with an abstract lease cell that
    they refine; a lease is never stolen before its deadline and terminal states are final.
  \<^item> \<open>Path_Resolver\<close>: \<open>pathresolver/\<close>. Identifiers, storage directories, caller paths and traversal
    plans; directories of different repos are disjoint and accepted caller paths cannot escape.
  \<^item> \<open>Resources\<close>: \<open>resources/\<close>. Stored records and their validation.
  \<^item> \<open>Fences\<close>: \<open>fences/\<close>, \<open>store/postgres/repo_fences.go\<close>. The fence table and the acquisition decision;
    mutual exclusion under every interleaving.
  \<^item> \<open>Session_State\<close>: \<open>sessionstate/\<close>. The restore and lifecycle gates.
  \<^item> \<open>Repo_Access\<close>: \<open>repoaccess/\<close>. Admission of requests; what is admitted can acquire its fence.
  \<^item> \<open>Recovery_Planner\<close>: \<open>inspection/\<close>. Recovery plans agree with the lease functions.
  \<^item> \<open>Regexp\<close>, \<open>Redaction\<close>, \<open>Audit_Events\<close>: \<open>observability/redaction.go\<close>, \<open>projectionguard/\<close>,
    \<open>operations/redaction.go\<close>, \<open>audit/event.go\<close>. Redaction with the regular expressions of the source
    (a backtracking matcher over byte lists); no unmarked sensitive key survives at any depth.
  \<^item> \<open>Api_Errors\<close>, \<open>Authorization\<close>, \<open>Auth_Gate\<close>: \<open>api/error.go\<close>, \<open>routes.go\<close>, \<open>auth_gate.go\<close>, \<open>audit.go\<close>, the
    caller policies, \<open>operation_handler.go\<close>, \<open>auth/\<close>, \<open>namespaceauth/\<close>, \<open>operationinspect/\<close>. Exact
    characterisation of the gate, tenant isolation, confinement of inspection.
  \<^item> \<open>Operation_Exec\<close>, \<open>Worker\<close>: \<open>operationexec/\<close>, \<open>worker/run_once.go\<close>. Dispatch with a committer that
    commits at most once; one pass over the runners.
  \<^item> \<open>Json_Check\<close>, \<open>Audit_Outbox\<close>: \<open>audit/outbox.go\<close>, \<open>store/postgres/audit_outbox.go\<close>, \<open>auditdelivery/\<close>. The
    outbox statements refine the record transitions; attempts are bounded.
  \<^item> \<open>Operation_Rows\<close>, \<open>Operation_Store\<close>, \<open>Operation_Table\<close>, \<open>Operation_Runs\<close>:
    \<open>store/postgres/operations.go\<close>, \<open>operations/idempotency.go\<close>, the constraints of \<open>src/migrations\<close>. Rows
    and records, every statement on the table, equality of the lease statements with the lease
    functions, runs of all statements: exclusive work on a repo, idempotent intake, atomic commits.
  \<^item> \<open>Recovery_Coordinator\<close>, \<open>Recovery_Passes\<close>: \<open>recovery/operation.go\<close> over the operations table.
  \<^item> \<open>Digests\<close>: SHA-256, hexadecimal and base64 of the standard library.
  \<^item> \<open>Session_Records\<close>, \<open>Export_Store\<close>: \<open>exportaccess/\<close>, \<open>workloadmount/workloadmount.go\<close>,
    \<open>store/postgres/export_sessions.go\<close>, \<open>session_state.go\<close>. Sessions, password verifiers and the request ledger.
  \<^item> \<open>Typed_Commits\<close>, \<open>Mount_Store\<close>, \<open>Namespace_Store\<close>: the lease-fenced commit of an operation together with
    a resource; \<open>store/postgres/workload_mount_bindings.go\<close>, \<open>workloadmount/reconcile.go\<close>, \<open>namespace_operations.go\<close>.
  \<^item> \<open>Session_Runs\<close>, \<open>Session_Safety\<close>: runs of all statements on sessions, requests, mounts and namespaces;
    the counters are exact, stale requests are drained, a gated restore is alone.
  \<^item> \<open>Export_Reconcile\<close>: \<open>exportreconcile/reconcile.go\<close>, the worker that closes sessions.
  \<^item> \<open>Lifecycle_Store\<close>, \<open>Lifecycle_Exec\<close>, \<open>Lifecycle_Safety\<close>: \<open>store/postgres/repo_lifecycle_operations.go\<close>,
    \<open>repo_purge_operations.go\<close>, readers of \<open>resources.go\<close>, \<open>repoexec/lifecycle_executor.go\<close>, \<open>purge_executor.go\<close>.
    Commits make only legal moves of a repo under its fence, and only the storage of a
    tombstoned repo with expired retention or an authorised override is removed.

  \<^bold>\<open>How the code is modelled.\<close> Structs are records with the names of the source and a prefix,
  string enumerations are datatypes with a constructor for other texts, errors are
  values, interfaces are parameters, a store is a value of the database that operations take
  and return. A statement is atomic: the parts of a \<open>WITH\<close> see the same rows, and it fails
  without effect or makes all its changes. Rows skipped because others hold their lock are a
  parameter. Tables are lists of rows with the constraints of the migrations; texts are
  compared as byte lists (the collation order is a parameter where it matters). Times and durations are
  integers in nanoseconds, zero being the zero time; counters and attempts are bounded as in
  the columns. \<open>json.Marshal\<close> of audit events, the JVS diagnosis, the file system, clocks and
  identifiers are parameters. Where several calls of the store belong to one execution,
  the changes of other processes between them are a parameter (\<open>Lifecycle_Exec\<close>, \<open>Export_Reconcile\<close>) or the
  call sees one state of the store (the inspection and authorisation requests). The
  goroutine that renews a lease is a loop over the events it sees. No definition uses fuel: loops
  are recursions over lists or have termination proofs.

  \<^bold>\<open>Interfaces.\<close> Locales state what clients rely on: the lease contract, the fence table, the
  intake of operations, acquisition of leases, the committer and the storage purger; each is interpreted on the
  definitions of the code, and the properties use the facts of these interpretations.

  \<^bold>\<open>Not modelled.\<close> HTTP plumbing and the handlers that only assemble operations (\<open>api\<close> other than the
  parts above, \<open>apiapp\<close>), the WebDAV gateway (\<open>exportgateway\<close>), process start and
  configuration (\<open>src/cmd\<close>, \<open>config\<close>, \<open>workerapp\<close> other than its stores), the JVS command runner,
  logging, release and contract checking tools, migrations as such, and the typed
  commits and executors of repo creation, restore, save points, templates, volumes and bindings, which
  follow the pattern of \<open>Typed_Commits\<close> and \<open>Lifecycle_Exec\<close>; their lease, fence and gate rules are those proved
  here.
\<close>

end
